(* ===== verification/Prelude.thy ===== *)
theory Prelude
  imports Main "HOL-Library.List_Lexorder" "HOL-Library.Char_ord"
begin

text \<open>
  Vocabulary shared by every component: the types of identifiers and instants, results with
  errors as values, loops with an early exit, and tables as lists of rows with the three SQL
  operations the repositories issue (find the first matching row, update the matching rows,
  sum a column). The lemmas here are the ones the component proofs apply over and over.
\<close>

section \<open>Identifiers, instants and collections of facts\<close>

text \<open>
  A database id (a uuid) and a token are their text; an instant is milliseconds since the
  epoch, as \<open>Date.now()\<close> gives it.
\<close>

type_synonym id = string
type_synonym time_ms = int

named_theorems res_simps \<open>inversion of results: what a successful or failing call went through\<close>
named_theorems table_simps \<open>tables as lists of rows\<close>

section \<open>Results\<close>

text \<open>
  A call returns \<open>Inr\<close> of its value or throws \<open>Inl\<close> of the error. A transaction
  that throws leaves no trace in the database, so a transactional operation on state
  \<open>'s\<close> is a function to \<open>'e + 's\<close>: the state is lost with the error.
\<close>

fun bindR :: "'e + 'a \<Rightarrow> ('a \<Rightarrow> 'e + 'b) \<Rightarrow> 'e + 'b" where
  "bindR (Inl e) f = Inl e"
| "bindR (Inr x) f = f x"

definition guardR :: "bool \<Rightarrow> 'e \<Rightarrow> 'e + unit" where
  "guardR b e = (if b then Inr () else Inl e)"

definition optR :: "'a option \<Rightarrow> 'e \<Rightarrow> 'e + 'a" where
  "optR x e = (case x of None \<Rightarrow> Inl e | Some y \<Rightarrow> Inr y)"

fun forR :: "('a \<Rightarrow> 's \<Rightarrow> 'e + 's) \<Rightarrow> 'a list \<Rightarrow> 's \<Rightarrow> 'e + 's" where
  "forR f [] s = Inr s"
| "forR f (x # xs) s = bindR (f x s) (forR f xs)"

lemma bindR_Inr [res_simps]: "bindR m f = Inr y \<longleftrightarrow> (\<exists>x. m = Inr x \<and> f x = Inr y)"
  by (cases m) auto

lemma bindR_Inl [res_simps]:
  "bindR m f = Inl e \<longleftrightarrow> m = Inl e \<or> (\<exists>x. m = Inr x \<and> f x = Inl e)"
  by (cases m) auto

lemma guardR_Inr [res_simps]: "guardR b e = Inr u \<longleftrightarrow> b"
  by (simp add: guardR_def)

lemma guardR_Inl [res_simps]: "guardR b e = Inl e' \<longleftrightarrow> \<not> b \<and> e' = e"
  by (auto simp: guardR_def)

lemma guardR_simps [simp]: "guardR True e = Inr ()" "guardR False e = Inl e"
  by (simp_all add: guardR_def)

lemma optR_Inr [res_simps]: "optR x e = Inr y \<longleftrightarrow> x = Some y"
  by (cases x) (auto simp: optR_def)

lemma optR_Inl [res_simps]: "optR x e = Inl e' \<longleftrightarrow> x = None \<and> e' = e"
  by (cases x) (auto simp: optR_def)

lemma optR_simps [simp]: "optR None e = Inl e" "optR (Some y) e = Inr y"
  by (simp_all add: optR_def)

lemma case_prod_Inr: "(case p of (a, b) \<Rightarrow> f a b) = Inr y \<longleftrightarrow> (\<exists>a b. p = (a, b) \<and> f a b = Inr y)"
  by (cases p) auto

lemma bindR_cong [fundef_cong]:
  "m = m' \<Longrightarrow> (\<And>x. m' = Inr x \<Longrightarrow> f x = g x) \<Longrightarrow> bindR m f = bindR m' g"
  by (cases m') auto

text \<open>A loop keeps whatever each of its iterations keeps.\<close>

lemma forR_invariant:
  assumes "forR f xs s = Inr s'" and "P s"
    and "\<And>x t t'. x \<in> set xs \<Longrightarrow> P t \<Longrightarrow> f x t = Inr t' \<Longrightarrow> P t'"
  shows "P s'"
  using assms
proof (induction xs arbitrary: s)
  case Nil
  then show ?case by simp
next
  case (Cons x xs)
  from Cons.prems(1) obtain t where t: "f x s = Inr t" "forR f xs t = Inr s'"
    by (auto simp: res_simps)
  have "P t" by (rule Cons.prems(3) [OF _ Cons.prems(2) t(1)]) simp
  show ?case
    by (rule Cons.IH [OF t(2) \<open>P t\<close>]) (use Cons.prems(3) in auto)
qed

lemma forR_append: "forR f (xs @ ys) s = bindR (forR f xs s) (forR f ys)"
proof (induction xs arbitrary: s)
  case (Cons x xs)
  then show ?case by (cases "f x s") auto
qed simp

text \<open>A loop whose iterations all succeed succeeds.\<close>

lemma forR_total:
  assumes "P s" and "\<And>x t. x \<in> set xs \<Longrightarrow> P t \<Longrightarrow> \<exists>t'. f x t = Inr t' \<and> P t'"
  shows "\<exists>s'. forR f xs s = Inr s' \<and> P s'"
  using assms
proof (induction xs arbitrary: s)
  case (Cons x xs)
  from Cons.prems(2) [of x s] Cons.prems(1) obtain t where "f x s = Inr t" "P t" by auto
  moreover have "\<exists>s'. forR f xs t = Inr s' \<and> P s'"
    by (rule Cons.IH [OF \<open>P t\<close>]) (use Cons.prems(2) in auto)
  ultimately show ?case by auto
qed auto

section \<open>Tables\<close>

text \<open>
  \<open>update \<dots> set \<dots> where \<dots>\<close> rewrites the rows that satisfy the condition and keeps
  their order; \<open>select \<dots> limit 1\<close> is \<open>find\<close>; \<open>sum\<close> over a group is the sum
  of the filtered rows.
\<close>

definition update_where :: "('r \<Rightarrow> bool) \<Rightarrow> ('r \<Rightarrow> 'r) \<Rightarrow> 'r list \<Rightarrow> 'r list" where
  "update_where p f rows = map (\<lambda>r. if p r then f r else r) rows"

definition sum_where :: "('r \<Rightarrow> bool) \<Rightarrow> ('r \<Rightarrow> int) \<Rightarrow> 'r list \<Rightarrow> int" where
  "sum_where p v rows = sum_list (map v (filter p rows))"

lemma update_where_simps [simp]:
  "update_where p f [] = []"
  "update_where p f (r # rs) = (if p r then f r else r) # update_where p f rs"
  by (simp_all add: update_where_def)

lemma length_update_where [simp]: "length (update_where p f rows) = length rows"
  by (simp add: update_where_def)

lemma set_update_where:
  "set (update_where p f rows) = f ` {r \<in> set rows. p r} \<union> {r \<in> set rows. \<not> p r}"
  by (auto simp: update_where_def)

lemma update_where_none: "(\<And>r. r \<in> set rows \<Longrightarrow> \<not> p r) \<Longrightarrow> update_where p f rows = rows"
  by (induction rows) auto

lemma map_update_where [table_simps]:
  "(\<And>r. p r \<Longrightarrow> k (f r) = k r) \<Longrightarrow> map k (update_where p f rows) = map k rows"
  by (induction rows) auto

lemma sum_where_simps [simp]:
  "sum_where p v [] = 0"
  "sum_where p v (r # rs) = (if p r then v r else 0) + sum_where p v rs"
  by (simp_all add: sum_where_def)

lemma sum_where_append [simp]:
  "sum_where p v (rs @ ts) = sum_where p v rs + sum_where p v ts"
  by (simp add: sum_where_def)

lemma sum_where_nonneg: "(\<And>r. r \<in> set rows \<Longrightarrow> 0 \<le> v r) \<Longrightarrow> 0 \<le> sum_where p v rows"
  by (induction rows) auto

lemma sum_where_cong:
  "(\<And>r. r \<in> set rows \<Longrightarrow> p r = q r) \<Longrightarrow> (\<And>r. r \<in> set rows \<Longrightarrow> q r \<Longrightarrow> v r = w r) \<Longrightarrow>
    sum_where p v rows = sum_where q w rows"
  by (induction rows) auto

lemma sum_where_update_other:
  "(\<And>r. u r \<Longrightarrow> p (f r) = p r) \<Longrightarrow> (\<And>r. u r \<Longrightarrow> v (f r) = v r) \<Longrightarrow>
    sum_where p v (update_where u f rows) = sum_where p v rows"
  by (induction rows) auto

lemma find_SomeD: "List.find p xs = Some x \<Longrightarrow> x \<in> set xs \<and> p x"
  by (induction xs) (auto split: if_splits)

lemma find_NoneD: "List.find p xs = None \<Longrightarrow> x \<in> set xs \<Longrightarrow> \<not> p x"
  by (induction xs) (auto split: if_splits)

lemma find_unique: "x \<in> set xs \<Longrightarrow> p x \<Longrightarrow> (\<And>y. y \<in> set xs \<Longrightarrow> p y \<Longrightarrow> y = x) \<Longrightarrow> List.find p xs = Some x"
proof (induction xs)
  case (Cons a xs)
  show ?case
  proof (cases "a = x")
    case True
    with Cons.prems(2) show ?thesis by simp
  next
    case False
    then have "\<not> p a" using Cons.prems(3) by auto
    moreover have "List.find p xs = Some x"
      by (rule Cons.IH) (use Cons.prems False in auto)
    ultimately show ?thesis by simp
  qed
qed simp

lemma find_update_where [table_simps]:
  "(\<And>r. q r \<Longrightarrow> p (f r) = p r) \<Longrightarrow>
    List.find p (update_where q f rows) = map_option (\<lambda>r. if q r then f r else r) (List.find p rows)"
  by (induction rows) auto

lemma find_append: "List.find p (xs @ ys) = (case List.find p xs of None \<Rightarrow> List.find p ys | Some x \<Rightarrow> Some x)"
  by (induction xs) auto

lemma find_distinct_key:
  "distinct (map k xs) \<Longrightarrow> x \<in> set xs \<Longrightarrow> List.find (\<lambda>y. k y = k x) xs = Some x"
  by (induction xs) (auto simp: image_iff)

text \<open>
  The row with a given key, in a table whose keys are distinct: an update of that row changes
  a column sum by the difference of the two values.
\<close>

lemma sum_where_update_key:
  assumes "distinct (map k rows)" and "r \<in> set rows"
  shows "sum_where p v (update_where (\<lambda>x. k x = k r) f rows)
    = sum_where p v rows - (if p r then v r else 0) + (if p (f r) then v (f r) else 0)"
  using assms
proof (induction rows)
  case (Cons a rows)
  show ?case
  proof (cases "a = r")
    case True
    with Cons.prems(1) have "update_where (\<lambda>x. k x = k r) f rows = rows"
      by (intro update_where_none) (auto simp: image_iff)
    with True show ?thesis by simp
  next
    case False
    with Cons.prems have "r \<in> set rows" "k a \<noteq> k r" by (auto simp: image_iff)
    with Cons.IH Cons.prems(1) show ?thesis by simp
  qed
qed simp

section \<open>Bounded retry\<close>

text \<open>
  A loop that repeats an attempt while it fails with a passing fault and the attempt number is
  below a limit. The program has two of them, written out each time; what they share is proved
  here once, from the equation of the loop.
\<close>

locale bounded_retry =
  fixes step :: "nat \<Rightarrow> 'e + 'a"
    and loop :: "nat \<Rightarrow> 'e + 'a"
    and passing :: "'e \<Rightarrow> bool"
    and limit :: nat
  assumes loop_eq: "loop n = (case step n of Inr x \<Rightarrow> Inr x
      | Inl e \<Rightarrow> if passing e \<and> n < limit then loop (Suc n) else Inl e)"
begin

text \<open>The loop returns what some attempt returned, and every attempt before it failed passingly.\<close>

lemma loop_from_attempt:
  "n \<le> limit \<Longrightarrow> \<exists>m\<ge>n. m \<le> limit \<and> loop n = step m
     \<and> (\<forall>k. n \<le> k \<and> k < m \<longrightarrow> (\<exists>e. step k = Inl e \<and> passing e))"
proof (induction "limit - n" arbitrary: n)
  case 0
  then have "loop n = step n" by (subst loop_eq) (auto split: sum.splits)
  with 0 show ?case by auto
next
  case (Suc j)
  show ?case
  proof (cases "\<exists>e. step n = Inl e \<and> passing e")
    case True
    then obtain e where e: "step n = Inl e" "passing e" by blast
    have "n < limit" using Suc.hyps(2) by linarith
    with e have next': "loop n = loop (Suc n)" by (subst loop_eq) simp
    from Suc.hyps(2) have "j = limit - Suc n" "Suc n \<le> limit" by auto
    from Suc.hyps(1) [OF this] obtain m where m: "m \<ge> Suc n" "m \<le> limit" "loop (Suc n) = step m"
      "\<forall>k. Suc n \<le> k \<and> k < m \<longrightarrow> (\<exists>e. step k = Inl e \<and> passing e)" by blast
    have "\<exists>e. step k = Inl e \<and> passing e" if "n \<le> k" "k < m" for k
      using that m(4) e by (cases "k = n") auto
    with m next' show ?thesis by (intro exI [of _ m]) auto
  next
    case False
    then have "loop n = step n" by (subst loop_eq) (auto split: sum.splits)
    with Suc.prems show ?thesis by auto
  qed
qed

text \<open>An attempt that does not fail passingly ends the loop, however it was reached.\<close>

lemma loop_reaches:
  assumes "n \<le> m" "m \<le> limit"
    and "\<And>k. n \<le> k \<Longrightarrow> k < m \<Longrightarrow> \<exists>e. step k = Inl e \<and> passing e"
    and "\<And>e. step m = Inl e \<Longrightarrow> \<not> passing e"
  shows "loop n = step m"
  using assms
proof (induction "m - n" arbitrary: n)
  case 0
  then have "n = m" by simp
  with 0 show ?case by (subst loop_eq) (auto split: sum.splits)
next
  case (Suc j)
  then have "n < m" by simp
  with Suc.prems obtain e where "step n = Inl e" "passing e" by (metis order_refl)
  with \<open>n < m\<close> Suc.prems(2) have "loop n = loop (Suc n)" by (subst loop_eq) simp
  also have "\<dots> = step m"
    by (rule Suc.hyps(1)) (use Suc in auto)
  finally show ?case .
qed

end

end
