(* ===== verification/Errors.thy ===== *)
theory Errors
  imports Prelude
begin

text \<open>
  \<open>src/lib/errors.ts\<close>: the error codes of the API, the \<open>AppError\<close> class and the
  functions that build its values. A thrown value of the program is one of three: an
  \<open>AppError\<close>, a plain \<open>Error\<close>, or an error of the database driver with its SQLSTATE.
\<close>

datatype app_error_code =
    BAD_REQUEST | UNAUTHORIZED | FORBIDDEN | NOT_FOUND | CONFLICT | STALE_REQUEST
  | VALIDATION_ERROR | DATABASE_ERROR | INVALID_TOKEN | TOKEN_EXPIRED | OTP_EXPIRED
  | OTP_INVALID | OTP_ATTEMPTS_EXCEEDED | PHONE_NOT_SUPPORTED | RATE_LIMITED
  | TWILIO_UNAVAILABLE | VERIFICATION_SESSION_NOT_FOUND | INTERNAL_SERVER_ERROR
  | TICKET_ALREADY_CHECKED_IN | INVALID_TICKET_STATUS | INVALID_QR_TOKEN
  | TICKET_INVALIDATED | EMAIL_PROVIDER_ERROR | EMAIL_PROVIDER_UNAVAILABLE
  | AI_PROVIDER_ERROR | AI_PROVIDER_UNAVAILABLE

type_synonym err_details = "(string \<times> string) list option"

record app_error =
  err_message :: string
  err_code :: app_error_code
  err_status :: nat
  err_detail :: err_details

datatype js_error =
    AppErr app_error
  | PlainErr string
  | DbErr string string

type_synonym 'a res = "js_error + 'a"

fun isAppError :: "js_error \<Rightarrow> bool" where
  "isAppError (AppErr _) = True"
| "isAppError _ = False"

definition mkErr :: "string \<Rightarrow> app_error_code \<Rightarrow> nat \<Rightarrow> err_details \<Rightarrow> js_error" where
  "mkErr m c n d = AppErr \<lparr>err_message = m, err_code = c, err_status = n, err_detail = d\<rparr>"

definition badRequest :: "string \<Rightarrow> js_error" where
  "badRequest m = mkErr m BAD_REQUEST 400 None"

definition conflict :: "string \<Rightarrow> js_error" where
  "conflict m = mkErr m CONFLICT 409 None"

definition staleRequest :: "string \<Rightarrow> err_details \<Rightarrow> js_error" where
  "staleRequest m d = mkErr m STALE_REQUEST 409 d"

definition unauthorized :: "string \<Rightarrow> js_error" where
  "unauthorized m = mkErr m UNAUTHORIZED 401 None"

definition forbidden :: "string \<Rightarrow> js_error" where
  "forbidden m = mkErr m FORBIDDEN 403 None"

definition notFound :: "string \<Rightarrow> js_error" where
  "notFound m = mkErr m NOT_FOUND 404 None"

definition validationError :: "string \<Rightarrow> js_error" where
  "validationError m = mkErr m VALIDATION_ERROR 400 None"

definition ticketAlreadyCheckedIn :: "err_details \<Rightarrow> js_error" where
  "ticketAlreadyCheckedIn d = mkErr ''Ticket already checked in'' TICKET_ALREADY_CHECKED_IN 409 d"

definition invalidTicketStatus :: "string \<Rightarrow> js_error" where
  "invalidTicketStatus m = mkErr m INVALID_TICKET_STATUS 409 None"

definition invalidQrToken :: "err_details \<Rightarrow> js_error" where
  "invalidQrToken d = mkErr ''Invalid QR token'' INVALID_QR_TOKEN 404 d"

definition ticketInvalidated :: "err_details \<Rightarrow> js_error" where
  "ticketInvalidated d = mkErr ''Ticket invalidated'' TICKET_INVALIDATED 409 d"

definition rateLimited :: "err_details \<Rightarrow> js_error" where
  "rateLimited d = mkErr ''Rate limited'' RATE_LIMITED 429 d"

text \<open>What an HTTP client sees of an application error.\<close>

fun app_code_of :: "js_error \<Rightarrow> app_error_code option" where
  "app_code_of (AppErr e) = Some (err_code e)"
| "app_code_of _ = None"

lemmas error_defs = mkErr_def badRequest_def conflict_def staleRequest_def unauthorized_def
  forbidden_def notFound_def validationError_def ticketAlreadyCheckedIn_def
  invalidTicketStatus_def invalidQrToken_def ticketInvalidated_def rateLimited_def

lemma app_code_of_simps [simp]:
  "app_code_of (badRequest m) = Some BAD_REQUEST"
  "app_code_of (conflict m) = Some CONFLICT"
  "app_code_of (staleRequest m d) = Some STALE_REQUEST"
  "app_code_of (forbidden m) = Some FORBIDDEN"
  "app_code_of (notFound m) = Some NOT_FOUND"
  "app_code_of (invalidTicketStatus m) = Some INVALID_TICKET_STATUS"
  "app_code_of (ticketInvalidated d) = Some TICKET_INVALIDATED"
  "app_code_of (rateLimited d) = Some RATE_LIMITED"
  by (simp_all add: error_defs)

end
