(* ===== verification/JsString.thy ===== *)
theory JsString
  imports Prelude
begin

text \<open>
  JavaScript strings as the program uses them: decimal text of integers, \<open>padStart\<close>,
  \<open>trim\<close>, upper and lower case, and \<open>JSON.stringify\<close> of strings and integers.
  A string is its list of characters in the ASCII range; the texts the program builds itself
  (order numbers, keys, amounts, hash inputs) are in that range.
\<close>

section \<open>Decimal text\<close>

definition digit_char :: "nat \<Rightarrow> char" where
  "digit_char d = char_of (48 + d)"

fun show_nat :: "nat \<Rightarrow> string" where
  "show_nat n = (if n < 10 then [digit_char n] else show_nat (n div 10) @ [digit_char (n mod 10)])"

declare show_nat.simps [simp del]

definition show_int :: "int \<Rightarrow> string" where
  "show_int i = (if i < 0 then ''-'' @ show_nat (nat (- i)) else show_nat (nat i))"

definition is_digit :: "char \<Rightarrow> bool" where
  "is_digit c \<longleftrightarrow> 48 \<le> (of_char c :: nat) \<and> (of_char c :: nat) \<le> 57"

definition digit_val :: "char \<Rightarrow> nat" where
  "digit_val c = of_char c - 48"

text \<open>\<open>BigInt(text)\<close> of a text of digits; the empty text is \<open>0n\<close>.\<close>

definition read_nat :: "string \<Rightarrow> nat" where
  "read_nat s = foldl (\<lambda>n c. 10 * n + digit_val c) 0 s"

definition padStart :: "nat \<Rightarrow> char \<Rightarrow> string \<Rightarrow> string" where
  "padStart n c s = replicate (n - length s) c @ s"

lemma digit_val_char [simp]: "d < 10 \<Longrightarrow> digit_val (digit_char d) = d"
  by (simp add: digit_val_def digit_char_def take_bit_eq_mod of_char_of)

lemma is_digit_char [simp]: "d < 10 \<Longrightarrow> is_digit (digit_char d)"
  by (simp add: is_digit_def digit_char_def of_char_of)

lemma read_nat_Nil [simp]: "read_nat [] = 0"
  by (simp add: read_nat_def)

lemma read_nat_snoc [simp]: "read_nat (s @ [c]) = 10 * read_nat s + digit_val c"
  by (simp add: read_nat_def)

lemma read_show_nat [simp]: "read_nat (show_nat n) = n"
proof (induction n rule: show_nat.induct)
  case (1 n)
  show ?case
  proof (cases "n < 10")
    case True
    then show ?thesis using read_nat_snoc [of "[]"] by (simp add: show_nat.simps [of n])
  next
    case False
    with 1 show ?thesis by (simp add: show_nat.simps [of n])
  qed
qed

lemma show_nat_inject [simp]: "show_nat m = show_nat n \<longleftrightarrow> m = n"
  by (metis read_show_nat)

lemma inj_show_nat: "inj show_nat"
  by (simp add: inj_on_def)

lemma show_nat_digits: "\<forall>c \<in> set (show_nat n). is_digit c"
proof (induction n rule: show_nat.induct)
  case (1 n)
  then show ?case by (cases "n < 10") (auto simp: show_nat.simps [of n])
qed

lemma show_nat_neq_Nil [simp]: "show_nat n \<noteq> []"
  by (subst show_nat.simps) simp

lemma foldl_digits_zero: "foldl (\<lambda>n c. 10 * n + digit_val c) 0 (replicate k (CHR ''0'') @ s)
    = foldl (\<lambda>n c. 10 * n + digit_val c) 0 s"
  by (induction k) (simp_all add: digit_val_def)

lemma read_nat_padStart [simp]: "read_nat (padStart n (CHR ''0'') s) = read_nat s"
  using foldl_digits_zero [of "n - length s" s] by (simp add: read_nat_def padStart_def)

lemma length_padStart: "length (padStart n c s) = max n (length s)"
  by (simp add: padStart_def)

text \<open>The same digits by integer division, which is how the kernel evaluates them.\<close>

function show_digits :: "int \<Rightarrow> string" where
  "show_digits i = (if i < 10 then [digit_char (nat i)]
     else show_digits (i div 10) @ [digit_char (nat (i mod 10))])"
  by pat_completeness auto
termination by (relation "measure nat") auto

declare show_digits.simps [simp del]

lemma show_digits_nat: "show_digits (int n) = show_nat n"
proof (induction n rule: show_nat.induct)
  case (1 n)
  have q: "int n div 10 = int (n div 10)" and r: "nat (int n mod 10) = n mod 10"
    by (simp_all add: zdiv_int nat_mod_distrib)
  from 1 show ?case
    by (subst show_digits.simps, subst show_nat.simps) (auto simp: q r)
qed

lemma show_int_digits [code]: "show_int i = (if i < 0 then ''-'' @ show_digits (- i) else show_digits i)"
  using show_digits_nat [of "nat i"] show_digits_nat [of "nat (- i)"]
  by (cases "i < 0") (simp_all add: show_int_def)

section \<open>White space and case\<close>

definition is_space :: "char \<Rightarrow> bool" where
  "is_space c \<longleftrightarrow> (of_char c :: nat) \<in> {9, 10, 11, 12, 13, 32}"

definition trim :: "string \<Rightarrow> string" where
  "trim s = rev (dropWhile is_space (rev (dropWhile is_space s)))"

definition upper_char :: "char \<Rightarrow> char" where
  "upper_char c = (let n = (of_char c :: nat) in if 97 \<le> n \<and> n \<le> 122 then char_of (n - 32) else c)"

definition lower_char :: "char \<Rightarrow> char" where
  "lower_char c = (let n = (of_char c :: nat) in if 65 \<le> n \<and> n \<le> 90 then char_of (n + 32) else c)"

definition toUpperCase :: "string \<Rightarrow> string" where "toUpperCase s = map upper_char s"
definition toLowerCase :: "string \<Rightarrow> string" where "toLowerCase s = map lower_char s"

text \<open>\<open>split\<close> on a character; the pieces are never fewer than one.\<close>

fun split_on :: "char \<Rightarrow> string \<Rightarrow> string list" where
  "split_on c [] = [[]]"
| "split_on c (x # xs) =
     (if x = c then [] # split_on c xs
      else (case split_on c xs of [] \<Rightarrow> [[x]] | p # ps \<Rightarrow> (x # p) # ps))"

definition is_lower_alnum :: "char \<Rightarrow> bool" where
  "is_lower_alnum c \<longleftrightarrow> (let n = (of_char c :: nat) in (48 \<le> n \<and> n \<le> 57) \<or> (97 \<le> n \<and> n \<le> 122))"

text \<open>A string in a condition: the empty string and a missing one are falsy.\<close>

definition truthy :: "string option \<Rightarrow> bool" where
  "truthy x = (case x of None \<Rightarrow> False | Some s \<Rightarrow> s \<noteq> [])"

definition or_else :: "string option \<Rightarrow> string option \<Rightarrow> string option" where
  "or_else x y = (if truthy x then x else y)"

lemma dropWhile_idem [simp]: "dropWhile p (dropWhile p xs) = dropWhile p xs"
  by (induction xs) auto

lemma hd_dropWhile_rev: "dropWhile p s = s \<Longrightarrow>
    dropWhile p (rev (dropWhile p (rev s))) = rev (dropWhile p (rev s))"
proof -
  assume s: "dropWhile p s = s"
  let ?t = "rev (dropWhile p (rev s))"
  obtain u where u: "s = ?t @ u"
    by (metis rev_append rev_rev_ident takeWhile_dropWhile_id)
  show ?thesis
  proof (cases ?t)
    case (Cons a v)
    with u have "s = a # v @ u" by simp
    with s have "\<not> p a"
      by (metis dropWhile.simps(2) impossible_Cons length_dropWhile_le)
    with Cons show ?thesis by simp
  next
    case Nil
    then show ?thesis by (metis dropWhile.simps(1))
  qed
qed

lemma strip_both_idem:
  "dropWhile p (rev (dropWhile p (rev (dropWhile p s)))) = rev (dropWhile p (rev (dropWhile p s)))"
  by (rule hd_dropWhile_rev) simp

lemma trim_idem [simp]: "trim (trim s) = trim s"
  by (simp add: trim_def strip_both_idem)

lemma upper_char_code: "(of_char (upper_char c) :: nat) =
    (if 97 \<le> (of_char c :: nat) \<and> (of_char c :: nat) \<le> 122 then of_char c - 32 else of_char c)"
  by (auto simp: upper_char_def Let_def of_char_of)

lemma is_space_upper [simp]: "is_space (upper_char c) = is_space c"
  unfolding is_space_def upper_char_code by auto

lemma upper_char_idem [simp]: "upper_char (upper_char c) = upper_char c"
proof -
  have "(of_char (upper_char (upper_char c)) :: nat) = of_char (upper_char c)"
    unfolding upper_char_code by auto
  then show ?thesis by (simp only: of_char_eq_iff)
qed

lemma dropWhile_space_upper [simp]: "dropWhile is_space (map upper_char s) = map upper_char (dropWhile is_space s)"
  by (induction s) auto

lemma trim_upper [simp]: "trim (toUpperCase s) = toUpperCase (trim s)"
  by (simp add: trim_def toUpperCase_def rev_map)

lemma toUpperCase_idem [simp]: "toUpperCase (toUpperCase s) = toUpperCase s"
  by (simp add: toUpperCase_def)

section \<open>JSON text\<close>

definition hex_digit :: "nat \<Rightarrow> char" where
  "hex_digit d = (if d < 10 then char_of (48 + d) else char_of (87 + d))"

definition json_char :: "char \<Rightarrow> string" where
  "json_char c = (let n = (of_char c :: nat) in
     if n = 34 then [char_of (92::nat), c]
     else if n = 92 then [c, c]
     else if n = 8 then [char_of (92::nat), CHR ''b'']
     else if n = 9 then [char_of (92::nat), CHR ''t'']
     else if n = 10 then [char_of (92::nat), CHR ''n'']
     else if n = 12 then [char_of (92::nat), CHR ''f'']
     else if n = 13 then [char_of (92::nat), CHR ''r'']
     else if n < 32 then [char_of (92::nat)] @ ''u00'' @ [hex_digit (n div 16), hex_digit (n mod 16)]
     else [c])"

definition dquote :: char where "dquote = char_of (34::nat)"

definition json_string :: "string \<Rightarrow> string" where
  "json_string s = [dquote] @ concat (map json_char s) @ [dquote]"

fun json_join :: "string list \<Rightarrow> string" where
  "json_join [] = []"
| "json_join [x] = x"
| "json_join (x # y # ys) = x @ '','' @ json_join (y # ys)"

definition json_object :: "(string \<times> string) list \<Rightarrow> string" where
  "json_object fields =
     ''{'' @ json_join (map (\<lambda>(k, v). json_string k @ '':'' @ v) fields) @ ''}''"

definition json_array :: "string list \<Rightarrow> string" where
  "json_array xs = ''['' @ json_join xs @ '']''"

end
