(* ===== verification/Access.thy ===== *)
theory Access
  imports Errors JsString
begin

text \<open>
  Who may do what: roles and permissions (\<open>src/lib/permissions.ts\<close>,
  \<open>src/constants/roles.ts\<close>), the policies of \<open>src/policies\<close>, the authorization
  middleware \<open>src/middlewares/rbac.middleware.ts\<close> and the resolution of the tenant and of
  the caller's membership in \<open>src/middlewares/tenant.middleware.ts\<close>.
\<close>

section \<open>Roles\<close>

datatype tenant_role = viewer | staff | manager | admin | owner

fun roleRank :: "tenant_role \<Rightarrow> nat" where
  "roleRank viewer = 0"
| "roleRank staff = 1"
| "roleRank manager = 2"
| "roleRank admin = 3"
| "roleRank owner = 4"

lemma roleRank_inject: "roleRank a = roleRank b \<longleftrightarrow> a = b"
  by (cases a; cases b; simp)

instantiation tenant_role :: linorder
begin

definition less_eq_tenant_role :: "tenant_role \<Rightarrow> tenant_role \<Rightarrow> bool" where
  "less_eq_tenant_role a b \<longleftrightarrow> roleRank a \<le> roleRank b"

definition less_tenant_role :: "tenant_role \<Rightarrow> tenant_role \<Rightarrow> bool" where
  "less_tenant_role a b \<longleftrightarrow> roleRank a < roleRank b"

instance
  by standard (auto simp: less_eq_tenant_role_def less_tenant_role_def roleRank_inject)

end

section \<open>Permissions\<close>

datatype permission =
    tenant_manage | tenant_delete | tenant_transfer_ownership | member_manage | event_create
  | event_publish | event_manage | ticket_manage | ticket_issue | ticket_read | ticket_invalidate
  | ticket_cancel | ticket_transfer | ticket_checkin | attendee_manage | booking_create
  | booking_update | booking_cancel | booking_read | booking_assign_attendees | venue_manage
  | analytics_view | campaign_manage | payout_manage | billing_manage | email_view
  | email_subscriber_manage | email_template_manage | email_campaign_create | email_campaign_manage

definition TENANT_PERMISSIONS :: "permission list" where
  "TENANT_PERMISSIONS =
     [tenant_manage, tenant_delete, tenant_transfer_ownership, member_manage, event_create,
      event_publish, event_manage, ticket_manage, ticket_issue, ticket_read, ticket_invalidate,
      ticket_cancel, ticket_transfer, ticket_checkin, attendee_manage, booking_create,
      booking_update, booking_cancel, booking_read, booking_assign_attendees, venue_manage,
      analytics_view, campaign_manage, payout_manage, billing_manage, email_view,
      email_subscriber_manage, email_template_manage, email_campaign_create, email_campaign_manage]"

definition viewerPermissions :: "permission list" where
  "viewerPermissions = [analytics_view, email_view]"

definition staffPermissions :: "permission list" where
  "staffPermissions = viewerPermissions @ [booking_read, email_subscriber_manage, ticket_read, ticket_checkin]"

definition managerPermissions :: "permission list" where
  "managerPermissions = staffPermissions @
     [attendee_manage, booking_assign_attendees, booking_cancel, booking_create, booking_update,
      campaign_manage, event_create, event_publish, event_manage, ticket_cancel, ticket_invalidate,
      ticket_issue, ticket_transfer, ticket_manage, venue_manage, email_template_manage,
      email_campaign_create]"

definition adminPermissions :: "permission list" where
  "adminPermissions = managerPermissions @ [member_manage, tenant_manage, email_campaign_manage]"

fun rolePermissions :: "tenant_role \<Rightarrow> permission list" where
  "rolePermissions viewer = viewerPermissions"
| "rolePermissions staff = staffPermissions"
| "rolePermissions manager = managerPermissions"
| "rolePermissions admin = adminPermissions"
| "rolePermissions owner = TENANT_PERMISSIONS"

definition hasRole :: "tenant_role option \<Rightarrow> tenant_role list \<Rightarrow> bool" where
  "hasRole role required =
     (case role of None \<Rightarrow> False | Some r \<Rightarrow> list_ex (\<lambda>c. roleRank c \<le> roleRank r) required)"

definition hasPermission :: "tenant_role option \<Rightarrow> permission \<Rightarrow> bool" where
  "hasPermission role p =
     (case role of None \<Rightarrow> False | Some r \<Rightarrow> List.member (rolePermissions r) p)"

definition isTenantOwner :: "tenant_role option \<Rightarrow> bool" where
  "isTenantOwner role \<longleftrightarrow> role = Some owner"

lemmas permission_sets = viewerPermissions_def staffPermissions_def managerPermissions_def
  adminPermissions_def TENANT_PERMISSIONS_def

section \<open>Policies\<close>

definition canCreateBookings :: "tenant_role option \<Rightarrow> bool" where
  "canCreateBookings r = hasPermission r booking_create"
definition canUpdateBookings :: "tenant_role option \<Rightarrow> bool" where
  "canUpdateBookings r = hasPermission r booking_update"
definition canCancelBookings :: "tenant_role option \<Rightarrow> bool" where
  "canCancelBookings r = hasPermission r booking_cancel"
definition canViewBookings :: "tenant_role option \<Rightarrow> bool" where
  "canViewBookings r = hasPermission r booking_read"
definition canAssignBookingAttendees :: "tenant_role option \<Rightarrow> bool" where
  "canAssignBookingAttendees r = hasPermission r booking_assign_attendees"
definition canIssueTickets :: "tenant_role option \<Rightarrow> bool" where
  "canIssueTickets r = hasPermission r ticket_issue"
definition canReadIssuedTickets :: "tenant_role option \<Rightarrow> bool" where
  "canReadIssuedTickets r = hasPermission r ticket_read"
definition canInvalidateTickets :: "tenant_role option \<Rightarrow> bool" where
  "canInvalidateTickets r = hasPermission r ticket_invalidate"
definition canCancelIssuedTickets :: "tenant_role option \<Rightarrow> bool" where
  "canCancelIssuedTickets r = hasPermission r ticket_cancel"
definition canTransferIssuedTickets :: "tenant_role option \<Rightarrow> bool" where
  "canTransferIssuedTickets r = hasPermission r ticket_transfer"
definition canCheckInTickets :: "tenant_role option \<Rightarrow> bool" where
  "canCheckInTickets r = hasPermission r ticket_checkin"
definition canViewAttendees :: "tenant_role option \<Rightarrow> bool" where
  "canViewAttendees r = hasRole r [staff]"
definition canManageAttendees :: "tenant_role option \<Rightarrow> bool" where
  "canManageAttendees r = hasPermission r attendee_manage"
definition canManageEvents :: "tenant_role option \<Rightarrow> bool" where
  "canManageEvents r = hasPermission r event_manage"
definition canManageTenant :: "tenant_role option \<Rightarrow> bool" where
  "canManageTenant r = hasPermission r tenant_manage"
definition canManageTickets :: "tenant_role option \<Rightarrow> bool" where
  "canManageTickets r = hasPermission r ticket_manage"
definition canManageVenues :: "tenant_role option \<Rightarrow> bool" where
  "canManageVenues r = hasPermission r venue_manage"

lemmas policy_defs = canCreateBookings_def canUpdateBookings_def canCancelBookings_def
  canViewBookings_def canAssignBookingAttendees_def canIssueTickets_def canReadIssuedTickets_def
  canInvalidateTickets_def canCancelIssuedTickets_def canTransferIssuedTickets_def
  canCheckInTickets_def canViewAttendees_def canManageAttendees_def canManageEvents_def
  canManageTenant_def canManageTickets_def canManageVenues_def

section \<open>Authorization middleware\<close>

text \<open>The membership is the one the tenant middleware left in the context, if any.\<close>

definition authorize :: "(tenant_role \<Rightarrow> bool) \<Rightarrow> string \<Rightarrow> tenant_role option \<Rightarrow> unit res" where
  "authorize check message membership =
     (case membership of
        None \<Rightarrow> Inl (forbidden ''Tenant membership required'')
      | Some r \<Rightarrow> if check r then Inr () else Inl (forbidden message))"

definition requireRole :: "tenant_role list \<Rightarrow> tenant_role option \<Rightarrow> unit res" where
  "requireRole roles = authorize (\<lambda>r. hasRole (Some r) roles) ''Insufficient tenant role''"

definition requirePermission :: "permission list \<Rightarrow> tenant_role option \<Rightarrow> unit res" where
  "requirePermission ps =
     authorize (\<lambda>r. list_ex (hasPermission (Some r)) ps) ''Insufficient tenant permissions''"

section \<open>Tenant resolution\<close>

record tenant_row =
  tn_id :: id
  tn_slug :: string
  tn_isActive :: bool
  tn_deletedAt :: "time_ms option"

record member_row =
  mb_tenantId :: id
  mb_userId :: id
  mb_role :: tenant_role

record tenant_db =
  tenants :: "tenant_row list"
  tenant_members :: "member_row list"

text \<open>
  The identifier is taken from the first route parameter that is set, then the two headers, then
  the two query parameters.
\<close>

record tenant_request =
  rq_params :: "string option list"
  rq_slugHeader :: "string option"
  rq_idHeader :: "string option"
  rq_tenantIdQuery :: "string option"
  rq_tenantSlugQuery :: "string option"

definition resolveTenantIdentifier :: "tenant_request \<Rightarrow> string option" where
  "resolveTenantIdentifier q =
     (case List.find truthy (rq_params q) of
        Some v \<Rightarrow> v
      | None \<Rightarrow> or_else (rq_slugHeader q) (or_else (rq_idHeader q)
                  (or_else (rq_tenantIdQuery q) (rq_tenantSlugQuery q))))"

definition is_hex :: "char \<Rightarrow> bool" where
  "is_hex c \<longleftrightarrow> (let n = (of_char c :: nat) in (48 \<le> n \<and> n \<le> 57) \<or> (65 \<le> n \<and> n \<le> 70) \<or> (97 \<le> n \<and> n \<le> 102))"

text \<open>The UUID pattern: groups of 8, 4, 4, 4 and 12 hexadecimal digits joined by hyphens.\<close>

fun hex_groups :: "nat list \<Rightarrow> string \<Rightarrow> bool" where
  "hex_groups [] s = (s = [])"
| "hex_groups [n] s = (length s = n \<and> list_all is_hex s)"
| "hex_groups (n # ns) s =
     (length s > n \<and> list_all is_hex (take n s) \<and> s ! n = CHR ''-'' \<and> hex_groups ns (drop (Suc n) s))"

definition is_uuid :: "string \<Rightarrow> bool" where
  "is_uuid s = hex_groups [8, 4, 4, 4, 12] s"

definition find_tenant :: "string \<Rightarrow> tenant_db \<Rightarrow> tenant_row option" where
  "find_tenant ident d =
     (if is_uuid ident then List.find (\<lambda>t. tn_id t = ident \<or> tn_slug t = ident) (tenants d)
      else List.find (\<lambda>t. tn_slug t = trim ident) (tenants d))"

record tenant_context =
  cx_tenant :: "tenant_row option"
  cx_membership :: "member_row option"

definition tenantMiddleware ::
    "bool \<Rightarrow> tenant_request \<Rightarrow> id option \<Rightarrow> tenant_db \<Rightarrow> tenant_context res" where
  "tenantMiddleware required q user d =
     (let ident = resolveTenantIdentifier q in
      if \<not> truthy ident then
        (if \<not> required then Inr \<lparr>cx_tenant = None, cx_membership = None\<rparr>
         else Inl (unauthorized ''Tenant context is required''))
      else if user = None \<and> required then Inl (unauthorized ''Authentication required'')
      else
        (case find_tenant (the ident) d of
           None \<Rightarrow> Inl (notFound ''Tenant not found'')
         | Some t \<Rightarrow>
             if \<not> tn_isActive t \<or> tn_deletedAt t \<noteq> None then Inl (notFound ''Tenant not found'')
             else
               (case user of
                  None \<Rightarrow> Inr \<lparr>cx_tenant = Some t, cx_membership = None\<rparr>
                | Some u \<Rightarrow>
                    (case List.find (\<lambda>m. mb_tenantId m = tn_id t \<and> mb_userId m = u) (tenant_members d) of
                       None \<Rightarrow>
                         if required then Inl (forbidden ''You do not have access to this tenant'')
                         else Inr \<lparr>cx_tenant = Some t, cx_membership = None\<rparr>
                     | Some m \<Rightarrow> Inr \<lparr>cx_tenant = Some t, cx_membership = Some m\<rparr>))))"

section \<open>Lemmas\<close>

lemma rolePermissions_mono:
  assumes "a \<le> b" shows "set (rolePermissions a) \<subseteq> set (rolePermissions b)"
  using assms by (cases a; cases b) (auto simp: less_eq_tenant_role_def permission_sets)

lemma permissions_complete: "p \<in> set TENANT_PERMISSIONS"
  by (cases p) (simp_all add: TENANT_PERMISSIONS_def)

lemma hasPermission_iff: "hasPermission r p \<longleftrightarrow> (\<exists>x. r = Some x \<and> p \<in> set (rolePermissions x))"
  by (auto simp: hasPermission_def split: option.splits)

lemma hasRole_iff: "hasRole r rs \<longleftrightarrow> (\<exists>x. r = Some x \<and> (\<exists>c \<in> set rs. c \<le> x))"
  by (auto simp: hasRole_def less_eq_tenant_role_def list_ex_iff split: option.splits)

section \<open>Properties\<close>

text \<open>
  The hierarchy is real: a higher role has every permission of a lower one, the owner has every
  permission of the program, and whatever route a role passes, every higher role passes too.
\<close>

theorem permissions_follow_rank:
  "hasPermission (Some owner) p \<and> (a \<le> b \<longrightarrow> hasPermission (Some a) p \<longrightarrow> hasPermission (Some b) p)
    \<and> (a \<le> b \<longrightarrow> requirePermission ps (Some a) = Inr () \<longrightarrow> requirePermission ps (Some b) = Inr ())
    \<and> (a \<le> b \<longrightarrow> requireRole rs (Some a) = Inr () \<longrightarrow> requireRole rs (Some b) = Inr ())"
  using rolePermissions_mono [of a b] permissions_complete [of p]
  by (auto simp: hasPermission_iff requirePermission_def requireRole_def authorize_def list_ex_iff hasRole_iff
      intro: order_trans)

theorem permissions_follow_rank_witness:
  "hasPermission (Some staff) ticket_checkin \<and> hasPermission (Some manager) ticket_checkin
    \<and> requireRole [staff] (Some admin) = Inr ()"
  using permissions_follow_rank [of ticket_checkin staff manager "[]" "[]"]
    permissions_follow_rank [of ticket_checkin staff admin "[]" "[staff]"]
  by (simp add: hasPermission_def permission_sets less_eq_tenant_role_def requireRole_def authorize_def hasRole_def)

text \<open>
  C30. Tenant isolation at the door: when a route requires a tenant and the middleware lets a request
  through, the tenant in the context is active and not deleted, and the membership is the caller's
  own membership in exactly that tenant.
\<close>

theorem tenant_context_is_callers:
  assumes "tenantMiddleware True q user d = Inr c"
  shows "\<exists>u t m. user = Some u \<and> cx_tenant c = Some t \<and> cx_membership c = Some m
    \<and> t \<in> set (tenants d) \<and> tn_isActive t \<and> tn_deletedAt t = None
    \<and> m \<in> set (tenant_members d) \<and> mb_tenantId m = tn_id t \<and> mb_userId m = u"
  using assms
  by (auto simp: tenantMiddleware_def find_tenant_def Let_def split: if_splits option.splits dest!: find_SomeD)

theorem tenant_context_is_callers_witness:
  "\<exists>c m. tenantMiddleware True \<lparr>rq_params = [None, Some ''acme''], rq_slugHeader = None, rq_idHeader = None,
        rq_tenantIdQuery = None, rq_tenantSlugQuery = None\<rparr> (Some ''u1'')
        \<lparr>tenants = [\<lparr>tn_id = ''t1'', tn_slug = ''acme'', tn_isActive = True, tn_deletedAt = None\<rparr>],
         tenant_members = [\<lparr>mb_tenantId = ''t1'', mb_userId = ''u1'', mb_role = admin\<rparr>]\<rparr> = Inr c
    \<and> cx_membership c = Some m \<and> mb_tenantId m = ''t1'' \<and> mb_userId m = ''u1''"
proof -
  let ?t = "\<lparr>tn_id = ''t1'', tn_slug = ''acme'', tn_isActive = True, tn_deletedAt = None\<rparr> :: tenant_row"
  let ?m = "\<lparr>mb_tenantId = ''t1'', mb_userId = ''u1'', mb_role = admin\<rparr> :: member_row"
  let ?q = "\<lparr>rq_params = [None, Some ''acme''], rq_slugHeader = None, rq_idHeader = None,
     rq_tenantIdQuery = None, rq_tenantSlugQuery = None\<rparr> :: tenant_request"
  let ?d = "\<lparr>tenants = [?t], tenant_members = [?m]\<rparr> :: tenant_db"
  have run: "tenantMiddleware True ?q (Some ''u1'') ?d = Inr \<lparr>cx_tenant = Some ?t, cx_membership = Some ?m\<rparr>"
    by code_simp
  show ?thesis using tenant_context_is_callers [OF run] run by auto
qed

end
