(* ===== verification/Jwt.thy ===== *)
theory Jwt
  imports Errors JsString
begin

text \<open>
  \<open>src/lib/jwt.ts\<close>: the tokens of the API. A token is three parts of base64url text joined by
  dots: header, payload and HMAC signature. A text stands for its UTF-8 bytes. HMAC-SHA256 and
  \<open>JSON.parse\<close> are parameters; base64 and \<open>JSON.stringify\<close> are written out.
\<close>

section \<open>Base64\<close>

definition b64_alphabet :: string where
  "b64_alphabet = ''ABCDEFGHIJKLMNOPQRSTUVWXYZabcdefghijklmnopqrstuvwxyz0123456789+/''"

definition sextet_char :: "nat \<Rightarrow> char" where "sextet_char n = b64_alphabet ! n"

fun index_of :: "char \<Rightarrow> string \<Rightarrow> nat option" where
  "index_of c [] = None"
| "index_of c (x # xs) = (if x = c then Some 0 else map_option Suc (index_of c xs))"

definition char_sextet :: "char \<Rightarrow> nat option" where "char_sextet c = index_of c b64_alphabet"

definition byte :: "char \<Rightarrow> nat" where "byte c = of_char c"
definition unbyte :: "nat \<Rightarrow> char" where "unbyte n = char_of n"

fun sextets :: "string \<Rightarrow> nat list" where
  "sextets [] = []"
| "sextets [a] = [byte a div 4, byte a mod 4 * 16]"
| "sextets [a, b] = [byte a div 4, byte a mod 4 * 16 + byte b div 16, byte b mod 16 * 4]"
| "sextets (a # b # c # s) =
     byte a div 4 # (byte a mod 4 * 16 + byte b div 16) # (byte b mod 16 * 4 + byte c div 64) # byte c mod 64 # sextets s"

definition b64_pad :: "nat \<Rightarrow> string" where "b64_pad n = replicate ((4 - n mod 4) mod 4) (CHR ''='')"

text \<open>\<open>Buffer.toString('base64')\<close>.\<close>

definition base64 :: "string \<Rightarrow> string" where
  "base64 s = map sextet_char (sextets s) @ b64_pad (length (sextets s))"

fun octets :: "nat list \<Rightarrow> string" where
  "octets (a # b # c # d # s) =
     unbyte (a * 4 + b div 16) # unbyte (b mod 16 * 16 + c div 4) # unbyte (c mod 4 * 64 + d) # octets s"
| "octets [a, b, c] = [unbyte (a * 4 + b div 16), unbyte (b mod 16 * 16 + c div 4)]"
| "octets [a, b] = [unbyte (a * 4 + b div 16)]"
| "octets [a] = []"
| "octets [] = []"

text \<open>\<open>Buffer.from(text, 'base64')\<close>: what is not in the alphabet is skipped.\<close>

definition unbase64 :: "string \<Rightarrow> string" where
  "unbase64 s = octets (List.map_filter char_sextet s)"

definition url_char :: "char \<Rightarrow> char" where
  "url_char c = (if c = CHR ''+'' then CHR ''-'' else if c = CHR ''/'' then CHR ''_'' else c)"

definition std_char :: "char \<Rightarrow> char" where
  "std_char c = (if c = CHR ''-'' then CHR ''+'' else if c = CHR ''_'' then CHR ''/'' else c)"

definition base64UrlEncode :: "string \<Rightarrow> string" where
  "base64UrlEncode s = map url_char (filter (\<lambda>c. c \<noteq> CHR ''='') (base64 s))"

definition base64UrlDecode :: "string \<Rightarrow> string" where
  "base64UrlDecode s = unbase64 (map std_char s @ b64_pad (length s))"

section \<open>Durations\<close>

definition unit_seconds :: "char \<Rightarrow> nat option" where
  "unit_seconds c = (if c = CHR ''s'' then Some 1 else if c = CHR ''m'' then Some 60
     else if c = CHR ''h'' then Some (60 * 60) else if c = CHR ''d'' then Some (60 * 60 * 24) else None)"

definition parseExpiresIn :: "string \<Rightarrow> int res" where
  "parseExpiresIn text =
     (let t = trim text; digits = butlast t in
      case (if t = [] then None else unit_seconds (last t)) of
        Some u \<Rightarrow> if digits \<noteq> [] \<and> list_all is_digit digits then Inr (int (read_nat digits * u))
                  else Inl (PlainErr (''Invalid expiresIn value: '' @ text))
      | None \<Rightarrow> Inl (PlainErr (''Invalid expiresIn value: '' @ text)))"

section \<open>Tokens\<close>

text \<open>The optional members \<open>tenantId\<close> and \<open>role\<close> are never set.\<close>

record jwt_claims =
  jw_sub :: id
  jw_sid :: id
  jw_emailVerified :: bool
  jw_phoneVerified :: bool

text \<open>What \<open>JSON.parse\<close> gives of an object: none for a member of another type or none at all.\<close>

record json_claims =
  jc_sub :: "id option"
  jc_sid :: "id option"
  jc_type :: "string option"
  jc_iat :: "int option"
  jc_exp :: "int option"

record jwt_lib =
  jl_hmac :: "string \<Rightarrow> string \<Rightarrow> string"
  jl_parse :: "string \<Rightarrow> json_claims option"

definition json_bool :: "bool \<Rightarrow> string" where "json_bool b = (if b then ''true'' else ''false'')"

definition jwt_header :: string where
  "jwt_header = json_object [(''alg'', json_string ''HS256''), (''typ'', json_string ''JWT'')]"

definition jwt_payload :: "jwt_claims \<Rightarrow> string \<Rightarrow> int \<Rightarrow> int \<Rightarrow> string" where
  "jwt_payload p ty iat exp' = json_object
     [(''sub'', json_string (jw_sub p)), (''sid'', json_string (jw_sid p)),
      (''emailVerified'', json_bool (jw_emailVerified p)), (''phoneVerified'', json_bool (jw_phoneVerified p)),
      (''type'', json_string ty), (''iat'', show_int iat), (''exp'', show_int exp')]"

definition signed :: "jwt_lib \<Rightarrow> string \<Rightarrow> string \<Rightarrow> string" where
  "signed L secret payload =
     (let content = base64UrlEncode jwt_header @ ''.'' @ base64UrlEncode payload
      in content @ ''.'' @ base64UrlEncode (jl_hmac L secret content))"

definition seconds :: "time_ms \<Rightarrow> int" where "seconds now = now div 1000"

definition signJwt :: "jwt_lib \<Rightarrow> time_ms \<Rightarrow> jwt_claims \<Rightarrow> string \<Rightarrow> string \<Rightarrow> string \<Rightarrow> string res" where
  "signJwt L now p ty secret expiresIn =
     bindR (parseExpiresIn expiresIn) (\<lambda>life. Inr (signed L secret (jwt_payload p ty (seconds now) (seconds now + life))))"

text \<open>The claims of an accepted token.\<close>

record token_claims =
  tc_sub :: id
  tc_sid :: "id option"
  tc_exp :: int

definition check_claims :: "json_claims option \<Rightarrow> string \<Rightarrow> time_ms \<Rightarrow> token_claims res" where
  "check_claims j expected now =
     bindR (optR j (PlainErr ''Invalid token payload json'')) (\<lambda>c.
     case (jc_sub c, jc_type c, jc_iat c, jc_exp c) of
       (Some sub, Some ty, Some iat, Some exp') \<Rightarrow>
         bindR (guardR (ty = expected) (PlainErr (''Expected '' @ expected @ '' token''))) (\<lambda>_.
         bindR (guardR (seconds now < exp') (PlainErr ''Token expired'')) (\<lambda>_.
         Inr \<lparr>tc_sub = sub, tc_sid = jc_sid c, tc_exp = exp'\<rparr>))
     | _ \<Rightarrow> Inl (PlainErr ''Invalid token payload''))"

definition verifyJwt :: "jwt_lib \<Rightarrow> time_ms \<Rightarrow> string \<Rightarrow> string \<Rightarrow> string \<Rightarrow> token_claims res" where
  "verifyJwt L now token secret expected =
     (if token = [] then Inl (PlainErr ''Invalid token'')
      else case split_on (CHR ''.'') token of
        [h, p, s] \<Rightarrow>
          if h = [] \<or> p = [] \<or> s = [] then Inl (PlainErr ''Invalid token format'')
          else if base64UrlDecode s \<noteq> jl_hmac L secret (h @ ''.'' @ p) then Inl (PlainErr ''Invalid token signature'')
          else check_claims (jl_parse L (base64UrlDecode p)) expected now
      | _ \<Rightarrow> Inl (PlainErr ''Invalid token format''))"

definition createAccessToken :: "jwt_lib \<Rightarrow> time_ms \<Rightarrow> jwt_claims \<Rightarrow> string \<Rightarrow> string \<Rightarrow> string res" where
  "createAccessToken L now p secret expiresIn = signJwt L now p ''access'' secret expiresIn"

definition createRefreshToken :: "jwt_lib \<Rightarrow> time_ms \<Rightarrow> jwt_claims \<Rightarrow> string \<Rightarrow> string \<Rightarrow> string res" where
  "createRefreshToken L now p secret expiresIn = signJwt L now p ''refresh'' secret expiresIn"

section \<open>Round trips\<close>

lemma index_nth: "n < length s \<Longrightarrow> distinct s \<Longrightarrow> index_of (s ! n) s = Some n"
proof (induction s arbitrary: n)
  case (Cons a s)
  then show ?case by (cases n) (auto simp: nth_mem)
qed simp

lemma alphabet_facts: "length b64_alphabet = 64" "distinct b64_alphabet"
  "\<forall>c \<in> set b64_alphabet. c \<notin> set ''=.-_''"
  by (simp_all add: b64_alphabet_def)

lemma char_sextet_char [simp]: "n < 64 \<Longrightarrow> char_sextet (sextet_char n) = Some n"
  unfolding char_sextet_def sextet_char_def by (rule index_nth) (simp_all add: alphabet_facts)

lemma byte_less: "byte c < 256"
  using range_nat_of_char by (auto simp: byte_def)

lemma unbyte_byte [simp]: "unbyte (byte c) = c"
  by (simp add: unbyte_def byte_def)

lemma sextets_small: "n \<in> set (sextets s) \<Longrightarrow> n < 64"
proof (induction s rule: sextets.induct)
  case (2 a)
  then show ?case using byte_less [of a] by auto
next
  case (3 a b)
  then show ?case using byte_less [of a] byte_less [of b] by auto
next
  case (4 a b c s)
  then show ?case using byte_less [of a] byte_less [of b] byte_less [of c] by auto
qed simp

lemma pack:
  fixes x y m :: nat
  assumes "y < m" shows "(x * m + y) div m = x" "(x * m + y) mod m = y"
  using assms by simp_all

lemma pack': fixes b c :: nat assumes "c < 256"
  shows "(b mod 16 * 4 + c div 64) div 4 = b mod 16" "(b mod 16 * 4 + c div 64) mod 4 = c div 64"
  using pack [of "c div 64" 4 "b mod 16"] assms by auto

lemma join_bits:
  fixes a b c :: nat
  assumes "b < 256"
  shows "a div 4 * 4 + (a mod 4 * 16 + b div 16) div 16 = a"
    and "(a mod 4 * 16 + b div 16) mod 16 * 16 + (b mod 16 * 4) div 4 = b"
    and "c < 256 \<Longrightarrow> (a mod 4 * 16 + b div 16) mod 16 * 16 + (b mod 16 * 4 + c div 64) div 4 = b"
    and "c < 256 \<Longrightarrow> (b mod 16 * 4 + c div 64) mod 4 * 64 + c mod 64 = c"
  using pack [of "b div 16" 16 "a mod 4"] pack' [of c b] assms by auto

lemma octets_sextets: "octets (sextets s) = s"
proof (induction s rule: sextets.induct)
  case (2 a)
  show ?case by simp
next
  case (3 a b)
  show ?case using join_bits(1,2) [OF byte_less [of b], of "byte a"] by simp
next
  case (4 a b c s)
  then show ?case
    using join_bits(1) [OF byte_less [of b], of "byte a"] join_bits(3) [OF byte_less [of b] byte_less [of c], of "byte a"]
      join_bits(4) [OF byte_less [of b] byte_less [of c]] by simp
qed simp

lemma filter_sextets: "(\<And>n. n \<in> set ns \<Longrightarrow> n < 64) \<Longrightarrow> List.map_filter char_sextet (map sextet_char ns) = ns"
  by (induction ns) (simp_all add: map_filter_simps)

lemma pad_skipped: "List.map_filter char_sextet (b64_pad n) = []"
proof -
  have "char_sextet (CHR ''='') = None" by (simp add: char_sextet_def b64_alphabet_def)
  then have "List.map_filter char_sextet (replicate k (CHR ''='')) = []" for k
    by (induction k) (simp_all add: map_filter_simps)
  then show ?thesis by (simp add: b64_pad_def)
qed

lemma map_filter_append [simp]: "List.map_filter f (xs @ ys) = List.map_filter f xs @ List.map_filter f ys"
  by (simp add: List.map_filter_def)

lemma sextet_in_alphabet: "n < 64 \<Longrightarrow> sextet_char n \<in> set b64_alphabet"
  by (simp add: sextet_char_def alphabet_facts(1))

lemma encode_text: "base64UrlEncode s = map url_char (map sextet_char (sextets s))"
proof -
  have "sextet_char n \<noteq> CHR ''=''" if "n \<in> set (sextets s)" for n
    using alphabet_facts(3) sextet_in_alphabet [OF sextets_small [OF that]] by auto
  then have "filter (\<lambda>c. c \<noteq> CHR ''='') (map sextet_char (sextets s)) = map sextet_char (sextets s)"
    by (auto simp: filter_id_conv)
  then show ?thesis by (simp add: base64UrlEncode_def base64_def b64_pad_def)
qed

lemma std_url: "c \<in> set b64_alphabet \<Longrightarrow> std_char (url_char c) = c"
  using alphabet_facts(3) by (auto simp: std_char_def url_char_def)

lemma base64url_roundtrip [simp]: "base64UrlDecode (base64UrlEncode s) = s"
proof -
  have "map std_char (base64UrlEncode s) = map sextet_char (sextets s)"
    unfolding encode_text using std_url [OF sextet_in_alphabet [OF sextets_small]] by simp
  then show ?thesis
    using filter_sextets [of "sextets s"] sextets_small [of _ s]
    by (simp add: base64UrlDecode_def unbase64_def pad_skipped octets_sextets)
qed

lemma encode_no_dot: "CHR ''.'' \<notin> set (base64UrlEncode s)"
proof -
  have "url_char c \<noteq> CHR ''.''" if "c \<in> set b64_alphabet" for c
    using alphabet_facts(3) that by (auto simp: url_char_def)
  then show ?thesis
    unfolding encode_text using sextet_in_alphabet [OF sextets_small [of _ s]] by auto metis
qed

lemma encode_empty [simp]: "base64UrlEncode s = [] \<longleftrightarrow> s = []"
  by (metis base64url_roundtrip encode_text list.simps(8) sextets.simps(1))

lemma split_none: "c \<notin> set s \<Longrightarrow> split_on c s = [s]"
  by (induction s) auto

lemma split_first: "c \<notin> set s \<Longrightarrow> split_on c (s @ c # t) = s # split_on c t"
  by (induction s) auto

lemma split_signed: "split_on (CHR ''.'') (signed L k p) =
    [base64UrlEncode jwt_header, base64UrlEncode p,
     base64UrlEncode (jl_hmac L k (base64UrlEncode jwt_header @ ''.'' @ base64UrlEncode p))]"
  by (simp add: signed_def Let_def split_first split_none encode_no_dot)

text \<open>What a signed text says is read back under the same secret.\<close>

lemma verify_signed:
  assumes "jl_hmac L k (base64UrlEncode jwt_header @ ''.'' @ base64UrlEncode p) \<noteq> []" and "p \<noteq> []"
  shows "verifyJwt L now (signed L k p) k ty = check_claims (jl_parse L p) ty now"
proof -
  have "signed L k p \<noteq> []" by (simp add: signed_def Let_def)
  moreover have "jwt_header \<noteq> []" by (simp add: jwt_header_def json_object_def)
  ultimately show ?thesis using assms by (simp add: verifyJwt_def split_signed)
qed

text \<open>Under another secret, with another signature, it is refused.\<close>

lemma verify_forged:
  assumes "jl_hmac L k (base64UrlEncode jwt_header @ ''.'' @ base64UrlEncode p) \<noteq> []" and "p \<noteq> []"
    and "jl_hmac L other (base64UrlEncode jwt_header @ ''.'' @ base64UrlEncode p)
      \<noteq> jl_hmac L k (base64UrlEncode jwt_header @ ''.'' @ base64UrlEncode p)"
  shows "verifyJwt L now (signed L k p) other ty = Inl (PlainErr ''Invalid token signature'')"
proof -
  have "signed L k p \<noteq> []" by (simp add: signed_def Let_def)
  moreover have "jwt_header \<noteq> []" by (simp add: jwt_header_def json_object_def)
  ultimately show ?thesis using assms not_sym [OF assms(3)] by (simp add: verifyJwt_def split_signed)
qed

end
