(* ===== verification/Steps.thy ===== *)
theory Steps
  imports Errors
begin

text \<open>
  Operations as sequences of steps on a state \<open>'w\<close>: a step returns a result and the state it
  leaves, also when it throws. What a throw undoes is said where a transaction is opened
  (\<open>atomic\<close>). The lemmas describe the runs that return and the states steps leave.
\<close>

section \<open>Steps\<close>

type_synonym ('w, 'a) step = "'w \<Rightarrow> 'a res \<times> 'w"

definition ret :: "'a \<Rightarrow> ('w, 'a) step" where "ret x w = (Inr x, w)"
definition throw :: "js_error \<Rightarrow> ('w, 'a) step" where "throw e w = (Inl e, w)"

definition bnd :: "('w, 'a) step \<Rightarrow> ('a \<Rightarrow> ('w, 'b) step) \<Rightarrow> ('w, 'b) step" where
  "bnd m f w = (case m w of (Inl e, w') \<Rightarrow> (Inl e, w') | (Inr x, w') \<Rightarrow> f x w')"

definition check :: "bool \<Rightarrow> js_error \<Rightarrow> ('w, unit) step" where
  "check b e = (if b then ret () else throw e)"

definition lift :: "'a res \<Rightarrow> ('w, 'a) step" where "lift r w = (r, w)"

definition peek :: "('w \<Rightarrow> 'a) \<Rightarrow> ('w, 'a) step" where "peek f w = (Inr (f w), w)"

definition fetch :: "('w \<Rightarrow> 'a option) \<Rightarrow> js_error \<Rightarrow> ('w, 'a) step" where
  "fetch f e w = (optR (f w) e, w)"

definition alter :: "('w \<Rightarrow> 'w) \<Rightarrow> ('w, unit) step" where "alter f w = (Inr (), f w)"

definition attempt :: "('w \<Rightarrow> ('a \<times> 'w) res) \<Rightarrow> ('w, 'a) step" where
  "attempt f w = (case f w of Inl e \<Rightarrow> (Inl e, w) | Inr (x, w') \<Rightarrow> (Inr x, w'))"

fun each :: "('a \<Rightarrow> ('w, unit) step) \<Rightarrow> 'a list \<Rightarrow> ('w, unit) step" where
  "each f [] = ret ()"
| "each f (x # xs) = bnd (f x) (\<lambda>_. each f xs)"

fun collect :: "('a \<Rightarrow> ('w, 'b) step) \<Rightarrow> 'a list \<Rightarrow> ('w, 'b list) step" where
  "collect f [] = ret []"
| "collect f (x # xs) = bnd (f x) (\<lambda>y. bnd (collect f xs) (\<lambda>ys. ret (y # ys)))"

text \<open>\<open>try\<close> and \<open>catch\<close>.\<close>

definition handle :: "('w, 'a) step \<Rightarrow> (js_error \<Rightarrow> ('w, 'a) step) \<Rightarrow> ('w, 'a) step" where
  "handle m h w = (case m w of (Inl e, w') \<Rightarrow> h e w' | (Inr x, w') \<Rightarrow> (Inr x, w'))"

text \<open>\<open>db.transaction\<close>: \<open>undo w w'\<close> is \<open>w'\<close> with the transaction's tables as they were in \<open>w\<close>.\<close>

definition atomic :: "('w \<Rightarrow> 'w \<Rightarrow> 'w) \<Rightarrow> ('w, 'a) step \<Rightarrow> ('w, 'a) step" where
  "atomic undo m w = (case m w of (Inr x, w') \<Rightarrow> (Inr x, w') | (Inl e, w') \<Rightarrow> (Inl e, undo w w'))"

lemmas step_defs = ret_def throw_def check_def lift_def peek_def fetch_def alter_def

section \<open>Runs that return\<close>

lemma bnd_Inr: "bnd m f w = (Inr y, w') \<longleftrightarrow> (\<exists>x w1. m w = (Inr x, w1) \<and> f x w1 = (Inr y, w'))"
  by (auto simp: bnd_def split: prod.splits sum.splits)

lemma bnd_simps [simp]:
  "bnd (ret x) f = f x" "bnd (throw e) f = throw e"
  by (auto simp: bnd_def ret_def throw_def)

lemma check_Inr: "check b e w = (Inr u, w') \<longleftrightarrow> b \<and> w' = w"
  by (auto simp: check_def ret_def throw_def)

lemma lift_Inr: "lift r w = (Inr x, w') \<longleftrightarrow> r = Inr x \<and> w' = w"
  by (auto simp: lift_def)

lemma ret_Inr: "ret y w = (Inr x, w') \<longleftrightarrow> x = y \<and> w' = w"
  by (auto simp: ret_def)

lemma throw_Inr: "throw e w \<noteq> (Inr x, w')"
  by (simp add: throw_def)

lemma peek_Inr: "peek f w = (Inr x, w') \<longleftrightarrow> x = f w \<and> w' = w"
  by (auto simp: peek_def)

lemma fetch_Inr: "fetch f e w = (Inr x, w') \<longleftrightarrow> f w = Some x \<and> w' = w"
  by (auto simp: fetch_def optR_Inr)

lemma alter_Inr: "alter f w = (Inr x, w') \<longleftrightarrow> w' = f w"
  by (auto simp: alter_def)

lemma attempt_Inr: "attempt f w = (Inr x, w') \<longleftrightarrow> f w = Inr (x, w')"
  by (auto simp: attempt_def split: sum.splits)

lemma atomic_Inr: "atomic undo m w = (Inr x, w') \<longleftrightarrow> m w = (Inr x, w')"
  by (auto simp: atomic_def split: prod.splits sum.splits)

lemmas step_simps = bnd_Inr check_Inr lift_Inr ret_Inr throw_Inr peek_Inr fetch_Inr alter_Inr attempt_Inr atomic_Inr

text \<open>For evaluation: a step is taken before the rest is looked at.\<close>

lemma bnd_unfold [code_unfold]:
  "bnd m f = (\<lambda>w. case m w of (r, w') \<Rightarrow> (case r of Inl e \<Rightarrow> (Inl e, w') | Inr x \<Rightarrow> f x w'))"
  by (rule ext) (simp add: bnd_def split: prod.splits sum.splits)

section \<open>What every run keeps\<close>

text \<open>\<open>holds P m\<close>: a run of \<open>m\<close> from a state with \<open>P\<close> leaves a state with \<open>P\<close>, returning or throwing.\<close>

definition holds :: "('w \<Rightarrow> bool) \<Rightarrow> ('w, 'a) step \<Rightarrow> bool" where
  "holds P m \<longleftrightarrow> (\<forall>w. P w \<longrightarrow> P (snd (m w)))"

named_theorems holds_intros

lemma holdsI: "(\<And>w. P w \<Longrightarrow> P (snd (m w))) \<Longrightarrow> holds P m"
  by (simp add: holds_def)

lemma holdsD: "holds P m \<Longrightarrow> P w \<Longrightarrow> P (snd (m w))"
  by (simp add: holds_def)

lemma holds_run: "holds P m \<Longrightarrow> P w \<Longrightarrow> m w = (r, w') \<Longrightarrow> P w'"
  using holdsD [of P m w] by simp

lemma snd_bnd: "snd (bnd m f w) = (case m w of (Inl e, w') \<Rightarrow> w' | (Inr x, w') \<Rightarrow> snd (f x w'))"
  by (auto simp: bnd_def split: prod.splits sum.splits)

lemma snd_steps:
  "snd (bnd (check b e) k w) = (if b then snd (k () w) else w)"
  "snd (bnd (peek f) k w) = snd (k (f w) w)"
  "snd (bnd (fetch g e) h w) = (case g w of None \<Rightarrow> w | Some x \<Rightarrow> snd (h x w))"
  "snd (bnd (alter a) k w) = snd (k () (a w))"
  by (auto simp: snd_bnd step_defs optR_def split: option.splits)

lemma holds_bnd [holds_intros]:
  assumes "holds P m" and "\<And>x. holds P (f x)" shows "holds P (bnd m f)"
proof (rule holdsI)
  fix w assume P: "P w"
  obtain a w1 where m: "m w = (a, w1)" by force
  have "P w1" by (rule holds_run [OF assms(1) P m])
  then show "P (snd (bnd m f w))"
    by (cases a) (auto simp: snd_bnd m intro: holdsD [OF assms(2)])
qed

lemma holds_quiet [holds_intros]:
  "holds P (ret x)" "holds P (throw e)" "holds P (check b e)" "holds P (lift r)" "holds P (peek f)" "holds P (fetch g e)"
  by (simp_all add: holds_def step_defs)

lemma holds_alter [holds_intros]: "(\<And>w. P w \<Longrightarrow> P (f w)) \<Longrightarrow> holds P (alter f)"
  by (simp add: holds_def alter_def)

lemma holds_attempt [holds_intros]: "(\<And>w x w'. P w \<Longrightarrow> f w = Inr (x, w') \<Longrightarrow> P w') \<Longrightarrow> holds P (attempt f)"
  by (auto simp: holds_def attempt_def split: sum.splits)

lemma holds_each [holds_intros]: "(\<And>x. holds P (f x)) \<Longrightarrow> holds P (each f xs)"
  by (induction xs) (auto intro: holds_intros)

lemma holds_collect [holds_intros]: "(\<And>x. holds P (f x)) \<Longrightarrow> holds P (collect f xs)"
  by (induction xs) (auto intro: holds_intros)

lemma holds_handle [holds_intros]: "holds P m \<Longrightarrow> (\<And>e. holds P (h e)) \<Longrightarrow> holds P (handle m h)"
  by (force simp: holds_def handle_def split: prod.splits sum.splits)

lemma holds_atomic [holds_intros]:
  "holds P m \<Longrightarrow> (\<And>w w'. P w \<Longrightarrow> P w' \<Longrightarrow> P (undo w w')) \<Longrightarrow> holds P (atomic undo m)"
  by (force simp: holds_def atomic_def split: prod.splits sum.splits)

text \<open>Inside a transaction only the runs that return matter.\<close>

lemma holds_atomic_returns:
  assumes "\<And>w x w'. P w \<Longrightarrow> m w = (Inr x, w') \<Longrightarrow> P w'" and "\<And>w w'. P w \<Longrightarrow> P (undo w w')"
  shows "holds P (atomic undo m)"
  using assms by (force simp: holds_def atomic_def split: prod.splits sum.splits)

lemma holds_if [holds_intros]: "(b \<Longrightarrow> holds P m) \<Longrightarrow> (\<not> b \<Longrightarrow> holds P n) \<Longrightarrow> holds P (if b then m else n)"
  by simp

lemma holds_option [holds_intros]:
  "holds P m \<Longrightarrow> (\<And>x. holds P (f x)) \<Longrightarrow> holds P (case v of None \<Rightarrow> m | Some x \<Rightarrow> f x)"
  by (cases v) auto

lemma holds_let [holds_intros]: "(\<And>x. holds P (f x)) \<Longrightarrow> holds P (let x = v in f x)"
  by simp

lemma holds_prod [holds_intros]: "(\<And>a b. holds P (f a b)) \<Longrightarrow> holds P (case p of (a, b) \<Rightarrow> f a b)"
  by (cases p) simp

text \<open>Reading first: what is known of the value read may be used in the rest.\<close>

lemma holds_fetch_bnd: "(\<And>w x. P w \<Longrightarrow> f w = Some x \<Longrightarrow> P (snd (k x w))) \<Longrightarrow> holds P (bnd (fetch f e) k)"
  by (auto simp: holds_def snd_steps split: option.splits)

section \<open>What is true when a step returns\<close>

text \<open>The weakest condition under which every run of \<open>m\<close> that returns ends with \<open>Q\<close>.\<close>

definition wlp :: "('w, 'a) step \<Rightarrow> ('a \<Rightarrow> 'w \<Rightarrow> bool) \<Rightarrow> 'w \<Rightarrow> bool" where
  "wlp m Q w \<longleftrightarrow> (\<forall>x w'. m w = (Inr x, w') \<longrightarrow> Q x w')"

named_theorems wlp_simps

lemma wlp_bnd [wlp_simps]: "wlp (bnd m f) Q = wlp m (\<lambda>x. wlp (f x) Q)"
  by (rule ext) (auto simp: wlp_def bnd_Inr)

lemma wlp_steps [wlp_simps]:
  "wlp (ret x) Q = Q x" "wlp (throw e) Q = (\<lambda>w. True)" "wlp (check b e) P = (\<lambda>w. b \<longrightarrow> P () w)"
  "wlp (lift r) Q = (\<lambda>w. \<forall>x. r = Inr x \<longrightarrow> Q x w)" "wlp (peek g) R = (\<lambda>w. R (g w) w)"
  "wlp (fetch p e) S = (\<lambda>w. \<forall>x. p w = Some x \<longrightarrow> S x w)" "wlp (alter a) P = (\<lambda>w. P () (a w))"
  "wlp (attempt h) Q = (\<lambda>w. \<forall>x w'. h w = Inr (x, w') \<longrightarrow> Q x w')"
  by (auto simp: wlp_def ret_Inr throw_Inr check_Inr lift_Inr peek_Inr fetch_Inr alter_Inr attempt_Inr)

lemma wlp_cases [wlp_simps]:
  "wlp (if b then m else n) Q = (if b then wlp m Q else wlp n Q)"
  "wlp (case v of None \<Rightarrow> m | Some x \<Rightarrow> g x) Q = (case v of None \<Rightarrow> wlp m Q | Some x \<Rightarrow> wlp (g x) Q)"
  "wlp (let x = y in h x) Q = (let x = y in wlp (h x) Q)"
  by (auto split: option.splits)

lemma wlp_atomic [wlp_simps]: "wlp (atomic undo m) Q = wlp m Q"
  by (rule ext) (simp add: wlp_def atomic_Inr)

lemma wlp_mono: "wlp m Q w \<Longrightarrow> (\<And>x w'. Q x w' \<Longrightarrow> R x w') \<Longrightarrow> wlp m R w"
  by (simp add: wlp_def)

lemma wlpD: "wlp m Q w \<Longrightarrow> m w = (Inr x, w') \<Longrightarrow> Q x w'"
  by (simp add: wlp_def)

lemma wlp_each:
  assumes "\<And>x w. x \<in> set xs \<Longrightarrow> P w \<Longrightarrow> wlp (f x) (\<lambda>_. P) w" and "P w"
  shows "wlp (each f xs) (\<lambda>_. P) w"
  using assms
proof (induction xs arbitrary: w)
  case (Cons x xs)
  have rest: "wlp (each f xs) (\<lambda>_. P) w'" if "P w'" for w' by (rule Cons.IH [OF _ that]) (use Cons.prems in simp)
  have "wlp (f x) (\<lambda>_. P) w" using Cons.prems by simp
  then show ?case unfolding each.simps wlp_bnd by (rule wlp_mono) (rule rest)
qed (simp add: wlp_steps)

lemma wlp_collect:
  assumes "\<And>x w. x \<in> set xs \<Longrightarrow> P w \<Longrightarrow> wlp (f x) (\<lambda>_. P) w" and "P w"
  shows "wlp (collect f xs) (\<lambda>_. P) w"
  using assms
proof (induction xs arbitrary: w)
  case (Cons x xs)
  have rest: "wlp (collect f xs) (\<lambda>_. P) w'" if "P w'" for w' by (rule Cons.IH [OF _ that]) (use Cons.prems in simp)
  have "wlp (f x) (\<lambda>_. P) w" using Cons.prems by simp
  then show ?case unfolding collect.simps wlp_bnd wlp_steps by (rule wlp_mono) (rule rest)
qed (simp add: wlp_steps)

text \<open>Inside a transaction only the runs that return matter.\<close>

lemma holds_atomic_wlp:
  "(\<And>w. P w \<Longrightarrow> wlp m (\<lambda>_. P) w) \<Longrightarrow> (\<And>w w'. P w \<Longrightarrow> P (undo w w')) \<Longrightarrow> holds P (atomic undo m)"
  by (rule holds_atomic_returns) (auto dest: wlpD)

end
