(* ===== verification/AuthStore.thy ===== *)
theory AuthStore
  imports Access Jwt Steps
begin

text \<open>
  The tables of signing in and their repositories: \<open>src/modules/auth/repository.ts\<close>,
  \<open>verification.repository.ts\<close> and the tenant and notification inserts they are used with. Every
  random value (row ids, salts, codes) is a draw; \<open>aw_next\<close> counts the draws. Log lines,
  metrics, user agents and metadata are left out, as are columns this code neither reads nor writes and failures
  of the database other than its constraints.
\<close>

section \<open>Errors\<close>

definition otpExpired :: "err_details \<Rightarrow> js_error" where "otpExpired d = mkErr ''OTP expired'' OTP_EXPIRED 400 d"
definition otpInvalid :: "err_details \<Rightarrow> js_error" where "otpInvalid d = mkErr ''OTP invalid'' OTP_INVALID 400 d"

definition otpAttemptsExceeded :: "err_details \<Rightarrow> js_error" where
  "otpAttemptsExceeded d = mkErr ''OTP attempts exceeded'' OTP_ATTEMPTS_EXCEEDED 429 d"

definition phoneNotSupported :: "err_details \<Rightarrow> js_error" where
  "phoneNotSupported d = mkErr ''Phone number not supported'' PHONE_NOT_SUPPORTED 400 d"

definition twilioUnavailable :: "err_details \<Rightarrow> js_error" where
  "twilioUnavailable d = mkErr ''Twilio Verify unavailable'' TWILIO_UNAVAILABLE 503 d"

definition verificationSessionNotFound :: js_error where
  "verificationSessionNotFound = mkErr ''Verification session not found'' VERIFICATION_SESSION_NOT_FOUND 404 None"

text \<open>Details that are a text and not an object.\<close>

definition text_detail :: "string \<Rightarrow> err_details" where "text_detail m = Some [([], m)]"

definition unique_violation :: "string \<Rightarrow> js_error" where "unique_violation c = DbErr ''23505'' c"
definition fk_violation :: "string \<Rightarrow> js_error" where "fk_violation c = DbErr ''23503'' c"

section \<open>Phone numbers\<close>

definition phone_noise :: "char \<Rightarrow> bool" where "phone_noise c \<longleftrightarrow> is_space c \<or> c \<in> set ''().-''"

definition is_e164 :: "string \<Rightarrow> bool" where
  "is_e164 s = (case s of
     p # d # ds \<Rightarrow> p = CHR ''+'' \<and> is_digit d \<and> d \<noteq> CHR ''0'' \<and> list_all is_digit ds \<and> 1 \<le> length ds \<and> length ds \<le> 14
   | _ \<Rightarrow> False)"

definition normalizePhoneNumber :: "string \<Rightarrow> string res" where
  "normalizePhoneNumber value =
     (let trimmed = trim value;
          compact = filter (\<lambda>c. \<not> phone_noise c) trimmed;
          normalized = (if take 2 compact = ''00'' then CHR ''+'' # drop 2 compact else compact)
      in if trimmed = [] then Inl (PlainErr ''phone number is required'')
         else if take 1 normalized \<noteq> ''+'' then Inl (PlainErr ''phone number must include a country code'')
         else if tl normalized = [] \<or> \<not> list_all is_digit (tl normalized)
           then Inl (PlainErr ''phone number may only contain digits and a leading plus'')
         else if \<not> is_e164 normalized then Inl (PlainErr ''phone number must be a valid E.164 number'')
         else Inr normalized)"

section \<open>Tables\<close>

record user_row =
  us_id :: id
  us_username :: string
  us_fullName :: string
  us_phone :: "string option"
  us_email :: "string option"
  us_phoneVerifiedAt :: "time_ms option"
  us_emailVerifiedAt :: "time_ms option"
  us_optIn :: bool
  us_updatedAt :: time_ms

datatype auth_provider = P_email | P_phone | P_google | P_apple | P_whatsapp | P_magic_link

record auth_account =
  ac_id :: id
  ac_user :: id
  ac_provider :: auth_provider
  ac_email :: "string option"
  ac_passwordHash :: "string option"
  ac_accountId :: "string option"
  ac_primary :: bool
  ac_verified :: bool
  ac_lastLoginAt :: "time_ms option"

record session_row =
  se_id :: id
  se_user :: id
  se_hash :: string
  se_expiresAt :: time_ms
  se_ip :: "string option"

datatype signup_status = S_pending | S_verified | S_expired | S_cancelled

record signup_session =
  sv_id :: id
  sv_phone :: string
  sv_email :: string
  sv_username :: string
  sv_fullName :: string
  sv_passwordHash :: string
  sv_optIn :: bool
  sv_sid :: "string option"
  sv_status :: signup_status
  sv_attempts :: int
  sv_verifiedAt :: "time_ms option"
  sv_expiresAt :: time_ms
  sv_ip :: "string option"

datatype audit_type = Signup_started | Otp_sent | Otp_resend | Otp_verified | Otp_failed | Signup_completed

record audit_log =
  au_type :: audit_type
  au_actor :: "id option"
  au_entity :: id
  au_phone :: string
  au_email :: string
  au_username :: string
  au_correlation :: string
  au_ip :: "string option"
  au_createdAt :: time_ms

record verification_event =
  vf_type :: string
  vf_source :: string
  vf_actor :: "id option"
  vf_tenant :: "id option"
  vf_email :: "string option"
  vf_phone :: "string option"
  vf_ip :: "string option"
  vf_createdAt :: time_ms

datatype otp_purpose = For_signup | For_login | For_password_reset | For_phone_change | For_email_change

record otp_row =
  ov_id :: id
  ov_user :: "id option"
  ov_phone :: string
  ov_hash :: string
  ov_purpose :: otp_purpose
  ov_attempts :: int
  ov_expiresAt :: time_ms
  ov_verifiedAt :: "time_ms option"
  ov_deletedAt :: "time_ms option"
  ov_createdAt :: time_ms

record email_token =
  et_id :: id
  et_user :: id
  et_hash :: string
  et_expiresAt :: time_ms
  et_verifiedAt :: "time_ms option"
  et_deletedAt :: "time_ms option"
  et_createdAt :: time_ms

datatype approval = AP_pending | AP_approved | AP_rejected

record workspace =
  ws_id :: id
  ws_name :: string
  ws_slug :: string
  ws_email :: string
  ws_phone :: string
  ws_createdBy :: id
  ws_approval :: approval

record delivery =
  dl_tenant :: id
  dl_user :: "id option"
  dl_to :: string

record auth_world =
  aw_users :: "user_row list"
  aw_accounts :: "auth_account list"
  aw_sessions :: "session_row list"
  aw_signups :: "signup_session list"
  aw_audit :: "audit_log list"
  aw_events :: "verification_event list"
  aw_otps :: "otp_row list"
  aw_tokens :: "email_token list"
  aw_tenants :: "workspace list"
  aw_members :: "member_row list"
  aw_outbox :: "delivery list"
  aw_throttle :: "string \<Rightarrow> time_ms option"
  aw_next :: nat

text \<open>
  The outside: the clock, the draws, argon2, SHA-256, the token functions, what Twilio answers, whether
  Redis is there, how many turns of a loop a request outlives, and the settings of
  \<open>config/env.ts\<close>.
\<close>

datatype twilio_reply =
    Unreachable string
  | Refused "int option" "int option" string
  | Answered string string "bool option"

record auth_env =
  ae_now :: time_ms
  ae_uuid :: "nat \<Rightarrow> id"
  ae_hash :: "nat \<Rightarrow> string \<Rightarrow> string"
  ae_verify :: "string \<Rightarrow> string \<Rightarrow> bool res"
  ae_sha256 :: "string \<Rightarrow> string"
  ae_jwt :: jwt_lib
  ae_bytes :: "nat \<Rightarrow> nat list"
  ae_random :: "nat \<Rightarrow> nat"
  ae_patience :: nat
  ae_twilio :: "nat \<Rightarrow> string \<Rightarrow> (string \<times> string) list \<Rightarrow> twilio_reply"
  ae_redis :: bool
  ae_production :: bool
  ae_bypassOtp :: bool
  ae_bypassEmail :: bool
  ae_twilioReady :: bool
  ae_accessSecret :: string
  ae_refreshSecret :: string
  ae_accessExpires :: string
  ae_refreshExpires :: string
  ae_otpMinutes :: int
  ae_otpMaxAttempts :: int
  ae_emailHours :: int
  ae_otpPerPhone :: int
  ae_otpPerIp :: int
  ae_emailPerEmail :: int
  ae_emailPerIp :: int

type_synonym 'a auth_step = "(auth_world, 'a) step"

definition draw :: "(nat \<Rightarrow> 'a) \<Rightarrow> 'a auth_step" where
  "draw f = attempt (\<lambda>w. Inr (f (aw_next w), w\<lparr>aw_next := Suc (aw_next w)\<rparr>))"

definition randomUUID :: "auth_env \<Rightarrow> id auth_step" where "randomUUID E = draw (ae_uuid E)"

definition hashPassword :: "auth_env \<Rightarrow> string \<Rightarrow> string auth_step" where
  "hashPassword E password = draw (\<lambda>n. ae_hash E n password)"

text \<open>A transaction covers every table; what other connections wrote stays: events, mails, Redis.\<close>

definition auth_undo :: "auth_world \<Rightarrow> auth_world \<Rightarrow> auth_world" where
  "auth_undo w w' = w'\<lparr>aw_users := aw_users w, aw_accounts := aw_accounts w, aw_sessions := aw_sessions w,
     aw_signups := aw_signups w, aw_audit := aw_audit w, aw_otps := aw_otps w, aw_tokens := aw_tokens w,
     aw_tenants := aw_tenants w, aw_members := aw_members w\<rparr>"

definition auth_tx :: "'a auth_step \<Rightarrow> 'a auth_step" where "auth_tx m = atomic auth_undo m"

definition first_of :: "'a option \<Rightarrow> 'a option \<Rightarrow> 'a option" where
  "first_of x y = (case x of None \<Rightarrow> y | Some v \<Rightarrow> Some v)"

section \<open>Users, accounts and sessions\<close>

definition findUserById :: "id \<Rightarrow> auth_world \<Rightarrow> user_row option" where
  "findUserById i w = List.find (\<lambda>u. us_id u = i) (aw_users w)"

definition findUserByUsername :: "string \<Rightarrow> auth_world \<Rightarrow> user_row option" where
  "findUserByUsername n w = List.find (\<lambda>u. us_username u = n) (aw_users w)"

definition findUserByPhoneNumber :: "string \<Rightarrow> auth_world \<Rightarrow> user_row option" where
  "findUserByPhoneNumber p w = List.find (\<lambda>u. us_phone u = Some p) (aw_users w)"

definition findAuthAccountByProviderAndAccountId :: "auth_provider \<Rightarrow> string \<Rightarrow> auth_world \<Rightarrow> auth_account option" where
  "findAuthAccountByProviderAndAccountId p i w =
     List.find (\<lambda>a. ac_provider a = p \<and> ac_accountId a = Some i) (aw_accounts w)"

definition findAuthAccountsByUserId :: "id \<Rightarrow> auth_world \<Rightarrow> auth_account list" where
  "findAuthAccountsByUserId u w = filter (\<lambda>a. ac_user a = u) (aw_accounts w)"

text \<open>The id of an inserted row is the database's draw.\<close>

definition createUserRecord :: "auth_env \<Rightarrow> user_row \<Rightarrow> user_row auth_step" where
  "createUserRecord E u = bnd (randomUUID E) (\<lambda>i. attempt (\<lambda>w.
     if list_ex (\<lambda>x. us_username x = us_username u) (aw_users w) then Inl (unique_violation ''users_username_unique'')
     else if us_phone u \<noteq> None \<and> list_ex (\<lambda>x. us_phone x = us_phone u) (aw_users w)
       then Inl (unique_violation ''users_phone_number_unique'')
     else let r = u\<lparr>us_id := i\<rparr> in Inr (r, w\<lparr>aw_users := aw_users w @ [r]\<rparr>)))"

definition createAuthAccount :: "auth_env \<Rightarrow> auth_account \<Rightarrow> auth_account auth_step" where
  "createAuthAccount E a = bnd (randomUUID E) (\<lambda>i. attempt (\<lambda>w.
     if ac_accountId a \<noteq> None
         \<and> list_ex (\<lambda>x. ac_provider x = ac_provider a \<and> ac_accountId x = ac_accountId a) (aw_accounts w)
       then Inl (unique_violation ''auth_accounts_provider_account_unique'')
     else if ac_primary a \<and> list_ex (\<lambda>x. ac_primary x \<and> ac_user x = ac_user a) (aw_accounts w)
       then Inl (unique_violation ''auth_accounts_primary_unique'')
     else let r = a\<lparr>ac_id := i\<rparr> in Inr (r, w\<lparr>aw_accounts := aw_accounts w @ [r]\<rparr>)))"

definition createSessionRecord :: "session_row \<Rightarrow> session_row auth_step" where
  "createSessionRecord s = attempt (\<lambda>w.
     if list_ex (\<lambda>x. se_id x = se_id s) (aw_sessions w) then Inl (unique_violation ''sessions_pkey'')
     else Inr (s, w\<lparr>aw_sessions := aw_sessions w @ [s]\<rparr>))"

definition findSessionById :: "id \<Rightarrow> auth_world \<Rightarrow> session_row option" where
  "findSessionById i w = List.find (\<lambda>s. se_id s = i) (aw_sessions w)"

definition deleteSessionById :: "id \<Rightarrow> auth_world \<Rightarrow> auth_world" where
  "deleteSessionById i w = w\<lparr>aw_sessions := filter (\<lambda>s. se_id s \<noteq> i) (aw_sessions w)\<rparr>"

text \<open>An update by id: the row after it, none when there is no such row.\<close>

definition updateSessionRefreshTokenHash :: "id \<Rightarrow> string \<Rightarrow> time_ms \<Rightarrow> session_row option auth_step" where
  "updateSessionRefreshTokenHash i h t =
     (let f = (\<lambda>s. s\<lparr>se_hash := h, se_expiresAt := t\<rparr>)
      in attempt (\<lambda>w. Inr (map_option f (findSessionById i w),
           w\<lparr>aw_sessions := update_where (\<lambda>s. se_id s = i) f (aw_sessions w)\<rparr>)))"

definition updateAuthAccountLastLoginAt :: "id \<Rightarrow> time_ms \<Rightarrow> auth_world \<Rightarrow> auth_world" where
  "updateAuthAccountLastLoginAt i t w =
     w\<lparr>aw_accounts := update_where (\<lambda>a. ac_id a = i) (\<lambda>a. a\<lparr>ac_lastLoginAt := Some t\<rparr>) (aw_accounts w)\<rparr>"

definition findMembershipsForUser :: "id \<Rightarrow> auth_world \<Rightarrow> member_row list" where
  "findMembershipsForUser u w = filter (\<lambda>m. mb_userId m = u) (aw_members w)"

definition update_user :: "id \<Rightarrow> (user_row \<Rightarrow> user_row) \<Rightarrow> time_ms \<Rightarrow> user_row option auth_step" where
  "update_user i f now =
     (let g = (\<lambda>u. (f u)\<lparr>us_updatedAt := now\<rparr>)
      in attempt (\<lambda>w. Inr (map_option g (findUserById i w),
           w\<lparr>aw_users := update_where (\<lambda>u. us_id u = i) g (aw_users w)\<rparr>)))"

definition updateUserEmailVerified :: "auth_env \<Rightarrow> id \<Rightarrow> user_row option auth_step" where
  "updateUserEmailVerified E i = update_user i (\<lambda>u. u\<lparr>us_emailVerifiedAt := Some (ae_now E)\<rparr>) (ae_now E)"

definition updateUserPhoneVerified :: "auth_env \<Rightarrow> id \<Rightarrow> user_row option auth_step" where
  "updateUserPhoneVerified E i = update_user i (\<lambda>u. u\<lparr>us_phoneVerifiedAt := Some (ae_now E)\<rparr>) (ae_now E)"

definition findUserByEmailAddress :: "string \<Rightarrow> auth_world \<Rightarrow> user_row option" where
  "findUserByEmailAddress email w =
     (case List.find (\<lambda>a. ac_email a = Some (toLowerCase (trim email))) (aw_accounts w) of
        None \<Rightarrow> None | Some a \<Rightarrow> findUserById (ac_user a) w)"

definition findUserByPhone :: "string \<Rightarrow> auth_world \<Rightarrow> user_row option" where
  "findUserByPhone phone w = List.find (\<lambda>u. us_phone u = Some (trim phone)) (aw_users w)"

section \<open>Tenants\<close>

definition createTenantRecord :: "auth_env \<Rightarrow> workspace \<Rightarrow> workspace auth_step" where
  "createTenantRecord E t = bnd (randomUUID E) (\<lambda>i. attempt (\<lambda>w.
     if list_ex (\<lambda>x. ws_slug x = ws_slug t) (aw_tenants w) then Inl (unique_violation ''tenants_slug_unique'')
     else let r = t\<lparr>ws_id := i\<rparr> in Inr (r, w\<lparr>aw_tenants := aw_tenants w @ [r]\<rparr>)))"

definition createTenantMemberRecord :: "member_row \<Rightarrow> member_row auth_step" where
  "createTenantMemberRecord m = attempt (\<lambda>w.
     if list_ex (\<lambda>x. mb_tenantId x = mb_tenantId m \<and> mb_userId x = mb_userId m) (aw_members w)
       then Inl (unique_violation ''tenant_members_tenant_user_unique'')
     else Inr (m, w\<lparr>aw_members := aw_members w @ [m]\<rparr>))"

section \<open>Signup sessions and the audit log\<close>

definition createSignupVerificationSession :: "auth_env \<Rightarrow> signup_session \<Rightarrow> signup_session auth_step" where
  "createSignupVerificationSession E s = bnd (randomUUID E) (\<lambda>i. attempt (\<lambda>w.
     let r = s\<lparr>sv_id := i\<rparr> in Inr (r, w\<lparr>aw_signups := aw_signups w @ [r]\<rparr>)))"

definition findSignupVerificationSessionById :: "id \<Rightarrow> auth_world \<Rightarrow> signup_session option" where
  "findSignupVerificationSessionById i w = List.find (\<lambda>s. sv_id s = i) (aw_signups w)"

definition update_signup :: "(signup_session \<Rightarrow> bool) \<Rightarrow> (signup_session \<Rightarrow> signup_session) \<Rightarrow> signup_session option auth_step" where
  "update_signup hit f = attempt (\<lambda>w. Inr (map_option f (List.find hit (aw_signups w)),
     w\<lparr>aw_signups := update_where hit f (aw_signups w)\<rparr>))"

definition updateSignupVerificationSessionVerificationSid :: "id \<Rightarrow> string \<Rightarrow> signup_session option auth_step" where
  "updateSignupVerificationSessionVerificationSid i sid = update_signup (\<lambda>s. sv_id s = i) (\<lambda>s. s\<lparr>sv_sid := Some sid\<rparr>)"

definition markSignupVerificationSessionVerified :: "id \<Rightarrow> time_ms \<Rightarrow> signup_session option auth_step" where
  "markSignupVerificationSessionVerified i t =
     update_signup (\<lambda>s. sv_id s = i \<and> sv_status s = S_pending) (\<lambda>s. s\<lparr>sv_status := S_verified, sv_verifiedAt := Some t\<rparr>)"

definition markSignupVerificationSessionExpired :: "id \<Rightarrow> signup_session option auth_step" where
  "markSignupVerificationSessionExpired i = update_signup (\<lambda>s. sv_id s = i) (\<lambda>s. s\<lparr>sv_status := S_expired\<rparr>)"

definition markSignupVerificationSessionCancelled :: "id \<Rightarrow> signup_session option auth_step" where
  "markSignupVerificationSessionCancelled i = update_signup (\<lambda>s. sv_id s = i) (\<lambda>s. s\<lparr>sv_status := S_cancelled\<rparr>)"

definition claimSignupVerificationAttempt :: "time_ms \<Rightarrow> id \<Rightarrow> int \<Rightarrow> signup_session option auth_step" where
  "claimSignupVerificationAttempt now i maxAttempts =
     update_signup (\<lambda>s. sv_id s = i \<and> sv_status s = S_pending \<and> now \<le> sv_expiresAt s \<and> sv_attempts s < maxAttempts)
       (\<lambda>s. s\<lparr>sv_attempts := sv_attempts s + 1\<rparr>)"

text \<open>A missing criterion, and an empty one, is no condition.\<close>

definition countSignupVerificationAuditEvents :: "string option \<Rightarrow> string option \<Rightarrow> time_ms \<Rightarrow> auth_world \<Rightarrow> nat" where
  "countSignupVerificationAuditEvents phone ip since w =
     length (filter (\<lambda>a. since \<le> au_createdAt a \<and> (au_type a = Signup_started \<or> au_type a = Otp_resend)
       \<and> (truthy phone \<longrightarrow> Some (au_phone a) = phone) \<and> (truthy ip \<longrightarrow> au_ip a = ip)) (aw_audit w))"

definition createAuditLogRecord :: "audit_log \<Rightarrow> auth_world \<Rightarrow> auth_world" where
  "createAuditLogRecord a w = w\<lparr>aw_audit := aw_audit w @ [a]\<rparr>"

section \<open>Verification events, codes and email tokens\<close>

definition insertVerificationEvent :: "verification_event \<Rightarrow> auth_world \<Rightarrow> auth_world" where
  "insertVerificationEvent v w = w\<lparr>aw_events := aw_events w @ [v]\<rparr>"

definition createEmailVerificationToken :: "auth_env \<Rightarrow> id \<Rightarrow> string \<Rightarrow> time_ms \<Rightarrow> email_token auth_step" where
  "createEmailVerificationToken E u h expires = bnd (randomUUID E) (\<lambda>i. attempt (\<lambda>w.
     let r = \<lparr>et_id = i, et_user = u, et_hash = h, et_expiresAt = expires, et_verifiedAt = None, et_deletedAt = None,
              et_createdAt = ae_now E\<rparr>
     in Inr (r, w\<lparr>aw_tokens := aw_tokens w @ [r]\<rparr>)))"

definition findEmailVerificationTokenByHash :: "string \<Rightarrow> auth_world \<Rightarrow> email_token option" where
  "findEmailVerificationTokenByHash h w = List.find (\<lambda>t. et_hash t = h \<and> et_deletedAt t = None) (aw_tokens w)"

definition markEmailVerificationTokenVerified :: "time_ms \<Rightarrow> id \<Rightarrow> auth_world \<Rightarrow> auth_world" where
  "markEmailVerificationTokenVerified now i w =
     w\<lparr>aw_tokens := update_where (\<lambda>t. et_id t = i) (\<lambda>t. t\<lparr>et_verifiedAt := Some now\<rparr>) (aw_tokens w)\<rparr>"

definition softDeleteEmailVerificationTokensForUser :: "time_ms \<Rightarrow> id \<Rightarrow> auth_world \<Rightarrow> auth_world" where
  "softDeleteEmailVerificationTokensForUser now u w =
     w\<lparr>aw_tokens := update_where (\<lambda>t. et_user t = u \<and> et_deletedAt t = None \<and> et_verifiedAt t = None)
        (\<lambda>t. t\<lparr>et_deletedAt := Some now\<rparr>) (aw_tokens w)\<rparr>"

definition createOtpVerification ::
    "auth_env \<Rightarrow> id option \<Rightarrow> string \<Rightarrow> string \<Rightarrow> otp_purpose \<Rightarrow> time_ms \<Rightarrow> otp_row auth_step" where
  "createOtpVerification E u phone h purpose expires = bnd (randomUUID E) (\<lambda>i. attempt (\<lambda>w.
     let r = \<lparr>ov_id = i, ov_user = u, ov_phone = phone, ov_hash = h, ov_purpose = purpose, ov_attempts = 0,
              ov_expiresAt = expires, ov_verifiedAt = None, ov_deletedAt = None, ov_createdAt = ae_now E\<rparr>
     in Inr (r, w\<lparr>aw_otps := aw_otps w @ [r]\<rparr>)))"

text \<open>The newest of the rows: \<open>order by created_at desc limit 1\<close>.\<close>

definition newest :: "('r \<Rightarrow> time_ms) \<Rightarrow> 'r list \<Rightarrow> 'r option" where
  "newest t rows = foldl (\<lambda>best r. case best of None \<Rightarrow> Some r | Some b \<Rightarrow> if t b < t r then Some r else best) None rows"

definition findLatestActiveOtpVerification :: "time_ms \<Rightarrow> string \<Rightarrow> otp_purpose \<Rightarrow> auth_world \<Rightarrow> otp_row option" where
  "findLatestActiveOtpVerification now phone purpose w =
     newest ov_createdAt (filter (\<lambda>o'. ov_phone o' = phone \<and> ov_purpose o' = purpose \<and> ov_deletedAt o' = None
       \<and> ov_verifiedAt o' = None \<and> now \<le> ov_expiresAt o') (aw_otps w))"

definition incrementOtpAttempts :: "id \<Rightarrow> otp_row option auth_step" where
  "incrementOtpAttempts i = (let f = (\<lambda>o'. o'\<lparr>ov_attempts := ov_attempts o' + 1\<rparr>)
     in attempt (\<lambda>w. Inr (map_option f (List.find (\<lambda>o'. ov_id o' = i) (aw_otps w)),
          w\<lparr>aw_otps := update_where (\<lambda>o'. ov_id o' = i) f (aw_otps w)\<rparr>)))"

definition markOtpVerificationVerified :: "time_ms \<Rightarrow> id \<Rightarrow> auth_world \<Rightarrow> auth_world" where
  "markOtpVerificationVerified now i w =
     w\<lparr>aw_otps := update_where (\<lambda>o'. ov_id o' = i) (\<lambda>o'. o'\<lparr>ov_verifiedAt := Some now\<rparr>) (aw_otps w)\<rparr>"

definition softDeleteOtpVerificationsForPhone :: "time_ms \<Rightarrow> string \<Rightarrow> otp_purpose \<Rightarrow> auth_world \<Rightarrow> auth_world" where
  "softDeleteOtpVerificationsForPhone now phone purpose w =
     w\<lparr>aw_otps := update_where (\<lambda>o'. ov_phone o' = phone \<and> ov_purpose o' = purpose \<and> ov_deletedAt o' = None
        \<and> ov_verifiedAt o' = None) (\<lambda>o'. o'\<lparr>ov_deletedAt := Some now\<rparr>) (aw_otps w)\<rparr>"

section \<open>The request\<close>

record request_meta =
  rm_ip :: "string option"
  rm_request :: "string option"
  rm_tenant :: "id option"
  rm_actor :: "id option"

definition event_of :: "auth_env \<Rightarrow> request_meta \<Rightarrow> string \<Rightarrow> string \<Rightarrow> verification_event" where
  "event_of E m ty source = \<lparr>vf_type = ty, vf_source = source, vf_actor = rm_actor m, vf_tenant = rm_tenant m,
     vf_email = None, vf_phone = None, vf_ip = rm_ip m, vf_createdAt = ae_now E\<rparr>"

end
