(* ===== verification/AuthCodes.thy ===== *)
theory AuthCodes
  imports AuthStore
begin

text \<open>
  What sends codes and mails: \<open>src/lib/twilio.ts\<close>, the sending of codes and mails of
  \<open>src/modules/notifications\<close> with the outbox of \<open>src/lib/email-client.ts\<close>, the hourly
  limit \<open>assertRateLimit\<close> of \<open>src/lib/rate-limiter.ts\<close>, and the hooks of
  \<open>src/modules/marketing/hooks.ts\<close> that sign-in calls.
\<close>

section \<open>Twilio\<close>

record twilio_answer =
  tw_sid :: string
  tw_status :: string
  tw_valid :: "bool option"

definition code_detail :: "int option \<Rightarrow> string \<Rightarrow> err_details" where
  "code_detail code m = Some ((case code of None \<Rightarrow> [] | Some c \<Rightarrow> [(''code'', show_int c)]) @ [(''message'', m)])"

definition normalizeTwilioError :: "int option \<Rightarrow> int option \<Rightarrow> string \<Rightarrow> js_error" where
  "normalizeTwilioError status code m =
     (let st = (case status of None \<Rightarrow> 500 | Some s \<Rightarrow> s); d = code_detail code m
      in if code = Some 20404 then twilioUnavailable (code_detail code ''Verification session not found'')
         else if code = Some 60202 then otpExpired d
         else if code = Some 60200 \<or> code = Some 60201 then phoneNotSupported d
         else if code = Some 60203 \<or> code = Some 60204 then otpAttemptsExceeded d
         else if st = 429 then rateLimited d
         else if st = 400 \<or> st = 404 then otpInvalid d
         else twilioUnavailable d)"

text \<open>The answer to the n-th draw.\<close>

definition twilioRequest :: "auth_env \<Rightarrow> string \<Rightarrow> (string \<times> string) list \<Rightarrow> twilio_answer auth_step" where
  "twilioRequest E path form = bnd (draw (\<lambda>n. ae_twilio E n path form)) (\<lambda>reply.
     case reply of
       Unreachable m \<Rightarrow> throw (twilioUnavailable (Some [(''message'', ''Unable to reach Twilio Verify API''), (''cause'', m)]))
     | Refused st code m \<Rightarrow> throw (normalizeTwilioError st code m)
     | Answered sid st valid \<Rightarrow> ret \<lparr>tw_sid = sid, tw_status = st, tw_valid = valid\<rparr>)"

definition test_number :: "auth_env \<Rightarrow> string \<Rightarrow> bool" where
  "test_number E phone \<longleftrightarrow> (let p = trim phone in take 5 p = ''+1555'' \<or> take 3 p = ''555'' \<or> ae_bypassOtp E)"

fun purpose_text :: "otp_purpose \<Rightarrow> string" where
  "purpose_text For_signup = ''signup''"
| "purpose_text For_login = ''login''"
| "purpose_text For_password_reset = ''password_reset''"
| "purpose_text For_phone_change = ''phone_change''"
| "purpose_text For_email_change = ''email_change''"

definition throttleKey :: "otp_purpose \<Rightarrow> string \<Rightarrow> string" where
  "throttleKey purpose phone = ''revelis:otp:throttle:'' @ purpose_text purpose @ '':'' @ phone"

text \<open>\<open>cacheService\<close>: without Redis nothing is kept.\<close>

definition cache_exists :: "auth_env \<Rightarrow> string \<Rightarrow> auth_world \<Rightarrow> bool" where
  "cache_exists E key w \<longleftrightarrow> ae_redis E \<and> (case aw_throttle w key of None \<Rightarrow> False | Some t \<Rightarrow> ae_now E < t)"

definition cache_set :: "auth_env \<Rightarrow> string \<Rightarrow> int \<Rightarrow> auth_world \<Rightarrow> auth_world" where
  "cache_set E key ttl w =
     (if ae_redis E then w\<lparr>aw_throttle := (aw_throttle w)(key \<mapsto> ae_now E + ttl * 1000)\<rparr> else w)"

definition cache_delete :: "auth_env \<Rightarrow> string \<Rightarrow> auth_world \<Rightarrow> auth_world" where
  "cache_delete E key w = (if ae_redis E then w\<lparr>aw_throttle := (aw_throttle w)(key := None)\<rparr> else w)"

text \<open>The events Twilio's calls record name no user.\<close>

definition twilio_event :: "auth_env \<Rightarrow> request_meta \<Rightarrow> string \<Rightarrow> string \<Rightarrow> auth_world \<Rightarrow> auth_world" where
  "twilio_event E m ty phone =
     insertVerificationEvent ((event_of E m ty ''otp'')\<lparr>vf_actor := None, vf_phone := Some phone\<rparr>)"

definition twilio_sendOtp :: "auth_env \<Rightarrow> string \<Rightarrow> otp_purpose \<Rightarrow> request_meta \<Rightarrow> twilio_answer auth_step" where
  "twilio_sendOtp E phone purpose m =
     bnd (peek (cache_exists E (throttleKey purpose phone))) (\<lambda>throttled.
     bnd (check (\<not> (ae_production E \<and> throttled))
            (rateLimited (text_detail ''Please wait 60 seconds before requesting another OTP''))) (\<lambda>_.
     if \<not> ae_production E \<and> test_number E phone then
       bnd (alter (twilio_event E m ''sent'' phone)) (\<lambda>_.
       ret \<lparr>tw_sid = ''simulated-verify-sid-'' @ show_int (ae_now E), tw_status = ''pending'', tw_valid = None\<rparr>)
     else handle
       (bnd (twilioRequest E ''/Verifications'' [(''To'', phone), (''Channel'', ''sms'')]) (\<lambda>a.
        bnd (alter (if ae_production E then cache_set E (throttleKey purpose phone) 60 else id)) (\<lambda>_.
        bnd (alter (twilio_event E m ''sent'' phone)) (\<lambda>_. ret a))))
       (\<lambda>e. bnd (alter (twilio_event E m ''failure'' phone)) (\<lambda>_. throw e))))"

definition twilio_verifyOtp :: "auth_env \<Rightarrow> string \<Rightarrow> string \<Rightarrow> otp_purpose \<Rightarrow> request_meta \<Rightarrow> bool auth_step" where
  "twilio_verifyOtp E phone code purpose m =
     bnd (check (trim code \<noteq> []) (badRequest ''Verification code is required'')) (\<lambda>_.
     bnd (if \<not> ae_production E \<and> test_number E phone then ret (code = ''000000'' \<or> code = ''123456'')
          else bnd (twilioRequest E ''/VerificationCheck'' [(''To'', phone), (''Code'', trim code)]) (\<lambda>a.
            ret (tw_status a = ''approved'' \<or> tw_valid a = Some True))) (\<lambda>approved.
     bnd (alter (twilio_event E m (if approved then ''verify_success'' else ''failure'') phone)) (\<lambda>_.
     bnd (check approved (otpInvalid None)) (\<lambda>_.
     bnd (alter (cache_delete E (throttleKey purpose phone))) (\<lambda>_.
     ret True)))))"

text \<open>\<open>sendSms\<close>, for codes the program makes itself.\<close>

definition twilio_sendSms :: "auth_env \<Rightarrow> string \<Rightarrow> string \<Rightarrow> unit auth_step" where
  "twilio_sendSms E phone message =
     (if \<not> ae_production E \<and> test_number E phone then ret ()
      else bnd (draw (\<lambda>n. ae_twilio E n ''/Messages.json'' [(''To'', phone), (''Body'', message)])) (\<lambda>reply.
        case reply of
          Unreachable m \<Rightarrow> throw (PlainErr m)
        | Refused st code m \<Rightarrow> throw (normalizeTwilioError st code m)
        | Answered _ _ _ \<Rightarrow> ret ()))"

section \<open>Sending codes and mails\<close>

text \<open>The SMS dispatcher reports a failed sending and does not throw it.\<close>

definition dispatch_sms :: "auth_env \<Rightarrow> string \<Rightarrow> string \<Rightarrow> unit auth_step" where
  "dispatch_sms E phone message =
     (if ae_bypassOtp E \<or> \<not> ae_twilioReady E then
        check (\<not> ae_production E) (PlainErr ''Twilio credentials and OTP verification must be configured in production'')
      else handle (twilio_sendSms E phone message) (\<lambda>_. ret ()))"

text \<open>The security notice at the end of the message is left out.\<close>

definition otp_message :: "string \<Rightarrow> int \<Rightarrow> string" where
  "otp_message otp minutes =
     otp @ '' is your Revelis verification code. It is valid for '' @ show_int minutes @ '' minutes.''"

definition notify_sendOtp :: "auth_env \<Rightarrow> string \<Rightarrow> string \<Rightarrow> id option \<Rightarrow> request_meta \<Rightarrow> unit auth_step" where
  "notify_sendOtp E phone otp user m =
     bnd (dispatch_sms E phone (otp_message otp (ae_otpMinutes E))) (\<lambda>_.
     alter (insertVerificationEvent ((event_of E m ''sent'' ''otp'')\<lparr>vf_actor := user, vf_phone := Some phone\<rparr>)))"

text \<open>
  A verification mail is transactional, so preferences and suppressions are not asked; the delivery's
  tenant must exist. No verification event is recorded.
\<close>

definition nil_uuid :: id where "nil_uuid = ''00000000-0000-0000-0000-000000000000''"

definition enqueue_mail :: "id option \<Rightarrow> id option \<Rightarrow> string \<Rightarrow> unit auth_step" where
  "enqueue_mail tenant user email = attempt (\<lambda>w.
     let t = (if truthy tenant then the tenant else nil_uuid)
     in if \<not> list_ex (\<lambda>x. ws_id x = t) (aw_tenants w) then Inl (fk_violation ''email_deliveries_tenant_id_tenants_id_fk'')
        else Inr ((), w\<lparr>aw_outbox := aw_outbox w @ [\<lparr>dl_tenant = t, dl_user = user, dl_to = toLowerCase (trim email)\<rparr>]\<rparr>))"

section \<open>The hourly limit\<close>

definition counted_events :: "string list" where "counted_events = [''send'', ''sent'', ''resend'']"

definition count_events :: "auth_env \<Rightarrow> string \<Rightarrow> (verification_event \<Rightarrow> bool) \<Rightarrow> auth_world \<Rightarrow> nat" where
  "count_events E source p w = length (filter (\<lambda>v. vf_source v = source \<and> p v \<and> vf_type v \<in> set counted_events
     \<and> ae_now E - 60 * 60 * 1000 \<le> vf_createdAt v) (aw_events w))"

definition limit_by :: "auth_env \<Rightarrow> request_meta \<Rightarrow> string \<Rightarrow> string option \<Rightarrow> string option \<Rightarrow>
    (verification_event \<Rightarrow> bool) \<Rightarrow> int \<Rightarrow> string \<Rightarrow> unit auth_step" where
  "limit_by E m source email phone p limit why =
     bnd (peek (count_events E source p)) (\<lambda>n.
     if limit \<le> int n then
       bnd (alter (insertVerificationEvent
         ((event_of E m ''rate_limit_violation'' source)\<lparr>vf_email := email, vf_phone := phone\<rparr>))) (\<lambda>_.
       throw (rateLimited (text_detail why)))
     else ret ())"

definition assertRateLimit :: "auth_env \<Rightarrow> request_meta \<Rightarrow> string \<Rightarrow> string option \<Rightarrow> string option \<Rightarrow> unit auth_step" where
  "assertRateLimit E m source email phone =
     (let otp = (source = ''otp'') in
      bnd (if otp \<and> truthy phone then limit_by E m source email phone (\<lambda>v. vf_phone v = phone) (ae_otpPerPhone E)
             ''Too many OTP verification requests for this phone number.'' else ret ()) (\<lambda>_.
      bnd (if source = ''email'' \<and> truthy email then limit_by E m source email phone (\<lambda>v. vf_email v = email) (ae_emailPerEmail E)
             ''Too many email verification requests for this email address.'' else ret ()) (\<lambda>_.
      bnd (if truthy (rm_actor m) then limit_by E m source email phone (\<lambda>v. vf_actor v = rm_actor m)
             (if otp then ae_otpPerPhone E else ae_emailPerEmail E) ''Too many verification requests for this user.''
           else ret ()) (\<lambda>_.
      if truthy (rm_ip m) then limit_by E m source email phone (\<lambda>v. vf_ip v = rm_ip m)
        (if otp then ae_otpPerIp E else ae_emailPerIp E) ''Too many verification requests from this IP address.''
      else ret ()))))"

section \<open>Hooks\<close>

text \<open>
  A hook records an event; the subscription of a new user to the marketing list, in tables of its own
  and with its errors caught, is left out.
\<close>

definition marketing_event :: "auth_env \<Rightarrow> string \<Rightarrow> id \<Rightarrow> id option \<Rightarrow> string option \<Rightarrow> string option \<Rightarrow> auth_world \<Rightarrow> auth_world" where
  "marketing_event E ty user tenant email phone = insertVerificationEvent
     \<lparr>vf_type = ty, vf_source = ''marketing'', vf_actor = Some user, vf_tenant = tenant, vf_email = email, vf_phone = phone,
      vf_ip = None, vf_createdAt = ae_now E\<rparr>"

definition onUserRegistered :: "auth_env \<Rightarrow> id \<Rightarrow> string \<Rightarrow> auth_world \<Rightarrow> auth_world" where
  "onUserRegistered E user email = marketing_event E ''user_registered_hook'' user None (Some email) None"

definition onUserLogin :: "auth_env \<Rightarrow> id \<Rightarrow> string \<Rightarrow> auth_world \<Rightarrow> auth_world" where
  "onUserLogin E user email = marketing_event E ''user_login_hook'' user None (Some email) None"

definition onEmailVerified :: "auth_env \<Rightarrow> id \<Rightarrow> string \<Rightarrow> id option \<Rightarrow> auth_world \<Rightarrow> auth_world" where
  "onEmailVerified E user email tenant = marketing_event E ''email_verified_hook'' user tenant (Some email) None"

definition onOtpVerified :: "auth_env \<Rightarrow> id \<Rightarrow> string \<Rightarrow> id option \<Rightarrow> auth_world \<Rightarrow> auth_world" where
  "onOtpVerified E user phone tenant = marketing_event E ''otp_verified_hook'' user tenant None (Some phone)"

end
