(* ===== verification/LibCore.thy ===== *)
theory LibCore
  imports Complex_Main Errors JsString
begin

text \<open>
  Small library modules every service shares: \<open>src/lib/slug.ts\<close>,
  \<open>src/lib/pagination.ts\<close> and \<open>src/lib/db-retry.ts\<close>.
\<close>

section \<open>Slugs\<close>

text \<open>
  \<open>slugify\<close> over ASCII text, where Unicode normalization changes nothing: every maximal run of
  other characters becomes one dash, and dashes at the ends are cut.
\<close>

fun dash_runs :: "bool \<Rightarrow> string \<Rightarrow> string" where
  "dash_runs in_run [] = []"
| "dash_runs in_run (c # cs) =
     (if is_lower_alnum c then c # dash_runs False cs
      else if in_run then dash_runs True cs
      else CHR ''-'' # dash_runs True cs)"

definition cut_dashes :: "string \<Rightarrow> string" where
  "cut_dashes s = rev (dropWhile (\<lambda>c. c = CHR ''-'') (rev (dropWhile (\<lambda>c. c = CHR ''-'') s)))"

definition slugify :: "string \<Rightarrow> string" where
  "slugify input =
     (let normalized = cut_dashes (dash_runs False (toLowerCase input))
      in if normalized = [] then ''item'' else normalized)"

definition createSlug :: "string \<Rightarrow> string" where
  "createSlug input = slugify input"

definition SLUG_SUFFIX_ALPHABET :: string where
  "SLUG_SUFFIX_ALPHABET = ''23456789abcdefghjkmnpqrstuvwxyz''"

text \<open>The suffix from the random bytes it is given.\<close>

definition createSlugSuffix :: "nat list \<Rightarrow> string" where
  "createSlugSuffix bytes =
     map (\<lambda>b. SLUG_SUFFIX_ALPHABET ! (b mod length SLUG_SUFFIX_ALPHABET)) bytes"

definition createUniqueSlug :: "nat list \<Rightarrow> string \<Rightarrow> string" where
  "createUniqueSlug bytes input = slugify input @ ''-'' @ createSlugSuffix bytes"

section \<open>Pagination\<close>

text \<open>
  A query's page and limit: none when missing or not finite; a JavaScript number otherwise.
\<close>

record pagination =
  pg_page :: int
  pg_limit :: int
  pg_offset :: int

record page_meta =
  pm_page :: int
  pm_limit :: int
  pm_total :: int
  pm_totalPages :: int
  pm_hasNext :: bool
  pm_hasPrevious :: bool

definition positive_or :: "int \<Rightarrow> rat option \<Rightarrow> int" where
  "positive_or dflt x = (case x of Some q \<Rightarrow> if 0 < q then \<lfloor>q\<rfloor> else dflt | None \<Rightarrow> dflt)"

definition parsePagination :: "rat option \<Rightarrow> rat option \<Rightarrow> pagination" where
  "parsePagination page limit =
     (let p = positive_or 1 page; l = min (positive_or 20 limit) 100
      in \<lparr>pg_page = p, pg_limit = l, pg_offset = (p - 1) * l\<rparr>)"

text \<open>\<open>Math.ceil(total / limit)\<close> of whole numbers with a positive limit.\<close>

definition ceil_div :: "int \<Rightarrow> int \<Rightarrow> int" where
  "ceil_div a b = - ((- a) div b)"

definition buildPaginationMeta :: "int \<Rightarrow> int \<Rightarrow> int \<Rightarrow> page_meta" where
  "buildPaginationMeta page limit tot =
     (let pages = (if tot = 0 then 0 else ceil_div tot limit)
      in \<lparr>pm_page = page, pm_limit = limit, pm_total = tot, pm_totalPages = pages,
          pm_hasNext = (page < pages), pm_hasPrevious = (1 < page)\<rparr>)"

text \<open>\<open>limit l offset o\<close> of the rows a query selects.\<close>

definition page_rows :: "pagination \<Rightarrow> 'r list \<Rightarrow> 'r list" where
  "page_rows p rows = take (nat (pg_limit p)) (drop (nat (pg_offset p)) rows)"

section \<open>Retried transactions\<close>

definition isRetryable :: "js_error \<Rightarrow> bool" where
  "isRetryable e = (case e of DbErr code _ \<Rightarrow> code = ''40P01'' \<or> code = ''40001'' | _ \<Rightarrow> False)"

text \<open>
  The loop of \<open>withTransactionRetry\<close> from attempt \<open>n\<close>; \<open>run n\<close> is what the transaction
  ends with on that attempt, and an attempt that fails has changed nothing.
\<close>

function retry_from :: "nat \<Rightarrow> (nat \<Rightarrow> 'a res) \<Rightarrow> nat \<Rightarrow> 'a res" where
  "retry_from maxAttempts run n =
     (case run n of Inr x \<Rightarrow> Inr x
      | Inl e \<Rightarrow> if isRetryable e \<and> n < maxAttempts then retry_from maxAttempts run (Suc n) else Inl e)"
  by pat_completeness auto
termination by (relation "measure (\<lambda>(m, run, n). m - n)") auto

declare retry_from.simps [simp del]

definition withTransactionRetry :: "nat option \<Rightarrow> (nat \<Rightarrow> 'a res) \<Rightarrow> 'a res" where
  "withTransactionRetry maxAttempts run =
     retry_from (case maxAttempts of None \<Rightarrow> 3 | Some m \<Rightarrow> m) run 1"

interpretation retried: bounded_retry run "retry_from m run" isRetryable m for run :: "nat \<Rightarrow> 'a res" and m
  by unfold_locales (rule retry_from.simps)

text \<open>
  A transaction whose body is \<open>body\<close>, on a database that breaks attempt \<open>n\<close> with the fault
  \<open>faults n\<close> when there is one.
\<close>

definition attempt_of :: "(nat \<Rightarrow> js_error option) \<Rightarrow> 'a res \<Rightarrow> nat \<Rightarrow> 'a res" where
  "attempt_of faults body n = (case faults n of Some e \<Rightarrow> Inl e | None \<Rightarrow> body)"

definition in_transaction :: "(nat \<Rightarrow> js_error option) \<Rightarrow> 'a res \<Rightarrow> 'a res" where
  "in_transaction faults body = withTransactionRetry None (attempt_of faults body)"

section \<open>Lemmas\<close>

lemma in_transaction_attempt:
  "\<exists>m. 1 \<le> m \<and> in_transaction faults body = attempt_of faults body m"
  using retried.loop_from_attempt [of 1 3 "attempt_of faults body"]
  by (auto simp: in_transaction_def withTransactionRetry_def)

text \<open>What a retried transaction returns is what its body returned; a failing body makes it fail.\<close>

lemma in_transaction_Inr: "in_transaction faults body = Inr x \<Longrightarrow> body = Inr x"
  using in_transaction_attempt [of faults body] by (auto simp: attempt_of_def split: option.splits)

lemma in_transaction_quiet [simp]: "in_transaction (\<lambda>_. None) (Inr x) = Inr x"
  using in_transaction_attempt [of "\<lambda>_. None" "Inr x"] by (auto simp: attempt_of_def)

lemma in_transaction_Inl: "body = Inl e \<Longrightarrow> \<exists>e'. in_transaction faults body = Inl e'"
  using in_transaction_attempt [of faults body] by (auto simp: attempt_of_def split: option.splits)

lemma pagination_bounds:
  assumes "\<And>q. page = Some q \<Longrightarrow> 0 < q \<Longrightarrow> 1 \<le> q" and "\<And>q. limit = Some q \<Longrightarrow> 0 < q \<Longrightarrow> 1 \<le> q"
  shows "1 \<le> pg_page (parsePagination page limit) \<and> 1 \<le> pg_limit (parsePagination page limit)
    \<and> pg_limit (parsePagination page limit) \<le> 100 \<and> 0 \<le> pg_offset (parsePagination page limit)"
proof -
  have floor1: "1 \<le> positive_or dflt x" if "1 \<le> dflt" "\<And>q. x = Some q \<Longrightarrow> 0 < q \<Longrightarrow> 1 \<le> q" for dflt x
    using that by (auto simp: positive_or_def le_floor_iff split: option.splits)
  then have "1 \<le> positive_or 1 page" "1 \<le> positive_or 20 limit" using assms by auto
  then show ?thesis by (simp add: parsePagination_def Let_def)
qed

lemma ceil_div_bounds:
  assumes "0 < b"
  shows "a \<le> b * ceil_div a b" and "b * ceil_div a b < a + b"
proof -
  have "- a = b * ((- a) div b) + (- a) mod b" by simp
  with pos_mod_bound [OF assms, of "- a"] pos_mod_sign [OF assms, of "- a"]
  show "a \<le> b * ceil_div a b" and "b * ceil_div a b < a + b"
    unfolding ceil_div_def mult_minus_right by linarith+
qed

lemma pages_cover: "concat (map (\<lambda>k. take l (drop (k * l) rows)) [0..<n]) = take (n * l) rows"
proof (induction n)
  case (Suc n)
  have "Suc n * l = n * l + l" by simp
  then have "take (Suc n * l) rows = take (n * l) rows @ take l (drop (n * l) rows)"
    by (simp only: take_add)
  with Suc show ?case by simp
qed simp

lemma dash_runs_chars: "c \<in> set (dash_runs b s) \<Longrightarrow> is_lower_alnum c \<or> c = CHR ''-''"
  by (induction b s rule: dash_runs.induct) (auto split: if_splits)

text \<open>A slug with single dashes only: what \<open>dash_runs\<close> produces and leaves alone.\<close>

fun tidy :: "bool \<Rightarrow> string \<Rightarrow> bool" where
  "tidy after_dash [] = True"
| "tidy after_dash (c # cs) =
     (if is_lower_alnum c then tidy False cs else c = CHR ''-'' \<and> \<not> after_dash \<and> tidy True cs)"

lemma dash_not_alnum [simp]: "\<not> is_lower_alnum (CHR ''-'')"
  by code_simp

lemma tidy_dash_runs: "tidy b (dash_runs b s)"
  by (induction b s rule: dash_runs.induct) auto

lemma dash_runs_tidy: "tidy b s \<Longrightarrow> dash_runs b s = s"
  by (induction b s rule: tidy.induct) (auto split: if_splits)

lemma tidy_weaken: "tidy b s \<Longrightarrow> tidy False s"
  by (cases s) (auto split: if_splits)

lemma tidy_dropWhile: "tidy b s \<Longrightarrow> tidy False (dropWhile (\<lambda>c. c = CHR ''-'') s)"
proof (induction s arbitrary: b)
  case (Cons c cs)
  show ?case
  proof (cases "c = CHR ''-''")
    case True
    with Cons.prems have "tidy True cs" by simp
    from Cons.IH [OF this] True show ?thesis by simp
  next
    case False
    with tidy_weaken [OF Cons.prems] show ?thesis by simp
  qed
qed simp

lemma tidy_prefix: "tidy b (xs @ ys) \<Longrightarrow> tidy b xs"
  by (induction b xs rule: tidy.induct) auto

lemma tidy_cut: "tidy b s \<Longrightarrow> tidy False (cut_dashes s)"
proof -
  assume "tidy b s"
  then have "tidy False (dropWhile (\<lambda>c. c = CHR ''-'') s)" by (rule tidy_dropWhile)
  moreover have "\<exists>u. t = rev (dropWhile p (rev t)) @ u" for p and t :: string
    by (metis rev_append rev_rev_ident takeWhile_dropWhile_id)
  ultimately show ?thesis unfolding cut_dashes_def by (metis tidy_prefix)
qed

lemma cut_dashes_idem [simp]: "cut_dashes (cut_dashes s) = cut_dashes s"
  by (simp add: cut_dashes_def strip_both_idem)

lemma tidy_lower: "tidy b s \<Longrightarrow> toLowerCase s = s"
proof (induction b s rule: tidy.induct)
  case (2 b c cs)
  have "lower_char c = c" if "is_lower_alnum c"
    using that by (auto simp: is_lower_alnum_def lower_char_def Let_def)
  moreover have "lower_char (CHR ''-'') = CHR ''-''" by code_simp
  ultimately show ?case using 2 by (auto simp: toLowerCase_def split: if_splits)
qed (simp add: toLowerCase_def)

section \<open>Properties\<close>

text \<open>
  Slugs are canonical: making a slug of a slug changes nothing, and a slug is never empty, has only
  lower-case letters, digits and single dashes, and neither starts nor ends with a dash.
\<close>

theorem slugify_canonical:
  "slugify (slugify s) = slugify s \<and> slugify s \<noteq> [] \<and> tidy False (slugify s)
   \<and> hd (slugify s) \<noteq> CHR ''-'' \<and> last (slugify s) \<noteq> CHR ''-''"
proof -
  let ?n = "cut_dashes (dash_runs False (toLowerCase s))"
  have t: "tidy False ?n" using tidy_cut tidy_dash_runs by blast
  have hd: "hd u \<noteq> CHR ''-''" if "dropWhile (\<lambda>c. c = CHR ''-'') u = u" "u \<noteq> []" for u :: string
    using that by (metis (mono_tags, lifting) hd_dropWhile)
  have "hd ?n \<noteq> CHR ''-'' \<and> last ?n \<noteq> CHR ''-''" if "?n \<noteq> []"
  proof
    show "hd ?n \<noteq> CHR ''-''"
      by (rule hd) (use that in \<open>simp_all add: cut_dashes_def strip_both_idem\<close>)
    have "hd (rev ?n) \<noteq> CHR ''-''"
      by (rule hd) (use that in \<open>simp_all add: cut_dashes_def\<close>)
    then show "last ?n \<noteq> CHR ''-''" using that by (simp add: hd_rev)
  qed
  moreover have "slugify ''item'' = ''item''" by code_simp
  moreover have "tidy False ''item''" by code_simp
  moreover have "slugify ?n = ?n" if "?n \<noteq> []"
    using t that by (simp add: slugify_def Let_def tidy_lower dash_runs_tidy)
  ultimately show ?thesis
    using t unfolding slugify_def [of s] Let_def by (cases "?n = []") (simp_all del: tidy.simps)
qed

text \<open>
  Pagination is exact: for a positive limit the pages 1 up to \<open>totalPages\<close> of the metadata
  together hold every row once and in order, each page at most the limit (and never more than 100);
  a page has a next one exactly when rows remain after it.
\<close>

theorem pages_partition_rows:
  assumes "1 \<le> limit"
  shows "let l = pg_limit (parsePagination None (Some (of_int limit)));
             meta = (\<lambda>k. buildPaginationMeta k l (int (length rows)));
             page = (\<lambda>k. page_rows (parsePagination (Some (of_int k)) (Some (of_int limit))) rows) in
    l = min limit 100
    \<and> concat (map page [1..pm_totalPages (meta 1)]) = rows
    \<and> (\<forall>k. length (page k) \<le> nat l)
    \<and> (\<forall>k \<ge> 1. pm_hasNext (meta k) \<longleftrightarrow> k * l < int (length rows))"
proof -
  define l where "l = min limit 100"
  have l: "1 \<le> l" using assms by (simp add: l_def)
  have pg: "parsePagination (Some (of_int k)) (Some (of_int limit)) = \<lparr>pg_page = k, pg_limit = l, pg_offset = (k - 1) * l\<rparr>"
    if "1 \<le> k" for k
    using that assms by (simp add: parsePagination_def positive_or_def l_def Let_def)
  have lim: "pg_limit (parsePagination x (Some (of_int limit))) = l" for x
    using assms by (simp add: parsePagination_def positive_or_def l_def Let_def)
  let ?n = "ceil_div (int (length rows)) l"
  have b: "int (length rows) \<le> l * ?n" "l * ?n < int (length rows) + l"
    using ceil_div_bounds [of l "int (length rows)"] l by auto
  have n0: "0 \<le> ?n" 
  proof (rule ccontr)
    assume "\<not> 0 \<le> ?n"
    then have "l * ?n < 0" using l by (intro mult_pos_neg) auto
    with b(1) show False by linarith
  qed
  have pages: "pm_totalPages (buildPaginationMeta k l (int (length rows))) = ?n" for k
    by (simp add: buildPaginationMeta_def ceil_div_def Let_def)
  have idx: "[1..?n] = map (\<lambda>k. int k + 1) [0..<nat ?n]"
    using n0 by (intro nth_equalityI) auto
  have slice: "page_rows (parsePagination (Some (of_int (int k + 1))) (Some (of_int limit))) rows
      = take (nat l) (drop (k * nat l) rows)" for k
    using pg [of "int k + 1"] l by (simp add: page_rows_def nat_mult_distrib)
  have all: "concat (map (\<lambda>k. page_rows (parsePagination (Some (of_int k)) (Some (of_int limit))) rows) [1..?n]) = rows"
  proof -
    have "length rows \<le> nat ?n * nat l"
      using b(1) n0 l by (metis mult.commute nat_int nat_le_eq_zle nat_mult_distrib of_nat_0_le_iff order_trans)
    then show ?thesis unfolding idx map_map o_def slice pages_cover by simp
  qed
  have next': "pm_hasNext (buildPaginationMeta k l (int (length rows))) \<longleftrightarrow> k * l < int (length rows)" if "1 \<le> k" for k
  proof -
    have "k < ?n \<longleftrightarrow> k * l < int (length rows)"
    proof
      assume "k < ?n"
      then have "k * l \<le> (?n - 1) * l" using l by simp
      with b(2) show "k * l < int (length rows)" by (simp add: algebra_simps)
    next
      assume "k * l < int (length rows)"
      with b(1) have "k * l < ?n * l" by (simp add: mult.commute)
      with l show "k < ?n" by simp
    qed
    then show ?thesis using that l by (auto simp: buildPaginationMeta_def ceil_div_def)
  qed
  show ?thesis
    unfolding Let_def lim pages using all next' by (auto simp: l_def [symmetric] page_rows_def lim)
qed

theorem pages_partition_rows_witness:
  "concat (map (\<lambda>k. page_rows (parsePagination (Some (of_int k)) (Some 2)) [10, 20, 30 :: int]) [1..2]) = [10, 20, 30]"
  using pages_partition_rows [of 2 "[10, 20, 30 :: int]"]
  by (simp add: Let_def buildPaginationMeta_def ceil_div_def parsePagination_def positive_or_def)



end
