(* ===== verification/AuthService.thy ===== *)
theory AuthService
  imports AuthCodes LibCore
begin

text \<open>
  \<open>src/modules/auth/service.ts\<close> and \<open>src/middlewares/auth.middleware.ts\<close>: signing up
  with a code, signing in, registering an organizer, refreshing and ending a session, and the check
  every request of a signed-in user passes.
\<close>

section \<open>Sessions and tokens\<close>

definition normalizeAuthEmail :: "string \<Rightarrow> string" where "normalizeAuthEmail email = toLowerCase (trim email)"
definition normalizeUsername :: "string \<Rightarrow> string" where "normalizeUsername n = trim n"
definition normalizeFullName :: "string \<Rightarrow> string" where "normalizeFullName n = trim n"

definition decodeRefreshToken :: "auth_env \<Rightarrow> string \<Rightarrow> token_claims res" where
  "decodeRefreshToken E t = (case verifyJwt (ae_jwt E) (ae_now E) t (ae_refreshSecret E) ''refresh'' of
     Inl _ \<Rightarrow> Inl (unauthorized ''Invalid refresh token'') | Inr c \<Rightarrow> Inr c)"

definition parseDurationToMs :: "string \<Rightarrow> int res" where
  "parseDurationToMs text = (case parseExpiresIn text of
     Inl _ \<Rightarrow> Inl (PlainErr (''Invalid duration: '' @ text)) | Inr s \<Rightarrow> Inr (s * 1000))"

definition user_claims :: "user_row \<Rightarrow> id \<Rightarrow> jwt_claims" where
  "user_claims u sid = \<lparr>jw_sub = us_id u, jw_sid = sid, jw_emailVerified = (us_emailVerifiedAt u \<noteq> None),
     jw_phoneVerified = (us_phoneVerifiedAt u \<noteq> None)\<rparr>"

definition createTokenPair :: "auth_env \<Rightarrow> jwt_claims \<Rightarrow> (string \<times> string) res" where
  "createTokenPair E p =
     bindR (createAccessToken (ae_jwt E) (ae_now E) p (ae_accessSecret E) (ae_accessExpires E)) (\<lambda>a.
     bindR (createRefreshToken (ae_jwt E) (ae_now E) p (ae_refreshSecret E) (ae_refreshExpires E)) (\<lambda>r.
     Inr (a, r)))"

record auth_result =
  ar_user :: user_row
  ar_session :: session_row
  ar_access :: string
  ar_refresh :: string

text \<open>Signing up, signing in and registering all end by opening a session.\<close>

definition open_session :: "auth_env \<Rightarrow> user_row \<Rightarrow> string option \<Rightarrow> auth_result auth_step" where
  "open_session E u ip =
     bnd (randomUUID E) (\<lambda>sid.
     bnd (lift (createTokenPair E (user_claims u sid))) (\<lambda>(access, refresh).
     bnd (hashPassword E refresh) (\<lambda>h.
     bnd (lift (parseDurationToMs (ae_refreshExpires E))) (\<lambda>life.
     bnd (createSessionRecord \<lparr>se_id = sid, se_user = us_id u, se_hash = h, se_expiresAt = ae_now E + life, se_ip = ip\<rparr>) (\<lambda>s.
     ret \<lparr>ar_user = u, ar_session = s, ar_access = access, ar_refresh = refresh\<rparr>)))))"

section \<open>Signing up\<close>

record signup_input =
  si_email :: string
  si_username :: string
  si_fullName :: string
  si_phone :: string
  si_password :: string
  si_optIn :: "bool option"

definition new_signup :: "auth_env \<Rightarrow> signup_input \<Rightarrow> string \<Rightarrow> string \<Rightarrow> string option \<Rightarrow> signup_session" where
  "new_signup E i phone h ip = \<lparr>sv_id = [], sv_phone = phone, sv_email = normalizeAuthEmail (si_email i),
     sv_username = normalizeUsername (si_username i), sv_fullName = normalizeFullName (si_fullName i),
     sv_passwordHash = h, sv_optIn = (si_optIn i = Some True), sv_sid = None, sv_status = S_pending, sv_attempts = 0,
     sv_verifiedAt = None, sv_expiresAt = ae_now E + 15 * 60 * 1000, sv_ip = ip\<rparr>"

definition assertSignupIdentityAvailability :: "string \<Rightarrow> string \<Rightarrow> string \<Rightarrow> unit auth_step" where
  "assertSignupIdentityAvailability email username phone =
     bnd (peek (\<lambda>w. findAuthAccountByProviderAndAccountId P_email email w = None
        \<and> findUserByUsername username w = None \<and> findUserByPhoneNumber phone w = None)) (\<lambda>free.
     check free (conflict ''Unable to start signup''))"

definition signup_requests :: "auth_env \<Rightarrow> string option \<Rightarrow> string option \<Rightarrow> auth_world \<Rightarrow> nat" where
  "signup_requests E phone ip = countSignupVerificationAuditEvents phone ip (ae_now E - 15 * 60 * 1000)"

definition assertSignupVerificationRequestRateLimit :: "auth_env \<Rightarrow> string \<Rightarrow> string option \<Rightarrow> unit auth_step" where
  "assertSignupVerificationRequestRateLimit E phone ip =
     bnd (peek (\<lambda>w. (signup_requests E (Some phone) None w,
                       if truthy ip then signup_requests E None ip w else 0))) (\<lambda>(byPhone, byIp).
     check (\<not> (3 \<le> byPhone \<or> 3 \<le> byIp)) (rateLimited (text_detail ''Too many verification requests'')))"

definition logSignupAuditEvent ::
    "auth_env \<Rightarrow> audit_type \<Rightarrow> signup_session \<Rightarrow> id option \<Rightarrow> string option \<Rightarrow> string option \<Rightarrow> auth_world \<Rightarrow> auth_world" where
  "logSignupAuditEvent E ty s actor req ip = createAuditLogRecord
     \<lparr>au_type = ty, au_actor = actor, au_entity = sv_id s, au_phone = sv_phone s, au_email = sv_email s,
      au_username = sv_username s, au_correlation = (case req of Some r \<Rightarrow> r | None \<Rightarrow> sv_id s), au_ip = ip,
      au_createdAt = ae_now E\<rparr>"

definition signup_meta :: "string option \<Rightarrow> request_meta" where
  "signup_meta ip = \<lparr>rm_ip = ip, rm_request = None, rm_tenant = None, rm_actor = None\<rparr>"

definition send_signup_code :: "auth_env \<Rightarrow> string \<Rightarrow> string option \<Rightarrow> string auth_step" where
  "send_signup_code E phone ip =
     bnd (randomUUID E) (\<lambda>u.
     if ae_bypassOtp E then ret (''simulated_sid_'' @ u)
     else bnd (twilio_sendOtp E phone For_signup (signup_meta ip)) (\<lambda>a. ret (tw_sid a)))"

definition startSignupVerification :: "auth_env \<Rightarrow> signup_input \<Rightarrow> string option \<Rightarrow> string option \<Rightarrow> id auth_step" where
  "startSignupVerification E i ip req =
     bnd (lift (normalizePhoneNumber (si_phone i))) (\<lambda>phone.
     bnd (assertSignupIdentityAvailability (normalizeAuthEmail (si_email i)) (normalizeUsername (si_username i)) phone) (\<lambda>_.
     bnd (assertSignupVerificationRequestRateLimit E phone ip) (\<lambda>_.
     bnd (hashPassword E (si_password i)) (\<lambda>h.
     bnd (auth_tx (
       bnd (createSignupVerificationSession E (new_signup E i phone h ip)) (\<lambda>s.
       bnd (alter (logSignupAuditEvent E Signup_started s None req ip)) (\<lambda>_. ret s)))) (\<lambda>s.
     bnd (handle
       (bnd (send_signup_code E (sv_phone s) ip) (\<lambda>sid.
        bnd (updateSignupVerificationSessionVerificationSid (sv_id s) sid) (\<lambda>_.
        alter (logSignupAuditEvent E Otp_sent s None req ip))))
       (\<lambda>e. bnd (markSignupVerificationSessionCancelled (sv_id s)) (\<lambda>_. throw e))) (\<lambda>_.
     ret (sv_id s)))))))"

text \<open>Resending and verifying begin alike: the session must be open.\<close>

definition open_signup :: "auth_env \<Rightarrow> id \<Rightarrow> signup_session auth_step" where
  "open_signup E i =
     bnd (fetch (findSignupVerificationSessionById i) verificationSessionNotFound) (\<lambda>s.
     bnd (check (sv_status s \<noteq> S_verified) verificationSessionNotFound) (\<lambda>_.
     bnd (check (sv_status s \<noteq> S_cancelled) verificationSessionNotFound) (\<lambda>_.
     if sv_status s = S_expired \<or> sv_expiresAt s \<le> ae_now E then
       bnd (markSignupVerificationSessionExpired (sv_id s)) (\<lambda>_. throw (otpExpired None))
     else ret s)))"

definition resendSignupVerification :: "auth_env \<Rightarrow> id \<Rightarrow> string option \<Rightarrow> string option \<Rightarrow> unit auth_step" where
  "resendSignupVerification E i ip req =
     bnd (open_signup E i) (\<lambda>s.
     bnd (assertSignupVerificationRequestRateLimit E (sv_phone s) (first_of ip (sv_ip s))) (\<lambda>_.
     bnd (send_signup_code E (sv_phone s) (first_of ip (sv_ip s))) (\<lambda>sid.
     bnd (updateSignupVerificationSessionVerificationSid (sv_id s) sid) (\<lambda>u.
     bnd (check (u \<noteq> None) (badRequest ''Unable to update verification session'')) (\<lambda>_.
     alter (logSignupAuditEvent E Otp_resend s None req (first_of ip (sv_ip s))))))))"

definition signup_user :: "auth_env \<Rightarrow> signup_session \<Rightarrow> user_row" where
  "signup_user E v = \<lparr>us_id = [], us_username = sv_username v, us_fullName = sv_fullName v, us_phone = Some (sv_phone v),
     us_email = None, us_phoneVerifiedAt = first_of (sv_verifiedAt v) (Some (ae_now E)), us_emailVerifiedAt = None,
     us_optIn = sv_optIn v, us_updatedAt = ae_now E\<rparr>"

definition email_account :: "id \<Rightarrow> string \<Rightarrow> string \<Rightarrow> auth_account" where
  "email_account u email h = \<lparr>ac_id = [], ac_user = u, ac_provider = P_email, ac_email = Some email,
     ac_passwordHash = Some h, ac_accountId = Some email, ac_primary = True, ac_verified = True, ac_lastLoginAt = None\<rparr>"

definition complete_signup :: "auth_env \<Rightarrow> signup_session \<Rightarrow> string option \<Rightarrow> string option \<Rightarrow> auth_result auth_step" where
  "complete_signup E v ip req = auth_tx (
     bnd (createUserRecord E (signup_user E v)) (\<lambda>u.
     bnd (createAuthAccount E (email_account (us_id u) (sv_email v) (sv_passwordHash v))) (\<lambda>_.
     bnd (open_session E u (first_of ip (sv_ip v))) (\<lambda>r.
     bnd (alter (logSignupAuditEvent E Signup_completed v (Some (us_id u)) req (first_of ip (sv_ip v)))) (\<lambda>_.
     ret r)))))"

definition signup_code_valid :: "auth_env \<Rightarrow> signup_session \<Rightarrow> string \<Rightarrow> string option \<Rightarrow> string option \<Rightarrow> bool auth_step" where
  "signup_code_valid E s code ip req =
     (if ae_bypassOtp E then ret True
      else handle (twilio_verifyOtp E (sv_phone s) (trim code) For_signup (signup_meta (first_of ip (sv_ip s))))
        (\<lambda>e. bnd (alter (logSignupAuditEvent E Otp_failed s None req (first_of ip (sv_ip s)))) (\<lambda>_. throw e)))"

definition verifySignupVerification ::
    "auth_env \<Rightarrow> id \<Rightarrow> string \<Rightarrow> string option \<Rightarrow> string option \<Rightarrow> auth_result auth_step" where
  "verifySignupVerification E i code ip req =
     bnd (open_signup E i) (\<lambda>s.
     bnd (claimSignupVerificationAttempt (ae_now E) (sv_id s) 5) (\<lambda>claimed.
     bnd (check (claimed \<noteq> None)
       (if 5 \<le> sv_attempts s then otpAttemptsExceeded None else verificationSessionNotFound)) (\<lambda>_.
     bnd (signup_code_valid E s code ip req) (\<lambda>valid.
     if \<not> valid then
       bnd (alter (logSignupAuditEvent E Otp_failed s None req (first_of ip (sv_ip s)))) (\<lambda>_. throw (otpInvalid None))
     else
       bnd (markSignupVerificationSessionVerified (sv_id s) (ae_now E)) (\<lambda>verified.
       case verified of None \<Rightarrow> throw verificationSessionNotFound
       | Some v \<Rightarrow>
           bnd (alter (logSignupAuditEvent E Otp_verified s None req (first_of ip (sv_ip s)))) (\<lambda>_.
           bnd (complete_signup E v ip req) (\<lambda>r.
           bnd (alter (onUserRegistered E (us_id (ar_user r)) (sv_email v))) (\<lambda>_.
           ret r))))))))"

section \<open>Signing in\<close>

definition login :: "auth_env \<Rightarrow> string \<Rightarrow> string \<Rightarrow> string option \<Rightarrow> auth_result auth_step" where
  "login E email password ip = auth_tx (
     bnd (fetch (findAuthAccountByProviderAndAccountId P_email (toLowerCase (trim email))) (unauthorized ''Invalid credentials'')) (\<lambda>a.
     bnd (check (truthy (ac_passwordHash a)) (unauthorized ''Invalid credentials'')) (\<lambda>_.
     bnd (lift (ae_verify E (the (ac_passwordHash a)) password)) (\<lambda>valid.
     bnd (check valid (unauthorized ''Invalid credentials'')) (\<lambda>_.
     bnd (fetch (findUserById (ac_user a)) (unauthorized ''Invalid credentials'')) (\<lambda>u.
     bnd (open_session E u ip) (\<lambda>r.
     bnd (alter (updateAuthAccountLastLoginAt (ac_id a) (ae_now E))) (\<lambda>_.
     bnd (alter (onUserLogin E (us_id u) (toLowerCase (trim email)))) (\<lambda>_.
     ret r)))))))))"

section \<open>Organizers\<close>

record organizer_input =
  oi_email :: string
  oi_fullName :: string
  oi_organization :: string
  oi_phone :: string
  oi_password :: string

definition handle_char :: "char \<Rightarrow> bool" where
  "handle_char c \<longleftrightarrow> is_lower_alnum (lower_char c) \<or> c = CHR ''_''"

definition username_base :: "string \<Rightarrow> string" where
  "username_base email =
     (let kept = take 40 (filter handle_char (hd (split_on (CHR ''@'') email)));
          base = (if kept = [] then ''organizer'' else kept)
      in if length base < 3 then base @ ''_org'' else base)"

fun try_usernames :: "auth_env \<Rightarrow> nat \<Rightarrow> string \<Rightarrow> string auth_step" where
  "try_usernames E 0 candidate = bnd (randomUUID E) (\<lambda>u. ret (''organizer_'' @ take 12 u))"
| "try_usernames E (Suc k) candidate =
     bnd (randomUUID E) (\<lambda>u.
     let nxt = take 43 candidate @ ''_'' @ take 6 u in
     bnd (peek (findUserByUsername nxt)) (\<lambda>x.
     if x = None then ret nxt else try_usernames E k candidate))"

definition generateAvailableUsername :: "auth_env \<Rightarrow> string \<Rightarrow> string auth_step" where
  "generateAvailableUsername E email =
     (let candidate = username_base email in
      bnd (peek (findUserByUsername candidate)) (\<lambda>x.
      if x = None then ret candidate else try_usernames E 5 candidate))"

definition organizer_user :: "auth_env \<Rightarrow> organizer_input \<Rightarrow> string \<Rightarrow> user_row" where
  "organizer_user E i username = \<lparr>us_id = [], us_username = username, us_fullName = normalizeFullName (oi_fullName i),
     us_phone = None, us_email = Some (normalizeAuthEmail (oi_email i)), us_phoneVerifiedAt = None,
     us_emailVerifiedAt = None, us_optIn = False, us_updatedAt = ae_now E\<rparr>"

definition organizer_tenant :: "organizer_input \<Rightarrow> string \<Rightarrow> id \<Rightarrow> nat list \<Rightarrow> workspace" where
  "organizer_tenant i phone u bytes = \<lparr>ws_id = [], ws_name = trim (oi_organization i),
     ws_slug = createUniqueSlug bytes (trim (oi_organization i)), ws_email = normalizeAuthEmail (oi_email i), ws_phone = phone,
     ws_createdBy = u, ws_approval = AP_pending\<rparr>"

definition registerOrganizer :: "auth_env \<Rightarrow> organizer_input \<Rightarrow> string option \<Rightarrow> auth_result auth_step" where
  "registerOrganizer E i ip =
     (let email = normalizeAuthEmail (oi_email i) in
      bnd (lift (normalizePhoneNumber (oi_phone i))) (\<lambda>phone.
      bnd (peek (findAuthAccountByProviderAndAccountId P_email email)) (\<lambda>existing.
      bnd (check (existing = None) (conflict ''An account with this email already exists. Please sign in instead.'')) (\<lambda>_.
      bnd (generateAvailableUsername E email) (\<lambda>username.
      bnd (hashPassword E (oi_password i)) (\<lambda>h.
      bnd (auth_tx (
        bnd (createUserRecord E (organizer_user E i username)) (\<lambda>u.
        bnd (createAuthAccount E (email_account (us_id u) email h)) (\<lambda>_.
        bnd (draw (ae_bytes E)) (\<lambda>bytes.
        bnd (createTenantRecord E (organizer_tenant i phone (us_id u) bytes)) (\<lambda>t.
        bnd (createTenantMemberRecord \<lparr>mb_tenantId = ws_id t, mb_userId = us_id u, mb_role = owner\<rparr>) (\<lambda>_.
        ret u))))))) (\<lambda>u.
      bnd (open_session E u ip) (\<lambda>r.
      bnd (alter (onUserRegistered E (us_id u) email)) (\<lambda>_.
      ret r)))))))))"

section \<open>Refreshing and ending a session\<close>

definition refresh :: "auth_env \<Rightarrow> string \<Rightarrow> auth_result auth_step" where
  "refresh E token =
     bnd (lift (decodeRefreshToken E token)) (\<lambda>c.
     bnd (check (truthy (tc_sid c)) (unauthorized ''Invalid refresh token'')) (\<lambda>_.
     bnd (fetch (findSessionById (the (tc_sid c))) (unauthorized ''Session not found'')) (\<lambda>s.
     bnd (check (ae_now E < se_expiresAt s) (unauthorized ''Session expired'')) (\<lambda>_.
     bnd (lift (ae_verify E (se_hash s) token)) (\<lambda>valid.
     bnd (check valid (unauthorized ''Invalid refresh token'')) (\<lambda>_.
     bnd (fetch (findUserById (se_user s)) (unauthorized ''User not found'')) (\<lambda>u.
     bnd (lift (createTokenPair E (user_claims u (se_id s)))) (\<lambda>(access, next).
     bnd (hashPassword E next) (\<lambda>h.
     bnd (lift (parseDurationToMs (ae_refreshExpires E))) (\<lambda>life.
     bnd (updateSessionRefreshTokenHash (se_id s) h (ae_now E + life)) (\<lambda>s'.
     case s' of None \<Rightarrow> throw (badRequest ''Unable to rotate session'')
     | Some s' \<Rightarrow> ret \<lparr>ar_user = u, ar_session = s', ar_access = access, ar_refresh = next\<rparr>)))))))))))"

definition logout :: "auth_env \<Rightarrow> string \<Rightarrow> unit auth_step" where
  "logout E token =
     bnd (lift (decodeRefreshToken E token)) (\<lambda>c.
     bnd (check (truthy (tc_sid c)) (unauthorized ''Invalid refresh token'')) (\<lambda>_.
     bnd (peek (findSessionById (the (tc_sid c)))) (\<lambda>s.
     case s of None \<Rightarrow> ret ()
     | Some s \<Rightarrow>
         bnd (lift (ae_verify E (se_hash s) token)) (\<lambda>valid.
         bnd (check valid (unauthorized ''Invalid refresh token'')) (\<lambda>_.
         alter (deleteSessionById (se_id s)))))))"

text \<open>An account is shown without its password.\<close>

definition me :: "id \<Rightarrow> (user_row \<times> auth_account list \<times> member_row list) auth_step" where
  "me i =
     bnd (fetch (findUserById i) (unauthorized ''Unauthorized'')) (\<lambda>u.
     bnd (peek (findMembershipsForUser i)) (\<lambda>ms.
     bnd (peek (findAuthAccountsByUserId i)) (\<lambda>as.
     ret (u, map (\<lambda>a. a\<lparr>ac_passwordHash := None\<rparr>) as, ms))))"

section \<open>The check of a request\<close>

definition extractBearerToken :: "string option \<Rightarrow> string option" where
  "extractBearerToken header =
     (if \<not> truthy header then None
      else case split_on (CHR '' '') (the header) of
        scheme # token # _ \<Rightarrow> if toLowerCase scheme = ''bearer'' \<and> token \<noteq> [] then Some token else None
      | _ \<Rightarrow> None)"

definition unauthorized_because :: "string \<Rightarrow> js_error" where
  "unauthorized_because why = mkErr ''Unauthorized'' UNAUTHORIZED 401 (Some [(''reason'', why)])"

definition authMiddleware :: "auth_env \<Rightarrow> string option \<Rightarrow> (session_row \<times> user_row) auth_step" where
  "authMiddleware E header =
     bnd (lift (optR (extractBearerToken header) (unauthorized ''Unauthorized''))) (\<lambda>token.
     bnd (lift (case verifyJwt (ae_jwt E) (ae_now E) token (ae_accessSecret E) ''access'' of
                  Inl _ \<Rightarrow> Inl (unauthorized_because ''invalid_token'') | Inr c \<Rightarrow> Inr c)) (\<lambda>c.
     bnd (check (truthy (tc_sid c)) (unauthorized_because ''missing_session'')) (\<lambda>_.
     bnd (fetch (findSessionById (the (tc_sid c))) (unauthorized_because ''invalid_session'')) (\<lambda>s.
     bnd (check (se_user s = tc_sub c) (unauthorized_because ''session_mismatch'')) (\<lambda>_.
     bnd (check (ae_now E < se_expiresAt s) (unauthorized_because ''session_expired'')) (\<lambda>_.
     bnd (fetch (findUserById (se_user s)) (notFound ''User not found'')) (\<lambda>u.
     ret (s, u))))))))"

end
