(* ===== verification/AuthVerification.thy ===== *)
theory AuthVerification
  imports AuthService
begin

text \<open>
  \<open>src/modules/auth/otp.service.ts\<close> and \<open>email-verification.service.ts\<close>: signing in with a
  code alone, and verifying an email address. The rendering of the mail is left out.
\<close>

section \<open>Codes\<close>

definition replace_code :: "auth_env \<Rightarrow> string \<Rightarrow> otp_purpose \<Rightarrow> id option \<Rightarrow> string \<Rightarrow> unit auth_step" where
  "replace_code E phone purpose user h = auth_tx (
     bnd (alter (softDeleteOtpVerificationsForPhone (ae_now E) phone purpose)) (\<lambda>_.
     bnd (createOtpVerification E user phone h purpose (ae_now E + ae_otpMinutes E * 60 * 1000)) (\<lambda>_. ret ())))"

definition sendOtp :: "auth_env \<Rightarrow> string \<Rightarrow> otp_purpose \<Rightarrow> request_meta \<Rightarrow> unit auth_step" where
  "sendOtp E phone purpose m =
     bnd (assertRateLimit E m ''otp'' None (Some phone)) (\<lambda>_.
     if \<not> ae_bypassOtp E then
       bnd (twilio_sendOtp E phone purpose m) (\<lambda>_.
       bnd (peek (findUserByPhone phone)) (\<lambda>u.
       replace_code E phone purpose (map_option us_id u) ''twilio-verify-managed''))
     else
       bnd (peek (findUserByPhone phone)) (\<lambda>u.
       if purpose \<noteq> For_signup \<and> u = None then
         alter (insertVerificationEvent ((event_of E m ''send_simulated'' ''otp'')\<lparr>vf_phone := Some phone\<rparr>))
       else
         bnd (draw (\<lambda>n. show_nat (100000 + ae_random E n mod 900000))) (\<lambda>otp.
         bnd (replace_code E phone purpose (map_option us_id u) (ae_sha256 E otp)) (\<lambda>_.
         notify_sendOtp E phone otp (map_option us_id u) m))))"

datatype otp_result = Otp_done | Otp_session auth_result

definition consumer :: "auth_env \<Rightarrow> string \<Rightarrow> string \<Rightarrow> user_row" where
  "consumer E phone username = \<lparr>us_id = [], us_username = username, us_fullName = ''Guest'', us_phone = Some phone, us_email = None,
     us_phoneVerifiedAt = Some (ae_now E), us_emailVerifiedAt = None, us_optIn = False, us_updatedAt = ae_now E\<rparr>"

definition hex_text :: "nat list \<Rightarrow> string" where
  "hex_text bs = concat (map (\<lambda>b. [hex_digit (b div 16), hex_digit (b mod 16)]) bs)"

text \<open>The loop draws until a name is free, as long as the request lives.\<close>

fun free_username :: "auth_env \<Rightarrow> nat \<Rightarrow> string \<Rightarrow> string \<Rightarrow> string auth_step" where
  "free_username E k base username = bnd (peek (findUserByUsername username)) (\<lambda>x.
     if x = None then ret username
     else case k of 0 \<Rightarrow> throw (PlainErr ''request timed out'')
       | Suc k \<Rightarrow> bnd (draw (\<lambda>n. hex_text (take 2 (ae_bytes E n)))) (\<lambda>h. free_username E k base (base @ h)))"

declare free_username.simps [simp del]

definition consumer_base :: "string \<Rightarrow> string" where
  "consumer_base phone = (let digits = filter is_digit phone in CHR ''u'' # drop (length digits - 10) digits)"

definition provisionConsumerUser :: "auth_env \<Rightarrow> string \<Rightarrow> user_row auth_step" where
  "provisionConsumerUser E phone =
     bnd (free_username E (ae_patience E) (consumer_base phone) (consumer_base phone)) (\<lambda>username.
     createUserRecord E (consumer E phone username))"

definition createAuthSession :: "auth_env \<Rightarrow> user_row \<Rightarrow> request_meta \<Rightarrow> auth_result auth_step" where
  "createAuthSession E u m =
     bnd (randomUUID E) (\<lambda>sid.
     bnd (lift (createTokenPair E ((user_claims u sid)\<lparr>jw_phoneVerified := True\<rparr>))) (\<lambda>(access, refresh).
     bnd (hashPassword E refresh) (\<lambda>h.
     bnd (createSessionRecord \<lparr>se_id = sid, se_user = us_id u, se_hash = h,
            se_expiresAt = ae_now E + 30 * 24 * 60 * 60 * 1000, se_ip = (if truthy (rm_ip m) then rm_ip m else None)\<rparr>) (\<lambda>s.
     ret \<lparr>ar_user = u, ar_session = s, ar_access = access, ar_refresh = refresh\<rparr>))))"

definition signs_in :: "otp_purpose \<Rightarrow> bool" where "signs_in p \<longleftrightarrow> p = For_login \<or> p = For_signup"

text \<open>A verified phone number without a user gets one when the purpose is to sign up.\<close>

definition provided_user :: "auth_env \<Rightarrow> string \<Rightarrow> otp_purpose \<Rightarrow> user_row option \<Rightarrow> user_row option auth_step" where
  "provided_user E phone purpose u =
     (if u = None \<and> purpose = For_signup then bnd (provisionConsumerUser E phone) (\<lambda>x. ret (Some x)) else ret u)"

definition session_for :: "auth_env \<Rightarrow> otp_purpose \<Rightarrow> request_meta \<Rightarrow> user_row option \<Rightarrow> otp_result auth_step" where
  "session_for E purpose m u =
     (case u of Some x \<Rightarrow> if signs_in purpose then bnd (createAuthSession E x m) (\<lambda>r. ret (Otp_session r)) else ret Otp_done
      | None \<Rightarrow> ret Otp_done)"

definition phone_of :: "user_row \<Rightarrow> string \<Rightarrow> string" where
  "phone_of u phone = (case us_phone u of Some p \<Rightarrow> p | None \<Rightarrow> phone)"

definition verified_by_twilio :: "auth_env \<Rightarrow> string \<Rightarrow> otp_purpose \<Rightarrow> string \<Rightarrow> request_meta \<Rightarrow> otp_result auth_step" where
  "verified_by_twilio E phone purpose code m =
     bnd (twilio_verifyOtp E phone code purpose m) (\<lambda>_.
     bnd (peek (findLatestActiveOtpVerification (ae_now E) phone purpose)) (\<lambda>o'.
     bnd (alter (case o' of None \<Rightarrow> id | Some x \<Rightarrow> markOtpVerificationVerified (ae_now E) (ov_id x))) (\<lambda>_.
     bnd (peek (findUserByPhone phone)) (\<lambda>u0.
     bnd (provided_user E phone purpose u0) (\<lambda>u.
     bnd (case u of None \<Rightarrow> ret ()
          | Some x \<Rightarrow> bnd (updateUserPhoneVerified E (us_id x)) (\<lambda>_.
              alter (onOtpVerified E (us_id x) (phone_of x phone) (rm_tenant m)))) (\<lambda>_.
     session_for E purpose m u))))))"

definition otp_event :: "auth_env \<Rightarrow> request_meta \<Rightarrow> string \<Rightarrow> otp_row \<Rightarrow> string \<Rightarrow> auth_world \<Rightarrow> auth_world" where
  "otp_event E m ty x phone = insertVerificationEvent ((event_of E m ty ''otp'')\<lparr>vf_actor := ov_user x, vf_phone := Some phone\<rparr>)"

text \<open>The checks on the program's own codes: attempts, expiry and the code, each unless bypassed.\<close>

definition check_own_code :: "auth_env \<Rightarrow> otp_row \<Rightarrow> string \<Rightarrow> string \<Rightarrow> request_meta \<Rightarrow> unit auth_step" where
  "check_own_code E x phone code m =
     (let by = ae_bypassOtp E;
          fails = (\<lambda>ty e. bnd (alter (otp_event E m ty x phone)) (\<lambda>_. throw e)) in
      bnd (if by then ret (ov_attempts x)
           else bnd (incrementOtpAttempts (ov_id x)) (\<lambda>u. ret (case u of Some v \<Rightarrow> ov_attempts v | None \<Rightarrow> ov_attempts x + 1))) (\<lambda>attempts.
      if \<not> by \<and> ae_otpMaxAttempts E < attempts then fails ''failure'' (otpAttemptsExceeded None)
      else if \<not> by \<and> ov_expiresAt x < ae_now E then fails ''expired'' (otpExpired None)
      else if \<not> by \<and> ov_hash x \<noteq> ae_sha256 E (trim code) then fails ''failure'' (otpInvalid None)
      else ret ()))"

definition accept_code :: "auth_env \<Rightarrow> otp_row \<Rightarrow> string \<Rightarrow> request_meta \<Rightarrow> user_row option auth_step" where
  "accept_code E x phone m = auth_tx (
     bnd (alter (markOtpVerificationVerified (ae_now E) (ov_id x))) (\<lambda>_.
     bnd (if truthy (ov_user x) then updateUserPhoneVerified E (the (ov_user x))
          else bnd (peek (findUserByPhone phone)) (\<lambda>u.
            case u of None \<Rightarrow> ret None | Some y \<Rightarrow> updateUserPhoneVerified E (us_id y))) (\<lambda>u.
     bnd (alter (otp_event E m ''verify_success'' x phone)) (\<lambda>_. ret u))))"

definition verifyOtp :: "auth_env \<Rightarrow> string \<Rightarrow> otp_purpose \<Rightarrow> string \<Rightarrow> request_meta \<Rightarrow> otp_result auth_step" where
  "verifyOtp E phone purpose code m =
     (if \<not> ae_bypassOtp E then verified_by_twilio E phone purpose code m
      else bnd (peek (findLatestActiveOtpVerification (ae_now E) phone purpose)) (\<lambda>o'.
        case o' of
          None \<Rightarrow>
            bnd (peek (findUserByPhone phone)) (\<lambda>u0.
            bnd (provided_user E phone purpose u0) (session_for E purpose m))
        | Some x \<Rightarrow>
            bnd (check_own_code E x phone code m) (\<lambda>_.
            bnd (accept_code E x phone m) (\<lambda>u0.
            bnd (provided_user E phone purpose u0) (\<lambda>u.
            bnd (case u of None \<Rightarrow> ret () | Some y \<Rightarrow> alter (onOtpVerified E (us_id y) (phone_of y phone) (rm_tenant m))) (\<lambda>_.
            session_for E purpose m u))))))"

section \<open>Email addresses\<close>

definition sendVerificationEmail :: "auth_env \<Rightarrow> string \<Rightarrow> request_meta \<Rightarrow> unit auth_step" where
  "sendVerificationEmail E email m =
     bnd (assertRateLimit E m ''email'' (Some email) None) (\<lambda>_.
     bnd (peek (findUserByEmailAddress email)) (\<lambda>u.
     case u of
       None \<Rightarrow> alter (insertVerificationEvent ((event_of E m ''send_simulated'' ''email'')\<lparr>vf_email := Some email\<rparr>))
     | Some u \<Rightarrow>
         bnd (draw (\<lambda>n. hex_text (ae_bytes E n))) (\<lambda>token.
         bnd (auth_tx (
           bnd (alter (softDeleteEmailVerificationTokensForUser (ae_now E) (us_id u))) (\<lambda>_.
           createEmailVerificationToken E (us_id u) (ae_sha256 E token) (ae_now E + ae_emailHours E * 60 * 60 * 1000)))) (\<lambda>_.
         enqueue_mail (rm_tenant m) (Some (us_id u)) email))))"

definition email_bypass :: "auth_env \<Rightarrow> string \<Rightarrow> bool" where
  "email_bypass E token \<longleftrightarrow> ae_bypassEmail E \<or> \<not> ae_production E \<and> token = ''ANY_TOKEN_BYPASS''"

definition accept_token :: "auth_env \<Rightarrow> email_token \<Rightarrow> request_meta \<Rightarrow> user_row option auth_step" where
  "accept_token E t m = auth_tx (
     bnd (updateUserEmailVerified E (et_user t)) (\<lambda>u.
     bnd (alter (markEmailVerificationTokenVerified (ae_now E) (et_id t))) (\<lambda>_.
     bnd (alter (\<lambda>w. w\<lparr>aw_accounts := update_where (\<lambda>a. ac_user a = et_user t) (\<lambda>a. a\<lparr>ac_verified := True\<rparr>) (aw_accounts w)\<rparr>)) (\<lambda>_.
     bnd (alter (insertVerificationEvent ((event_of E m ''verify_success'' ''email'')\<lparr>vf_actor := Some (et_user t)\<rparr>))) (\<lambda>_.
     ret u)))))"

definition use_token :: "auth_env \<Rightarrow> email_token \<Rightarrow> bool \<Rightarrow> request_meta \<Rightarrow> unit auth_step" where
  "use_token E t by m =
     (if \<not> by \<and> et_expiresAt t < ae_now E then
        bnd (alter (insertVerificationEvent ((event_of E m ''expired'' ''email'')\<lparr>vf_actor := Some (et_user t)\<rparr>))) (\<lambda>_.
        throw (badRequest ''Verification token has expired''))
      else
        bnd (accept_token E t m) (\<lambda>u.
        case u of None \<Rightarrow> ret ()
        | Some u \<Rightarrow>
            bnd (peek (\<lambda>w. List.find (\<lambda>a. ac_user a = us_id u) (aw_accounts w))) (\<lambda>a.
            alter (onEmailVerified E (us_id u) (case a of None \<Rightarrow> [] | Some a \<Rightarrow> case ac_email a of None \<Rightarrow> [] | Some x \<Rightarrow> x)
              (rm_tenant m)))))"

definition verifyEmail :: "auth_env \<Rightarrow> string \<Rightarrow> request_meta \<Rightarrow> unit auth_step" where
  "verifyEmail E token m =
     bnd (peek (findEmailVerificationTokenByHash (ae_sha256 E token))) (\<lambda>t.
     case t of
       Some t \<Rightarrow> use_token E t (email_bypass E token) m
     | None \<Rightarrow>
         if email_bypass E token then
           bnd (peek (\<lambda>w. newest et_createdAt (filter (\<lambda>t. et_verifiedAt t = None) (aw_tokens w)))) (\<lambda>latest.
           case latest of None \<Rightarrow> ret () | Some t \<Rightarrow> use_token E t True m)
         else throw (badRequest ''Invalid verification token''))"

end
