(* ===== verification/AuthRules.thy ===== *)
theory AuthRules
  imports AuthVerification
begin

text \<open>
  What every call of sign-in keeps: row ids are draws never made again, a signup session has room for
  five codes, a phone number gets three codes in a quarter of an hour, and a session that is gone does
  not come back.
\<close>

lemma length_filter_mono:
  "(\<And>x. x \<in> set xs \<Longrightarrow> p x \<Longrightarrow> q x) \<Longrightarrow> length (filter p xs) \<le> length (filter q xs)"
  by (induction xs) (auto simp: le_Suc_eq)

section \<open>Triples\<close>

text \<open>From \<open>Q\<close>, a run that returns ends in \<open>R\<close> and one that throws in \<open>P\<close>.\<close>

definition spec :: "('w \<Rightarrow> bool) \<Rightarrow> ('w, 'a) step \<Rightarrow> ('a \<Rightarrow> 'w \<Rightarrow> bool) \<Rightarrow> ('w \<Rightarrow> bool) \<Rightarrow> bool" where
  "spec Q m R P \<longleftrightarrow> (\<forall>w. Q w \<longrightarrow> (case m w of (Inl e, w') \<Rightarrow> P w' | (Inr x, w') \<Rightarrow> R x w'))"

lemma spec_bnd: "spec Q m R P \<Longrightarrow> (\<And>x. spec (R x) (f x) S P) \<Longrightarrow> spec Q (bnd m f) S P"
  unfolding spec_def by (fastforce simp: bnd_def split: prod.splits sum.splits)

lemma spec_handle: "spec Q m R P' \<Longrightarrow> (\<And>e. spec P' (h e) R P) \<Longrightarrow> spec Q (handle m h) R P"
  unfolding spec_def by (fastforce simp: handle_def split: prod.splits sum.splits)

lemma spec_quiet:
  "(\<And>w. Q w \<Longrightarrow> R x w) \<Longrightarrow> spec Q (ret x) R P" "(\<And>w. Q w \<Longrightarrow> P w) \<Longrightarrow> spec Q (throw e) R P"
  "(\<And>w. Q w \<Longrightarrow> P' () (a w)) \<Longrightarrow> spec Q (alter a) P' P"
  "(\<And>w. Q w \<Longrightarrow> R' (g w) w) \<Longrightarrow> spec Q (peek g) R' P"
  by (auto simp: spec_def step_defs)

lemma spec_check: "(\<And>w. Q w \<Longrightarrow> P w) \<Longrightarrow> (\<And>w. Q w \<Longrightarrow> b \<Longrightarrow> R () w) \<Longrightarrow> spec Q (check b e) R P"
  by (auto simp: spec_def step_defs)

lemma spec_fetch: "(\<And>w. Q w \<Longrightarrow> P w) \<Longrightarrow> (\<And>w x. Q w \<Longrightarrow> f w = Some x \<Longrightarrow> R x w) \<Longrightarrow> spec Q (fetch f e) R P"
  by (auto simp: spec_def step_defs optR_def split: option.splits)

lemma spec_lift: "(\<And>w. Q w \<Longrightarrow> P w) \<Longrightarrow> (\<And>w x. Q w \<Longrightarrow> r = Inr x \<Longrightarrow> R x w) \<Longrightarrow> spec Q (lift r) R P"
  by (auto simp: spec_def step_defs split: sum.splits)

lemma spec_attempt:
  "(\<And>w. Q w \<Longrightarrow> P w) \<Longrightarrow> (\<And>w x w'. Q w \<Longrightarrow> f w = Inr (x, w') \<Longrightarrow> R x w') \<Longrightarrow> spec Q (attempt f) R P"
  by (auto simp: spec_def attempt_def split: sum.splits)

lemma spec_if: "(b \<Longrightarrow> spec Q m R P) \<Longrightarrow> (\<not> b \<Longrightarrow> spec Q n R P) \<Longrightarrow> spec Q (if b then m else n) R P"
  by simp

lemma spec_pre: "spec Q m R P \<Longrightarrow> (\<And>w. Q' w \<Longrightarrow> Q w) \<Longrightarrow> spec Q' m R P"
  by (simp add: spec_def)

lemma spec_post: "spec Q m R P \<Longrightarrow> (\<And>x w. R x w \<Longrightarrow> R' x w) \<Longrightarrow> spec Q m R' P"
  unfolding spec_def by (fastforce split: prod.splits sum.splits)

lemma spec_throws: "spec Q m R P \<Longrightarrow> (\<And>w. P w \<Longrightarrow> P' w) \<Longrightarrow> spec Q m R P'"
  unfolding spec_def by (fastforce split: prod.splits sum.splits)

lemma spec_holds: "holds P m \<Longrightarrow> spec P m (\<lambda>_. P) P"
  unfolding spec_def by (auto split: prod.splits sum.splits dest: holds_run)

lemma holds_spec: "spec P m (\<lambda>_. P) P \<Longrightarrow> holds P m"
proof (rule holdsI)
  fix w assume s: "spec P m (\<lambda>_. P) P" and P: "P w"
  obtain r w' where m: "m w = (r, w')" by force
  from s P m show "P (snd (m w))" by (cases r) (auto simp: spec_def)
qed

section \<open>Steps that leave signups, audit and sessions alone\<close>

definition auth_view :: "auth_world \<Rightarrow> signup_session list \<times> audit_log list \<times> session_row list" where
  "auth_view w = (aw_signups w, aw_audit w, aw_sessions w)"

definition stable :: "(auth_world \<Rightarrow> bool) \<Rightarrow> bool" where
  "stable P \<longleftrightarrow> (\<forall>w w'. auth_view w' = auth_view w \<longrightarrow> aw_next w \<le> aw_next w' \<longrightarrow> P w \<longrightarrow> P w')"

definition calm :: "'a auth_step \<Rightarrow> bool" where
  "calm m \<longleftrightarrow> (\<forall>v n. holds (\<lambda>w. auth_view w = v \<and> n \<le> aw_next w) m)"

definition onward :: "'a auth_step \<Rightarrow> bool" where "onward m \<longleftrightarrow> (\<forall>n. holds (\<lambda>w. n \<le> aw_next w) m)"

named_theorems calm_intros
named_theorems onward_intros

lemma calm_iff: "calm m \<longleftrightarrow> (\<forall>w. auth_view (snd (m w)) = auth_view w \<and> aw_next w \<le> aw_next (snd (m w)))"
  unfolding calm_def holds_def by (metis order_refl order_trans)

lemma calm_keeps:
  assumes "calm m" and "stable P" shows "holds P m"
  using assms by (intro holdsI) (auto simp: calm_iff stable_def)

lemma spec_calm: "calm m \<Longrightarrow> stable P \<Longrightarrow> spec P m (\<lambda>_. P) P"
  by (rule spec_holds) (rule calm_keeps)

lemma calm_control [calm_intros]:
  "calm m \<Longrightarrow> (\<And>x. calm (f x)) \<Longrightarrow> calm (bnd m f)" "calm m \<Longrightarrow> (\<And>e. calm (h e)) \<Longrightarrow> calm (handle m h)"
  "calm (ret x)" "calm (throw e)" "calm (check b e)" "calm (lift r)" "calm (peek g)" "calm (fetch q e)"
  unfolding calm_def by (auto intro!: holds_intros)

lemma calm_if [calm_intros]: "(b \<Longrightarrow> calm m) \<Longrightarrow> (\<not> b \<Longrightarrow> calm n) \<Longrightarrow> calm (if b then m else n)"
  by simp

lemma calm_option [calm_intros]: "calm m \<Longrightarrow> (\<And>x. calm (f x)) \<Longrightarrow> calm (case v of None \<Rightarrow> m | Some x \<Rightarrow> f x)"
  by (cases v) auto

lemma calm_let [calm_intros]: "(\<And>x. calm (f x)) \<Longrightarrow> calm (let x = v in f x)"
  by simp

lemma calm_prod [calm_intros]: "(\<And>a b. calm (f a b)) \<Longrightarrow> calm (case p of (a, b) \<Rightarrow> f a b)"
  by (cases p) simp

lemma calm_alter [calm_intros]: "(\<And>w. auth_view (a w) = auth_view w \<and> aw_next (a w) = aw_next w) \<Longrightarrow> calm (alter a)"
  unfolding calm_def by (auto intro!: holds_alter)

lemma calm_attempt: "(\<And>w x w'. a w = Inr (x, w') \<Longrightarrow> auth_view w' = auth_view w \<and> aw_next w \<le> aw_next w') \<Longrightarrow> calm (attempt a)"
  unfolding calm_def by (fastforce intro!: holds_attempt)

lemma calm_draw [calm_intros]: "calm (draw f)"
  unfolding draw_def by (rule calm_attempt) (auto simp: auth_view_def)

lemma undo_facts [simp]: "auth_view (auth_undo w w') = auth_view w" "aw_next (auth_undo w w') = aw_next w'"
  by (simp_all add: auth_undo_def auth_view_def)

lemma calm_tx [calm_intros]: "calm m \<Longrightarrow> calm (auth_tx m)"
  unfolding calm_iff auth_tx_def atomic_def by (auto split: prod.splits sum.splits) (metis undo_facts snd_conv)+

lemma onward_control [onward_intros]:
  "onward m \<Longrightarrow> (\<And>x. onward (f x)) \<Longrightarrow> onward (bnd m f)" "onward (lift r)" "onward (ret x)"
  unfolding onward_def by (auto intro!: holds_intros)

lemma onward_prod [onward_intros]: "(\<And>a b. onward (f a b)) \<Longrightarrow> onward (case p of (a, b) \<Rightarrow> f a b)"
  by (cases p) simp

lemma onward_alter [onward_intros]: "(\<And>w. aw_next (a w) = aw_next w) \<Longrightarrow> onward (alter a)"
  unfolding onward_def by (auto intro!: holds_alter)

lemma onward_attempt: "(\<And>w x w'. a w = Inr (x, w') \<Longrightarrow> aw_next w \<le> aw_next w') \<Longrightarrow> onward (attempt a)"
  unfolding onward_def by (fastforce intro!: holds_attempt)

lemma onward_calm [onward_intros]: "calm m \<Longrightarrow> onward m"
  unfolding onward_def holds_def calm_iff by (metis order_trans)

lemma spec_tx:
  assumes run: "spec Q m R (\<lambda>_. True)" and on: "onward m" and P: "stable P" and QP: "\<And>w. Q w \<Longrightarrow> P w"
  shows "spec Q (auth_tx m) R P"
  unfolding spec_def
proof (intro allI impI)
  fix w :: auth_world assume Q: "Q w"
  obtain r w' where m: "m w = (r, w')" by force
  have "aw_next w \<le> aw_next w'" using on m unfolding onward_def holds_def by (metis order_refl snd_conv)
  then have "P (auth_undo w w')" using P QP [OF Q] unfolding stable_def by simp
  then show "case auth_tx m w of (Inl e, w') \<Rightarrow> P w' | (Inr x, w') \<Rightarrow> R x w'"
    using run Q m by (force simp: spec_def auth_tx_def atomic_def split: sum.splits)
qed

section \<open>The invariant\<close>

definition drawn :: "(nat \<Rightarrow> id) \<Rightarrow> id \<Rightarrow> auth_world \<Rightarrow> bool" where
  "drawn uuid i w \<longleftrightarrow> (\<exists>k < aw_next w. i = uuid k)"

text \<open>The codes tried for a signup session, as the audit log has them.\<close>

definition tried :: "id \<Rightarrow> auth_world \<Rightarrow> int" where
  "tried i w = int (length (filter (\<lambda>a. au_entity a = i \<and> (au_type a = Otp_failed \<or> au_type a = Otp_verified)) (aw_audit w)))"

definition code_request :: "string \<Rightarrow> audit_log \<Rightarrow> bool" where
  "code_request phone a \<longleftrightarrow> (au_type a = Signup_started \<or> au_type a = Otp_resend) \<and> au_phone a = phone"

definition quarter :: int where "quarter = 15 * 60 * 1000"

definition requests_in :: "string \<Rightarrow> time_ms \<Rightarrow> time_ms \<Rightarrow> auth_world \<Rightarrow> nat" where
  "requests_in phone a b w = length (filter (\<lambda>l. code_request phone l \<and> a \<le> au_createdAt l \<and> au_createdAt l \<le> b) (aw_audit w))"

definition ids_ok :: "(nat \<Rightarrow> id) \<Rightarrow> id set \<Rightarrow> auth_world \<Rightarrow> bool" where
  "ids_ok uuid gone w \<longleftrightarrow> distinct (map sv_id (aw_signups w)) \<and> (\<forall>s \<in> set (aw_signups w). drawn uuid (sv_id s) w)
     \<and> (\<forall>a \<in> set (aw_audit w). drawn uuid (au_entity a) w) \<and> (\<forall>s \<in> set (aw_sessions w). drawn uuid (se_id s) w)
     \<and> (\<forall>i \<in> gone. drawn uuid i w \<and> (\<forall>s \<in> set (aw_sessions w). se_id s \<noteq> i))"

definition tries_ok :: "auth_world \<Rightarrow> bool" where
  "tries_ok w \<longleftrightarrow> (\<forall>s \<in> set (aw_signups w). tried (sv_id s) w \<le> sv_attempts s \<and> sv_attempts s \<le> 5)"

definition paced :: "time_ms \<Rightarrow> auth_world \<Rightarrow> bool" where
  "paced t w \<longleftrightarrow> (\<forall>a \<in> set (aw_audit w). au_createdAt a \<le> t) \<and> (\<forall>phone s. requests_in phone s (s + quarter) w \<le> 3)"

definition auth_inv :: "(nat \<Rightarrow> id) \<Rightarrow> id set \<Rightarrow> time_ms \<Rightarrow> auth_world \<Rightarrow> bool" where
  "auth_inv uuid gone t w \<longleftrightarrow> ids_ok uuid gone w \<and> tries_ok w \<and> paced t w"

text \<open>One more code may be tried for a session; one more may be asked for a phone number.\<close>

definition credit :: "id \<Rightarrow> auth_world \<Rightarrow> bool" where
  "credit i w \<longleftrightarrow> (\<forall>s \<in> set (aw_signups w). sv_id s = i \<longrightarrow> tried i w + 1 \<le> sv_attempts s)"

definition room :: "time_ms \<Rightarrow> string \<Rightarrow> auth_world \<Rightarrow> bool" where
  "room t phone w \<longleftrightarrow> requests_in phone (t - quarter) t w < 3"

definition unused :: "id \<Rightarrow> id set \<Rightarrow> auth_world \<Rightarrow> bool" where
  "unused i gone w \<longleftrightarrow> i \<notin> gone \<and> (\<forall>s \<in> set (aw_signups w). sv_id s \<noteq> i) \<and> (\<forall>a \<in> set (aw_audit w). au_entity a \<noteq> i)"

lemma drawn_later: "drawn uuid i w \<Longrightarrow> aw_next w \<le> aw_next w' \<Longrightarrow> drawn uuid i w'"
  unfolding drawn_def by (elim exE conjE, rule exI, rule conjI [OF order.strict_trans2]) (assumption | simp)+

lemma stable_parts: "stable (drawn uuid i)" "stable (credit i)" "stable (room t p)" "stable (unused i G)"
  "stable (auth_inv uuid G t)"
  unfolding stable_def
  by (auto simp: auth_view_def credit_def room_def unused_def auth_inv_def ids_ok_def tries_ok_def paced_def tried_def
      requests_in_def dest: drawn_later intro: drawn_later)

lemma stable_conj: "stable P \<Longrightarrow> stable Q \<Longrightarrow> stable (\<lambda>w. P w \<and> Q w)"
  unfolding stable_def by blast

lemmas stables = stable_parts stable_conj

lemma auth_inv_time: "auth_inv uuid G t w \<Longrightarrow> t \<le> t' \<Longrightarrow> auth_inv uuid G t' w"
  by (fastforce simp: auth_inv_def paced_def)

text \<open>A fresh draw is used by no row.\<close>

lemma draw_fresh:
  assumes "inj uuid" and "auth_inv uuid G t w" and "attempt (\<lambda>w. Inr (uuid (aw_next w), w\<lparr>aw_next := Suc (aw_next w)\<rparr>)) w = (r, w')"
  shows "r = Inr (uuid (aw_next w)) \<and> auth_inv uuid G t w' \<and> drawn uuid (uuid (aw_next w)) w' \<and> unused (uuid (aw_next w)) G w'"
proof -
  have run: "r = Inr (uuid (aw_next w))" "w' = w\<lparr>aw_next := Suc (aw_next w)\<rparr>"
    using assms(3) by (auto simp: attempt_def)
  have "auth_inv uuid G t w'"
    using stable_parts(5) assms(2) unfolding stable_def run(2) by (auto simp: auth_view_def)
  moreover have "\<not> drawn uuid (uuid (aw_next w)) w"
    using assms(1) by (auto simp: drawn_def inj_def)
  then have "unused (uuid (aw_next w)) G w"
    using assms(2) unfolding unused_def auth_inv_def ids_ok_def by metis
  then have "unused (uuid (aw_next w)) G w'"
    using stable_parts(4) unfolding stable_def run(2) by (auto simp: auth_view_def)
  ultimately show ?thesis
    using run by (auto simp: drawn_def)
qed

lemma spec_uuid:
  assumes "inj (ae_uuid E)"
  shows "spec (auth_inv (ae_uuid E) G t) (randomUUID E)
    (\<lambda>i w. auth_inv (ae_uuid E) G t w \<and> drawn (ae_uuid E) i w \<and> unused i G w) (auth_inv (ae_uuid E) G t)"
  unfolding spec_def
proof (intro allI impI)
  fix w assume inv: "auth_inv (ae_uuid E) G t w"
  obtain r w' where run: "randomUUID E w = (r, w')" by force
  from draw_fresh [OF assms inv run [unfolded randomUUID_def draw_def]] run
  show "case randomUUID E w of (Inl e, w') \<Rightarrow> auth_inv (ae_uuid E) G t w'
      | (Inr i, w') \<Rightarrow> auth_inv (ae_uuid E) G t w' \<and> drawn (ae_uuid E) i w' \<and> unused i G w'"
    by simp
qed

section \<open>Rows\<close>

lemma inv_signup_row:
  assumes "auth_inv uuid G t w" "drawn uuid (sv_id s) w" "unused (sv_id s) G w" "sv_attempts s = 0"
  shows "auth_inv uuid G t (w\<lparr>aw_signups := aw_signups w @ [s]\<rparr>)"
proof -
  have none: "tried (sv_id s) w = 0" using assms(3) by (auto simp: tried_def unused_def filter_empty_conv)
  have same: "tried i (w\<lparr>aw_signups := v\<rparr>) = tried i w" "requests_in p a b (w\<lparr>aw_signups := v\<rparr>) = requests_in p a b w"
    "drawn uuid i (w\<lparr>aw_signups := v\<rparr>) = drawn uuid i w" for i p a b v
    by (simp_all add: tried_def requests_in_def drawn_def)
  show ?thesis
    using assms none by (auto simp: auth_inv_def ids_ok_def tries_ok_def paced_def same unused_def)
qed

text \<open>An update of signup rows that keeps their ids and, where it changes the attempts, stays within five.\<close>

lemma inv_signup_update:
  assumes "auth_inv uuid G t w" and "\<And>s. sv_id (f s) = sv_id s"
    and "\<And>s. s \<in> set (aw_signups w) \<Longrightarrow> hit s \<Longrightarrow> sv_attempts s \<le> sv_attempts (f s) \<and> sv_attempts (f s) \<le> 5"
  shows "auth_inv uuid G t (w\<lparr>aw_signups := update_where hit f (aw_signups w)\<rparr>)"
proof -
  have same: "tried i (w\<lparr>aw_signups := v\<rparr>) = tried i w" "requests_in p a b (w\<lparr>aw_signups := v\<rparr>) = requests_in p a b w"
    "drawn uuid i (w\<lparr>aw_signups := v\<rparr>) = drawn uuid i w" for i p a b v
    by (simp_all add: tried_def requests_in_def drawn_def)
  have "map sv_id (update_where hit f (aw_signups w)) = map sv_id (aw_signups w)"
    by (rule map_update_where) (rule assms(2))
  then show ?thesis
    using assms by (fastforce simp: auth_inv_def ids_ok_def tries_ok_def paced_def same set_update_where)
qed

definition as_log :: "auth_env \<Rightarrow> audit_type \<Rightarrow> signup_session \<Rightarrow> audit_log \<Rightarrow> bool" where
  "as_log E ty s a \<longleftrightarrow> au_type a = ty \<and> au_entity a = sv_id s \<and> au_phone a = sv_phone s \<and> au_createdAt a = ae_now E"

lemma log_row: "\<exists>a. logSignupAuditEvent E ty s actor req ip w = w\<lparr>aw_audit := aw_audit w @ [a]\<rparr> \<and> as_log E ty s a"
  unfolding logSignupAuditEvent_def createAuditLogRecord_def as_log_def by (rule exI) (auto intro!: refl)

lemma inv_log:
  assumes inv: "auth_inv uuid G (ae_now E) w" and "drawn uuid (sv_id s) w"
    and pace: "ty = Signup_started \<or> ty = Otp_resend \<Longrightarrow> room (ae_now E) (sv_phone s) w"
    and tries: "ty = Otp_failed \<or> ty = Otp_verified \<Longrightarrow> credit (sv_id s) w"
  shows "auth_inv uuid G (ae_now E) (logSignupAuditEvent E ty s actor req ip w)"
proof -
  obtain a where a: "logSignupAuditEvent E ty s actor req ip w = w\<lparr>aw_audit := aw_audit w @ [a]\<rparr>" "as_log E ty s a"
    using log_row by blast
  let ?w = "w\<lparr>aw_audit := aw_audit w @ [a]\<rparr>"
  have "ids_ok uuid G ?w"
    using inv assms(2) a(2) by (auto simp: auth_inv_def ids_ok_def drawn_def as_log_def)
  moreover have "tries_ok ?w"
    using inv tries a(2) by (auto simp: auth_inv_def tries_ok_def tried_def as_log_def credit_def)
  moreover have "requests_in phone b (b + quarter) ?w \<le> 3" for phone b
  proof (cases "code_request phone a \<and> b \<le> ae_now E \<and> ae_now E \<le> b + quarter")
    case True
    then have r: "room (ae_now E) phone w" using pace a(2) by (auto simp: code_request_def as_log_def)
    have "requests_in phone b (b + quarter) w \<le> requests_in phone (ae_now E - quarter) (ae_now E) w"
      unfolding requests_in_def
    proof (rule length_filter_mono)
      show "code_request phone l \<and> ae_now E - quarter \<le> au_createdAt l \<and> au_createdAt l \<le> ae_now E"
        if "l \<in> set (aw_audit w)" "code_request phone l \<and> b \<le> au_createdAt l \<and> au_createdAt l \<le> b + quarter" for l
        using that True inv by (auto simp: auth_inv_def paced_def)
    qed
    with r True a(2) show ?thesis by (auto simp: requests_in_def room_def as_log_def)
  next
    case False
    then show ?thesis using inv a(2) by (auto simp: auth_inv_def paced_def requests_in_def as_log_def)
  qed
  then have "paced (ae_now E) ?w" using inv a(2) by (auto simp: auth_inv_def paced_def as_log_def)
  ultimately show ?thesis by (simp add: a(1) auth_inv_def)
qed

end
