(* ===== verification/AuthKeeps.thy ===== *)
theory AuthKeeps
  imports AuthRules
begin

text \<open>Every operation of sign-in keeps the invariant of AuthRules.\<close>

section \<open>Calm operations\<close>

text \<open>Changes of the world outside the three tables.\<close>

lemma view_changes [simp]:
  "auth_view (insertVerificationEvent v w) = auth_view w" "aw_next (insertVerificationEvent v w) = aw_next w"
  "auth_view (twilio_event E m ty p w) = auth_view w" "aw_next (twilio_event E m ty p w) = aw_next w"
  "auth_view (marketing_event E ty u t e ph w) = auth_view w" "aw_next (marketing_event E ty u t e ph w) = aw_next w"
  "auth_view (cache_set E k n w) = auth_view w" "aw_next (cache_set E k n w) = aw_next w"
  "auth_view (cache_delete E k w) = auth_view w" "aw_next (cache_delete E k w) = aw_next w"
  "auth_view (updateAuthAccountLastLoginAt i t' w) = auth_view w" "aw_next (updateAuthAccountLastLoginAt i t' w) = aw_next w"
  "auth_view (markOtpVerificationVerified t' i w) = auth_view w" "aw_next (markOtpVerificationVerified t' i w) = aw_next w"
  "auth_view (softDeleteOtpVerificationsForPhone t' p q w) = auth_view w"
  "aw_next (softDeleteOtpVerificationsForPhone t' p q w) = aw_next w"
  "auth_view (markEmailVerificationTokenVerified t' i w) = auth_view w"
  "aw_next (markEmailVerificationTokenVerified t' i w) = aw_next w"
  "auth_view (softDeleteEmailVerificationTokensForUser t' i w) = auth_view w"
  "aw_next (softDeleteEmailVerificationTokensForUser t' i w) = aw_next w"
  "auth_view (otp_event E m ty x p w) = auth_view w" "aw_next (otp_event E m ty x p w) = aw_next w"
  "auth_view (onUserRegistered E u e' w) = auth_view w" "aw_next (onUserRegistered E u e' w) = aw_next w"
  "auth_view (onUserLogin E u e' w) = auth_view w" "aw_next (onUserLogin E u e' w) = aw_next w"
  "auth_view (onEmailVerified E u e' t w) = auth_view w" "aw_next (onEmailVerified E u e' t w) = aw_next w"
  "auth_view (onOtpVerified E u e' t w) = auth_view w" "aw_next (onOtpVerified E u e' t w) = aw_next w"
  "auth_view (w\<lparr>aw_accounts := as\<rparr>) = auth_view w"
  by (simp_all add: auth_view_def insertVerificationEvent_def twilio_event_def marketing_event_def cache_set_def
      cache_delete_def updateAuthAccountLastLoginAt_def markOtpVerificationVerified_def softDeleteOtpVerificationsForPhone_def
      markEmailVerificationTokenVerified_def softDeleteEmailVerificationTokensForUser_def otp_event_def onUserRegistered_def
      onUserLogin_def onEmailVerified_def onOtpVerified_def)

lemma calm_inserts [calm_intros]:
  "calm (randomUUID E)" "calm (hashPassword E p)" "calm (createUserRecord E u)" "calm (createAuthAccount E a)"
  "calm (createTenantRecord E t)" "calm (createTenantMemberRecord m)" "calm (update_user i f now)"
  "calm (createOtpVerification E o' ph h q x)" "calm (createEmailVerificationToken E i h x)" "calm (incrementOtpAttempts i)"
  "calm (enqueue_mail tn user email)"
  unfolding randomUUID_def hashPassword_def createUserRecord_def createAuthAccount_def createTenantRecord_def
    createTenantMemberRecord_def update_user_def createOtpVerification_def createEmailVerificationToken_def
    incrementOtpAttempts_def enqueue_mail_def Let_def
  by (intro calm_intros calm_attempt; auto simp: auth_view_def split: if_splits)+

lemma calm_twilio [calm_intros]:
  "calm (twilioRequest E path form)" "calm (twilio_sendOtp E ph q m)" "calm (twilio_verifyOtp E ph c q m)"
  "calm (dispatch_sms E ph msg)"
proof -
  show req: "calm (twilioRequest E path form)" for path form
    unfolding twilioRequest_def by (intro calm_intros) (auto split: twilio_reply.split intro!: calm_intros)
  show "calm (twilio_sendOtp E ph q m)"
    unfolding twilio_sendOtp_def by (intro calm_intros req) auto
  show "calm (twilio_verifyOtp E ph c q m)"
    unfolding twilio_verifyOtp_def by (intro calm_intros req) auto
  show "calm (dispatch_sms E ph msg)"
    unfolding dispatch_sms_def twilio_sendSms_def
    by (intro calm_intros) (auto split: twilio_reply.split intro!: calm_intros)
qed

lemma calm_limits [calm_intros]: "calm (limit_by E m src e ph p n why)" "calm (assertRateLimit E m src e ph)"
proof -
  show lim: "calm (limit_by E m src e ph p n why)" for p n why
    unfolding limit_by_def by (intro calm_intros) auto
  show "calm (assertRateLimit E m src e ph)"
    unfolding assertRateLimit_def Let_def by (intro calm_intros lim)
qed

lemma calm_notify [calm_intros]: "calm (notify_sendOtp E ph otp u m)"
  unfolding notify_sendOtp_def by (intro calm_intros) auto

lemma calm_usernames [calm_intros]: "calm (try_usernames E k c)" "calm (generateAvailableUsername E email)"
proof -
  show try_calm: "calm (try_usernames E k c)" for k c
    by (induction k) (auto simp: Let_def intro!: calm_intros)
  show "calm (generateAvailableUsername E email)"
    unfolding generateAvailableUsername_def Let_def by (intro calm_intros try_calm)
qed

lemma calm_free_username [calm_intros]: "calm (free_username E k b n)"
proof (induction k arbitrary: n)
  case 0
  show ?case by (subst free_username.simps) (auto intro!: calm_intros)
next
  case (Suc k)
  then show ?case by (subst free_username.simps) (auto intro!: calm_intros)
qed

lemma calm_codes [calm_intros]: "calm (send_signup_code E ph ip)" "calm (replace_code E ph q u h)"
  "calm (sendOtp E ph q m)" "calm (provided_user E ph q us)" "calm (check_own_code E x ph c m)" "calm (accept_code E x ph m)"
  unfolding send_signup_code_def replace_code_def sendOtp_def provided_user_def provisionConsumerUser_def check_own_code_def
    accept_code_def updateUserPhoneVerified_def Let_def
  by (intro calm_intros; simp)+

lemma calm_emails [calm_intros]: "calm (sendVerificationEmail E email m)" "calm (verifyEmail E t m)"
  unfolding sendVerificationEmail_def verifyEmail_def use_token_def accept_token_def updateUserEmailVerified_def
  by (intro calm_intros; simp)+

lemma calm_reads [calm_intros]: "calm (me i)" "calm (authMiddleware E h)" "calm (assertSignupIdentityAvailability e n p)"
  "calm (assertSignupVerificationRequestRateLimit E p ip)"
  unfolding me_def authMiddleware_def assertSignupIdentityAvailability_def assertSignupVerificationRequestRateLimit_def
  by (intro calm_intros)+

section \<open>Sessions\<close>

abbreviation auth_I :: "auth_env \<Rightarrow> id set \<Rightarrow> auth_world \<Rightarrow> bool" where
  "auth_I E gone \<equiv> auth_inv (ae_uuid E) gone (ae_now E)"

lemma inv_sessions:
  assumes "auth_inv uuid G t w" and "\<And>s. s \<in> set rows \<Longrightarrow> drawn uuid (se_id s) w \<and> se_id s \<notin> G"
  shows "auth_inv uuid G t (w\<lparr>aw_sessions := rows\<rparr>)"
  using assms by (auto simp: auth_inv_def ids_ok_def tries_ok_def paced_def tried_def requests_in_def drawn_def)

lemma inv_session_rows: "auth_inv uuid G t w \<Longrightarrow> s \<in> set (aw_sessions w) \<Longrightarrow> drawn uuid (se_id s) w \<and> se_id s \<notin> G"
  by (auto simp: auth_inv_def ids_ok_def)

text \<open>A session row under a fresh id, after the token and its hash are made.\<close>

lemma spec_session_row:
  assumes "inj (ae_uuid E)" and own: "\<And>sid h life. se_id (row sid h life) = sid"
  shows "spec (auth_I E G)
    (bnd (randomUUID E) (\<lambda>sid. bnd (lift (r sid)) (\<lambda>(access, refresh). bnd (hashPassword E refresh) (\<lambda>h.
       bnd (lift l) (\<lambda>life. bnd (createSessionRecord (row sid h life)) (\<lambda>s. ret (f s access refresh)))))))
    (\<lambda>_. auth_I E G) (auth_I E G)"
proof (rule spec_bnd [OF spec_uuid [OF assms(1)]])
  fix sid
  let ?Q = "\<lambda>w. auth_I E G w \<and> drawn (ae_uuid E) sid w \<and> unused sid G w"
  have hash: "spec ?Q (hashPassword E x) (\<lambda>_. ?Q) (auth_I E G)" for x
    by (rule spec_throws [OF spec_calm]) (auto intro!: calm_intros stables)
  have row: "spec ?Q (createSessionRecord (row sid h life)) (\<lambda>_. auth_I E G) (auth_I E G)" for h life
    unfolding createSessionRecord_def
    by (rule spec_attempt) (auto simp: own unused_def split: if_splits intro!: inv_sessions dest: inv_session_rows)
  show "spec ?Q (bnd (lift (r sid)) (\<lambda>(access, refresh). bnd (hashPassword E refresh) (\<lambda>h.
       bnd (lift l) (\<lambda>life. bnd (createSessionRecord (row sid h life)) (\<lambda>s. ret (f s access refresh))))))
    (\<lambda>_. auth_I E G) (auth_I E G)"
    by (rule spec_bnd [where R = "\<lambda>_. ?Q"]; (rule spec_lift; blast)?; clarify?)
      (rule spec_bnd [OF hash] spec_bnd [where R = "\<lambda>_. ?Q"] spec_bnd [OF row] spec_quiet | (rule spec_lift; blast) | assumption)+
qed

lemma keeps_open_session: "inj (ae_uuid E) \<Longrightarrow> spec (auth_I E G) (open_session E u ip) (\<lambda>_. auth_I E G) (auth_I E G)"
  unfolding open_session_def by (rule spec_session_row) simp_all

lemma lift_unit: "bnd (lift (Inr x)) f = f x"
  by (rule ext) (simp add: bnd_def lift_def)

lemma keeps_createAuthSession: "inj (ae_uuid E) \<Longrightarrow> spec (auth_I E G) (createAuthSession E u m) (\<lambda>_. auth_I E G) (auth_I E G)"
proof -
  assume inj: "inj (ae_uuid E)"
  have step: "createAuthSession E u m = bnd (randomUUID E) (\<lambda>sid.
      bnd (lift (createTokenPair E ((user_claims u sid)\<lparr>jw_phoneVerified := True\<rparr>))) (\<lambda>(access, refresh).
      bnd (hashPassword E refresh) (\<lambda>h. bnd (lift (Inr ())) (\<lambda>_.
      bnd (createSessionRecord \<lparr>se_id = sid, se_user = us_id u, se_hash = h,
            se_expiresAt = ae_now E + 30 * 24 * 60 * 60 * 1000, se_ip = (if truthy (rm_ip m) then rm_ip m else None)\<rparr>) (\<lambda>s.
      ret \<lparr>ar_user = u, ar_session = s, ar_access = access, ar_refresh = refresh\<rparr>)))))"
    unfolding createAuthSession_def by (simp add: lift_unit)
  show ?thesis unfolding step by (rule spec_session_row [OF inj]) simp
qed

text \<open>Rotating the hash keeps the ids; ending a session adds it to those that are gone.\<close>

lemma keeps_rotation: "holds (auth_inv uuid G t) (updateSessionRefreshTokenHash i h x)"
  unfolding updateSessionRefreshTokenHash_def Let_def
proof (rule holds_attempt)
  fix w y w'
  assume inv: "auth_inv uuid G t w"
    and "Inr (map_option (\<lambda>s. s\<lparr>se_hash := h, se_expiresAt := x\<rparr>) (findSessionById i w), w\<lparr>aw_sessions := update_where
      (\<lambda>s. se_id s = i) (\<lambda>s. s\<lparr>se_hash := h, se_expiresAt := x\<rparr>) (aw_sessions w)\<rparr>) = (Inr (y, w') :: (_ \<times> auth_world) res)"
  then have "w' = w\<lparr>aw_sessions := update_where (\<lambda>s. se_id s = i) (\<lambda>s. s\<lparr>se_hash := h, se_expiresAt := x\<rparr>) (aw_sessions w)\<rparr>"
    by simp
  moreover have "drawn uuid (se_id s) w \<and> se_id s \<notin> G"
    if "s \<in> set (update_where (\<lambda>s. se_id s = i) (\<lambda>s. s\<lparr>se_hash := h, se_expiresAt := x\<rparr>) (aw_sessions w))" for s
    using that inv_session_rows [OF inv] by (auto simp: set_update_where)
  ultimately show "auth_inv uuid G t w'" using inv_sessions [OF inv] by simp
qed

lemma inv_delete: "auth_inv uuid G t w \<Longrightarrow> auth_inv uuid G t (deleteSessionById i w)"
  unfolding deleteSessionById_def by (rule inv_sessions) (auto dest: inv_session_rows)

section \<open>Signing up\<close>

lemma spec_and: "spec Q m R P \<Longrightarrow> spec Q' m R' P' \<Longrightarrow> spec (\<lambda>w. Q w \<and> Q' w) m (\<lambda>x w. R x w \<and> R' x w) (\<lambda>w. P w \<and> P' w)"
  unfolding spec_def by (fastforce split: prod.splits sum.splits)

lemma credit_update:
  assumes "credit i w" and "\<And>s. sv_id (f s) = sv_id s" and "\<And>s. sv_attempts (f s) = sv_attempts s"
  shows "credit i (w\<lparr>aw_signups := update_where hit f (aw_signups w)\<rparr>)"
  using assms by (auto simp: credit_def set_update_where tried_def)

lemma drawn_signups [simp]: "drawn uuid i (w\<lparr>aw_signups := v\<rparr>) = drawn uuid i w"
  by (simp add: drawn_def)

text \<open>A change of a session's status or Twilio id.\<close>

lemma keeps_signup_update:
  assumes "\<And>s. sv_id (f s) = sv_id s" and "\<And>s. sv_attempts (f s) = sv_attempts s"
  shows "holds (auth_inv uuid G t) (update_signup hit f)"
    and "spec (\<lambda>w. auth_inv uuid G t w \<and> drawn uuid i w) (update_signup hit f) (\<lambda>_ w. auth_inv uuid G t w \<and> drawn uuid i w) P"
    and "spec (\<lambda>w. auth_inv uuid G t w \<and> drawn uuid i w \<and> credit i w) (update_signup hit f)
      (\<lambda>_ w. auth_inv uuid G t w \<and> drawn uuid i w \<and> credit i w) P"
proof -
  have inv: "auth_inv uuid G t (w\<lparr>aw_signups := update_where hit f (aw_signups w)\<rparr>)" if "auth_inv uuid G t w" for w
    by (rule inv_signup_update [OF that assms(1)]) (use that assms(2) in \<open>auto simp: auth_inv_def tries_ok_def\<close>)
  show "holds (auth_inv uuid G t) (update_signup hit f)"
    unfolding update_signup_def by (rule holds_attempt) (use inv in auto)
  show "spec (\<lambda>w. auth_inv uuid G t w \<and> drawn uuid i w) (update_signup hit f) (\<lambda>_ w. auth_inv uuid G t w \<and> drawn uuid i w) P"
    "spec (\<lambda>w. auth_inv uuid G t w \<and> drawn uuid i w \<and> credit i w) (update_signup hit f)
      (\<lambda>_ w. auth_inv uuid G t w \<and> drawn uuid i w \<and> credit i w) P"
    using inv credit_update [OF _ assms] by (auto simp: spec_def update_signup_def attempt_def)
qed

lemma spec_rate: "spec (auth_I E G) (assertSignupVerificationRequestRateLimit E phone ip)
    (\<lambda>_ w. auth_I E G w \<and> room (ae_now E) phone w) (auth_I E G)"
  unfolding assertSignupVerificationRequestRateLimit_def
proof (rule spec_bnd [where R = "\<lambda>p w. auth_I E G w \<and> fst p = signup_requests E (Some phone) None w"]; (rule spec_quiet; simp)?)
  fix p :: "nat \<times> nat"
  have "requests_in phone (ae_now E - quarter) (ae_now E) w \<le> signup_requests E (Some phone) None w" for w
    unfolding requests_in_def signup_requests_def countSignupVerificationAuditEvents_def
    by (rule length_filter_mono) (auto simp: code_request_def quarter_def truthy_def)
  then have "room (ae_now E) phone w" if "signup_requests E (Some phone) None w < 3" for w
    unfolding room_def using that le_less_trans by blast
  then show "spec (\<lambda>w. auth_I E G w \<and> fst p = signup_requests E (Some phone) None w)
      (case p of (byPhone, byIp) \<Rightarrow> check (\<not> (3 \<le> byPhone \<or> 3 \<le> byIp)) (rateLimited (text_detail ''Too many verification requests'')))
      (\<lambda>_ w. auth_I E G w \<and> room (ae_now E) phone w) (auth_I E G)"
    by (cases p) (auto intro!: spec_check)
qed

lemma spec_log:
  assumes "ty \<noteq> Signup_started" "ty \<noteq> Otp_resend" "ty \<noteq> Otp_failed" "ty \<noteq> Otp_verified"
  shows "spec (\<lambda>w. auth_I E G w \<and> drawn (ae_uuid E) (sv_id s) w) (alter (logSignupAuditEvent E ty s a req ip)) (\<lambda>_. auth_I E G) P"
  by (rule spec_quiet) (use assms in \<open>auto intro!: inv_log\<close>)

lemma spec_new_signup:
  assumes inj: "inj (ae_uuid E)" and s: "sv_attempts s = 0"
  shows "spec (\<lambda>w. auth_I E G w \<and> room t ph w) (createSignupVerificationSession E s)
    (\<lambda>r w. auth_I E G w \<and> drawn (ae_uuid E) (sv_id r) w \<and> room t ph w \<and> sv_phone r = sv_phone s) (auth_I E G)"
  unfolding createSignupVerificationSession_def
proof (rule spec_bnd)
  show "spec (\<lambda>w. auth_I E G w \<and> room t ph w) (randomUUID E)
      (\<lambda>i w. (auth_I E G w \<and> drawn (ae_uuid E) i w \<and> unused i G w) \<and> room t ph w) (auth_I E G)"
    by (rule spec_throws [OF spec_and [OF spec_uuid [OF inj] spec_calm]]) (auto intro: calm_intros stables)
next
  fix i
  show "spec (\<lambda>w. (auth_I E G w \<and> drawn (ae_uuid E) i w \<and> unused i G w) \<and> room t ph w)
      (attempt (\<lambda>w. let r = s\<lparr>sv_id := i\<rparr> in Inr (r, w\<lparr>aw_signups := aw_signups w @ [r]\<rparr>)))
      (\<lambda>r w. auth_I E G w \<and> drawn (ae_uuid E) (sv_id r) w \<and> room t ph w \<and> sv_phone r = sv_phone s) (auth_I E G)"
    by (rule spec_attempt) (auto simp: s room_def requests_in_def Let_def intro!: inv_signup_row)
qed

lemma onward_signup [onward_intros]:
  "onward (createSignupVerificationSession E s)" "onward (createSessionRecord x)"
  unfolding createSignupVerificationSession_def createSessionRecord_def
  by (intro onward_intros calm_intros onward_attempt; auto simp: Let_def split: if_splits)+

lemma log_next [simp]: "aw_next (logSignupAuditEvent E ty s a req ip w) = aw_next w"
  by (simp add: logSignupAuditEvent_def createAuditLogRecord_def)

lemma onward_open_session [onward_intros]: "onward (open_session E u ip)"
  unfolding open_session_def by (intro onward_intros calm_intros)

lemma keeps_start:
  assumes inj: "inj (ae_uuid E)"
  shows "holds (auth_I E G) (startSignupVerification E i ip req)"
proof (rule holds_spec)
  let ?I = "auth_I E G" and ?D = "\<lambda>s w. auth_I E G w \<and> drawn (ae_uuid E) (sv_id s) w"
  have tx: "spec (\<lambda>w. ?I w \<and> room (ae_now E) phone w)
      (auth_tx (bnd (createSignupVerificationSession E (new_signup E i phone h ip)) (\<lambda>s.
        bnd (alter (logSignupAuditEvent E Signup_started s None req ip)) (\<lambda>_. ret s)))) ?D ?I" for phone h
  proof (rule spec_tx)
    show "spec (\<lambda>w. ?I w \<and> room (ae_now E) phone w) (bnd (createSignupVerificationSession E (new_signup E i phone h ip)) (\<lambda>s.
        bnd (alter (logSignupAuditEvent E Signup_started s None req ip)) (\<lambda>_. ret s))) ?D (\<lambda>_. True)"
    proof (rule spec_bnd [OF spec_throws [OF spec_new_signup [OF inj]]])
      fix s
      show "spec (\<lambda>w. ?I w \<and> drawn (ae_uuid E) (sv_id s) w \<and> room (ae_now E) phone w \<and> sv_phone s = sv_phone (new_signup E i phone h ip))
          (bnd (alter (logSignupAuditEvent E Signup_started s None req ip)) (\<lambda>_. ret s)) ?D (\<lambda>_. True)"
        by (rule spec_bnd [where R = "\<lambda>_. ?D s"]; rule spec_quiet)
          (auto simp: new_signup_def intro!: inv_log, auto simp: drawn_def)
    qed (simp_all add: new_signup_def)
    show "onward (bnd (createSignupVerificationSession E (new_signup E i phone h ip)) (\<lambda>s.
        bnd (alter (logSignupAuditEvent E Signup_started s None req ip)) (\<lambda>_. ret s)))"
      by (rule onward_control onward_signup onward_alter log_next)+
  qed (auto intro: stables)
  have send: "spec (?D s) (handle (bnd (send_signup_code E ph ip) (\<lambda>sid.
        bnd (updateSignupVerificationSessionVerificationSid (sv_id s) sid) (\<lambda>_.
        alter (logSignupAuditEvent E Otp_sent s None req ip))))
       (\<lambda>e. bnd (markSignupVerificationSessionCancelled (sv_id s)) (\<lambda>_. throw e))) (\<lambda>_. ?I) ?I" for s ph
  proof (rule spec_handle [where P' = "?D s"])
    show "spec (?D s) (bnd (send_signup_code E ph ip) (\<lambda>sid.
        bnd (updateSignupVerificationSessionVerificationSid (sv_id s) sid) (\<lambda>_.
        alter (logSignupAuditEvent E Otp_sent s None req ip)))) (\<lambda>_. ?I) (?D s)"
      unfolding updateSignupVerificationSessionVerificationSid_def
      by (intro spec_bnd [OF spec_calm] spec_bnd [OF keeps_signup_update(2)] spec_log calm_intros stables) auto
    show "spec (?D s) (bnd (markSignupVerificationSessionCancelled (sv_id s)) (\<lambda>_. throw e)) (\<lambda>_. ?I) ?I" for e
      unfolding markSignupVerificationSessionCancelled_def
      by (rule spec_bnd [OF keeps_signup_update(2)]) (auto intro!: spec_quiet)
  qed
  show "spec ?I (startSignupVerification E i ip req) (\<lambda>_. ?I) ?I"
    unfolding startSignupVerification_def
    by (rule spec_bnd [where R = "\<lambda>_. ?I"], (rule spec_lift; simp), rule spec_bnd [OF spec_calm], intro calm_intros, rule stables,
        rule spec_bnd [OF spec_rate], rule spec_bnd [OF spec_throws [OF spec_calm]], intro calm_intros, intro stables, simp,
        rule spec_bnd [OF tx], rule spec_bnd [OF send], rule spec_quiet, simp)
qed

end
