(* ===== verification/AuthReach.thy ===== *)
theory AuthReach
  imports AuthKeeps
begin

text \<open>
  The other operations keep the invariant too; sign-in over time, as any mix of calls at times that do
  not go back, each with an outside of its own, and of changes of the other tables by others.
\<close>

section \<open>Resending and verifying\<close>

abbreviation drawn_I :: "auth_env \<Rightarrow> id set \<Rightarrow> id \<Rightarrow> auth_world \<Rightarrow> bool" where
  "drawn_I E gone i w \<equiv> auth_I E gone w \<and> drawn (ae_uuid E) i w"

abbreviation credit_I :: "auth_env \<Rightarrow> id set \<Rightarrow> id \<Rightarrow> auth_world \<Rightarrow> bool" where
  "credit_I E gone i w \<equiv> auth_I E gone w \<and> drawn (ae_uuid E) i w \<and> credit i w"

lemma spec_open_signup: "spec (auth_I E G) (open_signup E i) (\<lambda>s. drawn_I E G (sv_id s)) (auth_I E G)"
  unfolding open_signup_def
proof (rule spec_bnd [where R = "\<lambda>s. drawn_I E G (sv_id s)"])
  show "spec (auth_I E G) (fetch (findSignupVerificationSessionById i) verificationSessionNotFound)
      (\<lambda>s. drawn_I E G (sv_id s)) (auth_I E G)"
    by (rule spec_fetch)
      (auto simp: findSignupVerificationSessionById_def auth_inv_def ids_ok_def dest!: find_SomeD)
  fix s :: signup_session
  have expire: "spec (drawn_I E G (sv_id s)) (bnd (markSignupVerificationSessionExpired (sv_id s)) (\<lambda>_. throw e))
      (\<lambda>s. drawn_I E G (sv_id s)) (auth_I E G)" for e
    unfolding markSignupVerificationSessionExpired_def
    by (rule spec_bnd [OF keeps_signup_update(2)]) (auto intro!: spec_quiet)
  show "spec (drawn_I E G (sv_id s))
      (bnd (check (sv_status s \<noteq> S_verified) verificationSessionNotFound) (\<lambda>_.
       bnd (check (sv_status s \<noteq> S_cancelled) verificationSessionNotFound) (\<lambda>_.
       if sv_status s = S_expired \<or> sv_expiresAt s \<le> ae_now E then
         bnd (markSignupVerificationSessionExpired (sv_id s)) (\<lambda>_. throw (otpExpired None))
       else ret s))) (\<lambda>s. drawn_I E G (sv_id s)) (auth_I E G)"
    by (rule spec_bnd [where R = "\<lambda>_. drawn_I E G (sv_id s)"], (rule spec_check; blast))+
      (rule spec_if, rule expire, rule spec_quiet, simp)
qed

lemma keeps_resend: "holds (auth_I E G) (resendSignupVerification E i ip req)"
proof (rule holds_spec, unfold resendSignupVerification_def, rule spec_bnd [OF spec_open_signup])
  fix s :: signup_session
  let ?R = "\<lambda>w. drawn_I E G (sv_id s) w \<and> room (ae_now E) (sv_phone s) w"
  have rate: "spec (drawn_I E G (sv_id s)) (assertSignupVerificationRequestRateLimit E (sv_phone s) ip') (\<lambda>_. ?R) (auth_I E G)" for ip'
    by (rule spec_throws [OF spec_post [OF spec_and [OF spec_rate spec_calm]]]) (auto intro: calm_intros stables)
  have code: "spec ?R (send_signup_code E ph ip') (\<lambda>_. ?R) (auth_I E G)" for ph ip'
    by (rule spec_throws [OF spec_calm]) (auto intro!: calm_intros stables)
  have sid: "spec ?R (updateSignupVerificationSessionVerificationSid (sv_id s) x) (\<lambda>_. ?R) (auth_I E G)" for x
    unfolding updateSignupVerificationSessionVerificationSid_def
    using keeps_signup_update(2) [of "\<lambda>s. s\<lparr>sv_sid := Some x\<rparr>" "ae_uuid E" G "ae_now E" "sv_id s" "\<lambda>s'. sv_id s' = sv_id s"]
    by (auto simp: spec_def update_signup_def attempt_def room_def requests_in_def)
  have log: "spec ?R (alter (logSignupAuditEvent E Otp_resend s None req ip')) (\<lambda>_. auth_I E G) (auth_I E G)" for ip'
    by (rule spec_quiet) (auto intro!: inv_log)
  show "spec (drawn_I E G (sv_id s))
     (bnd (assertSignupVerificationRequestRateLimit E (sv_phone s) (first_of ip (sv_ip s))) (\<lambda>_.
      bnd (send_signup_code E (sv_phone s) (first_of ip (sv_ip s))) (\<lambda>sid.
      bnd (updateSignupVerificationSessionVerificationSid (sv_id s) sid) (\<lambda>u.
      bnd (check (u \<noteq> None) (badRequest ''Unable to update verification session'')) (\<lambda>_.
      alter (logSignupAuditEvent E Otp_resend s None req (first_of ip (sv_ip s)))))))) (\<lambda>_. auth_I E G) (auth_I E G)"
    by (rule spec_bnd [OF rate], rule spec_bnd [OF code], rule spec_bnd [OF sid], rule spec_bnd [OF _ log], rule spec_check) auto
qed

text \<open>A claimed attempt makes room for one more code.\<close>

lemma spec_claim: "spec (drawn_I E G i) (claimSignupVerificationAttempt now i 5)
    (\<lambda>c w. drawn_I E G i w \<and> (c \<noteq> None \<longrightarrow> credit i w)) (auth_I E G)"
  unfolding claimSignupVerificationAttempt_def update_signup_def
proof (rule spec_attempt)
  let ?hit = "\<lambda>s. sv_id s = i \<and> sv_status s = S_pending \<and> now \<le> sv_expiresAt s \<and> sv_attempts s < 5"
  let ?f = "\<lambda>s :: signup_session. s\<lparr>sv_attempts := sv_attempts s + 1\<rparr>"
  fix w c w'
  assume I: "drawn_I E G i w"
    and "Inr (map_option ?f (List.find ?hit (aw_signups w)), w\<lparr>aw_signups := update_where ?hit ?f (aw_signups w)\<rparr>)
      = (Inr (c, w') :: (_ \<times> auth_world) res)"
  then have c: "c = map_option ?f (List.find ?hit (aw_signups w))" and w': "w' = w\<lparr>aw_signups := update_where ?hit ?f (aw_signups w)\<rparr>"
    by simp_all
  have "auth_I E G w'" unfolding w' by (rule inv_signup_update) (use I in auto)
  moreover have "credit i w'" if "c \<noteq> None"
  proof -
    from that c obtain s where s: "s \<in> set (aw_signups w)" "?hit s" by (auto dest!: find_SomeD)
    have "s' = s" if "s' \<in> set (aw_signups w)" "sv_id s' = i" for s'
      using I s that by (auto simp: auth_inv_def ids_ok_def distinct_map inj_on_def)
    then show ?thesis
      using I s by (auto simp: credit_def w' set_update_where tried_def auth_inv_def tries_ok_def)
  qed
  ultimately show "drawn_I E G i w' \<and> (c \<noteq> None \<longrightarrow> credit i w')" using I by (simp add: w')
qed auto

lemma spec_try_log:
  "ty = Otp_failed \<or> ty = Otp_verified \<Longrightarrow> spec (credit_I E G (sv_id s)) (alter (logSignupAuditEvent E ty s a req ip))
    (\<lambda>_. drawn_I E G (sv_id s)) P"
  by (rule spec_quiet) (auto intro!: inv_log, auto simp: drawn_def)

lemma spec_code_valid: "spec (credit_I E G (sv_id s)) (signup_code_valid E s code ip req) (\<lambda>_. credit_I E G (sv_id s)) (auth_I E G)"
  unfolding signup_code_valid_def
proof (rule spec_if)
  show "spec (credit_I E G (sv_id s)) (ret True) (\<lambda>_. credit_I E G (sv_id s)) (auth_I E G)" by (rule spec_quiet)
  show "spec (credit_I E G (sv_id s))
      (handle (twilio_verifyOtp E (sv_phone s) (trim code) For_signup (signup_meta (first_of ip (sv_ip s))))
        (\<lambda>e. bnd (alter (logSignupAuditEvent E Otp_failed s None req (first_of ip (sv_ip s)))) (\<lambda>_. throw e)))
      (\<lambda>_. credit_I E G (sv_id s)) (auth_I E G)"
  proof (rule spec_handle [OF spec_calm])
    fix e
    show "spec (credit_I E G (sv_id s)) (bnd (alter (logSignupAuditEvent E Otp_failed s None req (first_of ip (sv_ip s)))) (\<lambda>_. throw e))
        (\<lambda>_. credit_I E G (sv_id s)) (auth_I E G)"
      by (rule spec_bnd [OF spec_try_log]) (auto intro!: spec_quiet)
  qed (auto intro!: calm_intros stables)
qed

text \<open>The row marked verified is the session's.\<close>

lemma spec_mark_verified: "spec (credit_I E G i) (markSignupVerificationSessionVerified i t)
    (\<lambda>v w. credit_I E G i w \<and> (\<forall>x. v = Some x \<longrightarrow> sv_id x = i)) (auth_I E G)"
proof -
  have "spec (credit_I E G i) (markSignupVerificationSessionVerified i t) (\<lambda>_. credit_I E G i) (auth_I E G)"
    unfolding markSignupVerificationSessionVerified_def by (rule keeps_signup_update(3)) simp_all
  moreover have "spec (\<lambda>_. True) (markSignupVerificationSessionVerified i t) (\<lambda>v w. \<forall>x. v = Some x \<longrightarrow> sv_id x = i) (\<lambda>_. True)"
    by (auto simp: spec_def markSignupVerificationSessionVerified_def update_signup_def attempt_def dest!: find_SomeD)
  ultimately show ?thesis using spec_and by fastforce
qed

lemma keeps_complete:
  assumes inj: "inj (ae_uuid E)"
  shows "spec (drawn_I E G (sv_id v)) (complete_signup E v ip req) (\<lambda>_. auth_I E G) (auth_I E G)"
  unfolding complete_signup_def
proof (rule spec_tx)
  have opened: "spec (drawn_I E G (sv_id v)) (open_session E u ip') (\<lambda>_. drawn_I E G (sv_id v)) (\<lambda>_. True)" for u ip'
  proof -
    have "holds (drawn (ae_uuid E) (sv_id v)) (open_session E u ip')"
      unfolding drawn_def
    proof (rule holdsI)
      fix w :: auth_world
      assume "\<exists>k<aw_next w. sv_id v = ae_uuid E k"
      moreover have "aw_next w \<le> aw_next (snd (open_session E u ip' w))"
        using onward_open_session [of E u ip'] holdsD [of "\<lambda>x. aw_next w \<le> aw_next x" "open_session E u ip'" w]
        by (simp add: onward_def)
      ultimately show "\<exists>k<aw_next (snd (open_session E u ip' w)). sv_id v = ae_uuid E k" by (meson order.strict_trans2)
    qed
    from spec_throws [OF spec_and [OF keeps_open_session [OF inj] spec_holds [OF this]]] show ?thesis by simp
  qed
  have log: "spec (drawn_I E G (sv_id v)) (bnd (alter (logSignupAuditEvent E Signup_completed v a req ip')) (\<lambda>_. ret r))
      (\<lambda>_. auth_I E G) (\<lambda>_. True)" for a ip' and r :: auth_result
    by (rule spec_bnd [OF spec_log]) (auto intro!: spec_quiet)
  show "spec (drawn_I E G (sv_id v)) (bnd (createUserRecord E (signup_user E v)) (\<lambda>u.
      bnd (createAuthAccount E (email_account (us_id u) (sv_email v) (sv_passwordHash v))) (\<lambda>_.
      bnd (open_session E u (first_of ip (sv_ip v))) (\<lambda>r.
      bnd (alter (logSignupAuditEvent E Signup_completed v (Some (us_id u)) req (first_of ip (sv_ip v)))) (\<lambda>_.
      ret r))))) (\<lambda>_. auth_I E G) (\<lambda>_. True)"
    by (rule spec_bnd [OF spec_throws [OF spec_calm]], intro calm_intros, intro stables, simp,
        rule spec_bnd [OF spec_throws [OF spec_calm]], intro calm_intros, intro stables, simp,
        rule spec_bnd [OF opened log])
  show "onward (bnd (createUserRecord E (signup_user E v)) (\<lambda>u.
      bnd (createAuthAccount E (email_account (us_id u) (sv_email v) (sv_passwordHash v))) (\<lambda>_.
      bnd (open_session E u (first_of ip (sv_ip v))) (\<lambda>r.
      bnd (alter (logSignupAuditEvent E Signup_completed v (Some (us_id u)) req (first_of ip (sv_ip v)))) (\<lambda>_.
      ret r)))))"
    by (rule onward_control onward_open_session onward_alter log_next onward_calm calm_inserts)+
qed (auto intro: stables)

lemma keeps_verify:
  assumes inj: "inj (ae_uuid E)"
  shows "holds (auth_I E G) (verifySignupVerification E i code ip req)"
proof (rule holds_spec, unfold verifySignupVerification_def, rule spec_bnd [OF spec_open_signup])
  fix s :: signup_session
  let ?C = "credit_I E G (sv_id s)"
  have rest: "spec (drawn_I E G (sv_id v)) (bnd (complete_signup E v ip req) (\<lambda>r.
      bnd (alter (onUserRegistered E (us_id (ar_user r)) (sv_email v))) (\<lambda>_. ret r))) (\<lambda>_. auth_I E G) (auth_I E G)" for v
    by (rule spec_bnd [OF keeps_complete [OF inj]], rule spec_bnd [OF spec_calm], intro calm_intros, simp, rule stables, rule spec_quiet)
  have fail: "spec ?C (bnd (alter (logSignupAuditEvent E Otp_failed s None req ip')) (\<lambda>_. throw e)) (\<lambda>_. auth_I E G) (auth_I E G)"
    for ip' e by (rule spec_bnd [OF spec_try_log]) (auto intro!: spec_quiet)
  have verified: "spec (\<lambda>w. ?C w \<and> (\<forall>x. v = Some x \<longrightarrow> sv_id x = sv_id s))
      (case v of None \<Rightarrow> throw verificationSessionNotFound
       | Some v \<Rightarrow> bnd (alter (logSignupAuditEvent E Otp_verified s None req ip')) (\<lambda>_.
           bnd (complete_signup E v ip req) (\<lambda>r.
           bnd (alter (onUserRegistered E (us_id (ar_user r)) (sv_email v))) (\<lambda>_. ret r)))) (\<lambda>_. auth_I E G) (auth_I E G)" for v ip'
  proof (cases v)
    case None
    then show ?thesis by (auto intro!: spec_quiet)
  next
    case (Some x)
    show ?thesis
    proof (cases "sv_id x = sv_id s")
      case True
      show ?thesis unfolding Some option.case
        by (rule spec_pre [OF spec_bnd [OF spec_try_log rest [of x, unfolded True]]]) auto
    qed (simp add: Some spec_def)
  qed
  show "spec (drawn_I E G (sv_id s))
     (bnd (claimSignupVerificationAttempt (ae_now E) (sv_id s) 5) (\<lambda>claimed.
      bnd (check (claimed \<noteq> None) (if 5 \<le> sv_attempts s then otpAttemptsExceeded None else verificationSessionNotFound)) (\<lambda>_.
      bnd (signup_code_valid E s code ip req) (\<lambda>valid.
      if \<not> valid then bnd (alter (logSignupAuditEvent E Otp_failed s None req (first_of ip (sv_ip s)))) (\<lambda>_. throw (otpInvalid None))
      else bnd (markSignupVerificationSessionVerified (sv_id s) (ae_now E)) (\<lambda>verified.
        case verified of None \<Rightarrow> throw verificationSessionNotFound
        | Some v \<Rightarrow> bnd (alter (logSignupAuditEvent E Otp_verified s None req (first_of ip (sv_ip s)))) (\<lambda>_.
            bnd (complete_signup E v ip req) (\<lambda>r.
            bnd (alter (onUserRegistered E (us_id (ar_user r)) (sv_email v))) (\<lambda>_. ret r)))))))) (\<lambda>_. auth_I E G) (auth_I E G)"
    by (rule spec_bnd [OF spec_claim], rule spec_bnd [where R = "\<lambda>_. ?C"], (rule spec_check; blast),
        rule spec_bnd [OF spec_code_valid], rule spec_if, rule fail, rule spec_bnd [OF spec_mark_verified verified])
qed

section \<open>Sessions\<close>

lemma keeps_tx: "holds P m \<Longrightarrow> onward m \<Longrightarrow> stable P \<Longrightarrow> holds P (auth_tx m)"
  by (rule holds_spec, rule spec_tx) (auto intro: spec_throws [OF spec_holds])

lemma holds_calm: "calm m \<Longrightarrow> holds (auth_inv uuid G t) m"
  by (erule calm_keeps) (rule stables)

lemmas holds_session = holds_spec [OF keeps_open_session] holds_spec [OF keeps_createAuthSession]

lemma keeps_login: "inj (ae_uuid E) \<Longrightarrow> holds (auth_I E G) (login E email password ip)"
  unfolding login_def
  apply (rule keeps_tx [OF _ _ stable_parts(5)])
  subgoal by (intro holds_bnd holds_quiet holds_session holds_calm calm_alter; simp)
  subgoal by (intro onward_control(1) onward_open_session onward_calm [OF calm_control(8)] onward_calm [OF calm_control(5)]
        onward_calm [OF calm_control(6)] onward_alter onward_control(3); simp add: updateAuthAccountLastLoginAt_def
        onUserLogin_def marketing_event_def insertVerificationEvent_def)
  done

lemma keeps_register: "inj (ae_uuid E) \<Longrightarrow> holds (auth_I E G) (registerOrganizer E i ip)"
  unfolding registerOrganizer_def Let_def
  by (intro holds_bnd holds_quiet holds_session; (rule holds_calm, (intro calm_intros)?)?; simp?)

lemma keeps_refresh: "holds (auth_I E G) (refresh E token)"
  unfolding refresh_def
  by (intro holds_bnd holds_quiet keeps_rotation holds_prod holds_option holds_calm [OF calm_inserts(2)])

lemma keeps_logout: "holds (auth_I E G) (logout E token)"
  unfolding logout_def
  by (intro holds_bnd holds_quiet holds_option holds_alter inv_delete)

lemma keeps_session_for: "inj (ae_uuid E) \<Longrightarrow> holds (auth_I E G) (session_for E q m u)"
  unfolding session_for_def by (intro holds_option holds_if holds_bnd holds_quiet holds_session)

lemma keeps_verifyOtp: "inj (ae_uuid E) \<Longrightarrow> holds (auth_I E G) (verifyOtp E phone q code m)"
  unfolding verifyOtp_def verified_by_twilio_def updateUserPhoneVerified_def
  by (intro holds_if holds_bnd holds_option holds_quiet keeps_session_for;
      ((rule holds_calm)?, (intro calm_intros)?)?; simp split: option.split)

section \<open>Calls\<close>

text \<open>A request at time \<open>t\<close>; \<open>by_others\<close> are changes of the other tables.\<close>

inductive auth_call :: "(nat \<Rightarrow> id) \<Rightarrow> time_ms \<Rightarrow> auth_world \<Rightarrow> auth_world \<Rightarrow> bool" for uuid t where
  by_others: "auth_view w' = auth_view w \<Longrightarrow> aw_next w \<le> aw_next w' \<Longrightarrow> auth_call uuid t w w'"
| by_start: "ae_uuid E = uuid \<Longrightarrow> ae_now E = t \<Longrightarrow> auth_call uuid t w (snd (startSignupVerification E i ip req w))"
| by_resend: "ae_uuid E = uuid \<Longrightarrow> ae_now E = t \<Longrightarrow> auth_call uuid t w (snd (resendSignupVerification E j ip req w))"
| by_verify: "ae_uuid E = uuid \<Longrightarrow> ae_now E = t \<Longrightarrow> auth_call uuid t w (snd (verifySignupVerification E j code ip req w))"
| by_login: "ae_uuid E = uuid \<Longrightarrow> ae_now E = t \<Longrightarrow> auth_call uuid t w (snd (login E email password ip w))"
| by_register: "ae_uuid E = uuid \<Longrightarrow> ae_now E = t \<Longrightarrow> auth_call uuid t w (snd (registerOrganizer E org ip w))"
| by_refresh: "ae_uuid E = uuid \<Longrightarrow> ae_now E = t \<Longrightarrow> auth_call uuid t w (snd (refresh E token w))"
| by_logout: "ae_uuid E = uuid \<Longrightarrow> ae_now E = t \<Longrightarrow> auth_call uuid t w (snd (logout E token w))"
| by_me: "auth_call uuid t w (snd (me j w))"
| by_request: "ae_uuid E = uuid \<Longrightarrow> ae_now E = t \<Longrightarrow> auth_call uuid t w (snd (authMiddleware E h w))"
| by_sendOtp: "ae_uuid E = uuid \<Longrightarrow> ae_now E = t \<Longrightarrow> auth_call uuid t w (snd (sendOtp E phone q m w))"
| by_verifyOtp: "ae_uuid E = uuid \<Longrightarrow> ae_now E = t \<Longrightarrow> auth_call uuid t w (snd (verifyOtp E phone q code m w))"
| by_sendEmail: "ae_uuid E = uuid \<Longrightarrow> ae_now E = t \<Longrightarrow> auth_call uuid t w (snd (sendVerificationEmail E email m w))"
| by_verifyEmail: "ae_uuid E = uuid \<Longrightarrow> ae_now E = t \<Longrightarrow> auth_call uuid t w (snd (verifyEmail E token m w))"

definition no_auth :: auth_world where
  "no_auth = \<lparr>aw_users = [], aw_accounts = [], aw_sessions = [], aw_signups = [], aw_audit = [], aw_events = [], aw_otps = [],
     aw_tokens = [], aw_tenants = [], aw_members = [], aw_outbox = [], aw_throttle = (\<lambda>_. None), aw_next = 0\<rparr>"

text \<open>\<open>auth_run uuid t w t' w'\<close>: the state \<open>w\<close> at \<open>t\<close> may become \<open>w'\<close> by \<open>t'\<close>.\<close>

inductive auth_run :: "(nat \<Rightarrow> id) \<Rightarrow> time_ms \<Rightarrow> auth_world \<Rightarrow> time_ms \<Rightarrow> auth_world \<Rightarrow> bool" for uuid t w where
  run_none: "auth_run uuid t w t w"
| run_call: "auth_run uuid t w t' w' \<Longrightarrow> t' \<le> t'' \<Longrightarrow> auth_call uuid t'' w' w'' \<Longrightarrow> auth_run uuid t w t'' w''"

definition auth_reach :: "(nat \<Rightarrow> id) \<Rightarrow> time_ms \<Rightarrow> auth_world \<Rightarrow> bool" where
  "auth_reach uuid t w \<longleftrightarrow> (\<exists>t0. auth_run uuid t0 no_auth t w)"

lemma auth_call_keeps: "auth_call uuid t w w' \<Longrightarrow> inj uuid \<Longrightarrow> auth_inv uuid G t w \<Longrightarrow> auth_inv uuid G t w'"
proof (induction rule: auth_call.induct)
  case (by_others w' w)
  then show ?case using stable_parts(5) unfolding stable_def by blast
next
  case (by_me w j)
  then show ?case using holdsD [OF holds_calm [OF calm_reads(1)]] by blast
next
  case (by_start E w i ip req)
  then show ?case using holdsD [OF keeps_start] by blast
next
  case (by_resend E w j ip req)
  then show ?case using holdsD [OF keeps_resend] by blast
next
  case (by_verify E w j code ip req)
  then show ?case using holdsD [OF keeps_verify] by blast
next
  case (by_login E w email password ip)
  then show ?case using holdsD [OF keeps_login] by blast
next
  case (by_register E w org ip)
  then show ?case using holdsD [OF keeps_register] by blast
next
  case (by_refresh E w token)
  then show ?case using holdsD [OF keeps_refresh] by blast
next
  case (by_logout E w token)
  then show ?case using holdsD [OF keeps_logout] by blast
next
  case (by_request E w h)
  then show ?case using holdsD [OF holds_calm [OF calm_reads(2)]] by blast
next
  case (by_sendOtp E w phone q m)
  then show ?case using holdsD [OF holds_calm [OF calm_codes(3)]] by blast
next
  case (by_verifyOtp E w phone q code m)
  then show ?case using holdsD [OF keeps_verifyOtp] by blast
next
  case (by_sendEmail E w email m)
  then show ?case using holdsD [OF holds_calm [OF calm_emails(1)]] by blast
next
  case (by_verifyEmail E w token m)
  then show ?case using holdsD [OF holds_calm [OF calm_emails(2)]] by blast
qed

lemma auth_run_keeps: "auth_run uuid t w t' w' \<Longrightarrow> inj uuid \<Longrightarrow> auth_inv uuid G t w \<Longrightarrow> t \<le> t' \<and> auth_inv uuid G t' w'"
  by (induction rule: auth_run.induct) (auto intro: auth_call_keeps auth_inv_time)

lemma no_auth_inv: "auth_inv uuid {} t no_auth"
  by (simp add: auth_inv_def ids_ok_def tries_ok_def paced_def requests_in_def no_auth_def)

lemma auth_reach_inv: "auth_reach uuid t w \<Longrightarrow> inj uuid \<Longrightarrow> auth_inv uuid {} t w"
  unfolding auth_reach_def using auth_run_keeps no_auth_inv by blast

lemma auth_reach_call: "auth_reach uuid t w \<Longrightarrow> t \<le> t' \<Longrightarrow> auth_call uuid t' w w' \<Longrightarrow> auth_reach uuid t' w'"
  unfolding auth_reach_def by (blast intro: run_call)

lemma auth_reach_none: "auth_reach uuid t no_auth"
  unfolding auth_reach_def by (blast intro: run_none)

end
