(* ===== verification/RateLimit.thy ===== *)
theory RateLimit
  imports JsString
begin

text \<open>
  \<open>checkRateLimit\<close> of \<open>src/lib/rate-limiter.ts\<close>, with the Lua script it runs in Redis: for
  each key a sorted set of the requests allowed so far, scored by their time. The Redis commands are
  those of the script.
\<close>

section \<open>Redis\<close>

text \<open>A sorted set as its members and scores, without order; the key goes at \<open>rk_until\<close>.\<close>

record redis_key =
  rk_entries :: "(string \<times> time_ms) list"
  rk_until :: "time_ms option"

type_synonym redis = "string \<Rightarrow> redis_key"

definition no_key :: redis_key where "no_key = \<lparr>rk_entries = [], rk_until = None\<rparr>"

definition redis_key :: "time_ms \<Rightarrow> string \<Rightarrow> redis \<Rightarrow> redis_key" where
  "redis_key now key r = (case rk_until (r key) of None \<Rightarrow> r key | Some t \<Rightarrow> if t \<le> now then no_key else r key)"

definition zremBelow :: "time_ms \<Rightarrow> redis_key \<Rightarrow> redis_key" where
  "zremBelow t k = k\<lparr>rk_entries := filter (\<lambda>e. t \<le> snd e) (rk_entries k)\<rparr>"

definition zadd :: "time_ms \<Rightarrow> string \<Rightarrow> redis_key \<Rightarrow> redis_key" where
  "zadd score m k = k\<lparr>rk_entries := (m, score) # filter (\<lambda>e. fst e \<noteq> m) (rk_entries k)\<rparr>"

definition ceil_seconds :: "int \<Rightarrow> int" where "ceil_seconds ms = - ((- ms) div 1000)"

definition expire :: "time_ms \<Rightarrow> int \<Rightarrow> redis_key \<Rightarrow> redis_key" where
  "expire now secs k = k\<lparr>rk_until := Some (now + secs * 1000)\<rparr>"

definition oldest_score :: "time_ms \<Rightarrow> redis_key \<Rightarrow> time_ms" where
  "oldest_score now k = (if rk_entries k = [] then now else Min (set (map snd (rk_entries k))))"

section \<open>The script\<close>

definition SLIDING_WINDOW_SCRIPT ::
    "string \<Rightarrow> time_ms \<Rightarrow> int \<Rightarrow> nat \<Rightarrow> string \<Rightarrow> redis \<Rightarrow> (bool \<times> nat \<times> time_ms) \<times> redis" where
  "SLIDING_WINDOW_SCRIPT key now window limit unique r =
     (let k = zremBelow (now - window) (redis_key now key r);
          count = length (rk_entries k);
          allowed = count < limit;
          k' = (if allowed then expire now (ceil_seconds window + 1) (zadd now unique k) else k)
      in ((allowed, (if allowed then count + 1 else count), oldest_score now k' + window), r(key := k')))"

section \<open>The check\<close>

record rate_limit_result =
  rl_allowed :: bool
  rl_limit :: nat
  rl_remaining :: nat
  rl_reset :: int
  rl_retryAfter :: int

text \<open>Redis is not connected, or the script fails.\<close>

definition rate_fallback :: "nat \<Rightarrow> int \<Rightarrow> bool \<Rightarrow> time_ms \<Rightarrow> rate_limit_result" where
  "rate_fallback limit windowSeconds failClosed now =
     \<lparr>rl_allowed = (\<not> failClosed), rl_limit = limit, rl_remaining = (if failClosed then 0 else limit),
      rl_reset = ceil_seconds (now + windowSeconds * 1000), rl_retryAfter = (if failClosed then windowSeconds else 0)\<rparr>"

definition checkRateLimit ::
    "bool \<Rightarrow> string \<Rightarrow> nat \<Rightarrow> int \<Rightarrow> bool \<Rightarrow> time_ms \<Rightarrow> string \<Rightarrow> redis \<Rightarrow> rate_limit_result \<times> redis" where
  "checkRateLimit up key limit windowSeconds failClosed now unique r =
     (if \<not> up then (rate_fallback limit windowSeconds failClosed now, r)
      else let ((allowed, count, resetTime), r') = SLIDING_WINDOW_SCRIPT key now (windowSeconds * 1000) limit unique r
           in (\<lparr>rl_allowed = allowed, rl_limit = limit, rl_remaining = limit - count, rl_reset = ceil_seconds resetTime,
                rl_retryAfter = (if allowed then 0 else max 1 (ceil_seconds (resetTime - now)))\<rparr>, r'))"

section \<open>The address a request is counted under\<close>

text \<open>The headers a proxy may set, in the order they are believed; \<open>remote\<close> is the socket's address.\<close>

definition getClientIp :: "(string \<Rightarrow> string option) \<Rightarrow> string option \<Rightarrow> string" where
  "getClientIp header remote =
     (let trusted = List.find (\<lambda>h. truthy (header h))
            [''cf-connecting-ip'', ''fastly-client-ip'', ''true-client-ip'', ''x-real-ip''];
          listed = header ''x-forwarded-for'';
          first = (if truthy listed then trim (hd (split_on (CHR '','') (the listed))) else [])
      in case trusted of
           Some h \<Rightarrow> trim (the (header h))
         | None \<Rightarrow> if first \<noteq> [] then first else if truthy remote then the remote else ''127.0.0.1'')"

section \<open>Requests over time\<close>

text \<open>The answers to a run of requests for one key, each with its time and unique id.\<close>

fun rate_run :: "string \<Rightarrow> nat \<Rightarrow> int \<Rightarrow> (time_ms \<times> string) list \<Rightarrow> redis \<Rightarrow> bool list" where
  "rate_run key limit secs [] r = []"
| "rate_run key limit secs ((now, m) # xs) r =
     (let (res, r') = checkRateLimit True key limit secs True now m r in rl_allowed res # rate_run key limit secs xs r')"

text \<open>
  The reference: a request is let in exactly when fewer than \<open>limit\<close> of those let in before it are no
  older than the window.
\<close>

fun rate_spec :: "nat \<Rightarrow> int \<Rightarrow> time_ms list \<Rightarrow> time_ms list \<Rightarrow> bool list" where
  "rate_spec limit window past [] = []"
| "rate_spec limit window past (now # xs) =
     (let ok = length (filter (\<lambda>t. now - window \<le> t) past) < limit
      in ok # rate_spec limit window (if ok then now # past else past) xs)"

fun let_in :: "time_ms list \<Rightarrow> bool list \<Rightarrow> time_ms list" where
  "let_in (t # ts) (b # bs) = (if b then [t] else []) @ let_in ts bs"
| "let_in _ _ = []"

section \<open>Exactness\<close>

text \<open>The stored set agrees with the history on every window that can still be asked about.\<close>

definition tracks :: "string \<Rightarrow> int \<Rightarrow> time_ms \<Rightarrow> time_ms list \<Rightarrow> redis \<Rightarrow> bool" where
  "tracks key window now past r \<longleftrightarrow>
     (\<forall>t \<ge> now - window. filter (\<lambda>x. t \<le> x) (map snd (rk_entries (r key))) = filter (\<lambda>x. t \<le> x) past)
     \<and> (\<forall>u. rk_until (r key) = Some u \<longrightarrow> (\<forall>x \<in> set past. x + window < u))"

lemma ceil_seconds_whole [simp]: "ceil_seconds (s * 1000) = s"
proof -
  have "- (s * 1000) = (- s) * 1000" by simp
  then show ?thesis unfolding ceil_seconds_def by (metis minus_minus nonzero_mult_div_cancel_right zero_neq_numeral)
qed

lemma tracks_later: "tracks key window now past r \<Longrightarrow> now \<le> now' \<Longrightarrow> tracks key window now' past r"
  unfolding tracks_def by auto

lemma tracks_expired:
  assumes "tracks key window now past r"
  shows "tracks key window now past (r(key := redis_key now key r))"
proof (cases "rk_until (r key)")
  case (Some u)
  show ?thesis
  proof (cases "u \<le> now")
    case True
    with assms Some have "\<forall>x \<in> set past. x < now - window" by (force simp: tracks_def)
    then have "filter (\<lambda>x. t \<le> x) past = []" if "now - window \<le> t" for t using that by (force simp: filter_empty_conv)
    with Some True show ?thesis by (simp add: tracks_def redis_key_def no_key_def)
  qed (use assms Some in \<open>simp add: tracks_def redis_key_def\<close>)
qed (use assms in \<open>simp add: tracks_def redis_key_def\<close>)

lemma filter_above: "t \<le> u \<Longrightarrow> filter (\<lambda>x. u \<le> x) (filter (\<lambda>x. t \<le> x) xs) = filter (\<lambda>x. u \<le> x) (xs :: int list)"
  by (induction xs) auto

lemma map_snd_filter: "map snd (filter (\<lambda>e. t \<le> snd e) xs) = filter (\<lambda>x. t \<le> x) (map snd xs)"
  by (induction xs) auto

text \<open>One request, with a unique id the set does not hold.\<close>

lemma script_tracks:
  assumes tr: "tracks key (secs * 1000) now past r" and new: "m \<notin> fst ` set (rk_entries (r key))"
    and past: "\<forall>x \<in> set past. x \<le> now"
    and run: "checkRateLimit True key limit secs True now m r = (res, r')"
  shows "rl_allowed res = (length (filter (\<lambda>t. now - secs * 1000 \<le> t) past) < limit)"
    and "tracks key (secs * 1000) now (if rl_allowed res then now # past else past) r'"
    and "fst ` set (rk_entries (r' key)) \<subseteq> insert m (fst ` set (rk_entries (r key)))"
proof -
  let ?w = "secs * 1000"
  let ?k = "zremBelow (now - ?w) (redis_key now key r)"
  have held: "filter (\<lambda>x. t \<le> x) (map snd (rk_entries (redis_key now key r))) = filter (\<lambda>x. t \<le> x) past"
    if "now - ?w \<le> t" for t using tracks_expired [OF tr] that by (simp add: tracks_def)
  have kept: "map snd (rk_entries ?k) = filter (\<lambda>x. now - ?w \<le> x) past"
    using held [of "now - ?w"] by (simp add: zremBelow_def map_snd_filter)
  then have count: "length (rk_entries ?k) = length (filter (\<lambda>t. now - ?w \<le> t) past)"
    by (metis length_map)
  have sub: "fst ` set (rk_entries ?k) \<subseteq> fst ` set (rk_entries (r key))"
    by (auto simp: zremBelow_def redis_key_def no_key_def split: option.splits if_splits)
  have fresh: "filter (\<lambda>e. fst e \<noteq> m) (rk_entries ?k) = rk_entries ?k"
    unfolding filter_id_conv
  proof
    fix e assume "e \<in> set (rk_entries ?k)"
    with sub have "fst e \<in> fst ` set (rk_entries (r key))" by blast
    with new show "fst e \<noteq> m" by auto
  qed
  show ok: "rl_allowed res = (length (filter (\<lambda>t. now - ?w \<le> t) past) < limit)"
    using run by (auto simp: checkRateLimit_def SLIDING_WINDOW_SCRIPT_def Let_def count)
  have r': "r' = r(key := if rl_allowed res then expire now (ceil_seconds ?w + 1) (zadd now m ?k) else ?k)"
    using run by (auto simp: checkRateLimit_def SLIDING_WINDOW_SCRIPT_def Let_def)
  have until: "rk_until ?k = Some u \<Longrightarrow> rk_until (r key) = Some u" for u
    by (auto simp: zremBelow_def redis_key_def no_key_def split: option.splits if_splits)
  have above: "filter (\<lambda>x. t \<le> x) (map snd (rk_entries ?k)) = filter (\<lambda>x. t \<le> x) past" if "now - ?w \<le> t" for t
    unfolding kept by (rule filter_above [OF that])
  have live: "\<forall>x \<in> set past. x + ?w < u" if "rk_until ?k = Some u" for u
    using tr until [OF that] by (simp add: tracks_def)
  show "tracks key ?w now (if rl_allowed res then now # past else past) r'"
  proof (cases "rl_allowed res")
    case True
    define e where "e = expire now (ceil_seconds ?w + 1) (zadd now m ?k)"
    have e: "map snd (rk_entries e) = now # map snd (rk_entries ?k)" "rk_until e = Some (now + (secs + 1) * 1000)"
      by (simp_all only: e_def expire_def zadd_def fresh ceil_seconds_whole) simp_all
    show ?thesis
      using True past above unfolding r' e_def [symmetric] by (auto simp: tracks_def e algebra_simps)
  next
    case False
    then show ?thesis using above live unfolding r' by (auto simp: tracks_def)
  qed
  show "fst ` set (rk_entries (r' key)) \<subseteq> insert m (fst ` set (rk_entries (r key)))"
    using sub unfolding r' by (auto simp: expire_def zadd_def)
qed

lemma rate_run_spec:
  assumes "tracks key (secs * 1000) now past r" and "\<forall>x \<in> set past. x \<le> now"
    and "sorted (now # map fst xs)" and "distinct (map snd xs)"
    and "set (map snd xs) \<inter> fst ` set (rk_entries (r key)) = {}"
  shows "rate_run key limit secs xs r = rate_spec limit (secs * 1000) past (map fst xs)"
  using assms
proof (induction xs arbitrary: now past r)
  case (Cons x xs)
  obtain t m where x: "x = (t, m)" by force
  obtain res r' where run: "checkRateLimit True key limit secs True t m r = (res, r')" by force
  have "now \<le> t" using Cons.prems(3) x by simp
  have tr: "tracks key (secs * 1000) t past r" by (rule tracks_later [OF Cons.prems(1) \<open>now \<le> t\<close>])
  have past: "\<forall>x \<in> set past. x \<le> t" using Cons.prems(2) \<open>now \<le> t\<close> by auto
  have new: "m \<notin> fst ` set (rk_entries (r key))" using Cons.prems(5) x by auto
  note step = script_tracks [OF tr new past run]
  have "rate_run key limit secs xs r' = rate_spec limit (secs * 1000) (if rl_allowed res then t # past else past) (map fst xs)"
  proof (rule Cons.IH [OF step(2)])
    show "\<forall>y \<in> set (if rl_allowed res then t # past else past). y \<le> t" using past by simp
    show "sorted (t # map fst xs)" "distinct (map snd xs)" using Cons.prems(3,4) x by auto
    have "set (map snd xs) \<inter> insert m (fst ` set (rk_entries (r key))) = {}" using Cons.prems(4,5) x by auto
    with step(3) show "set (map snd xs) \<inter> fst ` set (rk_entries (r' key)) = {}" by blast
  qed
  with step(1) show ?case by (simp add: x run Let_def)
qed simp

section \<open>The bound\<close>

lemma spec_bound:
  assumes "\<And>s. length (filter (\<lambda>x. s \<le> x \<and> x \<le> s + window) past) \<le> limit" and "\<forall>x \<in> set past. x \<le> now"
    and "sorted (now # ts)" and "0 \<le> window"
  shows "length (filter (\<lambda>x. s \<le> x \<and> x \<le> s + window) (rev past @ let_in ts (rate_spec limit window past ts))) \<le> limit"
  using assms
proof (induction ts arbitrary: now past)
  case (Cons t ts)
  let ?ok = "length (filter (\<lambda>x. t - window \<le> x) past) < limit"
  let ?past = "if ?ok then t # past else past"
  have "now \<le> t" using Cons.prems(3) by simp
  have le: "\<forall>x \<in> set ?past. x \<le> t" using Cons.prems(2) \<open>now \<le> t\<close> by auto
  have sub: "filter (\<lambda>x. s \<le> x \<and> x \<le> s + window) past = filter (\<lambda>x. s \<le> x \<and> x \<le> s + window) (filter (\<lambda>x. t - window \<le> x) past)"
    if "t \<le> s + window" for s using that by (induction past) auto
  have "length (filter (\<lambda>x. s \<le> x \<and> x \<le> s + window) ?past) \<le> limit" for s
  proof (cases "?ok \<and> s \<le> t \<and> t \<le> s + window")
    case True
    then have "length (filter (\<lambda>x. s \<le> x \<and> x \<le> s + window) past) \<le> length (filter (\<lambda>x. t - window \<le> x) past)"
      using sub [of s] length_filter_le by (metis (no_types, lifting))
    with True show ?thesis by simp
  next
    case False
    with Cons.prems(1) show ?thesis by auto
  qed
  from Cons.IH [OF this le _ Cons.prems(4)] Cons.prems(3)
  have "length (filter (\<lambda>x. s \<le> x \<and> x \<le> s + window) (rev ?past @ let_in ts (rate_spec limit window ?past ts))) \<le> limit"
    by auto
  then show ?case by (cases ?ok) (auto simp: Let_def split: if_splits)
qed (simp add: rev_filter [symmetric])

end
