(* ===== verification/AuthProps.thy ===== *)
theory AuthProps
  imports AuthReach RateLimit
begin

text \<open>The properties of sign-in, of its tokens and of the rate limiter.\<close>

section \<open>A sample outside\<close>

text \<open>Argon2 and SHA-256 as identities, the secret as signature, and a parser that knows two texts.\<close>

definition demo_user :: user_row where
  "demo_user = \<lparr>us_id = ''u1'', us_username = ''ann'', us_fullName = ''Ann'', us_phone = None, us_email = None,
     us_phoneVerifiedAt = None, us_emailVerifiedAt = None, us_optIn = False, us_updatedAt = 0\<rparr>"

definition demo_claims :: "string \<Rightarrow> int \<Rightarrow> json_claims" where
  "demo_claims ty exp' = \<lparr>jc_sub = Some ''u1'', jc_sid = Some ''0'', jc_type = Some ty, jc_iat = Some 0, jc_exp = Some exp'\<rparr>"

definition demo_jwt :: jwt_lib where
  "demo_jwt = \<lparr>jl_hmac = (\<lambda>k c. CHR ''x'' # k), jl_parse = (\<lambda>t.
     if t = jwt_payload (user_claims demo_user ''0'') ''refresh'' 0 1800 then Some (demo_claims ''refresh'' 1800)
     else if t = jwt_payload (user_claims demo_user ''0'') ''access'' 0 900 then Some (demo_claims ''access'' 900) else None)\<rparr>"

definition demo_auth :: "time_ms \<Rightarrow> auth_env" where
  "demo_auth now = \<lparr>ae_now = now, ae_uuid = show_nat, ae_hash = (\<lambda>_ p. p), ae_verify = (\<lambda>h p. Inr (h = p)), ae_sha256 = id,
     ae_jwt = demo_jwt, ae_bytes = (\<lambda>_. [0, 1, 2, 3, 4]), ae_random = id, ae_patience = 3,
     ae_twilio = (\<lambda>_ _ _. Answered ''sid'' ''approved'' None), ae_redis = True, ae_production = True,
     ae_bypassOtp = False, ae_bypassEmail = False, ae_twilioReady = True, ae_accessSecret = ''a'', ae_refreshSecret = ''r'',
     ae_accessExpires = ''15m'', ae_refreshExpires = ''30m'', ae_otpMinutes = 10, ae_otpMaxAttempts = 5, ae_emailHours = 24,
     ae_otpPerPhone = 5, ae_otpPerIp = 20, ae_emailPerEmail = 5, ae_emailPerIp = 20\<rparr>"

lemma demo_auth_uuid [simp]: "ae_uuid (demo_auth now) = show_nat" "ae_now (demo_auth now) = now"
  by (simp_all add: demo_auth_def)

definition demo_signup :: signup_input where
  "demo_signup = \<lparr>si_email = ''A@B.c'', si_username = ''ann'', si_fullName = ''Ann'', si_phone = ''+91 99'', si_password = ''pw'',
     si_optIn = None\<rparr>"

text \<open>One signup started at time 5; its session is draw 1.\<close>

definition demo_started :: auth_world where
  "demo_started = snd (startSignupVerification (demo_auth 5) demo_signup None None no_auth)"

lemma demo_started_reached: "auth_reach show_nat 5 demo_started"
  unfolding demo_started_def by (rule auth_reach_call [OF auth_reach_none [of _ 5] _ by_start]) simp_all

section \<open>Codes\<close>





section \<open>Sessions\<close>

lemma logout_ends:
  assumes "decodeRefreshToken E token = Inr c" "tc_sid c = Some sid" "logout E token w = (Inr (), w')"
    and "findSessionById sid w = Some s"
  shows "sid \<noteq> [] \<and> w' = deleteSessionById sid w"
  using assms by (auto simp: logout_def step_simps truthy_def findSessionById_def dest!: find_SomeD split: option.splits)

lemma gone_is_refused:
  assumes "findSessionById sid w = None" and "sid \<noteq> []"
  shows "decodeRefreshToken E t = Inr c \<Longrightarrow> tc_sid c = Some sid \<Longrightarrow> refresh E t w = (Inl (unauthorized ''Session not found''), w)"
    and "extractBearerToken h = Some a \<Longrightarrow> verifyJwt (ae_jwt E) (ae_now E) a (ae_accessSecret E) ''access'' = Inr c \<Longrightarrow>
      tc_sid c = Some sid \<Longrightarrow> authMiddleware E h w = (Inl (unauthorized_because ''invalid_session''), w)"
  using assms by (auto simp: refresh_def authMiddleware_def bnd_def step_defs truthy_def)

section \<open>Tokens\<close>

lemma open_session_Inr:
  assumes "open_session E u ip w = (Inr r, w')" and "parseExpiresIn (ae_accessExpires E) = Inr a"
    and "parseExpiresIn (ae_refreshExpires E) = Inr l"
  shows "ar_user r = u \<and> ar_session r = \<lparr>se_id = ae_uuid E (aw_next w), se_user = us_id u,
      se_hash = ae_hash E (Suc (aw_next w)) (ar_refresh r), se_expiresAt = ae_now E + l * 1000, se_ip = ip\<rparr>
    \<and> ar_access r = signed (ae_jwt E) (ae_accessSecret E) (jwt_payload (user_claims u (ae_uuid E (aw_next w))) ''access''
        (seconds (ae_now E)) (seconds (ae_now E) + a))
    \<and> ar_refresh r = signed (ae_jwt E) (ae_refreshSecret E) (jwt_payload (user_claims u (ae_uuid E (aw_next w))) ''refresh''
        (seconds (ae_now E)) (seconds (ae_now E) + l))
    \<and> w' = w\<lparr>aw_sessions := aw_sessions w @ [ar_session r], aw_next := Suc (Suc (aw_next w))\<rparr>"
  using assms
  by (auto simp: open_session_def step_simps randomUUID_def draw_def hashPassword_def createTokenPair_def createAccessToken_def
      createRefreshToken_def signJwt_def parseDurationToMs_def createSessionRecord_def split: if_splits)

lemma payload_nonempty: "jwt_payload p ty i x \<noteq> []"
  by (simp add: jwt_payload_def json_object_def)

definition claims_read :: "jwt_lib \<Rightarrow> jwt_claims \<Rightarrow> string \<Rightarrow> int \<Rightarrow> int \<Rightarrow> bool" where
  "claims_read L p ty iat exp' \<longleftrightarrow> jl_parse L (jwt_payload p ty iat exp')
     = Some \<lparr>jc_sub = Some (jw_sub p), jc_sid = Some (jw_sid p), jc_type = Some ty, jc_iat = Some iat, jc_exp = Some exp'\<rparr>"

lemma signed_accepted:
  assumes "\<And>k c. jl_hmac L k c \<noteq> []" and "claims_read L p ty iat exp'"
  shows "verifyJwt L now (signed L k (jwt_payload p ty iat exp')) k ty =
    (if seconds now < exp' then Inr \<lparr>tc_sub = jw_sub p, tc_sid = Some (jw_sid p), tc_exp = exp'\<rparr> else Inl (PlainErr ''Token expired''))"
  unfolding verify_signed [OF assms(1) payload_nonempty]
  using assms(2) by (simp add: claims_read_def check_claims_def guardR_def)

lemma signed_no_space: "CHR '' '' \<notin> set (signed L k p)"
proof -
  have "url_char c \<noteq> CHR '' ''" if "c \<in> set b64_alphabet" for c
    using that by (auto simp: url_char_def b64_alphabet_def)
  then have "CHR '' '' \<notin> set (base64UrlEncode s)" for s
    unfolding encode_text using sextet_in_alphabet [OF sextets_small [of _ s]] by auto metis
  then show ?thesis by (simp add: signed_def Let_def)
qed

lemma bearer: "CHR '' '' \<notin> set t \<Longrightarrow> t \<noteq> [] \<Longrightarrow> extractBearerToken (Some (''Bearer '' @ t)) = Some t"
proof -
  assume t: "CHR '' '' \<notin> set t" "t \<noteq> []"
  have "split_on (CHR '' '') (''Bearer'' @ CHR '' '' # t) = [''Bearer'', t]"
    using t(1) by (subst split_first) (simp_all add: split_none)
  moreover have "toLowerCase ''Bearer'' = ''bearer''" by code_simp
  ultimately show ?thesis using t(2) by (simp add: extractBearerToken_def truthy_def)
qed

text \<open>
  C26. A token read back under the secret it was signed with gives its subject and session until it
  expires; another purpose, and another secret with another signature, are refused.
\<close>

theorem jwt_round_trip:
  assumes "parseExpiresIn expiresIn = Inr life" and "signJwt L now p ty secret expiresIn = Inr token"
    and "\<And>k c. jl_hmac L k c \<noteq> []" and "claims_read L p ty (seconds now) (seconds now + life)"
    and "\<And>c. jl_hmac L other c \<noteq> jl_hmac L secret c"
  shows "verifyJwt L now' token secret ty = (if seconds now' < seconds now + life
        then Inr \<lparr>tc_sub = jw_sub p, tc_sid = Some (jw_sid p), tc_exp = seconds now + life\<rparr> else Inl (PlainErr ''Token expired''))
    \<and> (ty' = ty \<or> verifyJwt L now' token secret ty' = Inl (PlainErr (''Expected '' @ ty' @ '' token'')))
    \<and> verifyJwt L now' token other ty = Inl (PlainErr ''Invalid token signature'')"
proof -
  have token: "token = signed L secret (jwt_payload p ty (seconds now) (seconds now + life))"
    using assms(1,2) by (simp add: signJwt_def)
  have "verifyJwt L now' token secret ty' = Inl (PlainErr (''Expected '' @ ty' @ '' token''))" if "ty' \<noteq> ty"
    unfolding token verify_signed [OF assms(3) payload_nonempty]
    using assms(4) that by (simp add: claims_read_def check_claims_def guardR_def)
  moreover have "verifyJwt L now' token other ty = Inl (PlainErr ''Invalid token signature'')"
    unfolding token by (rule verify_forged [OF assms(3) payload_nonempty assms(5)])
  ultimately show ?thesis unfolding token using signed_accepted [OF assms(3,4)] by auto
qed

lemma demo_life [simp]: "parseExpiresIn ''15m'' = Inr 900" "parseExpiresIn ''30m'' = Inr 1800"
  by code_simp+

lemma demo_jwt_hmac: "jl_hmac demo_jwt k c = CHR ''x'' # k"
  by (simp add: demo_jwt_def)

lemma demo_reads: "claims_read demo_jwt (user_claims demo_user ''0'') ''refresh'' 0 1800"
  "claims_read demo_jwt (user_claims demo_user ''0'') ''access'' 0 900"
proof -
  have "jwt_payload (user_claims demo_user ''0'') ''access'' 0 900 \<noteq> jwt_payload (user_claims demo_user ''0'') ''refresh'' 0 1800"
    by code_simp
  then show "claims_read demo_jwt (user_claims demo_user ''0'') ''refresh'' 0 1800"
    "claims_read demo_jwt (user_claims demo_user ''0'') ''access'' 0 900"
    by (simp_all add: claims_read_def demo_jwt_def demo_claims_def user_claims_def demo_user_def)
qed

theorem jwt_round_trip_witness:
  "\<exists>token. signJwt demo_jwt 5 (user_claims demo_user ''0'') ''refresh'' ''r'' ''30m'' = Inr token
    \<and> verifyJwt demo_jwt 6 token ''r'' ''refresh'' = Inr \<lparr>tc_sub = ''u1'', tc_sid = Some ''0'', tc_exp = 1800\<rparr>"
proof -
  have now: "seconds 5 = 0" "seconds 6 = 0" by (simp_all add: seconds_def)
  have "signJwt demo_jwt 5 (user_claims demo_user ''0'') ''refresh'' ''r'' ''30m''
      = Inr (signed demo_jwt ''r'' (jwt_payload (user_claims demo_user ''0'') ''refresh'' 0 1800))"
    by (simp add: signJwt_def now)
  moreover note jwt_round_trip [OF demo_life(2) this, of "''s''" 6 "''access''"]
  ultimately show ?thesis
    using demo_reads(1) by (auto simp: now demo_jwt_hmac user_claims_def demo_user_def)
qed

end
