(* ===== verification/AuthFlow.thy ===== *)
theory AuthFlow
  imports AuthProps
begin

text \<open>Signing in and staying signed in; what is lost on the way; mails.\<close>

section \<open>Signing in\<close>

lemma open_session_user: "open_session E u ip w = (Inr r, w') \<Longrightarrow> ar_user r = u \<and> aw_users w' = aw_users w"
  by (auto simp: open_session_def step_simps randomUUID_def hashPassword_def draw_def createSessionRecord_def
      split: prod.splits if_splits)

lemma after_login [simp]:
  "aw_sessions (onUserLogin E u e (updateAuthAccountLastLoginAt a t w)) = aw_sessions w"
  "aw_users (onUserLogin E u e (updateAuthAccountLastLoginAt a t w)) = aw_users w"
  by (simp_all add: onUserLogin_def marketing_event_def insertVerificationEvent_def updateAuthAccountLastLoginAt_def)

lemma login_Inr:
  assumes "login E email password ip w = (Inr r, w1)"
  shows "\<exists>w'. open_session E (ar_user r) ip w = (Inr r, w') \<and> aw_sessions w1 = aw_sessions w' \<and> aw_users w1 = aw_users w"
proof -
  have "wlp (login E email password ip) (\<lambda>r w1. \<exists>u w'. open_session E u ip w = (Inr r, w')
      \<and> aw_sessions w1 = aw_sessions w' \<and> aw_users w1 = aw_users w') w"
    unfolding login_def auth_tx_def wlp_simps after_login by (auto simp: wlp_def)
  from wlpD [OF this assms] obtain u w' where run: "open_session E u ip w = (Inr r, w')"
    "aw_sessions w1 = aw_sessions w'" "aw_users w1 = aw_users w'" by blast
  from open_session_user [OF run(1)] run show ?thesis by auto
qed

lemma rotated_row: "findSessionById sid w = Some s \<Longrightarrow>
    findSessionById sid (w\<lparr>aw_next := n, aw_sessions := update_where (\<lambda>x. se_id x = sid)
      (\<lambda>x. x\<lparr>se_hash := h, se_expiresAt := t\<rparr>) (aw_sessions w)\<rparr>) = Some (s\<lparr>se_hash := h, se_expiresAt := t\<rparr>)"
  unfolding findSessionById_def by (simp add: find_update_where) (auto dest: find_SomeD)

lemma refresh_run:
  assumes "decodeRefreshToken E token = Inr c" "tc_sid c = Some sid" "sid \<noteq> []" and s: "findSessionById sid w = Some s"
    and "ae_now E < se_expiresAt s" "ae_verify E (se_hash s) token = Inr True" "findUserById (se_user s) w = Some u"
    and "parseExpiresIn (ae_accessExpires E) = Inr a" "parseExpiresIn (ae_refreshExpires E) = Inr l"
  shows "\<exists>r w'. refresh E token w = (Inr r, w') \<and> ar_user r = u \<and> se_id (ar_session r) = sid
    \<and> findSessionById sid w' = Some (ar_session r) \<and> se_expiresAt (ar_session r) = ae_now E + l * 1000
    \<and> ar_refresh r = signed (ae_jwt E) (ae_refreshSecret E) (jwt_payload (user_claims u sid) ''refresh''
        (seconds (ae_now E)) (seconds (ae_now E) + l))"
proof -
  have sid: "se_id s = sid" using s by (auto simp: findSessionById_def dest!: find_SomeD)
  obtain x y where pair: "createTokenPair E (user_claims u sid) = Inr (x, y)" and y: "y = signed (ae_jwt E) (ae_refreshSecret E)
      (jwt_payload (user_claims u sid) ''refresh'' (seconds (ae_now E)) (seconds (ae_now E) + l))"
    using assms(8,9) by (simp add: createTokenPair_def createAccessToken_def createRefreshToken_def signJwt_def)
  have life: "parseDurationToMs (ae_refreshExpires E) = Inr (l * 1000)" using assms(9) by (simp add: parseDurationToMs_def)
  have found: "findSessionById sid (w\<lparr>aw_next := n\<rparr>) = Some s" for n using s by (simp add: findSessionById_def)
  show ?thesis
    using assms(1-7) found rotated_row [OF s]
    by (simp add: refresh_def bnd_def step_defs check_def truthy_def pair life hashPassword_def draw_def attempt_def
        updateSessionRefreshTokenHash_def sid Let_def y)
qed

text \<open>The outside of a later request: the same secrets and durations.\<close>

definition same_server :: "auth_env \<Rightarrow> auth_env \<Rightarrow> bool" where
  "same_server E E' \<longleftrightarrow> ae_jwt E' = ae_jwt E \<and> ae_accessSecret E' = ae_accessSecret E \<and> ae_refreshSecret E' = ae_refreshSecret E
     \<and> ae_accessExpires E' = ae_accessExpires E \<and> ae_refreshExpires E' = ae_refreshExpires E"

lemma seconds_bounds: "seconds t * 1000 \<le> t" "t < (seconds t + 1) * 1000"
  using mult_div_mod_eq [of 1000 t] pos_mod_bound [of 1000 t] pos_mod_sign [of 1000 t] by (simp_all add: seconds_def)

lemma seconds_later: "seconds t' < seconds t + l \<Longrightarrow> t' < t + l * 1000"
proof -
  assume "seconds t' < seconds t + l"
  then have "(seconds t' + 1) * 1000 \<le> (seconds t + l) * 1000" by simp
  with seconds_bounds(2) [of t'] seconds_bounds(1) [of t] show ?thesis by (simp add: algebra_simps)
qed


section \<open>A sample sign-in\<close>

definition demo_account :: auth_account where
  "demo_account = (email_account ''u1'' ''a@b.c'' ''pw'')\<lparr>ac_id := ''a1''\<rparr>"

definition demo_members :: auth_world where
  "demo_members = no_auth\<lparr>aw_users := [demo_user], aw_accounts := [demo_account]\<rparr>"

lemma open_session_ok:
  assumes "parseExpiresIn (ae_accessExpires E) = Inr a" "parseExpiresIn (ae_refreshExpires E) = Inr l"
    and "\<not> list_ex (\<lambda>x. se_id x = ae_uuid E (aw_next w)) (aw_sessions w)"
  shows "\<exists>r w'. open_session E u ip w = (Inr r, w')"
  using assms by (simp add: open_session_def bnd_def step_defs randomUUID_def draw_def attempt_def hashPassword_def
      createTokenPair_def createAccessToken_def createRefreshToken_def signJwt_def parseDurationToMs_def createSessionRecord_def)

lemma demo_verify: "ae_verify (demo_auth t) h p = Inr (h = p)"
  by (simp add: demo_auth_def)

lemma demo_login:
  obtains r w1 where "login (demo_auth 5) ''a@b.c'' ''pw'' None demo_members = (Inr r, w1)" "ar_user r = demo_user"
    "se_id (ar_session r) = ''0''" "aw_sessions w1 = [ar_session r]" "aw_users w1 = [demo_user]" "aw_next w1 = 2"
    "ar_refresh r = signed demo_jwt ''r'' (jwt_payload (user_claims demo_user ''0'') ''refresh'' 0 1800)"
    "se_hash (ar_session r) = ar_refresh r"
proof -
  have durations: "parseExpiresIn (ae_accessExpires (demo_auth 5)) = Inr 900" "parseExpiresIn (ae_refreshExpires (demo_auth 5)) = Inr 1800"
    by (simp_all add: demo_auth_def)
  have "\<exists>r w'. open_session (demo_auth 5) demo_user None demo_members = (Inr r, w')"
    by (rule open_session_ok [OF durations]) (simp add: demo_members_def no_auth_def)
  then obtain r w' where opened: "open_session (demo_auth 5) demo_user None demo_members = (Inr r, w')" by blast
  have email: "toLowerCase (trim ''a@b.c'') = ''a@b.c''" by code_simp
  have found: "findAuthAccountByProviderAndAccountId P_email ''a@b.c'' demo_members = Some demo_account"
    "findUserById ''u1'' demo_members = Some demo_user" "ac_user demo_account = ''u1''" "ac_id demo_account = ''a1''"
    "ac_passwordHash demo_account = Some ''pw''" "us_id demo_user = ''u1''" "ae_verify (demo_auth 5) p q = Inr (p = q)" for p q
    by (simp_all add: findAuthAccountByProviderAndAccountId_def demo_members_def demo_account_def email_account_def
        findUserById_def demo_user_def demo_auth_def)
  have run: "login (demo_auth 5) ''a@b.c'' ''pw'' None demo_members
      = (Inr r, onUserLogin (demo_auth 5) ''u1'' ''a@b.c'' (updateAuthAccountLastLoginAt ''a1'' 5 w'))"
    using opened by (simp add: login_def auth_tx_def atomic_def bnd_def step_defs check_def email truthy_def found)
  have zero: "show_nat 0 = ''0''" by code_simp
  from open_session_Inr [OF opened durations] that [OF run] show ?thesis
    by (simp add: zero demo_members_def no_auth_def seconds_def)
      (simp add: demo_auth_def onUserLogin_def marketing_event_def insertVerificationEvent_def updateAuthAccountLastLoginAt_def)
qed


section \<open>Ending a session\<close>

text \<open>
  C10. A session that was ended is ended for good: after a logout that found it, whatever calls follow, no
  refresh token and no access token of that session is accepted any more.
\<close>

theorem ended_session_stays_ended:
  assumes "auth_reach uuid t w" and "inj uuid" and "ae_uuid E = uuid" and "t \<le> ae_now E"
    and "decodeRefreshToken E token = Inr c" and "tc_sid c = Some sid" and "findSessionById sid w = Some s"
    and "logout E token w = (Inr (), w')" and "auth_run uuid (ae_now E) w' t' later"
  shows "(\<forall>E' token' c'. decodeRefreshToken E' token' = Inr c' \<and> tc_sid c' = Some sid \<longrightarrow>
        refresh E' token' later = (Inl (unauthorized ''Session not found''), later))
    \<and> (\<forall>E' h token' c'. extractBearerToken h = Some token'
        \<and> verifyJwt (ae_jwt E') (ae_now E') token' (ae_accessSecret E') ''access'' = Inr c' \<and> tc_sid c' = Some sid \<longrightarrow>
        authMiddleware E' h later = (Inl (unauthorized_because ''invalid_session''), later))"
proof -
  from logout_ends [OF assms(5,6,8,7)] have sid: "sid \<noteq> []" and w': "w' = deleteSessionById sid w" by auto
  have inv: "auth_inv uuid {} t w" by (rule auth_reach_inv [OF assms(1,2)])
  have "drawn uuid sid w"
    using inv assms(7) by (auto simp: findSessionById_def auth_inv_def ids_ok_def dest!: find_SomeD)
  then have "auth_inv uuid {sid} (ae_now E) w'"
    using auth_inv_time [OF inv_delete [OF inv] assms(4)] by (auto simp: auth_inv_def ids_ok_def w' deleteSessionById_def drawn_def)
  then have "auth_inv uuid {sid} t' later" using auth_run_keeps [OF assms(9,2)] by blast
  then have none: "findSessionById sid later = None"
    by (auto simp: findSessionById_def auth_inv_def ids_ok_def find_None_iff)
  show ?thesis using gone_is_refused [OF none sid] by blast
qed

theorem ended_session_stays_ended_witness:
  "\<exists>w w' token. auth_reach show_nat 5 w \<and> logout (demo_auth 6) token w = (Inr (), w')
    \<and> refresh (demo_auth 7) token w' = (Inl (unauthorized ''Session not found''), w')"
proof -
  obtain r w where run: "login (demo_auth 5) ''a@b.c'' ''pw'' None demo_members = (Inr r, w)" and r: "se_id (ar_session r) = ''0''"
    "aw_sessions w = [ar_session r]"
    "ar_refresh r = signed demo_jwt ''r'' (jwt_payload (user_claims demo_user ''0'') ''refresh'' 0 1800)"
    "se_hash (ar_session r) = ar_refresh r"
    by (rule demo_login)
  have "auth_reach show_nat 5 demo_members"
    by (rule auth_reach_call [OF auth_reach_none order_refl by_others]) (simp_all add: demo_members_def auth_view_def)
  from auth_reach_call [OF this order_refl by_login [of "demo_auth 5" show_nat 5 demo_members "''a@b.c''" "''pw''" None]] run
  have reach: "auth_reach show_nat 5 w" by simp
  have decode: "decodeRefreshToken (demo_auth t) (ar_refresh r) = Inr \<lparr>tc_sub = ''u1'', tc_sid = Some ''0'', tc_exp = 1800\<rparr>"
    if "seconds t = 0" for t
    using signed_accepted [OF _ demo_reads(1)] that
    by (simp add: decodeRefreshToken_def r(3) demo_auth_def demo_jwt_hmac user_claims_def demo_user_def)
  have now: "seconds 6 = 0" "seconds 7 = 0" by (simp_all add: seconds_def)
  have found: "findSessionById ''0'' w = Some (ar_session r)" by (simp add: findSessionById_def r)
  have out: "logout (demo_auth 6) (ar_refresh r) w = (Inr (), deleteSessionById ''0'' w)"
    using decode [OF now(1)] found r by (simp add: logout_def bnd_def step_defs truthy_def demo_verify)
  have "auth_run show_nat (ae_now (demo_auth 6)) (deleteSessionById ''0'' w) 6 (deleteSessionById ''0'' w)"
    using run_none by simp
  from ended_session_stays_ended [OF reach inj_show_nat _ _ decode [OF now(1)] _ found out this] decode [OF now(2)]
  have "refresh (demo_auth 7) (ar_refresh r) (deleteSessionById ''0'' w)
      = (Inl (unauthorized ''Session not found''), deleteSessionById ''0'' w)" by simp
  with reach out show ?thesis by blast
qed

lemma wlp_pair: "wlp (case p of (a, b) \<Rightarrow> f a b) Q = (case p of (a, b) \<Rightarrow> wlp (f a b) Q)"
  by (cases p) simp

lemma wlp_auth:
  "wlp (hashPassword E p) Q = (\<lambda>w. Q (ae_hash E (aw_next w) p) (w\<lparr>aw_next := Suc (aw_next w)\<rparr>))"
  "wlp (updateSessionRefreshTokenHash i h t) R = (\<lambda>w. R (map_option (\<lambda>s. s\<lparr>se_hash := h, se_expiresAt := t\<rparr>) (findSessionById i w))
     (w\<lparr>aw_sessions := update_where (\<lambda>s. se_id s = i) (\<lambda>s. s\<lparr>se_hash := h, se_expiresAt := t\<rparr>) (aw_sessions w)\<rparr>))"
  by (auto simp: hashPassword_def draw_def updateSessionRefreshTokenHash_def Let_def wlp_steps)

text \<open>
  A refresh token that has been exchanged is worth nothing, as long as the exchange gave another one:
  argon2 accepts only what was hashed.
\<close>

theorem rotated_token_is_refused:
  assumes "refresh E token w = (Inr r, w1)" and "ar_refresh r \<noteq> token"
    and "\<And>n p q. ae_verify E' (ae_hash E n p) q = Inr (p = q)"
    and "findSessionById (se_id (ar_session r)) w2 = Some (ar_session r)" and "se_id (ar_session r) \<noteq> []"
    and "decodeRefreshToken E' token = Inr c" and "tc_sid c = Some (se_id (ar_session r))"
    and "ae_now E' < se_expiresAt (ar_session r)"
  shows "refresh E' token w2 = (Inl (unauthorized ''Invalid refresh token''), w2)"
proof -
  have "wlp (refresh E token) (\<lambda>r w1. \<exists>n. se_hash (ar_session r) = ae_hash E n (ar_refresh r)) w"
    unfolding refresh_def wlp_simps wlp_pair wlp_auth by (auto split: option.splits)
  from wlpD [OF this assms(1)] obtain n where "se_hash (ar_session r) = ae_hash E n (ar_refresh r)" by blast
  with assms(2-8) show ?thesis by (simp add: refresh_def bnd_def step_defs truthy_def)
qed

text \<open>A second later the pair is another one.\<close>

lemma signed_inject: "signed L k p = signed L k p' \<Longrightarrow> p = p'"
  using split_signed [of L k p] split_signed [of L k p'] by (metis base64url_roundtrip list.inject)

lemma demo_decode: "seconds t < 1800 \<Longrightarrow> decodeRefreshToken (demo_auth t)
    (signed demo_jwt ''r'' (jwt_payload (user_claims demo_user ''0'') ''refresh'' 0 1800))
  = Inr \<lparr>tc_sub = ''u1'', tc_sid = Some ''0'', tc_exp = 1800\<rparr>"
  using signed_accepted [OF _ demo_reads(1)]
  by (simp add: decodeRefreshToken_def demo_auth_def demo_jwt_hmac user_claims_def demo_user_def)

theorem rotated_token_is_refused_witness:
  "\<exists>w token r w1. refresh (demo_auth 1000000) token w = (Inr r, w1) \<and> ar_refresh r \<noteq> token
    \<and> refresh (demo_auth 1001000) token w1 = (Inl (unauthorized ''Invalid refresh token''), w1)"
proof -
  obtain r w where run: "login (demo_auth 5) ''a@b.c'' ''pw'' None demo_members = (Inr r, w)" and r: "ar_user r = demo_user"
    "se_id (ar_session r) = ''0''" "aw_sessions w = [ar_session r]" "aw_users w = [demo_user]"
    "ar_refresh r = signed demo_jwt ''r'' (jwt_payload (user_claims demo_user ''0'') ''refresh'' 0 1800)"
    "se_hash (ar_session r) = ar_refresh r"
    by (rule demo_login)
  have row: "se_user (ar_session r) = ''u1''" "se_expiresAt (ar_session r) = 1800005"
  proof -
    from login_Inr [OF run] obtain w' where opened: "open_session (demo_auth 5) (ar_user r) None demo_members = (Inr r, w')" by blast
    show "se_user (ar_session r) = ''u1''" "se_expiresAt (ar_session r) = 1800005"
      using open_session_Inr [OF opened, of 900 1800] r(1) by (simp_all add: demo_auth_def demo_user_def)
  qed
  have now: "seconds 1000000 = 1000" "seconds 1001000 = 1001" by (simp_all add: seconds_def)
  have env: "parseExpiresIn (ae_accessExpires (demo_auth t)) = Inr 900" "parseExpiresIn (ae_refreshExpires (demo_auth t)) = Inr 1800"
    "ae_jwt (demo_auth t) = demo_jwt" "ae_refreshSecret (demo_auth t) = ''r''" "ae_hash (demo_auth t) n p = p" for t n p
    by (simp_all add: demo_auth_def)
  have "\<exists>r' w1. refresh (demo_auth 1000000) (ar_refresh r) w = (Inr r', w1) \<and> ar_user r' = demo_user \<and> se_id (ar_session r') = ''0''
      \<and> findSessionById ''0'' w1 = Some (ar_session r') \<and> se_expiresAt (ar_session r') = 1000000 + 1800 * 1000
      \<and> ar_refresh r' = signed demo_jwt ''r'' (jwt_payload (user_claims demo_user ''0'') ''refresh'' 1000 2800)"
    using refresh_run [of "demo_auth 1000000" "ar_refresh r" _ "''0''" w "ar_session r" demo_user 900 1800] demo_decode [of 1000000]
    by (simp add: r row env now demo_verify findSessionById_def findUserById_def) (simp add: demo_user_def)
  then obtain r' w1 where turn: "refresh (demo_auth 1000000) (ar_refresh r) w = (Inr r', w1)" "se_id (ar_session r') = ''0''"
      "findSessionById ''0'' w1 = Some (ar_session r')" "se_expiresAt (ar_session r') = 2800000"
      "ar_refresh r' = signed demo_jwt ''r'' (jwt_payload (user_claims demo_user ''0'') ''refresh'' 1000 2800)" by auto
  have "jwt_payload (user_claims demo_user ''0'') ''refresh'' 1000 2800 \<noteq> jwt_payload (user_claims demo_user ''0'') ''refresh'' 0 1800"
    by code_simp
  then have other: "ar_refresh r' \<noteq> ar_refresh r" unfolding turn(5) r(5) using signed_inject by blast
  have "refresh (demo_auth 1001000) (ar_refresh r) w1 = (Inl (unauthorized ''Invalid refresh token''), w1)"
    using rotated_token_is_refused [OF turn(1) other, of "demo_auth 1001000" w1
        "\<lparr>tc_sub = ''u1'', tc_sid = Some ''0'', tc_exp = 1800\<rparr>"] turn(2-4) demo_decode [of 1001000]
    by (simp add: env demo_verify r(5) now)
  with turn(1) other show ?thesis by blast
qed

section \<open>What is lost\<close>

lemma find_refine: "List.find p xs = Some s \<Longrightarrow> q s \<Longrightarrow> List.find (\<lambda>x. p x \<and> q x) xs = Some s"
  by (induction xs) (auto split: if_splits)

definition approves :: "auth_env \<Rightarrow> bool" where
  "approves E \<longleftrightarrow> ae_production E \<and> \<not> ae_bypassOtp E
     \<and> (\<forall>n form. \<exists>sid v. ae_twilio E n ''/VerificationCheck'' form = Answered sid ''approved'' v)"

definition auth_rows :: "auth_world \<Rightarrow> user_row list \<times> auth_account list \<times> session_row list \<times> signup_session list" where
  "auth_rows w = (aw_users w, aw_accounts w, aw_sessions w, aw_signups w)"

lemma rows_kept [simp]:
  "auth_rows (insertVerificationEvent v w) = auth_rows w" "auth_rows (twilio_event E m ty p w) = auth_rows w"
  "auth_rows (cache_delete E k w) = auth_rows w" "auth_rows (logSignupAuditEvent E kind s a req ip w) = auth_rows w"
  "auth_rows (w\<lparr>aw_next := n\<rparr>) = auth_rows w"
  by (simp_all add: auth_rows_def insertVerificationEvent_def twilio_event_def cache_delete_def logSignupAuditEvent_def
      createAuditLogRecord_def)

lemma approved_code:
  assumes "approves E" and "trim code \<noteq> []"
  shows "\<exists>w'. signup_code_valid E s code ip req w = (Inr True, w') \<and> auth_rows w' = auth_rows w"
proof -
  obtain sid v where "ae_twilio E (aw_next w) ''/VerificationCheck'' [(''To'', sv_phone s), (''Code'', trim code)]
      = Answered sid ''approved'' v" using assms(1) unfolding approves_def by blast
  with assms show ?thesis
    by (simp add: approves_def signup_code_valid_def handle_def twilio_verifyOtp_def bnd_def step_defs check_def twilioRequest_def
        draw_def attempt_def)
qed

text \<open>
  C38. A signup whose code is right is lost when its username was taken meanwhile: the call fails, nobody is
  created, and the session stays verified, so that every further code and every resend is refused.
\<close>

theorem verified_signup_is_lost:
  assumes "findSignupVerificationSessionById i w = Some s" and "sv_status s = S_pending" and "sv_attempts s < 5"
    and "ae_now E < sv_expiresAt s" and "approves E" and "trim code \<noteq> []" and "findUserByUsername (sv_username s) w = Some u"
  shows "\<exists>w'. verifySignupVerification E i code ip req w = (Inl (unique_violation ''users_username_unique''), w')
    \<and> aw_users w' = aw_users w \<and> aw_accounts w' = aw_accounts w \<and> aw_sessions w' = aw_sessions w
    \<and> (\<forall>E' code' ip' req'. verifySignupVerification E' i code' ip' req' w' = (Inl verificationSessionNotFound, w')
        \<and> resendSignupVerification E' i ip' req' w' = (Inl verificationSessionNotFound, w'))"
proof -
  have sid: "sv_id s = i" using assms(1) by (auto simp: findSignupVerificationSessionById_def dest!: find_SomeD)
  let ?hit = "\<lambda>x. sv_id x = i \<and> sv_status x = S_pending \<and> ae_now E \<le> sv_expiresAt x \<and> sv_attempts x < 5"
  let ?claim = "\<lambda>x :: signup_session. x\<lparr>sv_attempts := sv_attempts x + 1\<rparr>"
  let ?mark = "\<lambda>x :: signup_session. x\<lparr>sv_status := S_verified, sv_verifiedAt := Some (ae_now E)\<rparr>"
  define rows1 where "rows1 = update_where ?hit ?claim (aw_signups w)"
  define rows2 where "rows2 = update_where (\<lambda>x. sv_id x = i \<and> sv_status x = S_pending) ?mark rows1"
  define v where "v = ?mark (?claim s)"
  have find: "List.find (\<lambda>x. sv_id x = i) (aw_signups w) = Some s"
    using assms(1) by (simp add: findSignupVerificationSessionById_def)
  have claimed: "List.find ?hit (aw_signups w) = Some s"
    by (rule find_refine [OF find]) (use assms(2-4) in simp)
  have find1: "List.find (\<lambda>x. sv_id x = i) rows1 = Some (?claim s)"
    unfolding rows1_def by (subst find_update_where) (use find assms(2-4) sid in simp_all)
  have marked: "List.find (\<lambda>x. sv_id x = i \<and> sv_status x = S_pending) rows1 = Some (?claim s)"
    by (rule find_refine [OF find1]) (use assms(2) in simp)
  have find2: "List.find (\<lambda>x. sv_id x = i) rows2 = Some v"
    unfolding rows2_def by (subst find_update_where) (use find1 assms(2) sid in \<open>simp_all add: v_def\<close>)
  let ?w1 = "w\<lparr>aw_signups := rows1\<rparr>"
  obtain w2 where code: "signup_code_valid E s code ip req ?w1 = (Inr True, w2)" "auth_rows w2 = auth_rows ?w1"
    using approved_code [OF assms(5,6)] by blast
  let ?w3 = "logSignupAuditEvent E Otp_verified s None req (first_of ip (sv_ip s)) (w2\<lparr>aw_signups := rows2\<rparr>)"
  have "list_ex (\<lambda>x. us_username x = sv_username s) (aw_users w2)"
    using code(2) assms(7) by (auto simp: auth_rows_def findUserByUsername_def list_ex_iff dest!: find_SomeD)
  then have complete: "complete_signup E v ip req ?w3
      = (Inl (unique_violation ''users_username_unique''), auth_undo ?w3 (?w3\<lparr>aw_next := Suc (aw_next ?w3)\<rparr>))"
    by (simp add: complete_signup_def auth_tx_def atomic_def bnd_def createUserRecord_def randomUUID_def draw_def attempt_def
        signup_user_def v_def logSignupAuditEvent_def createAuditLogRecord_def)
  let ?w4 = "auth_undo ?w3 (?w3\<lparr>aw_next := Suc (aw_next ?w3)\<rparr>)"
  have run: "verifySignupVerification E i code ip req w = (Inl (unique_violation ''users_username_unique''), ?w4)"
    using assms(1-4) claimed marked code complete sid
    by (simp add: verifySignupVerification_def open_signup_def bnd_def step_defs check_def claimSignupVerificationAttempt_def
        markSignupVerificationSessionVerified_def update_signup_def attempt_def rows1_def [symmetric] auth_rows_def
        rows2_def [symmetric] v_def [symmetric])
  have rows: "auth_rows ?w4 = (aw_users w, aw_accounts w, aw_sessions w, rows2)"
    using code(2) by (simp add: auth_rows_def auth_undo_def logSignupAuditEvent_def createAuditLogRecord_def)
  then have "findSignupVerificationSessionById i ?w4 = Some v" "sv_status v = S_verified"
    using find2 by (simp_all add: findSignupVerificationSessionById_def auth_rows_def v_def)
  then have "verifySignupVerification E' i code' ip' req' ?w4 = (Inl verificationSessionNotFound, ?w4)
      \<and> resendSignupVerification E' i ip' req' ?w4 = (Inl verificationSessionNotFound, ?w4)" for E' code' ip' req'
    by (simp add: verifySignupVerification_def resendSignupVerification_def open_signup_def bnd_def step_defs)
  with run rows show ?thesis by (auto simp: auth_rows_def)
qed

definition demo_session :: signup_session where
  "demo_session = (new_signup (demo_auth 5) demo_signup ''+9199'' ''pw'' None)\<lparr>sv_id := ''1''\<rparr>"

lemma demo_session_row: "sv_id demo_session = ''1''" "sv_status demo_session = S_pending" "sv_attempts demo_session = 0"
  "sv_expiresAt demo_session = 900005" "sv_username demo_session = ''ann''"
proof -
  have "trim ''ann'' = ''ann''" by code_simp
  then show "sv_id demo_session = ''1''" "sv_status demo_session = S_pending" "sv_attempts demo_session = 0"
    "sv_expiresAt demo_session = 900005" "sv_username demo_session = ''ann''"
    by (simp_all add: demo_session_def new_signup_def demo_signup_def normalizeUsername_def)
qed

theorem verified_signup_is_lost_witness:
  "\<exists>w'. verifySignupVerification (demo_auth 6) ''1'' ''1234'' None None
      (no_auth\<lparr>aw_signups := [demo_session], aw_users := [demo_user]\<rparr>) = (Inl (unique_violation ''users_username_unique''), w')
    \<and> resendSignupVerification (demo_auth 7) ''1'' None None w' = (Inl verificationSessionNotFound, w')"
proof -
  have ok: "approves (demo_auth 6)" by (simp add: approves_def demo_auth_def)
  have code: "trim ''1234'' \<noteq> []" by code_simp
  from verified_signup_is_lost [of "''1''" "no_auth\<lparr>aw_signups := [demo_session], aw_users := [demo_user]\<rparr>" demo_session,
      OF _ _ _ _ ok code, of demo_user None None]
  have "\<exists>w'. verifySignupVerification (demo_auth 6) ''1'' ''1234'' None None
      (no_auth\<lparr>aw_signups := [demo_session], aw_users := [demo_user]\<rparr>) = (Inl (unique_violation ''users_username_unique''), w')
    \<and> (\<forall>E' ip' req'. resendSignupVerification E' ''1'' ip' req' w' = (Inl verificationSessionNotFound, w'))"
    by (simp add: findSignupVerificationSessionById_def findUserByUsername_def demo_session_row) (auto simp: demo_user_def)
  then show ?thesis by blast
qed

section \<open>Mails\<close>

definition uncounted :: "auth_world \<Rightarrow> bool" where
  "uncounted w \<longleftrightarrow> (\<forall>v \<in> set (aw_events w). vf_source v = ''email'' \<longrightarrow> vf_type v \<notin> set counted_events)"

lemma uncounted_zero: "uncounted w \<Longrightarrow> count_events E ''email'' p w = 0"
  by (auto simp: uncounted_def count_events_def filter_empty_conv)

lemma limit_open: "uncounted w \<Longrightarrow> 0 < n \<Longrightarrow> limit_by E m ''email'' e ph p n why w = (Inr (), w)"
  by (simp add: limit_by_def bnd_def step_defs uncounted_zero)

lemma rate_open:
  assumes "uncounted w" "0 < ae_emailPerEmail E" "0 < ae_emailPerIp E"
  shows "assertRateLimit E m ''email'' e ph w = (Inr (), w)"
  using limit_open [OF assms(1,2)] limit_open [OF assms(1,3)] by (simp add: assertRateLimit_def Let_def bnd_def step_defs)

lemma mail_uncounted:
  assumes "uncounted w" "0 < ae_emailPerEmail E" "0 < ae_emailPerIp E"
  shows "uncounted (snd (sendVerificationEmail E email m w)) \<and> fst (sendVerificationEmail E email m w) \<noteq> Inl (rateLimited d)"
proof (cases "findUserByEmailAddress email w")
  case None
  then show ?thesis
    using assms(1) by (simp add: sendVerificationEmail_def bnd_def step_defs rate_open [OF assms] insertVerificationEvent_def
        event_of_def uncounted_def counted_events_def)
next
  case (Some u)
  have events: "aw_events (snd (auth_tx (bnd (alter (softDeleteEmailVerificationTokensForUser n i)) (\<lambda>_.
      createEmailVerificationToken E i h x)) w')) = aw_events w'" for n i h x w'
    by (simp add: auth_tx_def atomic_def bnd_def step_defs createEmailVerificationToken_def randomUUID_def draw_def attempt_def
        softDeleteEmailVerificationTokensForUser_def Let_def)
  show ?thesis
    using Some assms(1)
    by (simp add: sendVerificationEmail_def bnd_def step_defs rate_open [OF assms] draw_def attempt_def enqueue_mail_def
        auth_tx_def atomic_def createEmailVerificationToken_def randomUUID_def softDeleteEmailVerificationTokensForUser_def Let_def
        fk_violation_def rateLimited_def mkErr_def uncounted_def)
qed

text \<open>The answers to a run of requests for a verification mail.\<close>

fun mail_run :: "(auth_env \<times> string \<times> request_meta) list \<Rightarrow> auth_world \<Rightarrow> unit res list" where
  "mail_run [] w = []"
| "mail_run ((E, email, m) # xs) w = (let (r, w') = sendVerificationEmail E email m w in r # mail_run xs w')"



text \<open>
  A verification mail asked for outside any tenant is never sent: the delivery is refused by the
  foreign key of the nil tenant. The links sent before are dead by then, and a token exists that nobody
  was told.
\<close>

theorem verification_mail_needs_tenant:
  assumes "findUserByEmailAddress email w = Some u" and "rm_tenant m = None" and "\<forall>t \<in> set (aw_tenants w). ws_id t \<noteq> nil_uuid"
    and "0 < ae_emailPerEmail E" and "0 < ae_emailPerIp E" and "uncounted w"
  shows "\<exists>w'. sendVerificationEmail E email m w = (Inl (fk_violation ''email_deliveries_tenant_id_tenants_id_fk''), w')
    \<and> aw_outbox w' = aw_outbox w
    \<and> (\<exists>rows t. aw_tokens w' = rows @ [t] \<and> et_user t = us_id u \<and> et_deletedAt t = None \<and> et_verifiedAt t = None
        \<and> (\<forall>x \<in> set rows. et_user x = us_id u \<longrightarrow> et_deletedAt x = None \<longrightarrow> et_verifiedAt x \<noteq> None))"
proof -
  have none: "\<not> list_ex (\<lambda>x. ws_id x = nil_uuid) (aw_tenants w)" using assms(3) by (simp add: list_ex_iff)
  show ?thesis
    using assms(1,2) none
    by (auto simp: sendVerificationEmail_def bnd_def step_defs rate_open [OF assms(6,4,5)] draw_def attempt_def enqueue_mail_def
        auth_tx_def atomic_def createEmailVerificationToken_def randomUUID_def softDeleteEmailVerificationTokensForUser_def Let_def
        truthy_def set_update_where)
qed

theorem verification_mail_needs_tenant_witness:
  "\<exists>w'. sendVerificationEmail (demo_auth 5) ''a@b.c'' (signup_meta None) demo_members
      = (Inl (fk_violation ''email_deliveries_tenant_id_tenants_id_fk''), w')
    \<and> aw_outbox w' = []"
proof -
  have email: "toLowerCase (trim ''a@b.c'') = ''a@b.c''" by code_simp
  have "findUserByEmailAddress ''a@b.c'' demo_members = Some demo_user"
    by (simp add: findUserByEmailAddress_def email demo_members_def demo_account_def email_account_def findUserById_def demo_user_def)
  from verification_mail_needs_tenant [OF this, of "signup_meta None" "demo_auth 5"] show ?thesis
    by (auto simp: signup_meta_def demo_members_def no_auth_def demo_auth_def uncounted_def)
qed

section \<open>The rate limiter\<close>

text \<open>
  C16. The Redis sliding window is exact: requests with ids of their own, at times that do not go back, are
  let in exactly as the reference says, and no window of the given length, wherever it lies, holds more
  than the limit of them.
\<close>

theorem rate_limit_exact:
  assumes "sorted (map fst requests)" and "distinct (map snd requests)" and "0 \<le> secs"
  shows "rate_run key limit secs requests (\<lambda>_. no_key) = rate_spec limit (secs * 1000) [] (map fst requests)
    \<and> length (filter (\<lambda>t. s \<le> t \<and> t \<le> s + secs * 1000)
        (let_in (map fst requests) (rate_run key limit secs requests (\<lambda>_. no_key)))) \<le> limit"
proof (cases requests)
  case (Cons x xs)
  have start: "sorted (fst x # map fst requests)" using assms(1) Cons by simp
  have run: "rate_run key limit secs requests (\<lambda>_. no_key) = rate_spec limit (secs * 1000) [] (map fst requests)"
    by (rule rate_run_spec [OF _ _ start assms(2)]) (simp_all add: tracks_def no_key_def)
  show ?thesis unfolding run
    using spec_bound [of "secs * 1000" "[]" limit "fst x" "map fst requests" s] start assms(3) by simp
qed simp

theorem rate_limit_exact_witness:
  "rate_run ''k'' 2 1 [(0, ''a''), (500, ''b''), (900, ''c''), (1000, ''d''), (1001, ''e'')] (\<lambda>_. no_key)
      = [True, True, False, False, True]
    \<and> length (filter (\<lambda>t. 1 \<le> t \<and> t \<le> 1001) (let_in [0, 500, 900, 1000, 1001] [True, True, False, False, True])) \<le> 2"
  using rate_limit_exact [of "[(0, ''a''), (500, ''b''), (900, ''c''), (1000, ''d''), (1001, ''e'')]" 1 "''k''" 2 1]
  by simp

end
