(* ===== verification/Lifecycles.thy ===== *)
theory Lifecycles
  imports Errors JsString
begin

text \<open>
  The state machines of the program: booking orders (\<open>booking-orders/lifecycle.ts\<close>), issued
  tickets (\<open>issued-tickets/lifecycle.ts\<close> and \<open>operational-policy.ts\<close>), inventory
  reservations (the table in \<open>inventory/service.ts\<close>) and payments
  (\<open>payments/state-machine.ts\<close>). Each is a table of allowed next states and a check that
  throws; what a state machine with closing states promises is stated once, in a locale, and
  discharged for each of the four.
\<close>

section \<open>State machines with closing states\<close>

locale lifecycle =
  fixes allowed :: "'s \<Rightarrow> 's list" and closing :: "'s \<Rightarrow> bool"
  assumes closing_closed: "closing s \<Longrightarrow> t \<in> set (allowed s) \<Longrightarrow> closing t"
begin

text \<open>A move is an allowed transition or no change, which every check of the program lets pass.\<close>

definition moves :: "('s \<times> 's) set" where
  "moves = {(s, t). s = t \<or> t \<in> set (allowed s)}"

lemma closing_for_good: "(s, t) \<in> moves\<^sup>* \<Longrightarrow> closing s \<Longrightarrow> closing t"
  by (induction rule: rtrancl_induct) (auto simp: moves_def dest: closing_closed)

lemma dead_end: "(s, t) \<in> moves\<^sup>* \<Longrightarrow> allowed s = [] \<Longrightarrow> t = s"
  by (induction rule: rtrancl_induct) (auto simp: moves_def)

end

section \<open>Booking orders\<close>

datatype order_status =
    O_draft | O_pending | O_confirmed | O_paid | O_completed | O_cancelled | O_expired
  | O_refunded | O_partially_refunded

fun order_text :: "order_status \<Rightarrow> string" where
  "order_text O_draft = ''draft''" | "order_text O_pending = ''pending''"
| "order_text O_confirmed = ''confirmed''" | "order_text O_paid = ''paid''"
| "order_text O_completed = ''completed''" | "order_text O_cancelled = ''cancelled''"
| "order_text O_expired = ''expired''" | "order_text O_refunded = ''refunded''"
| "order_text O_partially_refunded = ''partially_refunded''"

fun order_next :: "order_status \<Rightarrow> order_status list" where
  "order_next O_draft = [O_pending, O_confirmed, O_paid, O_completed, O_cancelled, O_expired]"
| "order_next O_pending = [O_confirmed, O_paid, O_cancelled, O_expired]"
| "order_next O_confirmed = [O_paid, O_completed, O_cancelled, O_refunded, O_partially_refunded]"
| "order_next O_paid = [O_confirmed, O_completed, O_cancelled, O_expired]"
| "order_next O_completed = [O_refunded, O_partially_refunded]"
| "order_next O_cancelled = []"
| "order_next O_expired = []"
| "order_next O_refunded = [O_partially_refunded]"
| "order_next O_partially_refunded = []"

definition validateTransition :: "order_status \<Rightarrow> order_status \<Rightarrow> unit res" where
  "validateTransition cur nxt =
     (if cur \<noteq> nxt \<and> \<not> List.member (order_next cur) nxt
      then Inl (badRequest (''Cannot transition booking order from '' @ order_text cur @ '' to '' @ order_text nxt))
      else Inr ())"

definition isTerminalStatus :: "order_status \<Rightarrow> bool" where
  "isTerminalStatus s = List.member [O_cancelled, O_expired, O_refunded, O_partially_refunded] s"

definition shouldReleaseInventoryOnTransition :: "order_status \<Rightarrow> order_status \<Rightarrow> bool" where
  "shouldReleaseInventoryOnTransition cur nxt \<longleftrightarrow> \<not> isTerminalStatus cur \<and> isTerminalStatus nxt"

lemma validateTransition_ok: "validateTransition s t = Inr u \<longleftrightarrow> s = t \<or> t \<in> set (order_next s)"
  by (auto simp: validateTransition_def)

interpretation order: lifecycle order_next isTerminalStatus
proof
  fix s t show "isTerminalStatus s \<Longrightarrow> t \<in> set (order_next s) \<Longrightarrow> isTerminalStatus t"
    by (cases s) (auto simp: isTerminalStatus_def)
qed

section \<open>Issued tickets\<close>

datatype ticket_status = T_issued | T_checked_in | T_cancelled | T_transferred | T_refunded | T_invalidated

fun ticket_text :: "ticket_status \<Rightarrow> string" where
  "ticket_text T_issued = ''issued''" | "ticket_text T_checked_in = ''checked_in''"
| "ticket_text T_cancelled = ''cancelled''" | "ticket_text T_transferred = ''transferred''"
| "ticket_text T_refunded = ''refunded''" | "ticket_text T_invalidated = ''invalidated''"

fun ticket_next :: "ticket_status \<Rightarrow> ticket_status list" where
  "ticket_next T_issued = [T_checked_in, T_cancelled, T_transferred, T_refunded, T_invalidated]"
| "ticket_next T_checked_in = []"
| "ticket_next T_cancelled = []"
| "ticket_next T_transferred = [T_checked_in, T_cancelled, T_refunded, T_invalidated]"
| "ticket_next T_refunded = []"
| "ticket_next T_invalidated = []"

definition isTerminalIssuedTicketStatus :: "ticket_status \<Rightarrow> bool" where
  "isTerminalIssuedTicketStatus s \<longleftrightarrow> s = T_cancelled \<or> s = T_refunded \<or> s = T_invalidated"

definition validateIssuedTicketTransition :: "ticket_status \<Rightarrow> ticket_status \<Rightarrow> unit res" where
  "validateIssuedTicketTransition cur nxt =
     (if cur \<noteq> nxt \<and> \<not> List.member (ticket_next cur) nxt
      then Inl (invalidTicketStatus (''Cannot transition issued ticket from '' @ ticket_text cur
             @ '' to '' @ ticket_text nxt))
      else Inr ())"

fun resolveTicketStatusFromBookingStatus :: "order_status \<Rightarrow> ticket_status option" where
  "resolveTicketStatusFromBookingStatus O_confirmed = Some T_issued"
| "resolveTicketStatusFromBookingStatus O_paid = Some T_issued"
| "resolveTicketStatusFromBookingStatus O_completed = Some T_issued"
| "resolveTicketStatusFromBookingStatus O_cancelled = Some T_cancelled"
| "resolveTicketStatusFromBookingStatus O_expired = Some T_invalidated"
| "resolveTicketStatusFromBookingStatus O_refunded = Some T_refunded"
| "resolveTicketStatusFromBookingStatus O_partially_refunded = Some T_refunded"
| "resolveTicketStatusFromBookingStatus O_draft = None"
| "resolveTicketStatusFromBookingStatus O_pending = None"

lemma validateIssuedTicketTransition_ok:
  "validateIssuedTicketTransition s t = Inr u \<longleftrightarrow> s = t \<or> t \<in> set (ticket_next s)"
  by (auto simp: validateIssuedTicketTransition_def)

lemma validateIssuedTicketTransition_code:
  "validateIssuedTicketTransition s t = Inl e \<Longrightarrow> app_code_of e = Some INVALID_TICKET_STATUS"
  by (auto simp: validateIssuedTicketTransition_def split: if_splits)

interpretation ticket: lifecycle ticket_next isTerminalIssuedTicketStatus
  by unfold_locales (auto simp: isTerminalIssuedTicketStatus_def)

section \<open>What may be done with a ticket\<close>

definition canValidateIssuedTicket :: "ticket_status \<Rightarrow> bool" where
  "canValidateIssuedTicket s \<longleftrightarrow> s = T_issued \<or> s = T_transferred \<or> s = T_checked_in"
definition canCheckInIssuedTicket :: "ticket_status \<Rightarrow> bool" where
  "canCheckInIssuedTicket s \<longleftrightarrow> s = T_issued \<or> s = T_transferred \<or> s = T_checked_in"
definition canTransferIssuedTicket :: "ticket_status \<Rightarrow> bool" where
  "canTransferIssuedTicket s \<longleftrightarrow> s = T_issued \<or> s = T_transferred"
definition canCancelIssuedTicket :: "ticket_status \<Rightarrow> bool" where
  "canCancelIssuedTicket s \<longleftrightarrow> s = T_issued \<or> s = T_transferred"
definition canRefundIssuedTicket :: "ticket_status \<Rightarrow> bool" where
  "canRefundIssuedTicket s \<longleftrightarrow> s = T_issued \<or> s = T_transferred \<or> s = T_cancelled"
definition canInvalidateIssuedTicket :: "ticket_status \<Rightarrow> bool" where
  "canInvalidateIssuedTicket s \<longleftrightarrow> s = T_issued \<or> s = T_transferred \<or> s = T_cancelled"

lemmas ticket_policy_defs = canValidateIssuedTicket_def canCheckInIssuedTicket_def
  canTransferIssuedTicket_def canCancelIssuedTicket_def canRefundIssuedTicket_def
  canInvalidateIssuedTicket_def

datatype validation_status =
    V_valid | V_already_checked_in | V_cancelled | V_invalidated | V_refunded | V_deleted
  | V_tenant_mismatch | V_stale_ticket | V_invalid_qr | V_unauthorized_scanner

fun validation_text :: "validation_status \<Rightarrow> string" where
  "validation_text V_valid = ''valid''" | "validation_text V_already_checked_in = ''already_checked_in''"
| "validation_text V_cancelled = ''cancelled''" | "validation_text V_invalidated = ''invalidated''"
| "validation_text V_refunded = ''refunded''" | "validation_text V_deleted = ''deleted''"
| "validation_text V_tenant_mismatch = ''tenant_mismatch''" | "validation_text V_stale_ticket = ''stale_ticket''"
| "validation_text V_invalid_qr = ''invalid_qr''" | "validation_text V_unauthorized_scanner = ''unauthorized_scanner''"

record validation_input =
  vi_ticketExists :: bool
  vi_deleted :: bool
  vi_tenantMatch :: bool
  vi_status :: "ticket_status option"
  vi_staleTicket :: bool
  vi_scannerAuthorized :: bool

definition resolveValidationOutcome :: "validation_input \<Rightarrow> validation_status" where
  "resolveValidationOutcome i =
     (if \<not> vi_scannerAuthorized i then V_unauthorized_scanner
      else if \<not> vi_ticketExists i then V_invalid_qr
      else if \<not> vi_tenantMatch i then V_tenant_mismatch
      else if vi_deleted i then V_deleted
      else if vi_staleTicket i then V_stale_ticket
      else case vi_status i of
             Some T_checked_in \<Rightarrow> V_already_checked_in
           | Some T_cancelled \<Rightarrow> V_cancelled
           | Some T_invalidated \<Rightarrow> V_invalidated
           | Some T_refunded \<Rightarrow> V_refunded
           | _ \<Rightarrow> V_valid)"

section \<open>Inventory reservations\<close>

datatype reservation_status =
    R_active | R_converted | R_expired | R_released | R_cancelled | R_created | R_locking_inventory
  | R_reserved | R_payment_pending | R_payment_started | R_payment_processing | R_payment_verified
  | R_converting | R_booked | R_failed | R_force_released | R_refund_pending | R_refunded

fun reservation_text :: "reservation_status \<Rightarrow> string" where
  "reservation_text R_active = ''active''" | "reservation_text R_converted = ''converted''"
| "reservation_text R_expired = ''expired''" | "reservation_text R_released = ''released''"
| "reservation_text R_cancelled = ''cancelled''" | "reservation_text R_created = ''created''"
| "reservation_text R_locking_inventory = ''locking_inventory''"
| "reservation_text R_reserved = ''reserved''" | "reservation_text R_payment_pending = ''payment_pending''"
| "reservation_text R_payment_started = ''payment_started''"
| "reservation_text R_payment_processing = ''payment_processing''"
| "reservation_text R_payment_verified = ''payment_verified''" | "reservation_text R_converting = ''converting''"
| "reservation_text R_booked = ''booked''" | "reservation_text R_failed = ''failed''"
| "reservation_text R_force_released = ''force_released''"
| "reservation_text R_refund_pending = ''refund_pending''" | "reservation_text R_refunded = ''refunded''"

fun reservation_next :: "reservation_status \<Rightarrow> reservation_status list" where
  "reservation_next R_created = [R_locking_inventory, R_failed, R_active]"
| "reservation_next R_locking_inventory = [R_reserved, R_failed]"
| "reservation_next R_reserved = [R_payment_pending, R_expired, R_cancelled]"
| "reservation_next R_payment_pending = [R_payment_started, R_expired, R_cancelled]"
| "reservation_next R_payment_started = [R_payment_processing, R_expired, R_cancelled]"
| "reservation_next R_payment_processing = [R_payment_verified, R_expired, R_failed]"
| "reservation_next R_payment_verified = [R_converting, R_refund_pending]"
| "reservation_next R_converting = [R_booked, R_failed, R_converted]"
| "reservation_next R_booked = [R_released]"
| "reservation_next R_converted = [R_released]"
| "reservation_next R_expired = [R_refund_pending]"
| "reservation_next R_cancelled = []"
| "reservation_next R_released = []"
| "reservation_next R_force_released = []"
| "reservation_next R_refund_pending = [R_refunded, R_failed]"
| "reservation_next R_refunded = []"
| "reservation_next R_failed = []"
| "reservation_next R_active =
     [R_locking_inventory, R_reserved, R_payment_pending, R_payment_started, R_payment_processing,
      R_payment_verified, R_converting, R_booked, R_converted, R_expired, R_cancelled, R_released]"

definition validateReservationStateTransition :: "reservation_status \<Rightarrow> reservation_status \<Rightarrow> bool" where
  "validateReservationStateTransition s t \<longleftrightarrow> s = t \<or> List.member (reservation_next s) t"

text \<open>The statuses that hold inventory, as listed three times in the service.\<close>

definition holding :: "reservation_status \<Rightarrow> bool" where
  "holding s = List.member [R_active, R_created, R_locking_inventory, R_reserved, R_payment_pending,
     R_payment_started, R_payment_processing, R_payment_verified, R_converting] s"

text \<open>Once a reservation does not hold inventory it never holds it again.\<close>

interpretation reservation: lifecycle reservation_next "\<lambda>s. \<not> holding s"
proof
  fix s t show "\<not> holding s \<Longrightarrow> t \<in> set (reservation_next s) \<Longrightarrow> \<not> holding t"
    by (cases s) (auto simp: holding_def)
qed

section \<open>Payments\<close>

datatype payment_state =
    P_created | P_pending | P_authorized | P_partially_captured | P_captured | P_failed
  | P_cancelled | P_expired | P_partially_refunded | P_refunded

fun payment_text :: "payment_state \<Rightarrow> string" where
  "payment_text P_created = ''created''" | "payment_text P_pending = ''pending''"
| "payment_text P_authorized = ''authorized''" | "payment_text P_partially_captured = ''partially_captured''"
| "payment_text P_captured = ''captured''" | "payment_text P_failed = ''failed''"
| "payment_text P_cancelled = ''cancelled''" | "payment_text P_expired = ''expired''"
| "payment_text P_partially_refunded = ''partially_refunded''" | "payment_text P_refunded = ''refunded''"

fun payment_next :: "payment_state \<Rightarrow> payment_state list" where
  "payment_next P_created = [P_pending, P_authorized, P_partially_captured, P_captured, P_failed, P_cancelled, P_expired]"
| "payment_next P_pending = [P_authorized, P_partially_captured, P_captured, P_failed, P_cancelled, P_expired]"
| "payment_next P_authorized = [P_partially_captured, P_captured, P_failed, P_cancelled, P_expired]"
| "payment_next P_partially_captured = [P_partially_captured, P_captured, P_failed, P_cancelled, P_expired]"
| "payment_next P_captured = [P_partially_refunded, P_refunded]"
| "payment_next P_partially_refunded = [P_partially_refunded, P_refunded]"
| "payment_next P_refunded = []"
| "payment_next P_failed = []"
| "payment_next P_cancelled = []"
| "payment_next P_expired = []"

definition validatePaymentStateTransition :: "payment_state \<Rightarrow> payment_state \<Rightarrow> unit res" where
  "validatePaymentStateTransition s t =
     (if s = t then Inr ()
      else if \<not> List.member (payment_next s) t then
        Inl (badRequest (''Illegal payment state transition from '' @ [CHR 0x27] @ payment_text s
          @ [CHR 0x27] @ '' to '' @ [CHR 0x27] @ payment_text t @ [CHR 0x27]))
      else Inr ())"

lemma validatePaymentStateTransition_ok:
  "validatePaymentStateTransition s t = Inr u \<longleftrightarrow> s = t \<or> t \<in> set (payment_next s)"
  by (auto simp: validatePaymentStateTransition_def)

text \<open>Captured money: the states from which only refunds remain.\<close>

definition money_taken :: "payment_state \<Rightarrow> bool" where
  "money_taken s = List.member [P_captured, P_partially_refunded, P_refunded] s"

interpretation payment: lifecycle payment_next money_taken
proof
  fix s t show "money_taken s \<Longrightarrow> t \<in> set (payment_next s) \<Longrightarrow> money_taken t"
    by (cases s) (auto simp: money_taken_def)
qed

section \<open>Properties\<close>

text \<open>A run of accepted changes: each step passes the program's own check.\<close>

fun accepted :: "('s \<Rightarrow> 's \<Rightarrow> bool) \<Rightarrow> 's list \<Rightarrow> bool" where
  "accepted ok (s # t # ss) = (ok s t \<and> accepted ok (t # ss))"
| "accepted ok _ = True"

lemma accepted_moves:
  assumes "\<And>s t. ok s t \<Longrightarrow> s = t \<or> t \<in> set (next' s)" and "accepted ok (s # ss)" and "t \<in> set (s # ss)"
  shows "(s, t) \<in> {(s, t). s = t \<or> t \<in> set (next' s)}\<^sup>*"
  using assms(2,3)
proof (induction ss arbitrary: s)
  case (Cons u us)
  show ?case
  proof (cases "t = s")
    case False
    then have "(u, t) \<in> {(s, t). s = t \<or> t \<in> set (next' s)}\<^sup>*" using Cons by auto
    moreover have "(s, u) \<in> {(s, t). s = t \<or> t \<in> set (next' s)}" using Cons.prems(1) assms(1) by auto
    ultimately show ?thesis by (rule converse_rtrancl_into_rtrancl [rotated])
  qed simp
qed auto

text \<open>
  C22. Closing states are final across all four machines: along any run of changes that pass the
  program's checks, a cancelled, expired or refunded order is never open again, a cancelled,
  refunded or invalidated ticket is never usable again, a checked-in ticket stays checked in, a
  reservation that has let its inventory go never holds it again, and a captured payment never
  becomes uncaptured.
\<close>

theorem closing_states_are_final:
  "(accepted (\<lambda>s t. validateTransition s t = Inr ()) (o1 # os) \<longrightarrow> o2 \<in> set (o1 # os)
      \<longrightarrow> isTerminalStatus o1 \<longrightarrow> isTerminalStatus o2)
   \<and> (accepted (\<lambda>s t. validateIssuedTicketTransition s t = Inr ()) (t1 # ts) \<longrightarrow> t2 \<in> set (t1 # ts)
      \<longrightarrow> (isTerminalIssuedTicketStatus t1 \<longrightarrow> isTerminalIssuedTicketStatus t2)
        \<and> (t1 = T_checked_in \<longrightarrow> t2 = T_checked_in))
   \<and> (accepted validateReservationStateTransition (r1 # rs) \<longrightarrow> r2 \<in> set (r1 # rs)
      \<longrightarrow> \<not> holding r1 \<longrightarrow> \<not> holding r2)
   \<and> (accepted (\<lambda>s t. validatePaymentStateTransition s t = Inr ()) (p1 # ps) \<longrightarrow> p2 \<in> set (p1 # ps)
      \<longrightarrow> money_taken p1 \<longrightarrow> money_taken p2)"
proof (intro conjI impI)
  assume a: "accepted (\<lambda>s t. validateTransition s t = Inr ()) (o1 # os)" "o2 \<in> set (o1 # os)"
    "isTerminalStatus o1"
  have "(o1, o2) \<in> order.moves\<^sup>*"
    using accepted_moves [OF _ a(1,2), of order_next] by (simp add: order.moves_def validateTransition_ok)
  then show "isTerminalStatus o2" using a(3) by (rule order.closing_for_good)
next
  assume a: "accepted (\<lambda>s t. validateIssuedTicketTransition s t = Inr ()) (t1 # ts)" "t2 \<in> set (t1 # ts)"
  have m: "(t1, t2) \<in> ticket.moves\<^sup>*"
    using accepted_moves [OF _ a, of ticket_next] by (simp add: ticket.moves_def validateIssuedTicketTransition_ok)
  show "isTerminalIssuedTicketStatus t1 \<Longrightarrow> isTerminalIssuedTicketStatus t2"
    by (rule ticket.closing_for_good [OF m])
  show "t1 = T_checked_in \<Longrightarrow> t2 = T_checked_in" using ticket.dead_end [OF m] by simp
next
  assume a: "accepted validateReservationStateTransition (r1 # rs)" "r2 \<in> set (r1 # rs)" "\<not> holding r1"
  have "(r1, r2) \<in> reservation.moves\<^sup>*"
    using accepted_moves [OF _ a(1,2), of reservation_next]
    by (simp add: reservation.moves_def validateReservationStateTransition_def)
  then show "\<not> holding r2" using a(3) by (rule reservation.closing_for_good)
next
  assume a: "accepted (\<lambda>s t. validatePaymentStateTransition s t = Inr ()) (p1 # ps)" "p2 \<in> set (p1 # ps)"
    "money_taken p1"
  have "(p1, p2) \<in> payment.moves\<^sup>*"
    using accepted_moves [OF _ a(1,2), of payment_next]
    by (simp add: payment.moves_def validatePaymentStateTransition_ok)
  then show "money_taken p2" using a(3) by (rule payment.closing_for_good)
qed

theorem closing_states_are_final_witness:
  "isTerminalStatus O_partially_refunded \<and> \<not> holding R_released \<and> money_taken P_refunded
    \<and> isTerminalIssuedTicketStatus T_refunded"
  using closing_states_are_final [of O_refunded "[O_partially_refunded]" O_partially_refunded
      T_refunded "[T_refunded]" T_refunded R_converted "[R_released]" R_released
      P_captured "[P_partially_refunded, P_refunded]" P_refunded]
  by (simp add: validateTransition_def isTerminalStatus_def validateIssuedTicketTransition_def
      isTerminalIssuedTicketStatus_def validateReservationStateTransition_def holding_def
      validatePaymentStateTransition_def money_taken_def)

text \<open>
  Refund order matters: a refunded order may still be turned into a partially refunded one, but
  a partially refunded order can never be recorded as fully refunded, nor anything else.
\<close>

theorem partial_refund_is_dead_end:
  "validateTransition O_refunded O_partially_refunded = Inr ()
    \<and> (validateTransition O_partially_refunded s = Inr () \<longleftrightarrow> s = O_partially_refunded)"
  by (cases s) (auto simp: validateTransition_def)

text \<open>
  The gate says valid to nothing but a live ticket of this tenant, and says it to every one of
  them: the outcome is \<open>valid\<close> exactly when the scanner is authorized, the ticket exists, is
  not deleted, belongs to the tenant, is not stale and is neither used, cancelled, invalidated nor
  refunded.
\<close>

theorem validation_outcome_valid_iff:
  "resolveValidationOutcome i = V_valid \<longleftrightarrow>
    vi_scannerAuthorized i \<and> vi_ticketExists i \<and> vi_tenantMatch i \<and> \<not> vi_deleted i \<and> \<not> vi_staleTicket i
    \<and> (vi_status i = None \<or> vi_status i = Some T_issued \<or> vi_status i = Some T_transferred)"
  by (auto simp: resolveValidationOutcome_def split: option.splits ticket_status.splits)

end
