(* ===== verification/BookingStore.thy ===== *)
theory BookingStore
  imports Access Lifecycles
begin

text \<open>
  The tables the booking components share, one record per table of \<open>src/db/schema\<close>, as far
  as the modelled code reads or writes them, and the two row helpers every service uses: the
  optimistic lock of \<open>src/lib/optimistic-locking.ts\<close> and the generator of ids. Money columns
  (\<open>numeric(14,2)\<close>) are hundredths, JSON metadata is its text, instants are milliseconds. A
  column the modelled code never reads is left out.
\<close>

section \<open>Tables\<close>

record event_row =
  ev_id :: id
  ev_tenant :: id
  ev_organizer :: "id option"
  ev_title :: string
  ev_startDateTime :: time_ms
  ev_endDateTime :: time_ms
  ev_status :: string
  ev_deletedAt :: "time_ms option"

record event_date_row =
  ed_id :: id
  ed_event :: id

record user_row =
  us_id :: id
  us_fullName :: string
  us_username :: string

record ticket_type =
  tt_id :: id
  tt_tenant :: id
  tt_event :: id
  tt_name :: string
  tt_slug :: string
  tt_price :: int
  tt_currency :: string
  tt_total :: int
  tt_sold :: int
  tt_reserved :: int
  tt_min :: int
  tt_max :: int
  tt_saleStart :: "time_ms option"
  tt_saleEnd :: "time_ms option"
  tt_isRefundable :: bool
  tt_status :: string
  tt_deletedAt :: "time_ms option"

record reservation =
  rv_id :: id
  rv_tenant :: id
  rv_event :: id
  rv_ticketType :: id
  rv_order :: "id option"
  rv_token :: string
  rv_quantity :: int
  rv_status :: reservation_status
  rv_expiresAt :: time_ms
  rv_convertedAt :: "time_ms option"
  rv_releasedAt :: "time_ms option"
  rv_version :: int
  rv_extensionCount :: int
  rv_maxExtensions :: int
  rv_metadata :: string
  rv_createdBy :: "id option"
  rv_updatedBy :: "id option"
  rv_deletedAt :: "time_ms option"

record inventory_event =
  iv_tenant :: id
  iv_event :: id
  iv_ticketType :: id
  iv_reservation :: "id option"
  iv_order :: "id option"
  iv_type :: string
  iv_actor :: "id option"
  iv_source :: string
  iv_correlation :: "string option"

record booking_order =
  bo_id :: id
  bo_tenant :: id
  bo_event :: id
  bo_eventDate :: "id option"
  bo_purchaser :: id
  bo_number :: string
  bo_status :: order_status
  bo_currency :: string
  bo_subtotal :: int
  bo_tax :: int
  bo_discount :: int
  bo_total :: int
  bo_source :: string
  bo_notes :: "string option"
  bo_expiresAt :: "time_ms option"
  bo_confirmedAt :: "time_ms option"
  bo_cancelledAt :: "time_ms option"
  bo_cancellationReason :: "string option"
  bo_metadata :: string
  bo_createdBy :: id
  bo_updatedBy :: "id option"
  bo_createdAt :: time_ms
  bo_updatedAt :: time_ms
  bo_deletedAt :: "time_ms option"

record order_item =
  oi_id :: id
  oi_tenant :: id
  oi_order :: id
  oi_ticketType :: id
  oi_quantity :: int
  oi_unitPrice :: int
  oi_subtotal :: int
  oi_tax :: int
  oi_total :: int
  oi_currency :: string
  oi_name :: string
  oi_slug :: string

record order_counter =
  oc_tenant :: id
  oc_event :: id
  oc_year :: nat
  oc_prefix :: string
  oc_next :: nat

record ticket_counter =
  tc_tenant :: id
  tc_event :: id
  tc_ticketType :: id
  tc_year :: nat
  tc_prefix :: string
  tc_next :: nat

record issued_ticket =
  it_id :: id
  it_tenant :: id
  it_event :: id
  it_eventDate :: "id option"
  it_ticketType :: id
  it_attendee :: "id option"
  it_order :: id
  it_item :: id
  it_number :: string
  it_qr :: string
  it_status :: ticket_status
  it_issuedAt :: time_ms
  it_checkedInAt :: "time_ms option"
  it_checkedInBy :: "id option"
  it_transferredAt :: "time_ms option"
  it_transferredBy :: "id option"
  it_cancelledAt :: "time_ms option"
  it_invalidatedAt :: "time_ms option"
  it_refundedAt :: "time_ms option"
  it_refundedBy :: "id option"
  it_lastValidatedAt :: "time_ms option"
  it_lastValidatedBy :: "id option"
  it_validations :: nat
  it_successes :: nat
  it_failures :: nat
  it_lastAttemptAt :: "time_ms option"
  it_lastSuccessAt :: "time_ms option"
  it_lastFailure :: "string option"
  it_lastSource :: "string option"
  it_lastDevice :: "string option"
  it_lastGate :: "string option"
  it_lastOperator :: "id option"
  it_name :: string
  it_slug :: string
  it_unitPrice :: int
  it_currency :: string
  it_metadata :: string
  it_createdAt :: time_ms
  it_updatedAt :: time_ms
  it_deletedAt :: "time_ms option"

record ticket_event =
  te_tenant :: id
  te_ticket :: "id option"
  te_type :: string
  te_outcome :: string
  te_actor :: "id option"
  te_device :: "string option"
  te_gate :: "string option"
  te_operator :: "id option"
  te_source :: "string option"

record assignment =
  as_id :: id
  as_tenant :: id
  as_order :: id
  as_item :: id
  as_attendee :: id
  as_assignedAt :: time_ms
  as_assignedBy :: id
  as_deletedAt :: "time_ms option"

datatype attendee_status = A_pending | A_confirmed | A_cancelled | A_checked_in | A_no_show

record attendee_profile =
  ap_gender :: "string option"
  ap_dateOfBirth :: "time_ms option"
  ap_city :: "string option"
  ap_state :: "string option"
  ap_country :: "string option"
  ap_emergencyName :: "string option"
  ap_emergencyPhone :: "string option"
  ap_notes :: "string option"

record attendee =
  at_id :: id
  at_tenant :: id
  at_event :: id
  at_ticketType :: id
  at_order :: "id option"
  at_fullName :: string
  at_email :: string
  at_phone :: string
  at_profile :: attendee_profile
  at_checkedInAt :: "time_ms option"
  at_checkedInBy :: "id option"
  at_status :: attendee_status
  at_createdBy :: id
  at_updatedBy :: id
  at_createdAt :: time_ms
  at_updatedAt :: time_ms
  at_deletedAt :: "time_ms option"

record booking_db =
  events :: "event_row list"
  event_dates :: "event_date_row list"
  users :: "user_row list"
  ticket_types :: "ticket_type list"
  reservations :: "reservation list"
  inv_events :: "inventory_event list"
  orders :: "booking_order list"
  order_items :: "order_item list"
  order_counters :: "order_counter list"
  issued_tickets :: "issued_ticket list"
  ticket_counters :: "ticket_counter list"
  ticket_events :: "ticket_event list"
  assignments :: "assignment list"
  attendees :: "attendee list"
  fresh :: nat

definition empty_booking :: booking_db where
  "empty_booking = \<lparr>events = [], event_dates = [], users = [], ticket_types = [], reservations = [],
     inv_events = [], orders = [], order_items = [], order_counters = [], issued_tickets = [],
     ticket_counters = [], ticket_events = [], assignments = [], attendees = [], fresh = 0\<rparr>"

section \<open>Surroundings\<close>

text \<open>
  What an operation takes from outside: the generator of ids, the random tokens, the HMAC of
  reservation tokens, its instant and the calendar year of an instant, and how the database driver
  hands over an \<open>int8\<close> (a sum of integers): as a number, or as text.
\<close>

datatype js_qty = Num_qty int | Text_qty int

fun qty_val :: "js_qty \<Rightarrow> int" where
  "qty_val (Num_qty n) = n"
| "qty_val (Text_qty n) = n"

record booking_env =
  be_uuid :: "nat \<Rightarrow> id"
  be_random :: "nat \<Rightarrow> string"
  be_hmac :: "string \<Rightarrow> string"
  be_now :: time_ms
  be_year :: "time_ms \<Rightarrow> nat"
  be_int8 :: "int \<Rightarrow> js_qty"

definition unique_violation :: "string \<Rightarrow> js_error" where
  "unique_violation index =
     DbErr ''23505'' (''duplicate key value violates unique constraint '' @ index)"

section \<open>Optimistic lock\<close>

text \<open>
  \<open>optimisticLockCondition\<close> compares milliseconds, which is what an instant is here;
  \<open>assertOptimisticUpdate\<close> turns an update that matched no row into an error.
\<close>

definition optimisticLock :: "time_ms \<Rightarrow> time_ms \<Rightarrow> bool" where
  "optimisticLock updatedAt lastKnown \<longleftrightarrow> updatedAt = lastKnown"

definition assertOptimisticUpdate :: "'r option \<Rightarrow> 'r res" where
  "assertOptimisticUpdate row =
     optR row (staleRequest ''Record was updated by another user'' None)"

lemma assertOptimisticUpdate_Some [simp]: "assertOptimisticUpdate (Some r) = Inr r"
  by (simp add: assertOptimisticUpdate_def)

lemma assertOptimisticUpdate_Inr [simp]: "assertOptimisticUpdate row = Inr r \<longleftrightarrow> row = Some r"
  by (simp add: assertOptimisticUpdate_def optR_Inr)

section \<open>A sample sale\<close>

definition demo_order :: "id \<Rightarrow> id \<Rightarrow> booking_order" where
  "demo_order order event = \<lparr>bo_id = order, bo_tenant = ''t1'', bo_event = event, bo_eventDate = None,
     bo_purchaser = ''u1'', bo_number = order, bo_status = O_confirmed, bo_currency = ''INR'',
     bo_subtotal = 100000, bo_tax = 0, bo_discount = 0, bo_total = 100000, bo_source = ''web'',
     bo_notes = None, bo_expiresAt = None, bo_confirmedAt = Some 0, bo_cancelledAt = None,
     bo_cancellationReason = None, bo_metadata = ''{}'', bo_createdBy = ''u1'', bo_updatedBy = None,
     bo_createdAt = 0, bo_updatedAt = 0, bo_deletedAt = None\<rparr>"

definition demo_line :: "id \<Rightarrow> id \<Rightarrow> order_item" where
  "demo_line item order = \<lparr>oi_id = item, oi_tenant = ''t1'', oi_order = order, oi_ticketType = ''vip'',
     oi_quantity = 2, oi_unitPrice = 50000, oi_subtotal = 100000, oi_tax = 0, oi_total = 100000,
     oi_currency = ''INR'', oi_name = ''VIP'', oi_slug = ''vip-pass''\<rparr>"

definition demo_booking_env :: "time_ms \<Rightarrow> booking_env" where
  "demo_booking_env now = \<lparr>be_uuid = show_nat, be_random = show_nat, be_hmac = (\<lambda>s. s), be_now = now,
     be_year = (\<lambda>t. 2025), be_int8 = Text_qty\<rparr>"

end
