(* ===== verification/Inventory.thy ===== *)
theory Inventory
  imports BookingStore
begin

text \<open>
  \<open>src/modules/inventory/service.ts\<close>: what is sold and held of each ticket type, the
  reservations that hold it, and the operations that create, convert, release, expire and extend
  them. Locks (\<open>for update\<close>) serialize callers and change no row; in-process
  notifications and metrics change none either and are left out.
\<close>

section \<open>Sold, reserved, available\<close>

definition normalizeIds :: "id list \<Rightarrow> id list" where
  "normalizeIds ids = sort (remdups ids)"

definition tickets_for :: "booking_db \<Rightarrow> id \<Rightarrow> id list \<Rightarrow> ticket_type list" where
  "tickets_for d tenant ids =
     sort_key tt_id (filter (\<lambda>t. tt_tenant t = tenant \<and> List.member ids (tt_id t) \<and> tt_deletedAt t = None)
       (ticket_types d))"

definition invalid_ticket_types :: js_error where
  "invalid_ticket_types = badRequest ''One or more ticketTypeId values are invalid for the tenant''"

definition loadTicketTypesOrThrow :: "booking_db \<Rightarrow> id \<Rightarrow> id list \<Rightarrow> ticket_type list res" where
  "loadTicketTypesOrThrow d tenant ids =
     (let rows = (if ids = [] then [] else tickets_for d tenant ids)
      in if length rows \<noteq> length ids then Inl invalid_ticket_types else Inr rows)"

text \<open>
  The two grouped sums. A ticket type without a matching row has no group, so its quantity falls
  back to the number 0; otherwise it is what the driver makes of the \<open>int8\<close> sum.
\<close>

definition counts_as_sold :: "order_status \<Rightarrow> bool" where
  "counts_as_sold s = List.member [O_confirmed, O_paid, O_completed] s"

definition sold_item :: "booking_db \<Rightarrow> id \<Rightarrow> id \<Rightarrow> order_item \<Rightarrow> bool" where
  "sold_item d tenant tt i \<longleftrightarrow> oi_tenant i = tenant \<and> oi_ticketType i = tt
     \<and> list_ex (\<lambda>b. bo_id b = oi_order i \<and> bo_tenant b = tenant \<and> bo_deletedAt b = None
          \<and> counts_as_sold (bo_status b)) (orders d)"

definition live_hold :: "time_ms \<Rightarrow> id \<Rightarrow> id \<Rightarrow> reservation \<Rightarrow> bool" where
  "live_hold now tenant tt r \<longleftrightarrow> rv_tenant r = tenant \<and> rv_ticketType r = tt \<and> holding (rv_status r)
     \<and> rv_deletedAt r = None \<and> rv_convertedAt r = None \<and> rv_releasedAt r = None \<and> now < rv_expiresAt r"

definition group_sum :: "(int \<Rightarrow> js_qty) \<Rightarrow> ('r \<Rightarrow> bool) \<Rightarrow> ('r \<Rightarrow> int) \<Rightarrow> 'r list \<Rightarrow> js_qty" where
  "group_sum int8 p v rows = (if list_ex p rows then int8 (sum_where p v rows) else Num_qty 0)"

definition sold_quantity :: "booking_env \<Rightarrow> booking_db \<Rightarrow> id \<Rightarrow> id \<Rightarrow> js_qty" where
  "sold_quantity E d tenant tt = group_sum (be_int8 E) (sold_item d tenant tt) oi_quantity (order_items d)"

definition reserved_quantity :: "booking_env \<Rightarrow> booking_db \<Rightarrow> id \<Rightarrow> id \<Rightarrow> js_qty" where
  "reserved_quantity E d tenant tt =
     group_sum (be_int8 E) (live_hold (be_now E) tenant tt) rv_quantity (reservations d)"

record summary =
  su_ticketType :: id
  su_total :: int
  su_sold :: js_qty
  su_reserved :: js_qty
  su_available :: int

definition ticket_summary :: "booking_env \<Rightarrow> booking_db \<Rightarrow> id \<Rightarrow> ticket_type \<Rightarrow> summary" where
  "ticket_summary E d tenant t =
     (let sold = sold_quantity E d tenant (tt_id t); reserved = reserved_quantity E d tenant (tt_id t)
      in \<lparr>su_ticketType = tt_id t, su_total = tt_total t, su_sold = sold, su_reserved = reserved,
          su_available = max 0 (tt_total t - qty_val sold - qty_val reserved)\<rparr>)"

definition getInventorySummaries :: "booking_env \<Rightarrow> booking_db \<Rightarrow> id \<Rightarrow> id list \<Rightarrow> summary list res" where
  "getInventorySummaries E d tenant ticketTypeIds =
     (let ids = normalizeIds ticketTypeIds in
      if ids = [] then Inr []
      else bindR (loadTicketTypesOrThrow d tenant ids)
             (\<lambda>rows. Inr (map (ticket_summary E d tenant) rows)))"

definition summary_of :: "summary list \<Rightarrow> id \<Rightarrow> summary option" where
  "summary_of ss tt = List.find (\<lambda>s. su_ticketType s = tt) ss"

text \<open>\<open>withDerivedInventory\<close>: each row with its derived quantities, or with its cached ones.\<close>

record derived_row =
  dr_row :: ticket_type
  dr_sold :: js_qty
  dr_reserved :: js_qty
  dr_available :: int

definition withDerivedInventory :: "booking_env \<Rightarrow> booking_db \<Rightarrow> id \<Rightarrow> ticket_type list \<Rightarrow> derived_row list res" where
  "withDerivedInventory E d tenant rows =
     (if rows = [] then Inr []
      else bindR (getInventorySummaries E d tenant (map tt_id rows)) (\<lambda>ss.
        Inr (map (\<lambda>t. case summary_of ss (tt_id t) of
            None \<Rightarrow> \<lparr>dr_row = t, dr_sold = Num_qty (tt_sold t), dr_reserved = Num_qty (tt_reserved t),
                     dr_available = max 0 (tt_total t - tt_sold t - tt_reserved t)\<rparr>
          | Some s \<Rightarrow> \<lparr>dr_row = t, dr_sold = su_sold s, dr_reserved = su_reserved s,
                     dr_available = su_available s\<rparr>) rows)))"

section \<open>Validation of the requested items\<close>

record item_request =
  rq_ticketType :: id
  rq_quantity :: int

record prepared_item =
  pi_ticketType :: id
  pi_quantity :: int
  pi_unitPrice :: int
  pi_currency :: string
  pi_name :: string
  pi_slug :: string

definition prepare_item :: "time_ms \<Rightarrow> booking_db \<Rightarrow> id \<Rightarrow> item_request \<Rightarrow> prepared_item res" where
  "prepare_item now d tenant it =
     (case List.find (\<lambda>t. tt_id t = rq_ticketType it \<and> tt_tenant t = tenant \<and> tt_deletedAt t = None)
             (ticket_types d) of
        None \<Rightarrow> Inl invalid_ticket_types
      | Some t \<Rightarrow>
          if tt_status t \<noteq> ''active'' then Inl (badRequest (''Ticket type '' @ tt_name t @ '' is not active''))
          else if (case tt_saleStart t of None \<Rightarrow> False | Some s \<Rightarrow> now < s)
            then Inl (badRequest (''Ticket type '' @ tt_name t @ '' is not on sale yet''))
          else if (case tt_saleEnd t of None \<Rightarrow> False | Some s \<Rightarrow> s < now)
            then Inl (badRequest (''Ticket type '' @ tt_name t @ '' sale has ended''))
          else if rq_quantity it < tt_min t \<or> tt_max t < rq_quantity it
            then Inl (badRequest (''Quantity for '' @ tt_name t @ '' must be between '' @ show_int (tt_min t)
                   @ '' and '' @ show_int (tt_max t)))
          else Inr \<lparr>pi_ticketType = rq_ticketType it, pi_quantity = rq_quantity it,
                    pi_unitPrice = tt_price t, pi_currency = tt_currency t,
                    pi_name = tt_name t, pi_slug = tt_slug t\<rparr>)"

fun mapR :: "('a \<Rightarrow> 'b res) \<Rightarrow> 'a list \<Rightarrow> 'b list res" where
  "mapR f [] = Inr []"
| "mapR f (x # xs) = bindR (f x) (\<lambda>y. bindR (mapR f xs) (\<lambda>ys. Inr (y # ys)))"

definition validateAndPrepareItems ::
    "time_ms \<Rightarrow> booking_db \<Rightarrow> id \<Rightarrow> item_request list \<Rightarrow> prepared_item list res" where
  "validateAndPrepareItems now d tenant items =
     (if items = [] then Inl (badRequest ''At least one booking item is required'')
      else mapR (prepare_item now d tenant) items)"

section \<open>Creating reservations\<close>

record reserve_input =
  ri_tenant :: id
  ri_event :: id
  ri_order :: "id option"
  ri_actor :: "id option"
  ri_source :: "string option"
  ri_correlation :: "string option"
  ri_expiresAt :: "time_ms option"
  ri_metadata :: string

record reservation_item =
  rsi_ticketType :: id
  rsi_quantity :: int
  rsi_token :: "string option"

definition coalesce :: "'a option \<Rightarrow> 'a \<Rightarrow> 'a" where
  "coalesce x y = (case x of None \<Rightarrow> y | Some v \<Rightarrow> v)"

definition resolveReservationExpiresAt :: "time_ms \<Rightarrow> time_ms option \<Rightarrow> time_ms" where
  "resolveReservationExpiresAt now v = coalesce v (now + 15 * 60 * 1000)"

text \<open>The check of every item against the summaries taken before any of them is reserved.\<close>

definition check_item :: "summary list \<Rightarrow> reservation_item \<Rightarrow> unit res" where
  "check_item ss it =
     (if rsi_quantity it \<le> 0 then Inl (badRequest ''Reservation quantity must be positive'')
      else case summary_of ss (rsi_ticketType it) of
        None \<Rightarrow> Inl invalid_ticket_types
      | Some s \<Rightarrow> if su_available s < rsi_quantity it
                  then Inl (conflict (''Insufficient inventory for ticket '' @ rsi_ticketType it))
                  else Inr ())"

definition item_token :: "booking_env \<Rightarrow> booking_db \<Rightarrow> reserve_input \<Rightarrow> reservation_item \<Rightarrow> string" where
  "item_token E d input it =
     coalesce (rsi_token it)
       (coalesce (ri_order input) (coalesce (ri_correlation input) (be_random E (fresh d)))
          @ '':'' @ rsi_ticketType it)"

definition new_reservation :: "booking_env \<Rightarrow> booking_db \<Rightarrow> reserve_input \<Rightarrow> reservation_item \<Rightarrow> reservation" where
  "new_reservation E d input it =
     \<lparr>rv_id = be_uuid E (fresh d), rv_tenant = ri_tenant input, rv_event = ri_event input,
      rv_ticketType = rsi_ticketType it, rv_order = ri_order input, rv_token = item_token E d input it,
      rv_quantity = rsi_quantity it, rv_status = R_active,
      rv_expiresAt = resolveReservationExpiresAt (be_now E) (ri_expiresAt input),
      rv_convertedAt = None, rv_releasedAt = None, rv_version = 1, rv_extensionCount = 0,
      rv_maxExtensions = 3, rv_metadata = ri_metadata input, rv_createdBy = ri_actor input,
      rv_updatedBy = ri_actor input, rv_deletedAt = None\<rparr>"

definition reserve_event :: "reserve_input \<Rightarrow> reservation \<Rightarrow> inventory_event" where
  "reserve_event input r =
     \<lparr>iv_tenant = ri_tenant input, iv_event = ri_event input, iv_ticketType = rv_ticketType r,
      iv_reservation = Some (rv_id r), iv_order = ri_order input, iv_type = ''reservation_created'',
      iv_actor = ri_actor input, iv_source = coalesce (ri_source input) ''inventory'',
      iv_correlation = Some (coalesce (ri_correlation input) (rv_token r))\<rparr>"

definition add_reserved :: "(ticket_type \<Rightarrow> bool) \<Rightarrow> int \<Rightarrow> booking_db \<Rightarrow> booking_db" where
  "add_reserved p q d =
     d\<lparr>ticket_types := update_where p (\<lambda>t. t\<lparr>tt_reserved := tt_reserved t + q\<rparr>) (ticket_types d)\<rparr>"

text \<open>
  One insert. \<open>on conflict do nothing\<close> covers the unique index on the token; the other unique
  index, of live rows by order and ticket type, still raises.
\<close>

definition reserve_item ::
    "booking_env \<Rightarrow> reserve_input \<Rightarrow> reservation_item \<Rightarrow> reservation list \<times> booking_db
       \<Rightarrow> (reservation list \<times> booking_db) res" where
  "reserve_item E input it s =
     (let (created, d) = s; r = new_reservation E d input it in
      if list_ex (\<lambda>x. rv_tenant x = rv_tenant r \<and> rv_token x = rv_token r) (reservations d) then
        (case List.find (\<lambda>x. rv_tenant x = rv_tenant r \<and> rv_token x = rv_token r \<and> rv_deletedAt x = None)
                (reservations d) of
           Some existing \<Rightarrow> Inr (created @ [existing], d)
         | None \<Rightarrow> Inl (conflict (''Unable to create reservation for ticket '' @ rsi_ticketType it)))
      else if rv_order r \<noteq> None \<and> list_ex (\<lambda>x. rv_tenant x = rv_tenant r \<and> rv_order x = rv_order r
                \<and> rv_ticketType x = rv_ticketType r \<and> rv_deletedAt x = None) (reservations d)
        then Inl (unique_violation ''inventory_reservations_tenant_booking_order_ticket_unique'')
      else
        let d1 = d\<lparr>reservations := reservations d @ [r], fresh := Suc (fresh d)\<rparr>;
            d2 = add_reserved (\<lambda>t. tt_id t = rv_ticketType r \<and> tt_tenant t = rv_tenant r) (rv_quantity r) d1
        in Inr (created @ [r], d2\<lparr>inv_events := inv_events d2 @ [reserve_event input r]\<rparr>))"

definition createReservationsForItems ::
    "booking_env \<Rightarrow> reserve_input \<Rightarrow> reservation_item list \<Rightarrow> booking_db \<Rightarrow> (reservation list \<times> booking_db) res" where
  "createReservationsForItems E input items d =
     (if items = [] then Inl (badRequest ''At least one reservation item is required'')
      else
        let ids = normalizeIds (map rsi_ticketType items) in
        bindR (loadTicketTypesOrThrow d (ri_tenant input) ids) (\<lambda>_.
        bindR (getInventorySummaries E d (ri_tenant input) ids) (\<lambda>ss.
        bindR (mapR (check_item ss) items) (\<lambda>_.
        forR (reserve_item E input) items ([], d)))))"

definition generateIdempotentToken :: "booking_env \<Rightarrow> id \<Rightarrow> id \<Rightarrow> string" where
  "generateIdempotentToken E bookingOrderId tt = be_hmac E (bookingOrderId @ '':'' @ tt)"

definition reserveInventoryForBookingOrder ::
    "booking_env \<Rightarrow> reserve_input \<Rightarrow> id \<Rightarrow> item_request list \<Rightarrow> booking_db \<Rightarrow> (reservation list \<times> booking_db) res" where
  "reserveInventoryForBookingOrder E input order items d =
     createReservationsForItems E (input\<lparr>ri_order := Some order\<rparr>)
       (map (\<lambda>it. \<lparr>rsi_ticketType = rq_ticketType it, rsi_quantity = rq_quantity it,
                   rsi_token = Some (generateIdempotentToken E order (rq_ticketType it))\<rparr>) items) d"

definition reserveInventoryWithoutOrder ::
    "booking_env \<Rightarrow> reserve_input \<Rightarrow> reservation_item list \<Rightarrow> booking_db \<Rightarrow> (reservation list \<times> booking_db) res" where
  "reserveInventoryWithoutOrder E input items d =
     createReservationsForItems E (input\<lparr>ri_order := None\<rparr>) items d"

section \<open>Moving a reservation\<close>

record move_input =
  mi_actor :: "id option"
  mi_source :: string
  mi_correlation :: "string option"
  mi_type :: string

definition lets_go :: "reservation_status \<Rightarrow> bool" where
  "lets_go s = List.member [R_released, R_expired, R_cancelled, R_failed, R_force_released] s"

definition moved :: "time_ms \<Rightarrow> reservation_status \<Rightarrow> id option \<Rightarrow> reservation \<Rightarrow> reservation \<Rightarrow> reservation" where
  "moved now nxt act r x =
     x\<lparr>rv_status := nxt,
       rv_convertedAt := (if nxt = R_booked \<or> nxt = R_converted then Some now else rv_convertedAt r),
       rv_releasedAt := (if lets_go nxt then Some now else rv_releasedAt r),
       rv_updatedBy := (case act of None \<Rightarrow> rv_updatedBy r | Some a \<Rightarrow> Some a)\<rparr>"

definition shift_ticket :: "reservation_status \<Rightarrow> reservation_status \<Rightarrow> reservation \<Rightarrow> booking_db \<Rightarrow> booking_db" where
  "shift_ticket cur nxt u d =
     (let upd = (\<lambda>f. d\<lparr>ticket_types := update_where (\<lambda>t. tt_id t = rv_ticketType u) f (ticket_types d)\<rparr>) in
      if holding cur \<and> \<not> holding nxt then
        (if nxt = R_booked \<or> nxt = R_converted
         then upd (\<lambda>t. t\<lparr>tt_reserved := max 0 (tt_reserved t - rv_quantity u), tt_sold := tt_sold t + rv_quantity u\<rparr>)
         else upd (\<lambda>t. t\<lparr>tt_reserved := max 0 (tt_reserved t - rv_quantity u)\<rparr>))
      else if \<not> holding cur \<and> holding nxt
        then upd (\<lambda>t. t\<lparr>tt_reserved := tt_reserved t + rv_quantity u\<rparr>)
      else d)"

definition move_event :: "move_input \<Rightarrow> reservation \<Rightarrow> inventory_event" where
  "move_event m u =
     \<lparr>iv_tenant = rv_tenant u, iv_event = rv_event u, iv_ticketType = rv_ticketType u,
      iv_reservation = Some (rv_id u), iv_order = rv_order u, iv_type = mi_type m, iv_actor = mi_actor m,
      iv_source = mi_source m, iv_correlation = Some (coalesce (mi_correlation m) (rv_token u))\<rparr>"

definition invalid_move :: "reservation_status \<Rightarrow> reservation_status \<Rightarrow> js_error" where
  "invalid_move cur nxt = conflict (''Invalid reservation state transition from '' @ reservation_text cur
     @ '' to '' @ reservation_text nxt)"

text \<open>
  \<open>r\<close> is the row as the caller read it; the update matches it only in that status. The result
  is the row after the move, none when nothing matched.
\<close>

definition transitionReservation ::
    "booking_env \<Rightarrow> move_input \<Rightarrow> reservation_status \<Rightarrow> reservation \<Rightarrow> booking_db
       \<Rightarrow> (reservation option \<times> booking_db) res" where
  "transitionReservation E m nxt r d =
     (if rv_status r = nxt then Inr (Some r, d)
      else if \<not> validateReservationStateTransition (rv_status r) nxt then Inl (invalid_move (rv_status r) nxt)
      else
        let hit = (\<lambda>x. rv_id x = rv_id r \<and> rv_status x = rv_status r \<and> rv_deletedAt x = None) in
        case List.find hit (reservations d) of
          None \<Rightarrow> Inr (None, d)
        | Some x \<Rightarrow>
            let u = moved (be_now E) nxt (mi_actor m) r x;
                d1 = d\<lparr>reservations := update_where hit (moved (be_now E) nxt (mi_actor m) r) (reservations d)\<rparr>;
                d2 = shift_ticket (rv_status r) nxt u d1
            in Inr (Some u, d2\<lparr>inv_events := inv_events d2 @ [move_event m u]\<rparr>))"

definition loadReservationsForOrder :: "booking_db \<Rightarrow> id \<Rightarrow> id \<Rightarrow> reservation list" where
  "loadReservationsForOrder d tenant order =
     sort_key rv_id (filter (\<lambda>r. rv_tenant r = tenant \<and> rv_order r = Some order \<and> rv_deletedAt r = None)
       (reservations d))"

text \<open>The loop of the three operations: move every row the filter keeps, in order.\<close>

definition move_all ::
    "booking_env \<Rightarrow> (reservation \<Rightarrow> move_input) \<Rightarrow> reservation_status \<Rightarrow> reservation list \<Rightarrow> booking_db
       \<Rightarrow> (reservation list \<times> booking_db) res" where
  "move_all E m nxt rs d =
     forR (\<lambda>r (acc, d). bindR (transitionReservation E (m r) nxt r d)
        (\<lambda>(u, d'). Inr (case u of None \<Rightarrow> acc | Some x \<Rightarrow> acc @ [x], d'))) rs ([], d)"

record order_move =
  om_tenant :: id
  om_order :: id
  om_actor :: "id option"
  om_source :: "string option"
  om_correlation :: "string option"

definition order_move_input :: "order_move \<Rightarrow> string \<Rightarrow> reservation \<Rightarrow> move_input" where
  "order_move_input i ty r =
     \<lparr>mi_actor = om_actor i, mi_source = coalesce (om_source i) ''inventory'',
      mi_correlation = Some (coalesce (om_correlation i) (rv_token r)), mi_type = ty\<rparr>"

definition convertReservationsForBookingOrder ::
    "booking_env \<Rightarrow> order_move \<Rightarrow> string option \<Rightarrow> booking_db \<Rightarrow> (reservation list \<times> booking_db) res" where
  "convertReservationsForBookingOrder E i ty d =
     move_all E (order_move_input i (coalesce ty ''reservation_converted'')) R_converted
       (filter (\<lambda>r. \<not> (rv_status r = R_converted \<or> rv_status r = R_booked))
          (loadReservationsForOrder d (om_tenant i) (om_order i))) d"

definition releaseReservationsForBookingOrder ::
    "booking_env \<Rightarrow> order_move \<Rightarrow> booking_db \<Rightarrow> (reservation list \<times> booking_db) res" where
  "releaseReservationsForBookingOrder E i d =
     move_all E (order_move_input i ''reservation_released'') R_released
       (filter (\<lambda>r. \<not> lets_go (rv_status r)) (loadReservationsForOrder d (om_tenant i) (om_order i))) d"

section \<open>Expiry\<close>

definition expirable :: "reservation_status \<Rightarrow> bool" where
  "expirable s = List.member [R_active, R_created, R_locking_inventory, R_reserved, R_payment_pending,
     R_payment_started, R_payment_processing] s"

definition is_due :: "time_ms \<Rightarrow> id \<Rightarrow> reservation \<Rightarrow> bool" where
  "is_due now tenant r \<longleftrightarrow> rv_tenant r = tenant \<and> expirable (rv_status r) \<and> rv_deletedAt r = None
     \<and> rv_convertedAt r = None \<and> rv_releasedAt r = None \<and> rv_expiresAt r \<le> now"

definition due_batch :: "time_ms \<Rightarrow> id \<Rightarrow> nat \<Rightarrow> booking_db \<Rightarrow> reservation list" where
  "due_batch now tenant n d =
     take n (sort_key rv_expiresAt (sort_key rv_id (filter (is_due now tenant) (reservations d))))"

definition expiry_input :: "id option \<Rightarrow> string option \<Rightarrow> string option \<Rightarrow> reservation \<Rightarrow> move_input" where
  "expiry_input act src corr r =
     \<lparr>mi_actor = act, mi_source = coalesce src ''inventory-expiry-worker'',
      mi_correlation = Some (coalesce corr (rv_token r)), mi_type = ''reservation_expired''\<rparr>"

definition expireDueReservations ::
    "booking_env \<Rightarrow> id \<Rightarrow> nat option \<Rightarrow> id option \<Rightarrow> string option \<Rightarrow> string option \<Rightarrow> booking_db
       \<Rightarrow> (reservation list \<times> booking_db) res" where
  "expireDueReservations E tenant batchSize act src corr d =
     (let due = map rv_id (due_batch (be_now E) tenant (coalesce batchSize 100) d) in
      if due = [] then Inr ([], d)
      else move_all E (expiry_input act src corr) R_expired
             (sort_key rv_id (filter (\<lambda>r. List.member due (rv_id r)) (reservations d))) d)"

section \<open>Reconciliation of the cached quantities\<close>

record drift =
  df_ticketType :: id
  df_cacheSold :: int
  df_cacheReserved :: int
  df_sold :: js_qty
  df_reserved :: js_qty
  df_available :: int

text \<open>\<open>!==\<close> between a column, which is a number, and a derived quantity.\<close>

definition differs :: "int \<Rightarrow> js_qty \<Rightarrow> bool" where
  "differs n q \<longleftrightarrow> q \<noteq> Num_qty n"

definition adjust_event :: "id \<Rightarrow> id option \<Rightarrow> string option \<Rightarrow> string option \<Rightarrow> ticket_type \<Rightarrow> inventory_event" where
  "adjust_event tenant act src corr t =
     \<lparr>iv_tenant = tenant, iv_event = tt_event t, iv_ticketType = tt_id t, iv_reservation = None,
      iv_order = None, iv_type = ''inventory_adjusted'', iv_actor = act,
      iv_source = coalesce src ''inventory-reconciliation'', iv_correlation = Some (coalesce corr (tt_id t))\<rparr>"

definition reconcile_row ::
    "id \<Rightarrow> bool \<Rightarrow> id option \<Rightarrow> string option \<Rightarrow> string option \<Rightarrow> summary list \<Rightarrow> ticket_type
       \<Rightarrow> drift list \<times> booking_db \<Rightarrow> drift list \<times> booking_db" where
  "reconcile_row tenant repair act src corr ss t st =
     (case summary_of ss (tt_id t) of
        None \<Rightarrow> st
      | Some s \<Rightarrow>
          if differs (tt_sold t) (su_sold s) \<or> differs (tt_reserved t) (su_reserved s) then
            let (ds, d) = st;
                d1 = d\<lparr>inv_events := inv_events d @ [adjust_event tenant act src corr t]\<rparr>;
                d2 = (if repair then d1\<lparr>ticket_types := update_where
                         (\<lambda>x. tt_id x = tt_id t \<and> tt_tenant x = tenant \<and> tt_deletedAt x = None)
                         (\<lambda>x. x\<lparr>tt_sold := qty_val (su_sold s), tt_reserved := qty_val (su_reserved s)\<rparr>)
                         (ticket_types d1)\<rparr> else d1)
            in (ds @ [\<lparr>df_ticketType = tt_id t, df_cacheSold = tt_sold t, df_cacheReserved = tt_reserved t,
                       df_sold = su_sold s, df_reserved = su_reserved s, df_available = su_available s\<rparr>], d2)
          else st)"

definition reconcileCachedInventory ::
    "booking_env \<Rightarrow> id \<Rightarrow> id list option \<Rightarrow> bool \<Rightarrow> id option \<Rightarrow> string option \<Rightarrow> string option \<Rightarrow> booking_db
       \<Rightarrow> (drift list \<times> booking_db) res" where
  "reconcileCachedInventory E tenant ids repair act src corr d =
     bindR (case ids of
              Some (i # is) \<Rightarrow> loadTicketTypesOrThrow d tenant (normalizeIds (i # is))
            | _ \<Rightarrow> Inr (sort_key tt_id (filter (\<lambda>t. tt_tenant t = tenant \<and> tt_deletedAt t = None) (ticket_types d))))
       (\<lambda>rows. bindR (getInventorySummaries E d tenant (map tt_id rows))
         (\<lambda>ss. Inr (fold (reconcile_row tenant repair act src corr ss) rows ([], d))))"

section \<open>Extending the time to pay\<close>

definition not_extendable :: "reservation_status \<Rightarrow> bool" where
  "not_extendable s = List.member [R_booked, R_converted, R_expired, R_cancelled, R_released, R_failed,
     R_force_released, R_refund_pending, R_refunded] s"

definition extend_event :: "reservation \<Rightarrow> id \<Rightarrow> id option \<Rightarrow> inventory_event" where
  "extend_event u order act =
     \<lparr>iv_tenant = rv_tenant u, iv_event = rv_event u, iv_ticketType = rv_ticketType u,
      iv_reservation = Some (rv_id u), iv_order = Some order, iv_type = ''reservation_extended'',
      iv_actor = act, iv_source = ''extend_reservation_ttl'', iv_correlation = None\<rparr>"

definition extend_one ::
    "time_ms \<Rightarrow> int \<Rightarrow> id \<Rightarrow> id option \<Rightarrow> reservation \<Rightarrow> reservation list \<times> booking_db
       \<Rightarrow> (reservation list \<times> booking_db) res" where
  "extend_one now duration order act r st =
     (let (acc, d) = st in
      if not_extendable (rv_status r) then
        Inl (conflict (''Cannot extend reservation in terminal status: '' @ reservation_text (rv_status r)))
      else if rv_maxExtensions r \<le> rv_extensionCount r then
        Inl (conflict (''Maximum extension limit of '' @ show_int (rv_maxExtensions r)
           @ '' reached for reservation '' @ rv_id r))
      else
        let hit = (\<lambda>x. rv_id x = rv_id r \<and> rv_version x = rv_version r);
            f = (\<lambda>x. x\<lparr>rv_expiresAt := now + duration * 1000, rv_extensionCount := rv_extensionCount r + 1,
                       rv_status := R_payment_processing,
                       rv_updatedBy := (case act of None \<Rightarrow> rv_updatedBy r | Some a \<Rightarrow> Some a),
                       rv_version := rv_version x + 1\<rparr>)
        in case List.find hit (reservations d) of
             None \<Rightarrow> Inr (acc, d)
           | Some x \<Rightarrow> Inr (acc @ [f x],
               d\<lparr>reservations := update_where hit f (reservations d),
                 inv_events := inv_events d @ [extend_event (f x) order act]\<rparr>))"

definition extendReservationTTL ::
    "booking_env \<Rightarrow> id \<Rightarrow> id \<Rightarrow> int option \<Rightarrow> id option \<Rightarrow> booking_db \<Rightarrow> (reservation list \<times> booking_db) res" where
  "extendReservationTTL E tenant order durationSeconds act d =
     (let rs = loadReservationsForOrder d tenant order; duration = coalesce durationSeconds 300 in
      if rs = [] then Inl (badRequest ''No reservations found for this booking order'')
      else if 300 < duration then Inl (badRequest ''Maximum extension duration is 5 minutes'')
      else forR (extend_one (be_now E) duration order act) rs ([], d))"

end
