(* ===== verification/IssuedTickets.thy ===== *)
theory IssuedTickets
  imports BookingStore
begin

text \<open>
  \<open>src/modules/issued-tickets/service.ts\<close> and the parts of its \<open>repository.ts\<close> it uses:
  issuing the tickets of an order and numbering them, keeping attendees in step, validating at the
  gate, checking in, changing and deleting a ticket, and carrying an order's status over to its
  tickets. Each function is a transaction, so an error loses the whole change. Uploads of assets
  and the marketing hook run after the tickets exist, swallow their own errors and change no row.
\<close>

section \<open>Numbers and contexts\<close>

definition normalizeTicketNumber :: "string \<Rightarrow> string" where
  "normalizeTicketNumber v = toUpperCase (trim v)"

record scan_context =
  sc_device :: "string option"
  sc_gate :: "string option"
  sc_operator :: "id option"
  sc_source :: "string option"

definition no_scan :: scan_context where
  "no_scan = \<lparr>sc_device = None, sc_gate = None, sc_operator = None, sc_source = None\<rparr>"

definition trimmed :: "string option \<Rightarrow> string option" where
  "trimmed v = (case v of None \<Rightarrow> None | Some s \<Rightarrow> if trim s = [] then None else Some (trim s))"

definition normalizeScanContext :: "scan_context \<Rightarrow> scan_context" where
  "normalizeScanContext c =
     \<lparr>sc_device = trimmed (sc_device c), sc_gate = trimmed (sc_gate c), sc_operator = sc_operator c,
      sc_source = trimmed (sc_source c)\<rparr>"

fun resolveValidationEventType :: "validation_status \<Rightarrow> string" where
  "resolveValidationEventType V_valid = ''ticket_validated''"
| "resolveValidationEventType V_already_checked_in = ''ticket_checked_in''"
| "resolveValidationEventType V_cancelled = ''ticket_cancelled''"
| "resolveValidationEventType V_refunded = ''ticket_refunded''"
| "resolveValidationEventType V_invalidated = ''ticket_invalidated''"
| "resolveValidationEventType V_deleted = ''ticket_invalidated''"
| "resolveValidationEventType V_tenant_mismatch = ''ticket_validation_rejected''"
| "resolveValidationEventType V_stale_ticket = ''ticket_validation_rejected''"
| "resolveValidationEventType V_invalid_qr = ''ticket_validation_rejected''"
| "resolveValidationEventType V_unauthorized_scanner = ''ticket_validation_rejected''"

definition isSameTimestamp :: "time_ms option \<Rightarrow> time_ms option \<Rightarrow> bool" where
  "isSameTimestamp l r \<longleftrightarrow> l \<noteq> None \<and> r \<noteq> None \<and> l = r"

definition resolveTicketPrefix :: "string \<Rightarrow> string" where
  "resolveTicketPrefix slug =
     (case filter (\<lambda>p. p \<noteq> []) (split_on (CHR ''-'') (toLowerCase slug)) of
        [] \<Rightarrow> ''TKT''
      | w # _ \<Rightarrow>
          let p = take 8 (toUpperCase (filter is_lower_alnum w))
          in if p = [] then ''TKT'' else p)"

definition ticket_number :: "string \<Rightarrow> nat \<Rightarrow> nat \<Rightarrow> string" where
  "ticket_number prefix year n =
     prefix @ ''-'' @ show_nat year @ ''-'' @ padStart 6 (CHR ''0'') (show_nat n)"

section \<open>Access\<close>

definition no_ticket_permission :: js_error where
  "no_ticket_permission = forbidden ''Insufficient issued ticket permissions''"

definition assertReadAccess :: "tenant_role option \<Rightarrow> unit res" where
  "assertReadAccess role = guardR (canReadIssuedTickets role) no_ticket_permission"

definition assertIssueAccess :: "tenant_role option \<Rightarrow> unit res" where
  "assertIssueAccess role = guardR (canIssueTickets role) no_ticket_permission"

definition assertCheckInAccess :: "tenant_role option \<Rightarrow> unit res" where
  "assertCheckInAccess role = guardR (canCheckInTickets role) no_ticket_permission"

definition assertMutationAccess :: "tenant_role option \<Rightarrow> ticket_status option \<Rightarrow> unit res" where
  "assertMutationAccess role st =
     guardR (\<not> (st = Some T_transferred \<and> \<not> canTransferIssuedTickets role)
       \<and> \<not> (st = Some T_cancelled \<and> \<not> canCancelIssuedTickets role)
       \<and> \<not> ((st = Some T_invalidated \<or> st = Some T_refunded) \<and> \<not> canInvalidateTickets role))
       no_ticket_permission"

section \<open>Rows\<close>

definition live_ticket :: "id \<Rightarrow> string \<Rightarrow> issued_ticket \<Rightarrow> bool" where
  "live_ticket tenant number t \<longleftrightarrow> it_tenant t = tenant \<and> it_number t = number \<and> it_deletedAt t = None"

definition find_ticket :: "booking_db \<Rightarrow> id \<Rightarrow> string \<Rightarrow> issued_ticket option" where
  "find_ticket d tenant number = List.find (live_ticket tenant number) (issued_tickets d)"

definition find_ticket_by_qr :: "booking_db \<Rightarrow> id \<Rightarrow> string \<Rightarrow> issued_ticket option" where
  "find_ticket_by_qr d tenant qr =
     List.find (\<lambda>t. it_tenant t = tenant \<and> it_qr t = qr \<and> it_deletedAt t = None) (issued_tickets d)"

definition tickets_of_order :: "booking_db \<Rightarrow> id \<Rightarrow> id \<Rightarrow> issued_ticket list" where
  "tickets_of_order d tenant order =
     sort_key it_number (filter (\<lambda>t. it_tenant t = tenant \<and> it_order t = order \<and> it_deletedAt t = None)
       (issued_tickets d))"

definition tickets_of_item :: "booking_db \<Rightarrow> id \<Rightarrow> id \<Rightarrow> issued_ticket list" where
  "tickets_of_item d tenant item =
     sort_key it_createdAt (sort_key it_id
       (filter (\<lambda>t. it_tenant t = tenant \<and> it_item t = item \<and> it_deletedAt t = None) (issued_tickets d)))"

text \<open>\<open>updateIssuedTicketRecord\<close>: the columns of \<open>f\<close>, under the optimistic lock.\<close>

definition update_ticket ::
    "time_ms \<Rightarrow> id \<Rightarrow> string \<Rightarrow> time_ms \<Rightarrow> (issued_ticket \<Rightarrow> issued_ticket) \<Rightarrow> booking_db
       \<Rightarrow> issued_ticket option \<times> booking_db" where
  "update_ticket now tenant number lastKnown f d =
     (let hit = (\<lambda>t. live_ticket tenant number t \<and> optimisticLock (it_updatedAt t) lastKnown);
          g = (\<lambda>t. (f t)\<lparr>it_updatedAt := now\<rparr>)
      in (map_option g (List.find hit (issued_tickets d)),
          d\<lparr>issued_tickets := update_where hit g (issued_tickets d)\<rparr>))"

definition add_ticket_event :: "ticket_event \<Rightarrow> booking_db \<Rightarrow> booking_db" where
  "add_ticket_event e d = d\<lparr>ticket_events := ticket_events d @ [e]\<rparr>"

definition lifecycle_event ::
    "id \<Rightarrow> id option \<Rightarrow> string \<Rightarrow> validation_status \<Rightarrow> id option \<Rightarrow> scan_context \<Rightarrow> ticket_event" where
  "lifecycle_event tenant ticket ty outcome act sc =
     \<lparr>te_tenant = tenant, te_ticket = ticket, te_type = ty, te_outcome = validation_text outcome,
      te_actor = act, te_device = sc_device sc, te_gate = sc_gate sc, te_operator = sc_operator sc,
      te_source = sc_source sc\<rparr>"

text \<open>An insert of one ticket row, with its two unique indexes.\<close>

definition insert_ticket :: "issued_ticket \<Rightarrow> booking_db \<Rightarrow> booking_db res" where
  "insert_ticket t d =
     (if list_ex (\<lambda>x. it_tenant x = it_tenant t \<and> it_number x = it_number t) (issued_tickets d)
      then Inl (unique_violation ''issued_tickets_tenant_ticket_number_unique'')
      else if list_ex (\<lambda>x. it_qr x = it_qr t) (issued_tickets d)
      then Inl (unique_violation ''issued_tickets_qr_code_token_unique'')
      else Inr (d\<lparr>issued_tickets := issued_tickets d @ [t]\<rparr>))"

section \<open>Issuing\<close>

text \<open>
  The upsert of the ticket counter: a new row starts at \<open>missing + 1\<close>, an existing one grows by
  \<open>missing\<close>; the new value comes back.
\<close>

definition is_ticket_counter :: "id \<Rightarrow> id \<Rightarrow> nat \<Rightarrow> string \<Rightarrow> ticket_counter \<Rightarrow> bool" where
  "is_ticket_counter tenant event year prefix c \<longleftrightarrow>
     tc_tenant c = tenant \<and> tc_event c = event \<and> tc_year c = year \<and> tc_prefix c = prefix"

definition take_numbers ::
    "id \<Rightarrow> id \<Rightarrow> id \<Rightarrow> nat \<Rightarrow> string \<Rightarrow> nat \<Rightarrow> booking_db \<Rightarrow> nat \<times> booking_db" where
  "take_numbers tenant event tt year prefix missing d =
     (case List.find (is_ticket_counter tenant event year prefix) (ticket_counters d) of
        None \<Rightarrow> (missing + 1, d\<lparr>ticket_counters := ticket_counters d @
          [\<lparr>tc_tenant = tenant, tc_event = event, tc_ticketType = tt, tc_year = year,
            tc_prefix = prefix, tc_next = missing + 1\<rparr>]\<rparr>)
      | Some c \<Rightarrow> (tc_next c + missing, d\<lparr>ticket_counters :=
          update_where (is_ticket_counter tenant event year prefix)
            (\<lambda>c. c\<lparr>tc_next := tc_next c + missing\<rparr>) (ticket_counters d)\<rparr>))"

definition new_ticket ::
    "booking_env \<Rightarrow> booking_order \<Rightarrow> order_item \<Rightarrow> assignment list \<Rightarrow> string \<Rightarrow> nat \<Rightarrow> nat \<Rightarrow> nat \<Rightarrow> nat \<Rightarrow> issued_ticket" where
  "new_ticket E b i asg prefix year start index ctr =
     \<lparr>it_id = be_uuid E (ctr + index), it_tenant = bo_tenant b, it_event = bo_event b,
      it_eventDate = bo_eventDate b, it_ticketType = oi_ticketType i,
      it_attendee = (if index < length asg then Some (as_attendee (asg ! index)) else None),
      it_order = bo_id b, it_item = oi_id i, it_number = ticket_number prefix year (start + index),
      it_qr = be_random E (ctr + index), it_status = T_issued,
      it_issuedAt = (case bo_confirmedAt b of None \<Rightarrow> be_now E | Some c \<Rightarrow> c),
      it_checkedInAt = None, it_checkedInBy = None, it_transferredAt = None, it_transferredBy = None,
      it_cancelledAt = None, it_invalidatedAt = None, it_refundedAt = None, it_refundedBy = None,
      it_lastValidatedAt = None, it_lastValidatedBy = None, it_validations = 0, it_successes = 0,
      it_failures = 0, it_lastAttemptAt = None, it_lastSuccessAt = None, it_lastFailure = None,
      it_lastSource = None, it_lastDevice = None, it_lastGate = None, it_lastOperator = None,
      it_name = oi_name i, it_slug = oi_slug i, it_unitPrice = oi_unitPrice i, it_currency = oi_currency i,
      it_metadata = ''{}'', it_createdAt = be_now E, it_updatedAt = be_now E, it_deletedAt = None\<rparr>"

definition order_year :: "booking_env \<Rightarrow> booking_order \<Rightarrow> nat" where
  "order_year E b = be_year E (case bo_confirmedAt b of None \<Rightarrow> bo_createdAt b | Some c \<Rightarrow> c)"

definition issue_missing ::
    "booking_env \<Rightarrow> id \<Rightarrow> booking_order \<Rightarrow> order_item \<Rightarrow> assignment list \<Rightarrow> nat \<Rightarrow> booking_db \<Rightarrow> booking_db res" where
  "issue_missing E tenant b i asg missing d =
     (let prefix = resolveTicketPrefix (oi_slug i); year = order_year E b;
          (next', d1) = take_numbers tenant (bo_event b) (oi_ticketType i) year prefix missing d;
          start = next' - missing;
          ts = map (\<lambda>k. (new_ticket E b i asg prefix year start k (fresh d1))\<lparr>it_tenant := tenant\<rparr>) [0..<missing]
      in forR insert_ticket ts (d1\<lparr>fresh := fresh d1 + missing\<rparr>))"

text \<open>The attendee every ticket of the item should carry: the assignments in order, by position.\<close>

definition link_attendee ::
    "booking_env \<Rightarrow> id \<Rightarrow> issued_ticket \<times> id option \<Rightarrow> booking_db \<Rightarrow> booking_db res" where
  "link_attendee E tenant p d =
     (let (t, att) = p in
      if it_attendee t = att then Inr d
      else let (u, d1) = update_ticket (be_now E) tenant (it_number t) (it_updatedAt t)
                 (\<lambda>x. x\<lparr>it_attendee := att, it_status := it_status t, it_metadata := it_metadata t\<rparr>) d
           in bindR (assertOptimisticUpdate u) (\<lambda>_. Inr d1))"

definition desired_links :: "issued_ticket list \<Rightarrow> assignment list \<Rightarrow> (issued_ticket \<times> id option) list" where
  "desired_links ts asg =
     map (\<lambda>k. (ts ! k, if k < length asg then Some (as_attendee (asg ! k)) else None)) [0..<length ts]"

definition ensureIssuedTicketsForOrderItem ::
    "booking_env \<Rightarrow> id \<Rightarrow> booking_order \<Rightarrow> assignment list \<Rightarrow> order_item \<Rightarrow> booking_db \<Rightarrow> booking_db res" where
  "ensureIssuedTicketsForOrderItem E tenant b asgs i d =
     (let current = length (tickets_of_item d tenant (oi_id i));
          asg = filter (\<lambda>a. as_item a = oi_id i) asgs
      in if oi_quantity i < int current then Inl (conflict ''Issued ticket count exceeds booking item quantity'')
         else bindR (if int current < oi_quantity i
                     then issue_missing E tenant b i asg (nat (oi_quantity i) - current) d else Inr d)
           (\<lambda>d1. let ts = tickets_of_item d1 tenant (oi_id i) in
              if length ts < length asg then Inl (conflict ''Issued ticket assignment exceeds available quantity'')
              else forR (link_attendee E tenant) (desired_links ts asg) d1))"

definition find_order :: "booking_db \<Rightarrow> id \<Rightarrow> id \<Rightarrow> booking_order option" where
  "find_order d tenant order =
     List.find (\<lambda>b. bo_tenant b = tenant \<and> bo_id b = order \<and> bo_deletedAt b = None) (orders d)"

definition items_of_order :: "booking_db \<Rightarrow> id \<Rightarrow> id \<Rightarrow> order_item list" where
  "items_of_order d tenant order =
     sort_key oi_id (filter (\<lambda>i. oi_tenant i = tenant \<and> oi_order i = order) (order_items d))"

definition assignments_of_order :: "booking_db \<Rightarrow> id \<Rightarrow> id \<Rightarrow> assignment list" where
  "assignments_of_order d tenant order =
     sort_key as_assignedAt (sort_key as_id
       (filter (\<lambda>a. as_tenant a = tenant \<and> as_order a = order \<and> as_deletedAt a = None) (assignments d)))"

definition reconcileIssuedTicketsForBookingOrder :: "booking_env \<Rightarrow> id \<Rightarrow> id \<Rightarrow> booking_db \<Rightarrow> booking_db res" where
  "reconcileIssuedTicketsForBookingOrder E tenant order d =
     (case find_order d tenant order of
        None \<Rightarrow> Inl (notFound ''Booking order not found'')
      | Some b \<Rightarrow>
          if \<not> List.member [O_confirmed, O_paid, O_completed] (bo_status b) then Inr d
          else forR (ensureIssuedTicketsForOrderItem E tenant b (assignments_of_order d tenant order))
                 (items_of_order d tenant order) d)"

definition issueIssuedTicketsForBookingOrder ::
    "booking_env \<Rightarrow> id \<Rightarrow> id \<Rightarrow> tenant_role option \<Rightarrow> booking_db \<Rightarrow> booking_db res" where
  "issueIssuedTicketsForBookingOrder E tenant order role d =
     bindR (assertIssueAccess role) (\<lambda>_. reconcileIssuedTicketsForBookingOrder E tenant order d)"

section \<open>An order's status carried over\<close>

definition or_now :: "time_ms \<Rightarrow> time_ms option \<Rightarrow> time_ms option" where
  "or_now now t = (case t of None \<Rightarrow> Some now | Some x \<Rightarrow> Some x)"

fun status_event :: "ticket_status \<Rightarrow> string" where
  "status_event T_checked_in = ''ticket_checked_in''"
| "status_event T_cancelled = ''ticket_cancelled''"
| "status_event T_refunded = ''ticket_refunded''"
| "status_event T_invalidated = ''ticket_invalidated''"
| "status_event T_issued = ''ticket_validated''"
| "status_event T_transferred = ''ticket_validated''"

definition carry_status :: "booking_env \<Rightarrow> id \<Rightarrow> ticket_status \<Rightarrow> issued_ticket \<Rightarrow> booking_db \<Rightarrow> booking_db res" where
  "carry_status E tenant nxt t d =
     (if it_status t = nxt then Inr d
      else bindR (validateIssuedTicketTransition (it_status t) nxt) (\<lambda>_.
        let now = be_now E;
            f = (\<lambda>x. x\<lparr>it_status := nxt, it_attendee := it_attendee t, it_metadata := it_metadata t,
                  it_checkedInAt := (if nxt = T_checked_in then or_now now (it_checkedInAt t) else it_checkedInAt t),
                  it_transferredAt := it_transferredAt t,
                  it_cancelledAt := (if nxt = T_cancelled then or_now now (it_cancelledAt t) else it_cancelledAt t),
                  it_invalidatedAt := (if nxt = T_refunded \<or> nxt = T_invalidated
                                       then or_now now (it_invalidatedAt t) else it_invalidatedAt t)\<rparr>);
            (u, d1) = update_ticket now tenant (it_number t) (it_updatedAt t) f d
        in bindR (assertOptimisticUpdate u) (\<lambda>r.
             Inr (add_ticket_event (lifecycle_event tenant (Some (it_id r)) (status_event nxt) V_valid None no_scan) d1))))"

definition applyIssuedTicketStatusForBookingOrder ::
    "booking_env \<Rightarrow> id \<Rightarrow> id \<Rightarrow> order_status \<Rightarrow> booking_db \<Rightarrow> booking_db res" where
  "applyIssuedTicketStatusForBookingOrder E tenant order st d =
     (case resolveTicketStatusFromBookingStatus st of
        None \<Rightarrow> Inr d
      | Some nxt \<Rightarrow> forR (carry_status E tenant nxt) (tickets_of_order d tenant order) d)"

section \<open>At the gate\<close>

definition purchaser_of :: "booking_db \<Rightarrow> issued_ticket \<Rightarrow> id option" where
  "purchaser_of d t =
     map_option bo_purchaser (List.find (\<lambda>b. bo_id b = it_order t \<and> bo_deletedAt b = None) (orders d))"

definition getIssuedTicketByTicketNumber ::
    "id \<Rightarrow> tenant_role option \<Rightarrow> id \<Rightarrow> string \<Rightarrow> booking_db \<Rightarrow> issued_ticket res" where
  "getIssuedTicketByTicketNumber tenant role actorId number d =
     bindR (optR (find_ticket d tenant (normalizeTicketNumber number)) (notFound ''Issued ticket not found''))
       (\<lambda>t. bindR (guardR (purchaser_of d t = Some actorId \<or> canReadIssuedTickets role) no_ticket_permission)
         (\<lambda>_. Inr t))"

record validate_input =
  va_ticketNumber :: "string option"
  va_qrCodeToken :: "string option"
  va_scan :: scan_context
  va_lastKnown :: "time_ms option"

record validation_result =
  vr_valid :: bool
  vr_status :: validation_status
  vr_ticket :: "issued_ticket option"
  vr_source :: string
  vr_failure :: "string option"

definition locate_ticket :: "booking_db \<Rightarrow> id \<Rightarrow> validate_input \<Rightarrow> issued_ticket option" where
  "locate_ticket d tenant input =
     (if truthy (va_ticketNumber input) then
        let number = normalizeTicketNumber (the (va_ticketNumber input)) in
        (case find_ticket d tenant number of
           Some t \<Rightarrow> Some t
         | None \<Rightarrow>
             let all' = filter (\<lambda>t. it_number t = number) (issued_tickets d) in
             (case filter (\<lambda>t. it_tenant t = tenant) all' of
                t # _ \<Rightarrow> Some t
              | [] \<Rightarrow> (case all' of t # _ \<Rightarrow> Some t | [] \<Rightarrow> None)))
      else
        let qr = (case va_qrCodeToken input of None \<Rightarrow> [] | Some q \<Rightarrow> q) in
        (case find_ticket_by_qr d tenant qr of
           Some t \<Rightarrow> Some t
         | None \<Rightarrow> List.find (\<lambda>t. it_qr t = qr) (issued_tickets d)))"

definition record_attempt ::
    "time_ms \<Rightarrow> id \<Rightarrow> string \<Rightarrow> validation_status \<Rightarrow> id \<Rightarrow> scan_context \<Rightarrow> string option \<Rightarrow> booking_db
       \<Rightarrow> issued_ticket option \<times> booking_db" where
  "record_attempt now tenant number outcome actorId sc reason d =
     (let ok = (outcome = V_valid);
          f = (\<lambda>t. t\<lparr>it_validations := it_validations t + 1,
                it_successes := it_successes t + (if ok then 1 else 0),
                it_failures := it_failures t + (if ok then 0 else 1),
                it_lastAttemptAt := Some now,
                it_lastSuccessAt := (if ok then Some now else it_lastSuccessAt t),
                it_lastValidatedAt := (if ok then Some now else it_lastValidatedAt t),
                it_lastValidatedBy := (if ok then Some actorId else it_lastValidatedBy t),
                it_lastFailure := (if ok then None
                                   else Some (case reason of None \<Rightarrow> validation_text outcome | Some r \<Rightarrow> r)),
                it_lastSource := sc_source sc, it_lastDevice := sc_device sc, it_lastGate := sc_gate sc,
                it_lastOperator := sc_operator sc, it_updatedAt := now\<rparr>)
      in (map_option f (List.find (live_ticket tenant number) (issued_tickets d)),
          d\<lparr>issued_tickets := update_where (live_ticket tenant number) f (issued_tickets d)\<rparr>))"

definition validateIssuedTicket ::
    "booking_env \<Rightarrow> id \<Rightarrow> tenant_role option \<Rightarrow> id \<Rightarrow> validate_input \<Rightarrow> booking_db
       \<Rightarrow> (validation_result \<times> booking_db) res" where
  "validateIssuedTicket E tenant role actorId input d =
     bindR (assertReadAccess role) (\<lambda>_.
       let sc = normalizeScanContext (va_scan input);
           ticket = locate_ticket d tenant input;
           stale = (va_lastKnown input \<noteq> None \<and> ticket \<noteq> None
                    \<and> \<not> isSameTimestamp (va_lastKnown input) (map_option it_updatedAt ticket));
           outcome = resolveValidationOutcome
             \<lparr>vi_ticketExists = (ticket \<noteq> None),
              vi_deleted = (case ticket of None \<Rightarrow> False | Some t \<Rightarrow> it_deletedAt t \<noteq> None),
              vi_tenantMatch = (case ticket of None \<Rightarrow> False | Some t \<Rightarrow> it_tenant t = tenant),
              vi_status = map_option it_status ticket, vi_staleTicket = stale, vi_scannerAuthorized = True\<rparr>;
           source = (if truthy (va_ticketNumber input) then ''ticketNumber'' else ''qrCodeToken'');
           reason = (if outcome = V_valid then None else Some (validation_text outcome))
       in if ticket \<noteq> None \<and> outcome \<noteq> V_deleted \<and> outcome \<noteq> V_tenant_mismatch \<and> outcome \<noteq> V_invalid_qr then
            let t = the ticket;
                (u, d1) = record_attempt (be_now E) tenant (it_number t) outcome actorId sc reason d;
                shown = (case u of None \<Rightarrow> t | Some r \<Rightarrow> r)
            in Inr (\<lparr>vr_valid = (outcome = V_valid), vr_status = outcome, vr_ticket = Some shown,
                      vr_source = source, vr_failure = reason\<rparr>,
                    add_ticket_event (lifecycle_event tenant (Some (it_id shown))
                      (resolveValidationEventType outcome) outcome (Some actorId) sc) d1)
          else
            Inr (\<lparr>vr_valid = False, vr_status = outcome, vr_ticket = None, vr_source = source, vr_failure = reason\<rparr>,
                 add_ticket_event (lifecycle_event tenant (map_option it_id ticket)
                   ''ticket_validation_rejected'' outcome (Some actorId) sc) d))"

record checkin_input =
  ci_scan :: scan_context
  ci_lastKnown :: time_ms

definition checked_in_ticket :: "time_ms \<Rightarrow> id \<Rightarrow> scan_context \<Rightarrow> issued_ticket \<Rightarrow> issued_ticket \<Rightarrow> issued_ticket" where
  "checked_in_ticket now actorId sc t x =
     x\<lparr>it_status := T_checked_in, it_attendee := it_attendee t, it_metadata := it_metadata t,
       it_checkedInAt := or_now now (it_checkedInAt t), it_checkedInBy := Some actorId,
       it_lastValidatedAt := or_now now (it_lastValidatedAt t), it_lastValidatedBy := Some actorId,
       it_validations := it_validations x + 1, it_successes := it_successes x + 1,
       it_lastAttemptAt := Some now, it_lastSuccessAt := or_now now (it_lastSuccessAt t),
       it_lastFailure := None, it_lastSource := sc_source sc, it_lastDevice := sc_device sc,
       it_lastGate := sc_gate sc, it_lastOperator := sc_operator sc,
       it_transferredAt := it_transferredAt t, it_transferredBy := it_transferredBy t,
       it_cancelledAt := it_cancelledAt t, it_invalidatedAt := it_invalidatedAt t,
       it_refundedAt := it_refundedAt t, it_refundedBy := it_refundedBy t\<rparr>"

definition checkInIssuedTicketByTicketNumber ::
    "booking_env \<Rightarrow> id \<Rightarrow> tenant_role option \<Rightarrow> id \<Rightarrow> string \<Rightarrow> checkin_input \<Rightarrow> booking_db
       \<Rightarrow> (issued_ticket \<times> booking_db) res" where
  "checkInIssuedTicketByTicketNumber E tenant role actorId ticketNumber input d =
     bindR (assertCheckInAccess role) (\<lambda>_.
     let sc = normalizeScanContext (ci_scan input); number = normalizeTicketNumber ticketNumber in
     bindR (optR (find_ticket d tenant number) (notFound ''Issued ticket not found'')) (\<lambda>t.
     bindR (guardR (it_status t \<noteq> T_checked_in) (conflict ''Ticket already checked in'')) (\<lambda>_.
     bindR (guardR (\<not> (it_status t = T_cancelled \<or> it_status t = T_refunded \<or> it_status t = T_invalidated))
              (ticketInvalidated (Some [(''ticketNumber'', number), (''status'', ticket_text (it_status t))]))) (\<lambda>_.
     bindR (guardR (canCheckInIssuedTicket (it_status t))
              (invalidTicketStatus (''Ticket status '' @ ticket_text (it_status t) @ '' cannot be checked in''))) (\<lambda>_.
     bindR (guardR (isSameTimestamp (Some (ci_lastKnown input)) (Some (it_updatedAt t)))
              (staleRequest ''Ticket is stale'' (Some [(''code'', ''STALE_TICKET'')]))) (\<lambda>_.
     let (u, d1) = update_ticket (be_now E) tenant number (ci_lastKnown input)
                     (checked_in_ticket (be_now E) actorId sc t) d
     in bindR (assertOptimisticUpdate u) (\<lambda>r.
          Inr (r, add_ticket_event (lifecycle_event tenant (Some (it_id r)) ''ticket_checked_in'' V_valid
                    (Some actorId) sc) d1))))))))"

section \<open>Changing and deleting a ticket\<close>

record ticket_update =
  tu_status :: "ticket_status option"
  tu_attendee :: "id option option"
  tu_metadata :: "string option"
  tu_lastKnown :: time_ms

definition updated_ticket ::
    "time_ms \<Rightarrow> id \<Rightarrow> ticket_status \<Rightarrow> ticket_update \<Rightarrow> issued_ticket \<Rightarrow> issued_ticket \<Rightarrow> issued_ticket" where
  "updated_ticket now actorId nxt input t x =
     (let ci = (nxt = T_checked_in) in
      x\<lparr>it_status := nxt,
        it_attendee := (case tu_attendee input of None \<Rightarrow> it_attendee t | Some a \<Rightarrow> a),
        it_checkedInAt := (if ci then or_now now (it_checkedInAt t) else it_checkedInAt t),
        it_checkedInBy := (if ci then Some actorId else it_checkedInBy t),
        it_transferredAt := (if nxt = T_transferred then or_now now (it_transferredAt t) else it_transferredAt t),
        it_transferredBy := (if nxt = T_transferred then Some actorId else it_transferredBy t),
        it_cancelledAt := (if nxt = T_cancelled then or_now now (it_cancelledAt t) else it_cancelledAt t),
        it_invalidatedAt := (if nxt = T_invalidated \<or> nxt = T_refunded then or_now now (it_invalidatedAt t)
                             else it_invalidatedAt t),
        it_refundedAt := (if nxt = T_refunded then or_now now (it_refundedAt t) else it_refundedAt t),
        it_refundedBy := (if nxt = T_refunded then Some actorId else it_refundedBy t),
        it_lastValidatedAt := (if ci then or_now now (it_lastValidatedAt t) else it_lastValidatedAt t),
        it_lastValidatedBy := (if ci then Some actorId else it_lastValidatedBy t),
        it_validations := it_validations x + (if ci then 1 else 0),
        it_successes := it_successes x + (if ci then 1 else 0),
        it_lastAttemptAt := (if ci then Some now else it_lastAttemptAt t),
        it_lastSuccessAt := (if ci then or_now now (it_lastSuccessAt t) else it_lastSuccessAt t),
        it_lastFailure := (if ci then None else it_lastFailure t),
        it_metadata := (case tu_metadata input of None \<Rightarrow> it_metadata t | Some m \<Rightarrow> m)\<rparr>)"

fun update_event :: "ticket_status \<Rightarrow> string" where
  "update_event T_transferred = ''ticket_transferred''"
| "update_event T_cancelled = ''ticket_cancelled''"
| "update_event T_refunded = ''ticket_refunded''"
| "update_event T_invalidated = ''ticket_invalidated''"
| "update_event T_issued = ''ticket_validated''"
| "update_event T_checked_in = ''ticket_validated''"

definition updateIssuedTicketByTicketNumber ::
    "booking_env \<Rightarrow> id \<Rightarrow> tenant_role option \<Rightarrow> id \<Rightarrow> string \<Rightarrow> ticket_update \<Rightarrow> booking_db
       \<Rightarrow> (issued_ticket \<times> booking_db) res" where
  "updateIssuedTicketByTicketNumber E tenant role actorId ticketNumber input d =
     bindR (assertMutationAccess role (tu_status input)) (\<lambda>_.
     let number = normalizeTicketNumber ticketNumber in
     bindR (optR (find_ticket d tenant number) (notFound ''Issued ticket not found'')) (\<lambda>t.
     bindR (guardR (\<not> (tu_attendee input \<noteq> None \<and> tu_attendee input \<noteq> Some (it_attendee t)
                       \<and> \<not> canTransferIssuedTickets role)) no_ticket_permission) (\<lambda>_.
     let nxt = (case tu_status input of None \<Rightarrow> it_status t | Some s \<Rightarrow> s) in
     bindR (validateIssuedTicketTransition (it_status t) nxt) (\<lambda>_.
     bindR (guardR (\<not> (isTerminalIssuedTicketStatus (it_status t) \<and> \<not> isTerminalIssuedTicketStatus nxt))
              (invalidTicketStatus ''Terminal issued tickets cannot be reopened'')) (\<lambda>_.
     bindR (guardR (\<not> (nxt = T_transferred \<and> \<not> canTransferIssuedTicket (it_status t)))
              (invalidTicketStatus ''Ticket status cannot be transferred'')) (\<lambda>_.
     bindR (guardR (\<not> (nxt = T_cancelled \<and> \<not> canCancelIssuedTicket (it_status t)))
              (invalidTicketStatus ''Ticket status cannot be cancelled'')) (\<lambda>_.
     bindR (guardR (\<not> (nxt = T_refunded \<and> \<not> canRefundIssuedTicket (it_status t)))
              (invalidTicketStatus ''Ticket status cannot be refunded'')) (\<lambda>_.
     bindR (guardR (\<not> (nxt = T_invalidated \<and> \<not> canInvalidateIssuedTicket (it_status t)))
              (invalidTicketStatus ''Ticket status cannot be invalidated'')) (\<lambda>_.
     let (u, d1) = update_ticket (be_now E) tenant number (tu_lastKnown input)
                     (updated_ticket (be_now E) actorId nxt input t) d
     in bindR (assertOptimisticUpdate u) (\<lambda>r.
          Inr (r, add_ticket_event (lifecycle_event tenant (Some (it_id r)) (update_event nxt) V_valid
                    (Some actorId) (no_scan\<lparr>sc_source := Some ''api''\<rparr>)) d1)))))))))))"

definition deleteIssuedTicketByTicketNumber ::
    "booking_env \<Rightarrow> id \<Rightarrow> tenant_role option \<Rightarrow> string \<Rightarrow> time_ms \<Rightarrow> booking_db \<Rightarrow> (issued_ticket \<times> booking_db) res" where
  "deleteIssuedTicketByTicketNumber E tenant role ticketNumber lastKnown d =
     bindR (guardR (canInvalidateTickets role) no_ticket_permission) (\<lambda>_.
     let number = normalizeTicketNumber ticketNumber in
     bindR (optR (find_ticket d tenant number) (notFound ''Issued ticket not found'')) (\<lambda>t.
     bindR (guardR (it_status t \<noteq> T_checked_in) (invalidTicketStatus ''Checked-in tickets cannot be deleted'')) (\<lambda>_.
     bindR (guardR (canInvalidateIssuedTicket (it_status t)) (invalidTicketStatus ''Ticket cannot be invalidated'')) (\<lambda>_.
     let (u, d1) = update_ticket (be_now E) tenant number lastKnown
           (\<lambda>x. x\<lparr>it_status := T_invalidated, it_invalidatedAt := or_now (be_now E) (it_invalidatedAt t),
                   it_deletedAt := Some (be_now E)\<rparr>) d
     in bindR (assertOptimisticUpdate u) (\<lambda>r.
          Inr (r, add_ticket_event (lifecycle_event tenant (Some (it_id r)) ''ticket_invalidated'' V_invalidated
                    None no_scan) d1))))))"

end
