(* ===== verification/Listing.thy ===== *)
theory Listing
  imports LibCore
begin

text \<open>
  What the list queries of the repositories are made of: optional conditions, the
  case-insensitive pattern match \<open>ilike\<close>, the order of rows with its tie breakers and its
  nulls, and one page of the result.
\<close>

section \<open>Patterns\<close>

text \<open>\<open>%\<close> stands for any text, an underscore for one character, a backslash escapes.\<close>

fun like_match :: "string \<Rightarrow> string \<Rightarrow> bool" where
  "like_match [] s = (s = [])"
| "like_match (p # ps) [] =
     (if p = CHR ''%'' then like_match ps [] else False)"
| "like_match (p # ps) (c # cs) =
     (if p = CHR ''%'' then like_match ps (c # cs) \<or> like_match (p # ps) cs
      else if p = CHR ''_'' then like_match ps cs
      else if p = CHR 0x5C then
        (case ps of [] \<Rightarrow> False | q # qs \<Rightarrow> q = c \<and> like_match qs cs)
      else p = c \<and> like_match ps cs)"

definition ilike :: "string \<Rightarrow> string \<Rightarrow> bool" where
  "ilike text pattern = like_match (toLowerCase pattern) (toLowerCase text)"

definition ilike_opt :: "string option \<Rightarrow> string \<Rightarrow> bool" where
  "ilike_opt text pattern = (case text of None \<Rightarrow> False | Some t \<Rightarrow> ilike t pattern)"

definition search_pattern :: "string \<Rightarrow> string" where
  "search_pattern s = ''%'' @ trim s @ ''%''"

text \<open>A condition that is only pushed when its input is given; the empty text counts as missing.\<close>

definition if_given :: "'a option \<Rightarrow> ('a \<Rightarrow> bool) \<Rightarrow> bool" where
  "if_given x p = (case x of None \<Rightarrow> True | Some v \<Rightarrow> p v)"

definition if_text :: "string option \<Rightarrow> (string \<Rightarrow> bool) \<Rightarrow> bool" where
  "if_text x p = (if truthy x then p (the x) else True)"

section \<open>Order\<close>

datatype sort_order = Asc | Desc

text \<open>Stable in both directions, so that tie breakers sorted first survive.\<close>

definition order_rows :: "sort_order \<Rightarrow> ('r \<Rightarrow> 'k :: linorder) \<Rightarrow> 'r list \<Rightarrow> 'r list" where
  "order_rows dir k rows =
     (case dir of Asc \<Rightarrow> sort_key k rows | Desc \<Rightarrow> rev (sort_key k (rev rows)))"

text \<open>Nulls come last in ascending order and first in descending order.\<close>

definition order_nullable :: "sort_order \<Rightarrow> ('r \<Rightarrow> 'k :: linorder option) \<Rightarrow> 'r list \<Rightarrow> 'r list" where
  "order_nullable dir k rows =
     (let given = order_rows dir (\<lambda>r. the (k r)) (filter (\<lambda>r. k r \<noteq> None) rows);
          nulls = filter (\<lambda>r. k r = None) rows
      in case dir of Asc \<Rightarrow> given @ nulls | Desc \<Rightarrow> nulls @ given)"

lemma set_order_rows [simp]: "set (order_rows dir k rows) = set rows"
  by (cases dir) (simp_all add: order_rows_def)

lemma length_order_rows [simp]: "length (order_rows dir k rows) = length rows"
  by (cases dir) (simp_all add: order_rows_def)

lemma set_order_nullable [simp]: "set (order_nullable dir k rows) = set rows"
  by (cases dir) (auto simp: order_nullable_def)

lemma length_order_nullable [simp]: "length (order_nullable dir k rows) = length rows"
  by (cases dir) (use sum_length_filter_compl [of "\<lambda>r. k r = None" rows] in
    \<open>simp_all add: order_nullable_def Let_def add.commute\<close>)

lemma order_rows_sorted:
  "sorted (map k (order_rows Asc k rows)) \<and> sorted (rev (map k (order_rows Desc k rows)))"
  by (simp add: order_rows_def flip: rev_map)

lemma set_page_rows: "set (page_rows p rows) \<subseteq> set rows"
  by (auto simp: page_rows_def dest: in_set_takeD in_set_dropD)

end
