(* ===== verification/Attendees.thy ===== *)
theory Attendees
  imports BookingStore Listing
begin

text \<open>
  \<open>src/modules/attendees\<close>: registering, changing, deleting, checking in and listing the
  attendees of a tenant, service and repository. The joins of the queries add the event's title and the
  ticket type's name to a row and change nothing else.
\<close>

section \<open>Access and references\<close>

definition assertAttendeeManagementAccess :: "tenant_role option \<Rightarrow> unit res" where
  "assertAttendeeManagementAccess role =
     guardR (canManageAttendees role) (forbidden ''Insufficient attendee permissions'')"

definition assertAttendeeCheckInAccess :: "tenant_role option \<Rightarrow> unit res" where
  "assertAttendeeCheckInAccess role =
     guardR (canManageAttendees role \<or> hasPermission role ticket_checkin)
       (forbidden ''Insufficient attendee check-in permissions'')"

definition assertAttendeeReadAccess :: "tenant_role option \<Rightarrow> unit res" where
  "assertAttendeeReadAccess role =
     guardR (canViewAttendees role) (forbidden ''Insufficient attendee permissions'')"

definition normalizeEmail :: "string \<Rightarrow> string" where
  "normalizeEmail email = toLowerCase (trim email)"

definition normalizePhone :: "string \<Rightarrow> string" where
  "normalizePhone phone = trim phone"

definition findActiveEvent :: "booking_db \<Rightarrow> id \<Rightarrow> id \<Rightarrow> event_row option" where
  "findActiveEvent d tenant event =
     List.find (\<lambda>e. ev_id e = event \<and> ev_tenant e = tenant \<and> ev_deletedAt e = None) (events d)"

definition findActiveTicketType :: "booking_db \<Rightarrow> id \<Rightarrow> id \<Rightarrow> ticket_type option" where
  "findActiveTicketType d tenant tt =
     List.find (\<lambda>t. tt_id t = tt \<and> tt_tenant t = tenant \<and> tt_deletedAt t = None) (ticket_types d)"

definition assertAttendeeReferencesBelongToTenant :: "booking_db \<Rightarrow> id \<Rightarrow> id \<Rightarrow> id \<Rightarrow> unit res" where
  "assertAttendeeReferencesBelongToTenant d tenant event tt =
     bindR (optR (findActiveEvent d tenant event) (badRequest ''Invalid eventId for tenant'')) (\<lambda>e.
     bindR (optR (findActiveTicketType d tenant tt) (badRequest ''Invalid ticketTypeId for tenant'')) (\<lambda>t.
     guardR (tt_event t = ev_id e) (badRequest ''ticketTypeId must belong to the same event as eventId'')))"

section \<open>Rows\<close>

definition live_attendee :: "id \<Rightarrow> id \<Rightarrow> attendee \<Rightarrow> bool" where
  "live_attendee tenant attId a \<longleftrightarrow> at_tenant a = tenant \<and> at_id a = attId \<and> at_deletedAt a = None"

definition findAttendee :: "booking_db \<Rightarrow> id \<Rightarrow> id \<Rightarrow> attendee option" where
  "findAttendee d tenant attId = List.find (live_attendee tenant attId) (attendees d)"

record attendee_input =
  ca_event :: id
  ca_ticketType :: id
  ca_order :: "id option"
  ca_fullName :: string
  ca_email :: string
  ca_phone :: string
  ca_profile :: attendee_profile
  ca_checkedInAt :: "time_ms option"
  ca_checkedInBy :: "id option"
  ca_status :: attendee_status

definition createAttendeeRecord ::
    "booking_env \<Rightarrow> id \<Rightarrow> id \<Rightarrow> string \<Rightarrow> string \<Rightarrow> attendee_input \<Rightarrow> booking_db \<Rightarrow> attendee \<times> booking_db" where
  "createAttendeeRecord E tenant act email phone input d =
     (let a = \<lparr>at_id = be_uuid E (fresh d), at_tenant = tenant, at_event = ca_event input,
               at_ticketType = ca_ticketType input, at_order = ca_order input, at_fullName = ca_fullName input,
               at_email = email, at_phone = phone, at_profile = ca_profile input,
               at_checkedInAt = ca_checkedInAt input, at_checkedInBy = ca_checkedInBy input,
               at_status = ca_status input, at_createdBy = act, at_updatedBy = act,
               at_createdAt = be_now E, at_updatedAt = be_now E, at_deletedAt = None\<rparr>
      in (a, d\<lparr>attendees := attendees d @ [a], fresh := fresh d + 1\<rparr>))"

text \<open>An update matches one live row of the tenant, under the optimistic lock.\<close>

definition update_attendee ::
    "time_ms \<Rightarrow> id \<Rightarrow> id \<Rightarrow> time_ms \<Rightarrow> (attendee \<Rightarrow> attendee) \<Rightarrow> booking_db \<Rightarrow> attendee option \<times> booking_db" where
  "update_attendee now tenant attId lastKnown f d =
     (let hit = (\<lambda>a. live_attendee tenant attId a \<and> optimisticLock (at_updatedAt a) lastKnown);
          g = (\<lambda>a. (f a)\<lparr>at_updatedAt := now\<rparr>)
      in (map_option g (List.find hit (attendees d)), d\<lparr>attendees := update_where hit g (attendees d)\<rparr>))"

text \<open>
  The fields of an update: none is \<open>undefined\<close>, which leaves the column. \<open>ua_email\<close> and
  \<open>ua_phone\<close> are what a client sends; the repository reads the two normalized fields.
\<close>

record attendee_update =
  ua_event :: "id option"
  ua_ticketType :: "id option"
  ua_order :: "id option option"
  ua_fullName :: "string option"
  ua_email :: "string option"
  ua_phone :: "string option"
  ua_normalizedEmail :: "string option"
  ua_normalizedPhone :: "string option"
  ua_gender :: "string option option"
  ua_dateOfBirth :: "time_ms option option"
  ua_city :: "string option option"
  ua_state :: "string option option"
  ua_country :: "string option option"
  ua_emergencyName :: "string option option"
  ua_emergencyPhone :: "string option option"
  ua_notes :: "string option option"
  ua_checkedInAt :: "time_ms option option"
  ua_checkedInBy :: "id option option"
  ua_status :: "attendee_status option"
  ua_lastKnown :: time_ms

definition no_attendee_update :: "time_ms \<Rightarrow> attendee_update" where
  "no_attendee_update lastKnown = \<lparr>ua_event = None, ua_ticketType = None, ua_order = None, ua_fullName = None,
     ua_email = None, ua_phone = None, ua_normalizedEmail = None, ua_normalizedPhone = None, ua_gender = None,
     ua_dateOfBirth = None, ua_city = None, ua_state = None, ua_country = None, ua_emergencyName = None,
     ua_emergencyPhone = None, ua_notes = None, ua_checkedInAt = None, ua_checkedInBy = None,
     ua_status = None, ua_lastKnown = lastKnown\<rparr>"

definition put :: "'a option \<Rightarrow> 'a \<Rightarrow> 'a" where
  "put new old = (case new of None \<Rightarrow> old | Some v \<Rightarrow> v)"

definition put_profile :: "attendee_update \<Rightarrow> attendee_profile \<Rightarrow> attendee_profile" where
  "put_profile u p =
     p\<lparr>ap_gender := put (ua_gender u) (ap_gender p), ap_dateOfBirth := put (ua_dateOfBirth u) (ap_dateOfBirth p),
       ap_city := put (ua_city u) (ap_city p), ap_state := put (ua_state u) (ap_state p),
       ap_country := put (ua_country u) (ap_country p),
       ap_emergencyName := put (ua_emergencyName u) (ap_emergencyName p),
       ap_emergencyPhone := put (ua_emergencyPhone u) (ap_emergencyPhone p), ap_notes := put (ua_notes u) (ap_notes p)\<rparr>"

definition set_attendee :: "id \<Rightarrow> attendee_update \<Rightarrow> attendee \<Rightarrow> attendee" where
  "set_attendee act u a =
     a\<lparr>at_event := put (ua_event u) (at_event a), at_ticketType := put (ua_ticketType u) (at_ticketType a),
       at_order := put (ua_order u) (at_order a), at_fullName := put (ua_fullName u) (at_fullName a),
       at_email := put (ua_normalizedEmail u) (at_email a), at_phone := put (ua_normalizedPhone u) (at_phone a),
       at_profile := put_profile u (at_profile a), at_checkedInAt := put (ua_checkedInAt u) (at_checkedInAt a),
       at_checkedInBy := put (ua_checkedInBy u) (at_checkedInBy a), at_status := put (ua_status u) (at_status a),
       at_updatedBy := act\<rparr>"

definition updateAttendeeRecord ::
    "time_ms \<Rightarrow> id \<Rightarrow> id \<Rightarrow> id \<Rightarrow> attendee_update \<Rightarrow> booking_db \<Rightarrow> attendee option \<times> booking_db" where
  "updateAttendeeRecord now tenant attId act u d =
     update_attendee now tenant attId (ua_lastKnown u) (set_attendee act u) d"

section \<open>Operations\<close>

definition attendee_not_found :: js_error where
  "attendee_not_found = notFound ''Attendee not found''"

definition check_in_details_missing :: "attendee_status option \<Rightarrow> time_ms option \<Rightarrow> id option \<Rightarrow> bool" where
  "check_in_details_missing st time by' \<longleftrightarrow> st = Some A_checked_in \<and> (time = None \<or> by' = None)"

definition details_error :: js_error where
  "details_error = badRequest ''checked_in attendees require checkedInAt and checkedInByUserId''"

definition createAttendee ::
    "booking_env \<Rightarrow> id \<Rightarrow> tenant_role option \<Rightarrow> id \<Rightarrow> attendee_input \<Rightarrow> booking_db \<Rightarrow> (attendee \<times> booking_db) res" where
  "createAttendee E tenant role act input d =
     bindR (assertAttendeeManagementAccess role) (\<lambda>_.
     bindR (assertAttendeeReferencesBelongToTenant d tenant (ca_event input) (ca_ticketType input)) (\<lambda>_.
     bindR (guardR (\<not> check_in_details_missing (Some (ca_status input)) (ca_checkedInAt input) (ca_checkedInBy input))
              details_error) (\<lambda>_.
     let (a, d1) = createAttendeeRecord E tenant act (normalizeEmail (ca_email input)) (normalizePhone (ca_phone input)) input d
     in bindR (optR (findAttendee d1 tenant (at_id a)) attendee_not_found) (\<lambda>r. Inr (r, d1)))))"

definition getAttendeeById :: "id \<Rightarrow> tenant_role option \<Rightarrow> id \<Rightarrow> booking_db \<Rightarrow> attendee res" where
  "getAttendeeById tenant role attId d =
     bindR (assertAttendeeReadAccess role) (\<lambda>_. optR (findAttendee d tenant attId) attendee_not_found)"

text \<open>What the service hands to the repository: email and phone are normalized in place.\<close>

definition service_update :: "attendee_update \<Rightarrow> attendee_update" where
  "service_update u =
     u\<lparr>ua_email := (if truthy (ua_email u) then Some (normalizeEmail (the (ua_email u))) else None),
       ua_phone := (if truthy (ua_phone u) then Some (normalizePhone (the (ua_phone u))) else None)\<rparr>"

definition updateAttendeeById ::
    "booking_env \<Rightarrow> id \<Rightarrow> tenant_role option \<Rightarrow> id \<Rightarrow> id \<Rightarrow> attendee_update \<Rightarrow> booking_db \<Rightarrow> (attendee \<times> booking_db) res" where
  "updateAttendeeById E tenant role act attId u d =
     bindR (assertAttendeeManagementAccess role) (\<lambda>_.
     bindR (optR (findAttendee d tenant attId) attendee_not_found) (\<lambda>x.
     bindR (assertAttendeeReferencesBelongToTenant d tenant (put (ua_event u) (at_event x))
              (put (ua_ticketType u) (at_ticketType x))) (\<lambda>_.
     bindR (guardR (\<not> check_in_details_missing (ua_status u) (put (ua_checkedInAt u) None) (put (ua_checkedInBy u) None))
              details_error) (\<lambda>_.
     let (r, d1) = updateAttendeeRecord (be_now E) tenant attId act (service_update u) d
     in bindR (assertOptimisticUpdate r) (\<lambda>r.
        bindR (optR (findAttendee d1 tenant (at_id r)) attendee_not_found) (\<lambda>a. Inr (a, d1)))))))"

definition deleteAttendeeById ::
    "booking_env \<Rightarrow> id \<Rightarrow> tenant_role option \<Rightarrow> id \<Rightarrow> id \<Rightarrow> time_ms \<Rightarrow> booking_db \<Rightarrow> (attendee \<times> booking_db) res" where
  "deleteAttendeeById E tenant role act attId lastKnown d =
     bindR (assertAttendeeManagementAccess role) (\<lambda>_.
     let (r, d1) = update_attendee (be_now E) tenant attId lastKnown
                     (\<lambda>a. a\<lparr>at_updatedBy := act, at_deletedAt := Some (be_now E)\<rparr>) d
     in bindR (assertOptimisticUpdate r) (\<lambda>r. Inr (r, d1)))"

definition mark_checked_in :: "time_ms \<Rightarrow> id \<Rightarrow> attendee \<Rightarrow> attendee" where
  "mark_checked_in now act a =
     a\<lparr>at_checkedInAt := Some now, at_checkedInBy := Some act, at_status := A_checked_in, at_updatedBy := act\<rparr>"

definition clear_check_in :: "id \<Rightarrow> attendee \<Rightarrow> attendee" where
  "clear_check_in act a =
     a\<lparr>at_checkedInAt := None, at_checkedInBy := None, at_status := A_confirmed, at_updatedBy := act\<rparr>"

definition checkInAttendeeById ::
    "booking_env \<Rightarrow> id \<Rightarrow> tenant_role option \<Rightarrow> id \<Rightarrow> id \<Rightarrow> time_ms \<Rightarrow> booking_db \<Rightarrow> (attendee \<times> booking_db) res" where
  "checkInAttendeeById E tenant role act attId lastKnown d =
     bindR (assertAttendeeCheckInAccess role) (\<lambda>_.
     bindR (optR (findAttendee d tenant attId) attendee_not_found) (\<lambda>x.
     bindR (guardR (at_status x \<noteq> A_cancelled) (badRequest ''Cancelled attendees cannot be checked in'')) (\<lambda>_.
     bindR (guardR (at_checkedInAt x = None) (conflict ''Attendee is already checked in'')) (\<lambda>_.
     let (r, d1) = update_attendee (be_now E) tenant attId lastKnown (mark_checked_in (be_now E) act) d
     in bindR (assertOptimisticUpdate r) (\<lambda>r.
        bindR (optR (findAttendee d1 tenant (at_id r)) attendee_not_found) (\<lambda>a. Inr (a, d1)))))))"

definition revertAttendeeCheckInById ::
    "booking_env \<Rightarrow> id \<Rightarrow> tenant_role option \<Rightarrow> id \<Rightarrow> id \<Rightarrow> time_ms \<Rightarrow> booking_db \<Rightarrow> (attendee \<times> booking_db) res" where
  "revertAttendeeCheckInById E tenant role act attId lastKnown d =
     bindR (assertAttendeeCheckInAccess role) (\<lambda>_.
     bindR (optR (findAttendee d tenant attId) attendee_not_found) (\<lambda>x.
     bindR (guardR (at_checkedInAt x \<noteq> None) (badRequest ''Only checked-in attendees can be reverted'')) (\<lambda>_.
     let (r, d1) = update_attendee (be_now E) tenant attId lastKnown (clear_check_in act) d
     in bindR (assertOptimisticUpdate r) (\<lambda>r.
        bindR (optR (findAttendee d1 tenant (at_id r)) attendee_not_found) (\<lambda>a. Inr (a, d1))))))"

section \<open>Listing\<close>

datatype attendee_sort = By_createdAt | By_checkedInAt | By_fullName

record attendee_query =
  aq_page :: "rat option"
  aq_limit :: "rat option"
  aq_search :: "string option"
  aq_event :: "id option"
  aq_ticketType :: "id option"
  aq_status :: "attendee_status option"
  aq_checkedIn :: "bool option"
  aq_city :: "string option"
  aq_sortBy :: attendee_sort
  aq_sortOrder :: sort_order

definition attendee_where :: "id \<Rightarrow> attendee_query \<Rightarrow> attendee \<Rightarrow> bool" where
  "attendee_where tenant q a \<longleftrightarrow> at_tenant a = tenant \<and> at_deletedAt a = None
     \<and> if_text (aq_event q) (\<lambda>v. at_event a = v) \<and> if_text (aq_ticketType q) (\<lambda>v. at_ticketType a = v)
     \<and> if_given (aq_status q) (\<lambda>v. at_status a = v)
     \<and> if_given (aq_checkedIn q) (\<lambda>v. (at_checkedInAt a \<noteq> None) = v)
     \<and> if_text (aq_city q) (\<lambda>v. ilike_opt (ap_city (at_profile a)) (trim v))
     \<and> if_text (aq_search q) (\<lambda>v. let p = search_pattern v in
          ilike (at_fullName a) p \<or> ilike (at_email a) p \<or> ilike (at_phone a) p)"

definition attendee_order :: "attendee_query \<Rightarrow> attendee list \<Rightarrow> attendee list" where
  "attendee_order q rows =
     (let byId = sort_key at_id rows in
      case aq_sortBy q of
        By_checkedInAt \<Rightarrow> order_nullable (aq_sortOrder q) at_checkedInAt (sort_key at_fullName byId)
      | By_fullName \<Rightarrow> order_rows (aq_sortOrder q) at_fullName byId
      | By_createdAt \<Rightarrow> order_rows (aq_sortOrder q) at_createdAt byId)"

definition listAttendees ::
    "id \<Rightarrow> tenant_role option \<Rightarrow> attendee_query \<Rightarrow> booking_db \<Rightarrow> (attendee list \<times> page_meta) res" where
  "listAttendees tenant role q d =
     bindR (assertAttendeeReadAccess role) (\<lambda>_.
       let p = parsePagination (aq_page q) (aq_limit q);
           rows = filter (attendee_where tenant q) (attendees d)
       in Inr (page_rows p (attendee_order q rows),
               buildPaginationMeta (pg_page p) (pg_limit p) (int (length rows))))"

section \<open>Lemmas\<close>

lemma attendee_where_tenant: "attendee_where tenant q a \<Longrightarrow> at_tenant a = tenant \<and> at_deletedAt a = None"
  by (simp add: attendee_where_def)

lemma set_attendee_order [simp]: "set (attendee_order q rows) = set rows"
  by (simp add: attendee_order_def Let_def split: attendee_sort.splits)

lemma update_attendee_row:
  assumes "update_attendee now tenant attId lastKnown f d = (Some r, d')" and "distinct (map at_id (attendees d))"
    and "\<And>a. at_tenant (f a) = at_tenant a \<and> at_id (f a) = at_id a"
  shows "\<exists>x. findAttendee d tenant attId = Some x \<and> at_updatedAt x = lastKnown \<and> r = (f x)\<lparr>at_updatedAt := now\<rparr>
    \<and> d' = d\<lparr>attendees := update_where (\<lambda>a. at_id a = attId) (\<lambda>a. (f a)\<lparr>at_updatedAt := now\<rparr>) (attendees d)\<rparr>
    \<and> (at_deletedAt (f x) = None \<longrightarrow> findAttendee d' tenant attId = Some r)"
proof -
  let ?hit = "\<lambda>a. live_attendee tenant attId a \<and> optimisticLock (at_updatedAt a) lastKnown"
    and ?g = "\<lambda>a. (f a)\<lparr>at_updatedAt := now\<rparr>"
  from assms(1) obtain x where x: "List.find ?hit (attendees d) = Some x" and r: "r = ?g x"
    and d': "d' = d\<lparr>attendees := update_where ?hit ?g (attendees d)\<rparr>"
    by (auto simp: update_attendee_def Let_def)
  from find_SomeD [OF x] have mem: "x \<in> set (attendees d)" and live: "live_attendee tenant attId x"
    and lock: "at_updatedAt x = lastKnown" by (auto simp: optimisticLock_def)
  have only: "a = x" if "a \<in> set (attendees d)" "at_id a = attId" for a
    using assms(2) that mem live by (auto simp: distinct_map live_attendee_def dest: inj_onD)
  have "?hit a \<longleftrightarrow> at_id a = attId" if "a \<in> set (attendees d)" for a
  proof (cases "a = x")
    case True then show ?thesis using live lock by (simp add: live_attendee_def optimisticLock_def)
  next
    case False
    then have "at_id a \<noteq> attId" using only that by blast
    then show ?thesis by (simp add: live_attendee_def)
  qed
  then have upd: "update_where ?hit ?g (attendees d) = update_where (\<lambda>a. at_id a = attId) ?g (attendees d)"
    by (simp add: update_where_def)
  have rows: "attendees d' = update_where (\<lambda>a. at_id a = attId) ?g (attendees d)"
    unfolding upd [symmetric] by (simp add: d')
  have "findAttendee d tenant attId = Some x"
    unfolding findAttendee_def
  proof (rule find_unique [where p = "live_attendee tenant attId", OF mem live])
    fix y assume "y \<in> set (attendees d)" "live_attendee tenant attId y"
    then show "y = x" using only by (simp add: live_attendee_def)
  qed
  moreover have "findAttendee d' tenant attId = Some r" if "at_deletedAt (f x) = None"
    unfolding findAttendee_def
  proof (rule find_unique)
    show "r \<in> set (attendees d')" using mem live by (auto simp: rows r set_update_where live_attendee_def)
    show "live_attendee tenant attId r" using live assms(3) that by (simp add: r live_attendee_def)
    fix b assume "b \<in> set (attendees d')" "live_attendee tenant attId b"
    then obtain a where "a \<in> set (attendees d)" "b = (if at_id a = attId then ?g a else a)"
      by (auto simp: rows set_update_where)
    moreover from this \<open>live_attendee tenant attId b\<close> have "at_id a = attId"
      using assms(3) by (auto simp: live_attendee_def split: if_splits)
    ultimately show "b = r" using only r by simp
  qed
  ultimately show ?thesis using r d' upd lock by simp
qed

lemma update_then_find:
  assumes "findAttendee d tenant attId = Some x" and "distinct (map at_id (attendees d))"
    and keep: "\<And>a. at_tenant (f a) = at_tenant a \<and> at_id (f a) = at_id a \<and> at_deletedAt (f a) = at_deletedAt a"
  shows "\<exists>d'. update_attendee now tenant attId (at_updatedAt x) f d = (Some ((f x)\<lparr>at_updatedAt := now\<rparr>), d')
    \<and> findAttendee d' tenant attId = Some ((f x)\<lparr>at_updatedAt := now\<rparr>) \<and> distinct (map at_id (attendees d'))"
proof -
  let ?hit = "\<lambda>a. live_attendee tenant attId a \<and> optimisticLock (at_updatedAt a) (at_updatedAt x)"
  from assms(1) have x: "x \<in> set (attendees d)" "live_attendee tenant attId x"
    by (auto simp: findAttendee_def dest: find_SomeD)
  then have "List.find ?hit (attendees d) \<noteq> None"
    using find_NoneD [of ?hit "attendees d" x] by (auto simp: optimisticLock_def simp del: find_None_iff)
  then obtain r d' where upd: "update_attendee now tenant attId (at_updatedAt x) f d = (Some r, d')"
    by (auto simp: update_attendee_def Let_def)
  have k: "at_tenant (f a) = at_tenant a \<and> at_id (f a) = at_id a" for a using keep by blast
  from update_attendee_row [OF upd assms(2) k] assms(1) x(2) keep show ?thesis
    using upd assms(2) by (auto simp: live_attendee_def map_update_where)
qed

section \<open>Properties\<close>

text \<open>
  A changed email or phone is accepted and dropped: the service normalizes the two fields in place
  but the repository writes only the separate normalized fields, so an update that succeeds returns and
  keeps the old email and phone whatever the client sent, and differs in nothing else from the same
  update without them.
\<close>

theorem contact_changes_are_dropped:
  assumes "updateAttendeeById E tenant role act attId u d = Inr (a, d')" and "distinct (map at_id (attendees d))"
    and "ua_normalizedEmail u = None" and "ua_normalizedPhone u = None"
  shows "\<exists>x. findAttendee d tenant attId = Some x \<and> at_email a = at_email x \<and> at_phone a = at_phone x
    \<and> findAttendee d' tenant attId = Some a
    \<and> updateAttendeeById E tenant role act attId (u\<lparr>ua_email := None, ua_phone := None\<rparr>) d = Inr (a, d')"
proof -
  from assms(1) obtain x r where x: "findAttendee d tenant attId = Some x"
    and upd: "update_attendee (be_now E) tenant attId (ua_lastKnown u) (set_attendee act (service_update u)) d = (Some r, d')"
    and found: "findAttendee d' tenant (at_id r) = Some a"
    by (auto simp: updateAttendeeById_def updateAttendeeRecord_def Let_def res_simps case_prod_Inr service_update_def)
  have keep: "at_tenant (set_attendee act (service_update u) b) = at_tenant b
      \<and> at_id (set_attendee act (service_update u) b) = at_id b" for b
    by (simp add: set_attendee_def)
  from update_attendee_row [OF upd assms(2) keep] x
  have r: "r = (set_attendee act (service_update u) x)\<lparr>at_updatedAt := be_now E\<rparr>"
    and row: "at_deletedAt x = None \<longrightarrow> findAttendee d' tenant attId = Some r"
    by (auto simp: set_attendee_def)
  have live: "live_attendee tenant attId x" using x by (auto simp: findAttendee_def dest: find_SomeD)
  with found r row have "a = r" "findAttendee d' tenant attId = Some a"
    by (auto simp: live_attendee_def set_attendee_def)
  moreover have "set_attendee act (service_update (u\<lparr>ua_email := None, ua_phone := None\<rparr>))
      = set_attendee act (service_update u)"
    by (rule ext) (simp add: set_attendee_def service_update_def put_profile_def)
  then have "updateAttendeeById E tenant role act attId (u\<lparr>ua_email := None, ua_phone := None\<rparr>) d = Inr (a, d')"
    using assms(1) by (simp add: updateAttendeeById_def updateAttendeeRecord_def service_update_def)
  ultimately show ?thesis
    using x r assms(3,4) by (simp add: set_attendee_def service_update_def put_def)
qed

definition demo_attendee :: attendee where
  "demo_attendee = \<lparr>at_id = ''a1'', at_tenant = ''t1'', at_event = ''e1'', at_ticketType = ''vip'', at_order = None,
     at_fullName = ''Asha Rao'', at_email = ''asha@example.com'', at_phone = ''+911234567'',
     at_profile = \<lparr>ap_gender = None, ap_dateOfBirth = None, ap_city = None, ap_state = None, ap_country = None,
       ap_emergencyName = None, ap_emergencyPhone = None, ap_notes = None\<rparr>,
     at_checkedInAt = None, at_checkedInBy = None, at_status = A_pending, at_createdBy = ''u1'', at_updatedBy = ''u1'',
     at_createdAt = 0, at_updatedAt = 0, at_deletedAt = None\<rparr>"

definition demo_register :: booking_db where
  "demo_register = empty_booking\<lparr>attendees := [demo_attendee],
     events := [\<lparr>ev_id = ''e1'', ev_tenant = ''t1'', ev_organizer = Some ''org1'',
       ev_title = ''Summer Fest'', ev_startDateTime = 1000, ev_endDateTime = 2000, ev_status = ''published'', ev_deletedAt = None\<rparr>],
     ticket_types := [\<lparr>tt_id = ''vip'', tt_tenant = ''t1'', tt_event = ''e1'', tt_name = ''VIP'', tt_slug = ''vip'',
       tt_price = 50000, tt_currency = ''INR'', tt_total = 5, tt_sold = 0, tt_reserved = 0, tt_min = 1, tt_max = 10,
       tt_saleStart = None, tt_saleEnd = None, tt_isRefundable = True, tt_status = ''active'', tt_deletedAt = None\<rparr>]\<rparr>"

definition demo_att_env :: "time_ms \<Rightarrow> booking_env" where
  "demo_att_env now = \<lparr>be_uuid = show_nat, be_random = show_nat, be_hmac = (\<lambda>s. s), be_now = now,
     be_year = (\<lambda>t. 2025), be_int8 = Text_qty\<rparr>"

theorem contact_changes_are_dropped_witness:
  "\<exists>a d'. updateAttendeeById (demo_att_env 7) ''t1'' (Some owner) ''u1'' ''a1''
      ((no_attendee_update 0)\<lparr>ua_email := Some ''new@example.com''\<rparr>) demo_register = Inr (a, d')
    \<and> at_email a = ''asha@example.com''"
proof -
  let ?u = "(no_attendee_update 0)\<lparr>ua_email := Some ''new@example.com''\<rparr>"
  have "\<not> isl (updateAttendeeById (demo_att_env 7) ''t1'' (Some owner) ''u1'' ''a1'' ?u demo_register)" by code_simp
  then obtain a d' where run: "updateAttendeeById (demo_att_env 7) ''t1'' (Some owner) ''u1'' ''a1'' ?u demo_register = Inr (a, d')"
    by (metis sum.collapse(2) prod.exhaust)
  have "findAttendee demo_register ''t1'' ''a1'' = Some demo_attendee"
    by (simp add: findAttendee_def demo_register_def live_attendee_def demo_attendee_def)
  with contact_changes_are_dropped [OF run] run show ?thesis
    by (simp add: demo_register_def no_attendee_update_def demo_attendee_def)
qed

text \<open>
  Checking an attendee in and reverting it: after a check-in a second one is refused as a conflict
  until it is reverted, and after reverting the attendee can be checked in again; but reverting leaves
  the status confirmed whatever it was before the check-in, so a pending attendee comes back confirmed.
\<close>

theorem check_in_revert:
  assumes "checkInAttendeeById E tenant role act attId t0 d = Inr (a, d1)" and "distinct (map at_id (attendees d))"
  shows "at_status a = A_checked_in \<and> at_checkedInAt a = Some (be_now E)
    \<and> checkInAttendeeById E1 tenant role act1 attId t1 d1 = Inl (conflict ''Attendee is already checked in'')
    \<and> (\<exists>b d2. revertAttendeeCheckInById E2 tenant role act2 attId (be_now E) d1 = Inr (b, d2)
        \<and> at_checkedInAt b = None \<and> at_status b = A_confirmed
        \<and> (\<exists>c d3. checkInAttendeeById E3 tenant role act3 attId (be_now E2) d2 = Inr (c, d3)))"
proof -
  from assms(1) obtain x r where x: "findAttendee d tenant attId = Some x"
    and ok: "assertAttendeeCheckInAccess role = Inr ()"
    and upd: "update_attendee (be_now E) tenant attId t0 (mark_checked_in (be_now E) act) d = (Some r, d1)"
    and found: "findAttendee d1 tenant (at_id r) = Some a"
    by (auto simp: checkInAttendeeById_def Let_def res_simps case_prod_Inr)
  have k1: "at_tenant (mark_checked_in now u b) = at_tenant b \<and> at_id (mark_checked_in now u b) = at_id b"
    and k2: "at_tenant (clear_check_in u b) = at_tenant b \<and> at_id (clear_check_in u b) = at_id b" for now u b
    by (simp_all add: mark_checked_in_def clear_check_in_def)
  have live: "at_id x = attId" "at_deletedAt x = None"
    using x by (auto simp: findAttendee_def live_attendee_def dest: find_SomeD)
  note row = update_attendee_row [OF upd assms(2) k1]
  with x live found have a: "a = r" "r = (mark_checked_in (be_now E) act x)\<lparr>at_updatedAt := be_now E\<rparr>"
    and fa: "findAttendee d1 tenant attId = Some a"
    by (auto simp: mark_checked_in_def)
  have dist1: "distinct (map at_id (attendees d1))"
    using row assms(2) by (auto simp: map_update_where k1)
  from a have checked: "at_status a = A_checked_in" "at_checkedInAt a = Some (be_now E)" "at_updatedAt a = be_now E"
    by (simp_all add: mark_checked_in_def)
  have again: "checkInAttendeeById E1 tenant role act1 attId t1 d1 = Inl (conflict ''Attendee is already checked in'')"
    using ok fa checked by (simp add: checkInAttendeeById_def)
  let ?b = "(clear_check_in act2 a)\<lparr>at_updatedAt := be_now E2\<rparr>"
  obtain d2 where r2: "update_attendee (be_now E2) tenant attId (be_now E) (clear_check_in act2) d1 = (Some ?b, d2)"
    and f2: "findAttendee d2 tenant attId = Some ?b" and dist2: "distinct (map at_id (attendees d2))"
    using update_then_find [OF fa dist1, of "clear_check_in act2" "be_now E2"] checked(3)
    by (auto simp: clear_check_in_def)
  have revert: "revertAttendeeCheckInById E2 tenant role act2 attId (be_now E) d1 = Inr (?b, d2)"
    using ok fa checked r2 f2 a live by (simp add: revertAttendeeCheckInById_def clear_check_in_def mark_checked_in_def)
  let ?c = "(mark_checked_in (be_now E3) act3 ?b)\<lparr>at_updatedAt := be_now E3\<rparr>"
  obtain d3 where "update_attendee (be_now E3) tenant attId (be_now E2) (mark_checked_in (be_now E3) act3) d2 = (Some ?c, d3)"
    and "findAttendee d3 tenant attId = Some ?c"
    using update_then_find [OF f2 dist2, of "mark_checked_in (be_now E3) act3" "be_now E3"]
    by (auto simp: mark_checked_in_def)
  then have "checkInAttendeeById E3 tenant role act3 attId (be_now E2) d2 = Inr (?c, d3)"
    using ok f2 a live by (simp add: checkInAttendeeById_def clear_check_in_def mark_checked_in_def)
  with checked again revert show ?thesis by (auto simp: clear_check_in_def)
qed

theorem check_in_revert_witness:
  "\<exists>a d1 b d2. checkInAttendeeById (demo_att_env 7) ''t1'' (Some staff) ''s1'' ''a1'' 0 demo_register = Inr (a, d1)
    \<and> at_status demo_attendee = A_pending
    \<and> revertAttendeeCheckInById (demo_att_env 9) ''t1'' (Some staff) ''s1'' ''a1'' 7 d1 = Inr (b, d2) \<and> at_status b = A_confirmed"
proof -
  have "\<not> isl (checkInAttendeeById (demo_att_env 7) ''t1'' (Some staff) ''s1'' ''a1'' 0 demo_register)" by code_simp
  then obtain a d1 where run: "checkInAttendeeById (demo_att_env 7) ''t1'' (Some staff) ''s1'' ''a1'' 0 demo_register = Inr (a, d1)"
    by (metis sum.collapse(2) prod.exhaust)
  have "distinct (map at_id (attendees demo_register))" by (simp add: demo_register_def)
  from check_in_revert [OF run this, of _ _ _ "demo_att_env 9"] run show ?thesis
    by (fastforce simp: demo_att_env_def demo_attendee_def)
qed

end
