(* ===== verification/BookingOrders.thy ===== *)
theory BookingOrders
  imports Inventory IssuedTickets Attendees
begin

text \<open>
  \<open>src/modules/booking-orders\<close>, service and repository: orders with their lines and totals,
  the order numbers, creation with its reservation of inventory, changes of status with what they do to
  reservations and tickets, deletion, listing, and the assignment of attendees. The marketing hook of a
  confirmation runs after the transaction and swallows its errors.
\<close>

section \<open>Numbers and money\<close>

definition normalizeOrderNumber :: "string \<Rightarrow> string" where
  "normalizeOrderNumber v = toUpperCase (trim v)"

lemma normalizeOrderNumber_idem [simp]: "normalizeOrderNumber (normalizeOrderNumber n) = normalizeOrderNumber n"
  by (simp add: normalizeOrderNumber_def)

text \<open>
  Decimal text and hundredths. A money column of the database (\<open>numeric(14,2)\<close>) is its
  hundredths here, the driver hands it over as \<open>minorUnitsToDecimalString\<close> of them.
\<close>

definition decimalToMinorUnits :: "string \<Rightarrow> int" where
  "decimalToMinorUnits text =
     (let parts = split_on (CHR ''.'') text;
          wholePart = hd parts;
          fractionPart = (case tl parts of [] \<Rightarrow> [] | f # _ \<Rightarrow> f);
          sign = (if take 1 wholePart = ''-'' then - 1 else 1);
          absWholePart = remove1 (CHR ''-'') wholePart;
          whole = read_nat (if absWholePart = [] then ''0'' else absWholePart);
          fraction = read_nat (take 2 (fractionPart @ ''00''))
      in sign * (int whole * 100 + int fraction))"

definition minorUnitsToDecimalString :: "int \<Rightarrow> string" where
  "minorUnitsToDecimalString v =
     (let sign = (if v < 0 then ''-'' else ''''); absolute = (if v < 0 then - v else v);
          whole = absolute div 100;
          fraction = padStart 2 (CHR ''0'') (show_int (absolute mod 100))
      in sign @ show_int whole @ ''.'' @ fraction)"

definition sumMinorUnits :: "string list \<Rightarrow> int" where
  "sumMinorUnits values = foldl (\<lambda>t v. t + decimalToMinorUnits v) 0 values"

definition resolveInitialOrderStatus :: "order_status \<Rightarrow> order_status res" where
  "resolveInitialOrderStatus st =
     (if \<not> List.member [O_draft, O_pending, O_confirmed] st
      then Inl (badRequest ''Invalid initial order status'') else Inr st)"

definition resolveOrderPrefix :: "string \<Rightarrow> string" where
  "resolveOrderPrefix source =
     (case filter (\<lambda>t. t \<noteq> []) (split_on (CHR ''-'') (createSlug source)) of
        [] \<Rightarrow> ''ORD''
      | [t] \<Rightarrow> toUpperCase (take 3 t)
      | ts \<Rightarrow> toUpperCase (take 4 (map hd ts)))"

definition order_number :: "string \<Rightarrow> nat \<Rightarrow> nat \<Rightarrow> string" where
  "order_number prefix year n =
     prefix @ ''-'' @ show_nat year @ ''-'' @ padStart 6 (CHR ''0'') (show_nat n)"

section \<open>Access and references\<close>

definition no_booking_permission :: js_error where
  "no_booking_permission = forbidden ''Insufficient booking permissions''"

definition order_not_found :: js_error where
  "order_not_found = notFound ''Booking order not found''"

text \<open>Reads and changes of one order are for its purchaser and for members with the permission.\<close>

definition purchaser_or :: "booking_order \<Rightarrow> id \<Rightarrow> bool \<Rightarrow> unit res" where
  "purchaser_or b act allowed = guardR (bo_purchaser b = act \<or> allowed) no_booking_permission"

definition bookable_event :: "booking_db \<Rightarrow> id \<Rightarrow> id \<Rightarrow> event_row res" where
  "bookable_event d tenant event =
     bindR (optR (findActiveEvent d tenant event) (badRequest ''Invalid eventId for tenant'')) (\<lambda>e.
     bindR (guardR (ev_status e \<noteq> ''cancelled'' \<and> ev_status e \<noteq> ''archived'')
              (badRequest ''Bookings cannot be created for cancelled or archived events'')) (\<lambda>_. Inr e))"

definition known_user :: "booking_db \<Rightarrow> id \<Rightarrow> unit res" where
  "known_user d user =
     guardR (list_ex (\<lambda>u. us_id u = user) (users d)) (badRequest ''Invalid purchaserUserId'')"

definition ensureBookingReferencesBelongToTenant :: "booking_db \<Rightarrow> id \<Rightarrow> id option \<Rightarrow> id option \<Rightarrow> unit res" where
  "ensureBookingReferencesBelongToTenant d tenant event purchaser =
     bindR (case event of None \<Rightarrow> Inr () | Some e \<Rightarrow> bindR (bookable_event d tenant e) (\<lambda>_. Inr ())) (\<lambda>_.
       case purchaser of None \<Rightarrow> Inr () | Some u \<Rightarrow> known_user d u)"

definition find_order_number :: "booking_db \<Rightarrow> id \<Rightarrow> string \<Rightarrow> booking_order option" where
  "find_order_number d tenant number =
     List.find (\<lambda>b. bo_tenant b = tenant \<and> bo_number b = number \<and> bo_deletedAt b = None) (orders d)"

definition loadBookingOrderOrThrow :: "booking_db \<Rightarrow> id \<Rightarrow> string \<Rightarrow> booking_order res" where
  "loadBookingOrderOrThrow d tenant number =
     optR (find_order_number d tenant (normalizeOrderNumber number)) order_not_found"

section \<open>Lines\<close>

record prepared_order =
  po_items :: "order_item list"
  po_currency :: string
  po_subtotal :: string
  po_tax :: string
  po_total :: string

definition line_amount :: "prepared_item \<Rightarrow> string" where
  "line_amount p = minorUnitsToDecimalString
     (decimalToMinorUnits (minorUnitsToDecimalString (pi_unitPrice p)) * pi_quantity p)"

definition prepared_line :: "id \<Rightarrow> prepared_item \<Rightarrow> order_item" where
  "prepared_line tenant p =
     \<lparr>oi_id = [], oi_tenant = tenant, oi_order = [], oi_ticketType = pi_ticketType p, oi_quantity = pi_quantity p,
      oi_unitPrice = pi_unitPrice p, oi_subtotal = decimalToMinorUnits (line_amount p),
      oi_tax = decimalToMinorUnits ''0.00'', oi_total = decimalToMinorUnits (line_amount p),
      oi_currency = pi_currency p, oi_name = pi_name p, oi_slug = pi_slug p\<rparr>"

definition validateOrderItems :: "time_ms \<Rightarrow> booking_db \<Rightarrow> id \<Rightarrow> item_request list \<Rightarrow> prepared_order res" where
  "validateOrderItems now d tenant items =
     bindR (validateAndPrepareItems now d tenant items) (\<lambda>prepared.
       let lines = map (prepared_line tenant) prepared;
           firstCurrency = (case lines of [] \<Rightarrow> None | l # _ \<Rightarrow> Some (oi_currency l))
       in if \<not> truthy firstCurrency then Inl (badRequest ''At least one booking item is required'')
          else if list_ex (\<lambda>l. oi_currency l \<noteq> the firstCurrency) lines
          then Inl (badRequest ''All booking items must use the same currency'')
          else Inr \<lparr>po_items = lines, po_currency = the firstCurrency,
                    po_subtotal = minorUnitsToDecimalString (sumMinorUnits (map line_amount prepared)),
                    po_tax = ''0.00'',
                    po_total = minorUnitsToDecimalString (sumMinorUnits (map line_amount prepared))\<rparr>)"

section \<open>Creating an order\<close>

record create_input =
  cb_event :: id
  cb_eventDate :: "id option"
  cb_purchaser :: id
  cb_status :: order_status
  cb_source :: string
  cb_discount :: int
  cb_expiresAt :: "time_ms option"
  cb_notes :: "string option"
  cb_metadata :: "string option"
  cb_items :: "item_request list"

text \<open>What \<open>createBookingOrderSchema\<close> lets through of the items and the discount (hundredths).\<close>

definition valid_create_body :: "create_input \<Rightarrow> bool" where
  "valid_create_body i \<longleftrightarrow> List.member [O_draft, O_pending, O_confirmed] (cb_status i) \<and> 0 \<le> cb_discount i
     \<and> 1 \<le> length (cb_items i) \<and> length (cb_items i) \<le> 100
     \<and> list_all (\<lambda>it. 0 < rq_quantity it \<and> rq_quantity it \<le> 100000) (cb_items i)
     \<and> distinct (map rq_ticketType (cb_items i))"

definition is_order_counter :: "id \<Rightarrow> id \<Rightarrow> nat \<Rightarrow> order_counter \<Rightarrow> bool" where
  "is_order_counter tenant event year c \<longleftrightarrow> oc_tenant c = tenant \<and> oc_event c = event \<and> oc_year c = year"

definition take_order_number :: "id \<Rightarrow> id \<Rightarrow> nat \<Rightarrow> string \<Rightarrow> booking_db \<Rightarrow> nat \<times> booking_db" where
  "take_order_number tenant event year prefix d =
     (case List.find (is_order_counter tenant event year) (order_counters d) of
        None \<Rightarrow> (1, d\<lparr>order_counters := order_counters d @
          [\<lparr>oc_tenant = tenant, oc_event = event, oc_year = year, oc_prefix = prefix, oc_next = 1\<rparr>]\<rparr>)
      | Some c \<Rightarrow> (oc_next c + 1, d\<lparr>order_counters :=
          update_where (is_order_counter tenant event year) (\<lambda>c. c\<lparr>oc_next := oc_next c + 1\<rparr>) (order_counters d)\<rparr>))"

definition insert_order :: "booking_order \<Rightarrow> booking_db \<Rightarrow> booking_db res" where
  "insert_order b d =
     (if list_ex (\<lambda>x. bo_tenant x = bo_tenant b \<and> bo_number x = bo_number b) (orders d)
      then Inl (unique_violation ''booking_orders_tenant_order_number_unique'')
      else Inr (d\<lparr>orders := orders d @ [b], fresh := fresh d + 1\<rparr>))"

definition insert_item :: "booking_env \<Rightarrow> id \<Rightarrow> order_item \<Rightarrow> order_item list \<times> booking_db
    \<Rightarrow> (order_item list \<times> booking_db) res" where
  "insert_item E order l st =
     (let (rows, d) = st; r = l\<lparr>oi_id := be_uuid E (fresh d), oi_order := order\<rparr> in
      if list_ex (\<lambda>x. oi_order x = order \<and> oi_ticketType x = oi_ticketType l) (order_items d)
      then Inl (unique_violation ''booking_order_items_order_ticket_unique'')
      else Inr (rows @ [r], d\<lparr>order_items := order_items d @ [r], fresh := fresh d + 1\<rparr>))"

definition order_total :: "prepared_order \<Rightarrow> int \<Rightarrow> string" where
  "order_total p discount = minorUnitsToDecimalString
     (sumMinorUnits [po_subtotal p, po_tax p, ''-'' @ minorUnitsToDecimalString discount])"

definition new_order ::
    "booking_env \<Rightarrow> id \<Rightarrow> id \<Rightarrow> create_input \<Rightarrow> prepared_order \<Rightarrow> string \<Rightarrow> booking_db \<Rightarrow> booking_order" where
  "new_order E tenant act input p number d =
     \<lparr>bo_id = be_uuid E (fresh d), bo_tenant = tenant, bo_event = cb_event input, bo_eventDate = cb_eventDate input,
      bo_purchaser = cb_purchaser input, bo_number = number, bo_status = cb_status input, bo_currency = po_currency p,
      bo_subtotal = decimalToMinorUnits (po_subtotal p), bo_tax = decimalToMinorUnits (po_tax p),
      bo_discount = cb_discount input, bo_total = decimalToMinorUnits (order_total p (cb_discount input)),
      bo_source = cb_source input, bo_notes = cb_notes input, bo_expiresAt = cb_expiresAt input,
      bo_confirmedAt = (if cb_status input = O_confirmed then Some (be_now E) else None), bo_cancelledAt = None,
      bo_cancellationReason = None, bo_metadata = coalesce (cb_metadata input) ''{}'', bo_createdBy = act,
      bo_updatedBy = Some act, bo_createdAt = be_now E, bo_updatedAt = be_now E, bo_deletedAt = None\<rparr>"

definition order_reserve :: "id \<Rightarrow> id \<Rightarrow> create_input \<Rightarrow> reserve_input" where
  "order_reserve tenant act input =
     \<lparr>ri_tenant = tenant, ri_event = cb_event input, ri_order = None, ri_actor = Some act,
      ri_source = Some (cb_source input), ri_correlation = None, ri_expiresAt = cb_expiresAt input,
      ri_metadata = coalesce (cb_metadata input) ''{}''\<rparr>"

definition order_move_of :: "id \<Rightarrow> id \<Rightarrow> id \<Rightarrow> string \<Rightarrow> order_move" where
  "order_move_of tenant order act source =
     \<lparr>om_tenant = tenant, om_order = order, om_actor = Some act, om_source = Some source, om_correlation = None\<rparr>"

text \<open>Confirming: the held inventory is sold and the tickets are issued.\<close>

definition confirm_order ::
    "booking_env \<Rightarrow> id \<Rightarrow> tenant_role option \<Rightarrow> id \<Rightarrow> id \<Rightarrow> string \<Rightarrow> booking_db \<Rightarrow> booking_db res" where
  "confirm_order E tenant role act order source d =
     bindR (convertReservationsForBookingOrder E (order_move_of tenant order act source) (Some ''booking_confirmed'') d)
       (\<lambda>(rs, d1). issueIssuedTicketsForBookingOrder E tenant order role d1)"

definition create_order_tx ::
    "booking_env \<Rightarrow> id \<Rightarrow> tenant_role option \<Rightarrow> id \<Rightarrow> create_input \<Rightarrow> event_row \<Rightarrow> prepared_order \<Rightarrow> booking_db
       \<Rightarrow> ((booking_order \<times> order_item list) \<times> booking_db) res" where
  "create_order_tx E tenant role act input ev p d =
     (let year = be_year E (be_now E); prefix = resolveOrderPrefix (ev_title ev);
          (seq, d1) = take_order_number tenant (ev_id ev) year prefix d;
          b = new_order E tenant act input p (order_number prefix year seq) d1
      in bindR (insert_order b d1) (\<lambda>d2.
         bindR (reserveInventoryForBookingOrder E (order_reserve tenant act input) (bo_id b) (cb_items input) d2) (\<lambda>(rs, d3).
         bindR (forR (insert_item E (bo_id b)) (po_items p) ([], d3)) (\<lambda>(rows, d4).
         bindR (if cb_status input = O_confirmed
                then confirm_order E tenant role act (bo_id b) ''booking-order-create'' d4 else Inr d4) (\<lambda>d5.
         bindR (optR (find_order d5 tenant (bo_id b)) order_not_found) (\<lambda>loaded.
           Inr ((loaded, rows), d5)))))))"

definition createBookingOrder ::
    "booking_env \<Rightarrow> (nat \<Rightarrow> js_error option) \<Rightarrow> id \<Rightarrow> tenant_role option \<Rightarrow> id \<Rightarrow> create_input \<Rightarrow> booking_db
       \<Rightarrow> ((booking_order \<times> order_item list) \<times> booking_db) res" where
  "createBookingOrder E faults tenant role act input d =
     bindR (guardR (cb_purchaser input = act \<or> canCreateBookings role) no_booking_permission) (\<lambda>_.
     bindR (ensureBookingReferencesBelongToTenant d tenant (Some (cb_event input)) (Some (cb_purchaser input))) (\<lambda>_.
     bindR (bookable_event d tenant (cb_event input)) (\<lambda>ev.
     bindR (known_user d (cb_purchaser input)) (\<lambda>_.
     bindR (guardR (case cb_eventDate input of None \<Rightarrow> True
              | Some dt \<Rightarrow> list_ex (\<lambda>r. ed_id r = dt \<and> ed_event r = cb_event input) (event_dates d))
              (badRequest ''Invalid eventDateId for event'')) (\<lambda>_.
     bindR (validateOrderItems (be_now E) d tenant (cb_items input)) (\<lambda>p.
     bindR (resolveInitialOrderStatus (cb_status input)) (\<lambda>st.
       in_transaction faults (create_order_tx E tenant role act input ev p d))))))))"

section \<open>Reading\<close>

definition getBookingOrderByOrderNumber ::
    "id \<Rightarrow> tenant_role option \<Rightarrow> id \<Rightarrow> string \<Rightarrow> booking_db \<Rightarrow> booking_order res" where
  "getBookingOrderByOrderNumber tenant role act number d =
     bindR (loadBookingOrderOrThrow d tenant number) (\<lambda>b.
     bindR (purchaser_or b act (canViewBookings role)) (\<lambda>_. Inr b))"

definition listBookingOrderItems ::
    "id \<Rightarrow> tenant_role option \<Rightarrow> id \<Rightarrow> string \<Rightarrow> booking_db \<Rightarrow> order_item list res" where
  "listBookingOrderItems tenant role act number d =
     bindR (getBookingOrderByOrderNumber tenant role act number d) (\<lambda>b. Inr (items_of_order d tenant (bo_id b)))"

section \<open>Changing an order\<close>

record update_input =
  ub_status :: "order_status option"
  ub_source :: "string option"
  ub_discount :: "int option"
  ub_expiresAt :: "time_ms option option"
  ub_notes :: "string option option"
  ub_metadata :: "string option"
  ub_reason :: "string option option"
  ub_lastKnown :: time_ms

definition would_change :: "update_input \<Rightarrow> order_status \<Rightarrow> booking_order \<Rightarrow> bool" where
  "would_change i nxt b \<longleftrightarrow> nxt \<noteq> bo_status b
     \<or> (ub_source i \<noteq> None \<and> ub_source i \<noteq> Some (bo_source b))
     \<or> (ub_discount i \<noteq> None \<and> ub_discount i \<noteq> Some (bo_discount b))
     \<or> (ub_expiresAt i \<noteq> None \<and> ub_expiresAt i \<noteq> Some (bo_expiresAt b))
     \<or> (ub_notes i \<noteq> None \<and> ub_notes i \<noteq> Some (bo_notes b))
     \<or> (ub_metadata i \<noteq> None \<and> ub_metadata i \<noteq> Some (bo_metadata b))
     \<or> (ub_reason i \<noteq> None \<and> ub_reason i \<noteq> Some (bo_cancellationReason b))"

record order_sums =
  sm_subtotal :: int
  sm_tax :: int
  sm_discount :: int
  sm_total :: int

definition money :: "int \<Rightarrow> int" where
  "money v = decimalToMinorUnits (minorUnitsToDecimalString v)"

definition order_sums_of :: "booking_db \<Rightarrow> id \<Rightarrow> booking_order \<Rightarrow> int option \<Rightarrow> order_sums" where
  "order_sums_of d tenant b discount =
     (let items = items_of_order d tenant (bo_id b);
          subtotal = sum_list (map (\<lambda>i. money (oi_subtotal i)) items);
          tax = sum_list (map (\<lambda>i. money (oi_tax i)) items);
          disc = money (case discount of None \<Rightarrow> bo_discount b | Some v \<Rightarrow> v)
      in \<lparr>sm_subtotal = subtotal, sm_tax = tax, sm_discount = disc, sm_total = subtotal + tax - disc\<rparr>)"

definition update_order ::
    "time_ms \<Rightarrow> id \<Rightarrow> string \<Rightarrow> time_ms \<Rightarrow> (booking_order \<Rightarrow> booking_order) \<Rightarrow> booking_db
       \<Rightarrow> booking_order option \<times> booking_db" where
  "update_order now tenant number lastKnown f d =
     (let hit = (\<lambda>b. bo_tenant b = tenant \<and> bo_number b = number \<and> optimisticLock (bo_updatedAt b) lastKnown
                    \<and> bo_deletedAt b = None);
          g = (\<lambda>b. (f b)\<lparr>bo_updatedAt := now\<rparr>)
      in (map_option g (List.find hit (orders d)), d\<lparr>orders := update_where hit g (orders d)\<rparr>))"

definition set_order ::
    "time_ms \<Rightarrow> id \<Rightarrow> order_status \<Rightarrow> update_input \<Rightarrow> order_sums \<Rightarrow> booking_order \<Rightarrow> booking_order \<Rightarrow> booking_order" where
  "set_order now act nxt i sm cur x =
     x\<lparr>bo_status := nxt, bo_source := put (ub_source i) (bo_source x), bo_discount := money (sm_discount sm),
       bo_expiresAt := put (ub_expiresAt i) (bo_expiresAt x), bo_notes := put (ub_notes i) (bo_notes x),
       bo_metadata := put (ub_metadata i) (bo_metadata x),
       bo_cancellationReason := put (ub_reason i) (bo_cancellationReason x),
       bo_subtotal := money (sm_subtotal sm), bo_tax := money (sm_tax sm), bo_total := money (sm_total sm),
       bo_confirmedAt := (if nxt = O_confirmed \<and> bo_confirmedAt cur = None then Some now else bo_confirmedAt cur),
       bo_cancelledAt := (if nxt = O_cancelled \<or> nxt = O_expired then or_now now (bo_cancelledAt cur) else bo_cancelledAt cur),
       bo_updatedBy := Some act\<rparr>"

text \<open>The transaction of an update: \<open>cur\<close> is the order as read before it began.\<close>

definition update_order_tx ::
    "booking_env \<Rightarrow> id \<Rightarrow> tenant_role option \<Rightarrow> id \<Rightarrow> string \<Rightarrow> update_input \<Rightarrow> booking_order \<Rightarrow> order_status
       \<Rightarrow> order_sums \<Rightarrow> booking_db \<Rightarrow> (booking_order \<times> booking_db) res" where
  "update_order_tx E tenant role act number i cur nxt sm d =
     (let (u, d1) = update_order (be_now E) tenant number (ub_lastKnown i) (set_order (be_now E) act nxt i sm cur) d
      in bindR (assertOptimisticUpdate u) (\<lambda>r.
         bindR (if shouldReleaseInventoryOnTransition (bo_status cur) nxt
                then bindR (releaseReservationsForBookingOrder E
                       (order_move_of tenant (bo_id r) act ''booking-order-status-transition'') d1) (\<lambda>(rs, d'). Inr d')
                else Inr d1) (\<lambda>d2.
         bindR (if nxt = O_confirmed \<and> bo_status cur \<noteq> O_confirmed
                then confirm_order E tenant role act (bo_id r) ''booking-order-status-transition'' d2 else Inr d2) (\<lambda>d3.
         bindR (if nxt \<noteq> O_confirmed then applyIssuedTicketStatusForBookingOrder E tenant (bo_id r) nxt d3 else Inr d3) (\<lambda>d4.
         bindR (optR (find_order d4 tenant (bo_id r)) order_not_found) (\<lambda>loaded. Inr (loaded, d4)))))))"

definition updateBookingOrderByOrderNumber ::
    "booking_env \<Rightarrow> (nat \<Rightarrow> js_error option) \<Rightarrow> id \<Rightarrow> tenant_role option \<Rightarrow> id \<Rightarrow> string \<Rightarrow> update_input
       \<Rightarrow> booking_db \<Rightarrow> (booking_order \<times> booking_db) res" where
  "updateBookingOrderByOrderNumber E faults tenant role act orderNumber i d =
     bindR (ensureBookingReferencesBelongToTenant d tenant None None) (\<lambda>_.
     let number = normalizeOrderNumber orderNumber in
     bindR (loadBookingOrderOrThrow d tenant number) (\<lambda>cur.
     bindR (purchaser_or cur act (canUpdateBookings role)) (\<lambda>_.
     let nxt = coalesce (ub_status i) (bo_status cur) in
     bindR (validateTransition (bo_status cur) nxt) (\<lambda>_.
     let sm = order_sums_of d tenant cur (ub_discount i) in
     bindR (guardR (\<not> sm_total sm < 0) (badRequest ''discountAmount cannot exceed the order subtotal'')) (\<lambda>_.
     bindR (guardR (\<not> (isTerminalStatus (bo_status cur) \<and> \<not> isTerminalStatus nxt))
              (badRequest ''Terminal booking orders cannot be reopened'')) (\<lambda>_.
       if \<not> would_change i nxt cur then Inr (cur, d)
       else in_transaction faults (update_order_tx E tenant role act number i cur nxt sm d)))))))"

definition deleted_order :: "time_ms \<Rightarrow> id \<Rightarrow> booking_order \<Rightarrow> booking_order \<Rightarrow> booking_order" where
  "deleted_order now act cur x =
     x\<lparr>bo_updatedBy := Some act, bo_deletedAt := Some now, bo_cancelledAt := or_now now (bo_cancelledAt cur),
       bo_status := O_cancelled\<rparr>"

definition delete_order_tx ::
    "booking_env \<Rightarrow> id \<Rightarrow> id \<Rightarrow> string \<Rightarrow> time_ms \<Rightarrow> booking_order \<Rightarrow> booking_db \<Rightarrow> (booking_order \<times> booking_db) res" where
  "delete_order_tx E tenant act number lastKnown cur d =
     bindR (if shouldReleaseInventoryOnTransition (bo_status cur) O_cancelled
            then bindR (releaseReservationsForBookingOrder E (order_move_of tenant (bo_id cur) act ''booking-order-delete'') d)
                   (\<lambda>(rs, d'). Inr d')
            else Inr d) (\<lambda>d1.
     bindR (applyIssuedTicketStatusForBookingOrder E tenant (bo_id cur) O_cancelled d1) (\<lambda>d2.
     let (u, d3) = update_order (be_now E) tenant number lastKnown (deleted_order (be_now E) act cur) d2
     in bindR (assertOptimisticUpdate u) (\<lambda>r. Inr (r, d3))))"

definition deleteBookingOrderByOrderNumber ::
    "booking_env \<Rightarrow> (nat \<Rightarrow> js_error option) \<Rightarrow> id \<Rightarrow> tenant_role option \<Rightarrow> id \<Rightarrow> string \<Rightarrow> time_ms
       \<Rightarrow> booking_db \<Rightarrow> (booking_order \<times> booking_db) res" where
  "deleteBookingOrderByOrderNumber E faults tenant role act orderNumber lastKnown d =
     (let number = normalizeOrderNumber orderNumber in
      bindR (loadBookingOrderOrThrow d tenant number) (\<lambda>cur.
      bindR (purchaser_or cur act (canCancelBookings role)) (\<lambda>_.
        in_transaction faults (delete_order_tx E tenant act number lastKnown cur d))))"

section \<open>Listing\<close>

datatype order_sort = Order_createdAt | Order_updatedAt | Order_confirmedAt | Order_totalAmount | Order_orderNumber

record order_query =
  oq_page :: "rat option"
  oq_limit :: "rat option"
  oq_search :: "string option"
  oq_status :: "order_status option"
  oq_event :: "id option"
  oq_purchaser :: "id option"
  oq_source :: "string option"
  oq_number :: "string option"
  oq_attendeeEmail :: "string option"
  oq_attendeePhone :: "string option"
  oq_createdFrom :: "time_ms option"
  oq_createdTo :: "time_ms option"
  oq_sortBy :: order_sort
  oq_sortOrder :: sort_order

definition has_attendee :: "booking_db \<Rightarrow> id \<Rightarrow> booking_order \<Rightarrow> (attendee \<Rightarrow> bool) \<Rightarrow> bool" where
  "has_attendee d tenant b p =
     list_ex (\<lambda>x. as_order x = bo_id b \<and> as_tenant x = tenant \<and> as_deletedAt x = None
       \<and> list_ex (\<lambda>a. at_id a = as_attendee x \<and> at_deletedAt a = None \<and> p a) (attendees d)) (assignments d)"

text \<open>The joined title and names of an order, none when the join finds no row.\<close>

definition joined_event :: "booking_db \<Rightarrow> id \<Rightarrow> booking_order \<Rightarrow> string option" where
  "joined_event d tenant b = map_option ev_title (findActiveEvent d tenant (bo_event b))"

definition joined_user :: "booking_db \<Rightarrow> booking_order \<Rightarrow> user_row option" where
  "joined_user d b = List.find (\<lambda>u. us_id u = bo_purchaser b) (users d)"

definition order_where :: "booking_db \<Rightarrow> id \<Rightarrow> order_query \<Rightarrow> booking_order \<Rightarrow> bool" where
  "order_where d tenant q b \<longleftrightarrow> bo_tenant b = tenant \<and> bo_deletedAt b = None
     \<and> if_given (oq_status q) (\<lambda>v. bo_status b = v) \<and> if_text (oq_event q) (\<lambda>v. bo_event b = v)
     \<and> if_text (oq_purchaser q) (\<lambda>v. bo_purchaser b = v) \<and> if_text (oq_source q) (\<lambda>v. bo_source b = v)
     \<and> if_text (oq_number q) (\<lambda>v. bo_number b = toUpperCase (trim v))
     \<and> if_given (oq_createdFrom q) (\<lambda>v. v \<le> bo_createdAt b) \<and> if_given (oq_createdTo q) (\<lambda>v. bo_createdAt b \<le> v)
     \<and> if_text (oq_search q) (\<lambda>v. let p = search_pattern v in
          ilike (bo_number b) p \<or> ilike_opt (bo_notes b) p \<or> ilike_opt (joined_event d tenant b) p
          \<or> ilike_opt (map_option us_fullName (joined_user d b)) p
          \<or> ilike_opt (map_option us_username (joined_user d b)) p)
     \<and> if_text (oq_attendeeEmail q) (\<lambda>v. has_attendee d tenant b (\<lambda>a. at_email a = v))
     \<and> if_text (oq_attendeePhone q) (\<lambda>v. has_attendee d tenant b (\<lambda>a. at_phone a = trim v))"

definition order_order :: "order_query \<Rightarrow> booking_order list \<Rightarrow> booking_order list" where
  "order_order q rows =
     (let dir = oq_sortOrder q; byNumber = sort_key bo_number rows in
      case oq_sortBy q of
        Order_updatedAt \<Rightarrow> order_rows dir bo_updatedAt byNumber
      | Order_confirmedAt \<Rightarrow> order_nullable dir bo_confirmedAt byNumber
      | Order_totalAmount \<Rightarrow> order_rows dir bo_total byNumber
      | Order_orderNumber \<Rightarrow> order_rows dir bo_number (sort_key bo_createdAt rows)
      | Order_createdAt \<Rightarrow> order_rows dir bo_createdAt byNumber)"

definition listBookingOrders ::
    "id \<Rightarrow> tenant_role option \<Rightarrow> order_query \<Rightarrow> booking_db \<Rightarrow> (booking_order list \<times> page_meta) res" where
  "listBookingOrders tenant role q d =
     bindR (guardR (canViewBookings role) no_booking_permission) (\<lambda>_.
       let p = parsePagination (oq_page q) (oq_limit q); rows = filter (order_where d tenant q) (orders d)
       in Inr (page_rows p (order_order q rows),
               buildPaginationMeta (pg_page p) (pg_limit p) (int (length rows))))"

section \<open>Attendees of an order\<close>

text \<open>The assignments of an order with the attendee and the line each is joined to.\<close>

type_synonym assigned = "assignment \<times> attendee \<times> order_item"

definition join_assignment :: "booking_db \<Rightarrow> assignment \<Rightarrow> assigned list" where
  "join_assignment d x =
     (case (List.find (\<lambda>a. at_id a = as_attendee x) (attendees d), List.find (\<lambda>i. oi_id i = as_item x) (order_items d)) of
        (Some a, Some i) \<Rightarrow> [(x, a, i)] | _ \<Rightarrow> [])"

definition order_attendees :: "booking_db \<Rightarrow> id \<Rightarrow> id \<Rightarrow> assigned list" where
  "order_attendees d tenant order = concat (map (join_assignment d) (assignments_of_order d tenant order))"

fun text_includes :: "string \<Rightarrow> string \<Rightarrow> bool" where
  "text_includes s [] = (s = [])"
| "text_includes s (c # cs) = (take (length s) (c # cs) = s \<or> text_includes s cs)"

record attendees_query =
  oa_page :: "rat option"
  oa_limit :: "rat option"
  oa_search :: "string option"
  oa_email :: "string option"
  oa_phone :: "string option"

definition assigned_where :: "attendees_query \<Rightarrow> assigned \<Rightarrow> bool" where
  "assigned_where q r = (let a = fst (snd r) in
     if_text (oa_search q) (\<lambda>v. let s = toLowerCase (trim v) in
       text_includes s (toLowerCase (at_fullName a)) \<or> text_includes s (toLowerCase (at_email a))
       \<or> text_includes s (toLowerCase (at_phone a)))
     \<and> if_text (oa_email q) (\<lambda>v. at_email a = v) \<and> if_text (oa_phone q) (\<lambda>v. at_phone a = trim v))"

definition listBookingOrderAttendees ::
    "id \<Rightarrow> tenant_role option \<Rightarrow> id \<Rightarrow> string \<Rightarrow> attendees_query \<Rightarrow> booking_db \<Rightarrow> (assigned list \<times> page_meta) res" where
  "listBookingOrderAttendees tenant role act number q d =
     bindR (getBookingOrderByOrderNumber tenant role act number d) (\<lambda>b.
       let p = parsePagination (oa_page q) (oa_limit q);
           rows = filter (assigned_where q) (order_attendees d tenant (bo_id b))
       in Inr (page_rows p rows, buildPaginationMeta (pg_page p) (pg_limit p) (int (length rows))))"

record attendee_draft =
  dr_fullName :: string
  dr_email :: string
  dr_phone :: string
  dr_profile :: attendee_profile
  dr_status :: attendee_status

record assign_input =
  ai_item :: id
  ai_attendee :: "id option"
  ai_draft :: "attendee_draft option"

definition draft_input :: "booking_order \<Rightarrow> order_item \<Rightarrow> attendee_draft \<Rightarrow> attendee_input" where
  "draft_input b i a =
     \<lparr>ca_event = bo_event b, ca_ticketType = oi_ticketType i, ca_order = Some (bo_id b), ca_fullName = dr_fullName a,
      ca_email = dr_email a, ca_phone = dr_phone a, ca_profile = dr_profile a, ca_checkedInAt = None,
      ca_checkedInBy = None, ca_status = dr_status a\<rparr>"

text \<open>The attendee of one assignment: an existing one, taken over by the order, or a new one.\<close>

definition assigned_attendee ::
    "booking_env \<Rightarrow> id \<Rightarrow> id \<Rightarrow> booking_order \<Rightarrow> order_item \<Rightarrow> assign_input \<Rightarrow> booking_db \<Rightarrow> (id \<times> booking_db) res" where
  "assigned_attendee E tenant act b i x d =
     (if truthy (ai_attendee x) then
        bindR (optR (findAttendee d tenant (the (ai_attendee x))) (badRequest ''Invalid attendeeId for tenant'')) (\<lambda>a.
        bindR (guardR (at_event a = bo_event b \<and> at_ticketType a = oi_ticketType i)
                 (badRequest ''attendeeId must match the booking order event and ticket type'')) (\<lambda>_.
        bindR (guardR (at_status a \<noteq> A_cancelled) (badRequest ''Cancelled attendees cannot be assigned'')) (\<lambda>_.
        let (u, d1) = updateAttendeeRecord (be_now E) tenant (at_id a) act
              ((no_attendee_update (at_updatedAt a))\<lparr>ua_order := Some (Some (bo_id b)),
                 ua_status := (if at_status a = A_pending then Some A_confirmed else None)\<rparr>) d
        in bindR (assertOptimisticUpdate u) (\<lambda>r. Inr (at_id a, d1)))))
      else case ai_draft x of
        Some a \<Rightarrow> (let (r, d1) = createAttendeeRecord E tenant act (normalizeEmail (dr_email a)) (trim (dr_phone a))
                                 (draft_input b i a) d in Inr (at_id r, d1))
      | None \<Rightarrow> Inl (badRequest ''Either attendeeId or attendee must be provided''))"

definition active_assignment :: "id \<Rightarrow> id \<Rightarrow> assignment \<Rightarrow> bool" where
  "active_assignment tenant att x \<longleftrightarrow> as_tenant x = tenant \<and> as_attendee x = att \<and> as_deletedAt x = None"

definition drop_assignment :: "time_ms \<Rightarrow> id \<Rightarrow> id \<Rightarrow> booking_db \<Rightarrow> booking_db" where
  "drop_assignment now tenant att d =
     (if list_ex (\<lambda>x. active_assignment tenant att x \<and> join_assignment d x \<noteq> []) (assignments d)
      then d\<lparr>assignments := update_where (active_assignment tenant att) (\<lambda>x. x\<lparr>as_deletedAt := Some now\<rparr>) (assignments d)\<rparr>
      else d)"

definition active_count :: "booking_db \<Rightarrow> id \<Rightarrow> id \<Rightarrow> nat" where
  "active_count d tenant item =
     length (filter (\<lambda>x. as_tenant x = tenant \<and> as_item x = item \<and> as_deletedAt x = None) (assignments d))"

definition insert_assignment :: "assignment \<Rightarrow> booking_db \<Rightarrow> booking_db res" where
  "insert_assignment x d =
     (if list_ex (active_assignment (as_tenant x) (as_attendee x)) (assignments d)
      then Inl (unique_violation ''booking_order_item_attendees_active_attendee_unique'')
      else if list_ex (\<lambda>y. as_item y = as_item x \<and> as_attendee y = as_attendee x \<and> as_deletedAt y = None) (assignments d)
      then Inl (unique_violation ''booking_order_item_attendees_active_item_attendee_unique'')
      else Inr (d\<lparr>assignments := assignments d @ [x], fresh := fresh d + 1\<rparr>))"

definition assign_one ::
    "booking_env \<Rightarrow> id \<Rightarrow> id \<Rightarrow> booking_order \<Rightarrow> order_item list \<Rightarrow> assign_input \<Rightarrow> id list \<times> booking_db
       \<Rightarrow> (id list \<times> booking_db) res" where
  "assign_one E tenant act b items x st =
     (let (ids, d) = st in
      bindR (optR (List.find (\<lambda>i. oi_id i = ai_item x) items)
               (badRequest ''bookingOrderItemId must belong to the specified order'')) (\<lambda>i.
      bindR (assigned_attendee E tenant act b i x d) (\<lambda>(att, d1).
      let d2 = drop_assignment (be_now E) tenant att d1 in
      bindR (guardR (int (active_count d2 tenant (oi_id i)) < oi_quantity i)
               (conflict ''No remaining capacity on this booking item'')) (\<lambda>_.
      let r = \<lparr>as_id = be_uuid E (fresh d2), as_tenant = tenant, as_order = bo_id b, as_item = oi_id i,
               as_attendee = att, as_assignedAt = be_now E, as_assignedBy = act, as_deletedAt = None\<rparr>
      in bindR (insert_assignment r d2) (\<lambda>d3. Inr (ids @ [as_id r], d3))))))"

definition assignBookingOrderAttendees ::
    "booking_env \<Rightarrow> id \<Rightarrow> tenant_role option \<Rightarrow> id \<Rightarrow> string \<Rightarrow> assign_input list \<Rightarrow> booking_db
       \<Rightarrow> (assigned list \<times> booking_db) res" where
  "assignBookingOrderAttendees E tenant role act number xs d =
     bindR (loadBookingOrderOrThrow d tenant number) (\<lambda>b.
     bindR (purchaser_or b act (canAssignBookingAttendees role)) (\<lambda>_.
     let items = items_of_order d tenant (bo_id b) in
     bindR (guardR (\<not> isTerminalStatus (bo_status b))
              (badRequest ''Attendees cannot be assigned to a terminal booking order'')) (\<lambda>_.
     bindR (forR (assign_one E tenant act b items) xs ([], d)) (\<lambda>(ids, d1).
     let rows = order_attendees d1 tenant (bo_id b) in
     bindR (reconcileIssuedTicketsForBookingOrder E tenant (bo_id b) d1) (\<lambda>d2.
       Inr (filter (\<lambda>r. List.member ids (as_id (fst r))) rows, d2))))))"

section \<open>The body of an update request\<close>

text \<open>
  \<open>booking-orders/middleware.ts\<close>: a cancellation needs a reason, unless the order is cancelled
  already, whose own reason is put in. The order number is taken as it stands in the path.
\<close>

definition valid_update_body :: "update_input \<Rightarrow> bool" where
  "valid_update_body i \<longleftrightarrow> \<not> (ub_status i = Some O_cancelled \<and> ub_reason i = None)
     \<and> (case ub_discount i of None \<Rightarrow> True | Some v \<Rightarrow> 0 \<le> v)"

definition validateUpdateBookingBody ::
    "booking_db \<Rightarrow> id \<Rightarrow> string \<Rightarrow> update_input \<Rightarrow> update_input res" where
  "validateUpdateBookingBody d tenant number i =
     (if valid_update_body i then Inr i
      else if ub_status i = Some O_cancelled \<and> ub_reason i = None then
        (case find_order_number d tenant number of
           Some b \<Rightarrow> if bo_status b = O_cancelled \<and> valid_update_body (i\<lparr>ub_reason := Some (bo_cancellationReason b)\<rparr>)
                     then Inr (i\<lparr>ub_reason := Some (bo_cancellationReason b)\<rparr>)
                     else Inl (badRequest ''Validation failed'')
         | None \<Rightarrow> Inl (badRequest ''Validation failed''))
      else Inl (badRequest ''Validation failed''))"

end
