(* ===== verification/JsNumber.thy ===== *)
theory JsNumber
  imports Complex_Main "HOL-Library.Log_Nat" Prelude
begin

text \<open>
  JavaScript numbers. A finite Number is a rational; every arithmetic operator computes the
  exact result and rounds it to binary64 (\<open>fl\<close>: 53 bits, ties to even; the range of the
  exponent is left out, the amounts of the program are far inside it). On top of it:
  \<open>Math.round\<close>, \<open>Math.ceil\<close>, \<open>toFixed(2)\<close> and \<open>parseFloat\<close> of a
  decimal column. A \<open>numeric(14,2)\<close> column is kept as its integer number of hundredths.
  The lemmas bound the error of each operation, and so say for which amounts the cents come
  out exact.
\<close>

section \<open>Rounding to binary64\<close>

definition pow2 :: "int \<Rightarrow> rat" where
  "pow2 k = (if 0 \<le> k then 2 ^ nat k else 1 / 2 ^ nat (- k))"

definition ilog2 :: "rat \<Rightarrow> int" where
  "ilog2 x = (let (p, q) = quotient_of x; k = bitlen p - bitlen q
              in if pow2 k \<le> x then k else k - 1)"

definition round_even :: "rat \<Rightarrow> int" where
  "round_even y = (let f = \<lfloor>y\<rfloor>; d = y - of_int f
                   in if d < 1 / 2 then f else if 1 / 2 < d then f + 1
                      else if even f then f else f + 1)"

definition fl_pos :: "rat \<Rightarrow> rat" where
  "fl_pos x = (let u = pow2 (ilog2 x - 52) in of_int (round_even (x / u)) * u)"

definition fl :: "rat \<Rightarrow> rat" where
  "fl x = (if x = 0 then 0 else if x < 0 then - fl_pos (- x) else fl_pos x)"

definition js_add :: "rat \<Rightarrow> rat \<Rightarrow> rat" where "js_add a b = fl (a + b)"
definition js_sub :: "rat \<Rightarrow> rat \<Rightarrow> rat" where "js_sub a b = fl (a - b)"
definition js_mul :: "rat \<Rightarrow> rat \<Rightarrow> rat" where "js_mul a b = fl (a * b)"
definition js_div :: "rat \<Rightarrow> rat \<Rightarrow> rat" where "js_div a b = fl (a / b)"

definition math_round :: "rat \<Rightarrow> int" where "math_round x = \<lfloor>x + 1 / 2\<rfloor>"
definition math_ceil :: "rat \<Rightarrow> int" where "math_ceil x = \<lceil>x\<rceil>"

text \<open>
  \<open>toFixed(2)\<close> picks the nearest hundredth of the magnitude, the larger of two; the result
  is given as a number of hundredths. \<open>parseFloat\<close> of a two-decimal text is the Number
  nearest to it.
\<close>

definition to_fixed2 :: "rat \<Rightarrow> int" where
  "to_fixed2 x = (if x < 0 then - \<lfloor>- x * 100 + 1 / 2\<rfloor> else \<lfloor>x * 100 + 1 / 2\<rfloor>)"

definition parse_dec :: "int \<Rightarrow> rat" where
  "parse_dec c = fl (of_int c / 100)"

section \<open>Error bounds\<close>

lemma pow2_pos [simp]: "0 < pow2 k"
  by (simp add: pow2_def)

lemma pow2_neq_0 [simp]: "pow2 k \<noteq> 0"
  using pow2_pos [of k] by linarith

lemma of_int_less_pow: "m < 2 ^ k \<Longrightarrow> rat_of_int m < 2 ^ k"
  using of_int_less_iff [of m "2 ^ k", where 'a = rat] by simp

lemma pow2_add: "pow2 (j + k) = pow2 j * pow2 k"
proof -
  have gen: "pow2 k = power_int 2 k" for k
    by (simp add: pow2_def power_int_def field_simps)
  show ?thesis by (simp add: gen power_int_add)
qed

lemma pow2_52: "pow2 (k - 52) = pow2 k / 2 ^ 52"
proof -
  have "pow2 (k + (-52)) = pow2 k * pow2 (-52)" by (rule pow2_add)
  then show ?thesis by (simp add: pow2_def)
qed

lemma pow2_nat: "pow2 (int n) = 2 ^ n"
  by (simp add: pow2_def)

lemma ilog2_le: "0 < x \<Longrightarrow> pow2 (ilog2 x) \<le> x"
proof -
  assume "0 < x"
  obtain p q where pq: "quotient_of x = (p, q)" by force
  then have q: "0 < q" by (rule quotient_of_denom_pos)
  have x: "x = of_int p / of_int q" by (rule quotient_of_div [OF pq])
  with \<open>0 < x\<close> q have p: "0 < p" by (simp add: zero_less_divide_iff)
  define a b where "a = nat (bitlen p)" and "b = nat (bitlen q)"
  have ab: "bitlen p = int a" "bitlen q = int b"
    by (simp_all add: a_def b_def bitlen_nonneg)
  from bitlen_bounds [OF p] p have a1: "0 < a" by (cases a) (auto simp: a_def)
  have lp: "2 ^ (a - 1) \<le> p"
  proof -
    have "nat (bitlen p - 1) = a - 1" by (simp add: a_def nat_diff_distrib')
    with bitlen_bounds [OF p] show ?thesis by simp
  qed
  have uq: "q < 2 ^ b"
    using bitlen_bounds [OF q] by (simp add: b_def)
  have "pow2 (int a - int b - 1) = pow2 (int (a - 1)) / pow2 (int b)"
    using pow2_add [of "int a - int b - 1" "int b"] a1
    by (simp add: field_simps of_nat_diff)
  also have "\<dots> = of_int (2 ^ (a - 1)) / of_int (2 ^ b)"
    unfolding pow2_nat by simp
  also have "\<dots> \<le> of_int p / of_int q"
    using lp uq q p by (intro frac_le) (auto simp flip: of_int_power)
  finally have low: "pow2 (int a - int b - 1) \<le> x" by (simp add: x)
  then show ?thesis
    by (auto simp: ilog2_def pq ab Let_def)
qed

lemma round_even_error: "\<bar>of_int (round_even y) - y\<bar> \<le> 1 / 2"
proof -
  have "of_int \<lfloor>y\<rfloor> \<le> y" "y < of_int \<lfloor>y\<rfloor> + 1" by linarith+
  then show ?thesis by (auto simp: round_even_def Let_def abs_le_iff)
qed

lemma round_even_of_int [simp]: "round_even (of_int n) = n"
  by (simp add: round_even_def)

lemma fl_pos_error: assumes "0 < x" shows "\<bar>fl_pos x - x\<bar> \<le> x / 2 ^ 53"
proof -
  define u where "u = pow2 (ilog2 x - 52)"
  have u: "0 < u" by (simp add: u_def)
  have "u \<le> x / 2 ^ 52"
    using ilog2_le [OF assms] by (simp add: u_def pow2_52 divide_right_mono)
  have "\<bar>fl_pos x - x\<bar> = \<bar>of_int (round_even (x / u)) - x / u\<bar> * u"
  proof -
    have "fl_pos x - x = (of_int (round_even (x / u)) - x / u) * u"
      using u by (simp add: fl_pos_def u_def [symmetric] Let_def left_diff_distrib)
    then show ?thesis using u by (simp add: abs_mult)
  qed
  also have "\<dots> \<le> 1 / 2 * u"
    using round_even_error [of "x / u"] u by (intro mult_right_mono) auto
  also have "\<dots> \<le> x / 2 ^ 53" using \<open>u \<le> x / 2 ^ 52\<close> by simp
  finally show ?thesis .
qed

lemma fl_error: "\<bar>fl x - x\<bar> \<le> \<bar>x\<bar> / 2 ^ 53"
proof -
  consider "x = 0" | "0 < x" | "x < 0" by linarith
  then show ?thesis
  proof cases
    case 3
    with fl_pos_error [of "- x"] have "\<bar>fl_pos (- x) - - x\<bar> \<le> - x / 2 ^ 53" by simp
    moreover have "\<bar>fl x - x\<bar> = \<bar>fl_pos (- x) - - x\<bar>" using 3 by (simp add: fl_def)
    ultimately show ?thesis using 3 by (simp only: abs_of_neg)
  qed (use fl_pos_error [of x] in \<open>auto simp: fl_def\<close>)
qed

lemma fl_0 [simp]: "fl 0 = 0"
  by (simp add: fl_def)

lemma fl_sign: "fl x < 0 \<longleftrightarrow> x < 0" "0 < fl x \<longleftrightarrow> 0 < x"
proof -
  have "\<bar>x\<bar> / 2 ^ 53 \<le> \<bar>x\<bar> / 2" by (intro divide_left_mono) auto
  with fl_error [of x] have e: "\<bar>fl x - x\<bar> \<le> \<bar>x\<bar> / 2" by linarith
  show "fl x < 0 \<longleftrightarrow> x < 0"
  proof (cases "x = 0")
    case False
    with e show ?thesis by (auto simp: abs_if split: if_splits)
  qed simp
  show "0 < fl x \<longleftrightarrow> 0 < x"
  proof (cases "x = 0")
    case False
    with e show ?thesis by (auto simp: abs_if split: if_splits)
  qed simp
qed

lemma fl_nonneg [simp]: "0 \<le> fl x \<longleftrightarrow> 0 \<le> x"
  using fl_sign(1) [of x] by linarith


section \<open>Exact cases\<close>

text \<open>A value with at most 53 significant bits is a Number: rounding keeps it.\<close>

lemma pow2_less_iff: "pow2 j < pow2 k \<longleftrightarrow> j < k"
proof -
  have gen: "pow2 k = power_int 2 k" for k
    by (simp add: pow2_def power_int_def field_simps)
  show ?thesis
    using power_int_strict_increasing [of j k "2 :: rat"]
      power_int_strict_increasing [of k j "2 :: rat"]
    by (cases j k rule: linorder_cases) (auto simp: gen)
qed

lemma fl_dyadic:
  assumes "\<bar>m\<bar> < 2 ^ 53"
  shows "fl (of_int m / 2 ^ j) = of_int m / 2 ^ j"
proof -
  have pos: "fl_pos (of_int m / 2 ^ j) = of_int m / 2 ^ j" if m: "0 < m" "m < 2 ^ 53" for m
  proof -
    define x :: rat where "x = of_int m / 2 ^ j"
    define e where "e = ilog2 x"
    have "0 < x" using m by (simp add: x_def)
    have "x < 2 ^ 53 / 2 ^ j"
      unfolding x_def using m by (intro divide_strict_right_mono of_int_less_pow) auto
    also have "\<dots> = pow2 (53 - int j)"
      using pow2_add [of "53 - int j" "int j"] pow2_nat [of 53] pow2_nat [of j]
      by (simp add: field_simps)
    finally have "pow2 e < pow2 (53 - int j)"
      using ilog2_le [OF \<open>0 < x\<close>] by (simp add: e_def)
    then have le: "0 \<le> 52 - e - int j" by (simp add: pow2_less_iff)
    have "pow2 (52 - e - int j) * pow2 (e - 52) * pow2 (int j) = pow2 0"
      by (simp flip: pow2_add)
    then have u: "x / pow2 (e - 52) = of_int m * pow2 (52 - e - int j)"
      by (simp add: x_def pow2_nat field_simps) (simp add: pow2_def)
    have "pow2 (52 - e - int j) = of_int (2 ^ nat (52 - e - int j))"
      using le by (simp add: pow2_def)
    with u have "x / pow2 (e - 52) = of_int (m * 2 ^ nat (52 - e - int j))" by simp
    then have "of_int (round_even (x / pow2 (e - 52))) = x / pow2 (e - 52)"
      by (metis round_even_of_int)
    then show ?thesis
      by (simp add: fl_pos_def e_def [symmetric] x_def [symmetric] Let_def
          )
  qed
  consider "m = 0" | "0 < m" | "m < 0" by linarith
  then show ?thesis
  proof cases
    case 2
    with pos [of m] assms show ?thesis by (simp add: fl_def divide_less_0_iff)
  next
    case 3
    with pos [of "- m"] assms show ?thesis
      by (simp add: fl_def divide_less_0_iff)
  qed simp
qed

lemma fl_of_int: "\<bar>m\<bar> < 2 ^ 53 \<Longrightarrow> fl (of_int m) = of_int m"
  using fl_dyadic [of m 0] by simp

lemma fl_half: "\<bar>m\<bar> < 2 ^ 53 \<Longrightarrow> fl (of_int m / 2) = of_int m / 2"
  using fl_dyadic [of m 1] by simp

section \<open>Cents\<close>

lemma to_fixed2_near: "\<bar>x - of_int c / 100\<bar> < 1 / 200 \<Longrightarrow> to_fixed2 x = c"
proof -
  assume near: "\<bar>x - of_int c / 100\<bar> < 1 / 200"
  show ?thesis
  proof (cases "x < 0")
    case True
    from near have "of_int (- c) \<le> - x * 100 + 1 / 2" "- x * 100 + 1 / 2 < of_int (- c) + 1"
      by (simp_all add: abs_if field_simps split: if_splits)
    then have "\<lfloor>- x * 100 + 1 / 2\<rfloor> = - c" by (simp add: floor_eq_iff)
    with True show ?thesis by (simp add: to_fixed2_def)
  next
    case False
    from near have "of_int c \<le> x * 100 + 1 / 2" "x * 100 + 1 / 2 < of_int c + 1"
      by (simp_all add: abs_if field_simps split: if_splits)
    then have "\<lfloor>x * 100 + 1 / 2\<rfloor> = c" by (simp add: floor_eq_iff)
    with False show ?thesis by (simp add: to_fixed2_def)
  qed
qed

lemma parse_dec_error: "\<bar>parse_dec c - of_int c / 100\<bar> \<le> of_int \<bar>c\<bar> / 100 / 2 ^ 53"
  using fl_error [of "of_int c / 100"] by (simp add: parse_dec_def)

lemma to_fixed2_parse_dec: "\<bar>c\<bar> < 2 ^ 52 \<Longrightarrow> to_fixed2 (parse_dec c) = c"
proof (rule to_fixed2_near)
  assume "\<bar>c\<bar> < 2 ^ 52"
  then have "rat_of_int \<bar>c\<bar> < 2 ^ 52" by (rule of_int_less_pow)
  with parse_dec_error [of c] show "\<bar>parse_dec c - of_int c / 100\<bar> < 1 / 200" by simp
qed

lemma parse_dec_nonneg: "0 \<le> c \<Longrightarrow> 0 \<le> parse_dec c"
  by (simp add: parse_dec_def)

lemma parse_dec_0 [simp]: "parse_dec 0 = 0"
  by (simp add: parse_dec_def)

text \<open>
  Sums: adding a value to an accumulator that is within \<open>e\<close> of its cents adds the two
  errors and one rounding.
\<close>

lemma js_add_error:
  assumes "\<bar>x - X\<bar> \<le> e" "\<bar>y - Y\<bar> \<le> f"
  shows "\<bar>js_add x y - (X + Y)\<bar> \<le> (e + f) + (\<bar>X + Y\<bar> + (e + f)) / 2 ^ 53"
proof -
  have "\<bar>x + y\<bar> \<le> \<bar>X + Y\<bar> + (e + f)" using assms by linarith
  then have "\<bar>x + y\<bar> / 2 ^ 53 \<le> (\<bar>X + Y\<bar> + (e + f)) / 2 ^ 53" by (simp add: divide_right_mono)
  with fl_error [of "x + y"] assms show ?thesis unfolding js_add_def by linarith
qed

lemma js_sub_error:
  assumes "\<bar>x - X\<bar> \<le> e" "\<bar>y - Y\<bar> \<le> f"
  shows "\<bar>js_sub x y - (X - Y)\<bar> \<le> (e + f) + (\<bar>X - Y\<bar> + (e + f)) / 2 ^ 53"
  using js_add_error [of x X e "- y" "- Y" f] assms by (simp add: js_add_def js_sub_def)

lemma js_sub_neg: "js_sub x y < 0 \<longleftrightarrow> x < y"
  by (simp add: js_sub_def fl_sign)


text \<open>
  Adding cents to a stored decimal: the result is within three roundings of the exact sum,
  so \<open>toFixed(2)\<close> gives the exact cents for all amounts up to \<open>2 ^ 48\<close> hundredths
  (a \<open>numeric(14,2)\<close> column stops below \<open>2 ^ 47\<close>).
\<close>

lemma cents_add_error:
  assumes "0 \<le> d" "0 \<le> a" "d + a < 2 ^ 48"
  shows "\<bar>js_add (parse_dec d) (parse_dec a) - of_int (d + a) / 100\<bar> < 1 / 1000"
proof -
  define D A where "D = rat_of_int d / 100" and "A = rat_of_int a / 100"
  have DA: "0 \<le> D" "0 \<le> A" "D + A < 2 ^ 48 / 100"
    using assms of_int_less_pow [of "d + a" 48] by (simp_all add: D_def A_def add_divide_distrib [symmetric])
  have e: "\<bar>parse_dec d - D\<bar> \<le> D / 2 ^ 53" "\<bar>parse_dec a - A\<bar> \<le> A / 2 ^ 53"
    using parse_dec_error [of d] parse_dec_error [of a] assms by (simp_all add: D_def A_def)
  have "\<bar>js_add (parse_dec d) (parse_dec a) - (D + A)\<bar>
      \<le> (D / 2 ^ 53 + A / 2 ^ 53) + (\<bar>D + A\<bar> + (D / 2 ^ 53 + A / 2 ^ 53)) / 2 ^ 53"
    by (rule js_add_error [OF e])
  also have "\<dots> < 1 / 1000"
  proof -
    define s where "s = (D + A) / 2 ^ 53"
    have "0 \<le> s" "s < 1 / 3200" using DA by (simp_all add: s_def)
    moreover from \<open>0 \<le> s\<close> have "s / 2 ^ 53 \<le> s" by simp
    moreover have "(D / 2 ^ 53 + A / 2 ^ 53) + (\<bar>D + A\<bar> + (D / 2 ^ 53 + A / 2 ^ 53)) / 2 ^ 53
        = s + (s + s / 2 ^ 53)"
      using DA by (simp add: s_def add_divide_distrib abs_of_nonneg)
    ultimately show ?thesis by linarith
  qed
  finally show ?thesis by (simp add: D_def A_def add_divide_distrib)
qed

lemma cents_error:
  assumes "0 \<le> d" "d < 2 ^ 48"
  shows "\<bar>parse_dec d - of_int d / 100\<bar> < 1 / 1000"
  using parse_dec_error [of d] assms of_int_less_pow [of d 48] by simp

lemma to_fixed2_add:
  "0 \<le> d \<Longrightarrow> 0 \<le> a \<Longrightarrow> d + a < 2 ^ 48 \<Longrightarrow>
    to_fixed2 (js_add (parse_dec d) (parse_dec a)) = d + a"
  by (rule to_fixed2_near) (use cents_add_error [of d a] in linarith)

lemma to_fixed2_sub:
  assumes "\<bar>x - of_int c / 100\<bar> < 1 / 1000" "\<bar>y - of_int d / 100\<bar> < 1 / 1000"
    and "0 \<le> c" "c < 2 ^ 48" "0 \<le> d" "d < 2 ^ 48"
  shows "to_fixed2 (js_sub x y) = c - d"
proof (rule to_fixed2_near)
  define C D where "C = rat_of_int c / 100" and "D = rat_of_int d / 100"
  have CD: "0 \<le> C" "C < 2 ^ 48 / 100" "0 \<le> D" "D < 2 ^ 48 / 100"
    using assms of_int_less_pow [of c 48] of_int_less_pow [of d 48] by (simp_all add: C_def D_def)
  have "\<bar>js_sub x y - (C - D)\<bar> \<le> (1/1000 + 1/1000) + (\<bar>C - D\<bar> + (1/1000 + 1/1000)) / 2 ^ 53"
    by (rule js_sub_error) (use assms in \<open>simp_all add: C_def D_def\<close>)
  also have "\<dots> < 1 / 200"
  proof -
    have "\<bar>C - D\<bar> < 2 ^ 48 / 100" using CD by linarith
    then have "(\<bar>C - D\<bar> + (1/1000 + 1/1000)) / 2 ^ 53 < 1 / 1000"
      by (simp add: divide_less_eq)
    then show ?thesis by linarith
  qed
  finally show "\<bar>js_sub x y - of_int (c - d) / 100\<bar> < 1 / 200"
    by (simp add: C_def D_def diff_divide_distrib)
qed

lemma near_less:
  assumes "\<bar>x - rat_of_int c / 100\<bar> < 1 / 1000" "\<bar>y - of_int d / 100\<bar> < 1 / 1000" and "c < d"
  shows "x < y"
proof -
  from \<open>c < d\<close> have "rat_of_int (c + 1) \<le> of_int d" by (simp only: of_int_le_iff)
  then have "rat_of_int c / 100 + 1 / 100 \<le> of_int d / 100" by simp
  with assms show ?thesis by linarith
qed

section \<open>Basis points\<close>

text \<open>
  \<open>Math.round((amount * bps) / 10000)\<close> rounds half up exactly as long as the product is
  an exact Number: the quotient of two integers is either half-way and then exact, or at
  least \<open>1/10000\<close> away from half-way, more than the rounding error.
\<close>

lemma math_round_div:
  assumes "0 \<le> n" "n < 2 ^ 53"
  shows "math_round (js_div (of_int n) 10000) = (2 * n + 10000) div 20000"
proof -
  define q where "q = (2 * n + 10000) div 20000"
  have lo: "20000 * q \<le> 2 * n + 10000" and hi: "2 * n + 10000 < 20000 * q + 20000"
    by (simp_all add: q_def)
  show ?thesis
  proof (cases "20000 * q = 2 * n + 10000")
    case True
    then have "rat_of_int (20000 * q) = of_int (2 * n + 10000)" by (simp only:)
    then have n: "rat_of_int n / 10000 = of_int (2 * q - 1) / 2" by (simp add: field_simps)
    have "\<bar>2 * q - 1\<bar> < 2 ^ 53" using True assms by auto
    then have "fl (of_int n / 10000) = of_int (2 * q - 1) / 2" by (simp only: n fl_half)
    then have "fl (of_int n / 10000) + 1 / 2 = of_int q" by simp
    then have "\<lfloor>fl (of_int n / 10000) + 1 / 2\<rfloor> = q" by simp
    then show ?thesis by (simp add: js_div_def math_round_def q_def)
  next
    case False
    have "rat_of_int n / 10000 / 2 ^ 53 < 1 / 10000"
      using of_int_less_pow [OF assms(2)] by simp
    then have e: "\<bar>fl (of_int n / 10000) - of_int n / 10000\<bar> < 1 / 10000"
      using fl_error [of "rat_of_int n / 10000"] assms(1) by (simp add: abs_of_nonneg)
    have "10000 * q < n + 5000" using lo False by linarith
    then have "20000 * q + 2 \<le> 2 * n + 10000" by linarith
    then have "rat_of_int (20000 * q + 2) \<le> of_int (2 * n + 10000)" by (simp only: of_int_le_iff)
    then have "of_int q + 2 / 20000 \<le> rat_of_int n / 10000 + 1 / 2" by (simp add: field_simps)
    moreover have "n + 5000 < 10000 * q + 10000" using hi by linarith
    then have "2 * n + 10000 + 2 \<le> 20000 * q + 20000" by linarith
    then have "rat_of_int (2 * n + 10000 + 2) \<le> of_int (20000 * q + 20000)"
      by (simp only: of_int_le_iff)
    then have "rat_of_int n / 10000 + 1 / 2 + 2 / 20000 \<le> of_int q + 1" by (simp add: field_simps)
    ultimately have "of_int q \<le> fl (of_int n / 10000) + 1 / 2"
        "fl (of_int n / 10000) + 1 / 2 < of_int q + 1"
      using e by linarith+
    then have "\<lfloor>fl (of_int n / 10000) + 1 / 2\<rfloor> = q" by (simp add: floor_eq_iff)
    then show ?thesis by (simp add: js_div_def math_round_def q_def)
  qed
qed

end
