(* ===== verification/GroupBookings.thy ===== *)
theory GroupBookings
  imports BookingOrders Steps JsNumber
begin

text \<open>
  \<open>src/modules/group-bookings\<close>, schema, repository and service: several people pay for one
  booking order. A group has members with a share each; when the contributions reach the total, the
  order is confirmed. The service runs in a transaction over the group tables, but the order operations
  and the notifications it calls use connections of their own: what they did stays when the surrounding
  transaction throws. The text and metadata of activities and notifications are left out.
\<close>

section \<open>Tables\<close>

datatype group_status = G_draft | G_active | G_completed | G_cancelled | G_expired
datatype invite_status = I_invited | I_accepted | I_declined

record group_booking =
  gb_id :: id
  gb_tenant :: id
  gb_event :: id
  gb_order :: id
  gb_createdBy :: id
  gb_title :: string
  gb_status :: group_status
  gb_total :: int
  gb_collected :: int
  gb_expiresAt :: "time_ms option"
  gb_createdAt :: time_ms
  gb_updatedAt :: time_ms
  gb_deletedAt :: "time_ms option"
  gb_version :: int

record group_member =
  gm_id :: id
  gm_group :: id
  gm_user :: id
  gm_owner :: bool
  gm_invite :: invite_status
  gm_contribution :: int
  gm_paid :: int
  gm_joinedAt :: "time_ms option"
  gm_updatedAt :: time_ms
  gm_deletedAt :: "time_ms option"
  gm_version :: int

record group_activity =
  ga_group :: id
  ga_actor :: "id option"
  ga_type :: string
  ga_createdAt :: time_ms

record notification =
  nt_tenant :: id
  nt_user :: id
  nt_type :: string
  nt_entity :: id

record notify_preference =
  np_tenant :: id
  np_user :: id
  np_inApp :: bool

record group_world =
  gw_shop :: booking_db
  gw_groups :: "group_booking list"
  gw_members :: "group_member list"
  gw_activity :: "group_activity list"
  gw_notes :: "notification list"
  gw_prefs :: "notify_preference list"
  gw_next :: nat

text \<open>
  The outside: that of the bookings and, for each of the order operations called, the faults of its
  transaction.
\<close>

record group_env =
  ge_shop :: booking_env
  ge_faults :: "nat \<Rightarrow> js_error option"

definition ge_now :: "group_env \<Rightarrow> time_ms" where "ge_now E = be_now (ge_shop E)"
definition ge_uuid :: "group_env \<Rightarrow> nat \<Rightarrow> id" where "ge_uuid E = be_uuid (ge_shop E)"

type_synonym 'a group_step = "(group_world, 'a) step"

text \<open>A transaction over the group tables.\<close>

definition group_undo :: "group_world \<Rightarrow> group_world \<Rightarrow> group_world" where
  "group_undo w w' = w'\<lparr>gw_groups := gw_groups w, gw_members := gw_members w, gw_activity := gw_activity w,
     gw_next := gw_next w\<rparr>"

definition group_tx :: "'a group_step \<Rightarrow> 'a group_step" where "group_tx m = atomic group_undo m"

section \<open>Repository\<close>

definition findGroupBookingById :: "id \<Rightarrow> id \<Rightarrow> group_world \<Rightarrow> group_booking option" where
  "findGroupBookingById tenant i w =
     List.find (\<lambda>g. gb_tenant g = tenant \<and> gb_id g = i \<and> gb_deletedAt g = None) (gw_groups w)"

text \<open>A \<open>numeric(14,2)\<close> column holds less than \<open>10 ^ 12\<close>.\<close>

definition fits :: "int \<Rightarrow> bool" where "fits n \<longleftrightarrow> \<bar>n\<bar> < 10 ^ 14"

definition overflow :: js_error where "overflow = DbErr ''22003'' ''numeric field overflow''"

definition createGroupBookingRecord :: "(nat \<Rightarrow> id) \<Rightarrow> group_booking \<Rightarrow> group_world \<Rightarrow> (group_booking \<times> group_world) res" where
  "createGroupBookingRecord uuid g w =
     (let r = g\<lparr>gb_id := uuid (gw_next w)\<rparr>
      in if fits (gb_total g) then Inr (r, w\<lparr>gw_groups := gw_groups w @ [r], gw_next := Suc (gw_next w)\<rparr>) else Inl overflow)"

text \<open>The status, if given, under the optimistic lock; the row after the update, none when nothing matched.\<close>

definition updateGroupBookingRecord ::
    "time_ms \<Rightarrow> id \<Rightarrow> id \<Rightarrow> group_status option \<Rightarrow> time_ms \<Rightarrow> group_world \<Rightarrow> (group_booking option \<times> group_world) res" where
  "updateGroupBookingRecord now tenant i st lastKnown w =
     (let hit = (\<lambda>g. gb_tenant g = tenant \<and> gb_id g = i \<and> optimisticLock (gb_updatedAt g) lastKnown \<and> gb_deletedAt g = None);
          f = (\<lambda>g. g\<lparr>gb_status := put st (gb_status g), gb_version := gb_version g + 1, gb_updatedAt := now\<rparr>)
      in Inr (map_option f (List.find hit (gw_groups w)), w\<lparr>gw_groups := update_where hit f (gw_groups w)\<rparr>))"

definition is_member :: "id \<Rightarrow> id \<Rightarrow> group_member \<Rightarrow> bool" where
  "is_member g u m \<longleftrightarrow> gm_group m = g \<and> gm_user m = u \<and> gm_deletedAt m = None"

definition findGroupBookingMember :: "id \<Rightarrow> id \<Rightarrow> group_world \<Rightarrow> group_member option" where
  "findGroupBookingMember g u w = List.find (is_member g u) (gw_members w)"

definition addGroupBookingMember :: "(nat \<Rightarrow> id) \<Rightarrow> group_member \<Rightarrow> group_world \<Rightarrow> (group_member \<times> group_world) res" where
  "addGroupBookingMember uuid m w =
     (let r = m\<lparr>gm_id := uuid (gw_next w)\<rparr>
      in if fits (gm_contribution m) \<and> fits (gm_paid m)
         then Inr (r, w\<lparr>gw_members := gw_members w @ [r], gw_next := Suc (gw_next w)\<rparr>) else Inl overflow)"

definition updateGroupBookingMemberRecord ::
    "time_ms \<Rightarrow> id \<Rightarrow> (group_member \<Rightarrow> group_member) \<Rightarrow> group_world \<Rightarrow> (group_member option \<times> group_world) res" where
  "updateGroupBookingMemberRecord now i f w =
     (let hit = (\<lambda>m. gm_id m = i \<and> gm_deletedAt m = None);
          g = (\<lambda>m. (f m)\<lparr>gm_version := gm_version m + 1, gm_updatedAt := now\<rparr>)
      in if list_all (\<lambda>m. hit m \<longrightarrow> fits (gm_contribution (f m)) \<and> fits (gm_paid (f m))) (gw_members w)
         then Inr (map_option g (List.find hit (gw_members w)), w\<lparr>gw_members := update_where hit g (gw_members w)\<rparr>)
         else Inl overflow)"

definition removeGroupBookingMember :: "time_ms \<Rightarrow> id \<Rightarrow> id \<Rightarrow> group_world \<Rightarrow> group_world" where
  "removeGroupBookingMember now g u w =
     w\<lparr>gw_members := update_where (is_member g u) (\<lambda>m. m\<lparr>gm_deletedAt := Some now, gm_updatedAt := now\<rparr>) (gw_members w)\<rparr>"

definition listGroupBookingMembers :: "id \<Rightarrow> group_world \<Rightarrow> group_member list" where
  "listGroupBookingMembers g w = filter (\<lambda>m. gm_group m = g \<and> gm_deletedAt m = None) (gw_members w)"

definition createGroupBookingActivityRecord :: "time_ms \<Rightarrow> id \<Rightarrow> id option \<Rightarrow> string \<Rightarrow> group_world \<Rightarrow> group_world" where
  "createGroupBookingActivityRecord now g act ty w =
     w\<lparr>gw_activity := gw_activity w @ [\<lparr>ga_group = g, ga_actor = act, ga_type = ty, ga_createdAt = now\<rparr>]\<rparr>"

text \<open>\<open>createInAppNotification\<close> of \<open>modules/notifications/service.ts\<close>.\<close>

definition createInAppNotification :: "id \<Rightarrow> id \<Rightarrow> string \<Rightarrow> id \<Rightarrow> group_world \<Rightarrow> group_world" where
  "createInAppNotification tenant u ty entity w =
     (if (case List.find (\<lambda>p. np_tenant p = tenant \<and> np_user p = u) (gw_prefs w) of
            None \<Rightarrow> False | Some p \<Rightarrow> \<not> np_inApp p) then w
      else w\<lparr>gw_notes := gw_notes w @ [\<lparr>nt_tenant = tenant, nt_user = u, nt_type = ty, nt_entity = entity\<rparr>]\<rparr>)"

definition notify_members :: "id \<Rightarrow> string \<Rightarrow> id \<Rightarrow> group_member list \<Rightarrow> group_world \<Rightarrow> group_world" where
  "notify_members tenant ty g ms w =
     foldl (\<lambda>w m. createInAppNotification tenant (gm_user m) ty g w) w (filter (\<lambda>m. gm_invite m = I_accepted) ms)"

section \<open>The order of a group\<close>

definition no_update :: "time_ms \<Rightarrow> update_input" where
  "no_update lastKnown = \<lparr>ub_status = None, ub_source = None, ub_discount = None, ub_expiresAt = None,
     ub_notes = None, ub_metadata = None, ub_reason = None, ub_lastKnown = lastKnown\<rparr>"

text \<open>The order is changed in the name of an owner, on a connection of its own.\<close>

definition change_order :: "group_env \<Rightarrow> id \<Rightarrow> id \<Rightarrow> booking_order \<Rightarrow> (update_input \<Rightarrow> update_input) \<Rightarrow> unit group_step" where
  "change_order E tenant act b f = attempt (\<lambda>w.
     bindR (updateBookingOrderByOrderNumber (ge_shop E) (ge_faults E) tenant (Some owner) act (bo_number b)
              (f (no_update (bo_updatedAt b))) (gw_shop w)) (\<lambda>(r, s). Inr ((), w\<lparr>gw_shop := s\<rparr>)))"

definition ended_order :: "order_status \<Rightarrow> bool" where
  "ended_order s \<longleftrightarrow> s = O_cancelled \<or> s = O_expired"

definition close_order :: "group_env \<Rightarrow> id \<Rightarrow> id \<Rightarrow> id \<Rightarrow> (update_input \<Rightarrow> update_input) \<Rightarrow> unit group_step" where
  "close_order E tenant act orderId f =
     bnd (peek (\<lambda>w. find_order (gw_shop w) tenant orderId)) (\<lambda>b.
       case b of None \<Rightarrow> ret ()
       | Some b \<Rightarrow> if ended_order (bo_status b) then ret () else change_order E tenant act b f)"

definition overdue :: "time_ms \<Rightarrow> group_booking \<Rightarrow> bool" where
  "overdue now g \<longleftrightarrow> (gb_status g = G_active \<or> gb_status g = G_draft)
     \<and> (case gb_expiresAt g of None \<Rightarrow> False | Some t \<Rightarrow> t < now)"

definition checkAndProcessExpiration :: "group_env \<Rightarrow> id \<Rightarrow> group_booking \<Rightarrow> group_booking group_step" where
  "checkAndProcessExpiration E tenant g =
     (if overdue (ge_now E) g then
        let hit = (\<lambda>x. gb_id x = gb_id g \<and> gb_version x = gb_version g);
            f = (\<lambda>x. x\<lparr>gb_status := G_expired, gb_version := gb_version x + 1, gb_updatedAt := ge_now E\<rparr>)
        in bnd (peek (\<lambda>w. map_option f (List.find hit (gw_groups w)))) (\<lambda>expired.
           bnd (alter (\<lambda>w. w\<lparr>gw_groups := update_where hit f (gw_groups w)\<rparr>)) (\<lambda>_.
           case expired of None \<Rightarrow> ret g
           | Some x \<Rightarrow>
               bnd (close_order E tenant (gb_createdBy g) (gb_order g) (\<lambda>i. i\<lparr>ub_status := Some O_expired\<rparr>)) (\<lambda>_.
               bnd (alter (createGroupBookingActivityRecord (ge_now E) (gb_id g) None ''booking_expired'')) (\<lambda>_.
               bnd (peek (listGroupBookingMembers (gb_id g))) (\<lambda>ms.
               bnd (alter (notify_members tenant ''group_booking_expired'' (gb_id g) ms)) (\<lambda>_. ret x))))))
      else ret g)"

section \<open>Creating and reading\<close>

definition group_not_found :: js_error where "group_not_found = notFound ''Group booking not found''"

record group_input =
  gi_event :: id
  gi_items :: "item_request list"
  gi_title :: "string option"

definition group_order :: "id \<Rightarrow> group_input \<Rightarrow> create_input" where
  "group_order u i = \<lparr>cb_event = gi_event i, cb_eventDate = None, cb_purchaser = u, cb_status = O_pending,
     cb_source = ''web'', cb_discount = 0, cb_expiresAt = None, cb_notes = None, cb_metadata = None,
     cb_items = gi_items i\<rparr>"

definition new_group :: "time_ms \<Rightarrow> id \<Rightarrow> id \<Rightarrow> group_input \<Rightarrow> booking_order \<Rightarrow> group_booking" where
  "new_group now tenant u i b =
     \<lparr>gb_id = [], gb_tenant = tenant, gb_event = gi_event i, gb_order = bo_id b, gb_createdBy = u,
      gb_title = (if truthy (gi_title i) then the (gi_title i) else ''Group Booking for '' @ bo_number b),
      gb_status = G_active, gb_total = bo_total b, gb_collected = 0,
      gb_expiresAt = Some (case bo_expiresAt b of Some t \<Rightarrow> t | None \<Rightarrow> now + 24 * 60 * 60 * 1000),
      gb_createdAt = now, gb_updatedAt = now, gb_deletedAt = None, gb_version = 1\<rparr>"

definition new_member :: "time_ms \<Rightarrow> id \<Rightarrow> id \<Rightarrow> group_member" where
  "new_member now g u =
     \<lparr>gm_id = [], gm_group = g, gm_user = u, gm_owner = False, gm_invite = I_invited, gm_contribution = 0, gm_paid = 0,
      gm_joinedAt = None, gm_updatedAt = now, gm_deletedAt = None, gm_version = 1\<rparr>"

definition createGroupBooking :: "group_env \<Rightarrow> id \<Rightarrow> id \<Rightarrow> group_input \<Rightarrow> group_booking group_step" where
  "createGroupBooking E tenant u i = group_tx (
     bnd (attempt (\<lambda>w. bindR (createBookingOrder (ge_shop E) (ge_faults E) tenant (Some owner) u (group_order u i) (gw_shop w))
            (\<lambda>((b, rows), s). Inr (b, w\<lparr>gw_shop := s\<rparr>)))) (\<lambda>b.
     bnd (attempt (createGroupBookingRecord (ge_uuid E) (new_group (ge_now E) tenant u i b))) (\<lambda>g.
     bnd (attempt (addGroupBookingMember (ge_uuid E) ((new_member (ge_now E) (gb_id g) u)\<lparr>gm_owner := True,
            gm_invite := I_accepted, gm_contribution := gb_total g, gm_joinedAt := Some (ge_now E)\<rparr>))) (\<lambda>_.
     bnd (alter (createGroupBookingActivityRecord (ge_now E) (gb_id g) (Some u) ''created'')) (\<lambda>_.
     ret g)))))"

definition assertMember :: "id \<Rightarrow> id \<Rightarrow> group_member group_step" where
  "assertMember g u = fetch (findGroupBookingMember g u) (forbidden ''You are not a member of this group booking'')"

text \<open>Every operation on one group begins by loading it and settling whether its time is over.\<close>

definition load_group :: "group_env \<Rightarrow> id \<Rightarrow> id \<Rightarrow> group_booking group_step" where
  "load_group E tenant i =
     bnd (fetch (findGroupBookingById tenant i) group_not_found) (checkAndProcessExpiration E tenant)"

definition active_group :: "group_env \<Rightarrow> id \<Rightarrow> id \<Rightarrow> string \<Rightarrow> group_booking group_step" where
  "active_group E tenant i why =
     bnd (load_group E tenant i) (\<lambda>g. bnd (check (gb_status g = G_active) (badRequest why)) (\<lambda>_. ret g))"

definition owner_only :: "id \<Rightarrow> id \<Rightarrow> string \<Rightarrow> unit group_step" where
  "owner_only g u why = bnd (assertMember g u) (\<lambda>m. check (gm_owner m) (forbidden why))"

definition getGroupBooking :: "group_env \<Rightarrow> id \<Rightarrow> id \<Rightarrow> id \<Rightarrow> (group_booking \<times> group_member list) group_step" where
  "getGroupBooking E tenant i u = group_tx (
     bnd (load_group E tenant i) (\<lambda>g.
     bnd (assertMember (gb_id g) u) (\<lambda>_.
     bnd (peek (listGroupBookingMembers (gb_id g))) (\<lambda>ms. ret (g, ms)))))"

text \<open>The groups a user is a member of, newest first, each with its number of accepted members.\<close>

record group_query =
  gq_page :: "rat option"
  gq_limit :: "rat option"
  gq_status :: "group_status option"
  gq_event :: "id option"

definition group_where :: "group_world \<Rightarrow> id \<Rightarrow> id \<Rightarrow> group_query \<Rightarrow> group_booking \<Rightarrow> bool" where
  "group_where w tenant u q g \<longleftrightarrow> gb_tenant g = tenant \<and> gb_deletedAt g = None
     \<and> if_given (gq_status q) (\<lambda>v. gb_status g = v) \<and> if_text (gq_event q) (\<lambda>v. gb_event g = v)
     \<and> list_ex (\<lambda>m. gm_group m = gb_id g \<and> gm_user m = u \<and> gm_deletedAt m = None) (gw_members w)"

definition accepted_count :: "id \<Rightarrow> group_world \<Rightarrow> nat" where
  "accepted_count g w = length (filter (\<lambda>m. gm_group m = g \<and> gm_invite m = I_accepted \<and> gm_deletedAt m = None) (gw_members w))"

definition listGroupBookingsService ::
    "group_env \<Rightarrow> id \<Rightarrow> id \<Rightarrow> group_query \<Rightarrow> ((group_booking \<times> nat) list \<times> page_meta) group_step" where
  "listGroupBookingsService E tenant u q =
     (let p = parsePagination (gq_page q) (gq_limit q)
      in group_tx (
        bnd (peek (\<lambda>w. order_rows Desc gb_createdAt (filter (group_where w tenant u q) (gw_groups w)))) (\<lambda>rows.
        bnd (peek (\<lambda>w. map (\<lambda>g. (gb_id g, accepted_count (gb_id g) w)) (page_rows p rows))) (\<lambda>counts.
        bnd (collect (\<lambda>g. bnd (checkAndProcessExpiration E tenant g)
               (\<lambda>x. ret (x, coalesce (map_of counts (gb_id x)) 0))) (page_rows p rows)) (\<lambda>items.
        ret (items, buildPaginationMeta (pg_page p) (pg_limit p) (int (length rows))))))))"

section \<open>Members\<close>

definition group_log :: "group_env \<Rightarrow> id \<Rightarrow> id option \<Rightarrow> string \<Rightarrow> unit group_step" where
  "group_log E g act ty = alter (createGroupBookingActivityRecord (ge_now E) g act ty)"

definition announce_invite :: "group_env \<Rightarrow> id \<Rightarrow> id \<Rightarrow> id \<Rightarrow> id \<Rightarrow> unit group_step" where
  "announce_invite E tenant g act u =
     bnd (group_log E g (Some act) ''member_invited'') (\<lambda>_.
     alter (createInAppNotification tenant u ''invited_to_group'' g))"

definition inviteMember :: "group_env \<Rightarrow> id \<Rightarrow> id \<Rightarrow> id \<Rightarrow> id \<Rightarrow> group_member option group_step" where
  "inviteMember E tenant i act u = group_tx (
     bnd (active_group E tenant i ''Invitations can only be sent for active group bookings'') (\<lambda>g.
     bnd (owner_only (gb_id g) act ''Only the group booking owner can invite members'') (\<lambda>_.
     bnd (peek (findGroupBookingMember (gb_id g) u)) (\<lambda>existing.
     case existing of
       Some m \<Rightarrow>
         bnd (check (gm_invite m = I_declined) (conflict ''User is already a member or has a pending invitation'')) (\<lambda>_.
         bnd (attempt (updateGroupBookingMemberRecord (ge_now E) (gm_id m) (\<lambda>x. x\<lparr>gm_invite := I_invited,
                gm_contribution := 0, gm_paid := 0, gm_joinedAt := None\<rparr>))) (\<lambda>r.
         bnd (announce_invite E tenant (gb_id g) act u) (\<lambda>_. ret r)))
     | None \<Rightarrow>
         bnd (attempt (addGroupBookingMember (ge_uuid E) (new_member (ge_now E) (gb_id g) u))) (\<lambda>r.
         bnd (announce_invite E tenant (gb_id g) act u) (\<lambda>_. ret (Some r)))))))"

definition no_invitation :: js_error where
  "no_invitation = badRequest ''No pending invitation found for this user''"

definition invited_member :: "id \<Rightarrow> id \<Rightarrow> group_member group_step" where
  "invited_member g u =
     bnd (fetch (findGroupBookingMember g u) no_invitation) (\<lambda>m.
     bnd (check (gm_invite m = I_invited) no_invitation) (\<lambda>_. ret m))"

definition acceptInvitation :: "group_env \<Rightarrow> id \<Rightarrow> id \<Rightarrow> id \<Rightarrow> group_member option group_step" where
  "acceptInvitation E tenant i u = group_tx (
     bnd (active_group E tenant i ''Invitations can only be accepted for active group bookings'') (\<lambda>g.
     bnd (invited_member (gb_id g) u) (\<lambda>m.
     bnd (attempt (updateGroupBookingMemberRecord (ge_now E) (gm_id m)
            (\<lambda>x. x\<lparr>gm_invite := I_accepted, gm_joinedAt := Some (ge_now E)\<rparr>))) (\<lambda>r.
     bnd (group_log E (gb_id g) (Some u) ''member_joined'') (\<lambda>_.
     bnd (alter (createInAppNotification tenant (gb_createdBy g) ''invite_accepted'' (gb_id g))) (\<lambda>_. ret r))))))"

definition declineInvitation :: "group_env \<Rightarrow> id \<Rightarrow> id \<Rightarrow> id \<Rightarrow> group_member option group_step" where
  "declineInvitation E tenant i u = group_tx (
     bnd (active_group E tenant i ''Invitations can only be declined for active group bookings'') (\<lambda>g.
     bnd (invited_member (gb_id g) u) (\<lambda>m.
     bnd (attempt (updateGroupBookingMemberRecord (ge_now E) (gm_id m) (\<lambda>x. x\<lparr>gm_invite := I_declined\<rparr>))) (\<lambda>r.
     bnd (group_log E (gb_id g) (Some u) ''member_declined'') (\<lambda>_. ret r)))))"

text \<open>An update that only moves the version forward, when the caller gave the time it knows.\<close>

definition touch_group :: "group_env \<Rightarrow> id \<Rightarrow> id \<Rightarrow> time_ms \<Rightarrow> unit group_step" where
  "touch_group E tenant i lastKnown =
     bnd (attempt (updateGroupBookingRecord (ge_now E) tenant i None lastKnown)) (\<lambda>r.
     bnd (lift (assertOptimisticUpdate r)) (\<lambda>_. ret ()))"

definition removeMember :: "group_env \<Rightarrow> id \<Rightarrow> id \<Rightarrow> id \<Rightarrow> id \<Rightarrow> time_ms option \<Rightarrow> unit group_step" where
  "removeMember E tenant i act u lastKnown = group_tx (
     bnd (active_group E tenant i ''Members can only be removed from active group bookings'') (\<lambda>g.
     bnd (case lastKnown of None \<Rightarrow> ret () | Some t \<Rightarrow> touch_group E tenant i t) (\<lambda>_.
     bnd (owner_only (gb_id g) act ''Only the group booking owner can remove members'') (\<lambda>_.
     bnd (fetch (findGroupBookingMember (gb_id g) u) (notFound ''Member to remove not found'')) (\<lambda>m.
     bnd (check (\<not> gm_owner m) (badRequest ''Cannot remove the owner of the group booking'')) (\<lambda>_.
     bnd (check (\<not> 0 < parse_dec (gm_paid m))
            (badRequest ''Cannot remove member who has already contributed payments'')) (\<lambda>_.
     bnd (peek (findGroupBookingMember (gb_id g) (gb_createdBy g))) (\<lambda>own.
     bnd (case own of None \<Rightarrow> ret ()
          | Some o' \<Rightarrow> bnd (attempt (updateGroupBookingMemberRecord (ge_now E) (gm_id o') (\<lambda>x. x\<lparr>gm_contribution :=
                  to_fixed2 (js_add (parse_dec (gm_contribution o')) (parse_dec (gm_contribution m)))\<rparr>))) (\<lambda>_. ret ())) (\<lambda>_.
     bnd (alter (removeGroupBookingMember (ge_now E) (gb_id g) u)) (\<lambda>_.
     group_log E (gb_id g) (Some act) ''member_removed''))))))))))"

section \<open>Shares\<close>

definition share_member :: "group_member list \<Rightarrow> id \<Rightarrow> group_member option" where
  "share_member ms u = List.find (\<lambda>m. gm_user m = u) (rev ms)"

text \<open>The texts of these errors leave out the amounts they quote.\<close>

definition check_share :: "group_member list \<Rightarrow> id \<times> rat \<Rightarrow> rat \<Rightarrow> rat res" where
  "check_share ms s acc =
     bindR (optR (share_member ms (fst s)) (badRequest (''User '' @ fst s @ '' is not a member of this group booking''))) (\<lambda>m.
     bindR (guardR (gm_invite m = I_accepted) (badRequest (''User '' @ fst s @ '' has not accepted the invitation yet''))) (\<lambda>_.
     bindR (guardR (\<not> snd s < parse_dec (gm_paid m))
       (badRequest (''New share amount for user '' @ fst s @ '' cannot be less than their paid amount''))) (\<lambda>_.
     Inr (js_add acc (snd s)))))"

definition set_share :: "group_env \<Rightarrow> group_member list \<Rightarrow> id \<times> rat \<Rightarrow> unit group_step" where
  "set_share E ms s =
     (case share_member ms (fst s) of None \<Rightarrow> ret ()
      | Some m \<Rightarrow> bnd (attempt (updateGroupBookingMemberRecord (ge_now E) (gm_id m)
                   (\<lambda>x. x\<lparr>gm_contribution := to_fixed2 (snd s)\<rparr>))) (\<lambda>_. ret ()))"

definition updateShares :: "group_env \<Rightarrow> id \<Rightarrow> id \<Rightarrow> id \<Rightarrow> (id \<times> rat) list \<Rightarrow> time_ms \<Rightarrow> unit group_step" where
  "updateShares E tenant i act shares lastKnown = group_tx (
     bnd (active_group E tenant i ''Shares can only be updated for active group bookings'') (\<lambda>g.
     bnd (touch_group E tenant i lastKnown) (\<lambda>_.
     bnd (owner_only (gb_id g) act ''Only the group booking owner can reallocate contribution shares'') (\<lambda>_.
     bnd (peek (listGroupBookingMembers (gb_id g))) (\<lambda>ms.
     bnd (lift (forR (check_share ms) shares 0)) (\<lambda>sum.
     bnd (check (\<not> fl (1 / 100) < \<bar>js_sub sum (parse_dec (gb_total g))\<bar>)
            (badRequest ''The sum of all shares must exactly equal the booking order's total amount'')) (\<lambda>_.
     bnd (each (set_share E ms) shares) (\<lambda>_.
     group_log E (gb_id g) (Some act) ''share_updated''))))))))"

section \<open>Contributions\<close>

definition complete_group :: "group_env \<Rightarrow> id \<Rightarrow> group_booking \<Rightarrow> unit group_step" where
  "complete_group E tenant g =
     bnd (alter (\<lambda>w. w\<lparr>gw_groups := update_where (\<lambda>x. gb_id x = gb_id g)
            (\<lambda>x. x\<lparr>gb_status := G_completed, gb_updatedAt := ge_now E\<rparr>) (gw_groups w)\<rparr>)) (\<lambda>_.
     bnd (peek (\<lambda>w. find_order (gw_shop w) tenant (gb_order g))) (\<lambda>b.
     bnd (case b of None \<Rightarrow> ret ()
          | Some b \<Rightarrow> change_order E tenant (gb_createdBy g) b (\<lambda>i. i\<lparr>ub_status := Some O_confirmed\<rparr>)) (\<lambda>_.
     bnd (group_log E (gb_id g) None ''booking_completed'') (\<lambda>_.
     bnd (peek (listGroupBookingMembers (gb_id g))) (\<lambda>ms.
     alter (notify_members tenant ''group_booking_completed'' (gb_id g) ms))))))"

definition collect_amount :: "group_env \<Rightarrow> group_booking \<Rightarrow> rat \<Rightarrow> time_ms option \<Rightarrow> group_booking group_step" where
  "collect_amount E g amount lastKnown =
     (let hit = (\<lambda>x. gb_id x = gb_id g \<and> gb_deletedAt x = None
                   \<and> (case lastKnown of None \<Rightarrow> True | Some t \<Rightarrow> optimisticLock (gb_updatedAt x) t));
          f = (\<lambda>x. x\<lparr>gb_collected := gb_collected x + to_fixed2 amount, gb_version := gb_version x + 1, gb_updatedAt := ge_now E\<rparr>)
      in bnd (peek (\<lambda>w. map_option f (List.find hit (gw_groups w)))) (\<lambda>r.
         bnd (check (case r of None \<Rightarrow> True | Some x \<Rightarrow> fits (gb_collected x)) overflow) (\<lambda>_.
         bnd (alter (\<lambda>w. w\<lparr>gw_groups := update_where hit f (gw_groups w)\<rparr>)) (\<lambda>_.
         lift (if lastKnown = None then optR r (PlainErr ''Cannot read properties of undefined'')
               else assertOptimisticUpdate r)))))"

definition fully_paid :: "group_booking \<Rightarrow> bool" where
  "fully_paid g \<longleftrightarrow> js_sub (parse_dec (gb_total g)) (fl (1 / 1000)) \<le> parse_dec (gb_collected g)"

definition recordContribution ::
    "group_env \<Rightarrow> id \<Rightarrow> id \<Rightarrow> id \<Rightarrow> rat \<Rightarrow> time_ms option \<Rightarrow> group_member option group_step" where
  "recordContribution E tenant i u amount lastKnown = group_tx (
     bnd (active_group E tenant i ''Payments can only be recorded for active group bookings'') (\<lambda>g.
     bnd (peek (findGroupBookingMember (gb_id g) u)) (\<lambda>m.
     bnd (lift (optR (case m of None \<Rightarrow> None | Some m \<Rightarrow> if gm_invite m = I_accepted then Some m else None)
            (forbidden ''Only accepted members can contribute to the group booking''))) (\<lambda>m.
     let newPaid = js_add (parse_dec (gm_paid m)) amount
     in bnd (check (\<not> js_add (parse_dec (gm_contribution m)) (fl (1 / 1000)) < newPaid)
               (badRequest ''Your contribution exceeds your remaining share allocation'')) (\<lambda>_.
        bnd (attempt (updateGroupBookingMemberRecord (ge_now E) (gm_id m) (\<lambda>x. x\<lparr>gm_paid := to_fixed2 newPaid\<rparr>))) (\<lambda>r.
        bnd (collect_amount E g amount lastKnown) (\<lambda>updated.
        bnd (group_log E (gb_id g) (Some u) ''contribution_recorded'') (\<lambda>_.
        bnd (if fully_paid updated then complete_group E tenant g else ret ()) (\<lambda>_. ret r)))))))))"

section \<open>Cancelling\<close>

definition cancelGroupBooking :: "group_env \<Rightarrow> id \<Rightarrow> id \<Rightarrow> id \<Rightarrow> time_ms \<Rightarrow> group_booking group_step" where
  "cancelGroupBooking E tenant i act lastKnown = group_tx (
     bnd (load_group E tenant i) (\<lambda>g.
     bnd (check (\<not> List.member [G_cancelled, G_completed, G_expired] (gb_status g))
            (badRequest ''Terminal group bookings cannot be cancelled'')) (\<lambda>_.
     bnd (attempt (updateGroupBookingRecord (ge_now E) tenant i (Some G_cancelled) lastKnown)) (\<lambda>r.
     bnd (lift (assertOptimisticUpdate r)) (\<lambda>x.
     bnd (owner_only (gb_id g) act ''Only the group booking owner can cancel the booking'') (\<lambda>_.
     bnd (close_order E tenant act (gb_order g) (\<lambda>j. j\<lparr>ub_status := Some O_cancelled,
            ub_reason := Some (Some ''Group booking cancelled by owner'')\<rparr>)) (\<lambda>_.
     bnd (group_log E (gb_id g) (Some act) ''booking_cancelled'') (\<lambda>_.
     bnd (peek (listGroupBookingMembers (gb_id g))) (\<lambda>ms.
     bnd (alter (notify_members tenant ''group_booking_cancelled'' (gb_id g) (filter (\<lambda>m. gm_user m \<noteq> act) ms))) (\<lambda>_.
     ret x))))))))))"

definition getActivityLog ::
    "id \<Rightarrow> id \<Rightarrow> id \<Rightarrow> rat option \<Rightarrow> rat option \<Rightarrow> (group_activity list \<times> page_meta) group_step" where
  "getActivityLog tenant i u page limit =
     bnd (fetch (findGroupBookingById tenant i) group_not_found) (\<lambda>g.
     bnd (assertMember (gb_id g) u) (\<lambda>_.
     let p = parsePagination page limit
     in peek (\<lambda>w. let rows = filter (\<lambda>a. ga_group a = gb_id g) (gw_activity w)
          in (page_rows p (order_rows Desc ga_createdAt rows),
              buildPaginationMeta (pg_page p) (pg_limit p) (int (length rows))))))"

section \<open>Attendees of a group\<close>

text \<open>
  Per line a member may name as many attendees as units of it his share would pay, rounded up; of a
  line that costs nothing, any number unless his share is negative (the division gives an infinity or no
  number).
\<close>

definition within_share :: "group_member \<Rightarrow> order_item \<Rightarrow> nat \<Rightarrow> bool" where
  "within_share m i n \<longleftrightarrow> (if oi_unitPrice i = 0 then 0 \<le> gm_contribution m
     else int n \<le> math_ceil (js_div (parse_dec (gm_contribution m)) (parse_dec (oi_unitPrice i))))"

definition share_limits :: "id \<Rightarrow> group_member \<Rightarrow> group_booking \<Rightarrow> assign_input list \<Rightarrow> order_item list \<Rightarrow> booking_db \<Rightarrow> unit res" where
  "share_limits act m g xs items d =
     (let mine = filter (\<lambda>a. as_order a = gb_order g \<and> as_assignedBy a = act \<and> as_deletedAt a = None) (assignments d)
      in forR (\<lambda>i _. guardR (within_share m i (length (filter (\<lambda>a. as_item a = oi_id i) mine)
                       + length (filter (\<lambda>x. ai_item x = oi_id i) xs)))
               (conflict (''You cannot assign more attendees for ticket type '' @ oi_name i @ '' based on your share.''))) items ())"

definition group_attendee ::
    "booking_env \<Rightarrow> id \<Rightarrow> id \<Rightarrow> group_booking \<Rightarrow> order_item \<Rightarrow> assign_input \<Rightarrow> booking_db \<Rightarrow> (id \<times> booking_db) res" where
  "group_attendee E tenant act g i x d =
     (if truthy (ai_attendee x) then
        bindR (optR (findAttendee d tenant (the (ai_attendee x))) (notFound ''Attendee not found'')) (\<lambda>a. Inr (at_id a, d))
      else case ai_draft x of
        Some a \<Rightarrow>
          let (r, d1) = createAttendeeRecord E tenant act (normalizeEmail (dr_email a)) (trim (dr_phone a))
                \<lparr>ca_event = gb_event g, ca_ticketType = oi_ticketType i, ca_order = Some (gb_order g),
                 ca_fullName = dr_fullName a, ca_email = dr_email a, ca_phone = dr_phone a,
                 ca_profile = \<lparr>ap_gender = ap_gender (dr_profile a), ap_dateOfBirth = ap_dateOfBirth (dr_profile a),
                   ap_city = None, ap_state = None, ap_country = None, ap_emergencyName = None,
                   ap_emergencyPhone = None, ap_notes = None\<rparr>,
                 ca_checkedInAt = None, ca_checkedInBy = None, ca_status = A_confirmed\<rparr> d
          in Inr (at_id r, d1)
      | None \<Rightarrow> Inl (badRequest ''Either attendeeId or attendee must be provided''))"

definition assign_group_one ::
    "booking_env \<Rightarrow> id \<Rightarrow> id \<Rightarrow> group_booking \<Rightarrow> order_item list \<Rightarrow> assign_input \<Rightarrow> id list \<times> booking_db
       \<Rightarrow> (id list \<times> booking_db) res" where
  "assign_group_one E tenant act g items x st =
     (let (ids, d) = st in
      bindR (optR (List.find (\<lambda>i. oi_id i = ai_item x) items)
               (badRequest (''Invalid bookingOrderItemId: '' @ ai_item x))) (\<lambda>i.
      bindR (group_attendee E tenant act g i x d) (\<lambda>(att, d1).
      let d2 = drop_assignment (be_now E) tenant att d1 in
      bindR (guardR (int (active_count d2 tenant (oi_id i)) < oi_quantity i)
               (conflict ''No remaining capacity on this booking item'')) (\<lambda>_.
      let r = \<lparr>as_id = be_uuid E (fresh d2), as_tenant = tenant, as_order = gb_order g, as_item = oi_id i,
               as_attendee = att, as_assignedAt = be_now E, as_assignedBy = act, as_deletedAt = None\<rparr>
      in bindR (insert_assignment r d2) (\<lambda>d3. Inr (ids @ [as_id r], d3))))))"

text \<open>The part of the transaction that works on the booking tables: nothing of it stays when it throws.\<close>

definition assign_group_attendees ::
    "booking_env \<Rightarrow> id \<Rightarrow> id \<Rightarrow> group_booking \<Rightarrow> group_member \<Rightarrow> assign_input list \<Rightarrow> booking_db \<Rightarrow> (assigned list \<times> booking_db) res" where
  "assign_group_attendees E tenant act g m xs d =
     (let items = items_of_order d tenant (gb_order g) in
      bindR (forR (\<lambda>x _. guardR (list_ex (\<lambda>i. oi_id i = ai_item x) items)
               (badRequest (''Invalid bookingOrderItemId: '' @ ai_item x))) xs ()) (\<lambda>_.
      bindR (share_limits act m g xs items d) (\<lambda>_.
      bindR (forR (assign_group_one E tenant act g items) xs ([], d)) (\<lambda>(ids, d1).
      let rows = order_attendees d1 tenant (gb_order g) in
      bindR (reconcileIssuedTicketsForBookingOrder E tenant (gb_order g) d1) (\<lambda>d2.
        Inr (filter (\<lambda>r. List.member ids (as_id (fst r))) rows, d2))))))"

definition assignGroupBookingAttendees ::
    "group_env \<Rightarrow> id \<Rightarrow> id \<Rightarrow> id \<Rightarrow> assign_input list \<Rightarrow> time_ms option \<Rightarrow> assigned list group_step" where
  "assignGroupBookingAttendees E tenant i act xs lastKnown = group_tx (
     bnd (load_group E tenant i) (\<lambda>g.
     bnd (check (gb_status g = G_completed \<or> gb_status g = G_active)
            (badRequest ''Attendees can only be assigned to active or completed group bookings'')) (\<lambda>_.
     bnd (case lastKnown of None \<Rightarrow> ret () | Some t \<Rightarrow> touch_group E tenant i t) (\<lambda>_.
     bnd (peek (findGroupBookingMember (gb_id g) act)) (\<lambda>m.
     bnd (lift (optR (case m of None \<Rightarrow> None | Some m \<Rightarrow> if gm_invite m = I_accepted then Some m else None)
            (forbidden ''Only accepted group booking members can assign attendees''))) (\<lambda>m.
     attempt (\<lambda>w. bindR (assign_group_attendees (ge_shop E) tenant act g m xs (gw_shop w))
       (\<lambda>(rows, s). Inr (rows, w\<lparr>gw_shop := s\<rparr>)))))))))"

end
