(* ===== verification/GroupRules.thy ===== *)
theory GroupRules
  imports GroupBookings
begin

text \<open>
  The books of the group bookings: what is collected is what the members have paid, nobody has paid
  beyond his share, the creator is the one owner, and a completed group has its total. Every operation
  of the service keeps it.
\<close>

section \<open>The books\<close>

definition live_member :: "group_member \<Rightarrow> bool" where
  "live_member m \<longleftrightarrow> gm_deletedAt m = None"

definition paid_sum :: "id \<Rightarrow> group_member list \<Rightarrow> int" where
  "paid_sum g ms = sum_where (\<lambda>m. gm_group m = g \<and> live_member m) gm_paid ms"

definition known_id :: "(nat \<Rightarrow> id) \<Rightarrow> nat \<Rightarrow> id \<Rightarrow> bool" where
  "known_id uuid n i \<longleftrightarrow> (\<exists>k < n. i = uuid k)"

definition member_ok :: "group_booking list \<Rightarrow> group_member \<Rightarrow> bool" where
  "member_ok gs m \<longleftrightarrow> 0 \<le> gm_paid m \<and> (gm_paid m = 0 \<or> gm_paid m \<le> gm_contribution m)
     \<and> (gm_invite m \<noteq> I_accepted \<longrightarrow> gm_paid m = 0) \<and> fits (gm_paid m) \<and> fits (gm_contribution m)
     \<and> (\<not> gm_owner m \<longrightarrow> 0 \<le> gm_contribution m)
     \<and> (\<exists>g \<in> set gs. gb_id g = gm_group m \<and> (gm_owner m \<longrightarrow> gm_user m = gb_createdBy g))
     \<and> (gm_owner m \<longrightarrow> live_member m \<and> gm_invite m = I_accepted)"

definition group_ok :: "group_member list \<Rightarrow> group_booking \<Rightarrow> bool" where
  "group_ok ms g \<longleftrightarrow> gb_collected g = paid_sum (gb_id g) ms \<and> fits (gb_total g)
     \<and> (gb_status g = G_completed \<longrightarrow> gb_total g \<le> gb_collected g)
     \<and> (\<exists>m \<in> set ms. gm_group m = gb_id g \<and> gm_owner m)"

definition group_inv :: "(nat \<Rightarrow> id) \<Rightarrow> group_world \<Rightarrow> bool" where
  "group_inv uuid w \<longleftrightarrow> distinct (map gb_id (gw_groups w)) \<and> distinct (map gm_id (gw_members w))
     \<and> (\<forall>g \<in> set (gw_groups w). known_id uuid (gw_next w) (gb_id g) \<and> group_ok (gw_members w) g)
     \<and> (\<forall>m \<in> set (gw_members w). known_id uuid (gw_next w) (gm_id m) \<and> member_ok (gw_groups w) m)
     \<and> distinct (map (\<lambda>m. (gm_group m, gm_user m)) (filter live_member (gw_members w)))"

text \<open>It speaks of the groups and the members only.\<close>

definition group_view :: "group_world \<Rightarrow> group_booking list \<times> group_member list \<times> nat" where
  "group_view w = (gw_groups w, gw_members w, gw_next w)"

lemma group_inv_view: "group_view w' = group_view w \<Longrightarrow> group_inv uuid w' = group_inv uuid w"
  by (simp add: group_view_def group_inv_def)

lemma group_inv_undo: "group_inv uuid (group_undo w w') = group_inv uuid w"
  by (rule group_inv_view) (simp add: group_view_def group_undo_def)

lemma notify_view [simp]: "group_view (createInAppNotification tn u ty g w) = group_view w"
  by (simp add: createInAppNotification_def group_view_def)

lemma notify_members_view [simp]: "group_view (notify_members tn ty g ms w) = group_view w"
proof -
  have "group_view (foldl (\<lambda>w m. createInAppNotification tn (gm_user m) ty g w) w xs) = group_view w" for xs
    by (induction xs arbitrary: w) simp_all
  then show ?thesis by (simp add: notify_members_def)
qed

lemma activity_view [simp]: "group_view (createGroupBookingActivityRecord now g act ty w) = group_view w"
  by (simp add: createGroupBookingActivityRecord_def group_view_def)

lemma announced_view:
  "w' = notify_members tn ty g ms (createGroupBookingActivityRecord now g' act ty' w) \<Longrightarrow> group_view w' = group_view w"
  by simp

lemma shop_view: "group_view (w\<lparr>gw_shop := s\<rparr>) = group_view w"
  by (simp add: group_view_def)

text \<open>A step that leaves the view alone, whether it returns or throws.\<close>

definition quiet :: "'a group_step \<Rightarrow> bool" where
  "quiet m \<longleftrightarrow> (\<forall>w. group_view (snd (m w)) = group_view w)"

lemma quietD: "quiet m \<Longrightarrow> m w = (r, w') \<Longrightarrow> group_view w' = group_view w"
  unfolding quiet_def by (metis snd_conv)

lemma quiet_holds: "(\<And>v. holds (\<lambda>w. group_view w = v) m) \<Longrightarrow> quiet m"
  by (simp add: quiet_def holds_def)

lemma quiet_change_order: "quiet (change_order E tn act b f)"
  unfolding change_order_def
  by (intro quiet_holds holds_intros) (auto simp: res_simps shop_view)

lemma quiet_close_order: "quiet (close_order E tn act i f)"
  unfolding close_order_def
  by (intro quiet_holds holds_intros) (use quiet_change_order in \<open>auto simp: quiet_def holds_def\<close>)

lemma quiet_log: "quiet (group_log E g act ty)" "quiet (announce_invite E tn g a u)"
  unfolding group_log_def announce_invite_def
  by (intro quiet_holds holds_intros; simp add: group_log_def)+

lemmas quiet_steps = quietD [OF quiet_change_order] quietD [OF quiet_close_order] quietD [OF quiet_log(1)]
  quietD [OF quiet_log(2)]

section \<open>Changes of rows\<close>

lemma update_where_row:
  assumes "distinct (map k rows)" "r \<in> set rows" "h r" "\<And>x. h x \<Longrightarrow> k x = k r"
  shows "update_where h f rows = update_where (\<lambda>x. k x = k r) f rows"
proof -
  have "h x \<longleftrightarrow> k x = k r" if "x \<in> set rows" for x
  proof
    show "k x = k r" if "h x" using that by (rule assms(4))
    show "h x" if "k x = k r"
      using that \<open>x \<in> set rows\<close> assms(1-3) by (metis distinct_map inj_onD)
  qed
  then show ?thesis by (auto simp: update_where_def)
qed

lemma paid_sum_update:
  assumes "\<And>m. h m \<Longrightarrow> gm_group (f m) = gm_group m \<and> live_member (f m) = live_member m \<and> gm_paid (f m) = gm_paid m"
  shows "paid_sum g (update_where h f ms) = paid_sum g ms"
  unfolding paid_sum_def by (rule sum_where_update_other) (use assms in auto)

text \<open>A change of groups that leaves their keys and money alone, and completes none that is short.\<close>

lemma group_inv_groups:
  assumes "group_inv uuid w"
    and f: "\<And>g. h g \<Longrightarrow> gb_id (f g) = gb_id g \<and> gb_createdBy (f g) = gb_createdBy g \<and> gb_total (f g) = gb_total g
      \<and> gb_collected (f g) = gb_collected g"
    and done': "\<And>g. g \<in> set (gw_groups w) \<Longrightarrow> h g \<Longrightarrow> gb_status (f g) = G_completed \<Longrightarrow>
      gb_status g = G_completed \<or> gb_total g \<le> gb_collected g"
  shows "group_inv uuid (w\<lparr>gw_groups := update_where h f (gw_groups w)\<rparr>)"
proof -
  have ok: "group_ok (gw_members w) (f g)" if "g \<in> set (gw_groups w)" "h g" for g
    using that assms(1) f [of g] done' [of g] by (auto simp: group_inv_def group_ok_def)
  have members: "member_ok (update_where h f (gw_groups w)) m" if "member_ok (gw_groups w) m" for m
  proof -
    from that obtain g where g: "g \<in> set (gw_groups w)" "gb_id g = gm_group m" "gm_owner m \<longrightarrow> gm_user m = gb_createdBy g"
      by (auto simp: member_ok_def)
    then have "\<exists>g \<in> set (update_where h f (gw_groups w)). gb_id g = gm_group m \<and> (gm_owner m \<longrightarrow> gm_user m = gb_createdBy g)"
      by (intro bexI [of _ "if h g then f g else g"]) (use f in \<open>auto simp: set_update_where\<close>)
    with that show ?thesis by (simp add: member_ok_def)
  qed
  show ?thesis
    using assms(1) f ok members unfolding group_inv_def by (auto simp: set_update_where table_simps)
qed

lemma member_keys:
  assumes "\<And>m. h m \<Longrightarrow> gm_id (f m) = gm_id m \<and> gm_group (f m) = gm_group m \<and> gm_user (f m) = gm_user m
      \<and> gm_owner (f m) = gm_owner m \<and> live_member (f m) = live_member m"
  shows "map gm_id (update_where h f ms) = map gm_id ms"
    "map (\<lambda>m. (gm_group m, gm_user m)) (filter live_member (update_where h f ms))
      = map (\<lambda>m. (gm_group m, gm_user m)) (filter live_member ms)"
    "(\<exists>m \<in> set (update_where h f ms). gm_group m = g \<and> gm_owner m) = (\<exists>m \<in> set ms. gm_group m = g \<and> gm_owner m)"
  using assms by (induction ms) auto

lemma group_inv_members:
  assumes "group_inv uuid w"
    and f: "\<And>m. h m \<Longrightarrow> gm_id (f m) = gm_id m \<and> gm_group (f m) = gm_group m \<and> gm_user (f m) = gm_user m
      \<and> gm_owner (f m) = gm_owner m \<and> live_member (f m) = live_member m \<and> gm_paid (f m) = gm_paid m"
    and ok: "\<And>m. m \<in> set (gw_members w) \<Longrightarrow> h m \<Longrightarrow> member_ok (gw_groups w) m \<Longrightarrow> member_ok (gw_groups w) (f m)"
  shows "group_inv uuid (w\<lparr>gw_members := update_where h f (gw_members w)\<rparr>)"
proof -
  have keys: "map gm_id (update_where h f (gw_members w)) = map gm_id (gw_members w)"
    "map (\<lambda>m. (gm_group m, gm_user m)) (filter live_member (update_where h f (gw_members w)))
      = map (\<lambda>m. (gm_group m, gm_user m)) (filter live_member (gw_members w))"
    "\<And>g. (\<exists>m \<in> set (update_where h f (gw_members w)). gm_group m = g \<and> gm_owner m)
      = (\<exists>m \<in> set (gw_members w). gm_group m = g \<and> gm_owner m)"
    by (rule member_keys; use f in blast)+
  have groups: "group_ok (update_where h f (gw_members w)) g = group_ok (gw_members w) g" for g
    unfolding group_ok_def keys(3) by (subst paid_sum_update) (use f in auto)
  show ?thesis
    using assms(1) f ok unfolding group_inv_def
    by (auto simp: keys groups set_update_where)
qed

lemma findGroup_in: "findGroupBookingById tn i w = Some g \<Longrightarrow>
  g \<in> set (gw_groups w) \<and> gb_id g = i \<and> gb_tenant g = tn \<and> gb_deletedAt g = None"
  by (auto simp: findGroupBookingById_def dest: find_SomeD)

lemma findMember_in: "findGroupBookingMember g u w = Some m \<Longrightarrow>
  m \<in> set (gw_members w) \<and> gm_group m = g \<and> gm_user m = u \<and> live_member m"
  by (auto simp: findGroupBookingMember_def is_member_def live_member_def dest: find_SomeD)

lemma group_by_id:
  assumes "group_inv uuid w" "g \<in> set (gw_groups w)" "g' \<in> set (gw_groups w)" "gb_id g' = gb_id g"
  shows "g' = g"
  using assms by (auto simp: group_inv_def distinct_map dest: inj_onD)

lemma member_by_id:
  assumes "group_inv uuid w" "m \<in> set (gw_members w)" "m' \<in> set (gw_members w)" "gm_id m' = gm_id m"
  shows "m' = m"
  using assms by (auto simp: group_inv_def distinct_map dest: inj_onD)

lemma member_by_user:
  assumes "group_inv uuid w" "m \<in> set (gw_members w)" "m' \<in> set (gw_members w)" "live_member m" "live_member m'"
    and "gm_group m' = gm_group m" "gm_user m' = gm_user m"
  shows "m' = m"
proof -
  have "inj_on (\<lambda>m. (gm_group m, gm_user m)) (set (filter live_member (gw_members w)))"
    using assms(1) by (simp add: group_inv_def distinct_map)
  then show ?thesis by (rule inj_onD) (use assms in auto)
qed

section \<open>Loading a group\<close>

lemma expiry_run:
  assumes inv: "group_inv uuid w" and g: "g \<in> set (gw_groups w)"
    and run: "checkAndProcessExpiration E tn g w = (Inr x, w')"
  shows "group_inv uuid w' \<and> gw_members w' = gw_members w \<and> gw_next w' = gw_next w \<and> x \<in> set (gw_groups w')
    \<and> gb_id x = gb_id g \<and> gb_createdBy x = gb_createdBy g
    \<and> (if overdue (ge_now E) g then gb_status x = G_expired else x = g \<and> w' = w)"
proof (cases "overdue (ge_now E) g")
  case False
  with assms show ?thesis by (auto simp: checkAndProcessExpiration_def ret_def)
next
  case True
  define hit f where "hit = (\<lambda>y :: group_booking. gb_id y = gb_id g \<and> gb_version y = gb_version g)"
    and "f = (\<lambda>y :: group_booking. y\<lparr>gb_status := G_expired, gb_version := gb_version y + 1, gb_updatedAt := ge_now E\<rparr>)"
  define w1 where "w1 = w\<lparr>gw_groups := update_where hit f (gw_groups w)\<rparr>"
  have found: "List.find hit (gw_groups w) = Some g"
    by (rule find_unique [OF g]) (use group_by_id [OF inv g] in \<open>auto simp: hit_def\<close>)
  have eq: "checkAndProcessExpiration E tn g w =
      bnd (close_order E tn (gb_createdBy g) (gb_order g) (\<lambda>i. i\<lparr>ub_status := Some O_expired\<rparr>)) (\<lambda>_.
      bnd (alter (createGroupBookingActivityRecord (ge_now E) (gb_id g) None ''booking_expired'')) (\<lambda>_.
      bnd (peek (listGroupBookingMembers (gb_id g))) (\<lambda>ms.
      bnd (alter (notify_members tn ''group_booking_expired'' (gb_id g) ms)) (\<lambda>_. ret (f g))))) w1"
    using True found unfolding checkAndProcessExpiration_def hit_def f_def w1_def
    by (simp add: Let_def bnd_def [of "peek _"] bnd_def [of "alter _"] peek_def alter_def)
  from run [unfolded eq, unfolded bnd_Inr [of "close_order _ _ _ _ _"]] obtain u v
    where v: "close_order E tn (gb_createdBy g) (gb_order g) (\<lambda>i. i\<lparr>ub_status := Some O_expired\<rparr>) w1 = (Inr u, v)"
    and r: "bnd (alter (createGroupBookingActivityRecord (ge_now E) (gb_id g) None ''booking_expired'')) (\<lambda>_.
      bnd (peek (listGroupBookingMembers (gb_id g))) (\<lambda>ms.
      bnd (alter (notify_members tn ''group_booking_expired'' (gb_id g) ms)) (\<lambda>_. ret (f g)))) v = (Inr x, w')"
    by blast
  note end_state = r [unfolded bnd_def alter_def peek_def ret_def prod.case sum.case prod.inject sum.inject]
  have rest: "x = f g" using end_state by (elim conjE) (erule sym)
  have "w' = notify_members tn ''group_booking_expired'' (gb_id g) (listGroupBookingMembers (gb_id g)
      (createGroupBookingActivityRecord (ge_now E) (gb_id g) None ''booking_expired'' v))
      (createGroupBookingActivityRecord (ge_now E) (gb_id g) None ''booking_expired'' v)"
    using end_state by (elim conjE) (erule sym)
  then have view: "group_view w' = group_view v" by (rule announced_view)
  have view1: "group_view w' = group_view w1" by (rule trans [OF view]) (rule quiet_steps(2) [OF v])
  have "group_inv uuid w1"
    unfolding w1_def by (rule group_inv_groups [OF inv]) (auto simp: hit_def f_def)
  then have "group_inv uuid w'" using group_inv_view [OF view1] by simp
  moreover have "f g \<in> set (gw_groups w1)" using g by (auto simp: w1_def set_update_where hit_def)
  ultimately show ?thesis
    using True view1 rest by (auto simp: group_view_def w1_def f_def)
qed

lemma load_run:
  assumes "group_inv uuid w" and "load_group E tn i w = (Inr g, w')"
  shows "group_inv uuid w' \<and> gw_members w' = gw_members w \<and> gw_next w' = gw_next w \<and> g \<in> set (gw_groups w') \<and> gb_id g = i"
proof -
  from assms(2) obtain g0 where g0: "findGroupBookingById tn i w = Some g0"
    and run: "checkAndProcessExpiration E tn g0 w = (Inr g, w')"
    by (auto simp: load_group_def step_simps)
  from findGroup_in [OF g0] expiry_run [OF assms(1) _ run] show ?thesis by auto
qed

lemma active_run:
  assumes "group_inv uuid w"
  shows "active_group E tn i why w = (Inr g, w') \<longleftrightarrow>
    w' = w \<and> findGroupBookingById tn i w = Some g \<and> gb_status g = G_active \<and> \<not> overdue (ge_now E) g"
proof
  assume "active_group E tn i why w = (Inr g, w')"
  then obtain g0 where g0: "findGroupBookingById tn i w = Some g0" "gb_status g = G_active"
    and run: "checkAndProcessExpiration E tn g0 w = (Inr g, w')"
    by (auto simp: active_group_def load_group_def step_simps)
  from findGroup_in [OF g0(1)] expiry_run [OF assms _ run] g0
  show "w' = w \<and> findGroupBookingById tn i w = Some g \<and> gb_status g = G_active \<and> \<not> overdue (ge_now E) g"
    by (auto split: if_splits)
next
  assume "w' = w \<and> findGroupBookingById tn i w = Some g \<and> gb_status g = G_active \<and> \<not> overdue (ge_now E) g"
  then show "active_group E tn i why w = (Inr g, w')"
    by (auto simp: active_group_def load_group_def checkAndProcessExpiration_def step_simps)
qed

section \<open>Single changes\<close>

lemma member_record_Inr:
  "updateGroupBookingMemberRecord now i f w = Inr (r, w') \<longleftrightarrow>
    (let hit = (\<lambda>m. gm_id m = i \<and> gm_deletedAt m = None);
         g = (\<lambda>m. (f m)\<lparr>gm_version := gm_version m + 1, gm_updatedAt := now\<rparr>)
     in (\<forall>m \<in> set (gw_members w). hit m \<longrightarrow> fits (gm_contribution (f m)) \<and> fits (gm_paid (f m)))
        \<and> r = map_option g (List.find hit (gw_members w)) \<and> w' = w\<lparr>gw_members := update_where hit g (gw_members w)\<rparr>)"
  by (auto simp: updateGroupBookingMemberRecord_def Let_def list_all_iff)

lemma inv_member_record:
  assumes inv: "group_inv uuid w" and run: "updateGroupBookingMemberRecord now i f w = Inr (r, w')"
    and f: "\<And>m. gm_id (f m) = gm_id m \<and> gm_group (f m) = gm_group m \<and> gm_user (f m) = gm_user m
      \<and> gm_owner (f m) = gm_owner m \<and> gm_deletedAt (f m) = gm_deletedAt m"
    and ok: "\<And>m. m \<in> set (gw_members w) \<Longrightarrow> gm_id m = i \<Longrightarrow> live_member m \<Longrightarrow> gm_paid (f m) = gm_paid m
      \<and> (gm_paid m = 0 \<or> gm_paid m \<le> gm_contribution (f m)) \<and> (gm_invite (f m) \<noteq> I_accepted \<longrightarrow> gm_paid m = 0 \<and> \<not> gm_owner m)
      \<and> (\<not> gm_owner m \<longrightarrow> 0 \<le> gm_contribution (f m))"
  shows "group_inv uuid w'"
proof -
  define hit g where "hit = (\<lambda>m :: group_member. gm_id m = i \<and> gm_deletedAt m = None \<and> m \<in> set (gw_members w))"
    and "g = (\<lambda>m :: group_member. (f m)\<lparr>gm_version := gm_version m + 1, gm_updatedAt := now\<rparr>)"
  have w': "w' = w\<lparr>gw_members := update_where hit g (gw_members w)\<rparr>"
    and fit: "\<And>m. m \<in> set (gw_members w) \<Longrightarrow> hit m \<Longrightarrow> fits (gm_contribution (f m)) \<and> fits (gm_paid (f m))"
    using run by (auto simp: member_record_Inr Let_def hit_def g_def update_where_def)
  show ?thesis
    unfolding w'
  proof (rule group_inv_members [OF inv])
    fix m assume h: "hit m"
    then show "gm_id (g m) = gm_id m \<and> gm_group (g m) = gm_group m \<and> gm_user (g m) = gm_user m
      \<and> gm_owner (g m) = gm_owner m \<and> live_member (g m) = live_member m \<and> gm_paid (g m) = gm_paid m"
      using f [of m] ok [of m] by (auto simp: hit_def g_def live_member_def)
  next
    fix m assume m: "m \<in> set (gw_members w)" "hit m" "member_ok (gw_groups w) m"
    then show "member_ok (gw_groups w) (g m)"
      using f [of m] ok [of m] fit [of m] by (auto simp: member_ok_def hit_def g_def live_member_def)
  qed
qed

lemma inv_group_record:
  assumes "group_inv uuid w" and "updateGroupBookingRecord now tn i st t w = Inr (r, w')" and "st \<noteq> Some G_completed"
  shows "group_inv uuid w'"
proof -
  from assms(2) have w': "w' = w\<lparr>gw_groups := update_where
      (\<lambda>g. gb_tenant g = tn \<and> gb_id g = i \<and> optimisticLock (gb_updatedAt g) t \<and> gb_deletedAt g = None)
      (\<lambda>g. g\<lparr>gb_status := put st (gb_status g), gb_version := gb_version g + 1, gb_updatedAt := now\<rparr>) (gw_groups w)\<rparr>"
    by (simp add: updateGroupBookingRecord_def Let_def)
  show ?thesis unfolding w' by (rule group_inv_groups [OF assms(1)]) (use assms(3) in \<open>auto simp: put_def split: option.splits\<close>)
qed

lemma inv_touch: "group_inv uuid w \<Longrightarrow> touch_group E tn i t w = (Inr u, w') \<Longrightarrow> group_inv uuid w'"
  by (auto simp: touch_group_def step_simps intro: inv_group_record)

lemma touch_members: "touch_group E tn i t w = (Inr u, w') \<Longrightarrow> gw_members w' = gw_members w \<and> gw_next w' = gw_next w"
  by (auto simp: touch_group_def step_simps updateGroupBookingRecord_def Let_def)

text \<open>A new row of a user who is not a member yet.\<close>

lemma inv_new_member:
  assumes inv: "group_inv uuid w" and uuid: "inj uuid" and g: "g \<in> set (gw_groups w)" "gm_group m = gb_id g"
    and none: "findGroupBookingMember (gb_id g) (gm_user m) w = None"
    and m: "\<not> gm_owner m" "gm_invite m = I_invited" "gm_paid m = 0" "0 \<le> gm_contribution m" "live_member m"
    and run: "addGroupBookingMember uuid m w = Inr (r, w')"
  shows "group_inv uuid w'"
proof -
  have w': "w' = w\<lparr>gw_members := gw_members w @ [m\<lparr>gm_id := uuid (gw_next w)\<rparr>], gw_next := Suc (gw_next w)\<rparr>"
    and fit: "fits (gm_contribution m)" "fits (gm_paid m)"
    using run by (auto simp: addGroupBookingMember_def Let_def split: if_splits)
  have known: "known_id uuid (Suc (gw_next w)) i" if "known_id uuid (gw_next w) i" for i
    using that by (auto simp: known_id_def intro: less_SucI)
  have new: "\<not> known_id uuid (gw_next w) (uuid (gw_next w))" using uuid by (auto simp: known_id_def inj_eq)
  have sum: "paid_sum i (gw_members w @ [m\<lparr>gm_id := uuid (gw_next w)\<rparr>]) = paid_sum i (gw_members w)" for i
    by (simp add: paid_sum_def m)
  have free: "(gm_group m, gm_user m) \<notin> (\<lambda>m. (gm_group m, gm_user m)) ` set (filter live_member (gw_members w))"
    using none g(2) by (auto simp: findGroupBookingMember_def is_member_def live_member_def dest: find_NoneD)
  have own: "\<exists>x \<in> set (gw_members w @ [y]). gm_group x = i \<and> gm_owner x"
    if "\<exists>x \<in> set (gw_members w). gm_group x = i \<and> gm_owner x" for i y using that by auto
  have live: "live_member (m\<lparr>gm_id := i\<rparr>) = live_member m" for i by (simp add: live_member_def)
  have ok: "member_ok (gw_groups w) (m\<lparr>gm_id := uuid (gw_next w)\<rparr>)"
    using m g fit by (auto simp: member_ok_def)
  have "known_id uuid (Suc (gw_next w)) (uuid (gw_next w))" by (auto simp: known_id_def)
  then show ?thesis
    unfolding w' group_inv_def
    using inv known new sum free ok m own by (auto simp: group_inv_def group_ok_def live)
qed

section \<open>Amounts\<close>

text \<open>Amounts are cents in the tables and doubles in the service; a tenth of a cent is the slack it allows.\<close>

lemma dec_error: "fits n \<Longrightarrow> \<bar>parse_dec n - of_int n / 100\<bar> < 1 / 8000"
proof -
  assume "fits n"
  then have "rat_of_int \<bar>n\<bar> < of_int (10 ^ 14)" unfolding fits_def of_int_less_iff .
  then have "rat_of_int \<bar>n\<bar> / 100 / 2 ^ 53 < 1 / 8000" by simp
  with parse_dec_error [of n] show ?thesis by linarith
qed

lemma tenth_error: "\<bar>fl (1 / 1000) - 1 / 1000\<bar> < 1 / 8000"
  using fl_error [of "1 / 1000"] by simp

lemma shifted_error:
  assumes "fits n"
  shows "\<bar>js_add (parse_dec n) (fl (1 / 1000)) - (of_int n / 100 + 1 / 1000)\<bar> < 1 / 2000"
    "\<bar>js_sub (parse_dec n) (fl (1 / 1000)) - (of_int n / 100 - 1 / 1000)\<bar> < 1 / 2000"
proof -
  define N where "N = rat_of_int n / 100"
  have N: "\<bar>N\<bar> < 10 ^ 12"
  proof -
    have "rat_of_int \<bar>n\<bar> < of_int (10 ^ 14)" using assms unfolding fits_def of_int_less_iff .
    then show ?thesis by (simp add: N_def)
  qed
  have e: "\<bar>parse_dec n - N\<bar> \<le> 1 / 8000" "\<bar>fl (1 / 1000) - 1 / 1000\<bar> \<le> 1 / 8000"
    using dec_error [OF assms] tenth_error by (simp_all add: N_def)
  have bound: "(1 / 8000 + 1 / 8000) + (B + (1 / 8000 + 1 / 8000)) / 2 ^ 53 < (1 / 2000 :: rat)" if "B < 10 ^ 12 + 1" for B
  proof -
    have "(B + (1 / 8000 + 1 / 8000)) / 2 ^ 53 < (1 / 4000 :: rat)" using that by (simp add: divide_less_eq)
    then show ?thesis by linarith
  qed
  have "\<bar>N + 1 / 1000\<bar> < 10 ^ 12 + 1" "\<bar>N - 1 / 1000\<bar> < 10 ^ 12 + 1" using N by linarith+
  with js_add_error [OF e] js_sub_error [OF e] bound
  show "\<bar>js_add (parse_dec n) (fl (1 / 1000)) - (of_int n / 100 + 1 / 1000)\<bar> < 1 / 2000"
    "\<bar>js_sub (parse_dec n) (fl (1 / 1000)) - (of_int n / 100 - 1 / 1000)\<bar> < 1 / 2000"
    unfolding N_def by (meson le_less_trans)+
qed

lemma sum_error:
  assumes "fits (p + c)" "0 \<le> p" "0 \<le> c"
  shows "\<bar>js_add (parse_dec p) (parse_dec c) - of_int (p + c) / 100\<bar> < 1 / 2000"
proof -
  define P C where "P = rat_of_int p / 100" and "C = rat_of_int c / 100"
  have "rat_of_int \<bar>p + c\<bar> < of_int (10 ^ 14)" using assms(1) unfolding fits_def of_int_less_iff .
  then have PC: "0 \<le> P" "0 \<le> C" "P + C < 10 ^ 12" using assms by (simp_all add: P_def C_def)
  define s where "s = (P + C) / 2 ^ 53"
  have s: "0 \<le> s" "s < 1 / 8000" "P / 2 ^ 53 + C / 2 ^ 53 = s"
    using PC by (simp_all add: s_def add_divide_distrib [symmetric])
  have "\<bar>js_add (parse_dec p) (parse_dec c) - (P + C)\<bar>
      \<le> (P / 2 ^ 53 + C / 2 ^ 53) + (\<bar>P + C\<bar> + (P / 2 ^ 53 + C / 2 ^ 53)) / 2 ^ 53"
    by (rule js_add_error) (use parse_dec_error [of p] parse_dec_error [of c] assms in \<open>simp_all add: P_def C_def\<close>)
  also have "\<dots> = s + (s + s / 2 ^ 53)"
    using PC unfolding s(3) by (simp add: s_def add_divide_distrib abs_of_nonneg)
  also have "\<dots> < 1 / 2000" using s(1,2) by simp
  finally show ?thesis by (simp add: P_def C_def add_divide_distrib)
qed

lemma paid_within_share:
  assumes "fits l" "fits p" "fits c" "0 \<le> p" "0 < c"
  shows "js_add (parse_dec l) (fl (1 / 1000)) < js_add (parse_dec p) (parse_dec c) \<longleftrightarrow> l < p + c"
    "to_fixed2 (js_add (parse_dec p) (parse_dec c)) = p + c"
proof -
  have small: "p + c < 2 ^ 48" using assms by (simp add: fits_def)
  show "to_fixed2 (js_add (parse_dec p) (parse_dec c)) = p + c"
    by (rule to_fixed2_add) (use assms small in simp_all)
  show "js_add (parse_dec l) (fl (1 / 1000)) < js_add (parse_dec p) (parse_dec c) \<longleftrightarrow> l < p + c"
  proof (cases "l < p + c")
    case True
    then have "rat_of_int (l + 1) \<le> of_int (p + c)" by (simp only: of_int_le_iff)
    then have "rat_of_int l / 100 + 1 / 100 \<le> of_int (p + c) / 100" by simp
    with shifted_error(1) [OF assms(1)] cents_add_error [of p c, OF assms(4) less_imp_le [OF assms(5)] small] True
    show ?thesis by linarith
  next
    case False
    then have "fits (p + c)" "rat_of_int (p + c) / 100 \<le> of_int l / 100"
      using assms by (simp_all add: fits_def divide_right_mono)
    with shifted_error(1) [OF assms(1)] sum_error [of p c] assms False show ?thesis by linarith
  qed
qed

lemma fully_paid_iff:
  assumes "fits (gb_total g)" "fits (gb_collected g)"
  shows "fully_paid g \<longleftrightarrow> gb_total g \<le> gb_collected g"
proof -
  note near = shifted_error(2) [OF assms(1)] dec_error [OF assms(2)]
  show ?thesis
    unfolding fully_paid_def
  proof
    assume "js_sub (parse_dec (gb_total g)) (fl (1 / 1000)) \<le> parse_dec (gb_collected g)"
    with near have "rat_of_int (gb_total g) / 100 < of_int (gb_collected g) / 100 + 1 / 100" by linarith
    then have "rat_of_int (gb_total g) / 100 < of_int (gb_collected g + 1) / 100" by simp
    then show "gb_total g \<le> gb_collected g" by (simp only: divide_less_cancel of_int_less_iff) simp
  next
    assume "gb_total g \<le> gb_collected g"
    then have "rat_of_int (gb_total g) / 100 \<le> of_int (gb_collected g) / 100" by (simp add: divide_right_mono)
    with near show "js_sub (parse_dec (gb_total g)) (fl (1 / 1000)) \<le> parse_dec (gb_collected g)" by linarith
  qed
qed

lemma to_fixed2_mono: "x \<le> y \<Longrightarrow> to_fixed2 x \<le> to_fixed2 y"
proof -
  assume "x \<le> y"
  consider "y < 0" | "x < 0" "0 \<le> y" | "0 \<le> x" by linarith
  then show ?thesis
  proof cases
    case 1
    with \<open>x \<le> y\<close> show ?thesis by (simp add: to_fixed2_def floor_mono)
  next
    case 2
    then have "to_fixed2 x \<le> 0" "0 \<le> to_fixed2 y" by (simp_all add: to_fixed2_def)
    then show ?thesis by simp
  next
    case 3
    with \<open>x \<le> y\<close> show ?thesis by (simp add: to_fixed2_def floor_mono)
  qed
qed

lemma share_covers_paid: "fits p \<Longrightarrow> \<not> a < parse_dec p \<Longrightarrow> p \<le> to_fixed2 a"
  using to_fixed2_mono [of "parse_dec p" a] to_fixed2_parse_dec [of p] by (simp add: fits_def)

end
