(* ===== verification/GroupKeeps.thy ===== *)
theory GroupKeeps
  imports GroupRules
begin

text \<open>
  Every operation of the group service keeps the books of the groups, whether it returns or throws:
  its transaction is looked at through the conditions under which it returns.
\<close>

section \<open>Conditions for the shared steps\<close>

lemma group_tx_keeps:
  "(\<And>w. group_inv uuid w \<Longrightarrow> wlp m (\<lambda>_. group_inv uuid) w) \<Longrightarrow> holds (group_inv uuid) (group_tx m)"
  unfolding group_tx_def by (rule holds_atomic_wlp) (auto simp: group_inv_undo)

lemma wlp_active:
  "group_inv uuid w \<Longrightarrow> wlp (active_group E tn i why) Q w \<longleftrightarrow>
    (\<forall>g. findGroupBookingById tn i w = Some g \<longrightarrow> gb_status g = G_active \<longrightarrow> \<not> overdue (ge_now E) g \<longrightarrow> Q g w)"
  by (auto simp: wlp_def active_run)

lemma wlp_load:
  assumes "group_inv uuid w"
    and "\<And>g w'. group_inv uuid w' \<Longrightarrow> gw_members w' = gw_members w \<Longrightarrow> g \<in> set (gw_groups w') \<Longrightarrow> Q g w'"
  shows "wlp (load_group E tn i) Q w"
  using load_run [OF assms(1)] assms(2) by (auto simp: wlp_def)

lemma wlp_members [wlp_simps]:
  "wlp (assertMember g u) P = (\<lambda>w. \<forall>m. findGroupBookingMember g u w = Some m \<longrightarrow> P m w)"
  "wlp (owner_only g u why) Q = (\<lambda>w. \<forall>m. findGroupBookingMember g u w = Some m \<longrightarrow> gm_owner m \<longrightarrow> Q () w)"
  "wlp (invited_member g u) P =
    (\<lambda>w. \<forall>m. findGroupBookingMember g u w = Some m \<longrightarrow> gm_invite m = I_invited \<longrightarrow> P m w)"
  by (simp_all add: assertMember_def owner_only_def invited_member_def wlp_simps)

lemma wlp_quiet: "quiet m \<Longrightarrow> (\<And>x w'. group_view w' = group_view w \<Longrightarrow> Q x w') \<Longrightarrow> wlp m Q w"
  by (auto simp: wlp_def dest: quietD)

lemma wlp_quiet_keeps:
  assumes "quiet m" "group_inv uuid w"
  shows "wlp m (\<lambda>_. group_inv uuid) w"
proof (rule wlp_quiet [OF assms(1)])
  fix w' assume "group_view w' = group_view w"
  from group_inv_view [OF this] assms(2) show "group_inv uuid w'" by simp
qed

lemma group_inv_notes [simp]:
  "group_inv uuid (createInAppNotification tn u ty g w) = group_inv uuid w"
  "group_inv uuid (notify_members tn ty g ms w) = group_inv uuid w"
  "group_inv uuid (createGroupBookingActivityRecord now g act ty w) = group_inv uuid w"
  "group_inv uuid (w\<lparr>gw_shop := s\<rparr>) = group_inv uuid w"
  by (rule group_inv_view, simp add: shop_view)+

lemmas group_notes = group_log_def announce_invite_def

text \<open>The row of a user's live membership is the only one.\<close>

lemma member_row:
  assumes "group_inv uuid w" "findGroupBookingMember g u w = Some m"
  shows "m \<in> set (gw_members w)" "member_ok (gw_groups w) m" "live_member m"
    "y \<in> set (gw_members w) \<Longrightarrow> gm_id y = gm_id m \<Longrightarrow> y = m"
    "y \<in> set (gw_members w) \<Longrightarrow> is_member g u y \<Longrightarrow> y = m"
proof -
  note m = findMember_in [OF assms(2)]
  then show "m \<in> set (gw_members w)" "live_member m" by simp_all
  then show "member_ok (gw_groups w) m" using assms(1) by (simp add: group_inv_def)
  show "y = m" if "y \<in> set (gw_members w)" "gm_id y = gm_id m" using member_by_id [OF assms(1) _ that] m by simp
  show "y = m" if "y \<in> set (gw_members w)" "is_member g u y"
    using member_by_user [OF assms(1) _ that(1), of m] m that(2) by (simp add: is_member_def live_member_def)
qed

section \<open>Reading\<close>

lemma expiry_keeps: "group_inv uuid w \<Longrightarrow> wlp (checkAndProcessExpiration E tn g) (\<lambda>_. group_inv uuid) w"
proof (cases "overdue (ge_now E) g")
  case True
  assume inv: "group_inv uuid w"
  define hit f where "hit = (\<lambda>y :: group_booking. gb_id y = gb_id g \<and> gb_version y = gb_version g)"
    and "f = (\<lambda>y :: group_booking. y\<lparr>gb_status := G_expired, gb_version := gb_version y + 1, gb_updatedAt := ge_now E\<rparr>)"
  define w1 where "w1 = w\<lparr>gw_groups := update_where hit f (gw_groups w)\<rparr>"
  have inv1: "group_inv uuid w1"
    unfolding w1_def by (rule group_inv_groups [OF inv]) (auto simp: hit_def f_def)
  have closed: "wlp (close_order E tn a b c) (\<lambda>_. group_inv uuid) w1" for a b c
    by (rule wlp_quiet_keeps [OF quiet_close_order inv1])
  have "checkAndProcessExpiration E tn g = bnd (peek (\<lambda>w. map_option f (List.find hit (gw_groups w)))) (\<lambda>expired.
      bnd (alter (\<lambda>w. w\<lparr>gw_groups := update_where hit f (gw_groups w)\<rparr>)) (\<lambda>_.
      case expired of None \<Rightarrow> ret g
      | Some x \<Rightarrow>
          bnd (close_order E tn (gb_createdBy g) (gb_order g) (\<lambda>i. i\<lparr>ub_status := Some O_expired\<rparr>)) (\<lambda>_.
          bnd (alter (createGroupBookingActivityRecord (ge_now E) (gb_id g) None ''booking_expired'')) (\<lambda>_.
          bnd (peek (listGroupBookingMembers (gb_id g))) (\<lambda>ms.
          bnd (alter (notify_members tn ''group_booking_expired'' (gb_id g) ms)) (\<lambda>_. ret x))))))"
    using True by (simp add: checkAndProcessExpiration_def hit_def f_def Let_def)
  then show ?thesis
    using inv1 closed by (simp add: wlp_simps w1_def [symmetric] split: option.splits)
qed (simp add: checkAndProcessExpiration_def wlp_simps)

lemma keeps_get: "holds (group_inv uuid) (getGroupBooking E tn i u)"
  unfolding getGroupBooking_def
  by (rule group_tx_keeps) (auto simp: wlp_simps intro!: wlp_load)

lemma keeps_list: "holds (group_inv uuid) (listGroupBookingsService E tn u q)"
proof -
  have one: "wlp (bnd (checkAndProcessExpiration E tn g) (\<lambda>x. ret (f x))) (\<lambda>_. group_inv uuid) w"
    if "group_inv uuid w" for g w and f :: "group_booking \<Rightarrow> 'x"
    using expiry_keeps [OF that, of E tn g] by (simp add: wlp_bnd wlp_steps(1))
  have "wlp (collect (\<lambda>g. bnd (checkAndProcessExpiration E tn g) (\<lambda>x. ret (f x))) xs) (\<lambda>_. group_inv uuid) w"
    if "group_inv uuid w" for xs w and f :: "group_booking \<Rightarrow> 'x"
    by (rule wlp_collect) (use one that in auto)
  then show ?thesis
    unfolding listGroupBookingsService_def Let_def
    by (intro group_tx_keeps) (simp add: wlp_simps)
qed

section \<open>Invitations\<close>

lemma keeps_invite:
  assumes "inj uuid" "ge_uuid E = uuid"
  shows "holds (group_inv uuid) (inviteMember E tn i act u)"
  unfolding inviteMember_def
proof (rule group_tx_keeps)
  fix w assume inv: "group_inv uuid w"
  have new: "group_inv uuid w'" if "addGroupBookingMember uuid (new_member t (gb_id g) u) w = Inr (r, w')"
    "findGroupBookingMember (gb_id g) u w = None" "findGroupBookingById tn i w = Some g" for r w' g t
    by (rule inv_new_member [OF inv assms(1), of g, OF _ _ _ _ _ _ _ _ that(1)])
      (use findGroup_in [OF that(3)] that(2) in \<open>simp_all add: new_member_def live_member_def\<close>)
  have again: "group_inv uuid w'" if run: "updateGroupBookingMemberRecord t (gm_id m) (\<lambda>x. x\<lparr>gm_invite := I_invited,
      gm_contribution := 0, gm_paid := 0, gm_joinedAt := None\<rparr>) w = Inr (r, w')"
    and m: "findGroupBookingMember (gb_id g) u w = Some m" "gm_invite m = I_declined" for r w' g m t
  proof -
    have "gm_paid m = 0" "\<not> gm_owner m" using member_row(2) [OF inv m(1)] m(2) by (auto simp: member_ok_def)
    then show ?thesis by (intro inv_member_record [OF inv run]) (use member_row(4) [OF inv m(1)] in auto)
  qed
  show "wlp (bnd (active_group E tn i ''Invitations can only be sent for active group bookings'') (\<lambda>g.
     bnd (owner_only (gb_id g) act ''Only the group booking owner can invite members'') (\<lambda>_.
     bnd (peek (findGroupBookingMember (gb_id g) u)) (\<lambda>existing.
     case existing of
       Some m \<Rightarrow>
         bnd (check (gm_invite m = I_declined) (conflict ''User is already a member or has a pending invitation'')) (\<lambda>_.
         bnd (attempt (updateGroupBookingMemberRecord (ge_now E) (gm_id m) (\<lambda>x. x\<lparr>gm_invite := I_invited,
                gm_contribution := 0, gm_paid := 0, gm_joinedAt := None\<rparr>))) (\<lambda>r.
         bnd (announce_invite E tn (gb_id g) act u) (\<lambda>_. ret r)))
     | None \<Rightarrow>
         bnd (attempt (addGroupBookingMember (ge_uuid E) (new_member (ge_now E) (gb_id g) u))) (\<lambda>r.
         bnd (announce_invite E tn (gb_id g) act u) (\<lambda>_. ret (Some r))))))) (\<lambda>_. group_inv uuid) w"
    using new again by (auto simp: wlp_active [OF inv] wlp_simps group_notes assms(2) split: option.splits)
qed

text \<open>An update of an invited member that leaves his money alone.\<close>

lemma inv_invited_member:
  assumes inv: "group_inv uuid w" and m: "findGroupBookingMember g u w = Some m" "gm_invite m = I_invited"
    and run: "updateGroupBookingMemberRecord now (gm_id m) f w = Inr (r, w')"
    and f: "\<And>m. gm_id (f m) = gm_id m \<and> gm_group (f m) = gm_group m \<and> gm_user (f m) = gm_user m
      \<and> gm_owner (f m) = gm_owner m \<and> gm_deletedAt (f m) = gm_deletedAt m \<and> gm_paid (f m) = gm_paid m
      \<and> gm_contribution (f m) = gm_contribution m"
  shows "group_inv uuid w'"
proof (rule inv_member_record [OF inv run])
  have ok: "gm_paid m = 0" "\<not> gm_owner m" "0 \<le> gm_contribution m"
    using member_row(2) [OF inv m(1)] m(2) by (auto simp: member_ok_def)
  fix y assume "y \<in> set (gw_members w)" "gm_id y = gm_id m"
  then have "y = m" by (rule member_row(4) [OF inv m(1)])
  with ok f [of m] show "gm_paid (f y) = gm_paid y \<and> (gm_paid y = 0 \<or> gm_paid y \<le> gm_contribution (f y))
    \<and> (gm_invite (f y) \<noteq> I_accepted \<longrightarrow> gm_paid y = 0 \<and> \<not> gm_owner y) \<and> (\<not> gm_owner y \<longrightarrow> 0 \<le> gm_contribution (f y))"
    by simp
qed (use f in simp)

lemma keeps_accept: "holds (group_inv uuid) (acceptInvitation E tn i u)"
  unfolding acceptInvitation_def
  by (rule group_tx_keeps) (auto simp: wlp_active wlp_simps group_log_def elim!: inv_invited_member)

lemma keeps_decline: "holds (group_inv uuid) (declineInvitation E tn i u)"
  unfolding declineInvitation_def
  by (rule group_tx_keeps) (auto simp: wlp_active wlp_simps group_log_def elim!: inv_invited_member)

section \<open>Cancelling and attendees\<close>

lemma keeps_cancel_group: "holds (group_inv uuid) (cancelGroupBooking E tn i act t)"
proof -
  have closed: "wlp (close_order E tn a b c) (\<lambda>_. group_inv uuid) w" if "group_inv uuid w" for a b c w
    by (rule wlp_quiet_keeps [OF quiet_close_order that])
  have changed: "group_inv uuid w'" if "group_inv uuid w"
    "updateGroupBookingRecord (ge_now E) tn i (Some G_cancelled) t w = Inr (x, w')" for w x w'
    by (rule inv_group_record [OF that]) simp
  show ?thesis
    unfolding cancelGroupBooking_def
    by (rule group_tx_keeps) (auto simp: wlp_simps group_log_def intro!: wlp_load closed elim: changed)
qed

lemma wlp_touch:
  assumes "group_inv uuid w"
    and "\<And>w'. group_inv uuid w' \<Longrightarrow> gw_members w' = gw_members w \<Longrightarrow> Q () w'"
  shows "wlp (touch_group E tn i t) Q w"
  unfolding wlp_def
proof (intro allI impI)
  fix u w' assume run: "touch_group E tn i t w = (Inr u, w')"
  show "Q u w'" using assms(2) [of w'] inv_touch [OF assms(1) run] touch_members [OF run] by simp
qed

lemma keeps_assign: "holds (group_inv uuid) (assignGroupBookingAttendees E tn i act xs t)"
  unfolding assignGroupBookingAttendees_def
  by (rule group_tx_keeps) (cases t; auto simp: wlp_simps res_simps intro!: wlp_load wlp_touch)

end
