(* ===== verification/GroupMoney.thy ===== *)
theory GroupMoney
  imports GroupKeeps
begin

text \<open>
  The operations that move shares and money: removing a member, setting the shares, recording a
  contribution and creating a group keep the books too.
\<close>

section \<open>Removing a member\<close>

lemma inv_remove_rows:
  assumes inv: "group_inv uuid w"
    and m: "\<And>y. y \<in> set (gw_members w) \<Longrightarrow> is_member g u y \<Longrightarrow> gm_paid y = 0 \<and> \<not> gm_owner y"
  shows "group_inv uuid (removeGroupBookingMember now g u w)"
proof -
  define f where "f = (\<lambda>m :: group_member. m\<lparr>gm_deletedAt := Some now, gm_updatedAt := now\<rparr>)"
  let ?ms = "update_where (is_member g u) f (gw_members w)"
  have sum: "paid_sum i ?ms = paid_sum i (gw_members w)" for i
  proof -
    have "sum_where (\<lambda>m. gm_group m = i \<and> live_member m) gm_paid (update_where (is_member g u) f xs)
        = sum_where (\<lambda>m. gm_group m = i \<and> live_member m) gm_paid xs" if "set xs \<subseteq> set (gw_members w)" for xs
      using that by (induction xs) (use m in \<open>auto simp: f_def live_member_def\<close>)
    then show ?thesis by (simp add: paid_sum_def)
  qed
  have own: "\<exists>y \<in> set ?ms. gm_group y = i \<and> gm_owner y" if "\<exists>y \<in> set (gw_members w). gm_group y = i \<and> gm_owner y" for i
    using that m by (auto simp: set_update_where f_def)
  have sub: "filter live_member (update_where (is_member g u) f xs) = filter (\<lambda>y. \<not> is_member g u y) (filter live_member xs)" for xs
    by (induction xs) (auto simp: f_def live_member_def)
  have "distinct (map (\<lambda>m. (gm_group m, gm_user m)) (filter live_member ?ms))"
    unfolding sub by (rule distinct_map_filter) (use inv in \<open>simp add: group_inv_def\<close>)
  moreover have "map gm_id ?ms = map gm_id (gw_members w)" by (simp add: table_simps f_def)
  moreover have rows: "known_id uuid (gw_next w) (gm_id y) \<and> member_ok (gw_groups w) y" if "y \<in> set ?ms" for y
  proof -
    from that obtain z where z: "z \<in> set (gw_members w)" "y = z \<or> y = f z \<and> is_member g u z"
      by (auto simp: set_update_where)
    moreover from z(1) inv have "known_id uuid (gw_next w) (gm_id z)" "member_ok (gw_groups w) z"
      by (simp_all add: group_inv_def)
    ultimately show ?thesis using m [of z] by (auto simp: member_ok_def f_def)
  qed
  moreover have "group_ok ?ms x" if "group_ok (gw_members w) x" for x using that own [of "gb_id x"] by (auto simp: group_ok_def sum)
  ultimately have "group_inv uuid (w\<lparr>gw_members := ?ms\<rparr>)" using inv unfolding group_inv_def by simp
  then show ?thesis by (simp add: removeGroupBookingMember_def f_def)
qed

lemma unpaid: "fits p \<Longrightarrow> 0 \<le> p \<Longrightarrow> \<not> 0 < parse_dec p \<Longrightarrow> p = 0"
proof (rule ccontr)
  assume p: "fits p" "0 \<le> p" "\<not> 0 < parse_dec p" "p \<noteq> 0"
  then have "rat_of_int 1 \<le> of_int p" by (simp only: of_int_le_iff)
  with dec_error [OF p(1)] p(3) show False by linarith
qed

lemma share_handed_on:
  assumes "member_ok gs m" "member_ok gs n" "\<not> gm_owner m"
  defines "s \<equiv> to_fixed2 (js_add (parse_dec (gm_contribution n)) (parse_dec (gm_contribution m)))"
  shows "gm_paid n = 0 \<or> gm_paid n \<le> s" "\<not> gm_owner n \<longrightarrow> 0 \<le> s"
proof -
  have s: "s = gm_contribution n + gm_contribution m" if "0 \<le> gm_contribution n"
    unfolding s_def by (rule to_fixed2_add) (use assms(1-3) that in \<open>auto simp: member_ok_def fits_def\<close>)
  show "gm_paid n = 0 \<or> gm_paid n \<le> s" "\<not> gm_owner n \<longrightarrow> 0 \<le> s"
    using assms(1-3) s by (auto simp: member_ok_def)
qed

lemma keeps_remove: "holds (group_inv uuid) (removeMember E tn i act u t)"
proof -
  have remove: "group_inv uuid (removeGroupBookingMember now g u w')"
    if inv: "group_inv uuid w" and m: "findGroupBookingMember g u w = Some m" "\<not> gm_owner m" "\<not> 0 < parse_dec (gm_paid m)"
      and n: "findGroupBookingMember g c w = Some n"
      and run: "updateGroupBookingMemberRecord now (gm_id n) (\<lambda>x. x\<lparr>gm_contribution :=
                  to_fixed2 (js_add (parse_dec (gm_contribution n)) (parse_dec (gm_contribution m)))\<rparr>) w = Inr (r, w')"
    for w w' g c m n r now
  proof (rule inv_remove_rows)
    note ok = member_row [OF inv m(1)] member_row [OF inv n]
    show "group_inv uuid w'"
    proof (rule inv_member_record [OF inv run])
      fix y assume y: "y \<in> set (gw_members w)" "gm_id y = gm_id n" "live_member y"
      have "y = n" by (rule member_row(4) [OF inv n y(1,2)])
      then show "gm_paid (y\<lparr>gm_contribution := to_fixed2 (js_add (parse_dec (gm_contribution n)) (parse_dec (gm_contribution m)))\<rparr>)
          = gm_paid y \<and> (gm_paid y = 0 \<or> gm_paid y \<le> gm_contribution (y\<lparr>gm_contribution :=
            to_fixed2 (js_add (parse_dec (gm_contribution n)) (parse_dec (gm_contribution m)))\<rparr>))
          \<and> (gm_invite (y\<lparr>gm_contribution := to_fixed2 (js_add (parse_dec (gm_contribution n)) (parse_dec (gm_contribution m)))\<rparr>)
              \<noteq> I_accepted \<longrightarrow> gm_paid y = 0 \<and> \<not> gm_owner y)
          \<and> (\<not> gm_owner y \<longrightarrow> 0 \<le> gm_contribution (y\<lparr>gm_contribution :=
            to_fixed2 (js_add (parse_dec (gm_contribution n)) (parse_dec (gm_contribution m)))\<rparr>))"
        using share_handed_on [OF ok(2) ok(7) m(2)] ok(7) by (auto simp: member_ok_def)
    qed simp_all
    fix y assume "y \<in> set (gw_members w')" "is_member g u y"
    then obtain z where z: "z \<in> set (gw_members w)" "is_member g u z" "gm_paid y = gm_paid z" "gm_owner y = gm_owner z"
      using run by (auto simp: member_record_Inr Let_def set_update_where is_member_def)
    then have "z = m" using member_row(5) [OF inv m(1)] by blast
    with z m(2,3) ok(2) unpaid show "gm_paid y = 0 \<and> \<not> gm_owner y" by (auto simp: member_ok_def)
  qed
  have only: "group_inv uuid (removeGroupBookingMember now g u w)"
    if inv: "group_inv uuid w" and m: "findGroupBookingMember g u w = Some m" "\<not> gm_owner m" "\<not> 0 < parse_dec (gm_paid m)"
    for w g m now
    by (rule inv_remove_rows [OF inv]) (use member_row [OF inv m(1)] m(2,3) unpaid in \<open>auto simp: member_ok_def\<close>)
  show ?thesis
    unfolding removeMember_def
    by (rule group_tx_keeps)
      (cases t; auto simp: wlp_active wlp_simps group_log_def intro!: wlp_touch intro: remove only split: option.splits)
qed

section \<open>Shares\<close>

text \<open>What the shares do not change of the members.\<close>

definition share_view :: "group_member list \<Rightarrow> (id \<times> int \<times> bool \<times> invite_status) list" where
  "share_view ms = map (\<lambda>m. (gm_id m, gm_paid m, gm_owner m, gm_invite m)) ms"

lemma shares_checked:
  "forR (check_share ms) xs acc = Inr s \<Longrightarrow> x \<in> set xs \<Longrightarrow> share_member ms (fst x) = Some m \<Longrightarrow>
    \<not> snd x < parse_dec (gm_paid m)"
  by (induction xs arbitrary: acc) (auto simp: check_share_def res_simps optR_Inr)

lemma share_member_in: "share_member ms u = Some m \<Longrightarrow> m \<in> set ms"
  by (auto simp: share_member_def dest: find_SomeD)

lemma share_run:
  assumes inv: "group_inv uuid w" and view: "share_view (gw_members w) = share_view (gw_members w0)"
    and m: "m \<in> set (gw_members w0)" "\<not> a < parse_dec (gm_paid m)"
    and run: "updateGroupBookingMemberRecord now (gm_id m) (\<lambda>x. x\<lparr>gm_contribution := to_fixed2 a\<rparr>) w = Inr (r, w')"
  shows "group_inv uuid w' \<and> share_view (gw_members w') = share_view (gw_members w0)"
proof
  show "share_view (gw_members w') = share_view (gw_members w0)"
    unfolding view [symmetric] using run by (auto simp: member_record_Inr Let_def share_view_def table_simps)
  show "group_inv uuid w'"
  proof (rule inv_member_record [OF inv run])
    fix y assume y: "y \<in> set (gw_members w)" "gm_id y = gm_id m" "live_member y"
    have "(gm_id m, gm_paid m, gm_owner m, gm_invite m) \<in> set (share_view (gw_members w0))"
      using m(1) by (auto simp: share_view_def)
    then obtain z where z: "z \<in> set (gw_members w)" "gm_id z = gm_id m" "gm_paid z = gm_paid m"
      unfolding view [symmetric] by (auto simp: share_view_def)
    then have zy: "z = y" using member_by_id [OF inv y(1) z(1)] y(2) by simp
    have ok: "member_ok (gw_groups w) y" using inv y(1) by (simp add: group_inv_def)
    then have "gm_paid y \<le> to_fixed2 a"
      using share_covers_paid [of "gm_paid y" a] z(3) zy m(2) by (simp add: member_ok_def)
    with ok show "gm_paid (y\<lparr>gm_contribution := to_fixed2 a\<rparr>) = gm_paid y
        \<and> (gm_paid y = 0 \<or> gm_paid y \<le> gm_contribution (y\<lparr>gm_contribution := to_fixed2 a\<rparr>))
        \<and> (gm_invite (y\<lparr>gm_contribution := to_fixed2 a\<rparr>) \<noteq> I_accepted \<longrightarrow> gm_paid y = 0 \<and> \<not> gm_owner y)
        \<and> (\<not> gm_owner y \<longrightarrow> 0 \<le> gm_contribution (y\<lparr>gm_contribution := to_fixed2 a\<rparr>))"
      by (auto simp: member_ok_def)
  qed simp_all
qed

lemma keeps_shares: "holds (group_inv uuid) (updateShares E tn i act shares t)"
proof -
  have loop: "wlp (each (set_share E (listGroupBookingMembers g w)) shares) (\<lambda>_. group_inv uuid) w"
    if inv: "group_inv uuid w" and checked: "forR (check_share (listGroupBookingMembers g w)) shares 0 = Inr s" for g w s
  proof -
    let ?P = "\<lambda>v. group_inv uuid v \<and> share_view (gw_members v) = share_view (gw_members w)"
    have "wlp (each (set_share E (listGroupBookingMembers g w)) shares) (\<lambda>_. ?P) w"
    proof (rule wlp_each)
      fix x v assume x: "x \<in> set shares" and v: "?P v"
      show "wlp (set_share E (listGroupBookingMembers g w) x) (\<lambda>_. ?P) v"
      proof (cases "share_member (listGroupBookingMembers g w) (fst x)")
        case (Some m)
        have "m \<in> set (gw_members w)" using share_member_in [OF Some] by (simp add: listGroupBookingMembers_def)
        with v shares_checked [OF checked x Some] Some show ?thesis
          by (auto simp: set_share_def wlp_simps dest: share_run)
      qed (use v in \<open>simp add: set_share_def wlp_simps\<close>)
    qed (use inv in simp)
    then show ?thesis by (rule wlp_mono) simp
  qed
  show ?thesis
    unfolding updateShares_def
    by (rule group_tx_keeps) (auto simp: wlp_active wlp_simps group_log_def intro!: wlp_touch loop)
qed

section \<open>Contributions\<close>

text \<open>
  The two updates of a contribution of \<open>c\<close> cents: the member's row and the group's. Neither alone keeps
  the books.
\<close>

lemma inv_contribution:
  assumes inv: "group_inv uuid w" and g: "g \<in> set (gw_groups w)" and m: "m \<in> set (gw_members w)" "live_member m"
      "gm_group m = gb_id g" "gm_invite m = I_accepted"
    and c: "0 < c" "gm_paid m + c \<le> gm_contribution m" "fits (gm_paid m + c)"
    and f: "\<And>x. gm_id (f x) = gm_id x \<and> gm_group (f x) = gm_group x \<and> gm_user (f x) = gm_user x
      \<and> gm_owner (f x) = gm_owner x \<and> gm_deletedAt (f x) = gm_deletedAt x \<and> gm_invite (f x) = gm_invite x
      \<and> gm_contribution (f x) = gm_contribution x" "gm_paid (f m) = gm_paid m + c"
    and k: "\<And>x. gb_id (k x) = gb_id x \<and> gb_createdBy (k x) = gb_createdBy x \<and> gb_total (k x) = gb_total x
      \<and> gb_collected (k x) = gb_collected x + c \<and> gb_status (k x) = gb_status x"
  shows "group_inv uuid (w\<lparr>gw_members := update_where (\<lambda>x. gm_id x = gm_id m) f (gw_members w),
    gw_groups := update_where (\<lambda>x. gb_id x = gb_id g) k (gw_groups w)\<rparr>)"
proof -
  let ?ms = "update_where (\<lambda>x. gm_id x = gm_id m) f (gw_members w)"
  let ?gs = "update_where (\<lambda>x. gb_id x = gb_id g) k (gw_groups w)"
  have live: "live_member (f x) = live_member x" for x using f(1) [of x] by (simp add: live_member_def)
  have keys: "map gm_id ?ms = map gm_id (gw_members w)"
    "map (\<lambda>m. (gm_group m, gm_user m)) (filter live_member ?ms)
      = map (\<lambda>m. (gm_group m, gm_user m)) (filter live_member (gw_members w))"
    "\<And>i. (\<exists>m \<in> set ?ms. gm_group m = i \<and> gm_owner m) = (\<exists>m \<in> set (gw_members w). gm_group m = i \<and> gm_owner m)"
    by (rule member_keys; use f live in blast)+
  have gkeys: "map gb_id ?gs = map gb_id (gw_groups w)" using k by (simp add: table_simps)
  have dist: "distinct (map gm_id (gw_members w))" using inv by (simp add: group_inv_def)
  have sum: "paid_sum i ?ms = paid_sum i (gw_members w) + (if i = gb_id g then c else 0)" for i
    unfolding paid_sum_def sum_where_update_key [OF dist m(1)]
    using m(2,3) f(1) [of m] f(2) live [of m] by auto
  have groups: "known_id uuid (gw_next w) (gb_id x) \<and> group_ok ?ms x" if "x \<in> set ?gs" for x
  proof -
    from that obtain y where y: "y \<in> set (gw_groups w)" "x = (if gb_id y = gb_id g then k y else y)"
      by (auto simp: set_update_where)
    with inv have "known_id uuid (gw_next w) (gb_id y)" "group_ok (gw_members w) y" by (simp_all add: group_inv_def)
    with y(2) k [of y] c(1) show ?thesis by (auto simp: group_ok_def sum keys(3))
  qed
  have members: "known_id uuid (gw_next w) (gm_id x) \<and> member_ok ?gs x" if "x \<in> set ?ms" for x
  proof -
    from that obtain y where y: "y \<in> set (gw_members w)" "x = (if gm_id y = gm_id m then f y else y)"
      by (auto simp: set_update_where)
    from y(1) inv have ok: "known_id uuid (gw_next w) (gm_id y)" "member_ok (gw_groups w) y" by (simp_all add: group_inv_def)
    then obtain z where z: "z \<in> set (gw_groups w)" "gb_id z = gm_group y" "gm_owner y \<longrightarrow> gm_user y = gb_createdBy z"
      by (auto simp: member_ok_def)
    have "\<exists>z \<in> set ?gs. gb_id z = gm_group y \<and> (gm_owner y \<longrightarrow> gm_user y = gb_createdBy z)"
      by (rule bexI [of _ "if gb_id z = gb_id g then k z else z"]) (use z k [of z] in \<open>auto simp: set_update_where\<close>)
    moreover have "y = m" if "gm_id y = gm_id m" by (rule member_by_id [OF inv m(1) y(1) that])
    ultimately show ?thesis using y(2) ok f(1) [of y] f(2) live [of y] m(4) c by (auto simp: member_ok_def)
  qed
  show ?thesis unfolding group_inv_def using inv groups members keys gkeys by (simp add: group_inv_def)
qed

text \<open>The group is completed when what is collected reaches the total.\<close>

lemma inv_completed:
  assumes inv: "group_inv uuid w" and g: "g \<in> set (gw_groups w)" "gb_total g \<le> gb_collected g"
  shows "wlp (complete_group E tn g) (\<lambda>_. group_inv uuid) w"
proof -
  let ?w = "w\<lparr>gw_groups := update_where (\<lambda>x. gb_id x = gb_id g)
    (\<lambda>x. x\<lparr>gb_status := G_completed, gb_updatedAt := ge_now E\<rparr>) (gw_groups w)\<rparr>"
  have inv1: "group_inv uuid ?w"
    by (rule group_inv_groups [OF inv]) (use group_by_id [OF inv g(1)] g(2) in auto)
  have changed: "wlp (change_order E tn a b f) (\<lambda>_. group_inv uuid) ?w" for a b f
    by (rule wlp_quiet_keeps [OF quiet_change_order inv1])
  show ?thesis
    unfolding complete_group_def
    using inv1 changed by (auto simp: wlp_simps group_log_def split: option.splits)
qed

lemma collect_run:
  assumes inv: "group_inv uuid w" and g: "g \<in> set (gw_groups w)"
    and run: "collect_amount E g a t v = (Inr x, v')" and v: "gw_groups v = gw_groups w"
  defines "k \<equiv> \<lambda>x. x\<lparr>gb_collected := gb_collected x + to_fixed2 a, gb_version := gb_version x + 1, gb_updatedAt := ge_now E\<rparr>"
  shows "v' = v\<lparr>gw_groups := update_where (\<lambda>x. gb_id x = gb_id g) k (gw_groups v)\<rparr> \<and> x = k g \<and> fits (gb_collected x)"
proof -
  let ?hit = "\<lambda>x. gb_id x = gb_id g \<and> gb_deletedAt x = None
    \<and> (case t of None \<Rightarrow> True | Some t \<Rightarrow> optimisticLock (gb_updatedAt x) t)"
  have "wlp (collect_amount E g a t) (\<lambda>x v'. (\<exists>y. List.find ?hit (gw_groups v) = Some y \<and> x = k y \<and> fits (gb_collected x))
      \<and> v' = v\<lparr>gw_groups := update_where ?hit k (gw_groups v)\<rparr>) v"
    unfolding collect_amount_def k_def Let_def
    by (auto simp: wlp_simps assertOptimisticUpdate_def optR_Inr split: option.splits if_splits)
  from wlpD [OF this run] obtain y where y: "List.find ?hit (gw_groups w) = Some y" "x = k y" "fits (gb_collected x)"
    and v': "v' = v\<lparr>gw_groups := update_where ?hit k (gw_groups v)\<rparr>" by (auto simp: v)
  from find_SomeD [OF y(1)] have hit: "y \<in> set (gw_groups w)" "?hit y" by auto
  then have "y = g" using group_by_id [OF inv g] by simp
  moreover have "update_where ?hit k (gw_groups w) = update_where (\<lambda>x. gb_id x = gb_id y) k (gw_groups w)"
    by (rule update_where_row) (use inv hit \<open>y = g\<close> in \<open>auto simp: group_inv_def\<close>)
  ultimately show ?thesis using y v' by (simp add: v)
qed

text \<open>What \<open>recordContribution\<close> does to the two rows.\<close>

lemma inv_paid_share:
  assumes inv: "group_inv uuid w" and c: "0 < c" "fits c"
    and g: "findGroupBookingById tn i w = Some g" and m: "findGroupBookingMember (gb_id g) u w = Some m" "gm_invite m = I_accepted"
    and share: "\<not> js_add (parse_dec (gm_contribution m)) (fl (1 / 1000)) < js_add (parse_dec (gm_paid m)) (parse_dec c)"
    and first: "updateGroupBookingMemberRecord (ge_now E) (gm_id m)
      (\<lambda>x. x\<lparr>gm_paid := to_fixed2 (js_add (parse_dec (gm_paid m)) (parse_dec c))\<rparr>) w = Inr (r, v)"
    and second: "collect_amount E g (parse_dec c) t v = (Inr x, v')"
  shows "group_inv uuid v'" "\<And>s' i' a' ty. x \<in> set (gw_groups (createGroupBookingActivityRecord s' i' a' ty v'))"
    "complete_group E tn g = complete_group E tn x" "fits (gb_total x)" "fits (gb_collected x)"
proof -
  note mm = member_row [OF inv m(1)]
  note gg = findGroup_in [OF g]
  have ok: "fits (gm_paid m)" "fits (gm_contribution m)" "0 \<le> gm_paid m" using mm(2) by (simp_all add: member_ok_def)
  note share' = paid_within_share [OF ok(2,1) c(2) ok(3) c(1)]
  define f where "f = (\<lambda>x :: group_member. x\<lparr>gm_paid := gm_paid m + c, gm_version := gm_version x + 1, gm_updatedAt := ge_now E\<rparr>)"
  define k where "k = (\<lambda>x :: group_booking. x\<lparr>gb_collected := gb_collected x + c, gb_version := gb_version x + 1, gb_updatedAt := ge_now E\<rparr>)"
  have row: "update_where (\<lambda>x. gm_id x = gm_id m \<and> gm_deletedAt x = None) f (gw_members w)
      = update_where (\<lambda>x. gm_id x = gm_id m) f (gw_members w)"
    by (rule update_where_row) (use inv mm in \<open>auto simp: group_inv_def live_member_def\<close>)
  have v: "v = w\<lparr>gw_members := update_where (\<lambda>x. gm_id x = gm_id m) f (gw_members w)\<rparr>" and fit: "fits (gm_paid m + c)"
    using first mm(1,3) by (auto simp: member_record_Inr Let_def share'(2) row [unfolded f_def] live_member_def f_def)
  have cents: "to_fixed2 (parse_dec c) = c" using c by (simp add: to_fixed2_parse_dec fits_def)
  from collect_run [OF inv _ second] gg v cents
  have v': "v' = v\<lparr>gw_groups := update_where (\<lambda>x. gb_id x = gb_id g) k (gw_groups v)\<rparr>" and x: "x = k g" "fits (gb_collected x)"
    by (auto simp: k_def)
  have "group_inv uuid (w\<lparr>gw_members := update_where (\<lambda>x. gm_id x = gm_id m) f (gw_members w),
    gw_groups := update_where (\<lambda>x. gb_id x = gb_id g) k (gw_groups w)\<rparr>)"
    by (rule inv_contribution [OF inv, of g m c])
      (use mm(1,3) gg c(1) share share'(1) fit m(2) findMember_in [OF m(1)] in \<open>simp_all add: f_def k_def\<close>)
  then show "group_inv uuid v'" by (simp add: v' v)
  show "x \<in> set (gw_groups (createGroupBookingActivityRecord s' i' a' ty v'))" for s' i' a' ty
    using gg by (auto simp: v' v x set_update_where createGroupBookingActivityRecord_def)
  show "complete_group E tn g = complete_group E tn x"
    by (simp add: x k_def complete_group_def cong: option.case_cong)
  show "fits (gb_collected x)" by (rule x(2))
  show "fits (gb_total x)" using inv gg by (auto simp: group_inv_def group_ok_def x k_def)
qed

lemma keeps_contribution:
  assumes c: "0 < c" "fits c"
  shows "holds (group_inv uuid) (recordContribution E tn i u (parse_dec c) t)"
  unfolding recordContribution_def Let_def
proof (rule group_tx_keeps)
  fix w assume inv: "group_inv uuid w"
  have paid: "wlp (if fully_paid x then complete_group E tn g else ret ()) (\<lambda>_. group_inv uuid)
      (createGroupBookingActivityRecord (ge_now E) (gb_id g) (Some u) ''contribution_recorded'' v')"
    if "findGroupBookingById tn i w = Some g" "findGroupBookingMember (gb_id g) u w = Some m" "gm_invite m = I_accepted"
      "\<not> js_add (parse_dec (gm_contribution m)) (fl (1 / 1000)) < js_add (parse_dec (gm_paid m)) (parse_dec c)"
      "updateGroupBookingMemberRecord (ge_now E) (gm_id m)
        (\<lambda>x. x\<lparr>gm_paid := to_fixed2 (js_add (parse_dec (gm_paid m)) (parse_dec c))\<rparr>) w = Inr (r, v)"
      "collect_amount E g (parse_dec c) t v = (Inr x, v')"
    for g m r v x v'
    using inv_paid_share [OF inv c that] fully_paid_iff [of x] inv_completed
    by (simp add: wlp_simps)
  show "wlp (bnd (active_group E tn i ''Payments can only be recorded for active group bookings'') (\<lambda>g.
     bnd (peek (findGroupBookingMember (gb_id g) u)) (\<lambda>m.
     bnd (lift (optR (case m of None \<Rightarrow> None | Some m \<Rightarrow> if gm_invite m = I_accepted then Some m else None)
            (forbidden ''Only accepted members can contribute to the group booking''))) (\<lambda>m.
     bnd (check (\<not> js_add (parse_dec (gm_contribution m)) (fl (1 / 1000)) < js_add (parse_dec (gm_paid m)) (parse_dec c))
               (badRequest ''Your contribution exceeds your remaining share allocation'')) (\<lambda>_.
     bnd (attempt (updateGroupBookingMemberRecord (ge_now E) (gm_id m)
            (\<lambda>x. x\<lparr>gm_paid := to_fixed2 (js_add (parse_dec (gm_paid m)) (parse_dec c))\<rparr>))) (\<lambda>r.
     bnd (collect_amount E g (parse_dec c) t) (\<lambda>updated.
     bnd (group_log E (gb_id g) (Some u) ''contribution_recorded'') (\<lambda>_.
     bnd (if fully_paid updated then complete_group E tn g else ret ()) (\<lambda>_. ret r))))))))) (\<lambda>_. group_inv uuid) w"
    using paid [unfolded wlp_simps]
    by (auto simp: wlp_active [OF inv] wlp_simps optR_Inr group_log_def wlp_def [of "collect_amount _ _ _ _"]
        cong: if_cong split: option.splits if_split_asm split del: if_split)
qed

section \<open>Creating a group\<close>

lemma inv_created:
  assumes inv: "group_inv uuid w" and uuid: "inj uuid" and fit: "fits (gb_total g)"
    and g: "gb_id g = uuid (gw_next w)" "gb_status g \<noteq> G_completed" "gb_collected g = 0"
    and m: "gm_id m = uuid (Suc (gw_next w))" "gm_group m = gb_id g" "gm_user m = gb_createdBy g" "gm_owner m"
      "gm_invite m = I_accepted" "gm_paid m = 0" "fits (gm_contribution m)" "live_member m"
  shows "group_inv uuid (w\<lparr>gw_groups := gw_groups w @ [g], gw_members := gw_members w @ [m],
    gw_next := Suc (Suc (gw_next w))\<rparr>)"
proof -
  have known: "known_id uuid (Suc (Suc (gw_next w))) i" if "known_id uuid (gw_next w) i" for i
    using that by (auto simp: known_id_def intro: less_SucI)
  have new: "\<not> known_id uuid (gw_next w) (gb_id g)" "\<not> known_id uuid (gw_next w) (gm_id m)"
    using uuid by (auto simp: known_id_def inj_eq g m)
  have here: "known_id uuid (Suc (Suc (gw_next w))) (gb_id g)" "known_id uuid (Suc (Suc (gw_next w))) (gm_id m)"
    unfolding known_id_def g m by (rule exI [of _ "gw_next w"], simp, rule exI [of _ "Suc (gw_next w)"], simp)
  have other: "gm_group x \<noteq> gb_id g" if x: "x \<in> set (gw_members w)" for x
  proof
    assume eq: "gm_group x = gb_id g"
    from x inv obtain y where "y \<in> set (gw_groups w)" "gb_id y = gm_group x" by (auto simp: group_inv_def member_ok_def)
    with inv eq have "known_id uuid (gw_next w) (gb_id g)" by (auto simp: group_inv_def)
    with new show False by simp
  qed
  have sum: "paid_sum i (gw_members w @ [m]) = paid_sum i (gw_members w)" for i by (simp add: paid_sum_def m)
  have none: "paid_sum (gb_id g) (gw_members w) = 0"
  proof -
    have "sum_where (\<lambda>m. gm_group m = gb_id g \<and> live_member m) gm_paid xs = 0" if "set xs \<subseteq> set (gw_members w)" for xs
      using that other by (induction xs) auto
    then show ?thesis by (simp add: paid_sum_def)
  qed
  have old: "group_ok (gw_members w @ [m]) x" if "group_ok (gw_members w) x" for x using that by (auto simp: group_ok_def sum)
  have first: "group_ok (gw_members w @ [m]) g" using g m fit none by (auto simp: group_ok_def sum)
  have rows: "member_ok (gw_groups w @ [g]) x" if "member_ok (gw_groups w) x" for x using that by (auto simp: member_ok_def)
  have owner_row: "member_ok (gw_groups w @ [g]) m" using m by (auto simp: member_ok_def fits_def)
  have free: "(gm_group m, gm_user m) \<notin> (\<lambda>m. (gm_group m, gm_user m)) ` set (filter live_member (gw_members w))"
    using m(2) by (auto dest: other)
  show ?thesis
    unfolding group_inv_def
    using inv known here new old first rows owner_row free by (auto simp: group_inv_def)
qed

lemma keeps_create_group:
  assumes uuid: "inj uuid" "ge_uuid E = uuid"
  shows "holds (group_inv uuid) (createGroupBooking E tn u i)"
  unfolding createGroupBooking_def
proof (rule group_tx_keeps)
  fix w assume inv: "group_inv uuid w"
  have made: "group_inv uuid v'"
    if first: "createGroupBookingRecord uuid (new_group (ge_now E) tn u i b) (w\<lparr>gw_shop := s\<rparr>) = Inr (g, v)"
      and second: "addGroupBookingMember uuid ((new_member (ge_now E) (gb_id g) u)\<lparr>gm_owner := True,
            gm_invite := I_accepted, gm_contribution := gb_total g, gm_joinedAt := Some (ge_now E)\<rparr>) v = Inr (r, v')"
    for b s g v r v'
  proof -
    from first have g: "g = (new_group (ge_now E) tn u i b)\<lparr>gb_id := uuid (gw_next w)\<rparr>" and fit: "fits (gb_total g)"
      and v: "v = w\<lparr>gw_shop := s, gw_groups := gw_groups w @ [g], gw_next := Suc (gw_next w)\<rparr>"
      by (auto simp: createGroupBookingRecord_def Let_def split: if_splits)
    define m where "m = (new_member (ge_now E) (gb_id g) u)\<lparr>gm_owner := True, gm_invite := I_accepted,
      gm_contribution := gb_total g, gm_joinedAt := Some (ge_now E), gm_id := uuid (Suc (gw_next w))\<rparr>"
    have v': "v' = (w\<lparr>gw_groups := gw_groups w @ [g], gw_members := gw_members w @ [m], gw_next := Suc (Suc (gw_next w))\<rparr>)
      \<lparr>gw_shop := s\<rparr>"
      using second by (auto simp: addGroupBookingMember_def Let_def v m_def split: if_splits)
    show ?thesis
      unfolding v' group_inv_notes
      by (rule inv_created [OF inv uuid(1)]) (use fit in \<open>simp_all add: g m_def new_group_def new_member_def live_member_def\<close>)
  qed
  show "wlp (bnd (attempt (\<lambda>w. bindR (createBookingOrder (ge_shop E) (ge_faults E) tn (Some owner) u (group_order u i) (gw_shop w))
            (\<lambda>((b, rows), s). Inr (b, w\<lparr>gw_shop := s\<rparr>)))) (\<lambda>b.
     bnd (attempt (createGroupBookingRecord (ge_uuid E) (new_group (ge_now E) tn u i b))) (\<lambda>g.
     bnd (attempt (addGroupBookingMember (ge_uuid E) ((new_member (ge_now E) (gb_id g) u)\<lparr>gm_owner := True,
            gm_invite := I_accepted, gm_contribution := gb_total g, gm_joinedAt := Some (ge_now E)\<rparr>))) (\<lambda>_.
     bnd (alter (createGroupBookingActivityRecord (ge_now E) (gb_id g) (Some u) ''created'')) (\<lambda>_.
     ret g))))) (\<lambda>_. group_inv uuid) w"
    using made by (auto simp: wlp_simps res_simps uuid(2))
qed

end
