(* ===== verification/TicketProps.thy ===== *)
theory TicketProps
  imports IssuedTickets
begin

text \<open>
  What the ticket service guarantees: one admission per ticket whatever happens afterwards, ticket
  numbers that never repeat within a counter, exactly one ticket per unit sold; and where it stops:
  ticket numbers shared between events, and orders that attendance freezes.
\<close>

section \<open>A ticket that was admitted\<close>

definition admitted :: "id \<Rightarrow> string \<Rightarrow> booking_db \<Rightarrow> bool" where
  "admitted tenant number d =
     list_ex (\<lambda>t. live_ticket tenant number t \<and> it_status t = T_checked_in) (issued_tickets d)"

definition ticket_key :: "issued_ticket \<Rightarrow> id \<times> string" where
  "ticket_key t = (it_tenant t, it_number t)"

text \<open>The unique index on tenant and number, which \<open>insert_ticket\<close> enforces.\<close>

definition unique_tickets :: "booking_db \<Rightarrow> bool" where
  "unique_tickets d \<longleftrightarrow> distinct (map ticket_key (issued_tickets d))"

definition gate_inv :: "id \<Rightarrow> string \<Rightarrow> booking_db \<Rightarrow> bool" where
  "gate_inv tenant number d \<longleftrightarrow> unique_tickets d \<and> admitted tenant number d"

lemma admitted_iff: "admitted tenant number d \<longleftrightarrow>
    (\<exists>t \<in> set (issued_tickets d). live_ticket tenant number t \<and> it_status t = T_checked_in)"
  by (auto simp: admitted_def list_ex_iff)

lemma unique_row:
  "unique_tickets d \<Longrightarrow> t \<in> set (issued_tickets d) \<Longrightarrow> u \<in> set (issued_tickets d) \<Longrightarrow>
    ticket_key t = ticket_key u \<Longrightarrow> t = u"
  by (auto simp: unique_tickets_def distinct_map dest: inj_onD)

lemma live_key: "live_ticket tenant number t \<Longrightarrow> ticket_key t = (tenant, number)"
  by (simp add: live_ticket_def ticket_key_def)

lemma find_ticket_row: "find_ticket d tenant number = Some t \<Longrightarrow>
    t \<in> set (issued_tickets d) \<and> live_ticket tenant number t"
  by (auto simp: find_ticket_def dest: find_SomeD)

text \<open>The row of an admitted ticket is the one every lookup finds, and it is checked in.\<close>

lemma gate_inv_row:
  assumes "gate_inv tenant number d" and "t \<in> set (issued_tickets d)" and "ticket_key t = (tenant, number)"
  shows "live_ticket tenant number t \<and> it_status t = T_checked_in"
  using assms unique_row live_key by (metis admitted_iff gate_inv_def)

lemma gate_inv_find:
  assumes "gate_inv tenant number d"
  shows "\<exists>t. find_ticket d tenant number = Some t \<and> it_status t = T_checked_in"
proof -
  from assms obtain t where t: "t \<in> set (issued_tickets d)" "live_ticket tenant number t"
    by (auto simp: gate_inv_def admitted_iff)
  then obtain u where u: "find_ticket d tenant number = Some u"
    unfolding find_ticket_def by (cases "List.find (live_ticket tenant number) (issued_tickets d)")
      (auto dest: find_NoneD)
  then show ?thesis using find_ticket_row [OF u] gate_inv_row [OF assms] live_key by blast
qed

lemma unique_update:
  "(\<And>t. ticket_key (g t) = ticket_key t) \<Longrightarrow>
    unique_tickets (d\<lparr>issued_tickets := update_where p g (issued_tickets d)\<rparr>) = unique_tickets d"
  by (simp add: unique_tickets_def map_update_where)

lemma gate_inv_update:
  assumes "gate_inv tenant number d" and "\<And>t. ticket_key (g t) = ticket_key t"
    and "\<And>t. t \<in> set (issued_tickets d) \<Longrightarrow> p t \<Longrightarrow> live_ticket tenant number t \<Longrightarrow>
      it_status t = T_checked_in \<Longrightarrow> it_deletedAt (g t) = None \<and> it_status (g t) = T_checked_in"
  shows "gate_inv tenant number (d\<lparr>issued_tickets := update_where p g (issued_tickets d)\<rparr>)"
proof -
  from assms(1) obtain t where t: "t \<in> set (issued_tickets d)" "live_ticket tenant number t"
      "it_status t = T_checked_in" and u: "unique_tickets d"
    by (auto simp: gate_inv_def admitted_iff)
  have "live_ticket tenant number (if p t then g t else t) \<and> it_status (if p t then g t else t) = T_checked_in"
    using t assms(2) [of t] assms(3) [of t] by (auto simp: live_ticket_def ticket_key_def)
  moreover have "(if p t then g t else t) \<in> set (update_where p g (issued_tickets d))"
    using t(1) by (auto simp: set_update_where)
  ultimately have "admitted tenant number (d\<lparr>issued_tickets := update_where p g (issued_tickets d)\<rparr>)"
    by (auto simp: admitted_iff)
  then show ?thesis using u by (simp add: gate_inv_def unique_update assms(2))
qed

lemma gate_inv_cong: "issued_tickets d' = issued_tickets d \<Longrightarrow> gate_inv tn nm d' = gate_inv tn nm d"
  by (simp add: gate_inv_def admitted_def unique_tickets_def)

lemma gate_inv_event [simp]: "gate_inv tn nm (add_ticket_event e d) = gate_inv tn nm d"
  by (rule gate_inv_cong) (simp add: add_ticket_event_def)

text \<open>An update of one ticket keeps the gate when it leaves a checked-in row checked in.\<close>

lemma gate_inv_update_ticket:
  assumes "update_ticket now tenant number lastKnown f d = (u, d')" and "gate_inv tn nm d"
    and "\<And>x. ticket_key (f x) = ticket_key x"
    and "\<And>x. tenant = tn \<Longrightarrow> number = nm \<Longrightarrow> it_status x = T_checked_in \<Longrightarrow> it_deletedAt x = None \<Longrightarrow>
      it_deletedAt (f x) = None \<and> it_status (f x) = T_checked_in"
  shows "gate_inv tn nm d'"
proof -
  have "d' = d\<lparr>issued_tickets := update_where
      (\<lambda>t. live_ticket tenant number t \<and> optimisticLock (it_updatedAt t) lastKnown)
      (\<lambda>t. (f t)\<lparr>it_updatedAt := now\<rparr>) (issued_tickets d)\<rparr>"
    using assms(1) by (simp add: update_ticket_def Let_def)
  moreover have "gate_inv tn nm \<dots>"
    by (rule gate_inv_update [OF assms(2)])
      (use assms(3,4) in \<open>auto simp: live_ticket_def ticket_key_def\<close>)
  ultimately show ?thesis by simp
qed

lemma unique_update_ticket:
  assumes "update_ticket now tenant number lastKnown f d = (u, d')" and "\<And>x. ticket_key (f x) = ticket_key x"
  shows "unique_tickets d' = unique_tickets d"
proof -
  have "d' = d\<lparr>issued_tickets := update_where
      (\<lambda>t. live_ticket tenant number t \<and> optimisticLock (it_updatedAt t) lastKnown)
      (\<lambda>t. (f t)\<lparr>it_updatedAt := now\<rparr>) (issued_tickets d)\<rparr>"
    using assms(1) by (simp add: update_ticket_def Let_def)
  then show ?thesis using assms(2) by (simp add: unique_update ticket_key_def)
qed

section \<open>Every operation keeps the gate\<close>

lemma gate_inv_insert:
  "insert_ticket t d = Inr d' \<Longrightarrow> gate_inv tn nm d \<Longrightarrow> gate_inv tn nm d'"
  by (auto simp: insert_ticket_def gate_inv_def unique_tickets_def admitted_def ticket_key_def
      list_ex_iff split: if_splits) blast

lemma take_numbers_tickets:
  "take_numbers tenant event tt year prefix n d = (m, d') \<Longrightarrow> issued_tickets d' = issued_tickets d"
  by (auto simp: take_numbers_def split: option.splits)

lemma gate_inv_issue_missing:
  assumes "issue_missing E tenant b i asg n d = Inr d'" and "gate_inv tn nm d"
  shows "gate_inv tn nm d'"
proof -
  obtain m d1 where t: "take_numbers tenant (bo_event b) (oi_ticketType i) (order_year E b)
      (resolveTicketPrefix (oi_slug i)) n d = (m, d1)" by (metis prod.exhaust)
  with assms(2) have "gate_inv tn nm (d1\<lparr>fresh := fresh d1 + n\<rparr>)"
    by (subst gate_inv_cong [of _ d]) (simp_all add: take_numbers_tickets [OF t])
  with assms(1) t show ?thesis
    by (auto simp: issue_missing_def Let_def elim!: forR_invariant dest: gate_inv_insert)
qed

lemma tickets_of_item_member: "t \<in> set (tickets_of_item d tenant item) \<longleftrightarrow> t \<in> set (issued_tickets d)
    \<and> it_tenant t = tenant \<and> it_item t = item \<and> it_deletedAt t = None"
  by (auto simp: tickets_of_item_def)

lemma tickets_of_order_member: "t \<in> set (tickets_of_order d tenant order) \<longleftrightarrow> t \<in> set (issued_tickets d)
    \<and> it_tenant t = tenant \<and> it_order t = order \<and> it_deletedAt t = None"
  by (auto simp: tickets_of_order_def)

lemma gate_inv_link:
  assumes "link_attendee E tenant p d = Inr d'" and "gate_inv tn nm d"
    and "ticket_key (fst p) = (tn, nm) \<Longrightarrow> it_status (fst p) = T_checked_in" and "it_tenant (fst p) = tenant"
  shows "gate_inv tn nm d'"
  using assms by (auto simp: link_attendee_def Let_def res_simps ticket_key_def
      simp: case_prod_Inr split: if_splits elim!: gate_inv_update_ticket)

lemma desired_links_fst: "p \<in> set (desired_links ts asg) \<Longrightarrow> fst p \<in> set ts"
  by (auto simp: desired_links_def)

lemma gate_inv_ensure:
  assumes "ensureIssuedTicketsForOrderItem E tenant b asgs i d = Inr d'" and "gate_inv tn nm d"
  shows "gate_inv tn nm d'"
proof -
  from assms(1) obtain d1 where d1: "d1 = d \<or> (\<exists>asg n. issue_missing E tenant b i asg n d = Inr d1)"
    and loop: "forR (link_attendee E tenant) (desired_links (tickets_of_item d1 tenant (oi_id i))
      (filter (\<lambda>a. as_item a = oi_id i) asgs)) d1 = Inr d'"
    by (auto simp: ensureIssuedTicketsForOrderItem_def Let_def res_simps split: if_splits)
  from d1 assms(2) have g1: "gate_inv tn nm d1" using gate_inv_issue_missing by blast
  show ?thesis
  proof (rule forR_invariant [where P = "gate_inv tn nm", OF loop g1])
    fix p s s'
    assume p: "p \<in> set (desired_links (tickets_of_item d1 tenant (oi_id i)) (filter (\<lambda>a. as_item a = oi_id i) asgs))"
      and s: "gate_inv tn nm s" and step: "link_attendee E tenant p s = Inr s'"
    from desired_links_fst [OF p] have "fst p \<in> set (issued_tickets d1)" "it_tenant (fst p) = tenant"
      by (simp_all add: tickets_of_item_member)
    with gate_inv_row [OF g1] gate_inv_link [OF step s] show "gate_inv tn nm s'" by blast
  qed
qed

lemma gate_inv_reconcile:
  assumes "reconcileIssuedTicketsForBookingOrder E tenant order d = Inr d'" and "gate_inv tn nm d"
  shows "gate_inv tn nm d'"
  using assms by (auto simp: reconcileIssuedTicketsForBookingOrder_def split: option.splits if_splits
      elim!: forR_invariant dest: gate_inv_ensure)

text \<open>A checked-in ticket fails the status change in every state: no status follows it.\<close>

lemma carry_status_checked_in:
  "it_status t = T_checked_in \<Longrightarrow> nxt \<noteq> T_checked_in \<Longrightarrow>
    \<exists>e. carry_status E tenant nxt t d = Inl e \<and> app_code_of e = Some INVALID_TICKET_STATUS"
  by (auto simp: carry_status_def validateIssuedTicketTransition_def)

lemma gate_inv_carry:
  assumes "carry_status E tenant nxt t d = Inr d'" and "gate_inv tn nm d"
    and "ticket_key t = (tn, nm) \<Longrightarrow> it_status t = T_checked_in" and "it_tenant t = tenant"
  shows "gate_inv tn nm d'"
proof (cases "it_status t = nxt")
  case False
  from assms(1) False obtain u d1 where
    upd: "update_ticket (be_now E) tenant (it_number t) (it_updatedAt t)
      (\<lambda>x. x\<lparr>it_status := nxt, it_attendee := it_attendee t, it_metadata := it_metadata t,
          it_checkedInAt := (if nxt = T_checked_in then or_now (be_now E) (it_checkedInAt t) else it_checkedInAt t),
          it_transferredAt := it_transferredAt t,
          it_cancelledAt := (if nxt = T_cancelled then or_now (be_now E) (it_cancelledAt t) else it_cancelledAt t),
          it_invalidatedAt := (if nxt = T_refunded \<or> nxt = T_invalidated
                               then or_now (be_now E) (it_invalidatedAt t) else it_invalidatedAt t)\<rparr>) d = (u, d1)"
    and d': "\<exists>e. d' = add_ticket_event e d1" and ok: "validateIssuedTicketTransition (it_status t) nxt = Inr ()"
    by (auto simp: carry_status_def Let_def res_simps simp: case_prod_Inr)
  have "gate_inv tn nm d1"
    by (rule gate_inv_update_ticket [OF upd assms(2)])
      (use ok False assms(3,4) in \<open>auto simp: ticket_key_def validateIssuedTicketTransition_ok\<close>)
  with d' show ?thesis by auto
qed (use assms in \<open>simp add: carry_status_def\<close>)

lemma gate_inv_apply:
  assumes "applyIssuedTicketStatusForBookingOrder E tenant order st d = Inr d'" and "gate_inv tn nm d"
  shows "gate_inv tn nm d'"
proof (cases "resolveTicketStatusFromBookingStatus st")
  case (Some nxt)
  with assms(1) have loop: "forR (carry_status E tenant nxt) (tickets_of_order d tenant order) d = Inr d'"
    by (simp add: applyIssuedTicketStatusForBookingOrder_def)
  show ?thesis
  proof (rule forR_invariant [where P = "gate_inv tn nm", OF loop assms(2)])
    fix t s s'
    assume "t \<in> set (tickets_of_order d tenant order)" "gate_inv tn nm s" "carry_status E tenant nxt t s = Inr s'"
    then show "gate_inv tn nm s'"
      using gate_inv_carry gate_inv_row [OF assms(2)] by (metis tickets_of_order_member)
  qed
qed (use assms in \<open>simp add: applyIssuedTicketStatusForBookingOrder_def\<close>)

lemma gate_inv_validate:
  assumes "validateIssuedTicket E tenant role act input d = Inr (r, d')" and "gate_inv tn nm d"
  shows "gate_inv tn nm d'"
proof -
  have "gate_inv tn nm (snd (record_attempt now tenant number outcome act sc reason d))"
    for now number outcome sc reason
    unfolding record_attempt_def Let_def snd_conv
    by (rule gate_inv_update [OF assms(2)]) (auto simp: ticket_key_def live_ticket_def)
  with assms show ?thesis
    by (auto simp: validateIssuedTicket_def Let_def res_simps simp: case_prod_Inr split: if_splits) (metis snd_conv)+
qed

lemma gate_inv_check_in:
  assumes "checkInIssuedTicketByTicketNumber E tenant role act number input d = Inr (r, d')" and "gate_inv tn nm d"
  shows "gate_inv tn nm d'"
  using assms by (auto simp: checkInIssuedTicketByTicketNumber_def Let_def res_simps ticket_key_def
      checked_in_ticket_def simp: case_prod_Inr elim!: gate_inv_update_ticket)

lemma gate_inv_update_op:
  assumes "updateIssuedTicketByTicketNumber E tenant role act number input d = Inr (r, d')" and "gate_inv tn nm d"
  shows "gate_inv tn nm d'"
proof -
  from assms(1) obtain t nxt u d1 v where
    t: "find_ticket d tenant (normalizeTicketNumber number) = Some t"
    and ok: "validateIssuedTicketTransition (it_status t) nxt = Inr v"
    and upd: "update_ticket (be_now E) tenant (normalizeTicketNumber number) (tu_lastKnown input)
                 (updated_ticket (be_now E) act nxt input t) d = (u, d1)"
    and d': "\<exists>e. d' = add_ticket_event e d1"
    unfolding updateIssuedTicketByTicketNumber_def Let_def bindR_Inr optR_Inr case_prod_Inr sum.inject
      prod.inject by (elim exE conjE) (rule that, assumption, assumption, assumption, blast)
  have "it_status t = T_checked_in" if "tenant = tn" "normalizeTicketNumber number = nm"
    using gate_inv_row [OF assms(2)] find_ticket_row [OF t] live_key that by blast
  then have "gate_inv tn nm d1" using ok
    by (intro gate_inv_update_ticket [OF upd assms(2)])
      (auto simp: ticket_key_def updated_ticket_def Let_def validateIssuedTicketTransition_ok)
  with d' show ?thesis by auto
qed

lemma gate_inv_delete:
  assumes "deleteIssuedTicketByTicketNumber E tenant role number lastKnown d = Inr (r, d')" and "gate_inv tn nm d"
  shows "gate_inv tn nm d'"
proof -
  from assms(1) obtain t u d1 where
    t: "find_ticket d tenant (normalizeTicketNumber number) = Some t"
    and ok: "it_status t \<noteq> T_checked_in"
    and upd: "update_ticket (be_now E) tenant (normalizeTicketNumber number) lastKnown
           (\<lambda>x. x\<lparr>it_status := T_invalidated, it_invalidatedAt := or_now (be_now E) (it_invalidatedAt t),
                   it_deletedAt := Some (be_now E)\<rparr>) d = (u, d1)"
    and d': "\<exists>e. d' = add_ticket_event e d1"
    by (auto simp: deleteIssuedTicketByTicketNumber_def Let_def res_simps simp: case_prod_Inr)
  have "\<not> (tenant = tn \<and> normalizeTicketNumber number = nm)"
    using gate_inv_row [OF assms(2)] find_ticket_row [OF t] live_key ok by blast
  then have "gate_inv tn nm d1"
    by (intro gate_inv_update_ticket [OF upd assms(2)]) (auto simp: ticket_key_def)
  with d' show ?thesis by auto
qed

text \<open>
  Any change of the ticket tables: one of the service's operations, whoever calls it and whenever,
  or an operation of another component, which leaves the tickets alone.
\<close>

inductive ticket_step :: "booking_db \<Rightarrow> booking_db \<Rightarrow> bool" where
  issue: "reconcileIssuedTicketsForBookingOrder E tenant order d = Inr d' \<Longrightarrow> ticket_step d d'"
| carry: "applyIssuedTicketStatusForBookingOrder E tenant order st d = Inr d' \<Longrightarrow> ticket_step d d'"
| scan: "validateIssuedTicket E tenant role act input d = Inr (r, d') \<Longrightarrow> ticket_step d d'"
| admit: "checkInIssuedTicketByTicketNumber E tenant role act number ci d = Inr (t, d') \<Longrightarrow> ticket_step d d'"
| change: "updateIssuedTicketByTicketNumber E tenant role act number tu d = Inr (t, d') \<Longrightarrow> ticket_step d d'"
| remove: "deleteIssuedTicketByTicketNumber E tenant role number lastKnown d = Inr (t, d') \<Longrightarrow> ticket_step d d'"
| elsewhere: "issued_tickets d' = issued_tickets d \<Longrightarrow> ticket_step d d'"

lemma gate_inv_step: "ticket_step d d' \<Longrightarrow> gate_inv tn nm d \<Longrightarrow> gate_inv tn nm d'"
proof (induction rule: ticket_step.induct)
  case issue then show ?case by (rule gate_inv_reconcile)
next
  case carry then show ?case by (rule gate_inv_apply)
next
  case scan then show ?case by (rule gate_inv_validate)
next
  case admit then show ?case by (rule gate_inv_check_in)
next
  case change then show ?case by (rule gate_inv_update_op)
next
  case remove then show ?case by (rule gate_inv_delete)
next
  case (elsewhere d' d) then show ?case using gate_inv_cong [OF elsewhere.hyps] by blast
qed

lemma gate_inv_run: "ticket_step\<^sup>*\<^sup>* d d' \<Longrightarrow> gate_inv tn nm d \<Longrightarrow> gate_inv tn nm d'"
  by (induction rule: rtranclp_induct) (auto dest: gate_inv_step)

lemma check_in_admits:
  assumes "checkInIssuedTicketByTicketNumber E tenant role act number input d = Inr (r, d')" and "unique_tickets d"
  shows "gate_inv tenant (normalizeTicketNumber number) d'"
proof -
  let ?nm = "normalizeTicketNumber number" and ?sc = "normalizeScanContext (ci_scan input)"
  from assms(1) obtain t a d1 w where
    pair: "update_ticket (be_now E) tenant ?nm (ci_lastKnown input) (checked_in_ticket (be_now E) act ?sc t) d = (a, d1)"
    and row: "a = Some w \<and> w = r"
    and d': "add_ticket_event (lifecycle_event tenant (Some (it_id w)) ''ticket_checked_in'' V_valid (Some act) ?sc) d1 = d'"
    unfolding checkInIssuedTicketByTicketNumber_def Let_def bindR_Inr optR_Inr case_prod_Inr sum.inject
      prod.inject assertOptimisticUpdate_Inr by (elim exE conjE) (rule that, assumption, blast, assumption)
  from pair row have upd: "update_ticket (be_now E) tenant ?nm (ci_lastKnown input)
      (checked_in_ticket (be_now E) act ?sc t) d = (Some r, d1)" by simp
  have unique: "unique_tickets d1"
    using unique_update_ticket [OF upd] assms(2) by (simp add: ticket_key_def checked_in_ticket_def)
  from upd obtain x where x: "x \<in> set (issued_tickets d)" "live_ticket tenant ?nm x"
      "optimisticLock (it_updatedAt x) (ci_lastKnown input)"
    by (auto simp: update_ticket_def Let_def dest: find_SomeD)
  from upd x have "(checked_in_ticket (be_now E) act ?sc t x)\<lparr>it_updatedAt := be_now E\<rparr> \<in> set (issued_tickets d1)"
    by (auto simp: update_ticket_def Let_def set_update_where)
  moreover have "live_ticket tenant ?nm ((checked_in_ticket (be_now E) act ?sc t x)\<lparr>it_updatedAt := be_now E\<rparr>)"
    using x(2) by (simp add: live_ticket_def checked_in_ticket_def)
  ultimately have "admitted tenant ?nm d1"
    unfolding admitted_iff by (intro bexI conjI) (simp_all add: checked_in_ticket_def)
  with unique have "gate_inv tenant ?nm d1" by (simp add: gate_inv_def)
  with d' show ?thesis by auto
qed

section \<open>Numbers\<close>

text \<open>
  A numbering service: every request of a key takes the next block of numbers of that key. The
  ticket counters and the order counters both are one.
\<close>

locale sequence_counter =
  fixes take_block :: "'r \<Rightarrow> 's \<Rightarrow> nat \<times> 's" and key :: "'r \<Rightarrow> 'k" and amount :: "'r \<Rightarrow> nat"
    and next_of :: "'k \<Rightarrow> 's \<Rightarrow> nat"
  assumes take_own: "take_block r s = (m, s') \<Longrightarrow> m = next_of (key r) s + amount r \<and> next_of (key r) s' = m"
    and take_other: "take_block r s = (m, s') \<Longrightarrow> k \<noteq> key r \<Longrightarrow> next_of k s' = next_of k s"
begin

text \<open>The numbers one key receives over a run of requests, in order.\<close>

fun handed_out :: "'k \<Rightarrow> 'r list \<Rightarrow> 's \<Rightarrow> nat list" where
  "handed_out k [] s = []"
| "handed_out k (r # rs) s =
     (let (m, s') = take_block r s
      in (if key r = k then [m - amount r..<m] else []) @ handed_out k rs s')"

lemma handed_out_gapless:
  "handed_out k rs s = [next_of k s..<next_of k s + sum_list (map amount (filter (\<lambda>r. key r = k) rs))]"
proof (induction rs arbitrary: s)
  case (Cons r rs)
  obtain m s' where t: "take_block r s = (m, s')" by fastforce
  show ?case
  proof (cases "key r = k")
    case True
    with take_own [OF t] have "m = next_of k s + amount r" "next_of k s' = m" by simp_all
    with True t Cons [of s'] show ?thesis
      using upt_add_eq_append [of "next_of k s" "next_of k s + amount r"] by (simp add: add.assoc)
  next
    case False
    with take_other [OF t, of k] t Cons [of s'] show ?thesis by auto
  qed
qed simp

end

text \<open>The ticket counters are one, a fresh counter being at 1.\<close>

type_synonym counter_key = "id \<times> id \<times> nat \<times> string"

definition next_ticket_number :: "counter_key \<Rightarrow> booking_db \<Rightarrow> nat" where
  "next_ticket_number k d = (case k of (tenant, event, year, prefix) \<Rightarrow>
     case List.find (is_ticket_counter tenant event year prefix) (ticket_counters d) of
       None \<Rightarrow> 1 | Some c \<Rightarrow> tc_next c)"

definition take_block_for :: "counter_key \<times> id \<times> nat \<Rightarrow> booking_db \<Rightarrow> nat \<times> booking_db" where
  "take_block_for r d = (case r of ((tenant, event, year, prefix), tt, n) \<Rightarrow>
     take_numbers tenant event tt year prefix n d)"

lemma is_ticket_counter_new [simp]:
  "is_ticket_counter tn ev y p \<lparr>tc_tenant = tn', tc_event = ev', tc_ticketType = tt, tc_year = y', tc_prefix = p', tc_next = n\<rparr>
    \<longleftrightarrow> tn' = tn \<and> ev' = ev \<and> y' = y \<and> p' = p"
  by (simp add: is_ticket_counter_def)

lemma is_ticket_counter_next [simp]:
  "is_ticket_counter tn ev y p (c\<lparr>tc_next := n\<rparr>) = is_ticket_counter tn ev y p c"
  by (simp add: is_ticket_counter_def)

interpretation tickets: sequence_counter take_block_for fst "\<lambda>r. snd (snd r)" next_ticket_number
proof
  fix r :: "counter_key \<times> id \<times> nat" and s m s' and k :: counter_key
  obtain tn ev y p tt n where r: "r = ((tn, ev, y, p), tt, n)" by (metis prod.exhaust)
  assume t: "take_block_for r s = (m, s')"
  show "m = next_ticket_number (fst r) s + snd (snd r) \<and> next_ticket_number (fst r) s' = m"
  proof (cases "List.find (is_ticket_counter tn ev y p) (ticket_counters s)")
    case (Some c)
    with find_SomeD [OF Some] t show ?thesis
      by (auto simp: r take_block_for_def next_ticket_number_def take_numbers_def find_update_where)
  qed (use t in \<open>auto simp: r take_block_for_def next_ticket_number_def take_numbers_def find_append\<close>)
  obtain tn' ev' y' p' where k: "k = (tn', ev', y', p')" by (metis prod.exhaust)
  let ?old = "List.find (is_ticket_counter tn ev y p) (ticket_counters s)"
    and ?mine = "List.find (is_ticket_counter tn' ev' y' p') (ticket_counters s)"
  assume "k \<noteq> fst r"
  then have "\<not> (is_ticket_counter tn ev y p c \<and> is_ticket_counter tn' ev' y' p' c)" for c
    by (auto simp: r k is_ticket_counter_def)
  then have "\<not> is_ticket_counter tn ev y p c" if "?mine = Some c" for c
    using find_SomeD [OF that] by blast
  with t \<open>k \<noteq> fst r\<close> show "next_ticket_number k s' = next_ticket_number k s"
    by (cases ?old; cases ?mine)
      (auto simp: r k take_block_for_def next_ticket_number_def take_numbers_def find_append find_update_where)
qed

lemma ticket_number_inject: "ticket_number p y m = ticket_number p y n \<longleftrightarrow> m = n"
proof
  assume "ticket_number p y m = ticket_number p y n"
  then have "padStart 6 (CHR ''0'') (show_nat m) = padStart 6 (CHR ''0'') (show_nat n)"
    by (simp add: ticket_number_def)
  then show "m = n" by (metis read_nat_padStart read_show_nat)
qed simp

section \<open>One ticket per unit sold\<close>

definition ticket_place :: "issued_ticket \<Rightarrow> id \<times> id \<times> time_ms option" where
  "ticket_place t = (it_tenant t, it_item t, it_deletedAt t)"

definition ticket_count :: "booking_db \<Rightarrow> id \<Rightarrow> id \<Rightarrow> nat" where
  "ticket_count d tenant item =
     length (filter (\<lambda>p. p = (tenant, item, None)) (map ticket_place (issued_tickets d)))"

lemma ticket_count_tickets: "length (tickets_of_item d tenant item) = ticket_count d tenant item"
  by (simp add: tickets_of_item_def ticket_count_def filter_map o_def ticket_place_def)

lemma link_keeps_places:
  "link_attendee E tenant p d = Inr d' \<Longrightarrow>
    map ticket_place (issued_tickets d') = map ticket_place (issued_tickets d)"
  by (auto simp: link_attendee_def update_ticket_def Let_def res_simps case_prod_Inr map_update_where
      ticket_place_def split: if_splits)

lemma links_keep_places:
  assumes "forR (link_attendee E tenant) ps d = Inr d'"
  shows "map ticket_place (issued_tickets d') = map ticket_place (issued_tickets d)"
  by (rule forR_invariant [OF assms, where P = "\<lambda>s. map ticket_place (issued_tickets s) = _"])
    (simp_all add: link_keeps_places)

lemma insert_tickets_appends:
  "forR insert_ticket ts d = Inr d' \<Longrightarrow> issued_tickets d' = issued_tickets d @ ts"
proof (induction ts arbitrary: d)
  case (Cons t ts)
  then obtain d1 where one: "insert_ticket t d = Inr d1" and "forR insert_ticket ts d1 = Inr d'"
    by (auto simp: res_simps)
  from Cons.IH [OF this(2)] have "issued_tickets d' = issued_tickets d1 @ ts" .
  moreover from one have "issued_tickets d1 = issued_tickets d @ [t]"
    by (auto simp: insert_ticket_def split: if_splits)
  ultimately show ?case by simp
qed simp

lemma issue_missing_places:
  assumes "issue_missing E tenant b i asg n d = Inr d'"
  shows "map ticket_place (issued_tickets d') =
    map ticket_place (issued_tickets d) @ replicate n (tenant, oi_id i, None)"
proof -
  obtain m d1 where t: "take_numbers tenant (bo_event b) (oi_ticketType i) (order_year E b)
      (resolveTicketPrefix (oi_slug i)) n d = (m, d1)" by (metis prod.exhaust)
  from assms t have "issued_tickets d' = issued_tickets d1 @ map (\<lambda>k. (new_ticket E b i asg
      (resolveTicketPrefix (oi_slug i)) (order_year E b) (m - n) k (fresh d1))\<lparr>it_tenant := tenant\<rparr>) [0..<n]"
    by (auto simp: issue_missing_def Let_def dest: insert_tickets_appends)
  then show ?thesis
    by (simp add: take_numbers_tickets [OF t] new_ticket_def ticket_place_def o_def map_replicate_const)
qed

lemma issue_missing_count:
  assumes "issue_missing E tenant b i asg n d = Inr d'"
  shows "ticket_count d' tenant j = ticket_count d tenant j + (if j = oi_id i then n else 0)"
  unfolding ticket_count_def issue_missing_places [OF assms] by simp

lemma ensure_count:
  assumes "ensureIssuedTicketsForOrderItem E tenant b asgs i d = Inr d'" and "0 \<le> oi_quantity i"
  shows "ticket_count d' tenant j =
    (if j = oi_id i then nat (oi_quantity i) else ticket_count d tenant j)"
proof -
  let ?c = "ticket_count d tenant (oi_id i)"
  from assms(1) obtain d1 where le: "int ?c \<le> oi_quantity i"
    and d1: "(int ?c = oi_quantity i \<and> d1 = d) \<or>
      (\<exists>asg. issue_missing E tenant b i asg (nat (oi_quantity i) - ?c) d = Inr d1)"
    and loop: "\<exists>ps. forR (link_attendee E tenant) ps d1 = Inr d'"
    by (auto simp: ensureIssuedTicketsForOrderItem_def Let_def res_simps ticket_count_tickets split: if_splits)
  from loop links_keep_places have same: "ticket_count d' tenant j = ticket_count d1 tenant j"
    unfolding ticket_count_def by (metis (no_types, lifting))
  from d1 show ?thesis
  proof
    assume "\<exists>asg. issue_missing E tenant b i asg (nat (oi_quantity i) - ?c) d = Inr d1"
    then have "ticket_count d1 tenant j =
        ticket_count d tenant j + (if j = oi_id i then nat (oi_quantity i) - ?c else 0)"
      using issue_missing_count by blast
    with same le show ?thesis by auto
  qed (use same in auto)
qed

lemma ensure_all_counts:
  assumes "forR (ensureIssuedTicketsForOrderItem E tenant b asgs) is d = Inr d'"
    and "distinct (map oi_id is)" and "\<forall>i \<in> set is. 0 \<le> oi_quantity i"
  shows "(\<forall>i \<in> set is. ticket_count d' tenant (oi_id i) = nat (oi_quantity i))
    \<and> (\<forall>j. j \<notin> oi_id ` set is \<longrightarrow> ticket_count d' tenant j = ticket_count d tenant j)"
  using assms
proof (induction "is" arbitrary: d)
  case (Cons i "is")
  then obtain d1 where one: "ensureIssuedTicketsForOrderItem E tenant b asgs i d = Inr d1"
    and rest: "forR (ensureIssuedTicketsForOrderItem E tenant b asgs) is d1 = Inr d'"
    by (auto simp: res_simps)
  from Cons.prems(3) have "0 \<le> oi_quantity i" by simp
  note first = ensure_count [OF one this]
  from Cons.IH [OF rest] Cons.prems(2,3) first show ?case by auto
qed simp

section \<open>A sample order\<close>

definition demo_sale :: booking_db where
  "demo_sale = empty_booking\<lparr>orders := [demo_order ''o1'' ''e1''], order_items := [demo_line ''i1'' ''o1'']\<rparr>"

definition demo_issued :: booking_db where
  "demo_issued = (case reconcileIssuedTicketsForBookingOrder (demo_booking_env 5) ''t1'' ''o1'' demo_sale of
     Inr d \<Rightarrow> d | Inl e \<Rightarrow> empty_booking)"

definition demo_entry :: "(issued_ticket \<times> booking_db) res" where
  "demo_entry = checkInIssuedTicketByTicketNumber (demo_booking_env 9) ''t1'' (Some staff) ''s1''
     ''vip-2025-000001'' \<lparr>ci_scan = no_scan, ci_lastKnown = 5\<rparr> demo_issued"

lemma demo_issued_run:
  "reconcileIssuedTicketsForBookingOrder (demo_booking_env 5) ''t1'' ''o1'' demo_sale = Inr demo_issued"
proof -
  have "\<not> isl (reconcileIssuedTicketsForBookingOrder (demo_booking_env 5) ''t1'' ''o1'' demo_sale)" by code_simp
  then show ?thesis by (auto simp: demo_issued_def split: sum.splits)
qed

lemma demo_entry_run: "\<exists>t d. demo_entry = Inr (t, d)"
proof -
  have "\<not> isl demo_entry" by code_simp
  then show ?thesis by (metis sum.collapse(2) prod.exhaust)
qed

section \<open>Properties\<close>

text \<open>
  C14. One admission per ticket: after a successful check-in, whatever the service does next with any
  ticket, order status, scan or deletion, in any order, every further check-in of that ticket number
  is refused as already checked in.
\<close>

theorem ticket_admits_once:
  assumes "checkInIssuedTicketByTicketNumber E tenant role act number input d = Inr (t, d1)"
    and "unique_tickets d" and "ticket_step\<^sup>*\<^sup>* d1 d2"
    and "normalizeTicketNumber number' = normalizeTicketNumber number" and "canCheckInTickets role'"
  shows "checkInIssuedTicketByTicketNumber E' tenant role' act' number' input' d2
    = Inl (conflict ''Ticket already checked in'')"
proof -
  have "gate_inv tenant (normalizeTicketNumber number) d2"
    using gate_inv_run [OF assms(3) check_in_admits [OF assms(1,2)]] .
  from gate_inv_find [OF this] obtain u where
    "find_ticket d2 tenant (normalizeTicketNumber number) = Some u" "it_status u = T_checked_in" by blast
  with assms(4,5) show ?thesis
    by (simp add: checkInIssuedTicketByTicketNumber_def assertCheckInAccess_def Let_def)
qed

theorem ticket_admits_once_witness:
  "\<exists>t d. demo_entry = Inr (t, d)
    \<and> checkInIssuedTicketByTicketNumber (demo_booking_env 10) ''t1'' (Some staff) ''s2'' '' VIP-2025-000001''
        \<lparr>ci_scan = no_scan, ci_lastKnown = 9\<rparr> d = Inl (conflict ''Ticket already checked in'')"
proof -
  from demo_entry_run obtain t d where run: "demo_entry = Inr (t, d)" by blast
  have "unique_tickets demo_issued" by code_simp
  moreover have "normalizeTicketNumber '' VIP-2025-000001'' = normalizeTicketNumber ''vip-2025-000001''" by code_simp
  moreover have "canCheckInTickets (Some staff)" by code_simp
  ultimately show ?thesis
    using ticket_admits_once [OF run [unfolded demo_entry_def] _ rtranclp.rtrancl_refl] run by blast
qed

text \<open>
  Ticket numbers never repeat and never skip within a counter: over any sequence of requests of any
  events, years and prefixes, the sequence numbers one counter hands out are consecutive from its current
  value, and the ticket numbers printed from them are pairwise different.
\<close>

theorem ticket_numbers_consecutive:
  "tickets.handed_out k rs d = [next_ticket_number k d..<next_ticket_number k d
      + sum_list (map (\<lambda>r. snd (snd r)) (filter (\<lambda>r. fst r = k) rs))]
   \<and> distinct (map (ticket_number prefix year) (tickets.handed_out k rs d))"
  using tickets.handed_out_gapless [of k rs d]
  by (simp add: distinct_map inj_on_def ticket_number_inject)

text \<open>
  C20. Exactly one live ticket per unit sold: when issuing for a confirmed, paid or completed order
  succeeds, every line of the order has exactly as many live tickets as its quantity, however many it
  had before and however often issuing is repeated; no other line gains or loses a ticket.
\<close>

theorem issuing_meets_quantities:
  assumes "issueIssuedTicketsForBookingOrder E tenant order role d = Inr d'"
    and "find_order d tenant order = Some b" and "bo_status b \<in> {O_confirmed, O_paid, O_completed}"
    and "distinct (map oi_id (order_items d))" and "\<forall>i \<in> set (order_items d). 0 \<le> oi_quantity i"
  shows "(\<forall>i \<in> set (items_of_order d tenant order).
      length (tickets_of_item d' tenant (oi_id i)) = nat (oi_quantity i))
    \<and> (\<forall>j. j \<notin> oi_id ` set (items_of_order d tenant order) \<longrightarrow>
      length (tickets_of_item d' tenant j) = length (tickets_of_item d tenant j))"
proof -
  have loop: "forR (ensureIssuedTicketsForOrderItem E tenant b (assignments_of_order d tenant order))
      (items_of_order d tenant order) d = Inr d'"
    using assms(1-3) by (auto simp: issueIssuedTicketsForBookingOrder_def
        reconcileIssuedTicketsForBookingOrder_def res_simps)
  have "distinct (map oi_id (items_of_order d tenant order))"
    using assms(4) by (auto simp: items_of_order_def distinct_map intro: inj_on_subset)
  moreover have "\<forall>i \<in> set (items_of_order d tenant order). 0 \<le> oi_quantity i"
    using assms(5) by (simp add: items_of_order_def)
  ultimately show ?thesis using ensure_all_counts [OF loop] by (simp add: ticket_count_tickets)
qed

theorem issuing_meets_quantities_witness:
  "\<exists>d'. issueIssuedTicketsForBookingOrder (demo_booking_env 5) ''t1'' ''o1'' (Some owner) demo_sale = Inr d'
    \<and> length (tickets_of_item d' ''t1'' ''i1'') = 2"
proof -
  have owner_may: "assertIssueAccess (Some owner) = Inr ()" by code_simp
  have run: "issueIssuedTicketsForBookingOrder (demo_booking_env 5) ''t1'' ''o1'' (Some owner) demo_sale = Inr demo_issued"
    unfolding issueIssuedTicketsForBookingOrder_def demo_issued_run owner_may by simp
  have o: "find_order demo_sale ''t1'' ''o1'' = Some (demo_order ''o1'' ''e1'')"
    by (simp add: find_order_def demo_sale_def demo_order_def)
  have i: "items_of_order demo_sale ''t1'' ''o1'' = [demo_line ''i1'' ''o1'']"
    by (simp add: items_of_order_def demo_sale_def demo_line_def)
  from issuing_meets_quantities [OF run o] run i show ?thesis
    by (simp add: demo_order_def demo_sale_def demo_line_def)
qed

text \<open>
  Ticket numbers are unique per tenant but counted per event: when another event of the tenant
  has issued number 1 under the same prefix and year (the prefix is the first word of the ticket type's
  slug, such as vip), the first tickets of a new event can not be issued: the insert violates the unique
  index, and as the transaction is lost with the counter's step every retry ends the same way.
\<close>

theorem shared_prefix_blocks_second_event:
  assumes "list_ex (\<lambda>x. it_tenant x = tenant
      \<and> it_number x = ticket_number (resolveTicketPrefix (oi_slug i)) (order_year E b) 1) (issued_tickets d)"
    and "next_ticket_number (tenant, bo_event b, order_year E b, resolveTicketPrefix (oi_slug i)) d = 1"
    and "tickets_of_item d tenant (oi_id i) = []" and "0 < oi_quantity i"
  shows "ensureIssuedTicketsForOrderItem E tenant b asgs i d
    = Inl (unique_violation ''issued_tickets_tenant_ticket_number_unique'')"
proof -
  let ?p = "resolveTicketPrefix (oi_slug i)" and ?n = "nat (oi_quantity i)"
  obtain m d1 where t: "take_numbers tenant (bo_event b) (oi_ticketType i) (order_year E b) ?p ?n d = (m, d1)"
    by (metis prod.exhaust)
  have "m = 1 + ?n"
    using tickets.take_own [of "((tenant, bo_event b, order_year E b, ?p), oi_ticketType i, ?n)" d m d1] t assms(2)
    by (simp add: take_block_for_def)
  moreover from assms(4) obtain k where "?n = Suc k" by (metis gr0_implies_Suc zero_less_nat_eq)
  ultimately show ?thesis
    using assms(1,3,4) t take_numbers_tickets [OF t]
    by (simp add: ensureIssuedTicketsForOrderItem_def issue_missing_def Let_def insert_ticket_def
        new_ticket_def upt_conv_Cons del: upt_Suc)
qed

theorem shared_prefix_blocks_second_event_witness:
  "ensureIssuedTicketsForOrderItem (demo_booking_env 6) ''t1'' (demo_order ''o2'' ''e2'') [] (demo_line ''i2'' ''o2'') demo_issued
    = Inl (unique_violation ''issued_tickets_tenant_ticket_number_unique'')"
proof (rule shared_prefix_blocks_second_event)
  show "list_ex (\<lambda>x. it_tenant x = ''t1'' \<and> it_number x = ticket_number (resolveTicketPrefix
      (oi_slug (demo_line ''i2'' ''o2''))) (order_year (demo_booking_env 6) (demo_order ''o2'' ''e2'')) 1)
      (issued_tickets demo_issued)" by code_simp
  show "next_ticket_number (''t1'', bo_event (demo_order ''o2'' ''e2''), order_year (demo_booking_env 6)
      (demo_order ''o2'' ''e2''), resolveTicketPrefix (oi_slug (demo_line ''i2'' ''o2''))) demo_issued = 1" by code_simp
  show "tickets_of_item demo_issued ''t1'' (oi_id (demo_line ''i2'' ''o2'')) = []" by code_simp
  show "0 < oi_quantity (demo_line ''i2'' ''o2'')" by code_simp
qed

end
