(* ===== verification/StockFlow.thy ===== *)
theory StockFlow
  imports InventoryProps TicketProps
begin

text \<open>
  What the operations of inventory and ticketing do to the tables of each other: the frames (which
  tables an operation leaves alone), and the exact effect of moving the reservations of an order.
\<close>

section \<open>Frames\<close>

text \<open>Inventory operations change reservations, ticket types and inventory events only.\<close>

definition outside_stock :: "booking_db \<Rightarrow> booking_order list \<times> order_item list \<times> issued_ticket list
    \<times> assignment list \<times> attendee list \<times> order_counter list \<times> event_row list" where
  "outside_stock d =
     (orders d, order_items d, issued_tickets d, assignments d, attendees d, order_counters d, events d)"

text \<open>Ticket operations change tickets, ticket counters and ticket events only.\<close>

definition outside_tickets :: "booking_db \<Rightarrow> booking_order list \<times> order_item list \<times> reservation list
    \<times> ticket_type list \<times> assignment list \<times> attendee list \<times> event_row list" where
  "outside_tickets d =
     (orders d, order_items d, reservations d, ticket_types d, assignments d, attendees d, events d)"

lemma forR_pair_invariant:
  assumes "forR f xs (acc, d) = Inr (acc', d')"
    and "\<And>x a s a' s'. x \<in> set xs \<Longrightarrow> f x (a, s) = Inr (a', s') \<Longrightarrow> v s' = v s"
  shows "v d' = v d"
  using forR_invariant [OF assms(1), of "\<lambda>st. v (snd st) = v d"] assms(2) by (metis prod.exhaust snd_conv)

lemma reserve_item_frame:
  "reserve_item E input it (a, d) = Inr (a', d') \<Longrightarrow> outside_stock d' = outside_stock d"
  by (auto simp: reserve_item_def Let_def outside_stock_def add_reserved_def split: if_splits option.splits)

lemma reserve_frame:
  "createReservationsForItems E input items d = Inr (rs, d') \<Longrightarrow> outside_stock d' = outside_stock d"
  by (auto simp: createReservationsForItems_def Let_def res_simps split: if_splits
      elim!: forR_pair_invariant dest: reserve_item_frame)

lemma shift_ticket_frame [simp]: "outside_stock (shift_ticket c n u d) = outside_stock d"
  by (simp add: shift_ticket_def outside_stock_def Let_def)

lemma shift_ticket_reservations [simp]: "reservations (shift_ticket c n u d) = reservations d"
  by (simp add: shift_ticket_def Let_def)

lemma transition_frame:
  assumes "transitionReservation E m nxt r d = Inr (u, d')"
  shows "outside_stock d' = outside_stock d"
proof -
  have "outside_stock (d\<lparr>inv_events := es\<rparr>) = outside_stock d"
    "outside_stock (d\<lparr>reservations := rs\<rparr>) = outside_stock d" for es rs and d :: booking_db
    by (simp_all add: outside_stock_def)
  with assms show ?thesis by (auto simp: transitionReservation_def Let_def split: if_splits option.splits)
qed

lemma move_all_frame:
  "move_all E m nxt rs d = Inr (out, d') \<Longrightarrow> outside_stock d' = outside_stock d"
  unfolding move_all_def
  by (erule forR_pair_invariant) (auto simp: res_simps dest: transition_frame)

lemma insert_ticket_frame: "insert_ticket t d = Inr d' \<Longrightarrow> outside_tickets d' = outside_tickets d"
  by (auto simp: insert_ticket_def outside_tickets_def split: if_splits)

lemma issue_missing_frame:
  assumes "issue_missing E tenant b i asg n d = Inr d'"
  shows "outside_tickets d' = outside_tickets d"
proof -
  obtain m d1 where t: "take_numbers tenant (bo_event b) (oi_ticketType i) (order_year E b)
      (resolveTicketPrefix (oi_slug i)) n d = (m, d1)" by (metis prod.exhaust)
  then have d1: "outside_tickets (d1\<lparr>fresh := fresh d1 + n\<rparr>) = outside_tickets d"
    by (auto simp: take_numbers_def outside_tickets_def split: option.splits)
  from assms t obtain ts where "forR insert_ticket ts (d1\<lparr>fresh := fresh d1 + n\<rparr>) = Inr d'"
    by (auto simp: issue_missing_def Let_def)
  then have "outside_tickets d' = outside_tickets d"
    by (rule forR_invariant [where P = "\<lambda>s. outside_tickets s = outside_tickets d"])
      (simp_all add: d1 insert_ticket_frame)
  then show ?thesis .
qed

lemma update_ticket_frame:
  "update_ticket now tenant number lk f d = (u, d') \<Longrightarrow> outside_tickets d' = outside_tickets d"
  by (auto simp: update_ticket_def outside_tickets_def Let_def)

lemma link_frame: "link_attendee E tenant p d = Inr d' \<Longrightarrow> outside_tickets d' = outside_tickets d"
  by (auto simp: link_attendee_def Let_def res_simps case_prod_Inr split: if_splits dest: update_ticket_frame)

lemma ensure_frame:
  assumes "ensureIssuedTicketsForOrderItem E tenant b asgs i d = Inr d'"
  shows "outside_tickets d' = outside_tickets d"
proof -
  from assms obtain d1 ps where "d1 = d \<or> (\<exists>asg n. issue_missing E tenant b i asg n d = Inr d1)"
    and loop: "forR (link_attendee E tenant) ps d1 = Inr d'"
    by (auto simp: ensureIssuedTicketsForOrderItem_def Let_def res_simps split: if_splits)
  then have "outside_tickets d1 = outside_tickets d" using issue_missing_frame by blast
  with forR_invariant [OF loop, of "\<lambda>s. outside_tickets s = outside_tickets d1"] link_frame
  show ?thesis by metis
qed

lemma reconcile_frame:
  assumes "reconcileIssuedTicketsForBookingOrder E tenant order d = Inr d'"
  shows "outside_tickets d' = outside_tickets d"
proof (cases "d' = d")
  case False
  with assms obtain b asgs xs where "forR (ensureIssuedTicketsForOrderItem E tenant b asgs) xs d = Inr d'"
    by (auto simp: reconcileIssuedTicketsForBookingOrder_def split: option.splits if_splits)
  from forR_invariant [OF this, of "\<lambda>s. outside_tickets s = outside_tickets d"] ensure_frame
  show ?thesis by metis
qed simp

lemma issue_frame:
  "issueIssuedTicketsForBookingOrder E tenant order role d = Inr d' \<Longrightarrow> outside_tickets d' = outside_tickets d"
  by (auto simp: issueIssuedTicketsForBookingOrder_def res_simps dest: reconcile_frame)

lemma add_ticket_event_frame [simp]: "outside_tickets (add_ticket_event e d) = outside_tickets d"
  by (simp add: add_ticket_event_def outside_tickets_def)

lemma carry_frame: "carry_status E tenant nxt t d = Inr d' \<Longrightarrow> outside_tickets d' = outside_tickets d"
  by (auto simp: carry_status_def Let_def res_simps case_prod_Inr split: if_splits dest: update_ticket_frame)

lemma apply_frame:
  assumes "applyIssuedTicketStatusForBookingOrder E tenant order st d = Inr d'"
  shows "outside_tickets d' = outside_tickets d"
proof (cases "resolveTicketStatusFromBookingStatus st")
  case (Some nxt)
  with assms have "forR (carry_status E tenant nxt) (tickets_of_order d tenant order) d = Inr d'"
    by (simp add: applyIssuedTicketStatusForBookingOrder_def)
  from forR_invariant [OF this, of "\<lambda>s. outside_tickets s = outside_tickets d"] carry_frame
  show ?thesis by metis
qed (use assms in \<open>simp add: applyIssuedTicketStatusForBookingOrder_def\<close>)

section \<open>Moving the reservations of an order\<close>

definition move_row :: "time_ms \<Rightarrow> reservation_status \<Rightarrow> id option \<Rightarrow> id set \<Rightarrow> reservation \<Rightarrow> reservation" where
  "move_row now nxt act ids x = (if rv_id x \<in> ids then moved now nxt act x x else x)"

lemma moved_id [simp]: "rv_id (moved now nxt act r x) = rv_id x"
  by (simp add: moved_def)

lemma unique_reservation:
  "distinct (map rv_id (reservations d)) \<Longrightarrow> x \<in> set (reservations d) \<Longrightarrow> r \<in> set (reservations d) \<Longrightarrow>
    rv_id x = rv_id r \<Longrightarrow> x = r"
  by (auto simp: distinct_map dest: inj_onD)

lemma transition_rows:
  assumes "transitionReservation E m nxt r d = Inr (u, d')" and "distinct (map rv_id (reservations d))"
    and "r \<in> set (reservations d)" and "rv_deletedAt r = None" and "rv_status r \<noteq> nxt"
  shows "reservations d' = map (move_row (be_now E) nxt (mi_actor m) {rv_id r}) (reservations d)"
proof -
  let ?hit = "\<lambda>x. rv_id x = rv_id r \<and> rv_status x = rv_status r \<and> rv_deletedAt x = None"
  have "List.find ?hit (reservations d) \<noteq> None" using find_NoneD [of ?hit "reservations d" r] assms(3,4) by blast
  with assms(1,5) have "reservations d' = update_where ?hit (moved (be_now E) nxt (mi_actor m) r) (reservations d)"
    by (auto simp: transitionReservation_def Let_def split: if_splits option.splits)
  also have "\<dots> = map (move_row (be_now E) nxt (mi_actor m) {rv_id r}) (reservations d)"
    unfolding update_where_def
  proof (rule map_cong [OF refl])
    fix x assume x: "x \<in> set (reservations d)"
    show "(if ?hit x then moved (be_now E) nxt (mi_actor m) r x else x) = move_row (be_now E) nxt (mi_actor m) {rv_id r} x"
    proof (cases "rv_id x = rv_id r")
      case True
      with unique_reservation [OF assms(2) x assms(3)] have "x = r" .
      then show ?thesis using assms(4) by (simp add: move_row_def)
    qed (simp add: move_row_def)
  qed
  finally show ?thesis .
qed

lemma move_row_ids [simp]: "map rv_id (map (move_row now nxt act ids) rows) = map rv_id rows"
  by (simp add: move_row_def)

lemma move_all_rows:
  assumes "move_all E m nxt rs d = Inr (out, d')" and "distinct (map rv_id (reservations d))"
    and "set rs \<subseteq> set (reservations d)" and "distinct (map rv_id rs)" and "\<And>r. mi_actor (m r) = act"
    and "\<And>r. r \<in> set rs \<Longrightarrow> rv_deletedAt r = None \<and> rv_status r \<noteq> nxt"
  shows "reservations d' = map (move_row (be_now E) nxt act (rv_id ` set rs)) (reservations d)"
proof -
  let ?f = "\<lambda>r (acc, d). bindR (transitionReservation E (m r) nxt r d)
        (\<lambda>(u, d'). Inr (case u of None \<Rightarrow> acc | Some x \<Rightarrow> acc @ [x], d'))"
  have "reservations d' = map (move_row (be_now E) nxt act (rv_id ` set rs)) (reservations d)"
    if "forR ?f rs (acc, d) = Inr (out, d')" for acc
    using that assms(2-4,6)
  proof (induction rs arbitrary: acc d)
    case Nil
    then show ?case by (simp add: move_row_def)
  next
    case (Cons r rs)
    from Cons.prems(1) obtain u d1 acc1 where one: "transitionReservation E (m r) nxt r d = Inr (u, d1)"
      and rest: "forR ?f rs (acc1, d1) = Inr (out, d')" by (auto simp: res_simps)
    have d1: "reservations d1 = map (move_row (be_now E) nxt act {rv_id r}) (reservations d)"
      using transition_rows [OF one] Cons.prems(2-5) assms(5) by auto
    have stay: "x \<in> set (reservations d1)" if "x \<in> set rs" for x
    proof -
      have "x \<in> set (reservations d)" "rv_id x \<noteq> rv_id r" using that Cons.prems(3,4) by (auto simp: image_iff)
      then have "move_row (be_now E) nxt act {rv_id r} x = x" by (simp add: move_row_def)
      with \<open>x \<in> set (reservations d)\<close> show ?thesis unfolding d1 by (metis image_eqI set_map)
    qed
    have "reservations d' = map (move_row (be_now E) nxt act (rv_id ` set rs)) (reservations d1)"
      by (rule Cons.IH [OF rest]) (use Cons.prems stay d1 in \<open>auto simp: move_row_ids simp del: map_map\<close>)
    also have "\<dots> = map (move_row (be_now E) nxt act (rv_id ` set (r # rs))) (reservations d)"
      unfolding d1 map_map
      by (rule map_cong) (use Cons.prems(4) in \<open>auto simp: move_row_def image_iff\<close>)
    finally show ?case .
  qed
  with assms(1) show ?thesis by (auto simp: move_all_def)
qed

lemma loadReservations_member: "r \<in> set (loadReservationsForOrder d tenant order) \<longleftrightarrow>
    r \<in> set (reservations d) \<and> rv_tenant r = tenant \<and> rv_order r = Some order \<and> rv_deletedAt r = None"
  by (auto simp: loadReservationsForOrder_def)

lemma loadReservations_distinct:
  "distinct (map rv_id (reservations d)) \<Longrightarrow> distinct (map rv_id (filter p (loadReservationsForOrder d tenant order)))"
  by (auto simp: loadReservationsForOrder_def distinct_map intro: inj_on_subset)

text \<open>Converting or releasing an order's reservations: none of them holds inventory any more.\<close>

definition holds_dropped :: "id \<Rightarrow> id \<Rightarrow> booking_db \<Rightarrow> booking_db \<Rightarrow> bool" where
  "holds_dropped tenant order d d' \<longleftrightarrow> (\<exists>f. reservations d' = map f (reservations d)
    \<and> (\<forall>x \<in> set (reservations d). rv_tenant (f x) = rv_tenant x \<and> rv_ticketType (f x) = rv_ticketType x
        \<and> rv_order (f x) = rv_order x \<and> rv_quantity (f x) = rv_quantity x \<and> rv_deletedAt (f x) = rv_deletedAt x
        \<and> (if rv_tenant x = tenant \<and> rv_order x = Some order \<and> rv_deletedAt x = None
           then \<not> holding (rv_status (f x)) else f x = x)))"

lemma order_moved_rows:
  assumes "move_all E m nxt (filter p (loadReservationsForOrder d tenant order)) d = Inr (out, d')"
    and "distinct (map rv_id (reservations d))" and "\<And>r. mi_actor (m r) = act"
    and "\<And>r. p r \<Longrightarrow> rv_status r \<noteq> nxt" and "\<And>r. \<not> p r \<Longrightarrow> \<not> holding (rv_status r)" and "\<not> holding nxt"
  shows "holds_dropped tenant order d d'"
proof -
  let ?rs = "filter p (loadReservationsForOrder d tenant order)"
  let ?f = "move_row (be_now E) nxt act (rv_id ` set ?rs)"
  have "reservations d' = map ?f (reservations d)"
    by (rule move_all_rows [OF assms(1,2)])
      (use assms loadReservations_distinct in \<open>auto simp: loadReservations_member\<close>)
  moreover have "rv_id x \<in> rv_id ` set ?rs \<longleftrightarrow> p x \<and> rv_tenant x = tenant \<and> rv_order x = Some order \<and> rv_deletedAt x = None"
    if "x \<in> set (reservations d)" for x
    using unique_reservation [OF assms(2) that] that by (auto simp: loadReservations_member image_iff)
  ultimately show ?thesis
    using assms(5,6) unfolding holds_dropped_def by (intro exI [of _ ?f]) (auto simp: move_row_def moved_def)
qed

lemma convert_rows:
  assumes "convertReservationsForBookingOrder E i ty d = Inr (out, d')" and "distinct (map rv_id (reservations d))"
  shows "holds_dropped (om_tenant i) (om_order i) d d'"
  using assms(1) unfolding convertReservationsForBookingOrder_def
  by (rule order_moved_rows [OF _ assms(2), where act = "om_actor i"]) (auto simp: order_move_input_def holding_def)

lemma release_rows:
  assumes "releaseReservationsForBookingOrder E i d = Inr (out, d')" and "distinct (map rv_id (reservations d))"
  shows "holds_dropped (om_tenant i) (om_order i) d d'"
  using assms(1) unfolding releaseReservationsForBookingOrder_def
  by (rule order_moved_rows [OF _ assms(2), where act = "om_actor i"])
    (auto simp: order_move_input_def holding_def lets_go_def)

text \<open>What is held afterwards is what the other reservations hold.\<close>

lemma held_dropped:
  assumes "holds_dropped tenant order d d'"
  shows "held E d' tenant tt =
    sum_where (\<lambda>x. live_hold (be_now E) tenant tt x \<and> rv_order x \<noteq> Some order) rv_quantity (reservations d)"
proof -
  from assms obtain f where f: "reservations d' = map f (reservations d)"
    and same: "\<And>x. x \<in> set (reservations d) \<Longrightarrow> rv_tenant (f x) = rv_tenant x \<and> rv_ticketType (f x) = rv_ticketType x
        \<and> rv_order (f x) = rv_order x \<and> rv_quantity (f x) = rv_quantity x \<and> rv_deletedAt (f x) = rv_deletedAt x
        \<and> (if rv_tenant x = tenant \<and> rv_order x = Some order \<and> rv_deletedAt x = None
           then \<not> holding (rv_status (f x)) else f x = x)"
    unfolding holds_dropped_def by blast
  have live: "live_hold (be_now E) tenant tt (f x) \<longleftrightarrow> live_hold (be_now E) tenant tt x \<and> rv_order x \<noteq> Some order"
    if "x \<in> set (reservations d)" for x
    using same [OF that] by (auto simp: live_hold_def split: if_splits)
  have "sum_where p rv_quantity (map f xs) = sum_where q rv_quantity xs"
    if "\<And>x. x \<in> set xs \<Longrightarrow> p (f x) = q x \<and> rv_quantity (f x) = rv_quantity x" for p q xs
    using that by (induction xs) auto
  note count = this
  show ?thesis unfolding held_def f
  proof (rule count)
    fix x assume x: "x \<in> set (reservations d)"
    show "live_hold (be_now E) tenant tt (f x) = (live_hold (be_now E) tenant tt x \<and> rv_order x \<noteq> Some order)
      \<and> rv_quantity (f x) = rv_quantity x"
      using live [OF x] same [OF x] by blast
  qed
qed

end
