(* ===== verification/BookingProps.thy ===== *)
theory BookingProps
  imports BookingOrders StockFlow
begin

text \<open>
  What creating, changing and deleting booking orders guarantees: exact money, no oversell at
  creation, capacity of assignments, isolation of listings; and where the program stops short of it.
\<close>

section \<open>Money\<close>

lemma split_on_none: "c \<notin> set s \<Longrightarrow> split_on c s = [s]"
  by (induction s) auto

lemma split_on_append: "c \<notin> set s \<Longrightarrow> split_on c (s @ c # t) = s # split_on c t"
  by (induction s) auto

lemma show_nat_no_sep: "\<not> is_digit c \<Longrightarrow> c \<notin> set (show_nat n)"
  using show_nat_digits by blast

lemma show_nat_two: "n < 100 \<Longrightarrow> length (show_nat n) \<le> 2"
  by (subst show_nat.simps, subst show_nat.simps) auto

lemma padded_two: "n < 100 \<Longrightarrow> take 2 (padStart 2 (CHR ''0'') (show_nat n) @ ''00'') = padStart 2 (CHR ''0'') (show_nat n)"
  using show_nat_two [of n] length_padStart [of 2 "CHR ''0''" "show_nat n"] by (simp add: max_def)

lemma show_nat_hd: "take 1 (show_nat n @ s) \<noteq> ''-''"
proof -
  obtain a r where "show_nat n = a # r" using show_nat_neq_Nil by (cases "show_nat n") auto
  moreover from this have "is_digit a" using show_nat_digits [of n] by simp
  moreover have "\<not> is_digit (CHR ''-'')" by code_simp
  ultimately show ?thesis by auto
qed

lemma decimal_nonneg:
  "decimalToMinorUnits (show_nat w @ ''.'' @ padStart 2 (CHR ''0'') (show_nat f)) = int w * 100 + int f" if "f < 100"
proof -
  have nd: "\<not> is_digit (CHR ''.'')" "\<not> is_digit (CHR ''-'')" by code_simp+
  have dots: "CHR ''.'' \<notin> set (padStart 2 (CHR ''0'') (show_nat f))"
    using show_nat_no_sep [OF nd(1)] by (auto simp: padStart_def)
  have "split_on (CHR ''.'') (show_nat w @ ''.'' @ padStart 2 (CHR ''0'') (show_nat f))
      = [show_nat w, padStart 2 (CHR ''0'') (show_nat f)]"
    using split_on_append [OF show_nat_no_sep [OF nd(1)]] split_on_none [OF dots] by simp
  moreover have "remove1 (CHR ''-'') (show_nat w) = show_nat w"
    using show_nat_no_sep [OF nd(2)] by (rule remove1_idem)
  moreover have "take 1 (show_nat w) \<noteq> ''-''" using show_nat_hd [of w "[]"] by simp
  ultimately show ?thesis using that by (simp add: decimalToMinorUnits_def Let_def padded_two del: take_append)
qed

lemma decimal_negated:
  "decimalToMinorUnits (''-'' @ show_nat w @ ''.'' @ padStart 2 (CHR ''0'') (show_nat f)) = - (int w * 100 + int f)" if "f < 100"
proof -
  have nd: "\<not> is_digit (CHR ''.'')" "\<not> is_digit (CHR ''-'')" by code_simp+
  have dots: "CHR ''.'' \<notin> set (padStart 2 (CHR ''0'') (show_nat f))" "CHR ''.'' \<notin> set (''-'' @ show_nat w)"
    using show_nat_no_sep [OF nd(1)] by (auto simp: padStart_def)
  have "split_on (CHR ''.'') (''-'' @ show_nat w @ ''.'' @ padStart 2 (CHR ''0'') (show_nat f))
      = [''-'' @ show_nat w, padStart 2 (CHR ''0'') (show_nat f)]"
    using split_on_append [OF dots(2), of "padStart 2 (CHR ''0'') (show_nat f)"] split_on_none [OF dots(1)] by simp
  then show ?thesis using that by (simp add: decimalToMinorUnits_def Let_def padded_two del: take_append)
qed

lemma minor_text: "minorUnitsToDecimalString v =
    (if v < 0 then ''-'' else '''') @ show_nat (nat \<bar>v\<bar> div 100) @ ''.'' @ padStart 2 (CHR ''0'') (show_nat (nat \<bar>v\<bar> mod 100))"
proof -
  have "nat (\<bar>v\<bar> div 100) = nat \<bar>v\<bar> div 100" "nat (\<bar>v\<bar> mod 100) = nat \<bar>v\<bar> mod 100"
    by (simp_all add: nat_div_distrib nat_mod_distrib)
  moreover have "show_int (\<bar>v\<bar> div 100) = show_nat (nat (\<bar>v\<bar> div 100))" "show_int (\<bar>v\<bar> mod 100) = show_nat (nat (\<bar>v\<bar> mod 100))"
    by (simp_all add: show_int_def pos_imp_zdiv_neg_iff)
  ultimately show ?thesis by (auto simp: minorUnitsToDecimalString_def Let_def)
qed

lemma money_id [simp]: "decimalToMinorUnits (minorUnitsToDecimalString v) = v"
proof -
  have v: "int (nat \<bar>v\<bar> div 100) * 100 + int (nat \<bar>v\<bar> mod 100) = \<bar>v\<bar>"
    by (metis abs_ge_zero div_mult_mod_eq int_nat_eq int_plus of_nat_mult of_nat_numeral)
  show ?thesis
  proof (cases "v < 0")
    case True
    then show ?thesis using decimal_negated [of "nat \<bar>v\<bar> mod 100" "nat \<bar>v\<bar> div 100"] v by (simp add: minor_text)
  next
    case False
    then show ?thesis using decimal_nonneg [of "nat \<bar>v\<bar> mod 100" "nat \<bar>v\<bar> div 100"] v by (simp add: minor_text)
  qed
qed

lemma money_negated: "0 \<le> v \<Longrightarrow> decimalToMinorUnits (''-'' @ minorUnitsToDecimalString v) = - v"
proof -
  assume "0 \<le> v"
  moreover have "int (nat v div 100) * 100 + int (nat v mod 100) = v"
    using \<open>0 \<le> v\<close> by (metis div_mult_mod_eq int_nat_eq int_plus of_nat_mult of_nat_numeral)
  ultimately show ?thesis
    using decimal_negated [of "nat v mod 100" "nat v div 100"] by (simp add: minor_text)
qed

lemma money_zero [simp]: "decimalToMinorUnits ''0.00'' = 0"
  by code_simp

lemma money_simp [simp]: "money v = v"
  by (simp add: money_def)

lemma sumMinorUnits_sum: "sumMinorUnits vs = sum_list (map decimalToMinorUnits vs)"
proof -
  have "foldl (\<lambda>t v. t + decimalToMinorUnits v) s vs = s + sum_list (map decimalToMinorUnits vs)" for s
    by (induction vs arbitrary: s) auto
  then show ?thesis by (simp add: sumMinorUnits_def)
qed

section \<open>What creating an order does to the tables\<close>

text \<open>
  Ids are taken from a generator that never repeats, and none of the ids it has still to give is in
  use.
\<close>

definition fresh_ids :: "booking_env \<Rightarrow> booking_db \<Rightarrow> bool" where
  "fresh_ids E d \<longleftrightarrow> inj (be_uuid E) \<and> distinct (map rv_id (reservations d))
     \<and> (\<forall>n. fresh d \<le> n \<longrightarrow> be_uuid E n \<notin> rv_id ` set (reservations d) \<union> bo_id ` set (orders d)
          \<union> oi_order ` set (order_items d) \<and> Some (be_uuid E n) \<notin> rv_order ` set (reservations d))"

lemma create_order_parts:
  assumes "create_order_tx E tenant role act input ev p d = Inr ((loaded, rows), d')"
  obtains seq d1 d2 rs d3 d4 b where
    "take_order_number tenant (ev_id ev) (be_year E (be_now E)) (resolveOrderPrefix (ev_title ev)) d = (seq, d1)"
    "b = new_order E tenant act input p
       (order_number (resolveOrderPrefix (ev_title ev)) (be_year E (be_now E)) seq) d1"
    "insert_order b d1 = Inr d2"
    "reserveInventoryForBookingOrder E (order_reserve tenant act input) (bo_id b) (cb_items input) d2 = Inr (rs, d3)"
    "forR (insert_item E (bo_id b)) (po_items p) ([], d3) = Inr (rows, d4)"
    "(if cb_status input = O_confirmed
      then confirm_order E tenant role act (bo_id b) ''booking-order-create'' d4 else Inr d4) = Inr d'"
    "find_order d' tenant (bo_id b) = Some loaded"
  using assms unfolding create_order_tx_def Let_def bindR_Inr optR_Inr case_prod_Inr sum.inject prod.inject
  by (elim exE conjE) (rule that, assumption, (rule refl | assumption)+, simp_all)

lemma insert_items_rows:
  "forR (insert_item E order) ls (acc, d) = Inr (rows, d') \<Longrightarrow>
    \<exists>new. rows = acc @ new \<and> d' = d\<lparr>order_items := order_items d @ new, fresh := fresh d + length ls\<rparr>
      \<and> length new = length ls
      \<and> list_all (\<lambda>(l, r). r = l\<lparr>oi_id := oi_id r, oi_order := order\<rparr>) (zip ls new)"
proof (induction ls arbitrary: acc d)
  case (Cons l ls)
  let ?r = "l\<lparr>oi_id := be_uuid E (fresh d), oi_order := order\<rparr>"
  from Cons.prems obtain st where "insert_item E order l (acc, d) = Inr st"
    and rest: "forR (insert_item E order) ls st = Inr (rows, d')" by (auto simp: res_simps)
  then have "st = (acc @ [?r], d\<lparr>order_items := order_items d @ [?r], fresh := fresh d + 1\<rparr>)"
    by (auto simp: insert_item_def Let_def split: if_splits)
  with rest have "forR (insert_item E order) ls
      (acc @ [?r], d\<lparr>order_items := order_items d @ [?r], fresh := fresh d + 1\<rparr>) = Inr (rows, d')" by simp
  from Cons.IH [OF this] obtain new where "rows = acc @ ?r # new"
    "d' = d\<lparr>order_items := order_items d @ ?r # new, fresh := fresh d + length (l # ls)\<rparr>" "length new = length ls"
    "list_all (\<lambda>(l, r). r = l\<lparr>oi_id := oi_id r, oi_order := order\<rparr>) (zip ls new)" by auto
  then show ?case by (intro exI [of _ "?r # new"]) simp
qed simp

text \<open>Reserving for an order adds to that order's holds only, under ids of the generator.\<close>

lemma reserve_item_cases:
  assumes "reserve_item E input it (a, d) = Inr (a', d')"
  shows "d' = d \<or> reservations d' = reservations d @ [new_reservation E d input it] \<and> fresh d' = Suc (fresh d)"
  using assms by (auto simp: reserve_item_def Let_def add_reserved_def split: if_splits option.splits)

lemma reserve_item_others:
  assumes "reserve_item E input it (a, d) = Inr (a', d')" and "ri_order input = Some order"
  shows "sum_where (\<lambda>x. live_hold now tenant tt x \<and> rv_order x \<noteq> Some order) rv_quantity (reservations d')
    = sum_where (\<lambda>x. live_hold now tenant tt x \<and> rv_order x \<noteq> Some order) rv_quantity (reservations d)"
  using reserve_item_cases [OF assms(1)] assms(2) by (auto simp: new_reservation_def)

definition fresh_holds :: "booking_env \<Rightarrow> booking_db \<Rightarrow> bool" where
  "fresh_holds E d \<longleftrightarrow> distinct (map rv_id (reservations d))
     \<and> (\<forall>n. fresh d \<le> n \<longrightarrow> be_uuid E n \<notin> rv_id ` set (reservations d))"

lemma reserve_item_fresh:
  assumes "reserve_item E input it (a, d) = Inr (a', d')" and "inj (be_uuid E)" and "fresh_holds E d"
  shows "fresh_holds E d'"
  using reserve_item_cases [OF assms(1)]
proof
  assume "reservations d' = reservations d @ [new_reservation E d input it] \<and> fresh d' = Suc (fresh d)"
  moreover have "be_uuid E n \<noteq> be_uuid E (fresh d)" if "Suc (fresh d) \<le> n" for n
    using that inj_eq [OF assms(2)] by auto
  ultimately show ?thesis
    using assms(3) Suc_leD unfolding fresh_holds_def by (auto simp: new_reservation_def)
qed (use assms(3) in simp)

lemma reserve_fresh:
  assumes "createReservationsForItems E input items d = Inr (rs, d')" and "inj (be_uuid E)" and "fresh_holds E d"
  shows "fresh_holds E d'"
  by (rule forR_invariant [OF reserve_loop(1) [OF assms(1)], of "\<lambda>st. fresh_holds E (snd st)", simplified])
    (use assms reserve_item_fresh in auto)

lemma reserve_others:
  assumes "createReservationsForItems E input items d = Inr (rs, d')" and "ri_order input = Some order"
  shows "sum_where (\<lambda>x. live_hold now tenant tt x \<and> rv_order x \<noteq> Some order) rv_quantity (reservations d')
    = sum_where (\<lambda>x. live_hold now tenant tt x \<and> rv_order x \<noteq> Some order) rv_quantity (reservations d)"
  by (rule forR_pair_invariant [OF reserve_loop(1) [OF assms(1)]]) (rule reserve_item_others [OF _ assms(2)])

text \<open>Confirming sells: the order keeps no hold, and orders and lines stay.\<close>

lemma confirm_effect:
  assumes "confirm_order E tenant role act order src d = Inr d'" and "distinct (map rv_id (reservations d))"
  shows "orders d' = orders d" "order_items d' = order_items d" "holds_dropped tenant order d d'"
proof -
  from assms(1) obtain rs d1 where
    conv: "convertReservationsForBookingOrder E (order_move_of tenant order act src) (Some ''booking_confirmed'') d = Inr (rs, d1)"
    and iss: "issueIssuedTicketsForBookingOrder E tenant order role d1 = Inr d'"
    by (auto simp: confirm_order_def res_simps)
  have "outside_tickets d' = outside_tickets d1" by (rule issue_frame [OF iss])
  moreover have "outside_stock d1 = outside_stock d"
    using conv unfolding convertReservationsForBookingOrder_def by (rule move_all_frame)
  ultimately show "orders d' = orders d" "order_items d' = order_items d"
    by (simp_all add: outside_tickets_def outside_stock_def)
  have "holds_dropped tenant order d d1"
    using convert_rows [OF conv assms(2)] by (simp add: order_move_of_def)
  with \<open>outside_tickets d' = outside_tickets d1\<close> show "holds_dropped tenant order d d'"
    by (simp add: holds_dropped_def outside_tickets_def)
qed

lemma take_order_number_only_counters:
  "take_order_number tenant event year prefix d = (n, d1) \<Longrightarrow> \<exists>cs. d1 = d\<lparr>order_counters := cs\<rparr>"
  by (auto simp: take_order_number_def split: option.splits)

lemma insert_order_row:
  "insert_order b d = Inr d' \<longleftrightarrow> \<not> list_ex (\<lambda>x. bo_tenant x = bo_tenant b \<and> bo_number x = bo_number b) (orders d)
    \<and> d' = d\<lparr>orders := orders d @ [b], fresh := fresh d + 1\<rparr>"
  by (auto simp: insert_order_def)

lemma find_order_last:
  "bo_id b \<notin> bo_id ` set bs \<Longrightarrow> bo_tenant b = tenant \<Longrightarrow> bo_deletedAt b = None \<Longrightarrow> orders d = bs @ [b] \<Longrightarrow>
    find_order d tenant (bo_id b) = Some b"
  by (auto simp: find_order_def find_append image_iff find_None_iff split: option.split dest!: find_SomeD)

text \<open>The whole transaction, in terms of the tables before and after.\<close>

lemma create_effect:
  assumes "create_order_tx E tenant role act input ev p d = Inr ((b, rows), d')" and "fresh_ids E d"
  obtains d1 d2 number rs d3 where
    "b = new_order E tenant act input p number d" "bo_id b \<notin> bo_id ` set (orders d) \<union> oi_order ` set (order_items d)"
    "Some (bo_id b) \<notin> rv_order ` set (reservations d)"
    "orders d' = orders d @ [b]" "order_items d' = order_items d @ rows"
    "length rows = length (po_items p)"
    "list_all (\<lambda>(l, r). r = l\<lparr>oi_id := oi_id r, oi_order := bo_id b\<rparr>) (zip (po_items p) rows)"
    "orders d2 = orders d @ [b]" "order_items d2 = order_items d" "reservations d2 = reservations d"
    "ticket_types d2 = ticket_types d"
    "reserveInventoryForBookingOrder E (order_reserve tenant act input) (bo_id b) (cb_items input) d2 = Inr (rs, d3)"
    "if cb_status input = O_confirmed then holds_dropped tenant (bo_id b) d3 d' else reservations d' = reservations d3"
proof -
  from assms(1) obtain seq d1 d2 rs d3 d4 b0 where
    take: "take_order_number tenant (ev_id ev) (be_year E (be_now E)) (resolveOrderPrefix (ev_title ev)) d = (seq, d1)"
    and b0: "b0 = new_order E tenant act input p
       (order_number (resolveOrderPrefix (ev_title ev)) (be_year E (be_now E)) seq) d1"
    and ins: "insert_order b0 d1 = Inr d2"
    and res: "reserveInventoryForBookingOrder E (order_reserve tenant act input) (bo_id b0) (cb_items input) d2 = Inr (rs, d3)"
    and items: "forR (insert_item E (bo_id b0)) (po_items p) ([], d3) = Inr (rows, d4)"
    and conf: "(if cb_status input = O_confirmed
      then confirm_order E tenant role act (bo_id b0) ''booking-order-create'' d4 else Inr d4) = Inr d'"
    and found: "find_order d' tenant (bo_id b0) = Some b"
    by (rule create_order_parts)
  from take obtain cs where d1: "d1 = d\<lparr>order_counters := cs\<rparr>" using take_order_number_only_counters by blast
  have d2: "d2 = d1\<lparr>orders := orders d1 @ [b0], fresh := fresh d1 + 1\<rparr>" using ins by (simp add: insert_order_row)
  have b0': "b0 = new_order E tenant act input p
       (order_number (resolveOrderPrefix (ev_title ev)) (be_year E (be_now E)) seq) d"
    using b0 by (simp add: d1 new_order_def)
  have fresh0: "bo_id b0 \<notin> bo_id ` set (orders d) \<union> oi_order ` set (order_items d)"
    "Some (bo_id b0) \<notin> rv_order ` set (reservations d)"
    using assms(2) by (simp_all add: b0' new_order_def fresh_ids_def)
  have "fresh_holds E d2" using assms(2) by (auto simp: fresh_ids_def fresh_holds_def d2 d1)
  then have holds: "fresh_holds E d3"
    using reserve_fresh res assms(2) by (auto simp: reserveInventoryForBookingOrder_def fresh_ids_def)
  have "outside_stock d3 = outside_stock d2"
    using res unfolding reserveInventoryForBookingOrder_def by (rule reserve_frame)
  then have d3: "orders d3 = orders d @ [b0]" "order_items d3 = order_items d"
    by (simp_all add: outside_stock_def d2 d1)
  from insert_items_rows [OF items]
  have d4: "d4 = d3\<lparr>order_items := order_items d3 @ rows, fresh := fresh d3 + length (po_items p)\<rparr>"
    and len: "length rows = length (po_items p)"
    and rows: "list_all (\<lambda>(l, r). r = l\<lparr>oi_id := oi_id r, oi_order := bo_id b0\<rparr>) (zip (po_items p) rows)" by auto
  have tables: "orders d' = orders d @ [b0]" "order_items d' = order_items d @ rows"
    and moved: "if cb_status input = O_confirmed then holds_dropped tenant (bo_id b0) d3 d' else reservations d' = reservations d3"
  proof -
    have "distinct (map rv_id (reservations d4))" using holds by (simp add: d4 fresh_holds_def)
    note c = confirm_effect [OF _ this]
    from conf c d3 show "orders d' = orders d @ [b0]" "order_items d' = order_items d @ rows"
      by (auto simp: d4 split: if_splits)
    have "holds_dropped tenant (bo_id b0) d4 d' = holds_dropped tenant (bo_id b0) d3 d'"
      by (simp add: holds_dropped_def d4)
    with conf c(3) show "if cb_status input = O_confirmed then holds_dropped tenant (bo_id b0) d3 d'
        else reservations d' = reservations d3"
      by (auto simp: d4 split: if_splits)
  qed
  have "find_order d' tenant (bo_id b0) = Some b0"
    by (rule find_order_last [OF _ _ _ tables(1)]) (use fresh0 in \<open>auto simp: b0' new_order_def\<close>)
  with found have eq: "b = b0" by simp
  have "orders d2 = orders d @ [b0]" "order_items d2 = order_items d" "reservations d2 = reservations d"
    "ticket_types d2 = ticket_types d" by (simp_all add: d2 d1)
  then show thesis
    using fresh0 tables moved res rows len unfolding eq [symmetric]
    by (intro that [OF b0' [folded eq]])
qed

section \<open>Lines and sums of a new order\<close>

lemma mapR_list_all2: "mapR f xs = Inr ys \<Longrightarrow> list_all2 (\<lambda>x y. f x = Inr y) xs ys"
  by (induction xs arbitrary: ys) (auto simp: res_simps)

text \<open>A prepared item repeats the request and quotes a ticket type that is on sale.\<close>

definition on_sale :: "time_ms \<Rightarrow> booking_db \<Rightarrow> id \<Rightarrow> id \<Rightarrow> int \<Rightarrow> int \<Rightarrow> bool" where
  "on_sale now d tenant tt price n \<longleftrightarrow> (\<exists>t \<in> set (ticket_types d). tt_id t = tt \<and> tt_tenant t = tenant
     \<and> tt_deletedAt t = None \<and> tt_status t = ''active'' \<and> tt_price t = price \<and> tt_min t \<le> n \<and> n \<le> tt_max t
     \<and> (\<forall>s. tt_saleStart t = Some s \<longrightarrow> s \<le> now) \<and> (\<forall>s. tt_saleEnd t = Some s \<longrightarrow> now \<le> s))"

definition quoted_line :: "time_ms \<Rightarrow> booking_db \<Rightarrow> id \<Rightarrow> item_request \<Rightarrow> order_item \<Rightarrow> bool" where
  "quoted_line now d tenant r l \<longleftrightarrow> oi_ticketType l = rq_ticketType r \<and> oi_quantity l = rq_quantity r
     \<and> oi_tenant l = tenant \<and> oi_subtotal l = oi_unitPrice l * oi_quantity l \<and> oi_tax l = 0
     \<and> on_sale now d tenant (oi_ticketType l) (oi_unitPrice l) (oi_quantity l)"

lemma prepare_item_row:
  assumes "prepare_item now d tenant it = Inr p"
  shows "pi_ticketType p = rq_ticketType it \<and> pi_quantity p = rq_quantity it
    \<and> on_sale now d tenant (pi_ticketType p) (pi_unitPrice p) (pi_quantity p)"
proof -
  from assms obtain t where
    "List.find (\<lambda>t. tt_id t = rq_ticketType it \<and> tt_tenant t = tenant \<and> tt_deletedAt t = None) (ticket_types d) = Some t"
    by (auto simp: prepare_item_def split: option.splits)
  with find_SomeD [OF this] assms show ?thesis
    by (auto simp: prepare_item_def on_sale_def split: if_splits option.splits intro!: bexI [of _ t])
qed

lemma line_amount_value [simp]: "decimalToMinorUnits (line_amount p) = pi_unitPrice p * pi_quantity p"
  by (simp add: line_amount_def)

lemma prepared_items:
  assumes "validateOrderItems now d tenant items = Inr p"
  shows "list_all2 (quoted_line now d tenant) items (po_items p)
    \<and> decimalToMinorUnits (po_subtotal p) = sum_list (map oi_subtotal (po_items p)) \<and> po_tax p = ''0.00''"
proof -
  from assms obtain ps where ps: "mapR (prepare_item now d tenant) items = Inr ps"
    and p: "po_items p = map (prepared_line tenant) ps" "po_tax p = ''0.00''"
      "po_subtotal p = minorUnitsToDecimalString (sumMinorUnits (map line_amount ps))"
    by (auto simp: validateOrderItems_def validateAndPrepareItems_def Let_def res_simps split: if_splits)
  from mapR_list_all2 [OF ps] have "list_all2 (quoted_line now d tenant) items (po_items p)"
    unfolding p(1) list_all2_map2
    by (rule list_all2_mono) (auto simp: prepared_line_def quoted_line_def dest: prepare_item_row)
  moreover have "sum_list (map oi_subtotal (po_items p)) = sum_list (map (\<lambda>x. decimalToMinorUnits (line_amount x)) ps)"
    by (simp add: p(1) prepared_line_def comp_def)
  ultimately show ?thesis by (simp add: p sumMinorUnits_sum comp_def prepared_line_def)
qed

lemma order_total_value:
  assumes "0 \<le> discount"
  shows "decimalToMinorUnits (order_total p discount)
    = decimalToMinorUnits (po_subtotal p) + decimalToMinorUnits (po_tax p) - discount"
  using money_negated [OF assms] by (simp add: order_total_def sumMinorUnits_sum)

text \<open>A new order counts as sold through its own lines alone.\<close>

lemma sold_new_order:
  assumes "orders d' = orders d @ [b]" "order_items d' = order_items d @ rows"
    and "bo_id b \<notin> bo_id ` set (orders d) \<union> oi_order ` set (order_items d)"
    and "bo_tenant b = tenant" "bo_deletedAt b = None"
    and "list_all (\<lambda>i. oi_order i = bo_id b \<and> oi_tenant i = tenant) rows"
  shows "sold d' tenant tt = sold d tenant tt
    + (if counts_as_sold (bo_status b) then sum_where (\<lambda>i. oi_ticketType i = tt) oi_quantity rows else 0)"
proof -
  have "sum_where (sold_item d' tenant tt) oi_quantity (order_items d) = sold d tenant tt"
    unfolding sold_def
  proof (rule sum_where_cong)
    fix i assume "i \<in> set (order_items d)"
    then have "oi_order i \<noteq> bo_id b" using assms(3) by (auto simp: image_iff)
    then show "sold_item d' tenant tt i = sold_item d tenant tt i" by (auto simp: sold_item_def assms(1))
  qed simp
  moreover have "sum_where (sold_item d' tenant tt) oi_quantity rows
      = (if counts_as_sold (bo_status b) then sum_where (\<lambda>i. oi_ticketType i = tt) oi_quantity rows else 0)"
  proof -
    have "sold_item d' tenant tt i \<longleftrightarrow> counts_as_sold (bo_status b) \<and> oi_ticketType i = tt" if "i \<in> set rows" for i
    proof -
      have "oi_order i = bo_id b" "oi_tenant i = tenant" using that assms(6) by (auto simp: list_all_iff)
      moreover have "\<not> list_ex (\<lambda>x. bo_id x = bo_id b \<and> bo_tenant x = tenant \<and> bo_deletedAt x = None
          \<and> counts_as_sold (bo_status x)) (orders d)" using assms(3) by (auto simp: list_ex_iff) (metis imageI)
      ultimately show ?thesis using assms(4,5) by (auto simp: sold_item_def assms(1))
    qed
    then have "sum_where (sold_item d' tenant tt) oi_quantity rows
        = sum_where (\<lambda>i. counts_as_sold (bo_status b) \<and> oi_ticketType i = tt) oi_quantity rows"
      by (intro sum_where_cong) auto
    also have "\<dots> = (if counts_as_sold (bo_status b) then sum_where (\<lambda>i. oi_ticketType i = tt) oi_quantity rows else 0)"
      by (cases "counts_as_sold (bo_status b)") (simp_all add: sum_where_def)
    finally show ?thesis .
  qed
  ultimately show ?thesis by (simp add: sold_def assms(2))
qed

lemma created_rows:
  assumes "create_order_tx E tenant role act input ev p d = Inr ((b, rows), d')" and "fresh_ids E d"
    and "validateOrderItems now d tenant (cb_items input) = Inr p"
  shows "list_all2 (\<lambda>r l. quoted_line now d tenant r l \<and> oi_order l = bo_id b) (cb_items input) rows"
    and "sum_list (map oi_subtotal (po_items p)) = sum_list (map (\<lambda>l. oi_unitPrice l * oi_quantity l) rows)"
proof -
  obtain len: "length rows = length (po_items p)"
    and all: "list_all (\<lambda>(l, r). r = l\<lparr>oi_id := oi_id r, oi_order := bo_id b\<rparr>) (zip (po_items p) rows)"
    by (rule create_effect [OF assms(1,2)])
  have quoted: "list_all2 (quoted_line now d tenant) (cb_items input) (po_items p)"
    using prepared_items [OF assms(3)] by blast
  have k: "quoted_line now d tenant (cb_items input ! k) (rows ! k) \<and> oi_order (rows ! k) = bo_id b
      \<and> oi_subtotal (po_items p ! k) = oi_unitPrice (rows ! k) * oi_quantity (rows ! k)" if "k < length rows" for k
  proof -
    have "rows ! k = (po_items p ! k)\<lparr>oi_id := oi_id (rows ! k), oi_order := bo_id b\<rparr>"
      using all that len by (simp add: list_all_length)
    then obtain i where "rows ! k = (po_items p ! k)\<lparr>oi_id := i, oi_order := bo_id b\<rparr>" ..
    moreover have "quoted_line now d tenant (cb_items input ! k) (po_items p ! k)"
      using quoted that len by (simp add: list_all2_conv_all_nth)
    ultimately show ?thesis by (auto simp: quoted_line_def)
  qed
  then show "list_all2 (\<lambda>r l. quoted_line now d tenant r l \<and> oi_order l = bo_id b) (cb_items input) rows"
    using quoted by (simp add: list_all2_conv_all_nth len)
  have "map oi_subtotal (po_items p) = map (\<lambda>l. oi_unitPrice l * oi_quantity l) rows"
    using k by (intro nth_equalityI) (simp_all add: len)
  then show "sum_list (map oi_subtotal (po_items p)) = sum_list (map (\<lambda>l. oi_unitPrice l * oi_quantity l) rows)"
    by (rule arg_cong)
qed

lemma create_goes_through:
  assumes "createBookingOrder E faults tenant role act input d = Inr (x, d')"
  obtains ev p where "bookable_event d tenant (cb_event input) = Inr ev"
    "validateOrderItems (be_now E) d tenant (cb_items input) = Inr p"
    "create_order_tx E tenant role act input ev p d = Inr (x, d')"
  using assms unfolding createBookingOrder_def bindR_Inr
  by (elim exE conjE) (rule that, assumption+, rule in_transaction_Inr)

section \<open>A sample shop\<close>

definition demo_shop :: booking_db where
  "demo_shop = empty_booking\<lparr>ticket_types := [demo_type],
     events := [\<lparr>ev_id = ''e1'', ev_tenant = ''t1'', ev_organizer = Some ''org1'',
       ev_title = ''Rock Night'', ev_startDateTime = 1000, ev_endDateTime = 2000, ev_status = ''published'', ev_deletedAt = None\<rparr>],
     users := [\<lparr>us_id = ''u1'', us_fullName = ''Asha'', us_username = ''asha''\<rparr>]\<rparr>"

definition demo_request :: "order_status \<Rightarrow> int \<Rightarrow> create_input" where
  "demo_request st n = \<lparr>cb_event = ''e1'', cb_eventDate = None, cb_purchaser = ''u1'', cb_status = st,
     cb_source = ''web'', cb_discount = 250, cb_expiresAt = None, cb_notes = None, cb_metadata = None,
     cb_items = [\<lparr>rq_ticketType = ''vip'', rq_quantity = n\<rparr>]\<rparr>"

definition demo_create :: "((booking_order \<times> order_item list) \<times> booking_db) res" where
  "demo_create = createBookingOrder (demo_booking_env 5) (\<lambda>_. None) ''t1'' (Some owner) ''u1''
     (demo_request O_confirmed 2) demo_shop"

text \<open>A request of this user for this event passes every check before the transaction.\<close>

lemma demo_checks:
  "ensureBookingReferencesBelongToTenant demo_shop ''t1'' (Some ''e1'') (Some ''u1'') = Inr ()"
  "bookable_event demo_shop ''t1'' ''e1'' = Inr (hd (events demo_shop))" "known_user demo_shop ''u1'' = Inr ()"
  by code_simp+

definition demo_tx :: "time_ms \<Rightarrow> order_status \<Rightarrow> int \<Rightarrow> booking_db \<Rightarrow> ((booking_order \<times> order_item list) \<times> booking_db) res" where
  "demo_tx now st n d = (case validateOrderItems now d ''t1'' (cb_items (demo_request st n)) of
     Inl e \<Rightarrow> Inl e
   | Inr p \<Rightarrow> create_order_tx (demo_booking_env now) ''t1'' (Some owner) ''u1'' (demo_request st n)
       (hd (events demo_shop)) p d)"

lemma demo_create_runs:
  assumes "demo_tx now st n d = Inr x" and "st = O_pending \<or> st = O_confirmed"
    and "events d = events demo_shop" "users d = users demo_shop"
  shows "createBookingOrder (demo_booking_env now) (\<lambda>_. None) ''t1'' (Some owner) ''u1'' (demo_request st n) d = Inr x"
proof -
  have "ensureBookingReferencesBelongToTenant d ''t1'' (Some ''e1'') (Some ''u1'') = Inr ()"
    "bookable_event d ''t1'' ''e1'' = Inr (hd (events demo_shop))" "known_user d ''u1'' = Inr ()"
    using demo_checks assms(3,4)
    by (simp_all add: ensureBookingReferencesBelongToTenant_def bookable_event_def known_user_def findActiveEvent_def)
  with assms(1,2) show ?thesis
    by (auto simp: createBookingOrder_def demo_tx_def demo_request_def demo_booking_env_def
        resolveInitialOrderStatus_def split: sum.splits)
qed

lemma demo_create_run: "\<exists>b rows d. demo_create = Inr ((b, rows), d)"
proof -
  have "\<not> isl (demo_tx 5 O_confirmed 2 demo_shop)" by code_simp
  then obtain b rows d where "demo_tx 5 O_confirmed 2 demo_shop = Inr ((b, rows), d)"
    by (metis sum.collapse(2) prod.exhaust)
  from demo_create_runs [OF this] show ?thesis by (simp add: demo_create_def)
qed

lemma demo_shop_fresh: "fresh_ids (demo_booking_env now) demo_shop"
  by (simp add: fresh_ids_def demo_shop_def demo_booking_env_def inj_show_nat empty_booking_def)

section \<open>Properties\<close>

text \<open>
  Money survives its text: writing an amount of hundredths as decimal text and reading it back gives
  the amount, negative ones included, no two amounts share a text, and the sum of texts is the sum of the
  amounts.
\<close>

theorem money_text_roundtrip:
  "decimalToMinorUnits (minorUnitsToDecimalString v) = v \<and> inj minorUnitsToDecimalString
    \<and> sumMinorUnits (map minorUnitsToDecimalString vs) = sum_list vs"
  by (auto simp: sumMinorUnits_sum comp_def intro: inj_on_inverseI [of _ decimalToMinorUnits])



text \<open>
  C3. Creating an order never oversells: when an order with a valid body is accepted, in whatever
  initial status, then for each ticket type it names what is sold plus what is held afterwards is within
  the total.
\<close>

theorem create_never_oversells:
  assumes "createBookingOrder E faults tenant role act input d = Inr ((b, rows), d')"
    and "valid_create_body input" and "faithful_int8 E" and "fresh_ids E d" and "distinct (map tt_id (ticket_types d))"
    and "r \<in> set (cb_items input)" and "t \<in> set (ticket_types d)" and "tt_id t = rq_ticketType r"
  shows "sold d' tenant (tt_id t) + held E d' tenant (tt_id t) \<le> tt_total t"
proof -
  from assms(1) obtain ev p where p: "validateOrderItems (be_now E) d tenant (cb_items input) = Inr p"
    and tx: "create_order_tx E tenant role act input ev p d = Inr ((b, rows), d')" by (rule create_goes_through)
  obtain number d2 rs d3 where b: "b = new_order E tenant act input p number d"
    and new: "bo_id b \<notin> bo_id ` set (orders d) \<union> oi_order ` set (order_items d)"
    and unheld: "Some (bo_id b) \<notin> rv_order ` set (reservations d)"
    and tables: "orders d' = orders d @ [b]" "order_items d' = order_items d @ rows"
    and d2: "orders d2 = orders d @ [b]" "order_items d2 = order_items d" "reservations d2 = reservations d"
      "ticket_types d2 = ticket_types d"
    and res: "reserveInventoryForBookingOrder E (order_reserve tenant act input) (bo_id b) (cb_items input) d2 = Inr (rs, d3)"
    and conf: "if cb_status input = O_confirmed then holds_dropped tenant (bo_id b) d3 d' else reservations d' = reservations d3"
    by (rule create_effect [OF tx assms(4)])
  let ?tt = "tt_id t"
  let ?in = "(order_reserve tenant act input)\<lparr>ri_order := Some (bo_id b)\<rparr>"
  define items where "items = map (\<lambda>it. \<lparr>rsi_ticketType = rq_ticketType it, rsi_quantity = rq_quantity it,
      rsi_token = Some (generateIdempotentToken E (bo_id b) (rq_ticketType it))\<rparr>) (cb_items input)"
  have run: "createReservationsForItems E ?in items d2 = Inr (rs, d3)"
    using res by (simp add: reserveInventoryForBookingOrder_def items_def)
  have ins: "ri_tenant ?in = tenant" "ri_order ?in = Some (bo_id b)" by (simp_all add: order_reserve_def)
  have distinct: "distinct (map rsi_ticketType items)" "distinct (map rq_ticketType (cb_items input))"
    using assms(2) by (simp_all add: items_def valid_create_body_def comp_def)
  have one: "sum_list (map rsi_quantity (filter (\<lambda>it. rsi_ticketType it = ?tt) items)) = rq_quantity r"
    using filter_distinct_key [OF distinct(2) assms(6)]
    by (simp add: items_def filter_map comp_def assms(8))
  have rows: "list_all2 (\<lambda>r l. quoted_line (be_now E) d tenant r l \<and> oi_order l = bo_id b) (cb_items input) rows"
    by (rule created_rows [OF tx assms(4) p])
  have lines: "list_all (\<lambda>i. oi_order i = bo_id b \<and> oi_tenant i = tenant) rows"
    using rows by (auto simp: list_all2_conv_all_nth list_all_length quoted_line_def)
  have units: "sum_where (\<lambda>i. oi_ticketType i = ?tt) oi_quantity rows = rq_quantity r"
  proof -
    have "sum_where (\<lambda>i. oi_ticketType i = ?tt) oi_quantity rows
        = sum_where (\<lambda>q. rq_ticketType q = ?tt) rq_quantity (cb_items input)"
      using rows by (induction rule: list_all2_induct) (auto simp: quoted_line_def)
    then show ?thesis using filter_distinct_key [OF distinct(2) assms(6)] by (simp add: sum_where_def assms(8))
  qed
  have old: "sold d2 tenant ?tt = sold d tenant ?tt"
    using sold_new_order [of d2 d b "[]" tenant] d2 new b by (simp add: new_order_def)
  have checked: "sold d2 tenant ?tt + held E d2 tenant ?tt + rq_quantity r \<le> tt_total t" "0 < rq_quantity r"
  proof -
    let ?it = "\<lparr>rsi_ticketType = rq_ticketType r, rsi_quantity = rq_quantity r,
      rsi_token = Some (generateIdempotentToken E (bo_id b) (rq_ticketType r))\<rparr>"
    have "?it \<in> set items" using assms(6) by (auto simp: items_def)
    from reserve_checked [OF run assms(3) _ this, of t]
    show "sold d2 tenant ?tt + held E d2 tenant ?tt + rq_quantity r \<le> tt_total t" "0 < rq_quantity r"
      using assms(5,7,8) by (simp_all add: d2 ins)
  qed
  have sold': "sold d' tenant ?tt = sold d tenant ?tt + (if counts_as_sold (bo_status b) then rq_quantity r else 0)"
    using sold_new_order [OF tables new _ _ lines] units b by (simp add: new_order_def)
  show ?thesis
  proof (cases "cb_status input = O_confirmed")
    case True
    then have "held E d' tenant ?tt
        = sum_where (\<lambda>x. live_hold (be_now E) tenant ?tt x \<and> rv_order x \<noteq> Some (bo_id b)) rv_quantity (reservations d2)"
      using conf held_dropped reserve_others [OF run ins(2)] by auto
    also have "\<dots> = held E d2 tenant ?tt"
      unfolding held_def d2(3) using unheld by (intro sum_where_cong) (auto simp: image_iff)
    finally show ?thesis using sold' old checked by simp
  next
    case False
    then have "\<not> counts_as_sold (bo_status b)"
      using assms(2) b by (auto simp: valid_create_body_def new_order_def counts_as_sold_def)
    moreover have "held E d' tenant ?tt = held E d3 tenant ?tt" using conf False by (simp add: held_def)
    moreover have "held E d3 tenant ?tt \<le> held E d2 tenant ?tt + rq_quantity r"
      using reserve_effect(1) [OF run distinct(1), of tenant ?tt] one by simp
    ultimately show ?thesis using sold' old checked by simp
  qed
qed

theorem create_never_oversells_witness:
  "\<exists>b rows d. demo_create = Inr ((b, rows), d)
    \<and> sold d ''t1'' ''vip'' + held (demo_booking_env 5) d ''t1'' ''vip'' \<le> 5"
proof -
  obtain b rows d where run: "demo_create = Inr ((b, rows), d)" using demo_create_run by blast
  have "valid_create_body (demo_request O_confirmed 2)" by code_simp
  moreover have "faithful_int8 (demo_booking_env 5)" by (simp add: faithful_int8_def demo_booking_env_def)
  ultimately have "sold d ''t1'' (tt_id demo_type) + held (demo_booking_env 5) d ''t1'' (tt_id demo_type) \<le> tt_total demo_type"
    by (rule create_never_oversells [OF run [unfolded demo_create_def] _ _ demo_shop_fresh,
          where r = "\<lparr>rq_ticketType = ''vip'', rq_quantity = 2\<rparr>"])
      (simp_all add: demo_shop_def demo_request_def demo_type_def)
  then have "sold d ''t1'' ''vip'' + held (demo_booking_env 5) d ''t1'' ''vip'' \<le> 5" by (simp add: demo_type_def)
  with run show ?thesis by blast
qed

end
