(* ===== verification/GroupReach.thy ===== *)
theory GroupReach
  imports GroupMoney BookingProps
begin

text \<open>
  Groups over time: any mix of calls of the group service, each with a clock and faults of its own, and
  of changes of the rest of the database by others.
\<close>

section \<open>Calls\<close>

inductive group_call :: "(nat \<Rightarrow> id) \<Rightarrow> group_world \<Rightarrow> group_world \<Rightarrow> bool" for uuid where
  call_outside: "group_view w' = group_view w \<Longrightarrow> group_call uuid w w'"
| call_create: "ge_uuid E = uuid \<Longrightarrow> group_call uuid w (snd (createGroupBooking E tn u i w))"
| call_get: "group_call uuid w (snd (getGroupBooking E tn i u w))"
| call_list: "group_call uuid w (snd (listGroupBookingsService E tn u q w))"
| call_invite: "ge_uuid E = uuid \<Longrightarrow> group_call uuid w (snd (inviteMember E tn i act u w))"
| call_accept: "group_call uuid w (snd (acceptInvitation E tn i u w))"
| call_decline: "group_call uuid w (snd (declineInvitation E tn i u w))"
| call_remove: "group_call uuid w (snd (removeMember E tn i act u t w))"
| call_shares: "group_call uuid w (snd (updateShares E tn i act shares known w))"
| call_contribute: "0 < c \<Longrightarrow> fits c \<Longrightarrow> group_call uuid w (snd (recordContribution E tn i u (parse_dec c) t w))"
| call_cancel: "group_call uuid w (snd (cancelGroupBooking E tn i act known w))"
| call_assign: "group_call uuid w (snd (assignGroupBookingAttendees E tn i act xs t w))"

definition no_groups :: group_world where
  "no_groups = \<lparr>gw_shop = empty_booking, gw_groups = [], gw_members = [], gw_activity = [], gw_notes = [],
     gw_prefs = [], gw_next = 0\<rparr>"

inductive group_reach :: "(nat \<Rightarrow> id) \<Rightarrow> group_world \<Rightarrow> bool" for uuid where
  reach_none: "group_reach uuid no_groups"
| reach_call: "group_reach uuid w \<Longrightarrow> group_call uuid w w' \<Longrightarrow> group_reach uuid w'"

lemmas keeps_all = keeps_create_group keeps_get keeps_list keeps_invite keeps_accept keeps_decline keeps_remove
  keeps_shares keeps_contribution keeps_cancel_group keeps_assign

lemma call_keeps: "group_call uuid w w' \<Longrightarrow> inj uuid \<Longrightarrow> group_inv uuid w \<Longrightarrow> group_inv uuid w'"
proof (induction rule: group_call.induct)
  case (call_outside w' w)
  from group_inv_view [OF call_outside.hyps] call_outside.prems(2) show ?case by simp
qed (rule holdsD [OF keeps_all(1)] holdsD [OF keeps_all(2)] holdsD [OF keeps_all(3)] holdsD [OF keeps_all(4)]
    holdsD [OF keeps_all(5)] holdsD [OF keeps_all(6)] holdsD [OF keeps_all(7)] holdsD [OF keeps_all(8)]
    holdsD [OF keeps_all(9)] holdsD [OF keeps_all(10)] holdsD [OF keeps_all(11)]; assumption)+

lemma group_reach_inv: "group_reach uuid w \<Longrightarrow> inj uuid \<Longrightarrow> group_inv uuid w"
proof (induction rule: group_reach.induct)
  case reach_none
  show ?case by (simp add: group_inv_def no_groups_def)
qed (rule call_keeps)

section \<open>A sample group\<close>

definition demo_group_env :: "time_ms \<Rightarrow> group_env" where
  "demo_group_env now = \<lparr>ge_shop = demo_booking_env now, ge_faults = (\<lambda>_. None)\<rparr>"

definition demo_group_input :: group_input where
  "demo_group_input = \<lparr>gi_event = ''e1'', gi_items = [\<lparr>rq_ticketType = ''vip'', rq_quantity = 2\<rparr>], gi_title = None\<rparr>"

definition demo_group_order :: "((booking_order \<times> order_item list) \<times> booking_db) res" where
  "demo_group_order = (case validateOrderItems 5 demo_shop ''t1'' (gi_items demo_group_input) of
     Inl e \<Rightarrow> Inl e
   | Inr p \<Rightarrow> create_order_tx (demo_booking_env 5) ''t1'' (Some owner) ''u1'' (group_order ''u1'' demo_group_input)
       (hd (events demo_shop)) p demo_shop)"

lemma demo_group_order_run:
  obtains b rows d where "demo_group_order = Inr ((b, rows), d)" "createBookingOrder (demo_booking_env 5) (\<lambda>_. None) ''t1'' (Some owner) ''u1''
      (group_order ''u1'' demo_group_input) demo_shop = Inr ((b, rows), d)" "fits (bo_total b)"
proof -
  have "case demo_group_order of Inl e \<Rightarrow> False | Inr p \<Rightarrow> fits (bo_total (fst (fst p)))" by code_simp
  then obtain b rows d where run: "demo_group_order = Inr ((b, rows), d)" "fits (bo_total b)"
    by (auto split: sum.splits)
  have "createBookingOrder (demo_booking_env 5) (\<lambda>_. None) ''t1'' (Some owner) ''u1''
      (group_order ''u1'' demo_group_input) demo_shop = Inr ((b, rows), d)"
    using run(1) demo_checks
    by (auto simp: createBookingOrder_def demo_group_order_def demo_group_input_def group_order_def demo_booking_env_def
        resolveInitialOrderStatus_def split: sum.splits)
  from that [OF run(1) this run(2)] show ?thesis .
qed

text \<open>A group is created for an order of two tickets, and its owner pays.\<close>

definition demo_groups :: group_world where
  "demo_groups = snd (createGroupBooking (demo_group_env 5) ''t1'' ''u1'' demo_group_input (no_groups\<lparr>gw_shop := demo_shop\<rparr>))"

lemma demo_groups_reached: "group_reach (be_uuid (demo_booking_env 5)) demo_groups"
  unfolding demo_groups_def
  by (rule reach_call [OF reach_call [OF reach_none call_outside] call_create])
    (simp_all add: shop_view ge_uuid_def demo_group_env_def)

lemma demo_groups_are:
  obtains b rows d g m where "demo_group_order = Inr ((b, rows), d)" "gw_shop demo_groups = d" "gw_groups demo_groups = [g]"
    "gw_members demo_groups = [m]" "g = (new_group 5 ''t1'' ''u1'' demo_group_input b)\<lparr>gb_id := be_uuid (demo_booking_env 5) 0\<rparr>"
    "m = (new_member 5 (gb_id g) ''u1'')\<lparr>gm_owner := True, gm_invite := I_accepted, gm_contribution := gb_total g,
       gm_joinedAt := Some 5, gm_id := be_uuid (demo_booking_env 5) 1\<rparr>" "gw_prefs demo_groups = []"
proof -
  obtain b rows d where run: "demo_group_order = Inr ((b, rows), d)" "createBookingOrder (demo_booking_env 5) (\<lambda>_. None)
      ''t1'' (Some owner) ''u1'' (group_order ''u1'' demo_group_input) demo_shop = Inr ((b, rows), d)" and fit: "fits (bo_total b)"
    by (rule demo_group_order_run)
  have now: "be_now (demo_booking_env 5) = 5" by (simp add: demo_booking_env_def)
  show ?thesis
    by (rule that [OF run(1)])
      (use fit in \<open>simp_all add: demo_groups_def createGroupBooking_def group_tx_def atomic_def bnd_def attempt_def alter_def
        ret_def now demo_group_env_def ge_now_def run(2) no_groups_def
        createGroupBookingRecord_def addGroupBookingMember_def new_group_def new_member_def Let_def fits_def
        createGroupBookingActivityRecord_def ge_uuid_def\<close>)
qed

lemma demo_uuid_inj: "inj (be_uuid (demo_booking_env now))"
  by (simp add: demo_booking_env_def inj_show_nat)

section \<open>The books\<close>

text \<open>
  C6. In every state reached by any calls of the group service, with contributions in whole cents, what a
  group has collected is the sum of what its members have paid, nobody has paid more than his share, and a
  completed group has collected its total.
\<close>

theorem group_books_balance:
  assumes "group_reach uuid w" and "inj uuid" and "g \<in> set (gw_groups w)"
  shows "gb_collected g = sum_where (\<lambda>m. gm_group m = gb_id g \<and> gm_deletedAt m = None) gm_paid (gw_members w)
    \<and> (\<forall>m \<in> set (gw_members w). gm_group m = gb_id g \<longrightarrow> 0 \<le> gm_paid m \<and> (0 < gm_paid m \<longrightarrow> gm_paid m \<le> gm_contribution m))
    \<and> (gb_status g = G_completed \<longrightarrow> gb_total g \<le> gb_collected g)"
  using group_reach_inv [OF assms(1,2)] assms(3)
  by (auto simp: group_inv_def group_ok_def member_ok_def paid_sum_def live_member_def)

theorem group_books_balance_witness:
  "\<exists>w g. group_reach (be_uuid (demo_booking_env 5)) w \<and> gw_groups w = [g]
    \<and> gb_collected g = sum_where (\<lambda>m. gm_group m = gb_id g \<and> gm_deletedAt m = None) gm_paid (gw_members w)"
proof -
  obtain g where g: "gw_groups demo_groups = [g]" using demo_groups_are by blast
  with group_books_balance [OF demo_groups_reached demo_uuid_inj, of g] demo_groups_reached show ?thesis by auto
qed

text \<open>
  C9. In every state reached, every group has exactly one owner: the live membership of its creator, which
  is accepted; every membership belongs to a group.
\<close>

theorem one_owner_per_group:
  assumes "group_reach uuid w" and "inj uuid" and "g \<in> set (gw_groups w)"
  shows "(\<exists>!m. m \<in> set (gw_members w) \<and> gm_group m = gb_id g \<and> gm_owner m)
    \<and> (\<forall>m \<in> set (gw_members w). gm_group m = gb_id g \<and> gm_owner m \<longrightarrow>
        gm_user m = gb_createdBy g \<and> gm_invite m = I_accepted \<and> gm_deletedAt m = None)
    \<and> gm_group ` set (gw_members w) \<subseteq> gb_id ` set (gw_groups w)"
proof -
  note inv = group_reach_inv [OF assms(1,2)]
  have own: "gm_user m = gb_createdBy g \<and> gm_invite m = I_accepted \<and> live_member m"
    if m: "m \<in> set (gw_members w)" "gm_group m = gb_id g" "gm_owner m" for m
  proof -
    from inv m(1) have "member_ok (gw_groups w) m" by (simp add: group_inv_def)
    with m(2,3) obtain y where "y \<in> set (gw_groups w)" "gb_id y = gb_id g" "gm_user m = gb_createdBy y"
      and rest: "gm_invite m = I_accepted" "live_member m" by (auto simp: member_ok_def)
    with group_by_id [OF inv assms(3)] show ?thesis by auto
  qed
  have "\<exists>m \<in> set (gw_members w). gm_group m = gb_id g \<and> gm_owner m"
    using inv assms(3) by (simp add: group_inv_def group_ok_def)
  moreover have "m = n" if "m \<in> set (gw_members w)" "gm_group m = gb_id g" "gm_owner m"
    "n \<in> set (gw_members w)" "gm_group n = gb_id g" "gm_owner n" for m n
    using member_by_user [OF inv that(4,1)] own that by simp
  ultimately have "\<exists>!m. m \<in> set (gw_members w) \<and> gm_group m = gb_id g \<and> gm_owner m" by blast
  moreover have "gm_group m \<in> gb_id ` set (gw_groups w)" if "m \<in> set (gw_members w)" for m
  proof -
    from inv that have "member_ok (gw_groups w) m" by (simp add: group_inv_def)
    then show ?thesis by (auto simp: member_ok_def intro: rev_image_eqI)
  qed
  ultimately show ?thesis using own by (auto simp: live_member_def)
qed

theorem one_owner_per_group_witness:
  "\<exists>w g. group_reach (be_uuid (demo_booking_env 5)) w \<and> gw_groups w = [g]
    \<and> (\<exists>!m. m \<in> set (gw_members w) \<and> gm_group m = gb_id g \<and> gm_owner m)"
proof -
  obtain g where g: "gw_groups demo_groups = [g]" using demo_groups_are by blast
  with one_owner_per_group [OF demo_groups_reached demo_uuid_inj, of g] demo_groups_reached show ?thesis by auto
qed

end
