(* ===== verification/GroupFlow.thy ===== *)
theory GroupFlow
  imports GroupReach
begin

text \<open>
  A group on its way to completion: when everybody pays what is left of his share, in any order, the last
  payment completes the group and confirms its order; and what can prevent this.
\<close>

section \<open>One contribution\<close>

definition paid_row :: "time_ms \<Rightarrow> int \<Rightarrow> group_member \<Rightarrow> group_member" where
  "paid_row now p x = x\<lparr>gm_paid := p, gm_version := gm_version x + 1, gm_updatedAt := now\<rparr>"

definition collected_row :: "time_ms \<Rightarrow> int \<Rightarrow> group_booking \<Rightarrow> group_booking" where
  "collected_row now c x = x\<lparr>gb_collected := gb_collected x + c, gb_version := gb_version x + 1, gb_updatedAt := now\<rparr>"

text \<open>The tables after the two updates of a contribution, before the group is completed.\<close>

definition contributed :: "group_env \<Rightarrow> group_booking \<Rightarrow> group_member \<Rightarrow> int \<Rightarrow> group_world \<Rightarrow> group_world" where
  "contributed E g m c w = createGroupBookingActivityRecord (ge_now E) (gb_id g) (Some (gm_user m)) ''contribution_recorded''
     (w\<lparr>gw_members := update_where (\<lambda>x. gm_id x = gm_id m) (paid_row (ge_now E) (gm_paid m + c)) (gw_members w),
        gw_groups := update_where (\<lambda>x. gb_id x = gb_id g) (collected_row (ge_now E) c) (gw_groups w)\<rparr>)"

lemma notify_shop: "gw_shop (notify_members tn ty g ms w) = gw_shop w"
proof -
  have "gw_shop (foldl (\<lambda>w m. createInAppNotification tn (gm_user m) ty g w) w xs) = gw_shop w" for xs
    by (induction xs arbitrary: w) (simp_all add: createInAppNotification_def)
  then show ?thesis by (simp add: notify_members_def)
qed

lemma member_row_update:
  assumes "group_inv uuid w" "findGroupBookingMember g u w = Some m"
  shows "List.find (\<lambda>x. gm_id x = gm_id m \<and> gm_deletedAt x = None) (gw_members w) = Some m"
    "update_where (\<lambda>x. gm_id x = gm_id m \<and> gm_deletedAt x = None) f (gw_members w)
      = update_where (\<lambda>x. gm_id x = gm_id m) f (gw_members w)"
proof -
  note mm = member_row [OF assms]
  show "List.find (\<lambda>x. gm_id x = gm_id m \<and> gm_deletedAt x = None) (gw_members w) = Some m"
    by (rule find_unique) (use mm in \<open>auto simp: live_member_def\<close>)
  show "update_where (\<lambda>x. gm_id x = gm_id m \<and> gm_deletedAt x = None) f (gw_members w)
      = update_where (\<lambda>x. gm_id x = gm_id m) f (gw_members w)"
    by (rule update_where_row) (use assms(1) mm in \<open>auto simp: group_inv_def live_member_def\<close>)
qed

lemma group_row_update:
  assumes "group_inv uuid w" "findGroupBookingById tn i w = Some g"
  shows "List.find (\<lambda>x. gb_id x = gb_id g \<and> gb_deletedAt x = None) (gw_groups w) = Some g"
    "update_where (\<lambda>x. gb_id x = gb_id g \<and> gb_deletedAt x = None) f (gw_groups w)
      = update_where (\<lambda>x. gb_id x = gb_id g) f (gw_groups w)"
proof -
  note gg = findGroup_in [OF assms(2)]
  show "List.find (\<lambda>x. gb_id x = gb_id g \<and> gb_deletedAt x = None) (gw_groups w) = Some g"
    by (rule find_unique) (use gg group_by_id [OF assms(1)] in auto)
  show "update_where (\<lambda>x. gb_id x = gb_id g \<and> gb_deletedAt x = None) f (gw_groups w)
      = update_where (\<lambda>x. gb_id x = gb_id g) f (gw_groups w)"
    by (rule update_where_row) (use assms(1) gg in \<open>auto simp: group_inv_def\<close>)
qed

text \<open>A member who may pay: the group is active and in time, and the amount is within his share.\<close>

definition may_pay :: "(nat \<Rightarrow> id) \<Rightarrow> group_env \<Rightarrow> id \<Rightarrow> id \<Rightarrow> id \<Rightarrow> int \<Rightarrow> group_world \<Rightarrow> group_booking \<Rightarrow> group_member \<Rightarrow> bool" where
  "may_pay uuid E tn i u c w g m \<longleftrightarrow> group_inv uuid w
     \<and> findGroupBookingById tn i w = Some g \<and> gb_status g = G_active \<and> \<not> overdue (ge_now E) g
     \<and> findGroupBookingMember i u w = Some m \<and> gm_invite m = I_accepted
     \<and> 0 < c \<and> gm_paid m + c \<le> gm_contribution m \<and> fits (gb_collected g + c)"

lemma may_payD:
  assumes "may_pay uuid E tn i u c w g m"
  shows "group_inv uuid w" "findGroupBookingById tn i w = Some g" "gb_status g = G_active" "\<not> overdue (ge_now E) g"
    "findGroupBookingMember i u w = Some m" "gm_invite m = I_accepted"
    "0 < c" "gm_paid m + c \<le> gm_contribution m" "fits (gb_collected g + c)"
  using assms by (simp_all add: may_pay_def)

lemma pay_sizes:
  assumes pay: "may_pay uuid E tn i u c w g m"
  shows "fits c" "fits (gm_paid m + c)" "fits (gm_contribution m)" "fits (gm_paid m)" "0 \<le> gm_paid m" "gb_id g = i"
  using member_row(2) [OF may_payD(1,5) [OF pay]] may_payD(7-9) [OF pay] findGroup_in [OF may_payD(2) [OF pay]]
  by (auto simp: member_ok_def fits_def)

lemma pay_rounded:
  assumes pay: "may_pay uuid E tn i u c w g m"
  shows "to_fixed2 (js_add (parse_dec (gm_paid m)) (parse_dec c)) = gm_paid m + c"
    "\<not> js_add (parse_dec (gm_contribution m)) (fl (1 / 1000)) < js_add (parse_dec (gm_paid m)) (parse_dec c)"
    "to_fixed2 (parse_dec c) = c"
  using paid_within_share [OF pay_sizes(3,4,1,5) [OF pay] may_payD(7) [OF pay]] may_payD(8) [OF pay] pay_sizes(1) [OF pay]
  by (simp_all add: to_fixed2_parse_dec fits_def)

lemma pay_record_run:
  assumes pay: "may_pay uuid E tn i u c w g m"
  shows "updateGroupBookingMemberRecord (ge_now E) (gm_id m)
       (\<lambda>x. x\<lparr>gm_paid := to_fixed2 (js_add (parse_dec (gm_paid m)) (parse_dec c))\<rparr>) w
     = Inr (Some (paid_row (ge_now E) (gm_paid m + c) m),
         w\<lparr>gw_members := update_where (\<lambda>x. gm_id x = gm_id m) (paid_row (ge_now E) (gm_paid m + c)) (gw_members w)\<rparr>)"
proof -
  note inv = may_payD(1) [OF pay] and group_found = may_payD(2-4) [OF pay] and member_found = may_payD(5,6) [OF pay]
    and amount = may_payD(7-9) [OF pay]
  note pay_sizes' = pay_sizes [OF pay]
  note pay_rounded' = pay_rounded [OF pay]
  note row = member_row_update [OF inv member_found(1)]
  have fit: "fits (gm_contribution x)" if "x \<in> set (gw_members w)" for x
    using inv that by (simp add: group_inv_def member_ok_def)
  show ?thesis
    by (simp add: member_record_Inr Let_def pay_rounded'(1) row pay_sizes'(2) paid_row_def [abs_def] fit)
qed

lemma collect_run_now:
  assumes pay: "may_pay uuid E tn i u c w g m" and "gw_groups v = gw_groups w"
  shows "collect_amount E g (parse_dec c) None v
    = (Inr (collected_row (ge_now E) c g),
       v\<lparr>gw_groups := update_where (\<lambda>x. gb_id x = gb_id g) (collected_row (ge_now E) c) (gw_groups v)\<rparr>)"
proof -
  note inv = may_payD(1) [OF pay] and group_found = may_payD(2-4) [OF pay] and member_found = may_payD(5,6) [OF pay]
    and amount = may_payD(7-9) [OF pay]
  note pay_rounded' = pay_rounded [OF pay]
  note row = group_row_update [OF inv group_found(1)]
  show ?thesis
    using amount(3) unfolding collect_amount_def Let_def pay_rounded'(3)
    by (simp add: bnd_def peek_def check_def ret_def alter_def lift_def assms row optR_def
        collected_row_def [abs_def])
qed

lemma contribution_run:
  assumes pay: "may_pay uuid E tn i u c w g m"
  shows "recordContribution E tn i u (parse_dec c) None w = group_tx (\<lambda>w.
       case (if fully_paid (collected_row (ge_now E) c g) then complete_group E tn g else ret ()) (contributed E g m c w) of
         (Inl e, v) \<Rightarrow> (Inl e, v)
       | (Inr x, v) \<Rightarrow> (Inr (Some (paid_row (ge_now E) (gm_paid m + c) m)), v)) w"
proof -
  note inv = may_payD(1) [OF pay] and group_found = may_payD(2-4) [OF pay] and member_found = may_payD(5,6) [OF pay]
    and amount = may_payD(7-9) [OF pay]
  note pay_sizes' = pay_sizes [OF pay]
  note pay_rounded' = pay_rounded [OF pay]
  note pay_record_run' = pay_record_run [OF pay]
  note collect_run_now' = collect_run_now [OF pay]
  have active: "active_group E tn i why w = (Inr g, w)" for why
    using group_found by (simp add: active_run [OF inv])
  have user: "gm_user m = u" using findMember_in [OF member_found(1)] by simp
  show ?thesis
    unfolding recordContribution_def group_tx_def atomic_def Let_def
    by (simp add: bnd_def [of "active_group _ _ _ _"] active bnd_def peek_def lift_def optR_def pay_sizes'(6) member_found
        check_def pay_rounded'(2) ret_def attempt_def pay_record_run' collect_run_now' group_log_def alter_def contributed_def user
        split: prod.splits sum.splits)
qed

lemma contributed_inv:
  assumes pay: "may_pay uuid E tn i u c w g m"
  shows "group_inv uuid (contributed E g m c w)"
proof -
  note inv = may_payD(1) [OF pay] and group_found = may_payD(2-4) [OF pay] and member_found = may_payD(5,6) [OF pay]
    and amount = may_payD(7-9) [OF pay]
  note pay_sizes' = pay_sizes [OF pay]
  have "group_inv uuid (w\<lparr>gw_members := update_where (\<lambda>x. gm_id x = gm_id m) (paid_row (ge_now E) (gm_paid m + c)) (gw_members w),
        gw_groups := update_where (\<lambda>x. gb_id x = gb_id g) (collected_row (ge_now E) c) (gw_groups w)\<rparr>)"
    by (rule inv_contribution [OF inv, of g m c])
      (use member_row [OF inv member_found(1)] findGroup_in [OF group_found(1)] findMember_in [OF member_found(1)]
        member_found(2) amount pay_sizes' in \<open>simp_all add: paid_row_def collected_row_def\<close>)
  then show ?thesis by (simp add: contributed_def)
qed

lemma contributed_group:
  assumes pay: "may_pay uuid E tn i u c w g m"
  shows "findGroupBookingById tn i (contributed E g m c w) = Some (collected_row (ge_now E) c g)"
proof -
  note inv = may_payD(1) [OF pay] and group_found = may_payD(2-4) [OF pay] and member_found = may_payD(5,6) [OF pay]
    and amount = may_payD(7-9) [OF pay]
  have "List.find (\<lambda>g. gb_tenant g = tn \<and> gb_id g = i \<and> gb_deletedAt g = None)
      (update_where (\<lambda>x. gb_id x = gb_id g) (collected_row (ge_now E) c) (gw_groups w))
      = map_option (\<lambda>r. if gb_id r = gb_id g then collected_row (ge_now E) c r else r)
          (List.find (\<lambda>g. gb_tenant g = tn \<and> gb_id g = i \<and> gb_deletedAt g = None) (gw_groups w))"
    by (rule find_update_where) (simp add: collected_row_def)
  with group_found(1) show ?thesis
    by (simp add: findGroupBookingById_def contributed_def createGroupBookingActivityRecord_def)
qed

lemma paid_up:
  assumes pay: "may_pay uuid E tn i u c w g m"
  shows "fully_paid (collected_row (ge_now E) c g) \<longleftrightarrow> gb_total g \<le> gb_collected g + c"
proof -
  note inv = may_payD(1) [OF pay] and group_found = may_payD(2-4) [OF pay] and member_found = may_payD(5,6) [OF pay]
    and amount = may_payD(7-9) [OF pay]
  have "fits (gb_total g)" using inv findGroup_in [OF group_found(1)] by (auto simp: group_inv_def group_ok_def)
  then show ?thesis using fully_paid_iff [of "collected_row (ge_now E) c g"] amount(3) by (simp add: collected_row_def)
qed

text \<open>A contribution that leaves something to pay.\<close>

lemma part_payment:
  assumes pay: "may_pay uuid E tn i u c w g m" and part: "gb_collected g + c < gb_total g"
  shows "recordContribution E tn i u (parse_dec c) None w
    = (Inr (Some (paid_row (ge_now E) (gm_paid m + c) m)), contributed E g m c w)"
proof -
  have "\<not> fully_paid (collected_row (ge_now E) c g)" using paid_up [OF pay] part by simp
  then show ?thesis by (simp add: contribution_run [OF pay] group_tx_def atomic_def ret_def)
qed

text \<open>The contribution that reaches the total: the order is confirmed in the name of the creator.\<close>

lemma last_payment:
  assumes pay: "may_pay uuid E tn i u c w g m" and full: "gb_total g \<le> gb_collected g + c" and b: "find_order (gw_shop w) tn (gb_order g) = Some b"
    and conf: "updateBookingOrderByOrderNumber (ge_shop E) (ge_faults E) tn (Some owner) (gb_createdBy g) (bo_number b)
      ((no_update (bo_updatedAt b))\<lparr>ub_status := Some O_confirmed\<rparr>) (gw_shop w) = Inr (b', s)"
  shows "\<exists>r w' g'. recordContribution E tn i u (parse_dec c) None w = (Inr r, w') \<and> gw_shop w' = s
    \<and> findGroupBookingById tn i w' = Some g' \<and> gb_status g' = G_completed \<and> gb_collected g' = gb_collected g + c
    \<and> gw_members w' = gw_members (contributed E g m c w)"
proof -
  note inv = may_payD(1) [OF pay] and group_found = may_payD(2-4) [OF pay] and member_found = may_payD(5,6) [OF pay]
    and amount = may_payD(7-9) [OF pay]
  note pay_sizes' = pay_sizes [OF pay]
  note contribution_run' = contribution_run [OF pay]
  note contributed_group' = contributed_group [OF pay]
  note paid_up' = paid_up [OF pay]
  define v where "v = contributed E g m c w"
  define gs where "gs = update_where (\<lambda>x. gb_id x = gb_id g) (\<lambda>x. x\<lparr>gb_status := G_completed, gb_updatedAt := ge_now E\<rparr>) (gw_groups v)"
  have shop: "gw_shop v = gw_shop w" by (simp add: v_def contributed_def createGroupBookingActivityRecord_def)
  define v1 where "v1 = createGroupBookingActivityRecord (ge_now E) (gb_id g) None ''booking_completed'' (v\<lparr>gw_groups := gs, gw_shop := s\<rparr>)"
  define v2 where "v2 = notify_members tn ''group_booking_completed'' (gb_id g) (listGroupBookingMembers (gb_id g) v1) v1"
  have "complete_group E tn g v = (Inr (), v2)"
    unfolding complete_group_def v2_def v1_def gs_def
    by (simp add: bnd_def alter_def peek_def shop b change_order_def attempt_def conf group_log_def)
  then have run: "recordContribution E tn i u (parse_dec c) None w = (Inr (Some (paid_row (ge_now E) (gm_paid m + c) m)), v2)"
    using full by (simp add: contribution_run' paid_up' group_tx_def atomic_def v_def)
  have view: "group_view v2 = group_view (v\<lparr>gw_groups := gs\<rparr>)" "gw_shop v2 = s"
    by (simp_all add: v2_def v1_def shop_view notify_shop createGroupBookingActivityRecord_def) (simp add: group_view_def)
  have "List.find (\<lambda>g. gb_tenant g = tn \<and> gb_id g = i \<and> gb_deletedAt g = None) gs
      = map_option (\<lambda>r. if gb_id r = gb_id g then r\<lparr>gb_status := G_completed, gb_updatedAt := ge_now E\<rparr> else r)
          (List.find (\<lambda>g. gb_tenant g = tn \<and> gb_id g = i \<and> gb_deletedAt g = None) (gw_groups v))"
    unfolding gs_def by (rule find_update_where) simp
  with contributed_group' pay_sizes'(6) view(1) have "findGroupBookingById tn i v2
      = Some ((collected_row (ge_now E) c g)\<lparr>gb_status := G_completed, gb_updatedAt := ge_now E\<rparr>)"
    by (simp add: findGroupBookingById_def v_def group_view_def collected_row_def)
  with run view show ?thesis by (auto simp: group_view_def v_def collected_row_def)
qed

section \<open>Everybody pays\<close>

definition owing :: "id \<Rightarrow> group_world \<Rightarrow> group_member list" where
  "owing i w = filter (\<lambda>m. gm_group m = i \<and> gm_deletedAt m = None \<and> gm_paid m < gm_contribution m) (gw_members w)"

text \<open>A user pays what is left of his share.\<close>

definition pay_due :: "id \<Rightarrow> id \<Rightarrow> group_world \<Rightarrow> group_env \<times> id \<Rightarrow> group_world" where
  "pay_due tn i w x = (case findGroupBookingMember i (snd x) w of None \<Rightarrow> w
     | Some m \<Rightarrow> snd (recordContribution (fst x) tn i (snd x) (parse_dec (gm_contribution m - gm_paid m)) None w))"

text \<open>An active group whose shares add up to its total and whose debtors have accepted.\<close>

definition shared_out :: "id \<Rightarrow> id \<Rightarrow> group_world \<Rightarrow> group_booking \<Rightarrow> bool" where
  "shared_out tn i w g \<longleftrightarrow> findGroupBookingById tn i w = Some g \<and> gb_status g = G_active
     \<and> sum_where (\<lambda>m. gm_group m = i \<and> gm_deletedAt m = None) gm_contribution (gw_members w) = gb_total g
     \<and> list_all (\<lambda>m. 0 \<le> gm_contribution m \<and> (gm_paid m < gm_contribution m \<longrightarrow> gm_invite m = I_accepted))
         (filter (\<lambda>m. gm_group m = i \<and> gm_deletedAt m = None) (gw_members w))"

definition due :: "group_member \<Rightarrow> int" where "due m = gm_contribution m - gm_paid m"

lemma sum_where_diff: "sum_where p (\<lambda>x. f x - g x) xs = sum_where p f xs - sum_where p g xs"
  by (induction xs) auto

lemma sum_where_split:
  "distinct (map k xs) \<Longrightarrow> r \<in> set xs \<Longrightarrow> p r \<Longrightarrow> sum_where p v xs = v r + sum_where (\<lambda>x. p x \<and> k x \<noteq> k r) v xs"
proof (induction xs)
  case (Cons x xs)
  show ?case
  proof (cases "x = r")
    case True
    have "sum_where p v xs = sum_where (\<lambda>x. p x \<and> k x \<noteq> k r) v xs"
      by (rule sum_where_cong) (use Cons.prems(1) True in \<open>auto simp: image_iff\<close>)
    with True Cons.prems(3) show ?thesis by simp
  next
    case False
    with Cons show ?thesis by (auto simp: image_iff)
  qed
qed simp

lemma sum_where_nonneg_on: "(\<And>r. r \<in> set xs \<Longrightarrow> p r \<Longrightarrow> 0 \<le> v r) \<Longrightarrow> 0 \<le> sum_where p v xs"
  by (induction xs) auto

lemma sum_where_pos: "(\<And>r. r \<in> set xs \<Longrightarrow> p r \<Longrightarrow> 0 \<le> v r) \<Longrightarrow> r \<in> set xs \<Longrightarrow> p r \<Longrightarrow> 0 < v r \<Longrightarrow> 0 < sum_where p v xs"
proof (induction xs)
  case (Cons x xs)
  have "0 \<le> sum_where p v xs" by (rule sum_where_nonneg_on) (use Cons.prems(1) in simp)
  with Cons show ?case by (cases "x = r") (auto intro: add_nonneg_pos)
qed simp

lemma sum_where_zero: "(\<And>r. r \<in> set xs \<Longrightarrow> p r \<Longrightarrow> v r = 0) \<Longrightarrow> sum_where p v xs = (0 :: int)"
  by (induction xs) auto

text \<open>What is left to collect is what the members owe.\<close>

lemma left_to_collect:
  assumes inv: "group_inv uuid w" and out: "shared_out tn i w g"
  shows "gb_total g - gb_collected g = sum_where (\<lambda>m. gm_group m = i \<and> live_member m) due (gw_members w)"
    "\<And>m. m \<in> set (gw_members w) \<Longrightarrow> gm_group m = i \<Longrightarrow> live_member m \<Longrightarrow> 0 \<le> due m"
proof -
  have g: "findGroupBookingById tn i w = Some g" using out by (simp add: shared_out_def)
  have "gb_collected g = paid_sum i (gw_members w)" using inv findGroup_in [OF g] by (auto simp: group_inv_def group_ok_def)
  then show "gb_total g - gb_collected g = sum_where (\<lambda>m. gm_group m = i \<and> live_member m) due (gw_members w)"
    using out by (simp add: shared_out_def due_def [abs_def] sum_where_diff paid_sum_def live_member_def)
  show "0 \<le> due m" if "m \<in> set (gw_members w)" "gm_group m = i" "live_member m" for m
  proof -
    have "member_ok (gw_groups w) m" using inv that(1) by (simp add: group_inv_def)
    moreover have "0 \<le> gm_contribution m" using out that by (auto simp: shared_out_def list_all_iff live_member_def)
    ultimately show ?thesis by (auto simp: member_ok_def due_def)
  qed
qed

lemma find_member:
  assumes "group_inv uuid w" "m \<in> set (gw_members w)" "live_member m"
  shows "findGroupBookingMember (gm_group m) (gm_user m) w = Some m"
  unfolding findGroupBookingMember_def
proof (rule find_unique [OF assms(2)])
  fix y assume "y \<in> set (gw_members w)" "is_member (gm_group m) (gm_user m) y"
  then show "y = m" using member_by_user [OF assms(1,2) _ assms(3)] by (simp add: is_member_def live_member_def)
qed (use assms(3) in \<open>simp add: is_member_def live_member_def\<close>)

text \<open>A debtor pays: either others still owe, or the total is reached.\<close>

lemma debtor_pays:
  assumes inv: "group_inv uuid w" and out: "shared_out tn i w g" and time: "\<not> overdue (ge_now E) g"
    and u: "u \<in> gm_user ` set (owing i w)"
  obtains m where "may_pay uuid E tn i u (due m) w g m" "m \<in> set (owing i w)" "findGroupBookingMember i u w = Some m"
    "gm_user ` set (owing i w) \<noteq> {u} \<Longrightarrow> gb_collected g + due m < gb_total g"
    "gm_user ` set (owing i w) = {u} \<Longrightarrow> gb_collected g + due m = gb_total g"
proof -
  let ?P = "\<lambda>m. gm_group m = i \<and> live_member m"
  from u obtain m where m: "m \<in> set (owing i w)" "gm_user m = u" by auto
  then have mm: "m \<in> set (gw_members w)" "?P m" "0 < due m" by (auto simp: owing_def live_member_def due_def)
  have found: "findGroupBookingMember i u w = Some m"
    using find_member [OF inv mm(1)] mm(2) m(2) by simp
  have dist: "distinct (map gm_id (gw_members w))" using inv by (simp add: group_inv_def)
  define rest where "rest = sum_where (\<lambda>x. ?P x \<and> gm_id x \<noteq> gm_id m) due (gw_members w)"
  have sum: "gb_total g - gb_collected g = due m + rest"
    unfolding left_to_collect(1) [OF inv out] rest_def
    by (rule sum_where_split [of gm_id _ m ?P due, OF dist mm(1,2)])
  have others: "n \<in> set (owing i w) \<Longrightarrow> gm_user n \<noteq> u \<Longrightarrow> gm_id n \<noteq> gm_id m" for n
    using member_by_id [OF inv mm(1)] m(2) by (auto simp: owing_def)
  have more: "0 < rest" if "gm_user ` set (owing i w) \<noteq> {u}"
  proof -
    from that u obtain n where n: "n \<in> set (owing i w)" "gm_user n \<noteq> u" by blast
    show ?thesis
      unfolding rest_def
    proof (rule sum_where_pos [of _ _ _ n])
      show "0 \<le> due x" if "x \<in> set (gw_members w)" "?P x \<and> gm_id x \<noteq> gm_id m" for x
        using left_to_collect(2) [OF inv out that(1)] that(2) by simp
    qed (use n(1) others [OF n] in \<open>auto simp: owing_def due_def live_member_def\<close>)
  qed
  have none: "rest = 0" if "gm_user ` set (owing i w) = {u}"
    unfolding rest_def
  proof (rule sum_where_zero)
    fix n assume n: "n \<in> set (gw_members w)" "?P n \<and> gm_id n \<noteq> gm_id m"
    then have "n \<notin> set (owing i w)"
      using member_by_user [OF inv mm(1) n(1)] mm(2) m(2) that by (auto simp: owing_def live_member_def)
    with n left_to_collect(2) [OF inv out n(1)] show "due n = 0" by (auto simp: owing_def due_def live_member_def)
  qed
  have upper: "gb_collected g + due m \<le> gb_total g" using sum more none by (cases "gm_user ` set (owing i w) = {u}") auto
  have gg: "findGroupBookingById tn i w = Some g" "gb_status g = G_active" using out by (simp_all add: shared_out_def)
  have "group_ok (gw_members w) g" using inv findGroup_in [OF gg(1)] by (auto simp: group_inv_def)
  moreover have "0 \<le> paid_sum (gb_id g) (gw_members w)"
    unfolding paid_sum_def by (rule sum_where_nonneg) (use inv in \<open>auto simp: group_inv_def member_ok_def\<close>)
  ultimately have "fits (gb_collected g + due m)" using upper mm(3) by (auto simp: group_ok_def fits_def)
  moreover have "gm_invite m = I_accepted" using out mm by (auto simp: shared_out_def list_all_iff live_member_def due_def)
  ultimately have pay: "may_pay uuid E tn i u (due m) w g m"
    using inv gg time found mm(3) by (simp add: may_pay_def due_def)
  show ?thesis
  proof (rule that [OF pay m(1) found])
    assume "gm_user ` set (owing i w) \<noteq> {u}"
    from more [OF this] sum show "gb_collected g + due m < gb_total g" by simp
  next
    assume "gm_user ` set (owing i w) = {u}"
    from none [OF this] sum show "gb_collected g + due m = gb_total g" by simp
  qed
qed

text \<open>After a part payment the group is as before, with one debtor less.\<close>

lemma after_part_payment:
  assumes inv: "group_inv uuid w" and out: "shared_out tn i w g" and pay: "may_pay uuid E tn i u (due m) w g m"
  defines "w' \<equiv> contributed E g m (due m) w"
  shows "shared_out tn i w' (collected_row (ge_now E) (due m) g)" "gm_user ` set (owing i w') = gm_user ` set (owing i w) - {u}"
    "gw_shop w' = gw_shop w"
proof -
  define f where "f = paid_row (ge_now E) (gm_contribution m)"
  note found = may_payD(5) [OF pay]
  have rows: "gw_members w' = update_where (\<lambda>x. gm_id x = gm_id m) f (gw_members w)"
    by (simp add: w'_def contributed_def createGroupBookingActivityRecord_def f_def due_def)
  have f: "gm_group (f x) = gm_group x" "gm_user (f x) = gm_user x" "gm_deletedAt (f x) = gm_deletedAt x"
    "gm_contribution (f x) = gm_contribution x" "gm_invite (f x) = gm_invite x" "gm_paid (f x) = gm_contribution m" for x
    by (simp_all add: f_def paid_row_def)
  have one: "x = m" if "x \<in> set (gw_members w)" "gm_id x = gm_id m" for x by (rule member_row(4) [OF inv found that])
  have mm: "m \<in> set (gw_members w)" "gm_user m = u" "gm_group m = i" "gm_deletedAt m = None"
    using findMember_in [OF found] by (simp_all add: live_member_def)
  show "gw_shop w' = gw_shop w" by (simp add: w'_def contributed_def createGroupBookingActivityRecord_def)
  have sums: "sum_where (\<lambda>m. gm_group m = i \<and> gm_deletedAt m = None) gm_contribution (gw_members w')
      = sum_where (\<lambda>m. gm_group m = i \<and> gm_deletedAt m = None) gm_contribution (gw_members w)"
    unfolding rows by (rule sum_where_update_other) (simp_all add: f)
  have terms: "0 \<le> gm_contribution x \<and> (gm_paid x < gm_contribution x \<longrightarrow> gm_invite x = I_accepted)"
    if "x \<in> set (gw_members w')" "gm_group x = i" "gm_deletedAt x = None" for x
  proof -
    from that(1) obtain y where y: "y \<in> set (gw_members w)" "x = (if gm_id y = gm_id m then f y else y)"
      by (auto simp: rows set_update_where)
    then have "0 \<le> gm_contribution y \<and> (gm_paid y < gm_contribution y \<longrightarrow> gm_invite y = I_accepted)"
      using out that(2,3) by (auto simp: shared_out_def list_all_iff f split: if_splits)
    then show ?thesis using y one [OF y(1)] by (auto simp: f)
  qed
  show "shared_out tn i w' (collected_row (ge_now E) (due m) g)"
    using out sums terms contributed_group [OF pay]
    by (auto simp: shared_out_def list_all_iff w'_def [symmetric] collected_row_def)
  have single: "gm_user x \<noteq> u" if "x \<in> set (owing i w)" "gm_id x \<noteq> gm_id m" for x
    using member_row(5) [OF inv found, of x] that mm by (auto simp: owing_def is_member_def)
  show "gm_user ` set (owing i w') = gm_user ` set (owing i w) - {u}"
  proof
    show "gm_user ` set (owing i w') \<subseteq> gm_user ` set (owing i w) - {u}"
    proof
      fix v assume "v \<in> gm_user ` set (owing i w')"
      then obtain x where x: "x \<in> set (gw_members w')" "v = gm_user x" "gm_group x = i" "gm_deletedAt x = None"
        "gm_paid x < gm_contribution x" by (auto simp: owing_def)
      then obtain y where y: "y \<in> set (gw_members w)" "x = (if gm_id y = gm_id m then f y else y)"
        by (auto simp: rows set_update_where)
      with one [OF y(1)] x(5) have "gm_id y \<noteq> gm_id m" by (auto simp: f)
      with y have "x \<in> set (gw_members w)" "gm_id x \<noteq> gm_id m" by simp_all
      with x single [of x] show "v \<in> gm_user ` set (owing i w) - {u}" by (auto simp: owing_def)
    qed
    show "gm_user ` set (owing i w) - {u} \<subseteq> gm_user ` set (owing i w')"
    proof
      fix v assume "v \<in> gm_user ` set (owing i w) - {u}"
      then obtain x where x: "x \<in> set (owing i w)" "v = gm_user x" "gm_user x \<noteq> u" by auto
      then have "gm_id x \<noteq> gm_id m" using one [of x] mm(2) by (auto simp: owing_def)
      with x have "x \<in> set (owing i w')" by (auto simp: owing_def rows set_update_where)
      then show "v \<in> gm_user ` set (owing i w')" using x(2) by blast
    qed
  qed
qed

lemma all_pay:
  assumes "group_inv uuid w" and "shared_out tn i w g"
    and "distinct (map snd xs)" "set (map snd xs) = gm_user ` set (owing i w)" "xs \<noteq> []"
    and "\<forall>x \<in> set xs. \<not> overdue (ge_now (fst x)) g"
    and "find_order (gw_shop w) tn (gb_order g) = Some b"
    and "updateBookingOrderByOrderNumber (ge_shop (fst (last xs))) (ge_faults (fst (last xs))) tn (Some owner) (gb_createdBy g)
      (bo_number b) ((no_update (bo_updatedAt b))\<lparr>ub_status := Some O_confirmed\<rparr>) (gw_shop w) = Inr (b', s)"
  shows "\<exists>g'. findGroupBookingById tn i (foldl (pay_due tn i) w xs) = Some g' \<and> gb_status g' = G_completed
    \<and> gb_collected g' = gb_total g \<and> gw_shop (foldl (pay_due tn i) w xs) = s"
  using assms
proof (induction xs arbitrary: w g)
  case (Cons x xs)
  obtain E u where x: "x = (E, u)" by force
  from Cons.prems have time: "\<not> overdue (ge_now E) g" and u: "u \<in> gm_user ` set (owing i w)" by (auto simp: x)
  obtain m where pay: "may_pay uuid E tn i u (due m) w g m" and m: "findGroupBookingMember i u w = Some m"
    and more: "gm_user ` set (owing i w) \<noteq> {u} \<Longrightarrow> gb_collected g + due m < gb_total g"
    and full: "gm_user ` set (owing i w) = {u} \<Longrightarrow> gb_collected g + due m = gb_total g"
    using debtor_pays [OF Cons.prems(1,2) time u] by metis
  have step: "pay_due tn i w x = snd (recordContribution E tn i u (parse_dec (due m)) None w)"
    by (simp add: pay_due_def x m due_def)
  show ?case
  proof (cases "xs = []")
    case True
    with Cons.prems(4) have "gm_user ` set (owing i w) = {u}" by (simp add: x)
    with full have "gb_collected g + due m = gb_total g" by simp
    with last_payment [OF pay _ Cons.prems(7), of b' s] Cons.prems(8) True show ?thesis
      by (auto simp: step [unfolded x] x)
  next
    case False
    then obtain y where "y \<in> set xs" by (cases xs) auto
    with Cons.prems(3,4) have "snd y \<in> gm_user ` set (owing i w)" "snd y \<noteq> u" by (auto simp: x)
    then have "gm_user ` set (owing i w) \<noteq> {u}" by blast
    from part_payment [OF pay more [OF this]] have w': "pay_due tn i w x = contributed E g m (due m) w" by (simp add: step)
    note after = after_part_payment [OF Cons.prems(1,2) pay]
    let ?g = "collected_row (ge_now E) (due m) g"
    have "\<exists>g'. findGroupBookingById tn i (foldl (pay_due tn i) (contributed E g m (due m) w) xs) = Some g'
        \<and> gb_status g' = G_completed \<and> gb_collected g' = gb_total ?g
        \<and> gw_shop (foldl (pay_due tn i) (contributed E g m (due m) w) xs) = s"
    proof (rule Cons.IH [OF contributed_inv [OF pay] after(1)])
      show "set (map snd xs) = gm_user ` set (owing i (contributed E g m (due m) w))"
        unfolding after(2) using Cons.prems(3,4) by (auto simp: x)
      have "overdue t ?g = overdue t g" for t by (simp add: collected_row_def overdue_def)
      then show "\<forall>x \<in> set xs. \<not> overdue (ge_now (fst x)) ?g" using Cons.prems(6) by simp
    qed (use Cons.prems False after(3) in \<open>simp_all add: collected_row_def\<close>)
    then show ?thesis by (simp add: w' collected_row_def)
  qed
qed simp

end
