(* ===== verification/OrderFlow.thy ===== *)
theory OrderFlow
  imports BookingProps
begin

text \<open>
  An existing order through changes of status and deletion: what happens to its reservations and
  tickets, which changes attendance rules out, and the assignment of attendees within the quantities.
\<close>

section \<open>Orders as a table\<close>

text \<open>The unique index on tenant and order number, and the primary key.\<close>

definition order_keys :: "booking_db \<Rightarrow> bool" where
  "order_keys d \<longleftrightarrow> distinct (map bo_id (orders d)) \<and> distinct (map (\<lambda>b. (bo_tenant b, bo_number b)) (orders d))"

lemma forR_stuck:
  assumes "x \<in> set xs" and "\<And>s. \<exists>e. f x s = Inl e"
  shows "\<exists>e. forR f xs s = Inl e"
  using assms(1)
proof (induction xs arbitrary: s)
  case (Cons y ys)
  show ?case
  proof (cases "x = y")
    case True
    then show ?thesis using assms(2) [of s] by auto
  next
    case False
    then show ?thesis using Cons by (cases "f y s") auto
  qed
qed simp

lemma find_order_number_row:
  assumes "find_order_number d tenant number = Some b"
  shows "b \<in> set (orders d)" "bo_tenant b = tenant" "bo_number b = number" "bo_deletedAt b = None"
  using find_SomeD [OF assms [unfolded find_order_number_def]] by auto

lemma order_of_number:
  assumes "find_order_number d tenant number = Some b" and "order_keys d"
    and "x \<in> set (orders d)" and "bo_tenant x = tenant" and "bo_number x = number"
  shows "x = b"
proof -
  have "inj_on (\<lambda>b. (bo_tenant b, bo_number b)) (set (orders d))"
    using assms(2) by (simp add: order_keys_def distinct_map)
  from inj_onD [OF this _ assms(3) find_order_number_row(1) [OF assms(1)]]
  show ?thesis using assms(4,5) find_order_number_row(2,3) [OF assms(1)] by simp
qed

text \<open>A guarded update of an order by its number rewrites that order, if it is as the caller knew it.\<close>

lemma update_order_row:
  assumes "update_order now tenant number lastKnown f d = (Some r, d')"
    and "find_order_number d tenant number = Some cur" and "order_keys d"
  shows "bo_updatedAt cur = lastKnown" "r = (f cur)\<lparr>bo_updatedAt := now\<rparr>"
    "d' = d\<lparr>orders := update_where (\<lambda>x. bo_id x = bo_id cur) (\<lambda>x. (f x)\<lparr>bo_updatedAt := now\<rparr>) (orders d)\<rparr>"
proof -
  let ?hit = "\<lambda>b. bo_tenant b = tenant \<and> bo_number b = number \<and> optimisticLock (bo_updatedAt b) lastKnown
      \<and> bo_deletedAt b = None"
  from assms(1) obtain x where x: "List.find ?hit (orders d) = Some x"
    and r: "r = (f x)\<lparr>bo_updatedAt := now\<rparr>"
    and d': "d' = d\<lparr>orders := update_where ?hit (\<lambda>b. (f b)\<lparr>bo_updatedAt := now\<rparr>) (orders d)\<rparr>"
    by (auto simp: update_order_def Let_def)
  from find_SomeD [OF x] order_of_number [OF assms(2,3)] have "x = cur" by blast
  with r find_SomeD [OF x] show known: "bo_updatedAt cur = lastKnown" "r = (f cur)\<lparr>bo_updatedAt := now\<rparr>"
    by (simp_all add: optimisticLock_def)
  have "?hit b \<longleftrightarrow> bo_id b = bo_id cur" if "b \<in> set (orders d)" for b
  proof
    assume "bo_id b = bo_id cur"
    then have "b = cur"
      using assms(3) that find_order_number_row(1) [OF assms(2)] by (auto simp: order_keys_def distinct_map dest: inj_onD)
    then show "?hit b" using find_SomeD [OF x] \<open>x = cur\<close> by simp
  qed (use order_of_number [OF assms(2,3) that] in auto)
  then have "update_where ?hit (\<lambda>b. (f b)\<lparr>bo_updatedAt := now\<rparr>) (orders d)
      = update_where (\<lambda>x. bo_id x = bo_id cur) (\<lambda>x. (f x)\<lparr>bo_updatedAt := now\<rparr>) (orders d)"
    by (auto simp: update_where_def)
  with d' show "d' = d\<lparr>orders := update_where (\<lambda>x. bo_id x = bo_id cur) (\<lambda>x. (f x)\<lparr>bo_updatedAt := now\<rparr>) (orders d)\<rparr>"
    by simp
qed

lemma set_order_id [simp]: "bo_id (set_order now act nxt i sm cur x) = bo_id x"
  "bo_status (set_order now act nxt i sm cur x) = nxt" "bo_tenant (set_order now act nxt i sm cur x) = bo_tenant x"
  by (simp_all add: set_order_def)

text \<open>The steps of a change of status, one after the other.\<close>

lemma update_order_parts:
  assumes "update_order_tx E tenant role act number i cur nxt sm d = Inr (b, d')"
    and "find_order_number d tenant number = Some cur" and "order_keys d"
  obtains d1 d2 d3 where
    "d1 = d\<lparr>orders := update_where (\<lambda>x. bo_id x = bo_id cur)
       (\<lambda>x. (set_order (be_now E) act nxt i sm cur x)\<lparr>bo_updatedAt := be_now E\<rparr>) (orders d)\<rparr>"
    "if shouldReleaseInventoryOnTransition (bo_status cur) nxt
     then \<exists>rs. releaseReservationsForBookingOrder E
       (order_move_of tenant (bo_id cur) act ''booking-order-status-transition'') d1 = Inr (rs, d2) else d2 = d1"
    "if nxt = O_confirmed \<and> bo_status cur \<noteq> O_confirmed
     then confirm_order E tenant role act (bo_id cur) ''booking-order-status-transition'' d2 = Inr d3 else d3 = d2"
    "if nxt \<noteq> O_confirmed then applyIssuedTicketStatusForBookingOrder E tenant (bo_id cur) nxt d3 = Inr d' else d' = d3"
    "find_order d' tenant (bo_id cur) = Some b"
proof -
  obtain u d1 where upd: "update_order (be_now E) tenant number (ub_lastKnown i) (set_order (be_now E) act nxt i sm cur) d
      = (u, d1)" by (metis prod.exhaust)
  with assms(1) obtain r where u: "u = Some r" by (auto simp: update_order_tx_def res_simps)
  note row = update_order_row [OF upd [unfolded u] assms(2,3)]
  have id: "bo_id r = bo_id cur" by (simp add: row(2))
  from assms(1) have run: "(bindR (if shouldReleaseInventoryOnTransition (bo_status cur) nxt
                then bindR (releaseReservationsForBookingOrder E
                       (order_move_of tenant (bo_id cur) act ''booking-order-status-transition'') d1) (\<lambda>(rs, d'). Inr d')
                else Inr d1) (\<lambda>d2.
         bindR (if nxt = O_confirmed \<and> bo_status cur \<noteq> O_confirmed
                then confirm_order E tenant role act (bo_id cur) ''booking-order-status-transition'' d2 else Inr d2) (\<lambda>d3.
         bindR (if nxt \<noteq> O_confirmed then applyIssuedTicketStatusForBookingOrder E tenant (bo_id cur) nxt d3 else Inr d3) (\<lambda>d4.
         bindR (optR (find_order d4 tenant (bo_id cur)) order_not_found) (\<lambda>loaded. Inr (loaded, d4)))))) = Inr (b, d')"
    unfolding update_order_tx_def upd Let_def case_prod_conv u assertOptimisticUpdate_Some bindR.simps id .
  then obtain d2 d3 d4 where
    two: "(if shouldReleaseInventoryOnTransition (bo_status cur) nxt
       then bindR (releaseReservationsForBookingOrder E
              (order_move_of tenant (bo_id cur) act ''booking-order-status-transition'') d1) (\<lambda>(rs, d'). Inr d')
       else Inr d1) = Inr d2"
    and three: "(if nxt = O_confirmed \<and> bo_status cur \<noteq> O_confirmed
       then confirm_order E tenant role act (bo_id cur) ''booking-order-status-transition'' d2 else Inr d2) = Inr d3"
    and four: "(if nxt \<noteq> O_confirmed then applyIssuedTicketStatusForBookingOrder E tenant (bo_id cur) nxt d3 else Inr d3) = Inr d4"
    and loaded: "find_order d4 tenant (bo_id cur) = Some b" "d4 = d'"
    unfolding bindR_Inr optR_Inr sum.inject prod.inject by (elim exE conjE) (rule that, assumption+, simp_all)
  show thesis
    by (rule that [OF row(3), of d2 d3])
      (use two three four loaded in \<open>auto simp: bindR_Inr case_prod_Inr split: if_splits\<close>)
qed

lemma update_goes_through:
  assumes "updateBookingOrderByOrderNumber E faults tenant role act number i d = Inr (b, d')"
    and "find_order_number d tenant (normalizeOrderNumber (normalizeOrderNumber number)) = Some cur"
  shows "\<not> would_change i (coalesce (ub_status i) (bo_status cur)) cur \<and> (b, d') = (cur, d)
    \<or> update_order_tx E tenant role act (normalizeOrderNumber number) i cur
      (coalesce (ub_status i) (bo_status cur)) (order_sums_of d tenant cur (ub_discount i)) d = Inr (b, d')"
proof -
  from assms obtain cur' where "optR (find_order_number d tenant (normalizeOrderNumber (normalizeOrderNumber number)))
      order_not_found = Inr cur'"
    and run: "(if \<not> would_change i (coalesce (ub_status i) (bo_status cur')) cur' then Inr (cur', d)
       else in_transaction faults (update_order_tx E tenant role act (normalizeOrderNumber number) i cur'
         (coalesce (ub_status i) (bo_status cur')) (order_sums_of d tenant cur' (ub_discount i)) d)) = Inr (b, d')"
    unfolding updateBookingOrderByOrderNumber_def Let_def bindR_Inr loadBookingOrderOrThrow_def
    by (elim exE conjE) (rule that, assumption+)
  with assms(2) have "cur' = cur" by simp
  with run show ?thesis by (auto split: if_splits dest!: in_transaction_Inr)
qed

text \<open>An update that passes its checks is what its transaction does.\<close>

lemma update_runs:
  assumes "find_order_number d tenant (normalizeOrderNumber (normalizeOrderNumber number)) = Some cur"
    and "bo_purchaser cur = act \<or> canUpdateBookings role"
    and "ub_status i = Some nxt" "nxt \<noteq> bo_status cur" "validateTransition (bo_status cur) nxt = Inr ()"
    and "0 \<le> sm_total (order_sums_of d tenant cur (ub_discount i))" "\<not> isTerminalStatus (bo_status cur)"
    and "update_order_tx E tenant role act (normalizeOrderNumber number) i cur nxt (order_sums_of d tenant cur (ub_discount i)) d = Inr x"
  shows "updateBookingOrderByOrderNumber E (\<lambda>_. None) tenant role act number i d = Inr x"
  using assms
  by (simp add: updateBookingOrderByOrderNumber_def ensureBookingReferencesBelongToTenant_def Let_def
      loadBookingOrderOrThrow_def purchaser_or_def coalesce_def would_change_def)

section \<open>Attendance\<close>

lemma apply_stuck:
  assumes "t \<in> set (tickets_of_order d tenant order)" and "it_status t = T_checked_in"
    and "st \<notin> {O_draft, O_pending}"
  shows "\<exists>e. applyIssuedTicketStatusForBookingOrder E tenant order st d = Inl e"
proof -
  obtain nxt where nxt: "resolveTicketStatusFromBookingStatus st = Some nxt" "nxt \<noteq> T_checked_in"
    using assms(3) by (cases st) auto
  have "\<exists>e. carry_status E tenant nxt t s = Inl e" for s
    using carry_status_checked_in [OF assms(2) nxt(2)] by blast
  with assms(1) have "\<exists>e. forR (carry_status E tenant nxt) (tickets_of_order d tenant order) d = Inl e"
    by (rule forR_stuck [where f = "carry_status E tenant nxt"])
  then show ?thesis by (simp add: applyIssuedTicketStatusForBookingOrder_def nxt(1))
qed

lemma release_frame:
  "releaseReservationsForBookingOrder E i d = Inr (rs, d') \<Longrightarrow> outside_stock d' = outside_stock d"
  unfolding releaseReservationsForBookingOrder_def by (rule move_all_frame)

lemma tickets_of_order_cong: "issued_tickets d' = issued_tickets d \<Longrightarrow> tickets_of_order d' tenant order = tickets_of_order d tenant order"
  by (simp add: tickets_of_order_def)

lemma attended_update_fails:
  assumes "find_order_number d tenant number = Some cur" and "order_keys d"
    and "t \<in> set (tickets_of_order d tenant (bo_id cur))" and "it_status t = T_checked_in"
    and "nxt \<notin> {O_draft, O_pending, O_confirmed}"
  shows "update_order_tx E tenant role act number i cur nxt sm d \<noteq> Inr (b, d')"
proof
  assume "update_order_tx E tenant role act number i cur nxt sm d = Inr (b, d')"
  from this assms(1,2) obtain d1 d2 d3 where
    d1: "d1 = d\<lparr>orders := update_where (\<lambda>x. bo_id x = bo_id cur)
       (\<lambda>x. (set_order (be_now E) act nxt i sm cur x)\<lparr>bo_updatedAt := be_now E\<rparr>) (orders d)\<rparr>"
    and two: "if shouldReleaseInventoryOnTransition (bo_status cur) nxt
     then \<exists>rs. releaseReservationsForBookingOrder E
       (order_move_of tenant (bo_id cur) act ''booking-order-status-transition'') d1 = Inr (rs, d2) else d2 = d1"
    and three: "if nxt = O_confirmed \<and> bo_status cur \<noteq> O_confirmed
     then confirm_order E tenant role act (bo_id cur) ''booking-order-status-transition'' d2 = Inr d3 else d3 = d2"
    and four: "if nxt \<noteq> O_confirmed then applyIssuedTicketStatusForBookingOrder E tenant (bo_id cur) nxt d3 = Inr d' else d' = d3"
    by (rule update_order_parts)
  have "outside_stock d2 = outside_stock d1" using two release_frame by (metis (full_types))
  then have "issued_tickets d3 = issued_tickets d"
    using three assms(5) by (simp add: outside_stock_def d1)
  with assms(3) have "t \<in> set (tickets_of_order d3 tenant (bo_id cur))" by (simp add: tickets_of_order_def)
  then have "\<exists>e. applyIssuedTicketStatusForBookingOrder E tenant (bo_id cur) nxt d3 = Inl e"
    by (rule apply_stuck) (use assms(4,5) in auto)
  with four assms(5) show False by auto
qed

section \<open>Properties\<close>

text \<open>
  C25. Attendance freezes an order: once one of its tickets has been used, no change that would leave
  it cancelled, expired, refunded, partly refunded, paid or completed is accepted (a change of its notes
  alone included, when it is in one of these statuses already), and it cannot be deleted.
\<close>

theorem attended_order_is_frozen:
  assumes "find_order_number d tenant (normalizeOrderNumber number) = Some cur" and "order_keys d"
    and "t \<in> set (tickets_of_order d tenant (bo_id cur))" and "it_status t = T_checked_in"
    and "coalesce (ub_status i) (bo_status cur) \<notin> {O_draft, O_pending, O_confirmed}"
  shows "(\<nexists>b d'. updateBookingOrderByOrderNumber E faults tenant role act number i d = Inr (b, d')
      \<and> (b, d') \<noteq> (cur, d))
    \<and> (\<exists>e. deleteBookingOrderByOrderNumber E faults tenant role act number known d = Inl e)"
proof
  show "\<nexists>b d'. updateBookingOrderByOrderNumber E faults tenant role act number i d = Inr (b, d') \<and> (b, d') \<noteq> (cur, d)"
    using update_goes_through [of E faults tenant role act number i d _ _ cur] assms(1)
      attended_update_fails [OF assms] by fastforce
next
  have "delete_order_tx E tenant act (normalizeOrderNumber number) known cur d \<noteq> Inr x" for x
  proof
    assume "delete_order_tx E tenant act (normalizeOrderNumber number) known cur d = Inr x"
    then obtain d1 d2 where
      one: "(if shouldReleaseInventoryOnTransition (bo_status cur) O_cancelled
            then bindR (releaseReservationsForBookingOrder E (order_move_of tenant (bo_id cur) act ''booking-order-delete'') d)
                   (\<lambda>(rs, d'). Inr d')
            else Inr d) = Inr d1"
      and two: "applyIssuedTicketStatusForBookingOrder E tenant (bo_id cur) O_cancelled d1 = Inr d2"
      unfolding delete_order_tx_def bindR_Inr by (elim exE conjE) (rule that, assumption+)
    from one have "outside_stock d1 = outside_stock d"
      by (auto simp: bindR_Inr case_prod_Inr split: if_splits dest: release_frame)
    then have "t \<in> set (tickets_of_order d1 tenant (bo_id cur))"
      using assms(3) by (simp add: tickets_of_order_def outside_stock_def)
    from apply_stuck [OF this assms(4), of O_cancelled E] two show False by auto
  qed
  then have stuck: "\<exists>e. delete_order_tx E tenant act (normalizeOrderNumber number) known cur d = Inl e"
    by (metis sum.exhaust)
  show "\<exists>e. deleteBookingOrderByOrderNumber E faults tenant role act number known d = Inl e"
  proof (rule ccontr)
    assume "\<nexists>e. deleteBookingOrderByOrderNumber E faults tenant role act number known d = Inl e"
    then obtain x where "deleteBookingOrderByOrderNumber E faults tenant role act number known d = Inr x"
      by (metis sum.exhaust)
    then have "delete_order_tx E tenant act (normalizeOrderNumber number) known cur d = Inr x"
      using assms(1)
      by (auto simp: deleteBookingOrderByOrderNumber_def Let_def loadBookingOrderOrThrow_def res_simps
          dest!: in_transaction_Inr)
    with stuck show False by auto
  qed
qed

definition confirm_now :: "time_ms \<Rightarrow> update_input" where
  "confirm_now known = \<lparr>ub_status = Some O_confirmed, ub_source = None, ub_discount = None, ub_expiresAt = None,
     ub_notes = None, ub_metadata = None, ub_reason = None, ub_lastKnown = known\<rparr>"

definition attended_ticket :: issued_ticket where
  "attended_ticket = (hd (issued_tickets demo_issued))\<lparr>it_order := ''O1'', it_status := T_checked_in\<rparr>"

definition attended_order :: booking_db where
  "attended_order = demo_shop\<lparr>orders := [demo_order ''O1'' ''e1''], issued_tickets := [attended_ticket]\<rparr>"

theorem attended_order_is_frozen_witness:
  "(\<nexists>b d'. updateBookingOrderByOrderNumber (demo_booking_env 9) (\<lambda>_. None) ''t1'' (Some owner) ''u1'' ''o1''
       ((confirm_now 0)\<lparr>ub_status := Some O_cancelled\<rparr>) attended_order = Inr (b, d')
      \<and> (b, d') \<noteq> (demo_order ''O1'' ''e1'', attended_order))
    \<and> (\<exists>e. deleteBookingOrderByOrderNumber (demo_booking_env 9) (\<lambda>_. None) ''t1'' (Some owner) ''u1'' ''o1'' 0
        attended_order = Inl e)"
proof (rule attended_order_is_frozen)
  have n: "normalizeOrderNumber ''o1'' = ''O1''" by code_simp
  show "find_order_number attended_order ''t1'' (normalizeOrderNumber ''o1'') = Some (demo_order ''O1'' ''e1'')"
    unfolding n by (simp add: find_order_number_def attended_order_def demo_order_def)
  show "order_keys attended_order" by (simp add: order_keys_def attended_order_def)
  have "it_tenant attended_ticket = ''t1'' \<and> it_deletedAt attended_ticket = None" by code_simp
  then show "attended_ticket \<in> set (tickets_of_order attended_order ''t1'' (bo_id (demo_order ''O1'' ''e1'')))"
    by (simp add: tickets_of_order_def attended_order_def attended_ticket_def demo_order_def)
qed (simp_all add: attended_ticket_def confirm_now_def coalesce_def)

lemma update_where_key_split:
  "(\<And>x. x \<in> set rows \<Longrightarrow> q (f x) = False) \<Longrightarrow> list_ex q (update_where p f rows) = list_ex (\<lambda>x. q x \<and> \<not> p x) rows"
  by (induction rows) auto

text \<open>
  C23. Closing an order frees its stock: when an open order is cancelled, expired or refunded, what is
  held afterwards is what the other orders hold, and its lines no longer count as sold.
\<close>

theorem closing_frees_stock:
  assumes "updateBookingOrderByOrderNumber E faults tenant role act number i d = Inr (b, d')"
    and "find_order_number d tenant (normalizeOrderNumber number) = Some cur" and "order_keys d"
    and "distinct (map rv_id (reservations d))"
    and "\<not> isTerminalStatus (bo_status cur)" and "ub_status i = Some nxt" and "isTerminalStatus nxt"
  shows "held E d' tenant tt
      = sum_where (\<lambda>x. live_hold (be_now E) tenant tt x \<and> rv_order x \<noteq> Some (bo_id cur)) rv_quantity (reservations d)
    \<and> sold d' tenant tt = sum_where (\<lambda>l. sold_item d tenant tt l \<and> oi_order l \<noteq> bo_id cur) oi_quantity (order_items d)"
proof -
  have "nxt \<noteq> bo_status cur" "nxt \<noteq> O_confirmed" using assms(5,7) by (auto simp: isTerminalStatus_def)
  have "update_order_tx E tenant role act (normalizeOrderNumber number) i cur nxt
      (order_sums_of d tenant cur (ub_discount i)) d = Inr (b, d')"
    using update_goes_through [OF assms(1)] assms(2,6) \<open>nxt \<noteq> bo_status cur\<close> by (simp add: coalesce_def would_change_def)
  from this assms(2,3) obtain d1 d2 d3 where
    d1: "d1 = d\<lparr>orders := update_where (\<lambda>x. bo_id x = bo_id cur)
       (\<lambda>x. (set_order (be_now E) act nxt i (order_sums_of d tenant cur (ub_discount i)) cur x)\<lparr>bo_updatedAt := be_now E\<rparr>) (orders d)\<rparr>"
    and two: "if shouldReleaseInventoryOnTransition (bo_status cur) nxt
     then \<exists>rs. releaseReservationsForBookingOrder E
       (order_move_of tenant (bo_id cur) act ''booking-order-status-transition'') d1 = Inr (rs, d2) else d2 = d1"
    and three: "if nxt = O_confirmed \<and> bo_status cur \<noteq> O_confirmed
     then confirm_order E tenant role act (bo_id cur) ''booking-order-status-transition'' d2 = Inr d3 else d3 = d2"
    and four: "if nxt \<noteq> O_confirmed then applyIssuedTicketStatusForBookingOrder E tenant (bo_id cur) nxt d3 = Inr d' else d' = d3"
    by (rule update_order_parts)
  from two assms(5,7) obtain rs where rel: "releaseReservationsForBookingOrder E
       (order_move_of tenant (bo_id cur) act ''booking-order-status-transition'') d1 = Inr (rs, d2)"
    by (auto simp: shouldReleaseInventoryOnTransition_def)
  have drop: "holds_dropped tenant (bo_id cur) d1 d2"
    using release_rows [OF rel] assms(4) by (simp add: d1 order_move_of_def)
  have "outside_tickets d' = outside_tickets d2"
    using three four apply_frame \<open>nxt \<noteq> O_confirmed\<close> by auto
  then have tables: "reservations d' = reservations d2" "orders d' = orders d1" "order_items d' = order_items d"
    using release_frame [OF rel] by (simp_all add: outside_tickets_def outside_stock_def d1)
  have "held E d' tenant tt = held E d2 tenant tt" by (simp add: held_def tables)
  then have held: "held E d' tenant tt
      = sum_where (\<lambda>x. live_hold (be_now E) tenant tt x \<and> rv_order x \<noteq> Some (bo_id cur)) rv_quantity (reservations d)"
    using held_dropped [OF drop] by (simp add: d1)
  have "sold_item d' tenant tt l \<longleftrightarrow> sold_item d tenant tt l \<and> oi_order l \<noteq> bo_id cur" for l
  proof -
    have "list_ex (\<lambda>b. bo_id b = oi_order l \<and> bo_tenant b = tenant \<and> bo_deletedAt b = None \<and> counts_as_sold (bo_status b)) (orders d')
      = list_ex (\<lambda>b. (bo_id b = oi_order l \<and> bo_tenant b = tenant \<and> bo_deletedAt b = None \<and> counts_as_sold (bo_status b))
          \<and> bo_id b \<noteq> bo_id cur) (orders d)"
    proof -
      have "\<not> counts_as_sold nxt" using assms(7) by (auto simp: counts_as_sold_def isTerminalStatus_def)
      moreover have "orders d' = update_where (\<lambda>x. bo_id x = bo_id cur)
        (\<lambda>x. (set_order (be_now E) act nxt i (order_sums_of d tenant cur (ub_discount i)) cur x)\<lparr>bo_updatedAt := be_now E\<rparr>) (orders d)"
        by (simp add: tables d1)
      ultimately show ?thesis by (simp add: update_where_key_split)
    qed
    then show ?thesis unfolding sold_item_def by (auto simp: list_ex_iff)
  qed
  then have "sold d' tenant tt = sum_where (\<lambda>l. sold_item d tenant tt l \<and> oi_order l \<noteq> bo_id cur) oi_quantity (order_items d)"
    unfolding sold_def tables by (intro sum_where_cong) auto
  with held show ?thesis by blast
qed

definition open_order :: booking_db where
  "open_order = demo_shop\<lparr>orders := [(demo_order ''O1'' ''e1'')\<lparr>bo_status := O_pending\<rparr>],
     reservations := [(new_reservation (demo_booking_env 0) demo_stock demo_reserve (demo_item 3))\<lparr>rv_order := Some ''O1''\<rparr>]\<rparr>"

definition status_change :: "order_status \<Rightarrow> update_input" where
  "status_change st = (confirm_now 0)\<lparr>ub_status := Some st\<rparr>"

lemma open_order_runs:
  assumes "update_order_tx (demo_booking_env 9) ''t1'' (Some owner) ''u1'' ''O1'' (status_change st)
      ((demo_order ''O1'' ''e1'')\<lparr>bo_status := O_pending\<rparr>) st
      (order_sums_of open_order ''t1'' ((demo_order ''O1'' ''e1'')\<lparr>bo_status := O_pending\<rparr>) None) open_order = Inr x"
    and "st = O_cancelled \<or> st = O_paid"
  shows "updateBookingOrderByOrderNumber (demo_booking_env 9) (\<lambda>_. None) ''t1'' (Some owner) ''u1'' ''o1''
      (status_change st) open_order = Inr x"
proof (rule update_runs [where cur = "(demo_order ''O1'' ''e1'')\<lparr>bo_status := O_pending\<rparr>" and nxt = st])
  have n: "normalizeOrderNumber ''o1'' = ''O1''" by code_simp
  show "find_order_number open_order ''t1'' (normalizeOrderNumber (normalizeOrderNumber ''o1''))
      = Some ((demo_order ''O1'' ''e1'')\<lparr>bo_status := O_pending\<rparr>)"
    unfolding normalizeOrderNumber_idem unfolding n by (simp add: find_order_number_def open_order_def demo_order_def)
  show "0 \<le> sm_total (order_sums_of open_order ''t1'' ((demo_order ''O1'' ''e1'')\<lparr>bo_status := O_pending\<rparr>)
      (ub_discount (status_change st)))"
    by (simp add: order_sums_of_def items_of_order_def open_order_def demo_shop_def empty_booking_def demo_order_def
        status_change_def confirm_now_def)
  show "update_order_tx (demo_booking_env 9) ''t1'' (Some owner) ''u1'' (normalizeOrderNumber ''o1'') (status_change st)
      ((demo_order ''O1'' ''e1'')\<lparr>bo_status := O_pending\<rparr>) st
      (order_sums_of open_order ''t1'' ((demo_order ''O1'' ''e1'')\<lparr>bo_status := O_pending\<rparr>) (ub_discount (status_change st)))
      open_order = Inr x"
    using assms(1) by (simp add: n status_change_def confirm_now_def)
qed (use assms(2) in \<open>auto simp: demo_order_def status_change_def validateTransition_def isTerminalStatus_def\<close>)

lemma open_order_keys: "order_keys open_order" "distinct (map rv_id (reservations open_order))"
  "find_order_number open_order ''t1'' (normalizeOrderNumber ''o1'') = Some ((demo_order ''O1'' ''e1'')\<lparr>bo_status := O_pending\<rparr>)"
proof -
  have n: "normalizeOrderNumber ''o1'' = ''O1''" by code_simp
  show "order_keys open_order" "distinct (map rv_id (reservations open_order))"
    by (simp_all add: order_keys_def open_order_def)
  show "find_order_number open_order ''t1'' (normalizeOrderNumber ''o1'') = Some ((demo_order ''O1'' ''e1'')\<lparr>bo_status := O_pending\<rparr>)"
    unfolding n by (simp add: find_order_number_def open_order_def demo_order_def)
qed

lemma open_order_closes:
  "st = O_cancelled \<or> st = O_paid \<Longrightarrow> \<exists>b d. updateBookingOrderByOrderNumber (demo_booking_env 9) (\<lambda>_. None) ''t1'' (Some owner)
     ''u1'' ''o1'' (status_change st) open_order = Inr (b, d)"
proof -
  let ?tx = "\<lambda>st. update_order_tx (demo_booking_env 9) ''t1'' (Some owner) ''u1'' ''O1'' (status_change st)
      ((demo_order ''O1'' ''e1'')\<lparr>bo_status := O_pending\<rparr>) st
      (order_sums_of open_order ''t1'' ((demo_order ''O1'' ''e1'')\<lparr>bo_status := O_pending\<rparr>) None) open_order"
  assume st: "st = O_cancelled \<or> st = O_paid"
  have "\<not> isl (?tx O_cancelled)" "\<not> isl (?tx O_paid)" by code_simp+
  then have "\<not> isl (?tx st)" using st by blast
  then obtain b d where "?tx st = Inr (b, d)" by (metis sum.collapse(2) prod.exhaust)
  from open_order_runs [OF this st] show ?thesis by blast
qed

theorem closing_frees_stock_witness:
  "\<exists>b d. updateBookingOrderByOrderNumber (demo_booking_env 9) (\<lambda>_. None) ''t1'' (Some owner) ''u1'' ''o1''
      (status_change O_cancelled) open_order = Inr (b, d)
    \<and> held (demo_booking_env 9) open_order ''t1'' ''vip'' = 3 \<and> held (demo_booking_env 9) d ''t1'' ''vip'' = 0"
proof -
  obtain b d where run: "updateBookingOrderByOrderNumber (demo_booking_env 9) (\<lambda>_. None) ''t1'' (Some owner) ''u1'' ''o1''
      (status_change O_cancelled) open_order = Inr (b, d)" using open_order_closes by blast
  have "held (demo_booking_env 9) d ''t1'' ''vip'' = sum_where (\<lambda>x. live_hold (be_now (demo_booking_env 9)) ''t1'' ''vip'' x
      \<and> rv_order x \<noteq> Some (bo_id ((demo_order ''O1'' ''e1'')\<lparr>bo_status := O_pending\<rparr>))) rv_quantity (reservations open_order)"
    using closing_frees_stock [OF run open_order_keys(3,1,2), of O_cancelled "''vip''"]
    by (simp add: status_change_def isTerminalStatus_def)
  then have "held (demo_booking_env 9) d ''t1'' ''vip'' = 0" by (simp add: open_order_def demo_order_def)
  moreover have "held (demo_booking_env 9) open_order ''t1'' ''vip'' = 3" by code_simp
  ultimately show ?thesis using run by blast
qed

text \<open>
  Paid without confirmation: an open order without tickets that is set to paid or completed
  straight away counts as sold, but its reservations are neither converted nor released, so its units
  are held a second time until they run out, and no ticket is issued.
\<close>

theorem paid_without_confirmation:
  assumes "updateBookingOrderByOrderNumber E faults tenant role act number i d = Inr (b, d')"
    and "find_order_number d tenant (normalizeOrderNumber number) = Some cur" and "order_keys d"
    and "bo_status cur = O_draft \<or> bo_status cur = O_pending" and "ub_status i = Some nxt" "nxt = O_paid \<or> nxt = O_completed"
    and "tickets_of_order d tenant (bo_id cur) = []"
  shows "bo_status b = nxt \<and> counts_as_sold (bo_status b) \<and> reservations d' = reservations d
    \<and> issued_tickets d' = issued_tickets d"
proof -
  have "nxt \<noteq> bo_status cur" using assms(4,6) by auto
  then have "update_order_tx E tenant role act (normalizeOrderNumber number) i cur nxt
      (order_sums_of d tenant cur (ub_discount i)) d = Inr (b, d')"
    using update_goes_through [OF assms(1)] assms(2,5) by (simp add: coalesce_def would_change_def)
  from this assms(2,3) obtain d1 d2 d3 where
    d1: "d1 = d\<lparr>orders := update_where (\<lambda>x. bo_id x = bo_id cur)
       (\<lambda>x. (set_order (be_now E) act nxt i (order_sums_of d tenant cur (ub_discount i)) cur x)\<lparr>bo_updatedAt := be_now E\<rparr>) (orders d)\<rparr>"
    and two: "if shouldReleaseInventoryOnTransition (bo_status cur) nxt
     then \<exists>rs. releaseReservationsForBookingOrder E
       (order_move_of tenant (bo_id cur) act ''booking-order-status-transition'') d1 = Inr (rs, d2) else d2 = d1"
    and three: "if nxt = O_confirmed \<and> bo_status cur \<noteq> O_confirmed
     then confirm_order E tenant role act (bo_id cur) ''booking-order-status-transition'' d2 = Inr d3 else d3 = d2"
    and four: "if nxt \<noteq> O_confirmed then applyIssuedTicketStatusForBookingOrder E tenant (bo_id cur) nxt d3 = Inr d' else d' = d3"
    and found: "find_order d' tenant (bo_id cur) = Some b"
    by (rule update_order_parts)
  have "d3 = d1" using two three assms(6)
    by (auto simp: shouldReleaseInventoryOnTransition_def isTerminalStatus_def)
  moreover have "tickets_of_order d1 tenant (bo_id cur) = []" using assms(7) by (simp add: d1 tickets_of_order_def)
  ultimately have d': "d' = d1" using four assms(6) by (auto simp: applyIssuedTicketStatusForBookingOrder_def)
  have "b \<in> set (orders d')" "bo_id b = bo_id cur"
    using find_SomeD [OF found [unfolded find_order_def]] by blast+
  then have "bo_status b = nxt" by (auto simp: d' d1 set_update_where)
  then show ?thesis using assms(6) by (auto simp: d' d1 counts_as_sold_def)
qed

theorem paid_without_confirmation_witness:
  "\<exists>b d. updateBookingOrderByOrderNumber (demo_booking_env 9) (\<lambda>_. None) ''t1'' (Some owner) ''u1'' ''o1''
      (status_change O_paid) open_order = Inr (b, d) \<and> bo_status b = O_paid \<and> issued_tickets d = []
    \<and> held (demo_booking_env 9) d ''t1'' ''vip'' = 3"
proof -
  obtain b d where run: "updateBookingOrderByOrderNumber (demo_booking_env 9) (\<lambda>_. None) ''t1'' (Some owner) ''u1'' ''o1''
      (status_change O_paid) open_order = Inr (b, d)" using open_order_closes by blast
  have "bo_status b = O_paid \<and> counts_as_sold (bo_status b) \<and> reservations d = reservations open_order
      \<and> issued_tickets d = issued_tickets open_order"
    by (rule paid_without_confirmation [OF run open_order_keys(3,1)])
      (simp_all add: status_change_def tickets_of_order_def open_order_def demo_shop_def empty_booking_def)
  moreover have "held (demo_booking_env 9) open_order ''t1'' ''vip'' = 3" by code_simp
  moreover have "issued_tickets open_order = []" by (simp add: open_order_def demo_shop_def empty_booking_def)
  ultimately show ?thesis using run by (simp add: held_def)
qed

end
