(* ===== verification/GroupProps.thy ===== *)
theory GroupProps
  imports GroupFlow OrderFlow
begin

text \<open>
  What the group service promises and what stands in its way: completion by payment in any order, the
  order that can no longer be confirmed, the group whose time is over, and shares that do not add up.
\<close>

section \<open>Completion\<close>

text \<open>
  C8. When the shares of an active group add up to its total, everybody who owes has accepted and the
  confirmation of the order goes through, then the group is completed once every debtor has paid what is
  left of his share: in any order of the debtors, at any moments before the group expires.
\<close>

theorem paying_all_shares_completes:
  assumes "group_reach uuid w" and "inj uuid" and "shared_out tn i w g"
    and "distinct (map snd xs)" and "set (map snd xs) = gm_user ` set (owing i w)" and "xs \<noteq> []"
    and "\<forall>x \<in> set xs. \<not> overdue (ge_now (fst x)) g"
    and "find_order (gw_shop w) tn (gb_order g) = Some b"
    and "updateBookingOrderByOrderNumber (ge_shop (fst (last xs))) (ge_faults (fst (last xs))) tn (Some owner) (gb_createdBy g)
      (bo_number b) ((no_update (bo_updatedAt b))\<lparr>ub_status := Some O_confirmed\<rparr>) (gw_shop w) = Inr (b', s)"
  shows "\<exists>g'. findGroupBookingById tn i (foldl (pay_due tn i) w xs) = Some g' \<and> gb_status g' = G_completed
    \<and> gb_collected g' = gb_total g \<and> gw_shop (foldl (pay_due tn i) w xs) = s"
  using all_pay [OF group_reach_inv [OF assms(1,2)] assms(3-9)] .

text \<open>The sample group: its order is confirmed, or it was expired by somebody else before.\<close>

definition demo_known :: "((booking_order \<times> order_item list) \<times> booking_db) res \<Rightarrow> bool" where
  "demo_known r = (case r of Inl e \<Rightarrow> False | Inr ((b, rows), d) \<Rightarrow> 0 < bo_total b \<and> bo_expiresAt b = None
     \<and> (case find_order d ''t1'' (bo_id b) of None \<Rightarrow> False | Some c \<Rightarrow> c = b)
     \<and> bo_status b = O_pending \<and> bo_purchaser b = ''u1'' \<and> bo_number b = ''RN-2025-000001'' \<and> bo_updatedAt b = 5
     \<and> 0 \<le> sm_total (order_sums_of d ''t1'' b None)
     \<and> (case find_order_number d ''t1'' ''RN-2025-000001'' of None \<Rightarrow> False | Some c \<Rightarrow> c = b)
     \<and> \<not> isl (update_order_tx (demo_booking_env 9) ''t1'' (Some owner) ''u1'' ''RN-2025-000001''
            ((no_update 5)\<lparr>ub_status := Some O_confirmed\<rparr>) b O_confirmed (order_sums_of d ''t1'' b None) d))"

lemma demo_known: "demo_known demo_group_order" "normalizeOrderNumber ''RN-2025-000001'' = ''RN-2025-000001''"
  by code_simp+

lemma demo_group_facts:
  obtains b d g where "gw_shop demo_groups = d" "shared_out ''t1'' (gb_id g) demo_groups g" "gb_order g = bo_id b"
    "find_order d ''t1'' (gb_order g) = Some b" "gb_createdBy g = ''u1''" "gb_expiresAt g = Some 86400005" "bo_updatedAt b = 5"
    "gm_user ` set (owing (gb_id g) demo_groups) = {''u1''}"
    "\<exists>b' s. updateBookingOrderByOrderNumber (demo_booking_env 9) (\<lambda>_. None) ''t1'' (Some owner) ''u1'' (bo_number b)
       ((no_update (bo_updatedAt b))\<lparr>ub_status := Some O_confirmed\<rparr>) d = Inr (b', s)"
proof -
  obtain b rows d g m where order: "demo_group_order = Inr ((b, rows), d)" and rows: "gw_shop demo_groups = d"
      "gw_groups demo_groups = [g]" "gw_members demo_groups = [m]"
    and g: "g = (new_group 5 ''t1'' ''u1'' demo_group_input b)\<lparr>gb_id := be_uuid (demo_booking_env 5) 0\<rparr>"
    and m: "m = (new_member 5 (gb_id g) ''u1'')\<lparr>gm_owner := True, gm_invite := I_accepted, gm_contribution := gb_total g,
       gm_joinedAt := Some 5, gm_id := be_uuid (demo_booking_env 5) 1\<rparr>" by (rule demo_groups_are)
  have known: "0 < bo_total b" "bo_expiresAt b = None" "find_order d ''t1'' (bo_id b) = Some b" "bo_status b = O_pending"
    "bo_purchaser b = ''u1''" "bo_number b = ''RN-2025-000001''" "bo_updatedAt b = 5"
    "0 \<le> sm_total (order_sums_of d ''t1'' b None)" "find_order_number d ''t1'' ''RN-2025-000001'' = Some b"
    and tx: "\<not> isl (update_order_tx (demo_booking_env 9) ''t1'' (Some owner) ''u1'' ''RN-2025-000001''
            ((no_update 5)\<lparr>ub_status := Some O_confirmed\<rparr>) b O_confirmed (order_sums_of d ''t1'' b None) d)"
    using demo_known(1) unfolding order demo_known_def by (simp_all split: option.splits)
  from tx obtain b' s where tx': "update_order_tx (demo_booking_env 9) ''t1'' (Some owner) ''u1'' ''RN-2025-000001''
      ((no_update 5)\<lparr>ub_status := Some O_confirmed\<rparr>) b O_confirmed (order_sums_of d ''t1'' b None) d = Inr (b', s)"
    by (metis sum.collapse(2) prod.exhaust)
  have "updateBookingOrderByOrderNumber (demo_booking_env 9) (\<lambda>_. None) ''t1'' (Some owner) ''u1'' ''RN-2025-000001''
      ((no_update 5)\<lparr>ub_status := Some O_confirmed\<rparr>) d = Inr (b', s)"
    by (rule update_runs [where cur = b and nxt = O_confirmed])
      (use known tx' in \<open>simp_all add: demo_known(2) no_update_def validateTransition_def isTerminalStatus_def\<close>)
  with that [OF rows(1), of g b] known rows show ?thesis
    by (simp add: shared_out_def findGroupBookingById_def g m new_group_def new_member_def owing_def)
qed

theorem paying_all_shares_completes_witness:
  "\<exists>g g'. shared_out ''t1'' (gb_id g) demo_groups g \<and> findGroupBookingById ''t1'' (gb_id g)
      (foldl (pay_due ''t1'' (gb_id g)) demo_groups [(demo_group_env 9, ''u1'')]) = Some g' \<and> gb_status g' = G_completed"
proof -
  obtain b d g where f: "gw_shop demo_groups = d" "shared_out ''t1'' (gb_id g) demo_groups g" "gb_order g = bo_id b"
    "find_order d ''t1'' (gb_order g) = Some b" "gb_createdBy g = ''u1''" "gb_expiresAt g = Some 86400005" "bo_updatedAt b = 5"
    "gm_user ` set (owing (gb_id g) demo_groups) = {''u1''}"
    "\<exists>b' s. updateBookingOrderByOrderNumber (demo_booking_env 9) (\<lambda>_. None) ''t1'' (Some owner) ''u1'' (bo_number b)
       ((no_update (bo_updatedAt b))\<lparr>ub_status := Some O_confirmed\<rparr>) d = Inr (b', s)" by (rule demo_group_facts)
  have now: "ge_now (demo_group_env 9) = 9" "ge_shop (demo_group_env 9) = demo_booking_env 9" "ge_faults (demo_group_env 9) = (\<lambda>_. None)"
    by (simp_all add: demo_group_env_def ge_now_def demo_booking_env_def)
  from f(9) obtain b' s where up: "updateBookingOrderByOrderNumber (demo_booking_env 9) (\<lambda>_. None) ''t1'' (Some owner) ''u1''
      (bo_number b) ((no_update (bo_updatedAt b))\<lparr>ub_status := Some O_confirmed\<rparr>) d = Inr (b', s)" by blast
  from paying_all_shares_completes [OF demo_groups_reached demo_uuid_inj f(2), of "[(demo_group_env 9, ''u1'')]" b b' s] up f
  have "\<exists>g'. findGroupBookingById ''t1'' (gb_id g) (foldl (pay_due ''t1'' (gb_id g)) demo_groups [(demo_group_env 9, ''u1'')]) = Some g'
      \<and> gb_status g' = G_completed" by (auto simp: now overdue_def)
  with f(2) show ?thesis by blast
qed

section \<open>An order that can no longer be confirmed\<close>

text \<open>
  A group lives a day, the reservations of its order a quarter of an hour: when the order can no longer
  be confirmed, the contribution that would reach the total is refused with the error of the order, and
  groups, members and orders stay as they are. The group stays active, and stays one payment short.
\<close>

theorem unconfirmable_order_refuses_contribution:
  assumes "group_reach uuid w" and "inj uuid" and "findGroupBookingById tn i w = Some g" and "gb_status g = G_active"
    and "\<not> overdue (ge_now E) g" and "findGroupBookingMember i u w = Some m" and "gm_invite m = I_accepted"
    and "0 < c" and "gm_paid m + c \<le> gm_contribution m" and "fits (gb_collected g + c)" and "gb_total g \<le> gb_collected g + c"
    and "find_order (gw_shop w) tn (gb_order g) = Some b"
    and "updateBookingOrderByOrderNumber (ge_shop E) (ge_faults E) tn (Some owner) (gb_createdBy g) (bo_number b)
      ((no_update (bo_updatedAt b))\<lparr>ub_status := Some O_confirmed\<rparr>) (gw_shop w) = Inl e"
  shows "fst (recordContribution E tn i u (parse_dec c) None w) = Inl e
    \<and> (let w' = snd (recordContribution E tn i u (parse_dec c) None w)
       in gw_groups w' = gw_groups w \<and> gw_members w' = gw_members w \<and> gw_shop w' = gw_shop w \<and> gw_notes w' = gw_notes w)"
proof -
  have pay: "may_pay uuid E tn i u c w g m"
    using group_reach_inv [OF assms(1,2)] assms(3-10) by (simp add: may_pay_def)
  have "complete_group E tn g (contributed E g m c w) = (Inl e, (contributed E g m c w)\<lparr>gw_groups :=
      update_where (\<lambda>x. gb_id x = gb_id g) (\<lambda>x. x\<lparr>gb_status := G_completed, gb_updatedAt := ge_now E\<rparr>)
        (gw_groups (contributed E g m c w))\<rparr>)"
    using assms(12,13) unfolding complete_group_def
    by (simp add: bnd_def alter_def peek_def change_order_def attempt_def contributed_def createGroupBookingActivityRecord_def)
  then have "recordContribution E tn i u (parse_dec c) None w = (Inl e, group_undo w ((contributed E g m c w)\<lparr>gw_groups :=
      update_where (\<lambda>x. gb_id x = gb_id g) (\<lambda>x. x\<lparr>gb_status := G_completed, gb_updatedAt := ge_now E\<rparr>)
        (gw_groups (contributed E g m c w))\<rparr>))"
    using assms(11) by (simp add: contribution_run [OF pay] paid_up [OF pay] group_tx_def atomic_def)
  then show ?thesis by (simp add: group_undo_def contributed_def createGroupBookingActivityRecord_def Let_def)
qed

lemma group_shop_view:
  "findGroupBookingById tn i (w\<lparr>gw_shop := d\<rparr>) = findGroupBookingById tn i w"
  "shared_out tn i (w\<lparr>gw_shop := d\<rparr>) g = shared_out tn i w g" "owing i (w\<lparr>gw_shop := d\<rparr>) = owing i w"
  "findGroupBookingMember i u (w\<lparr>gw_shop := d\<rparr>) = findGroupBookingMember i u w"
  by (simp_all add: findGroupBookingById_def shared_out_def owing_def findGroupBookingMember_def)

definition swept :: "booking_db \<Rightarrow> booking_db" where
  "swept d = d\<lparr>orders := update_where (\<lambda>b. True) (\<lambda>b. b\<lparr>bo_status := O_expired\<rparr>) (orders d)\<rparr>"

lemma swept_order:
  assumes "find_order d tn i = Some b"
  shows "find_order (swept d) tn i = Some (b\<lparr>bo_status := O_expired\<rparr>)"
proof -
  have "find_order (swept d) tn i = map_option (\<lambda>b. if True then b\<lparr>bo_status := O_expired\<rparr> else b) (find_order d tn i)"
    unfolding find_order_def swept_def
    by (simp, rule find_update_where [of "\<lambda>b. True", simplified]) simp
  with assms show ?thesis by simp
qed

lemma swept_update: "\<exists>e. updateBookingOrderByOrderNumber E faults tn role act number
    ((no_update t)\<lparr>ub_status := Some O_confirmed\<rparr>) (swept d) = Inl e"
proof -
  have "bo_status c = O_expired" if "find_order_number (swept d) tn n = Some c" for c n
    using find_SomeD [OF that [unfolded find_order_number_def]] by (auto simp: swept_def set_update_where)
  then show ?thesis
    by (cases "find_order_number (swept d) tn (normalizeOrderNumber (normalizeOrderNumber number))")
      (auto simp: updateBookingOrderByOrderNumber_def ensureBookingReferencesBelongToTenant_def Let_def
        loadBookingOrderOrThrow_def purchaser_or_def coalesce_def validateTransition_def no_update_def optR_def guardR_def
        isTerminalStatus_def)
qed

theorem unconfirmable_order_refuses_contribution_witness:
  "\<exists>(g :: group_booking) c e. 0 < c \<and> fst (recordContribution (demo_group_env 9) ''t1'' (gb_id g) ''u1'' (parse_dec c) None
     (demo_groups\<lparr>gw_shop := swept (gw_shop demo_groups)\<rparr>)) = Inl e"
proof -
  let ?w = "demo_groups\<lparr>gw_shop := swept (gw_shop demo_groups)\<rparr>"
  obtain b d g where f: "gw_shop demo_groups = d" "shared_out ''t1'' (gb_id g) demo_groups g" "gb_order g = bo_id b"
    "find_order d ''t1'' (gb_order g) = Some b" "gb_createdBy g = ''u1''" "gb_expiresAt g = Some 86400005" "bo_updatedAt b = 5"
    "gm_user ` set (owing (gb_id g) demo_groups) = {''u1''}"
    "\<exists>b' s. updateBookingOrderByOrderNumber (demo_booking_env 9) (\<lambda>_. None) ''t1'' (Some owner) ''u1'' (bo_number b)
       ((no_update (bo_updatedAt b))\<lparr>ub_status := Some O_confirmed\<rparr>) d = Inr (b', s)" by (rule demo_group_facts)
  have reach: "group_reach (be_uuid (demo_booking_env 5)) ?w"
    by (rule reach_call [OF demo_groups_reached call_outside]) (simp add: shop_view)
  have time: "\<not> overdue (ge_now (demo_group_env 9)) g"
    by (simp add: overdue_def f demo_group_env_def ge_now_def demo_booking_env_def)
  obtain m where pay: "may_pay (be_uuid (demo_booking_env 5)) (demo_group_env 9) ''t1'' (gb_id g) ''u1'' (due m) ?w g m"
    and full: "gb_collected g + due m = gb_total g"
    using debtor_pays [OF group_reach_inv [OF reach demo_uuid_inj], of "''t1''" "gb_id g" g "demo_group_env 9" "''u1''"] f time
    by (metis group_shop_view(2,3) insertI1)
  note p = may_payD [OF pay]
  have order: "find_order (gw_shop ?w) ''t1'' (gb_order g) = Some (b\<lparr>bo_status := O_expired\<rparr>)"
    using swept_order [OF f(4)] by (simp add: f(1))
  obtain e where e: "updateBookingOrderByOrderNumber (ge_shop (demo_group_env 9)) (ge_faults (demo_group_env 9)) ''t1''
      (Some owner) (gb_createdBy g) (bo_number (b\<lparr>bo_status := O_expired\<rparr>))
      ((no_update (bo_updatedAt (b\<lparr>bo_status := O_expired\<rparr>)))\<lparr>ub_status := Some O_confirmed\<rparr>) (gw_shop ?w) = Inl e"
    using swept_update [of "ge_shop (demo_group_env 9)" "ge_faults (demo_group_env 9)" "''t1''" "Some owner" "gb_createdBy g"
        "bo_number b" "bo_updatedAt b" "gw_shop demo_groups"] by auto
  have "gb_total g \<le> gb_collected g + due m" using full by simp
  note refused = unconfirmable_order_refuses_contribution [OF reach demo_uuid_inj p(2-9) this order e]
  show ?thesis
    by (rule exI [of _ g], rule exI [of _ "due m"], rule exI [of _ e]) (use refused p(7) in simp)
qed

section \<open>A group whose time is over\<close>

lemma notes_sent:
  "gw_prefs w = [] \<Longrightarrow> notify_members tn ty g ms w = w\<lparr>gw_notes := gw_notes w @ map (\<lambda>m. \<lparr>nt_tenant = tn, nt_user = gm_user m,
     nt_type = ty, nt_entity = g\<rparr>) (filter (\<lambda>m. gm_invite m = I_accepted) ms)\<rparr>"
proof -
  have "foldl (\<lambda>w m. createInAppNotification tn (gm_user m) ty g w) w xs = w\<lparr>gw_notes := gw_notes w @ map (\<lambda>m.
      \<lparr>nt_tenant = tn, nt_user = gm_user m, nt_type = ty, nt_entity = g\<rparr>) xs\<rparr>" if "gw_prefs w = []" for w xs
    using that by (induction xs arbitrary: w) (simp_all add: createInAppNotification_def)
  then show "gw_prefs w = [] \<Longrightarrow> ?thesis" by (simp add: notify_members_def)
qed

lemma overdue_run:
  assumes inv: "group_inv uuid w" and g: "findGroupBookingById tn i w = Some g" "overdue (ge_now E) g" and "gw_prefs w = []"
    and "case find_order (gw_shop w) tn (gb_order g) of None \<Rightarrow> True | Some b \<Rightarrow> ended_order (bo_status b)"
  shows "acceptInvitation E tn i u w = (Inl (badRequest ''Invitations can only be accepted for active group bookings''),
    w\<lparr>gw_notes := gw_notes w @ map (\<lambda>m. \<lparr>nt_tenant = tn, nt_user = gm_user m, nt_type = ''group_booking_expired'',
      nt_entity = i\<rparr>) (filter (\<lambda>m. gm_invite m = I_accepted) (listGroupBookingMembers i w))\<rparr>)"
proof -
  note gg = findGroup_in [OF g(1)]
  have found: "List.find (\<lambda>x. gb_id x = i \<and> gb_version x = gb_version g) (gw_groups w) = Some g"
    by (rule find_unique) (use gg group_by_id [OF inv] in auto)
  have close: "close_order E tn act (gb_order g) f v = (Inr (), v)" if "gw_shop v = gw_shop w" for act f v
    using assms(5) that by (simp add: close_order_def bnd_def peek_def ret_def split: option.splits)
  show ?thesis
    unfolding acceptInvitation_def group_tx_def atomic_def active_group_def load_group_def
    using g gg assms(4)
    by (simp add: bnd_def fetch_def optR_def checkAndProcessExpiration_def Let_def peek_def found alter_def close ret_def
        check_def throw_def notes_sent createGroupBookingActivityRecord_def listGroupBookingMembers_def group_undo_def)
qed

definition refused_accept :: "group_env \<Rightarrow> id \<Rightarrow> id \<Rightarrow> id \<Rightarrow> group_world \<Rightarrow> group_world" where
  "refused_accept E tn i u w = snd (acceptInvitation E tn i u w)"

text \<open>
  The expiry of a group is undone by the call that finds it: once its time is over, an answer to an
  invitation is refused and the group stays active, but the notices of the expiry have been sent. Asked k
  times, the service notifies every accepted member k times.
\<close>

theorem overdue_group_announced_again:
  assumes "group_reach uuid w" and "inj uuid" and "findGroupBookingById tn i w = Some g" and "gb_status g = G_active"
    and "overdue (ge_now E) g" and "gw_prefs w = []"
    and "case find_order (gw_shop w) tn (gb_order g) of None \<Rightarrow> True | Some b \<Rightarrow> ended_order (bo_status b)"
  shows "(\<exists>e. fst (acceptInvitation E tn i u w) = Inl e)
    \<and> gw_groups ((refused_accept E tn i u ^^ k) w) = gw_groups w
    \<and> length (gw_notes ((refused_accept E tn i u ^^ k) w))
        = length (gw_notes w) + k * length (filter (\<lambda>m. gm_invite m = I_accepted) (listGroupBookingMembers i w))"
proof -
  define N where "N = (\<lambda>v. gw_notes v @ map (\<lambda>m. \<lparr>nt_tenant = tn, nt_user = gm_user m,
    nt_type = ''group_booking_expired'', nt_entity = i\<rparr>) (filter (\<lambda>m. gm_invite m = I_accepted) (listGroupBookingMembers i v)))"
  have run: "acceptInvitation E tn i u v
      = (Inl (badRequest ''Invitations can only be accepted for active group bookings''), v\<lparr>gw_notes := N v\<rparr>)"
    if v: "gw_groups v = gw_groups w" "gw_members v = gw_members w" "gw_shop v = gw_shop w" "gw_prefs v = []" "gw_next v = gw_next w"
    for v
  proof -
    have "group_view v = group_view w" by (simp add: group_view_def v)
    from group_inv_view [OF this] have inv: "group_inv uuid v" using group_reach_inv [OF assms(1,2)] by simp
    show ?thesis using overdue_run [OF inv, of tn i g E u] assms v by (simp add: N_def findGroupBookingById_def)
  qed
  have iter: "gw_groups ((refused_accept E tn i u ^^ k) w) = gw_groups w \<and> gw_members ((refused_accept E tn i u ^^ k) w) = gw_members w
      \<and> gw_shop ((refused_accept E tn i u ^^ k) w) = gw_shop w \<and> gw_prefs ((refused_accept E tn i u ^^ k) w) = []
      \<and> gw_next ((refused_accept E tn i u ^^ k) w) = gw_next w
      \<and> length (gw_notes ((refused_accept E tn i u ^^ k) w))
        = length (gw_notes w) + k * length (filter (\<lambda>m. gm_invite m = I_accepted) (listGroupBookingMembers i w))" for k
  proof (induction k)
    case (Suc k)
    then show ?case
      using run [of "(refused_accept E tn i u ^^ k) w"]
      by (simp add: refused_accept_def [of _ _ _ _ "(refused_accept E tn i u ^^ k) w"] N_def listGroupBookingMembers_def)
  qed (simp add: assms(6))
  show ?thesis using iter [of k] run [of w] assms(6) by simp
qed

theorem overdue_group_announced_again_witness:
  "\<exists>g. gb_status g = G_active \<and> gw_groups ((refused_accept (demo_group_env 86400006) ''t1'' (gb_id g) ''u1'' ^^ 3)
      (demo_groups\<lparr>gw_shop := swept (gw_shop demo_groups)\<rparr>)) = [g]"
proof -
  let ?w = "demo_groups\<lparr>gw_shop := swept (gw_shop demo_groups)\<rparr>"
  obtain b rows d g m where rows: "demo_group_order = Inr ((b, rows), d)" "gw_shop demo_groups = d" "gw_groups demo_groups = [g]"
    "gw_members demo_groups = [m]" and g: "g = (new_group 5 ''t1'' ''u1'' demo_group_input b)\<lparr>gb_id := be_uuid (demo_booking_env 5) 0\<rparr>"
    and prefs: "gw_prefs demo_groups = []"
    by (rule demo_groups_are)
  have known: "bo_expiresAt b = None" "find_order d ''t1'' (bo_id b) = Some b"
    using demo_known(1) unfolding rows(1) demo_known_def by (simp_all split: option.splits)
  have reach: "group_reach (be_uuid (demo_booking_env 5)) ?w"
    by (rule reach_call [OF demo_groups_reached call_outside]) (simp add: shop_view)
  have found: "findGroupBookingById ''t1'' (gb_id g) ?w = Some g" by (simp add: findGroupBookingById_def rows g new_group_def)
  have late: "overdue (ge_now (demo_group_env 86400006)) g"
    by (simp add: overdue_def g new_group_def known demo_group_env_def ge_now_def demo_booking_env_def)
  have ended: "case find_order (gw_shop ?w) ''t1'' (gb_order g) of None \<Rightarrow> True | Some b \<Rightarrow> ended_order (bo_status b)"
    using swept_order [OF known(2)] by (simp add: rows g new_group_def ended_order_def)
  have active: "gb_status g = G_active" by (simp add: g new_group_def)
  from overdue_group_announced_again [OF reach demo_uuid_inj found active late _ ended, of "''u1''" 3] active prefs
  show ?thesis by (auto simp: rows)
qed

section \<open>Shares that do not add up\<close>

definition thirds_member :: "id \<Rightarrow> id \<Rightarrow> bool \<Rightarrow> int \<Rightarrow> group_member" where
  "thirds_member i u own share = (new_member 0 ''g'' u)\<lparr>gm_id := i, gm_owner := own, gm_invite := I_accepted, gm_contribution := share\<rparr>"

text \<open>A group of three for an order of 100.00, all of it the owner's share so far.\<close>

definition thirds_world :: group_world where
  "thirds_world = no_groups\<lparr>gw_groups := [\<lparr>gb_id = ''g'', gb_tenant = ''t1'', gb_event = ''e1'', gb_order = ''o'',
       gb_createdBy = ''a'', gb_title = ''Trip'', gb_status = G_active, gb_total = 10000, gb_collected = 0, gb_expiresAt = None,
       gb_createdAt = 0, gb_updatedAt = 0, gb_deletedAt = None, gb_version = 1\<rparr>],
     gw_members := [thirds_member ''1'' ''a'' True 10000, thirds_member ''2'' ''b'' False 0, thirds_member ''3'' ''c'' False 0]\<rparr>"

definition thirds_set :: "unit res \<times> group_world" where
  "thirds_set = updateShares (demo_group_env 9) ''t1'' ''g'' ''a''
     [(''a'', fl (100 / 3)), (''b'', fl (100 / 3)), (''c'', fl (100 / 3))] 0 thirds_world"

text \<open>The group after the split, and when everybody has paid.\<close>

definition thirds_after :: "int \<Rightarrow> id list \<Rightarrow> group_world" where
  "thirds_after paid who = thirds_world\<lparr>
     gw_groups := map (\<lambda>g. g\<lparr>gb_collected := paid * int (length who), gb_updatedAt := 9, gb_version := 2 + int (length who)\<rparr>)
       (gw_groups thirds_world),
     gw_members := map (\<lambda>m. m\<lparr>gm_contribution := 3333, gm_updatedAt := 9,
         gm_paid := (if List.member who (gm_user m) then paid else 0), gm_version := (if List.member who (gm_user m) then 3 else 2)\<rparr>)
       (gw_members thirds_world),
     gw_activity := \<lparr>ga_group = ''g'', ga_actor = Some ''a'', ga_type = ''share_updated'', ga_createdAt = 9\<rparr>
       # map (\<lambda>u. \<lparr>ga_group = ''g'', ga_actor = Some u, ga_type = ''contribution_recorded'', ga_createdAt = 9\<rparr>) who\<rparr>"

definition thirds_payment :: "id \<Rightarrow> int \<Rightarrow> group_world \<Rightarrow> group_member option res \<times> group_world" where
  "thirds_payment u c = recordContribution (demo_group_env 9) ''t1'' ''g'' u (parse_dec c) None"

lemma thirds_runs:
  "thirds_set = (Inr (), thirds_after 0 [])"
  "snd (thirds_payment ''a'' 3333 (thirds_after 0 [])) = thirds_after 3333 [''a'']"
  "snd (thirds_payment ''b'' 3333 (thirds_after 3333 [''a''])) = thirds_after 3333 [''a'', ''b'']"
  "snd (thirds_payment ''c'' 3333 (thirds_after 3333 [''a'', ''b''])) = thirds_after 3333 [''a'', ''b'', ''c'']"
  by code_simp+

text \<open>
  An even split of 100.00 among three is accepted, since the shares add up within a cent; they are
  stored as 33.33 each. When all three have paid them, the group has collected 99.99 and is not completed,
  and the missing cent is refused from each of them.
\<close>

theorem even_thirds_strand_group:
  "\<exists>w w'. updateShares (demo_group_env 9) ''t1'' ''g'' ''a''
       [(''a'', fl (100 / 3)), (''b'', fl (100 / 3)), (''c'', fl (100 / 3))] 0 thirds_world = (Inr (), w)
    \<and> map gm_contribution (gw_members w) = [3333, 3333, 3333]
    \<and> snd (thirds_payment ''c'' 3333 (snd (thirds_payment ''b'' 3333 (snd (thirds_payment ''a'' 3333 w))))) = w'
    \<and> map (\<lambda>g. (gb_status g, gb_total g, gb_collected g)) (gw_groups w') = [(G_active, 10000, 9999)]
    \<and> map (\<lambda>u. isl (fst (thirds_payment u 1 w'))) [''a'', ''b'', ''c''] = [True, True, True]"
proof -
  have "map gm_contribution (gw_members (thirds_after 0 [])) = [3333, 3333, 3333]"
    "map (\<lambda>g. (gb_status g, gb_total g, gb_collected g)) (gw_groups (thirds_after 3333 [''a'', ''b'', ''c'']))
      = [(G_active, 10000, 9999)]"
    "map (\<lambda>u. isl (fst (thirds_payment u 1 (thirds_after 3333 [''a'', ''b'', ''c''])))) [''a'', ''b'', ''c'']
      = [True, True, True]" by code_simp+
  with thirds_runs [unfolded thirds_set_def] show ?thesis by simp
qed

end
