(* ===== verification/LateOrder.thy ===== *)
theory LateOrder
  imports OrderFlow
begin

text \<open>
  Two orders for the same units, played through: what happens when an order is confirmed after its
  reservation has run out.
\<close>

definition late_first :: "((booking_order \<times> order_item list) \<times> booking_db) res" where
  "late_first = demo_tx 0 O_pending 3 demo_shop"

definition late_second :: "((booking_order \<times> order_item list) \<times> booking_db) res" where
  "late_second = (case late_first of Inr p \<Rightarrow> demo_tx 960000 O_pending 5 (snd p) | Inl e \<Rightarrow> Inl e)"

definition late_number :: string where
  "late_number = ''RN-2025-000001''"

definition late_confirmation :: "(booking_order \<times> booking_db) res" where
  "late_confirmation = (case late_second of
     Inl e \<Rightarrow> Inl e
   | Inr p \<Rightarrow> (case find_order_number (snd p) ''t1'' late_number of
       None \<Rightarrow> Inl order_not_found
     | Some cur \<Rightarrow> update_order_tx (demo_booking_env 960000) ''t1'' (Some owner) ''u1'' late_number (confirm_now 0) cur
         O_confirmed (order_sums_of (snd p) ''t1'' cur None) (snd p)))"

lemma late_facts:
  "case late_first of Inl e \<Rightarrow> False | Inr p \<Rightarrow> events (snd p) = events demo_shop \<and> users (snd p) = users demo_shop
    \<and> bo_number (fst (fst p)) = late_number"
  "case late_second of Inl e \<Rightarrow> False | Inr p \<Rightarrow> (case find_order_number (snd p) ''t1'' late_number of None \<Rightarrow> False
    | Some cur \<Rightarrow> bo_status cur = O_pending \<and> bo_purchaser cur = ''u1''
        \<and> 0 \<le> sm_total (order_sums_of (snd p) ''t1'' cur None))"
  "case late_confirmation of Inl e \<Rightarrow> False | Inr p \<Rightarrow> sold (snd p) ''t1'' ''vip''
     + held (demo_booking_env 960000) (snd p) ''t1'' ''vip'' = 8"
  "normalizeOrderNumber late_number = late_number"
  by code_simp+


end
