(* ===== verification/LedgerTypes.thy ===== *)
theory LedgerTypes
  imports Errors JsString
begin

text \<open>
  The vocabulary of the ledger: \<open>src/modules/finance/types.ts\<close> (account types, entries,
  transactions, receipts), the account registry of \<open>accounting/registry.ts\<close> (which name an
  account type and a context id stand for) and the journal templates of
  \<open>journal/templates.ts\<close> (which entries a business event becomes). Amounts are integers, in
  minor units.
\<close>

section \<open>Account types and entries\<close>

datatype FinanceAccountType =
    PLATFORM_CASH | CUSTOMER_CASH | CUSTOMER_LIABILITY | ESCROW | ORGANIZER_PENDING
  | ORGANIZER_AVAILABLE | ORGANIZER_PAYABLE | PLATFORM_FEE_REVENUE | GATEWAY_FEE_EXPENSE
  | TAX_PAYABLE | REFUND_LIABILITY | CHARGEBACK_RESERVE | RESERVE | SETTLEMENT_CLEARING
  | WITHDRAWAL_CLEARING | SYSTEM_ADJUSTMENT | FRAUD_RESERVE | SUSPENSE_ACCOUNT
  | PLATFORM_ESCROW | PLATFORM_REVENUE | ORGANIZER_BALANCE | CUSTOMER_REFUNDS
  | PAYMENT_GATEWAY_CLEARING

datatype direction = Debit | Credit

text \<open>The three metadata fields an entry of this program carries; each may be absent.\<close>

record entry_meta =
  m_organizerId :: "string option"
  m_customerId :: "string option"
  m_reason :: "string option"

definition no_meta :: entry_meta where
  "no_meta = \<lparr>m_organizerId = None, m_customerId = None, m_reason = None\<rparr>"

definition organizer_meta :: "string \<Rightarrow> entry_meta" where
  "organizer_meta o' = no_meta\<lparr>m_organizerId := Some o'\<rparr>"

record EntryInput =
  e_accountType :: FinanceAccountType
  e_accountName :: string
  e_amount :: int
  e_direction :: direction
  e_metadata :: entry_meta

record TransactionInput =
  t_tenantId :: id
  t_transactionType :: string
  t_amount :: int
  t_currency :: string
  t_referenceType :: string
  t_referenceId :: string
  t_idempotencyKey :: string
  t_razorpayPaymentId :: "string option"
  t_bookingId :: "string option"
  t_withdrawalId :: "string option"
  t_refundId :: "string option"
  t_entries :: "EntryInput list"
  t_userId :: "string option"
  t_ipAddress :: "string option"
  t_requestId :: "string option"

record PostingReceipt =
  r_success :: bool
  r_transactionId :: id
  r_transactionHash :: string
  r_entriesCount :: nat
  r_idempotencyKey :: string

text \<open>What a list of entries moves: its debits, its credits, and the two compared.\<close>

definition debit_sum :: "EntryInput list \<Rightarrow> int" where
  "debit_sum es = sum_where (\<lambda>e. e_direction e = Debit) e_amount es"

definition credit_sum :: "EntryInput list \<Rightarrow> int" where
  "credit_sum es = sum_where (\<lambda>e. e_direction e = Credit) e_amount es"

lemmas sum_defs = debit_sum_def credit_sum_def

lemma direction_neq [simp]: "d \<noteq> Debit \<longleftrightarrow> d = Credit" "d \<noteq> Credit \<longleftrightarrow> d = Debit"
  by (cases d; simp)+

section \<open>The account registry\<close>

text \<open>
  \<open>AccountRegistry.resolveAccount\<close>, the switch on the account type: the canonical name, or
  the error for a missing context id.
\<close>

definition need_context :: "string option \<Rightarrow> string \<Rightarrow> string \<Rightarrow> string \<Rightarrow> string res" where
  "need_context ctx who label type_name =
     (if truthy ctx then Inr (label @ '': '' @ the ctx)
      else Inl (PlainErr (who @ '' ID is required to resolve '' @ type_name)))"

fun account_name :: "FinanceAccountType \<Rightarrow> string option \<Rightarrow> string res" where
  "account_name PLATFORM_CASH ctx = Inr ''Platform Cash Clearing''"
| "account_name PAYMENT_GATEWAY_CLEARING ctx = Inr ''Platform Cash Clearing''"
| "account_name ESCROW ctx = Inr ''Platform Escrow Custody''"
| "account_name PLATFORM_ESCROW ctx = Inr ''Platform Escrow Custody''"
| "account_name ORGANIZER_PENDING ctx =
     need_context ctx ''Organizer'' ''Organizer Pending'' ''ORGANIZER_PENDING''"
| "account_name ORGANIZER_AVAILABLE ctx =
     need_context ctx ''Organizer'' ''Organizer Available'' ''ORGANIZER_AVAILABLE''"
| "account_name ORGANIZER_BALANCE ctx =
     need_context ctx ''Organizer'' ''Organizer Available'' ''ORGANIZER_AVAILABLE''"
| "account_name ORGANIZER_PAYABLE ctx =
     need_context ctx ''Organizer'' ''Organizer Payable'' ''ORGANIZER_PAYABLE''"
| "account_name CUSTOMER_CASH ctx =
     need_context ctx ''Customer'' ''Customer Cash'' ''CUSTOMER_CASH''"
| "account_name CUSTOMER_LIABILITY ctx =
     need_context ctx ''Customer'' ''Customer Liability'' ''CUSTOMER_LIABILITY''"
| "account_name PLATFORM_REVENUE ctx = Inr ''Platform Commission Revenue''"
| "account_name PLATFORM_FEE_REVENUE ctx = Inr ''Platform Commission Revenue''"
| "account_name GATEWAY_FEE_EXPENSE ctx = Inr ''Gateway Fee Expense''"
| "account_name TAX_PAYABLE ctx = Inr ''Tax Liabilities (GST/VAT)''"
| "account_name REFUND_LIABILITY ctx = Inr ''Customer Refund Liability''"
| "account_name CUSTOMER_REFUNDS ctx = Inr ''Customer Refund Liability''"
| "account_name CHARGEBACK_RESERVE ctx = Inr ''Chargeback Reserve Fund''"
| "account_name RESERVE ctx = Inr ''Platform Cash Reserves''"
| "account_name SETTLEMENT_CLEARING ctx = Inr ''Settlement Batch Clearing''"
| "account_name WITHDRAWAL_CLEARING ctx = Inr ''Withdrawal Payout Clearing''"
| "account_name SYSTEM_ADJUSTMENT ctx = Inr ''System Adjustment Account''"
| "account_name FRAUD_RESERVE ctx = Inr ''Fraud Hold Reserve''"
| "account_name SUSPENSE_ACCOUNT ctx = Inr ''Suspense Hold Account''"

section \<open>Journal templates\<close>

definition mkEntry :: "FinanceAccountType \<Rightarrow> string \<Rightarrow> int \<Rightarrow> direction \<Rightarrow> entry_meta \<Rightarrow> EntryInput" where
  "mkEntry ty nm a d m =
     \<lparr>e_accountType = ty, e_accountName = nm, e_amount = a, e_direction = d, e_metadata = m\<rparr>"

definition cashType :: "bool \<Rightarrow> FinanceAccountType" where
  "cashType useLegacy = (if useLegacy then PAYMENT_GATEWAY_CLEARING else PLATFORM_CASH)"
definition escrowType :: "bool \<Rightarrow> FinanceAccountType" where
  "escrowType useLegacy = (if useLegacy then PLATFORM_ESCROW else ESCROW)"
definition revenueType :: "bool \<Rightarrow> FinanceAccountType" where
  "revenueType useLegacy = (if useLegacy then PLATFORM_REVENUE else PLATFORM_FEE_REVENUE)"
definition organizerType :: "bool \<Rightarrow> FinanceAccountType" where
  "organizerType useLegacy = (if useLegacy then ORGANIZER_BALANCE else ORGANIZER_AVAILABLE)"

definition tpl_paymentCapture :: "int \<Rightarrow> bool \<Rightarrow> EntryInput list" where
  "tpl_paymentCapture amount useLegacy =
     [mkEntry (cashType useLegacy) ''Platform Cash Clearing'' amount Debit no_meta,
      mkEntry (escrowType useLegacy) ''Platform Escrow Custody'' amount Credit no_meta]"

record SettlementTemplateInput =
  s_grossAmount :: int
  s_platformFee :: int
  s_tax :: int
  s_netOrganizerShare :: int
  s_organizerId :: string

definition tpl_settlement :: "SettlementTemplateInput \<Rightarrow> bool \<Rightarrow> EntryInput list" where
  "tpl_settlement input useLegacy =
     [mkEntry (escrowType useLegacy) ''Platform Escrow Custody'' (s_grossAmount input) Debit no_meta,
      mkEntry (revenueType useLegacy) ''Platform Commission Revenue'' (s_platformFee input) Credit no_meta,
      mkEntry TAX_PAYABLE ''Tax Liabilities (GST/VAT)'' (s_tax input) Credit no_meta,
      mkEntry (organizerType useLegacy) (''Organizer Available: '' @ s_organizerId input)
        (s_netOrganizerShare input) Credit (organizer_meta (s_organizerId input))]"

record RefundTemplateInput =
  rf_refundAmount :: int
  rf_organizerId :: "string option"
  rf_isSettled :: bool
  rf_platformFeeRefund :: "int option"
  rf_taxRefund :: "int option"
  rf_netOrganizerRefund :: "int option"

definition tpl_refund :: "RefundTemplateInput \<Rightarrow> bool \<Rightarrow> EntryInput list res" where
  "tpl_refund input useLegacy =
     (if \<not> rf_isSettled input then
        Inr [mkEntry (escrowType useLegacy) ''Platform Escrow Custody'' (rf_refundAmount input) Debit no_meta,
             mkEntry (cashType useLegacy) ''Platform Cash Clearing'' (rf_refundAmount input) Credit no_meta]
      else if \<not> truthy (rf_organizerId input) \<or> rf_netOrganizerRefund input = None
           \<or> rf_platformFeeRefund input = None \<or> rf_taxRefund input = None then
        Inl (PlainErr ''Organizer ID and refund breakdown required for settled refunds'')
      else
        Inr [mkEntry (organizerType useLegacy) (''Organizer Available: '' @ the (rf_organizerId input))
               (the (rf_netOrganizerRefund input)) Debit (organizer_meta (the (rf_organizerId input))),
             mkEntry (revenueType useLegacy) ''Platform Commission Revenue''
               (the (rf_platformFeeRefund input)) Debit no_meta,
             mkEntry TAX_PAYABLE ''Tax Liabilities (GST/VAT)'' (the (rf_taxRefund input)) Debit no_meta,
             mkEntry (cashType useLegacy) ''Platform Cash Clearing'' (rf_refundAmount input) Credit no_meta])"

definition tpl_withdrawal :: "int \<Rightarrow> string \<Rightarrow> bool \<Rightarrow> EntryInput list" where
  "tpl_withdrawal amount organizerId useLegacy =
     [mkEntry (organizerType useLegacy) (''Organizer Available: '' @ organizerId) amount Debit
        (organizer_meta organizerId),
      mkEntry (cashType useLegacy) ''Platform Cash Clearing'' amount Credit no_meta]"

lemmas template_defs = tpl_paymentCapture_def tpl_settlement_def tpl_refund_def tpl_withdrawal_def

lemma mkEntry_simps [simp]:
  "e_accountType (mkEntry ty nm a d m) = ty" "e_accountName (mkEntry ty nm a d m) = nm"
  "e_amount (mkEntry ty nm a d m) = a" "e_direction (mkEntry ty nm a d m) = d"
  "e_metadata (mkEntry ty nm a d m) = m"
  by (simp_all add: mkEntry_def)

lemma capture_balanced:
  "debit_sum (tpl_paymentCapture a l) = a" "credit_sum (tpl_paymentCapture a l) = a"
  by (simp_all add: tpl_paymentCapture_def sum_defs)

lemma withdrawal_balanced:
  "debit_sum (tpl_withdrawal a o' l) = a" "credit_sum (tpl_withdrawal a o' l) = a"
  by (simp_all add: tpl_withdrawal_def sum_defs)

lemma settlement_sums:
  "debit_sum (tpl_settlement i l) = s_grossAmount i"
  "credit_sum (tpl_settlement i l) = s_platformFee i + s_tax i + s_netOrganizerShare i"
  by (simp_all add: tpl_settlement_def sum_defs)

lemma refund_sums:
  "tpl_refund i l = Inr es \<Longrightarrow> credit_sum es = rf_refundAmount i"
  "tpl_refund i l = Inr es \<Longrightarrow> \<not> rf_isSettled i \<Longrightarrow> debit_sum es = rf_refundAmount i"
  "tpl_refund i l = Inr es \<Longrightarrow> rf_isSettled i \<Longrightarrow>
     debit_sum es = the (rf_netOrganizerRefund i) + the (rf_platformFeeRefund i) + the (rf_taxRefund i)"
  by (auto simp: tpl_refund_def sum_defs split: if_splits)

end
