(* ===== verification/LedgerStore.thy ===== *)
theory LedgerStore
  imports LedgerTypes JsNumber
begin

text \<open>
  The ledger tables (\<open>src/db/schema/ledger.ts\<close>) and the operations of
  \<open>src/modules/finance/repository.ts\<close> on them. A table is the list of its rows in insertion
  order; a \<open>numeric(14,2)\<close> column is its number of hundredths; a row without a foreign key
  to it is identified by its unique index. Ids come from the generator of the database,
  \<open>uuid\<close>, applied to a counter: what the code relies on is that two calls never give the
  same id (\<open>inj uuid\<close>). A transaction has one instant \<open>now\<close>, as \<open>now()\<close> has.
\<close>

section \<open>Tables\<close>

record ledger_account =
  la_id :: id
  la_tenant :: id
  la_type :: FinanceAccountType
  la_name :: string
  la_currency :: string
  la_status :: string
  la_precision :: int
  la_minorUnit :: int

record balance_row =
  br_tenant :: id
  br_account :: id
  br_balance :: int
  br_debit :: int
  br_credit :: int

record ledger_tx =
  lt_id :: id
  lt_tenant :: id
  lt_type :: string
  lt_amount :: int
  lt_currency :: string
  lt_referenceType :: string
  lt_referenceId :: string
  lt_previousHash :: string
  lt_currentHash :: string
  lt_createdAt :: time_ms

record ledger_entry =
  le_tenant :: id
  le_account :: id
  le_transaction :: id
  le_amount :: int
  le_direction :: direction
  le_referenceType :: string
  le_referenceId :: string
  le_metadata :: entry_meta

datatype key_status = Key_pending | Key_completed | Key_failed

datatype key_payload = No_payload | Receipt_payload PostingReceipt | Error_payload js_error

record idem_row =
  ik_tenant :: id
  ik_key :: string
  ik_razorpayPaymentId :: "string option"
  ik_bookingId :: "string option"
  ik_withdrawalId :: "string option"
  ik_refundId :: "string option"
  ik_status :: key_status
  ik_payload :: key_payload

record lock_row =
  lk_tenant :: id
  lk_key :: string
  lk_expiresAt :: time_ms

record audit_row =
  au_tenant :: id
  au_userId :: "string option"
  au_entityId :: id
  au_ipAddress :: "string option"
  au_requestId :: "string option"
  au_reference :: string
  au_afterState :: PostingReceipt
  au_transactionHash :: string
  au_idempotencyKey :: string

datatype event_status = Ev_pending | Ev_published | Ev_failed

record outbox_row =
  ob_id :: id
  ob_tenant :: id
  ob_transactionId :: id
  ob_transactionType :: string
  ob_amount :: int
  ob_receipt :: PostingReceipt
  ob_status :: event_status
  ob_publishedAt :: "time_ms option"

record ledger_db =
  accounts :: "ledger_account list"
  balances :: "balance_row list"
  transactions :: "ledger_tx list"
  entries :: "ledger_entry list"
  idem_keys :: "idem_row list"
  db_locks :: "lock_row list"
  audit_logs :: "audit_row list"
  outbox :: "outbox_row list"
  next_id :: nat

definition empty_ledger :: ledger_db where
  "empty_ledger = \<lparr>accounts = [], balances = [], transactions = [], entries = [],
     idem_keys = [], db_locks = [], audit_logs = [], outbox = [], next_id = 0\<rparr>"

section \<open>Accounts\<close>

definition same_account :: "id \<Rightarrow> FinanceAccountType \<Rightarrow> string \<Rightarrow> ledger_account \<Rightarrow> bool" where
  "same_account tenant ty nm a \<longleftrightarrow> la_tenant a = tenant \<and> la_type a = ty \<and> la_name a = nm"

text \<open>
  \<open>getOrCreateAccount\<close>: the existing account, or a new one together with its zero balance
  row. The unique index on \<open>(tenant, account)\<close> of the balances cannot fail for a new id.
\<close>

definition getOrCreateAccount ::
    "(nat \<Rightarrow> id) \<Rightarrow> id \<Rightarrow> FinanceAccountType \<Rightarrow> string \<Rightarrow> string \<Rightarrow> ledger_db \<Rightarrow> ledger_account \<times> ledger_db" where
  "getOrCreateAccount uuid tenant ty nm currency d =
     (case List.find (same_account tenant ty nm) (accounts d) of
        Some existing \<Rightarrow> (existing, d)
      | None \<Rightarrow>
          let a = \<lparr>la_id = uuid (next_id d), la_tenant = tenant, la_type = ty, la_name = nm,
                   la_currency = currency, la_status = ''active'', la_precision = 2, la_minorUnit = 100\<rparr>;
              b = \<lparr>br_tenant = tenant, br_account = la_id a, br_balance = 0, br_debit = 0, br_credit = 0\<rparr>
          in (a, d\<lparr>accounts := accounts d @ [a], balances := balances d @ [b], next_id := Suc (next_id d)\<rparr>))"

text \<open>\<open>AccountRegistry.resolveAccount\<close>: the registry's name, then the repository.\<close>

definition resolveAccount ::
    "(nat \<Rightarrow> id) \<Rightarrow> id \<Rightarrow> FinanceAccountType \<Rightarrow> string option \<Rightarrow> string \<Rightarrow> ledger_db
       \<Rightarrow> (ledger_account \<times> ledger_db) res" where
  "resolveAccount uuid tenant ty ctx currency d =
     bindR (account_name ty ctx) (\<lambda>nm. Inr (getOrCreateAccount uuid tenant ty nm currency d))"

definition findAccountById :: "id \<Rightarrow> ledger_db \<Rightarrow> ledger_account option" where
  "findAccountById i d = List.find (\<lambda>a. la_id a = i) (accounts d)"

definition findAccountByType ::
    "id \<Rightarrow> FinanceAccountType \<Rightarrow> string option \<Rightarrow> ledger_db \<Rightarrow> ledger_account option" where
  "findAccountByType tenant ty nm d =
     List.find (\<lambda>a. la_tenant a = tenant \<and> la_type a = ty \<and> (truthy nm \<longrightarrow> Some (la_name a) = nm))
       (accounts d)"

section \<open>Transactions and entries\<close>

text \<open>
  \<open>getLatestTransaction\<close>: the first row by descending creation time; among rows of one
  instant, the one inserted last.
\<close>

fun latest_by :: "('r \<Rightarrow> int) \<Rightarrow> 'r list \<Rightarrow> 'r option" where
  "latest_by k [] = None"
| "latest_by k (r # rs) =
     (case latest_by k rs of None \<Rightarrow> Some r | Some m \<Rightarrow> if k m < k r then Some r else Some m)"

definition tenant_txs :: "id \<Rightarrow> ledger_db \<Rightarrow> ledger_tx list" where
  "tenant_txs tenant d = filter (\<lambda>t. lt_tenant t = tenant) (transactions d)"

definition getLatestTransaction :: "id \<Rightarrow> ledger_db \<Rightarrow> ledger_tx option" where
  "getLatestTransaction tenant d = latest_by lt_createdAt (tenant_txs tenant d)"

definition createTransaction ::
    "(nat \<Rightarrow> id) \<Rightarrow> time_ms \<Rightarrow> TransactionInput \<Rightarrow> int \<Rightarrow> string \<Rightarrow> string \<Rightarrow> ledger_db \<Rightarrow> ledger_tx \<times> ledger_db" where
  "createTransaction uuid now input amount prev cur d =
     (let r = \<lparr>lt_id = uuid (next_id d), lt_tenant = t_tenantId input, lt_type = t_transactionType input,
               lt_amount = amount, lt_currency = t_currency input,
               lt_referenceType = t_referenceType input, lt_referenceId = t_referenceId input,
               lt_previousHash = prev, lt_currentHash = cur, lt_createdAt = now\<rparr>
      in (r, d\<lparr>transactions := transactions d @ [r], next_id := Suc (next_id d)\<rparr>))"

definition createEntries :: "ledger_entry list \<Rightarrow> ledger_db \<Rightarrow> ledger_entry list \<times> ledger_db" where
  "createEntries es d = (if es = [] then ([], d) else (es, d\<lparr>entries := entries d @ es\<rparr>))"

section \<open>Idempotency keys\<close>

definition is_key :: "id \<Rightarrow> string \<Rightarrow> idem_row \<Rightarrow> bool" where
  "is_key tenant key r \<longleftrightarrow> ik_tenant r = tenant \<and> ik_key r = key"

definition findIdempotencyKey :: "id \<Rightarrow> string \<Rightarrow> ledger_db \<Rightarrow> idem_row option" where
  "findIdempotencyKey tenant key d = List.find (is_key tenant key) (idem_keys d)"

definition createIdempotencyKey :: "idem_row \<Rightarrow> ledger_db \<Rightarrow> ledger_db" where
  "createIdempotencyKey r d = d\<lparr>idem_keys := idem_keys d @ [r]\<rparr>"

definition updateIdempotencyKey ::
    "id \<Rightarrow> string \<Rightarrow> key_status \<Rightarrow> key_payload \<Rightarrow> ledger_db \<Rightarrow> ledger_db" where
  "updateIdempotencyKey tenant key st p d =
     d\<lparr>idem_keys := update_where (is_key tenant key)
         (\<lambda>r. r\<lparr>ik_status := st, ik_payload := p\<rparr>) (idem_keys d)\<rparr>"

section \<open>Locks, audit log, outbox\<close>

definition is_lock :: "id \<Rightarrow> string \<Rightarrow> lock_row \<Rightarrow> bool" where
  "is_lock tenant key r \<longleftrightarrow> lk_tenant r = tenant \<and> lk_key r = key"

text \<open>
  \<open>acquireDbLock\<close>: expired rows of this key are removed, then the insert succeeds unless the
  unique index \<open>(tenant, lock_key)\<close> still has a row.
\<close>

definition acquireDbLock :: "id \<Rightarrow> string \<Rightarrow> int \<Rightarrow> time_ms \<Rightarrow> ledger_db \<Rightarrow> bool \<times> ledger_db" where
  "acquireDbLock tenant key ttlSeconds now d =
     (let live = filter (\<lambda>r. \<not> (is_lock tenant key r \<and> lk_expiresAt r < now)) (db_locks d)
      in if \<exists>r \<in> set live. is_lock tenant key r then (False, d\<lparr>db_locks := live\<rparr>)
         else (True, d\<lparr>db_locks := live @ [\<lparr>lk_tenant = tenant, lk_key = key,
                                             lk_expiresAt = now + ttlSeconds * 1000\<rparr>]\<rparr>))"

definition releaseDbLock :: "id \<Rightarrow> string \<Rightarrow> ledger_db \<Rightarrow> ledger_db" where
  "releaseDbLock tenant key d = d\<lparr>db_locks := filter (\<lambda>r. \<not> is_lock tenant key r) (db_locks d)\<rparr>"

definition createAuditLog :: "TransactionInput \<Rightarrow> PostingReceipt \<Rightarrow> ledger_db \<Rightarrow> ledger_db" where
  "createAuditLog input r d = d\<lparr>audit_logs := audit_logs d @
     [\<lparr>au_tenant = t_tenantId input, au_userId = t_userId input, au_entityId = r_transactionId r,
       au_ipAddress = t_ipAddress input, au_requestId = t_requestId input,
       au_reference = t_referenceType input @ '':'' @ t_referenceId input,
       au_afterState = r, au_transactionHash = r_transactionHash r,
       au_idempotencyKey = t_idempotencyKey input\<rparr>]\<rparr>"

definition createEvent ::
    "(nat \<Rightarrow> id) \<Rightarrow> TransactionInput \<Rightarrow> int \<Rightarrow> PostingReceipt \<Rightarrow> ledger_db \<Rightarrow> ledger_db" where
  "createEvent uuid input amount r d = d\<lparr>outbox := outbox d @
     [\<lparr>ob_id = uuid (next_id d), ob_tenant = t_tenantId input, ob_transactionId = r_transactionId r,
       ob_transactionType = t_transactionType input, ob_amount = amount, ob_receipt = r,
       ob_status = Ev_pending, ob_publishedAt = None\<rparr>], next_id := Suc (next_id d)\<rparr>"

section \<open>Running balances\<close>

definition is_balance :: "id \<Rightarrow> id \<Rightarrow> balance_row \<Rightarrow> bool" where
  "is_balance tenant account r \<longleftrightarrow> br_account r = account \<and> br_tenant r = tenant"

definition nonneg_type :: "FinanceAccountType \<Rightarrow> bool" where
  "nonneg_type ty \<longleftrightarrow> ty = ORGANIZER_BALANCE \<or> ty = ORGANIZER_AVAILABLE
     \<or> ty = PLATFORM_ESCROW \<or> ty = ESCROW"

definition insufficient_funds :: js_error where
  "insufficient_funds = PlainErr ''Insufficient funds: balance cannot go below zero''"

text \<open>
  \<open>updateRunningBalance\<close>, in the arithmetic of the code: the stored decimals are parsed to
  Numbers, the change is \<open>amount / 100\<close>, and the sums, the net balance and the comparison
  with zero are on Numbers; the columns get \<open>toFixed(2)\<close>.
\<close>

definition updateRunningBalance ::
    "id \<Rightarrow> id \<Rightarrow> int \<Rightarrow> direction \<Rightarrow> ledger_db \<Rightarrow> ledger_db res" where
  "updateRunningBalance accountId tenant amountChange dir d =
     (let row = List.find (is_balance tenant accountId) (balances d);
          change = js_div (of_int amountChange) 100;
          debit0 = (case row of None \<Rightarrow> 0 | Some r \<Rightarrow> parse_dec (br_debit r));
          credit0 = (case row of None \<Rightarrow> 0 | Some r \<Rightarrow> parse_dec (br_credit r));
          newDebit = (if dir = Debit then js_add debit0 change else debit0);
          newCredit = (if dir = Debit then credit0 else js_add credit0 change);
          newNet = js_sub newCredit newDebit
      in case findAccountById accountId d of
           None \<Rightarrow> Inl (PlainErr (''Account '' @ accountId @ '' not found''))
         | Some a \<Rightarrow>
             if nonneg_type (la_type a) \<and> newNet < 0 then Inl insufficient_funds
             else Inr (d\<lparr>balances :=
               (if row = None
                then balances d @ [\<lparr>br_tenant = tenant, br_account = accountId,
                       br_balance = to_fixed2 newNet, br_debit = to_fixed2 newDebit,
                       br_credit = to_fixed2 newCredit\<rparr>]
                else update_where (is_balance tenant accountId)
                       (\<lambda>r. r\<lparr>br_balance := to_fixed2 newNet, br_debit := to_fixed2 newDebit,
                              br_credit := to_fixed2 newCredit\<rparr>) (balances d))\<rparr>))"

definition getRunningBalance :: "id \<Rightarrow> id \<Rightarrow> ledger_db \<Rightarrow> balance_row option" where
  "getRunningBalance tenant accountId d = List.find (is_balance tenant accountId) (balances d)"

end
