(* ===== verification/LedgerEngine.thy ===== *)
theory LedgerEngine
  imports LedgerStore "HOL-Library.Sublist"
begin

text \<open>
  \<open>src/modules/finance/posting-engine\<close>: the engine that posts a transaction (idempotency key,
  posting transaction, bounded retry, failure marking, outbox publication), the builder that
  validates it, and the accounting rules of \<open>accounting/rule-engine.ts\<close> on top of them.

  A caller may hand in its own open database transaction. The idempotency key is then read and
  written through that transaction while the posting itself runs and commits in a transaction of
  its own, so the state has two layers: what is committed, and the key rows the caller's
  transaction has written and not committed.
\<close>

section \<open>Surroundings of a posting\<close>

text \<open>
  What the engine takes from outside: the id generator, SHA-256 as hex text, the start instant of
  each attempt's transaction, the database fault (if any) that aborts an attempt, and whether the
  Redis lock is granted.
\<close>

record post_env =
  env_uuid :: "nat \<Rightarrow> id"
  env_sha256 :: "string \<Rightarrow> string"
  env_clock :: "nat \<Rightarrow> time_ms"
  env_fault :: "nat \<Rightarrow> js_error option"
  env_lock :: bool

record ledger_world =
  committed :: ledger_db
  outer :: "idem_row list"

definition GENESIS_HASH :: string where
  "GENESIS_HASH = replicate 64 (CHR ''0'')"

section \<open>Idempotency keys through the caller's connection\<close>

definition find_key :: "bool \<Rightarrow> id \<Rightarrow> string \<Rightarrow> ledger_world \<Rightarrow> idem_row option" where
  "find_key ext tenant key w =
     (if ext then
        (case List.find (is_key tenant key) (outer w) of
           Some r \<Rightarrow> Some r
         | None \<Rightarrow> findIdempotencyKey tenant key (committed w))
      else findIdempotencyKey tenant key (committed w))"

definition create_key :: "bool \<Rightarrow> idem_row \<Rightarrow> ledger_world \<Rightarrow> ledger_world" where
  "create_key ext r w =
     (if ext then w\<lparr>outer := outer w @ [r]\<rparr>
      else w\<lparr>committed := createIdempotencyKey r (committed w)\<rparr>)"

definition update_key ::
    "bool \<Rightarrow> id \<Rightarrow> string \<Rightarrow> key_status \<Rightarrow> key_payload \<Rightarrow> ledger_world \<Rightarrow> ledger_world" where
  "update_key ext tenant key st p w =
     (if \<not> ext then w\<lparr>committed := updateIdempotencyKey tenant key st p (committed w)\<rparr>
      else if \<exists>r \<in> set (outer w). is_key tenant key r then
        w\<lparr>outer := update_where (is_key tenant key)
            (\<lambda>r. r\<lparr>ik_status := st, ik_payload := p\<rparr>) (outer w)\<rparr>
      else w\<lparr>outer := outer w @ map (\<lambda>r. r\<lparr>ik_status := st, ik_payload := p\<rparr>)
                                  (filter (is_key tenant key) (idem_keys (committed w)))\<rparr>)"

text \<open>The caller's transaction ends: its rows replace or join the committed ones, or vanish.\<close>

definition commit_outer :: "ledger_world \<Rightarrow> ledger_world" where
  "commit_outer w = \<lparr>committed = (committed w)\<lparr>idem_keys :=
       filter (\<lambda>r. \<not> (\<exists>s \<in> set (outer w). is_key (ik_tenant r) (ik_key r) s))
         (idem_keys (committed w)) @ outer w\<rparr>, outer = []\<rparr>"

definition rollback_outer :: "ledger_world \<Rightarrow> ledger_world" where
  "rollback_outer w = w\<lparr>outer := []\<rparr>"

section \<open>Inside the posting transaction\<close>

record resolved_entry =
  re_accountId :: id
  re_accountName :: string
  re_amount :: int
  re_direction :: direction
  re_metadata :: entry_meta

definition entry_context :: "entry_meta \<Rightarrow> string option" where
  "entry_context m = or_else (m_organizerId m) (or_else (m_customerId m) None)"

definition currency_mismatch :: "ledger_account \<Rightarrow> string \<Rightarrow> js_error" where
  "currency_mismatch a currency = PlainErr (''Currency mismatch. Account '' @ la_name a @ '' operates in ''
     @ la_currency a @ '', transaction expects '' @ currency)"

fun resolveEntries ::
    "(nat \<Rightarrow> id) \<Rightarrow> id \<Rightarrow> string \<Rightarrow> EntryInput list \<Rightarrow> ledger_db
       \<Rightarrow> (resolved_entry list \<times> ledger_db) res" where
  "resolveEntries uuid tenant currency [] d = Inr ([], d)"
| "resolveEntries uuid tenant currency (e # es) d =
     bindR (resolveAccount uuid tenant (e_accountType e) (entry_context (e_metadata e)) currency d)
       (\<lambda>(a, d1). bindR (guardR (toUpperCase (la_currency a) = toUpperCase currency)
                                (currency_mismatch a currency))
          (\<lambda>_. bindR (resolveEntries uuid tenant currency es d1)
            (\<lambda>(rs, d2). Inr (\<lparr>re_accountId = la_id a, re_accountName = la_name a,
                               re_amount = e_amount e, re_direction = e_direction e,
                               re_metadata = e_metadata e\<rparr> # rs, d2))))"

fun direction_text :: "direction \<Rightarrow> string" where
  "direction_text Debit = ''debit''"
| "direction_text Credit = ''credit''"

text \<open>The text that is hashed, built by the engine and rebuilt by the audit.\<close>

definition txnDetails ::
    "id \<Rightarrow> string \<Rightarrow> int \<Rightarrow> string \<Rightarrow> string \<Rightarrow> string \<Rightarrow> (id \<times> direction \<times> int) list \<Rightarrow> string" where
  "txnDetails tenant ty amount currency refType refId es = json_object
     [(''tenantId'', json_string tenant), (''transactionType'', json_string ty),
      (''amount'', show_int amount), (''currency'', json_string currency),
      (''referenceType'', json_string refType), (''referenceId'', json_string refId),
      (''entries'', json_array (map (\<lambda>(a, dir, n). json_object
         [(''accountId'', json_string a), (''direction'', json_string (direction_text dir)),
          (''amount'', show_int n)]) es))]"

definition minor_to_dec :: "int \<Rightarrow> int" where
  "minor_to_dec n = to_fixed2 (js_div (of_int n) 100)"

definition to_ledger_entry :: "TransactionInput \<Rightarrow> id \<Rightarrow> resolved_entry \<Rightarrow> ledger_entry" where
  "to_ledger_entry input txId e =
     \<lparr>le_tenant = t_tenantId input, le_account = re_accountId e, le_transaction = txId,
      le_amount = minor_to_dec (re_amount e), le_direction = re_direction e,
      le_referenceType = t_referenceType input, le_referenceId = t_referenceId input,
      le_metadata = re_metadata e\<rparr>"

definition chain_head :: "id \<Rightarrow> ledger_db \<Rightarrow> string" where
  "chain_head tenant d =
     (case getLatestTransaction tenant d of None \<Rightarrow> GENESIS_HASH | Some t \<Rightarrow> lt_currentHash t)"

definition input_hash :: "(string \<Rightarrow> string) \<Rightarrow> string \<Rightarrow> TransactionInput \<Rightarrow> resolved_entry list \<Rightarrow> string" where
  "input_hash sha prev input rs = sha (prev @ txnDetails (t_tenantId input) (t_transactionType input)
     (t_amount input) (t_currency input) (t_referenceType input) (t_referenceId input)
     (map (\<lambda>e. (re_accountId e, re_direction e, re_amount e)) rs))"

definition apply_balances :: "id \<Rightarrow> resolved_entry list \<Rightarrow> ledger_db \<Rightarrow> ledger_db res" where
  "apply_balances tenant =
     forR (\<lambda>e. updateRunningBalance (re_accountId e) tenant (re_amount e) (re_direction e))"

definition postingBody ::
    "post_env \<Rightarrow> time_ms \<Rightarrow> TransactionInput \<Rightarrow> ledger_db \<Rightarrow> (PostingReceipt \<times> ledger_db) res" where
  "postingBody E now input d =
     bindR (resolveEntries (env_uuid E) (t_tenantId input) (t_currency input) (t_entries input) d)
       (\<lambda>(rs, d1).
          let prev = chain_head (t_tenantId input) d1;
              cur = input_hash (env_sha256 E) prev input rs;
              amount = minor_to_dec (t_amount input);
              (row, d2) = createTransaction (env_uuid E) now input amount prev cur d1;
              (es, d3) = createEntries (map (to_ledger_entry input (lt_id row)) rs) d2
          in bindR (apply_balances (t_tenantId input) rs d3)
               (\<lambda>d4.
                  let receipt = \<lparr>r_success = True, r_transactionId = lt_id row, r_transactionHash = cur,
                                 r_entriesCount = length es, r_idempotencyKey = t_idempotencyKey input\<rparr>;
                      d5 = createAuditLog input receipt d4;
                      d6 = createEvent (env_uuid E) input amount receipt d5;
                      d7 = updateIdempotencyKey (t_tenantId input) (t_idempotencyKey input)
                             Key_completed (Receipt_payload receipt) d6
                  in Inr (receipt, d7)))"

definition thread_lock_failed :: js_error where
  "thread_lock_failed =
     PlainErr ''Database thread lock acquisition failed. Parallel process holding transaction.''"

definition postingTxn ::
    "post_env \<Rightarrow> time_ms \<Rightarrow> TransactionInput \<Rightarrow> ledger_db \<Rightarrow> (PostingReceipt \<times> ledger_db) res" where
  "postingTxn E now input d =
     (let (got, d0) = acquireDbLock (t_tenantId input) (t_idempotencyKey input) 15 now d
      in if \<not> got then Inl thread_lock_failed
         else bindR (postingBody E now input d0)
                (\<lambda>(r, d1). Inr (r, releaseDbLock (t_tenantId input) (t_idempotencyKey input) d1)))"

section \<open>Bounded retry\<close>

fun error_message :: "js_error \<Rightarrow> string" where
  "error_message (AppErr e) = err_message e"
| "error_message (PlainErr m) = m"
| "error_message (DbErr c m) = m"

fun error_sqlstate :: "js_error \<Rightarrow> string" where
  "error_sqlstate (DbErr c m) = c"
| "error_sqlstate _ = []"

definition isTransientFault :: "js_error \<Rightarrow> bool" where
  "isTransientFault e \<longleftrightarrow>
     error_sqlstate e \<in> {''40001'', ''40P01'', ''23505'', ''25P02'', ''55P03''}
     \<or> (\<exists>p \<in> {''deadlock'', ''could not serialize'', ''current transaction is aborted'',
              ''duplicate key value''}. sublist p (toLowerCase (error_message e)))"

definition maxPostingAttempts :: nat where "maxPostingAttempts = 6"

definition post_attempt ::
    "post_env \<Rightarrow> TransactionInput \<Rightarrow> ledger_db \<Rightarrow> nat \<Rightarrow> (PostingReceipt \<times> ledger_db) res" where
  "post_attempt E input d attempt =
     (case env_fault E attempt of
        Some e \<Rightarrow> Inl e
      | None \<Rightarrow> postingTxn E (env_clock E attempt) input d)"

function post_attempts ::
    "post_env \<Rightarrow> TransactionInput \<Rightarrow> ledger_db \<Rightarrow> nat \<Rightarrow> (PostingReceipt \<times> ledger_db) res" where
  "post_attempts E input d attempt =
     (case post_attempt E input d attempt of
        Inr x \<Rightarrow> Inr x
      | Inl e \<Rightarrow> if isTransientFault e \<and> attempt < maxPostingAttempts
                then post_attempts E input d (Suc attempt) else Inl e)"
  by pat_completeness auto
termination
  by (relation "measure (\<lambda>(_, _, _, n). maxPostingAttempts - n)") (auto simp: maxPostingAttempts_def)

declare post_attempts.simps [simp del]

section \<open>\<open>postTransaction\<close>\<close>

definition nullish :: "'a option \<Rightarrow> 'a option \<Rightarrow> 'a option" where
  "nullish x y = (case x of None \<Rightarrow> y | Some v \<Rightarrow> Some v)"

definition ref_if :: "string \<Rightarrow> TransactionInput \<Rightarrow> string option" where
  "ref_if ty input = (if t_referenceType input = ty then Some (t_referenceId input) else None)"

definition pending_key :: "TransactionInput \<Rightarrow> idem_row" where
  "pending_key input =
     \<lparr>ik_tenant = t_tenantId input, ik_key = t_idempotencyKey input,
      ik_razorpayPaymentId = nullish (t_razorpayPaymentId input) (ref_if ''payment_transaction'' input),
      ik_bookingId = nullish (t_bookingId input) (ref_if ''booking_order'' input),
      ik_withdrawalId = nullish (t_withdrawalId input) (ref_if ''withdrawal_request'' input),
      ik_refundId = nullish (t_refundId input) (ref_if ''payment_refund'' input),
      ik_status = Key_pending, ik_payload = No_payload\<rparr>"

definition lock_refused :: "TransactionInput \<Rightarrow> js_error" where
  "lock_refused input = PlainErr (''Concurrency Lock could not be acquired for key: ''
     @ t_idempotencyKey input @ ''. Operation is already in progress.'')"

definition already_processing :: "TransactionInput \<Rightarrow> js_error" where
  "already_processing input = PlainErr (''Idempotency key '' @ t_idempotencyKey input
     @ '' is already processing in another process.'')"

fun payload_receipt :: "key_payload \<Rightarrow> PostingReceipt option" where
  "payload_receipt (Receipt_payload r) = Some r"
| "payload_receipt _ = None"

text \<open>
  A completed key answers with its stored payload, whatever it is; a pending key and every error
  of the posting end in the \<open>catch\<close>, which marks the key failed.
\<close>

definition fail_posting ::
    "bool \<Rightarrow> TransactionInput \<Rightarrow> js_error \<Rightarrow> ledger_world \<Rightarrow> PostingReceipt option res \<times> ledger_world" where
  "fail_posting ext input e w =
     (Inl e, update_key ext (t_tenantId input) (t_idempotencyKey input) Key_failed (Error_payload e) w)"

definition run_posting ::
    "post_env \<Rightarrow> bool \<Rightarrow> TransactionInput \<Rightarrow> ledger_world \<Rightarrow> PostingReceipt option res \<times> ledger_world" where
  "run_posting E ext input w =
     (case post_attempts E input (committed w) 1 of
        Inr (r, d) \<Rightarrow> (Inr (Some r), w\<lparr>committed := d\<rparr>)
      | Inl e \<Rightarrow> fail_posting ext input e w)"

definition postTransaction ::
    "post_env \<Rightarrow> bool \<Rightarrow> TransactionInput \<Rightarrow> ledger_world \<Rightarrow> PostingReceipt option res \<times> ledger_world" where
  "postTransaction E ext input w =
     (if \<not> env_lock E then (Inl (lock_refused input), w)
      else case find_key ext (t_tenantId input) (t_idempotencyKey input) w of
        Some k \<Rightarrow>
          (case ik_status k of
             Key_completed \<Rightarrow> (Inr (payload_receipt (ik_payload k)), w)
           | Key_pending \<Rightarrow> fail_posting ext input (already_processing input) w
           | Key_failed \<Rightarrow> run_posting E ext input w)
      | None \<Rightarrow> run_posting E ext input (create_key ext (pending_key input) w))"

section \<open>Publishing an outbox event\<close>

text \<open>\<open>delivered\<close> is the outcome of the QStash call.\<close>

definition publishOutboxEvent :: "js_error + unit \<Rightarrow> time_ms \<Rightarrow> id \<Rightarrow> ledger_db \<Rightarrow> unit res \<times> ledger_db" where
  "publishOutboxEvent delivered now eventId d =
     (case List.find (\<lambda>v. ob_id v = eventId) (outbox d) of
        None \<Rightarrow> (Inr (), d)
      | Some v \<Rightarrow>
          if ob_status v = Ev_published then (Inr (), d)
          else (case delivered of
            Inr _ \<Rightarrow> (Inr (), d\<lparr>outbox := update_where (\<lambda>x. ob_id x = eventId)
                (\<lambda>x. x\<lparr>ob_status := Ev_published, ob_publishedAt := Some now\<rparr>) (outbox d)\<rparr>)
          | Inl e \<Rightarrow> (Inl e, d\<lparr>outbox := update_where (\<lambda>x. ob_id x = eventId)
                (\<lambda>x. x\<lparr>ob_status := Ev_failed\<rparr>) (outbox d)\<rparr>)))"

section \<open>The transaction builder\<close>

record builder =
  b_tenantId :: "string option"
  b_transactionType :: "string option"
  b_amount :: int
  b_currency :: string
  b_referenceType :: "string option"
  b_referenceId :: "string option"
  b_idempotencyKey :: "string option"
  b_entries :: "EntryInput list"
  b_userId :: "string option"
  b_ipAddress :: "string option"
  b_requestId :: "string option"

definition new_builder :: builder where
  "new_builder = \<lparr>b_tenantId = None, b_transactionType = None, b_amount = 0, b_currency = ''INR'',
     b_referenceType = None, b_referenceId = None, b_idempotencyKey = None, b_entries = [],
     b_userId = None, b_ipAddress = None, b_requestId = None\<rparr>"

definition organization :: "string \<Rightarrow> builder \<Rightarrow> builder" where
  "organization t b = b\<lparr>b_tenantId := Some t\<rparr>"
definition tx_type :: "string \<Rightarrow> builder \<Rightarrow> builder" where
  "tx_type t b = b\<lparr>b_transactionType := Some t\<rparr>"
definition totalAmount :: "int \<Rightarrow> builder \<Rightarrow> builder" where
  "totalAmount n b = b\<lparr>b_amount := n\<rparr>"
definition currencyCode :: "string \<Rightarrow> builder \<Rightarrow> builder" where
  "currencyCode c b = b\<lparr>b_currency := c\<rparr>"
definition reference :: "string \<Rightarrow> string \<Rightarrow> builder \<Rightarrow> builder" where
  "reference t i b = b\<lparr>b_referenceType := Some t, b_referenceId := Some i\<rparr>"
definition idempotency :: "string \<Rightarrow> builder \<Rightarrow> builder" where
  "idempotency k b = b\<lparr>b_idempotencyKey := Some k\<rparr>"
definition actor :: "string option \<Rightarrow> builder \<Rightarrow> builder" where
  "actor u b = (if truthy u then b\<lparr>b_userId := u\<rparr> else b)"
definition context_info :: "string option \<Rightarrow> string option \<Rightarrow> builder \<Rightarrow> builder" where
  "context_info ip rid b =
     (let b1 = (if truthy ip then b\<lparr>b_ipAddress := ip\<rparr> else b)
      in if truthy rid then b1\<lparr>b_requestId := rid\<rparr> else b1)"
definition debit :: "FinanceAccountType \<Rightarrow> int \<Rightarrow> string \<Rightarrow> entry_meta \<Rightarrow> builder \<Rightarrow> builder" where
  "debit ty a nm m b = b\<lparr>b_entries := b_entries b @ [mkEntry ty nm a Debit m]\<rparr>"
definition credit :: "FinanceAccountType \<Rightarrow> int \<Rightarrow> string \<Rightarrow> entry_meta \<Rightarrow> builder \<Rightarrow> builder" where
  "credit ty a nm m b = b\<lparr>b_entries := b_entries b @ [mkEntry ty nm a Credit m]\<rparr>"

text \<open>The loop over template entries, which pushes each on its side.\<close>

definition push_entry :: "EntryInput \<Rightarrow> builder \<Rightarrow> builder" where
  "push_entry e b =
     (if e_direction e = Debit
      then debit (e_accountType e) (e_amount e) (e_accountName e) (e_metadata e) b
      else credit (e_accountType e) (e_amount e) (e_accountName e) (e_metadata e) b)"

definition push_entries :: "EntryInput list \<Rightarrow> builder \<Rightarrow> builder" where
  "push_entries es b = fold push_entry es b"

definition builder_input :: "builder \<Rightarrow> TransactionInput" where
  "builder_input b =
     \<lparr>t_tenantId = the (b_tenantId b), t_transactionType = the (b_transactionType b),
      t_amount = b_amount b, t_currency = b_currency b,
      t_referenceType = the (b_referenceType b), t_referenceId = the (b_referenceId b),
      t_idempotencyKey = the (b_idempotencyKey b), t_razorpayPaymentId = None, t_bookingId = None,
      t_withdrawalId = None, t_refundId = None, t_entries = b_entries b,
      t_userId = b_userId b, t_ipAddress = b_ipAddress b, t_requestId = b_requestId b\<rparr>"

definition validate_builder :: "builder \<Rightarrow> unit res" where
  "validate_builder b =
     bindR (guardR (truthy (b_tenantId b)) (PlainErr ''Tenant ID is required'')) (\<lambda>_.
     bindR (guardR (truthy (b_transactionType b)) (PlainErr ''Transaction type is required'')) (\<lambda>_.
     bindR (guardR (0 < b_amount b) (PlainErr ''Transaction amount must be positive'')) (\<lambda>_.
     bindR (guardR (truthy (b_referenceType b) \<and> truthy (b_referenceId b))
              (PlainErr ''Reference type and reference ID are required'')) (\<lambda>_.
     bindR (guardR (truthy (b_idempotencyKey b)) (PlainErr ''Idempotency key is required'')) (\<lambda>_.
     bindR (guardR (b_entries b \<noteq> []) (PlainErr ''Transaction must contain at least one entry'')) (\<lambda>_.
     bindR (guardR (debit_sum (b_entries b) = credit_sum (b_entries b))
              (PlainErr (''Unbalanced transaction builder. Debits ('' @ show_int (debit_sum (b_entries b))
                 @ '') must equal Credits ('' @ show_int (credit_sum (b_entries b)) @ '')''))) (\<lambda>_.
     guardR (debit_sum (b_entries b) = b_amount b)
       (PlainErr (''Transaction amount ('' @ show_int (b_amount b) @ '') does not match entry sums (''
          @ show_int (debit_sum (b_entries b)) @ '')'')))))))))"

definition builder_post ::
    "post_env \<Rightarrow> bool \<Rightarrow> builder \<Rightarrow> ledger_world \<Rightarrow> PostingReceipt option res \<times> ledger_world" where
  "builder_post E ext b w =
     (case validate_builder b of
        Inl e \<Rightarrow> (Inl e, w)
      | Inr _ \<Rightarrow> postTransaction E ext (builder_input b) w)"

section \<open>Accounting rules\<close>

text \<open>
  \<open>AccountingRuleEngine\<close>; the services of \<open>escrow\<close>, \<open>settlement\<close>,
  \<open>refund\<close> and \<open>withdrawal\<close> forward to it. The templates are called without
  their second argument, which defaults to the legacy account types.
\<close>

record capture_params =
  pc_tenantId :: string
  pc_paymentId :: string
  pc_amount :: int
  pc_currency :: string
  pc_idempotencyKey :: string
  pc_userId :: "string option"
  pc_ipAddress :: "string option"
  pc_requestId :: "string option"

definition capture_builder :: "capture_params \<Rightarrow> builder" where
  "capture_builder p =
     push_entries (tpl_paymentCapture (pc_amount p) True)
       (context_info (pc_ipAddress p) (pc_requestId p) (actor (pc_userId p)
         (idempotency (pc_idempotencyKey p) (reference ''payment_transaction'' (pc_paymentId p)
           (currencyCode (pc_currency p) (totalAmount (pc_amount p)
             (tx_type ''TICKET_PURCHASE_CAPTURE'' (organization (pc_tenantId p) new_builder))))))))"

definition postPaymentCapture ::
    "post_env \<Rightarrow> bool \<Rightarrow> capture_params \<Rightarrow> ledger_world \<Rightarrow> PostingReceipt option res \<times> ledger_world" where
  "postPaymentCapture E ext p = builder_post E ext (capture_builder p)"

record settlement_params =
  ps_tenantId :: string
  ps_settlementRunId :: string
  ps_split :: SettlementTemplateInput
  ps_idempotencyKey :: string
  ps_userId :: "string option"

definition settlement_builder :: "settlement_params \<Rightarrow> builder" where
  "settlement_builder p =
     push_entries (tpl_settlement (ps_split p) True)
       (actor (ps_userId p) (idempotency (ps_idempotencyKey p)
         (reference ''settlement_run'' (ps_settlementRunId p) (currencyCode ''INR''
           (totalAmount (s_grossAmount (ps_split p))
             (tx_type ''ORGANIZER_SETTLEMENT'' (organization (ps_tenantId p) new_builder)))))))"

definition postSettlement ::
    "post_env \<Rightarrow> bool \<Rightarrow> settlement_params \<Rightarrow> ledger_world \<Rightarrow> PostingReceipt option res \<times> ledger_world" where
  "postSettlement E ext p = builder_post E ext (settlement_builder p)"

record refund_params =
  pr_tenantId :: string
  pr_refundId :: string
  pr_refund :: RefundTemplateInput
  pr_idempotencyKey :: string
  pr_userId :: "string option"

definition refund_builder :: "refund_params \<Rightarrow> EntryInput list \<Rightarrow> builder" where
  "refund_builder p es =
     push_entries es
       (actor (pr_userId p) (idempotency (pr_idempotencyKey p)
         (reference ''payment_refund'' (pr_refundId p) (currencyCode ''INR''
           (totalAmount (rf_refundAmount (pr_refund p))
             (tx_type (if rf_isSettled (pr_refund p) then ''TICKET_PURCHASE_REFUND_SETTLED''
                       else ''TICKET_PURCHASE_REFUND_ESCROW'')
               (organization (pr_tenantId p) new_builder)))))))"

definition postRefund ::
    "post_env \<Rightarrow> bool \<Rightarrow> refund_params \<Rightarrow> ledger_world \<Rightarrow> PostingReceipt option res \<times> ledger_world" where
  "postRefund E ext p w =
     (case tpl_refund (pr_refund p) True of
        Inl e \<Rightarrow> (Inl e, w)
      | Inr es \<Rightarrow> builder_post E ext (refund_builder p es) w)"

record withdrawal_params =
  pw_tenantId :: string
  pw_withdrawalRequestId :: string
  pw_organizerId :: string
  pw_amount :: int
  pw_idempotencyKey :: string
  pw_userId :: "string option"

definition withdrawal_builder :: "withdrawal_params \<Rightarrow> builder" where
  "withdrawal_builder p =
     push_entries (tpl_withdrawal (pw_amount p) (pw_organizerId p) True)
       (actor (pw_userId p) (idempotency (pw_idempotencyKey p)
         (reference ''withdrawal_request'' (pw_withdrawalRequestId p) (currencyCode ''INR''
           (totalAmount (pw_amount p)
             (tx_type ''ORGANIZER_WITHDRAWAL'' (organization (pw_tenantId p) new_builder)))))))"

definition postWithdrawal ::
    "post_env \<Rightarrow> bool \<Rightarrow> withdrawal_params \<Rightarrow> ledger_world \<Rightarrow> PostingReceipt option res \<times> ledger_world" where
  "postWithdrawal E ext p = builder_post E ext (withdrawal_builder p)"

end
