(* ===== verification/LedgerBooks.thy ===== *)
theory LedgerBooks
  imports LedgerEngine
begin

text \<open>
  The books: what the posting engine keeps true of the ledger tables. The lemmas go from the
  repository operations to the posting transaction, to its bounded retry and to the worlds that
  any sequence of postings, commits and rollbacks can reach; the properties are at the end.
\<close>

section \<open>Accounts and entries\<close>

text \<open>What resolving accounts may change: it adds accounts and their zero balance rows.\<close>

definition same_books :: "ledger_db \<Rightarrow> ledger_db \<Rightarrow> bool" where
  "same_books d d' \<longleftrightarrow> transactions d' = transactions d \<and> entries d' = entries d
     \<and> idem_keys d' = idem_keys d \<and> db_locks d' = db_locks d \<and> audit_logs d' = audit_logs d
     \<and> outbox d' = outbox d \<and> next_id d \<le> next_id d'
     \<and> (\<exists>new. accounts d' = accounts d @ new)"

definition unique_ids :: "(nat \<Rightarrow> id) \<Rightarrow> ledger_db \<Rightarrow> bool" where
  "unique_ids uuid d \<longleftrightarrow>
     (\<forall>a \<in> set (accounts d). la_id a \<in> uuid ` {..<next_id d}) \<and> distinct (map la_id (accounts d))
     \<and> (\<forall>t \<in> set (transactions d). lt_id t \<in> uuid ` {..<next_id d})
     \<and> distinct (map lt_id (transactions d))
     \<and> (\<forall>e \<in> set (entries d). le_transaction e \<in> lt_id ` set (transactions d)
          \<and> le_account e \<in> la_id ` set (accounts d))"

lemma same_books_refl [simp]: "same_books d d"
  by (simp add: same_books_def)

lemma same_books_trans: "same_books d e \<Longrightarrow> same_books e f \<Longrightarrow> same_books d f"
  by (auto simp: same_books_def)

lemma uuid_fresh: "inj uuid \<Longrightarrow> uuid (n :: nat) \<notin> uuid ` {..<n}"
  by (simp add: inj_image_mem_iff)

lemma uuid_mono: "x \<in> uuid ` {..<m :: nat} \<Longrightarrow> m \<le> n \<Longrightarrow> x \<in> uuid ` {..<n}"
  by force

lemma unique_ids_widen:
  "unique_ids uuid d \<Longrightarrow> accounts d' = accounts d \<Longrightarrow> transactions d' = transactions d \<Longrightarrow>
    entries d' = entries d \<Longrightarrow> next_id d \<le> next_id d' \<Longrightarrow> unique_ids uuid d'"
  by (auto simp: unique_ids_def intro: uuid_mono)

lemma getOrCreateAccount_frame:
  "getOrCreateAccount uuid t ty nm cur d = (a, d') \<Longrightarrow>
     same_books d d' \<and> a \<in> set (accounts d') \<and> la_tenant a = t \<and> la_type a = ty"
  by (auto simp: getOrCreateAccount_def Let_def same_books_def same_account_def
      split: option.splits dest: find_SomeD)

lemma getOrCreateAccount_unique:
  assumes "inj uuid" and "getOrCreateAccount uuid t ty nm cur d = (a, d')" and "unique_ids uuid d"
  shows "unique_ids uuid d'"
proof (cases "List.find (same_account t ty nm) (accounts d)")
  case None
  with assms(2) have "accounts d' = accounts d @ [a]" "la_id a = uuid (next_id d)"
    "next_id d' = Suc (next_id d)" "transactions d' = transactions d" "entries d' = entries d"
    by (auto simp: getOrCreateAccount_def Let_def)
  moreover have "uuid (next_id d) \<notin> la_id ` set (accounts d)"
    using assms(3) uuid_fresh [OF assms(1)] unfolding unique_ids_def by (metis imageE)
  ultimately show ?thesis
    using assms(3) by (auto simp: unique_ids_def image_iff lessThan_Suc)
next
  case (Some b)
  with assms show ?thesis by (simp add: getOrCreateAccount_def)
qed

lemma resolveEntries_frame:
  "resolveEntries uuid t cur es d = Inr (rs, d') \<Longrightarrow>
     same_books d d' \<and> map re_amount rs = map e_amount es \<and> map re_direction rs = map e_direction es
     \<and> (\<forall>r \<in> set rs. re_accountId r \<in> la_id ` set (accounts d'))"
proof (induction es arbitrary: d rs d')
  case (Cons e es)
  then obtain a d1 rs' where a: "resolveAccount uuid t (e_accountType e) (entry_context (e_metadata e)) cur d
      = Inr (a, d1)"
    and es: "resolveEntries uuid t cur es d1 = Inr (rs', d')"
    and rs: "rs = \<lparr>re_accountId = la_id a, re_accountName = la_name a, re_amount = e_amount e,
      re_direction = e_direction e, re_metadata = e_metadata e\<rparr> # rs'"
    by (auto simp: res_simps split: prod.splits)
  from a have g: "same_books d d1" "a \<in> set (accounts d1)" "la_tenant a = t"
    by (auto simp: resolveAccount_def res_simps dest!: getOrCreateAccount_frame)
  note ih = Cons.IH [OF es]
  then have "a \<in> set (accounts d')" using g(2) by (auto simp: same_books_def)
  with g rs ih same_books_trans show ?case
    by (auto simp: image_iff)
qed simp

lemma resolveEntries_unique:
  assumes "inj uuid"
  shows "resolveEntries uuid t cur es d = Inr (rs, d') \<Longrightarrow> unique_ids uuid d \<Longrightarrow> unique_ids uuid d'"
proof (induction es arbitrary: d rs d')
  case (Cons e es)
  then obtain a d1 rs' where "resolveAccount uuid t (e_accountType e) (entry_context (e_metadata e)) cur d
      = Inr (a, d1)"
    and es: "resolveEntries uuid t cur es d1 = Inr (rs', d')"
    by (auto simp: res_simps split: prod.splits)
  then have "unique_ids uuid d1"
    using Cons.prems(2) by (auto simp: resolveAccount_def res_simps dest: getOrCreateAccount_unique [OF assms])
  then show ?case by (rule Cons.IH [OF es])
qed simp

section \<open>Running balances in cents\<close>

definition row_of :: "id \<Rightarrow> id \<Rightarrow> ledger_db \<Rightarrow> balance_row" where
  "row_of t a d = (case getRunningBalance t a d of
     None \<Rightarrow> \<lparr>br_tenant = t, br_account = a, br_balance = 0, br_debit = 0, br_credit = 0\<rparr>
   | Some r \<Rightarrow> r)"

lemma minor_to_dec: "\<bar>n\<bar> < 2 ^ 52 \<Longrightarrow> minor_to_dec n = n"
  using to_fixed2_parse_dec [of n] by (simp add: minor_to_dec_def js_div_def parse_dec_def)

lemma js_div_100: "js_div (of_int n) 100 = parse_dec n"
  by (simp add: js_div_def parse_dec_def)

text \<open>
  One update on exact cents: while debits and credits stay below \<open>2 ^ 48\<close> hundredths the
  stored columns are the integer sums, other rows are untouched, and the net balance of a
  protected account is not negative.
\<close>

lemma updateRunningBalance_row:
  assumes up: "updateRunningBalance acc ten n dir d = Inr d'"
    and r: "r = row_of ten acc d" and n: "0 \<le> n"
    and deb: "0 \<le> br_debit r" "br_debit r + n < 2 ^ 48"
    and cre: "0 \<le> br_credit r" "br_credit r + n < 2 ^ 48"
    and r': "r' = row_of ten acc d'"
  shows "br_debit r' = br_debit r + (if dir = Debit then n else 0)"
    and "br_credit r' = br_credit r + (if dir = Credit then n else 0)"
    and "br_balance r' = br_credit r' - br_debit r'"
    and "findAccountById acc d = Some a \<Longrightarrow> nonneg_type (la_type a) \<Longrightarrow> 0 \<le> br_balance r'"
proof -
  define nd nc where "nd = br_debit r + (if dir = Debit then n else 0)"
    and "nc = br_credit r + (if dir = Credit then n else 0)"
  define fd fc where "fd = (if dir = Debit then js_add (parse_dec (br_debit r)) (parse_dec n) else parse_dec (br_debit r))"
    and "fc = (if dir = Debit then parse_dec (br_credit r) else js_add (parse_dec (br_credit r)) (parse_dec n))"
  have bounds: "0 \<le> nd" "nd < 2 ^ 48" "0 \<le> nc" "nc < 2 ^ 48"
    using n deb cre by (auto simp: nd_def nc_def)
  have efd: "\<bar>fd - of_int nd / 100\<bar> < 1 / 1000"
    using cents_add_error [OF deb(1) n deb(2)] cents_error [OF deb(1)] n deb(2)
    by (auto simp: fd_def nd_def)
  have efc: "\<bar>fc - of_int nc / 100\<bar> < 1 / 1000"
    using cents_add_error [OF cre(1) n cre(2)] cents_error [OF cre(1)] n cre(2)
    by (cases dir) (auto simp: fc_def nc_def)
  have near: "\<bar>fd - of_int nd / 100\<bar> < 1 / 200" "\<bar>fc - of_int nc / 100\<bar> < 1 / 200"
    using efd efc by linarith+
  have fixed: "to_fixed2 fd = nd" "to_fixed2 fc = nc" "to_fixed2 (js_sub fc fd) = nc - nd"
    using to_fixed2_near [OF near(1)] to_fixed2_near [OF near(2)]
      to_fixed2_sub [OF efc efd bounds(3,4) bounds(1,2)] by auto
  have row: "r' = r\<lparr>br_balance := nc - nd, br_debit := nd, br_credit := nc\<rparr>"
  proof (cases "getRunningBalance ten acc d")
    case None
    then have r0: "r = \<lparr>br_tenant = ten, br_account = acc, br_balance = 0, br_debit = 0, br_credit = 0\<rparr>"
      by (simp add: r row_of_def)
    show ?thesis
      using up None fixed unfolding r' r0 fd_def fc_def
      by (auto simp: updateRunningBalance_def row_of_def getRunningBalance_def find_append is_balance_def
          js_div_100 Let_def split: option.splits if_splits)
  next
    case (Some s)
    then have s: "r = s" "List.find (is_balance ten acc) (balances d) = Some s" "is_balance ten acc s"
      by (auto simp: r row_of_def getRunningBalance_def dest: find_SomeD)
    have "balances d' = update_where (is_balance ten acc)
        (\<lambda>x. x\<lparr>br_balance := nc - nd, br_debit := nd, br_credit := nc\<rparr>) (balances d)"
      using up s fixed unfolding fd_def fc_def
      by (auto simp: updateRunningBalance_def js_div_100 Let_def split: option.splits if_splits)
    then have "List.find (is_balance ten acc) (balances d') = Some (s\<lparr>br_balance := nc - nd, br_debit := nd, br_credit := nc\<rparr>)"
      using s by (simp add: find_update_where is_balance_def)
    then show ?thesis by (simp add: r' row_of_def getRunningBalance_def s(1))
  qed
  show "br_debit r' = br_debit r + (if dir = Debit then n else 0)"
    "br_credit r' = br_credit r + (if dir = Credit then n else 0)"
    "br_balance r' = br_credit r' - br_debit r'"
    by (simp_all add: row nd_def nc_def)
  assume a: "findAccountById acc d = Some a" "nonneg_type (la_type a)"
  have "\<not> js_sub fc fd < 0"
    using up a unfolding fd_def fc_def r
    by (auto simp: updateRunningBalance_def row_of_def getRunningBalance_def js_div_100 Let_def
        split: option.splits if_splits)
  then have "\<not> nc < nd" using near_less [OF efc efd] by (auto simp: js_sub_neg)
  then show "0 \<le> br_balance r'" by (simp add: row)
qed

lemma updateRunningBalance_other:
  assumes "updateRunningBalance acc ten n dir d = Inr d'" and "(t, a) \<noteq> (ten, acc)"
  shows "row_of t a d' = row_of t a d"
proof -
  have [simp]: "find (is_balance t a) (update_where (is_balance ten acc) f rows) = find (is_balance t a) rows"
    if "\<And>r. is_balance t a (f r) = is_balance t a r" for f rows
    using that assms(2) by (induction rows) (auto simp: is_balance_def)
  show ?thesis
    using assms by (auto simp: updateRunningBalance_def row_of_def getRunningBalance_def find_append
        is_balance_def Let_def split: option.splits if_splits)
qed

lemma updateRunningBalance_frame:
  "updateRunningBalance acc ten n dir d = Inr d' \<Longrightarrow> \<exists>bs. d' = d\<lparr>balances := bs\<rparr>"
  by (auto simp: updateRunningBalance_def Let_def split: option.splits if_splits)

lemma apply_balances_frame:
  assumes "apply_balances t rs d = Inr d'" shows "\<exists>bs. d' = d\<lparr>balances := bs\<rparr>"
proof -
  have "\<exists>bs. d' = d\<lparr>balances := bs\<rparr>"
    using assms unfolding apply_balances_def
  proof (rule forR_invariant)
    show "\<exists>bs. d = d\<lparr>balances := bs\<rparr>" by (rule exI [of _ "balances d"]) simp
  qed (auto dest!: updateRunningBalance_frame)
  then show ?thesis .
qed

text \<open>The same over the entries of one posting, for every account of its tenant.\<close>

definition rsum :: "direction \<Rightarrow> id \<Rightarrow> resolved_entry list \<Rightarrow> int" where
  "rsum dir a rs = sum_where (\<lambda>e. re_direction e = dir \<and> re_accountId e = a) re_amount rs"

definition rtotal :: "resolved_entry list \<Rightarrow> int" where
  "rtotal rs = sum_where (\<lambda>e. True) re_amount rs"

definition row_good :: "ledger_db \<Rightarrow> id \<Rightarrow> id \<Rightarrow> bool" where
  "row_good d t a \<longleftrightarrow> br_balance (row_of t a d) = br_credit (row_of t a d) - br_debit (row_of t a d)
     \<and> (\<forall>x. findAccountById a d = Some x \<longrightarrow> nonneg_type (la_type x) \<longrightarrow> 0 \<le> br_balance (row_of t a d))"

lemma row_good_cong:
  "row_of s b d' = row_of s b d \<Longrightarrow> findAccountById b d' = findAccountById b d \<Longrightarrow>
    row_good d' s b \<longleftrightarrow> row_good d s b"
  by (simp only: row_good_def)

lemma rtotal_nonneg: "\<forall>e \<in> set rs. 0 \<le> re_amount e \<Longrightarrow> 0 \<le> rtotal rs"
  unfolding rtotal_def by (rule sum_where_nonneg) simp

lemma apply_balances_rows:
  assumes "apply_balances t rs d = Inr d'" and "\<forall>e \<in> set rs. 0 \<le> re_amount e"
    and "\<And>a. 0 \<le> br_debit (row_of t a d) \<and> br_debit (row_of t a d) + rtotal rs < 2 ^ 48"
    and "\<And>a. 0 \<le> br_credit (row_of t a d) \<and> br_credit (row_of t a d) + rtotal rs < 2 ^ 48"
  shows "br_debit (row_of t a d') = br_debit (row_of t a d) + rsum Debit a rs
    \<and> br_credit (row_of t a d') = br_credit (row_of t a d) + rsum Credit a rs
    \<and> (row_good d t a \<longrightarrow> row_good d' t a)
    \<and> (s \<noteq> t \<longrightarrow> row_of s b d' = row_of s b d)"
  using assms
proof (induction rs arbitrary: d)
  case Nil
  then show ?case by (simp add: apply_balances_def rsum_def)
next
  case (Cons e rs)
  from Cons.prems(1) obtain d1 where
    up: "updateRunningBalance (re_accountId e) t (re_amount e) (re_direction e) d = Inr d1"
    and rest: "apply_balances t rs d1 = Inr d'"
    by (auto simp: apply_balances_def res_simps)
  have pos: "0 \<le> re_amount e" "0 \<le> rtotal rs" using Cons.prems(2) by (auto intro: rtotal_nonneg)
  have tot: "rtotal (e # rs) = re_amount e + rtotal rs" by (simp add: rtotal_def)
  obtain bs where d1: "d1 = d\<lparr>balances := bs\<rparr>" using updateRunningBalance_frame [OF up] by blast
  have fa: "findAccountById x d1 = findAccountById x d" for x by (simp add: d1 findAccountById_def)
  have lo: "0 \<le> br_debit (row_of t (re_accountId e) d)" "br_debit (row_of t (re_accountId e) d) + re_amount e < 2 ^ 48"
    "0 \<le> br_credit (row_of t (re_accountId e) d)" "br_credit (row_of t (re_accountId e) d) + re_amount e < 2 ^ 48"
    using Cons.prems(3) [of "re_accountId e"] Cons.prems(4) [of "re_accountId e"] pos tot by linarith+
  note here = updateRunningBalance_row [OF up refl pos(1) lo refl]
  note other = updateRunningBalance_other [OF up]
  have step: "br_debit (row_of t x d1) = br_debit (row_of t x d) + rsum Debit x [e]"
    "br_credit (row_of t x d1) = br_credit (row_of t x d) + rsum Credit x [e]" for x
    using here(1,2) other [of t x] by (cases "x = re_accountId e"; simp add: rsum_def)+
  have good: "row_good d1 t a" if "row_good d t a"
    using that here(3,4) other [of t a] fa by (cases "a = re_accountId e") (auto simp: row_good_def)
  have r1: "0 \<le> rsum dir x [e] \<and> rsum dir x [e] \<le> re_amount e" for dir x
    using pos(1) by (simp add: rsum_def)
  have b1: "0 \<le> br_debit (row_of t x d1) \<and> br_debit (row_of t x d1) + rtotal rs < 2 ^ 48" for x
    using Cons.prems(3) [of x] r1 [of Debit x] unfolding step(1) tot by linarith
  have b2: "0 \<le> br_credit (row_of t x d1) \<and> br_credit (row_of t x d1) + rtotal rs < 2 ^ 48" for x
    using Cons.prems(4) [of x] r1 [of Credit x] unfolding step(2) tot by linarith
  have ih: "br_debit (row_of t a d') = br_debit (row_of t a d1) + rsum Debit a rs
    \<and> br_credit (row_of t a d') = br_credit (row_of t a d1) + rsum Credit a rs
    \<and> (row_good d1 t a \<longrightarrow> row_good d' t a) \<and> (s \<noteq> t \<longrightarrow> row_of s b d' = row_of s b d1)"
    by (rule Cons.IH [OF rest _ b1 b2]) (use Cons.prems(2) in auto)
  have "rsum dir a (e # rs) = rsum dir a [e] + rsum dir a rs" for dir
    by (simp add: rsum_def)
  with ih step good other [of s b] show ?case by auto
qed

section \<open>The posting transaction\<close>

text \<open>Everything a successful posting transaction did.\<close>

definition posted ::
    "post_env \<Rightarrow> time_ms \<Rightarrow> TransactionInput \<Rightarrow> ledger_db \<Rightarrow> PostingReceipt \<Rightarrow> ledger_db
      \<Rightarrow> resolved_entry list \<Rightarrow> ledger_tx \<Rightarrow> bool" where
  "posted E now input d r d' rs row \<longleftrightarrow>
     (\<exists>d0 d1 d3 d4. resolveEntries (env_uuid E) (t_tenantId input) (t_currency input) (t_entries input) d0
          = Inr (rs, d1)
        \<and> (\<exists>ls. d0 = d\<lparr>db_locks := ls\<rparr>)
        \<and> row = \<lparr>lt_id = env_uuid E (next_id d1), lt_tenant = t_tenantId input,
              lt_type = t_transactionType input, lt_amount = minor_to_dec (t_amount input),
              lt_currency = t_currency input, lt_referenceType = t_referenceType input,
              lt_referenceId = t_referenceId input, lt_previousHash = chain_head (t_tenantId input) d1,
              lt_currentHash = input_hash (env_sha256 E) (chain_head (t_tenantId input) d1) input rs,
              lt_createdAt = now\<rparr>
        \<and> d3 = d1\<lparr>transactions := transactions d1 @ [row], next_id := Suc (next_id d1),
              entries := entries d1 @ map (to_ledger_entry input (lt_id row)) rs\<rparr>
        \<and> apply_balances (t_tenantId input) rs d3 = Inr d4
        \<and> accounts d' = accounts d1 \<and> transactions d' = transactions d3 \<and> entries d' = entries d3
        \<and> balances d' = balances d4 \<and> next_id d' = Suc (Suc (next_id d1))
        \<and> length (outbox d') = Suc (length (outbox d)) \<and> length (audit_logs d') = Suc (length (audit_logs d))
        \<and> idem_keys d' = update_where (is_key (t_tenantId input) (t_idempotencyKey input))
            (\<lambda>k. k\<lparr>ik_status := Key_completed, ik_payload := Receipt_payload r\<rparr>) (idem_keys d)
        \<and> r = \<lparr>r_success = True, r_transactionId = lt_id row, r_transactionHash = lt_currentHash row,
               r_entriesCount = length rs, r_idempotencyKey = t_idempotencyKey input\<rparr>)"

lemma createEntries_eq: "createEntries es d = (es, d\<lparr>entries := entries d @ es\<rparr>)"
  by (simp add: createEntries_def)

lemma postingTxn_posted:
  assumes "postingTxn E now input d = Inr (r, d')"
  shows "\<exists>rs row. posted E now input d r d' rs row"
proof -
  from assms obtain d0 d'' where lock: "acquireDbLock (t_tenantId input) (t_idempotencyKey input) 15 now d = (True, d0)"
    and body: "postingBody E now input d0 = Inr (r, d'')"
    and d': "d' = releaseDbLock (t_tenantId input) (t_idempotencyKey input) d''"
    by (auto simp: postingTxn_def res_simps split: prod.splits if_splits)
  have d0: "\<exists>ls. d0 = d\<lparr>db_locks := ls\<rparr>"
    using lock by (auto simp: acquireDbLock_def Let_def split: if_splits)
  from body obtain rs d1 where
    res: "resolveEntries (env_uuid E) (t_tenantId input) (t_currency input) (t_entries input) d0 = Inr (rs, d1)"
    by (auto simp: postingBody_def res_simps)
  have s: "same_books d0 d1" using resolveEntries_frame [OF res] by simp
  define row where "row = \<lparr>lt_id = env_uuid E (next_id d1), lt_tenant = t_tenantId input,
    lt_type = t_transactionType input, lt_amount = minor_to_dec (t_amount input),
    lt_currency = t_currency input, lt_referenceType = t_referenceType input,
    lt_referenceId = t_referenceId input, lt_previousHash = chain_head (t_tenantId input) d1,
    lt_currentHash = input_hash (env_sha256 E) (chain_head (t_tenantId input) d1) input rs,
    lt_createdAt = now\<rparr>"
  define d3 where "d3 = d1\<lparr>transactions := transactions d1 @ [row],
    next_id := Suc (next_id d1), entries := entries d1 @ map (to_ledger_entry input (lt_id row)) rs\<rparr>"
  from body res obtain d4 where
    bal: "apply_balances (t_tenantId input) rs d3 = Inr d4"
    and r: "r = \<lparr>r_success = True, r_transactionId = lt_id row, r_transactionHash = lt_currentHash row,
               r_entriesCount = length rs, r_idempotencyKey = t_idempotencyKey input\<rparr>"
    and d'': "d'' = updateIdempotencyKey (t_tenantId input) (t_idempotencyKey input) Key_completed
        (Receipt_payload r) (createEvent (env_uuid E) input (minor_to_dec (t_amount input)) r
          (createAuditLog input r d4))"
    by (auto simp: postingBody_def res_simps createEntries_eq createTransaction_def Let_def row_def d3_def)
  obtain bs where d4: "d4 = d3\<lparr>balances := bs\<rparr>" using apply_balances_frame [OF bal] by blast
  have keys: "idem_keys d' = update_where (is_key (t_tenantId input) (t_idempotencyKey input))
        (\<lambda>k. k\<lparr>ik_status := Key_completed, ik_payload := Receipt_payload r\<rparr>) (idem_keys d)"
    "length (outbox d') = Suc (length (outbox d))" "length (audit_logs d') = Suc (length (audit_logs d))"
    using s d0 by (auto simp: d' d'' d4 d3_def releaseDbLock_def updateIdempotencyKey_def
        createEvent_def createAuditLog_def same_books_def)
  have tables: "accounts d' = accounts d1" "transactions d' = transactions d3" "entries d' = entries d3"
      "balances d' = balances d4" "next_id d' = Suc (Suc (next_id d1))"
    by (simp_all add: d' d'' d4 d3_def releaseDbLock_def updateIdempotencyKey_def createEvent_def createAuditLog_def)
  have "posted E now input d r d' rs row"
    unfolding posted_def
    by (intro exI [of _ d0] exI [of _ d1] exI [of _ d3] exI [of _ d4] conjI)
      (rule res d0 row_def d3_def bal tables keys r)+
  then show ?thesis by blast
qed

section \<open>The invariant of the books\<close>

definition tx_sum :: "ledger_db \<Rightarrow> direction \<Rightarrow> id \<Rightarrow> int" where
  "tx_sum d dir i = sum_where (\<lambda>e. le_transaction e = i \<and> le_direction e = dir) le_amount (entries d)"

definition acc_sum :: "ledger_db \<Rightarrow> direction \<Rightarrow> id \<Rightarrow> id \<Rightarrow> int" where
  "acc_sum d dir t a = sum_where (\<lambda>e. le_tenant e = t \<and> le_account e = a \<and> le_direction e = dir)
     le_amount (entries d)"

definition volume :: "ledger_db \<Rightarrow> int" where
  "volume d = sum_where (\<lambda>e. True) le_amount (entries d)"

text \<open>Every transaction is balanced, on its stored entries, and moves its stored amount.\<close>

definition books_balanced :: "ledger_db \<Rightarrow> bool" where
  "books_balanced d \<longleftrightarrow> (\<forall>t \<in> set (transactions d).
     tx_sum d Debit (lt_id t) = lt_amount t \<and> tx_sum d Credit (lt_id t) = lt_amount t)"

text \<open>
  The stored balance of every account is what its entries add up to, and a protected account is
  never below zero.
\<close>

definition books_exact :: "ledger_db \<Rightarrow> bool" where
  "books_exact d \<longleftrightarrow> (\<forall>t a. br_debit (row_of t a d) = acc_sum d Debit t a
     \<and> br_credit (row_of t a d) = acc_sum d Credit t a \<and> row_good d t a)"

definition ledger_inv :: "(nat \<Rightarrow> id) \<Rightarrow> ledger_db \<Rightarrow> bool" where
  "ledger_inv uuid d \<longleftrightarrow> unique_ids uuid d \<and> (\<forall>e \<in> set (entries d). 0 \<le> le_amount e)
     \<and> books_balanced d \<and> (volume d < 2 ^ 48 \<longrightarrow> books_exact d)"

text \<open>The inputs the builder lets through, with amounts a Number holds exactly.\<close>

definition good_input :: "TransactionInput \<Rightarrow> bool" where
  "good_input input \<longleftrightarrow> debit_sum (t_entries input) = t_amount input
     \<and> credit_sum (t_entries input) = t_amount input
     \<and> (\<forall>e \<in> set (t_entries input). 0 \<le> e_amount e) \<and> t_amount input < 2 ^ 48"

lemma acc_sum_nonneg: "\<forall>e \<in> set (entries d). 0 \<le> le_amount e \<Longrightarrow> 0 \<le> acc_sum d dir t a"
  unfolding acc_sum_def by (rule sum_where_nonneg) simp

lemma sum_where_le: "\<forall>r \<in> set rows. 0 \<le> v r \<Longrightarrow> sum_where p v rows \<le> sum_where (\<lambda>r. True) v rows"
  by (induction rows) auto

lemma acc_sum_le_volume: "\<forall>e \<in> set (entries d). 0 \<le> le_amount e \<Longrightarrow> acc_sum d dir t a \<le> volume d"
  unfolding acc_sum_def volume_def by (rule sum_where_le)

lemma member_le_sum: "x \<in> set rows \<Longrightarrow> p x \<Longrightarrow> \<forall>r \<in> set rows. 0 \<le> v r \<Longrightarrow> v x \<le> sum_where p v rows"
  using sum_where_nonneg [of _ v p] by (induction rows) (force simp: sum_where_nonneg)+

lemma good_input_amounts:
  assumes "good_input input" and "e \<in> set (t_entries input)"
  shows "0 \<le> e_amount e" "e_amount e < 2 ^ 48"
proof -
  show "0 \<le> e_amount e" using assms by (simp add: good_input_def)
  have "e_amount e \<le> t_amount input"
    using assms member_le_sum [OF assms(2), of "\<lambda>e. e_direction e = e_direction e" e_amount]
      member_le_sum [OF assms(2), of "\<lambda>e. e_direction e = Debit" e_amount]
      member_le_sum [OF assms(2), of "\<lambda>e. e_direction e = Credit" e_amount]
    by (cases "e_direction e") (auto simp: good_input_def sum_defs)
  then show "e_amount e < 2 ^ 48" using assms(1) by (simp add: good_input_def)
qed

lemma sum_where_zip:
  "map f xs = map f' ys \<Longrightarrow> map g xs = map g' ys \<Longrightarrow>
    sum_where (\<lambda>x. P (f x)) g xs = sum_where (\<lambda>y. P (f' y)) g' ys"
proof (induction xs arbitrary: ys)
  case (Cons x xs)
  then show ?case by (cases ys) auto
qed auto

lemma sum_where_map: "sum_where p v (map f xs) = sum_where (\<lambda>x. p (f x)) (\<lambda>x. v (f x)) xs"
  by (induction xs) auto

lemma good_input_nonneg: "good_input input \<Longrightarrow> 0 \<le> t_amount input"
  using sum_where_nonneg [of "t_entries input" e_amount "\<lambda>e. e_direction e = Debit"]
  by (simp add: good_input_def sum_defs)

lemma posted_elim:
  assumes "posted E now input d r d' rs row"
  obtains d0 d1 d3 d4 where
    "resolveEntries (env_uuid E) (t_tenantId input) (t_currency input) (t_entries input) d0 = Inr (rs, d1)"
    "\<exists>ls. d0 = d\<lparr>db_locks := ls\<rparr>"
    "row = \<lparr>lt_id = env_uuid E (next_id d1), lt_tenant = t_tenantId input,
       lt_type = t_transactionType input, lt_amount = minor_to_dec (t_amount input),
       lt_currency = t_currency input, lt_referenceType = t_referenceType input,
       lt_referenceId = t_referenceId input, lt_previousHash = chain_head (t_tenantId input) d1,
       lt_currentHash = input_hash (env_sha256 E) (chain_head (t_tenantId input) d1) input rs,
       lt_createdAt = now\<rparr>"
    "d3 = d1\<lparr>transactions := transactions d1 @ [row], next_id := Suc (next_id d1),
       entries := entries d1 @ map (to_ledger_entry input (lt_id row)) rs\<rparr>"
    "apply_balances (t_tenantId input) rs d3 = Inr d4"
    "accounts d' = accounts d1" "transactions d' = transactions d3" "entries d' = entries d3"
    "balances d' = balances d4" "next_id d' = Suc (Suc (next_id d1))"
  using assms unfolding posted_def by (elim exE conjE) (rule that, assumption+, blast)

lemma posted_resolved:
  "posted E now input d r d' rs row \<Longrightarrow> \<exists>d0 d1. (\<exists>ls. d0 = d\<lparr>db_locks := ls\<rparr>) \<and>
    resolveEntries (env_uuid E) (t_tenantId input) (t_currency input) (t_entries input) d0 = Inr (rs, d1)"
  unfolding posted_def by blast

lemma posted_amounts:
  assumes P: "posted E now input d r d' rs row" and G: "good_input input" and e: "e \<in> set rs"
  shows "0 \<le> re_amount e" "re_amount e < 2 ^ 48"
proof -
  obtain d0 d1 where "resolveEntries (env_uuid E) (t_tenantId input) (t_currency input) (t_entries input) d0 = Inr (rs, d1)"
    using posted_resolved [OF P] by blast
  then have "map re_amount rs = map e_amount (t_entries input)" using resolveEntries_frame by blast
  then have "re_amount e \<in> e_amount ` set (t_entries input)" using e by (metis image_eqI image_set)
  then show "0 \<le> re_amount e" "re_amount e < 2 ^ 48" using good_input_amounts [OF G] by auto
qed

lemma posted_stored:
  assumes "posted E now input d r d' rs row" "good_input input" "e \<in> set rs"
  shows "le_amount (to_ledger_entry input i e) = re_amount e"
  using posted_amounts [OF assms] by (auto simp: to_ledger_entry_def intro!: minor_to_dec)

lemma to_ledger_entry_simps [simp]:
  "le_tenant (to_ledger_entry input i e) = t_tenantId input"
  "le_account (to_ledger_entry input i e) = re_accountId e"
  "le_transaction (to_ledger_entry input i e) = i"
  "le_direction (to_ledger_entry input i e) = re_direction e"
  by (simp_all add: to_ledger_entry_def)

lemma posted_sides:
  assumes P: "posted E now input d r d' rs row" and G: "good_input input"
  shows "sum_where (\<lambda>e. re_direction e = dir) re_amount rs = t_amount input"
proof -
  obtain d0 d1 where "resolveEntries (env_uuid E) (t_tenantId input) (t_currency input) (t_entries input) d0 = Inr (rs, d1)"
    using posted_resolved [OF P] by blast
  then have m: "map re_amount rs = map e_amount (t_entries input)"
    "map re_direction rs = map e_direction (t_entries input)" using resolveEntries_frame by blast+
  have "sum_where (\<lambda>e. re_direction e = dir) re_amount rs
      = sum_where (\<lambda>e. e_direction e = dir) e_amount (t_entries input)"
    by (rule sum_where_zip [OF m(2) m(1), of "\<lambda>x. x = dir"])
  also have "\<dots> = t_amount input" using G by (cases dir) (auto simp: good_input_def sum_defs)
  finally show ?thesis .
qed

lemma posted_row: "posted E now input d r d' rs row \<Longrightarrow> good_input input \<Longrightarrow> lt_amount row = t_amount input"
  using good_input_nonneg by (auto simp: posted_def good_input_def minor_to_dec)

lemma posted_tables:
  assumes "posted E now input d r d' rs row"
  shows "transactions d' = transactions d @ [row]"
    and "entries d' = entries d @ map (to_ledger_entry input (lt_id row)) rs"
proof -
  from assms obtain d0 d1 d3 d4 where
    res: "resolveEntries (env_uuid E) (t_tenantId input) (t_currency input) (t_entries input) d0 = Inr (rs, d1)"
    and d0: "\<exists>ls. d0 = d\<lparr>db_locks := ls\<rparr>"
    and d3: "d3 = d1\<lparr>transactions := transactions d1 @ [row], next_id := Suc (next_id d1),
       entries := entries d1 @ map (to_ledger_entry input (lt_id row)) rs\<rparr>"
    and d': "transactions d' = transactions d3" "entries d' = entries d3"
    by (rule posted_elim)
  with resolveEntries_frame [OF res]
  show "transactions d' = transactions d @ [row]"
    "entries d' = entries d @ map (to_ledger_entry input (lt_id row)) rs"
    by (auto simp: same_books_def)
qed

lemma posted_unique:
  assumes P: "posted E now input d r d' rs row" and inj: "inj (env_uuid E)"
    and u: "unique_ids (env_uuid E) d"
  shows "unique_ids (env_uuid E) d'" and "lt_id row \<notin> lt_id ` set (transactions d)"
proof -
  from P obtain d0 d1 d3 d4 where
    res: "resolveEntries (env_uuid E) (t_tenantId input) (t_currency input) (t_entries input) d0 = Inr (rs, d1)"
    and d0: "\<exists>ls. d0 = d\<lparr>db_locks := ls\<rparr>"
    and rowe: "row = \<lparr>lt_id = env_uuid E (next_id d1), lt_tenant = t_tenantId input,
       lt_type = t_transactionType input, lt_amount = minor_to_dec (t_amount input),
       lt_currency = t_currency input, lt_referenceType = t_referenceType input,
       lt_referenceId = t_referenceId input, lt_previousHash = chain_head (t_tenantId input) d1,
       lt_currentHash = input_hash (env_sha256 E) (chain_head (t_tenantId input) d1) input rs,
       lt_createdAt = now\<rparr>"
    and d': "accounts d' = accounts d1" "next_id d' = Suc (Suc (next_id d1))"
    by (rule posted_elim)
  have row: "lt_id row = env_uuid E (next_id d1)" by (simp add: rowe)
  have "unique_ids (env_uuid E) d0" using u d0 by (auto simp: unique_ids_def)
  with res have u1: "unique_ids (env_uuid E) d1" by (rule resolveEntries_unique [OF inj])
  have tx: "transactions d1 = transactions d" "entries d1 = entries d"
    using resolveEntries_frame [OF res] d0 by (auto simp: same_books_def)
  show fresh: "lt_id row \<notin> lt_id ` set (transactions d)"
    using u1 uuid_fresh [OF inj] unfolding tx(1) [symmetric] row unique_ids_def by (metis imageE)
  have accs: "\<forall>e \<in> set rs. re_accountId e \<in> la_id ` set (accounts d1)"
    using resolveEntries_frame [OF res] by blast
  show "unique_ids (env_uuid E) d'"
    using u1 fresh accs tx unfolding unique_ids_def posted_tables [OF P] d'
    by (auto simp: row to_ledger_entry_def lessThan_Suc)
qed

lemma posted_balanced:
  assumes P: "posted E now input d r d' rs row" and G: "good_input input"
    and inj: "inj (env_uuid E)" and u: "unique_ids (env_uuid E) d" and b: "books_balanced d"
  shows "books_balanced d'"
proof -
  note new = posted_unique [OF P inj u] and tab = posted_tables [OF P]
  have old: "tx_sum d' dir (lt_id t) = tx_sum d dir (lt_id t)" if "t \<in> set (transactions d)" for t dir
  proof -
    have "lt_id t \<noteq> lt_id row" using that new(2) by (metis image_eqI)
    then have "sum_where (\<lambda>e. le_transaction e = lt_id t \<and> le_direction e = dir) le_amount
        (map (to_ledger_entry input (lt_id row)) rs) = sum_where (\<lambda>e. False) (\<lambda>e. 0) rs"
      unfolding sum_where_map by (intro sum_where_cong) (auto simp: to_ledger_entry_def)
    then show ?thesis by (simp add: tx_sum_def tab sum_where_def)
  qed
  have "tx_sum d dir (lt_id row) = 0" for dir
  proof -
    have "filter (\<lambda>e. le_transaction e = lt_id row \<and> le_direction e = dir) (entries d) = []"
      using u new(2) unfolding unique_ids_def filter_empty_conv by metis
    then show ?thesis by (simp add: tx_sum_def sum_where_def)
  qed
  moreover have "sum_where (\<lambda>e. le_transaction e = lt_id row \<and> le_direction e = dir) le_amount
      (map (to_ledger_entry input (lt_id row)) rs) = t_amount input" for dir
    unfolding sum_where_map posted_sides [OF P G, symmetric, of dir]
    by (intro sum_where_cong) (auto simp: posted_stored [OF P G])
  ultimately have "tx_sum d' dir (lt_id row) = lt_amount row" for dir
    by (simp add: tx_sum_def tab posted_row [OF P G])
  with old b show ?thesis by (auto simp: books_balanced_def tab)
qed

lemma books_exact_cong:
  assumes "accounts d' = accounts d" "entries d' = entries d" "balances d' = balances d"
  shows "books_exact d' \<longleftrightarrow> books_exact d"
proof -
  have "row_of t a d' = row_of t a d" "acc_sum d' dir t a = acc_sum d dir t a"
    "findAccountById a d' = findAccountById a d" for t a dir
    using assms by (simp_all add: row_of_def getRunningBalance_def acc_sum_def findAccountById_def)
  then show ?thesis by (simp only: books_exact_def row_good_def)
qed

text \<open>A new account starts with a zero row, and nothing was posted to it.\<close>

lemma acc_sum_unknown:
  assumes "unique_ids uuid d" and "a \<notin> la_id ` set (accounts d)" shows "acc_sum d dir t a = 0"
proof -
  have "filter (\<lambda>e. le_tenant e = t \<and> le_account e = a \<and> le_direction e = dir) (entries d) = []"
    using assms unfolding unique_ids_def filter_empty_conv by metis
  then show ?thesis by (simp add: acc_sum_def sum_where_def)
qed

lemma getOrCreateAccount_exact:
  assumes get: "getOrCreateAccount uuid t ty nm cur d = (a, d')"
    and inj: "inj uuid" and u: "unique_ids uuid d" and x: "books_exact d"
  shows "books_exact d'"
proof (cases "List.find (same_account t ty nm) (accounts d)")
  case None
  with get have d': "accounts d' = accounts d @ [a]" "la_id a = uuid (next_id d)" "entries d' = entries d"
    "balances d' = balances d @ [\<lparr>br_tenant = t, br_account = la_id a, br_balance = 0, br_debit = 0, br_credit = 0\<rparr>]"
    by (auto simp: getOrCreateAccount_def Let_def)
  have fresh: "la_id a \<notin> la_id ` set (accounts d)"
    using u uuid_fresh [OF inj] unfolding d'(2) unique_ids_def by (metis imageE)
  have row: "row_of s b d' = row_of s b d" for s b
    by (auto simp: row_of_def getRunningBalance_def d'(4) find_append is_balance_def split: option.splits)
  have acc: "acc_sum d' dir s b = acc_sum d dir s b" for dir s b by (simp add: acc_sum_def d'(3))
  have good: "row_good d' s b" if "row_good d s b" for s b
  proof (cases "b = la_id a")
    case True
    have "br_debit (row_of s b d) = 0" "br_credit (row_of s b d) = 0"
      using x acc_sum_unknown [OF u fresh] True by (auto simp: books_exact_def)
    with that show ?thesis by (simp add: row_good_def row)
  next
    case False
    then have "findAccountById b d' = findAccountById b d"
      by (auto simp: findAccountById_def d'(1) find_append split: option.splits)
    with that show ?thesis using row_good_cong [OF row] by blast
  qed
  with x show ?thesis by (simp add: books_exact_def row acc)
qed (use assms in \<open>auto simp: getOrCreateAccount_def\<close>)

lemma resolveEntries_exact:
  assumes inj: "inj uuid"
  shows "resolveEntries uuid t cur es d = Inr (rs, d') \<Longrightarrow> unique_ids uuid d \<Longrightarrow> books_exact d \<Longrightarrow> books_exact d'"
proof (induction es arbitrary: d rs d')
  case (Cons e es)
  then obtain a d1 rs' where a: "resolveAccount uuid t (e_accountType e) (entry_context (e_metadata e)) cur d
      = Inr (a, d1)" and es: "resolveEntries uuid t cur es d1 = Inr (rs', d')"
    by (auto simp: res_simps split: prod.splits)
  from a obtain nm where g: "getOrCreateAccount uuid t (e_accountType e) nm cur d = (a, d1)"
    by (auto simp: resolveAccount_def res_simps)
  show ?case
    by (rule Cons.IH [OF es getOrCreateAccount_unique [OF inj g Cons.prems(2)]
        getOrCreateAccount_exact [OF g inj Cons.prems(2,3)]])
qed simp

lemma posted_exact:
  assumes P: "posted E now input d r d' rs row" and G: "good_input input"
    and inj: "inj (env_uuid E)" and u: "unique_ids (env_uuid E) d"
    and pos: "\<forall>e \<in> set (entries d). 0 \<le> le_amount e"
    and vol: "volume d' < 2 ^ 48" and x: "books_exact d"
  shows "books_exact d'"
proof -
  from P obtain d0 d1 d3 d4 where
    res: "resolveEntries (env_uuid E) (t_tenantId input) (t_currency input) (t_entries input) d0 = Inr (rs, d1)"
    and d0: "\<exists>ls. d0 = d\<lparr>db_locks := ls\<rparr>"
    and d3: "d3 = d1\<lparr>transactions := transactions d1 @ [row], next_id := Suc (next_id d1),
       entries := entries d1 @ map (to_ledger_entry input (lt_id row)) rs\<rparr>"
    and bal: "apply_balances (t_tenantId input) rs d3 = Inr d4"
    and d': "accounts d' = accounts d1" "entries d' = entries d3" "balances d' = balances d4"
    by (rule posted_elim)
  let ?t = "t_tenantId input" and ?new = "map (to_ledger_entry input (lt_id row)) rs"
  have u0: "unique_ids (env_uuid E) d0" and x0: "books_exact d0" and e0: "entries d0 = entries d"
    using u x d0 books_exact_cong [of d0 d] by (auto simp: unique_ids_def)
  have x1: "books_exact d1" by (rule resolveEntries_exact [OF inj res u0 x0])
  have e1: "entries d1 = entries d" using resolveEntries_frame [OF res] e0 by (simp add: same_books_def)
  have row3: "row_of s b d3 = row_of s b d1" for s b by (simp add: d3 row_of_def getRunningBalance_def)
  have "findAccountById b d3 = findAccountById b d1" for b by (simp add: findAccountById_def d3)
  then have good3: "row_good d3 s b" for s b
    using x1 row_good_cong [OF row3] by (simp add: books_exact_def)
  have amounts: "\<forall>e \<in> set rs. 0 \<le> re_amount e" using posted_amounts [OF P G] by blast
  have newvol: "sum_where (\<lambda>e. True) le_amount ?new = rtotal rs"
    unfolding sum_where_map rtotal_def by (rule sum_where_cong) (auto simp: posted_stored [OF P G])
  have le: "acc_sum d1 dir ?t b + rtotal rs < 2 ^ 48" "0 \<le> acc_sum d1 dir ?t b" for dir b
    using vol acc_sum_le_volume [of d1 dir ?t b] acc_sum_nonneg [of d1 dir ?t b] pos
    by (simp_all add: volume_def d' d3 e1 newvol)
  have b1: "0 \<le> br_debit (row_of ?t b d3) \<and> br_debit (row_of ?t b d3) + rtotal rs < 2 ^ 48"
    and b2: "0 \<le> br_credit (row_of ?t b d3) \<and> br_credit (row_of ?t b d3) + rtotal rs < 2 ^ 48" for b
    using x1 le [of Debit b] le [of Credit b] by (auto simp: row3 books_exact_def)
  note after = apply_balances_rows [OF bal amounts b1 b2]
  have row': "row_of s b d' = row_of s b d4" for s b by (simp add: row_of_def getRunningBalance_def d')
  have "\<exists>bs. d4 = d3\<lparr>balances := bs\<rparr>" by (rule apply_balances_frame [OF bal])
  then have fa: "findAccountById b d' = findAccountById b d4" for b
    by (auto simp: findAccountById_def d' d3)
  have good': "row_good d' s b \<longleftrightarrow> row_good d4 s b" for s b by (simp add: row_good_def row' fa)
  have new: "sum_where (\<lambda>e. le_tenant e = s \<and> le_account e = b \<and> le_direction e = dir) le_amount ?new
      = (if s = ?t then rsum dir b rs else 0)" for s b dir
  proof (cases "s = ?t")
    case True
    then show ?thesis unfolding sum_where_map rsum_def
      by (simp, intro sum_where_cong) (auto simp: posted_stored [OF P G])
  next
    case False
    then show ?thesis by (auto simp: sum_where_def filter_empty_conv to_ledger_entry_def)
  qed
  have acc': "acc_sum d' dir s b = acc_sum d1 dir s b + (if s = ?t then rsum dir b rs else 0)" for dir s b
    by (simp add: acc_sum_def d' d3 new [unfolded sum_where_map] new)
  have other: "row_good d4 s b" if "s \<noteq> ?t" for s b
    using good3 [of s b] after [of b s b] that \<open>\<exists>bs. d4 = d3\<lparr>balances := bs\<rparr>\<close>
    by (auto simp: row_good_def findAccountById_def)
  show ?thesis
    unfolding books_exact_def
  proof (intro allI)
    fix s b
    show "br_debit (row_of s b d') = acc_sum d' Debit s b \<and> br_credit (row_of s b d') = acc_sum d' Credit s b
        \<and> row_good d' s b"
      using after [of b s b] x1 good3 [of s b] other [of s b]
      by (cases "s = ?t") (auto simp: row' acc' good' row3 books_exact_def)
  qed
qed

lemma posted_inv:
  assumes P: "posted E now input d r d' rs row" and G: "good_input input"
    and inj: "inj (env_uuid E)" and I: "ledger_inv (env_uuid E) d"
  shows "ledger_inv (env_uuid E) d'"
proof -
  have pos: "\<forall>e \<in> set (entries d'). 0 \<le> le_amount e"
    using I posted_amounts [OF P G] posted_stored [OF P G]
    by (auto simp: ledger_inv_def posted_tables [OF P])
  have "volume d \<le> volume d'"
    using pos sum_where_nonneg [of "map (to_ledger_entry input (lt_id row)) rs" le_amount "\<lambda>e. True"]
    by (auto simp: volume_def posted_tables [OF P])
  with I pos posted_unique [OF P inj] posted_balanced [OF P G inj] posted_exact [OF P G inj]
  show ?thesis by (auto simp: ledger_inv_def)
qed

end
