(* ===== verification/LedgerWorld.thy ===== *)
theory LedgerWorld
  imports LedgerBooks
begin

text \<open>
  The engine from outside: which worlds postings, commits, rollbacks and deliveries can reach, the
  books in all of them, idempotent re-posting, bounded retry, and what happens to the idempotency
  key when the caller hands in its own transaction.
\<close>

section \<open>Retry\<close>

interpretation posting: bounded_retry "post_attempt E input d" "post_attempts E input d"
    isTransientFault maxPostingAttempts for E input d
  by unfold_locales (simp add: post_attempts.simps split: sum.splits)

lemma post_attempts_attempt:
  "\<exists>m\<ge>1. m \<le> maxPostingAttempts \<and> post_attempts E input d 1 = post_attempt E input d m
    \<and> (\<forall>k. 1 \<le> k \<and> k < m \<longrightarrow> (\<exists>e. post_attempt E input d k = Inl e \<and> isTransientFault e))"
  using posting.loop_from_attempt [of 1] by (simp add: maxPostingAttempts_def)

lemma post_attempts_posted:
  assumes "post_attempts E input d 1 = Inr (r, d')"
  shows "\<exists>m rs row. posted E (env_clock E m) input d r d' rs row"
proof -
  obtain m where "post_attempt E input d m = Inr (r, d')"
    using post_attempts_attempt [of E input d] assms by auto
  then have "postingTxn E (env_clock E m) input d = Inr (r, d')"
    by (simp add: post_attempt_def split: option.splits)
  then show ?thesis using postingTxn_posted by blast
qed

section \<open>Reachable worlds\<close>

text \<open>
  Any sequence of postings by any callers, inside or outside a transaction of their own, with any
  faults, commits and rollbacks. Entry amounts are not negative and totals fit a Number.
\<close>

inductive ledger_reach :: "(nat \<Rightarrow> id) \<Rightarrow> (string \<Rightarrow> string) \<Rightarrow> ledger_world \<Rightarrow> bool"
  for uuid sha where
  reach_start: "ledger_reach uuid sha \<lparr>committed = empty_ledger, outer = []\<rparr>"
| reach_post: "ledger_reach uuid sha w \<Longrightarrow> env_uuid E = uuid \<Longrightarrow> env_sha256 E = sha \<Longrightarrow>
    \<forall>e \<in> set (b_entries b). 0 \<le> e_amount e \<Longrightarrow> b_amount b < 2 ^ 48 \<Longrightarrow>
    ledger_reach uuid sha (snd (builder_post E ext b w))"
| reach_commit: "ledger_reach uuid sha w \<Longrightarrow> ledger_reach uuid sha (commit_outer w)"
| reach_rollback: "ledger_reach uuid sha w \<Longrightarrow> ledger_reach uuid sha (rollback_outer w)"
| reach_publish: "ledger_reach uuid sha w \<Longrightarrow>
    ledger_reach uuid sha (w\<lparr>committed := snd (publishOutboxEvent delivered now i (committed w))\<rparr>)"

inductive_cases reach_cases: "ledger_reach uuid sha w"

text \<open>Key writes and event deliveries do not touch the books.\<close>

definition books_of :: "ledger_db \<Rightarrow> ledger_account list \<times> balance_row list \<times> ledger_tx list \<times> ledger_entry list \<times> nat" where
  "books_of d = (accounts d, balances d, transactions d, entries d, next_id d)"

lemma books_of_keys [simp]:
  "books_of (committed (create_key ext k w)) = books_of (committed w)"
  "books_of (committed (update_key ext t key st p w)) = books_of (committed w)"
  "books_of (committed (commit_outer w)) = books_of (committed w)"
  "books_of (committed (rollback_outer w)) = books_of (committed w)"
  "books_of (snd (publishOutboxEvent delivered now i d)) = books_of d"
  by (simp_all add: books_of_def create_key_def update_key_def commit_outer_def rollback_outer_def
      createIdempotencyKey_def updateIdempotencyKey_def publishOutboxEvent_def
      split: option.splits sum.splits)

lemma ledger_inv_books:
  assumes "books_of d' = books_of d" shows "ledger_inv uuid d' \<longleftrightarrow> ledger_inv uuid d"
proof -
  from assms have eq: "accounts d' = accounts d" "entries d' = entries d" "balances d' = balances d"
    "transactions d' = transactions d" "next_id d' = next_id d" by (simp_all add: books_of_def)
  show ?thesis
    using books_exact_cong [OF eq(1-3)]
    by (simp add: ledger_inv_def unique_ids_def books_balanced_def tx_sum_def volume_def eq)
qed

lemma run_posting_result:
  assumes "run_posting E ext input w = (res, w')"
  shows "books_of (committed w') = books_of (committed w)
    \<or> (\<exists>m r d rs row. posted E (env_clock E m) input (committed w) r d rs row \<and> w' = w\<lparr>committed := d\<rparr>
         \<and> res = Inr (Some r))"
  using assms post_attempts_posted [of E input "committed w"]
  by (auto simp: run_posting_def fail_posting_def split: sum.splits) blast

text \<open>A posting either leaves the books alone or is one posting transaction.\<close>

lemma postTransaction_result:
  assumes "postTransaction E ext input w = (res, w')"
  shows "books_of (committed w') = books_of (committed w)
    \<or> (\<exists>m r d0 d rs row. posted E (env_clock E m) input d0 r d rs row \<and> books_of d0 = books_of (committed w)
         \<and> books_of (committed w') = books_of d \<and> res = Inr (Some r))"
proof (cases "env_lock E")
  case True
  let ?k = "find_key ext (t_tenantId input) (t_idempotencyKey input) w"
  have run: "books_of (committed w') = books_of (committed v)
    \<or> (\<exists>m r d0 d rs row. posted E (env_clock E m) input d0 r d rs row \<and> books_of d0 = books_of (committed v)
         \<and> books_of (committed w') = books_of d \<and> res = Inr (Some r))"
    if "run_posting E ext input v = (res, w')" for v
    using run_posting_result [OF that] by (elim disjE exE conjE; simp) blast
  show ?thesis
  proof (cases ?k)
    case None
    with assms True run [of "create_key ext (pending_key input) w"] show ?thesis
      by (simp add: postTransaction_def)
  next
    case (Some k)
    with assms True run [of w] show ?thesis
      by (auto simp: postTransaction_def fail_posting_def split: key_status.splits)
  qed
qed (use assms in \<open>auto simp: postTransaction_def\<close>)

lemma validate_builder_good:
  assumes "validate_builder b = Inr u" and "\<forall>e \<in> set (b_entries b). 0 \<le> e_amount e" and "b_amount b < 2 ^ 48"
  shows "good_input (builder_input b)"
  using assms by (auto simp: validate_builder_def res_simps good_input_def builder_input_def)

lemma ledger_reach_inv:
  assumes "ledger_reach uuid sha w" and inj: "inj uuid"
  shows "ledger_inv uuid (committed w)"
  using assms(1)
proof (induction rule: ledger_reach.induct)
  case reach_start
  show ?case
    by (simp add: ledger_inv_def unique_ids_def books_balanced_def books_exact_def row_good_def
        empty_ledger_def row_of_def getRunningBalance_def acc_sum_def findAccountById_def)
next
  case (reach_post w E b ext)
  show ?case
  proof (cases "validate_builder b")
    case (Inl e)
    with reach_post show ?thesis by (simp add: builder_post_def)
  next
    case (Inr u)
    have good: "good_input (builder_input b)"
      by (rule validate_builder_good [OF Inr reach_post(4,5)])
    obtain res w' where post: "postTransaction E ext (builder_input b) w = (res, w')" by force
    then have "snd (builder_post E ext b w) = w'" by (simp add: builder_post_def Inr)
    moreover have "ledger_inv uuid (committed w')"
      using postTransaction_result [OF post]
    proof (elim disjE exE conjE)
      assume "books_of (committed w') = books_of (committed w)"
      with reach_post show ?thesis using ledger_inv_books by blast
    next
      fix m r d0 d rs row
      assume P: "posted E (env_clock E m) (builder_input b) d0 r d rs row"
        and b: "books_of d0 = books_of (committed w)" "books_of (committed w') = books_of d"
      have "ledger_inv (env_uuid E) d"
        by (rule posted_inv [OF P good]) (use inj reach_post ledger_inv_books [OF b(1)] in auto)
      with b(2) reach_post(2) show ?thesis using ledger_inv_books by blast
    qed
    ultimately show ?thesis by simp
  qed
qed (simp_all add: ledger_inv_books [OF books_of_keys(3)] ledger_inv_books [OF books_of_keys(4)]
      ledger_inv_books [OF books_of_keys(5)])

section \<open>Idempotency keys\<close>

lemma is_key_update [simp]: "is_key t k (r\<lparr>ik_status := s, ik_payload := p\<rparr>) = is_key t k r"
  by (simp add: is_key_def)

lemma is_key_pending [simp]: "is_key (t_tenantId input) (t_idempotencyKey input) (pending_key input)"
  by (simp add: is_key_def pending_key_def)

lemma posted_keys:
  "posted E now input d r d' rs row \<Longrightarrow>
    idem_keys d' = update_where (is_key (t_tenantId input) (t_idempotencyKey input))
      (\<lambda>k. k\<lparr>ik_status := Key_completed, ik_payload := Receipt_payload r\<rparr>) (idem_keys d)"
  unfolding posted_def by (elim exE conjE)

lemma posted_key:
  "posted E now input d r d' rs row \<Longrightarrow>
    findIdempotencyKey (t_tenantId input) (t_idempotencyKey input) d'
    = map_option (\<lambda>k. k\<lparr>ik_status := Key_completed, ik_payload := Receipt_payload r\<rparr>)
        (findIdempotencyKey (t_tenantId input) (t_idempotencyKey input) d)"
  by (simp add: posted_keys findIdempotencyKey_def find_update_where)
    (auto intro!: option.map_cong0 dest: find_SomeD split: option.splits)

lemma find_key_create:
  "find_key ext t k w = None \<Longrightarrow> is_key t k r \<Longrightarrow> find_key ext t k (create_key ext r w) = Some r"
  by (auto simp: find_key_def create_key_def createIdempotencyKey_def findIdempotencyKey_def
      find_append split: option.splits if_splits)

lemma run_posting_key:
  assumes "run_posting E False input w = (Inr (Some r), w')"
    and "find_key False (t_tenantId input) (t_idempotencyKey input) w = Some k0"
  shows "\<exists>k. find_key False (t_tenantId input) (t_idempotencyKey input) w' = Some k
    \<and> ik_status k = Key_completed \<and> ik_payload k = Receipt_payload r"
proof -
  from assms(1) obtain d where "post_attempts E input (committed w) 1 = Inr (r, d)"
    and w': "w' = w\<lparr>committed := d\<rparr>"
    by (auto simp: run_posting_def fail_posting_def split: sum.splits)
  then obtain m rs row where "posted E (env_clock E m) input (committed w) r d rs row"
    using post_attempts_posted by blast
  from posted_key [OF this] assms(2) w' show ?thesis
    by (auto simp: find_key_def)
qed

lemma payload_receipt_Some: "payload_receipt p = Some r \<longleftrightarrow> p = Receipt_payload r"
  by (cases p) auto

lemma postTransaction_key:
  assumes "postTransaction E False input w = (Inr (Some r), w')"
  shows "\<exists>k. find_key False (t_tenantId input) (t_idempotencyKey input) w' = Some k
    \<and> ik_status k = Key_completed \<and> ik_payload k = Receipt_payload r"
proof (cases "find_key False (t_tenantId input) (t_idempotencyKey input) w")
  case None
  from None have created: "find_key False (t_tenantId input) (t_idempotencyKey input)
      (create_key False (pending_key input) w) = Some (pending_key input)"
    by (rule find_key_create) simp
  from None assms have "run_posting E False input (create_key False (pending_key input) w) = (Inr (Some r), w')"
    by (simp add: postTransaction_def split: if_splits)
  then show ?thesis using created by (rule run_posting_key)
next
  case (Some k)
  show ?thesis
  proof (cases "ik_status k")
    case Key_failed
    with Some assms have "run_posting E False input w = (Inr (Some r), w')"
      by (simp add: postTransaction_def split: if_splits)
    then show ?thesis using Some by (rule run_posting_key)
  qed (use Some assms in \<open>auto simp: postTransaction_def fail_posting_def payload_receipt_Some split: if_splits\<close>)
qed

text \<open>Through the caller's transaction the posting commits and the key does not follow.\<close>

lemma run_posting_ext_key:
  assumes "run_posting E True input w = (Inr (Some r), w')"
  shows "outer w' = outer w"
  using assms by (auto simp: run_posting_def fail_posting_def split: sum.splits)

lemma commit_outer_find:
  assumes "List.find (is_key t k) (outer w) = Some r"
  shows "find_key False t k (commit_outer w) = Some r"
proof -
  have r: "r \<in> set (outer w)" "is_key t k r" using find_SomeD [OF assms] by auto
  have "List.find (is_key t k) (filter (\<lambda>x. \<not> (\<exists>s \<in> set (outer w). is_key (ik_tenant x) (ik_key x) s))
      (idem_keys (committed w))) = None"
    using r by (auto simp: find_None_iff is_key_def)
  with assms show ?thesis
    by (simp add: find_key_def findIdempotencyKey_def commit_outer_def find_append)
qed

section \<open>A sample run\<close>

text \<open>A capture of 500.00 posted to an empty ledger, with decimal counters as ids.\<close>

definition demo_env :: post_env where
  "demo_env = \<lparr>env_uuid = show_nat, env_sha256 = (\<lambda>s. take 3 (rev s)), env_clock = (\<lambda>k. 7),
     env_fault = (\<lambda>k. None), env_lock = True\<rparr>"

definition demo_capture :: builder where
  "demo_capture = capture_builder \<lparr>pc_tenantId = ''t1'', pc_paymentId = ''pay_1'', pc_amount = 50000,
     pc_currency = ''INR'', pc_idempotencyKey = ''k1'', pc_userId = None, pc_ipAddress = None,
     pc_requestId = None\<rparr>"

definition demo_receipt :: PostingReceipt where
  "demo_receipt = \<lparr>r_success = True, r_transactionId = ''2'', r_transactionHash = ''}]}'',
     r_entriesCount = 2, r_idempotencyKey = ''k1''\<rparr>"

definition demo_account :: "id \<Rightarrow> FinanceAccountType \<Rightarrow> string \<Rightarrow> ledger_account" where
  "demo_account i ty nm = \<lparr>la_id = i, la_tenant = ''t1'', la_type = ty, la_name = nm,
     la_currency = ''INR'', la_status = ''active'', la_precision = 2, la_minorUnit = 100\<rparr>"

definition demo_entry :: "id \<Rightarrow> direction \<Rightarrow> ledger_entry" where
  "demo_entry a dir = \<lparr>le_tenant = ''t1'', le_account = a, le_transaction = ''2'', le_amount = 50000,
     le_direction = dir, le_referenceType = ''payment_transaction'', le_referenceId = ''pay_1'',
     le_metadata = no_meta\<rparr>"

text \<open>The ledger after the capture, with the key rows it found.\<close>

definition demo_db :: "idem_row list \<Rightarrow> ledger_db" where
  "demo_db keys =
     \<lparr>accounts = [demo_account ''0'' PAYMENT_GATEWAY_CLEARING ''Platform Cash Clearing'',
                 demo_account ''1'' PLATFORM_ESCROW ''Platform Escrow Custody''],
      balances = [\<lparr>br_tenant = ''t1'', br_account = ''0'', br_balance = - 50000, br_debit = 50000, br_credit = 0\<rparr>,
                  \<lparr>br_tenant = ''t1'', br_account = ''1'', br_balance = 50000, br_debit = 0, br_credit = 50000\<rparr>],
      transactions = [\<lparr>lt_id = ''2'', lt_tenant = ''t1'', lt_type = ''TICKET_PURCHASE_CAPTURE'',
          lt_amount = 50000, lt_currency = ''INR'', lt_referenceType = ''payment_transaction'',
          lt_referenceId = ''pay_1'', lt_previousHash = GENESIS_HASH, lt_currentHash = ''}]}'', lt_createdAt = 7\<rparr>],
      entries = [demo_entry ''0'' Debit, demo_entry ''1'' Credit], idem_keys = keys, db_locks = [],
      audit_logs = [\<lparr>au_tenant = ''t1'', au_userId = None, au_entityId = ''2'', au_ipAddress = None,
          au_requestId = None, au_reference = ''payment_transaction:pay_1'', au_afterState = demo_receipt,
          au_transactionHash = ''}]}'', au_idempotencyKey = ''k1''\<rparr>],
      outbox = [\<lparr>ob_id = ''3'', ob_tenant = ''t1'', ob_transactionId = ''2'',
          ob_transactionType = ''TICKET_PURCHASE_CAPTURE'', ob_amount = 50000, ob_receipt = demo_receipt,
          ob_status = Ev_pending, ob_publishedAt = None\<rparr>],
      next_id = 4\<rparr>"

definition demo_input :: TransactionInput where
  "demo_input = builder_input demo_capture"

definition start_world :: ledger_world where
  "start_world = \<lparr>committed = empty_ledger, outer = []\<rparr>"

definition demo_world :: ledger_world where
  "demo_world = snd (builder_post demo_env False demo_capture start_world)"

lemma demo_env_simps [simp]:
  "env_lock demo_env" "env_clock demo_env k = 7" "env_fault demo_env k = None"
  by (simp_all add: demo_env_def)

lemma postingTxn_fault: "postingTxn (E\<lparr>env_fault := f\<rparr>) now input d = postingTxn E now input d"
proof -
  have "postingBody (E\<lparr>env_fault := f\<rparr>) now input = postingBody E now input"
    by (rule ext) (simp add: postingBody_def)
  then show ?thesis by (simp add: postingTxn_def split: prod.split)
qed

lemma demo_post: "builder_post demo_env False demo_capture start_world =
    (Inr (Some demo_receipt), \<lparr>committed = demo_db [(pending_key demo_input)\<lparr>ik_status := Key_completed,
       ik_payload := Receipt_payload demo_receipt\<rparr>], outer = []\<rparr>)"
  by code_simp

lemma demo_posting: "postingTxn demo_env 7 demo_input empty_ledger = Inr (demo_receipt, demo_db [])"
  by code_simp

lemma demo_reach: "ledger_reach show_nat (env_sha256 demo_env) demo_world"
  unfolding demo_world_def start_world_def
proof (rule reach_post [OF reach_start])
  show "\<forall>e\<in>set (b_entries demo_capture). 0 \<le> e_amount e" "b_amount demo_capture < 2 ^ 48" by code_simp+
qed (simp_all add: demo_env_def)

lemma demo_committed: "committed demo_world = demo_db [(pending_key demo_input)\<lparr>ik_status := Key_completed,
    ik_payload := Receipt_payload demo_receipt\<rparr>]"
  by (simp add: demo_world_def demo_post)

section \<open>Properties\<close>

text \<open>
  C1. Double entry: in every world that any sequence of postings, retries, failures, outer commits
  and rollbacks can reach, the stored debit entries of every ledger transaction add up to its
  stored amount, and so do its credit entries.
\<close>

theorem ledger_double_entry:
  assumes "ledger_reach uuid sha w" and "inj uuid" and "t \<in> set (transactions (committed w))"
  shows "tx_sum (committed w) Debit (lt_id t) = lt_amount t
    \<and> tx_sum (committed w) Credit (lt_id t) = lt_amount t"
  using ledger_reach_inv [OF assms(1,2)] assms(3) by (simp add: ledger_inv_def books_balanced_def)

theorem ledger_double_entry_witness:
  "tx_sum (committed demo_world) Debit ''2'' = 50000 \<and> tx_sum (committed demo_world) Credit ''2'' = 50000"
  using ledger_double_entry [OF demo_reach inj_show_nat, of "hd (transactions (committed demo_world))"]
  by (simp add: demo_committed demo_db_def)

text \<open>
  C17. Projections: as long as less than 2^48 minor units have been entered, the stored running
  balance of every account (computed by the code in binary floating point) is exactly the sum of
  its ledger entries, and an escrow or organizer account is never below zero.
\<close>

theorem running_balances_exact:
  assumes "ledger_reach uuid sha w" and "inj uuid" and "volume (committed w) < 2 ^ 48"
  shows "br_debit (row_of t a (committed w)) = acc_sum (committed w) Debit t a
    \<and> br_credit (row_of t a (committed w)) = acc_sum (committed w) Credit t a
    \<and> br_balance (row_of t a (committed w)) = acc_sum (committed w) Credit t a - acc_sum (committed w) Debit t a
    \<and> (\<forall>x. findAccountById a (committed w) = Some x \<longrightarrow> nonneg_type (la_type x)
           \<longrightarrow> 0 \<le> br_balance (row_of t a (committed w)))"
proof -
  have "books_exact (committed w)" using ledger_reach_inv [OF assms(1,2)] assms(3) by (simp add: ledger_inv_def)
  then show ?thesis unfolding books_exact_def row_good_def by metis
qed

theorem running_balances_exact_witness:
  "br_balance (row_of ''t1'' ''1'' (committed demo_world)) = 50000
    \<and> 0 \<le> br_balance (row_of ''t1'' ''1'' (committed demo_world))"
proof -
  have "volume (committed demo_world) < 2 ^ 48"
    by (simp add: demo_committed demo_db_def volume_def demo_entry_def)
  from running_balances_exact [OF demo_reach inj_show_nat this, of "''t1''" "''1''"] show ?thesis
    by (simp add: demo_committed demo_db_def acc_sum_def demo_entry_def)
qed

text \<open>
  C18. Idempotence: once a posting outside a caller's transaction has returned a receipt, posting
  the same builder again returns that receipt and changes nothing.
\<close>

theorem reposting_returns_receipt:
  assumes "builder_post E False b w = (Inr (Some r), w')" and "env_lock E'"
  shows "builder_post E' False b w' = (Inr (Some r), w')"
proof -
  from assms(1) obtain u where "validate_builder b = Inr u"
    and "postTransaction E False (builder_input b) w = (Inr (Some r), w')"
    by (auto simp: builder_post_def split: sum.splits)
  then show ?thesis
    using postTransaction_key assms(2) by (fastforce simp: builder_post_def postTransaction_def)
qed

theorem reposting_returns_receipt_witness:
  "builder_post demo_env False demo_capture demo_world = (Inr (Some demo_receipt), demo_world)"
  by (rule reposting_returns_receipt [where E = demo_env and w = start_world])
    (simp_all add: demo_post demo_world_def)

text \<open>
  C27. Bounded retry: when the first attempts are aborted by passing database faults and attempt
  \<open>m\<close> of at most six goes through, the loop gives exactly the result of that attempt's
  posting transaction, so nothing is posted twice.
\<close>

theorem retry_posts_once:
  assumes "1 \<le> m" "m \<le> maxPostingAttempts"
    and "\<And>k. 1 \<le> k \<Longrightarrow> k < m \<Longrightarrow> \<exists>e. env_fault E k = Some e \<and> isTransientFault e"
    and "env_fault E m = None" and "postingTxn E (env_clock E m) input d = Inr (r, d')"
  shows "post_attempts E input d 1 = Inr (r, d')
    \<and> length (transactions d') = Suc (length (transactions d))
    \<and> length (outbox d') = Suc (length (outbox d)) \<and> length (audit_logs d') = Suc (length (audit_logs d))"
proof -
  have "post_attempts E input d 1 = post_attempt E input d m"
  proof (rule posting.loop_reaches [OF assms(1,2)])
    fix k assume "1 \<le> k" "k < m"
    then show "\<exists>e. post_attempt E input d k = Inl e \<and> isTransientFault e"
      using assms(3) [of k] by (auto simp: post_attempt_def)
  qed (use assms in \<open>simp add: post_attempt_def\<close>)
  moreover obtain rs row where P: "posted E (env_clock E m) input d r d' rs row"
    using postingTxn_posted [OF assms(5)] by blast
  moreover have "length (outbox d') = Suc (length (outbox d)) \<and> length (audit_logs d') = Suc (length (audit_logs d))"
    using P unfolding posted_def by (elim exE conjE) simp
  ultimately show ?thesis
    using assms by (simp add: post_attempt_def posted_tables)
qed

theorem retry_posts_once_witness:
  "post_attempts (demo_env\<lparr>env_fault := (\<lambda>k. if k < 3 then Some (DbErr ''40001'' ''serialization'') else None)\<rparr>)
     demo_input empty_ledger 1 = Inr (demo_receipt, demo_db [])"
  (is "post_attempts ?E _ _ _ = _")
proof -
  have "postingTxn ?E (env_clock ?E 3) demo_input empty_ledger = Inr (demo_receipt, demo_db [])"
    by (simp add: postingTxn_fault demo_posting)
  from retry_posts_once [of 3 ?E, OF _ _ _ _ this] show ?thesis
    by (auto simp: maxPostingAttempts_def isTransientFault_def)
qed

text \<open>
  Posting through a caller's transaction: the posting itself is committed, but the key the
  caller commits afterwards is still pending, so repeating the same posting is refused as already
  processing, and that refusal marks the key failed, which lets a third try post again.
\<close>

theorem outer_transaction_loses_key:
  assumes "find_key True (t_tenantId input) (t_idempotencyKey input) w = None"
    and "postTransaction E True input w = (Inr (Some r), w')" and "env_lock E'"
  shows "\<exists>k w''. find_key False (t_tenantId input) (t_idempotencyKey input) (commit_outer w') = Some k
    \<and> ik_status k = Key_pending
    \<and> postTransaction E' False input (commit_outer w') = (Inl (already_processing input), w'')
    \<and> postTransaction E' False input w'' = run_posting E' False input w''"
proof -
  let ?find = "find_key False (t_tenantId input) (t_idempotencyKey input)"
  from assms(1,2) have run: "run_posting E True input (create_key True (pending_key input) w) = (Inr (Some r), w')"
    by (simp add: postTransaction_def split: if_splits)
  have "List.find (is_key (t_tenantId input) (t_idempotencyKey input)) (outer w) = None"
    using assms(1) by (auto simp: find_key_def split: option.splits)
  then have "List.find (is_key (t_tenantId input) (t_idempotencyKey input)) (outer w') = Some (pending_key input)"
    by (simp add: run_posting_ext_key [OF run] create_key_def find_append)
  then have k: "?find (commit_outer w') = Some (pending_key input)" by (rule commit_outer_find)
  define w'' where "w'' = update_key False (t_tenantId input) (t_idempotencyKey input) Key_failed
    (Error_payload (already_processing input)) (commit_outer w')"
  have second: "postTransaction E' False input (commit_outer w') = (Inl (already_processing input), w'')"
    using assms(3) k by (simp add: postTransaction_def fail_posting_def w''_def pending_key_def)
  have "?find w'' = Some ((pending_key input)\<lparr>ik_status := Key_failed,
      ik_payload := Error_payload (already_processing input)\<rparr>)"
    using k by (simp add: w''_def find_key_def update_key_def findIdempotencyKey_def
        updateIdempotencyKey_def find_update_where)
  then have "postTransaction E' False input w'' = run_posting E' False input w''"
    using assms(3) by (simp add: postTransaction_def)
  with k second show ?thesis by (auto simp: pending_key_def)
qed

theorem outer_transaction_loses_key_witness:
  "\<exists>w' w''. postTransaction demo_env True demo_input start_world = (Inr (Some demo_receipt), w')
    \<and> length (transactions (committed w')) = 1
    \<and> postTransaction demo_env False demo_input (commit_outer w') = (Inl (already_processing demo_input), w'')"
proof -
  have none: "find_key True (t_tenantId demo_input) (t_idempotencyKey demo_input) start_world = None"
    by (simp add: find_key_def start_world_def findIdempotencyKey_def empty_ledger_def)
  have "post_attempts demo_env demo_input empty_ledger 1 = Inr (demo_receipt, demo_db [])"
    using demo_posting by (subst post_attempts.simps) (simp add: post_attempt_def)
  then have post: "postTransaction demo_env True demo_input start_world
      = (Inr (Some demo_receipt), \<lparr>committed = demo_db [], outer = [pending_key demo_input]\<rparr>)"
    using none by (simp add: postTransaction_def run_posting_def create_key_def start_world_def)
  show ?thesis
    using outer_transaction_loses_key [OF none post, of demo_env] post
    by (auto simp: demo_db_def)
qed

end
