(* ===== verification/LedgerAudit.thy ===== *)
theory LedgerAudit
  imports LedgerWorld
begin

text \<open>
  \<open>src/modules/finance/ledger/audit.service.ts\<close>: the walk over a tenant's transactions that
  recomputes every hash of the chain, what a clean report means, and when the chain the engine
  builds gets one.
\<close>

section \<open>The walk\<close>

definition dec_to_minor :: "int \<Rightarrow> int" where
  "dec_to_minor c = math_round (js_mul (parse_dec c) 100)"

definition tx_entries :: "ledger_db \<Rightarrow> ledger_tx \<Rightarrow> ledger_entry list" where
  "tx_entries d t = filter (\<lambda>e. le_transaction e = lt_id t) (entries d)"

definition stored_details :: "ledger_db \<Rightarrow> ledger_tx \<Rightarrow> string" where
  "stored_details d t = txnDetails (lt_tenant t) (lt_type t) (dec_to_minor (lt_amount t)) (lt_currency t)
     (lt_referenceType t) (lt_referenceId t)
     (map (\<lambda>e. (le_account e, le_direction e, dec_to_minor (le_amount e))) (tx_entries d t))"

definition chain_broken :: "nat \<Rightarrow> ledger_tx \<Rightarrow> string \<Rightarrow> string" where
  "chain_broken i t expd = ''Cryptographic chain broken at transaction sequence '' @ show_nat i @ '' (ID: ''
     @ lt_id t @ ''). Expected previous_hash: '' @ expd @ '', Database contains: '' @ lt_previousHash t"

definition tampered :: "ledger_tx \<Rightarrow> string \<Rightarrow> string" where
  "tampered t computed = ''Tampering detected! Hash signature mismatch for transaction ID: '' @ lt_id t
     @ ''. Computed hash: '' @ computed @ '', Database contains: '' @ lt_currentHash t"

fun check_chain :: "(string \<Rightarrow> string) \<Rightarrow> ledger_db \<Rightarrow> string \<Rightarrow> nat \<Rightarrow> ledger_tx list \<Rightarrow> string list" where
  "check_chain sha d expd i [] = []"
| "check_chain sha d expd i (t # ts) =
     (if lt_previousHash t \<noteq> expd then [chain_broken i t expd] else [])
     @ (let h = sha (expd @ stored_details d t) in if lt_currentHash t \<noteq> h then [tampered t h] else [])
     @ check_chain sha d (lt_currentHash t) (Suc i) ts"

record verification_report =
  vr_healthy :: bool
  vr_count :: nat
  vr_errors :: "string list"

text \<open>Rows of one instant come in insertion order, as the sort by \<open>createdAt\<close> is stable.\<close>

definition verifyChainIntegrity :: "(string \<Rightarrow> string) \<Rightarrow> id \<Rightarrow> ledger_db \<Rightarrow> verification_report" where
  "verifyChainIntegrity sha tenant d =
     (let txs = sort_key lt_createdAt (tenant_txs tenant d);
          errors = check_chain sha d GENESIS_HASH 0 txs
      in \<lparr>vr_healthy = (errors = []), vr_count = length txs, vr_errors = errors\<rparr>)"

section \<open>What a clean report means\<close>

text \<open>The previous hash a position of the list has to carry.\<close>

definition link :: "ledger_tx list \<Rightarrow> nat \<Rightarrow> string" where
  "link txs i = (if i = 0 then GENESIS_HASH else lt_currentHash (txs ! (i - 1)))"

lemma check_chain_Nil_iff:
  "check_chain sha d expd n ts = [] \<longleftrightarrow>
    (\<forall>i < length ts. lt_previousHash (ts ! i) = (if i = 0 then expd else lt_currentHash (ts ! (i - 1)))
      \<and> lt_currentHash (ts ! i) = sha (lt_previousHash (ts ! i) @ stored_details d (ts ! i)))"
proof (induction ts arbitrary: expd n)
  case (Cons t ts)
  have shift: "(\<forall>i < length (t # ts). Q i) \<longleftrightarrow> Q 0 \<and> (\<forall>i < length ts. Q (Suc i))" for Q
    by (auto simp: less_Suc_eq_0_disj)
  have prev: "(if Suc i = 0 then expd else lt_currentHash ((t # ts) ! (Suc i - 1)))
      = (if i = 0 then lt_currentHash t else lt_currentHash (ts ! (i - 1)))" for i
    by (cases i) auto
  show ?case
    unfolding shift prev using Cons.IH [of "lt_currentHash t" "Suc n"] by (auto simp: Let_def)
qed simp

lemma check_chain_append:
  "check_chain sha d expd n (ts @ us) = check_chain sha d expd n ts
    @ check_chain sha d (if ts = [] then expd else lt_currentHash (last ts)) (n + length ts) us"
  by (induction ts arbitrary: expd n) auto

lemma check_chain_cong:
  "(\<And>t. t \<in> set ts \<Longrightarrow> stored_details d t = stored_details d' t) \<Longrightarrow>
    check_chain sha d expd n ts = check_chain sha d' expd n ts"
  by (induction ts arbitrary: expd n) auto

section \<open>Amounts read back\<close>

lemma dec_to_minor: assumes "0 \<le> c" "c < 2 ^ 48" shows "dec_to_minor c = c"
proof -
  define C where "C = rat_of_int c"
  have C: "0 \<le> C" "C < 2 ^ 48" using assms of_int_less_pow [of c 48] by (simp_all add: C_def)
  have p: "\<bar>parse_dec c * 100 - C\<bar> \<le> C / 2 ^ 53"
  proof -
    have "\<bar>parse_dec c * 100 - C\<bar> = 100 * \<bar>parse_dec c - C / 100\<bar>"
      by (simp add: abs_if field_simps)
    also have "\<dots> \<le> 100 * (C / 100 / 2 ^ 53)"
      using parse_dec_error [of c] assms(1) by (intro mult_left_mono) (simp_all add: C_def)
    finally show ?thesis by simp
  qed
  moreover have "C / 2 ^ 53 \<le> C" using C(1) by (simp add: field_simps)
  ultimately have "\<bar>parse_dec c * 100\<bar> \<le> 2 * C" by linarith
  then have "\<bar>parse_dec c * 100\<bar> / 2 ^ 53 \<le> 2 * C / 2 ^ 53" by (simp add: divide_right_mono)
  moreover have "\<bar>js_mul (parse_dec c) 100 - parse_dec c * 100\<bar> \<le> \<bar>parse_dec c * 100\<bar> / 2 ^ 53"
    unfolding js_mul_def by (rule fl_error)
  ultimately have "\<bar>js_mul (parse_dec c) 100 - C\<bar> \<le> 3 * C / 2 ^ 53" using p by linarith
  also have "\<dots> < 1 / 2" using C by simp
  finally have "rat_of_int c \<le> js_mul (parse_dec c) 100 + 1 / 2"
    "js_mul (parse_dec c) 100 + 1 / 2 < rat_of_int c + 1"
    unfolding C_def by linarith+
  then show ?thesis
    unfolding dec_to_minor_def math_round_def by (simp add: floor_eq_iff)
qed

section \<open>The chain the engine builds\<close>

lemma sort_key_smallest_last:
  "\<forall>y \<in> set xs. f x < f y \<Longrightarrow> sort_key f (xs @ [x]) = x # sort_key f xs"
  by (induction xs) auto

lemma latest_by_member: "latest_by k rs = Some m \<Longrightarrow> m \<in> set rs"
  by (induction rs arbitrary: m) (auto split: option.splits if_splits)

lemma latest_by_None [simp]: "latest_by k rs = None \<longleftrightarrow> rs = []"
  by (cases rs) (auto split: option.splits)

lemma latest_by_increasing:
  "sorted_wrt (<) (map k rs) \<Longrightarrow> latest_by k rs = (if rs = [] then None else Some (last rs))"
proof (induction rs)
  case (Cons r rs)
  show ?case
  proof (cases "rs = []")
    case False
    then have "k r < k (last rs)" using Cons.prems by simp
    moreover have "latest_by k rs = Some (last rs)" using False Cons by simp
    ultimately show ?thesis using False by simp
  qed simp
qed simp

lemma tenant_txs_posted:
  assumes "posted E now input d r d' rs row"
  shows "tenant_txs t d' = tenant_txs t d @ (if t = t_tenantId input then [row] else [])"
proof -
  from assms have "lt_tenant row = t_tenantId input" by (auto elim!: posted_elim)
  then show ?thesis by (simp add: tenant_txs_def posted_tables [OF assms])
qed

lemma chain_head_posted:
  assumes P: "posted E now input d r d' rs row"
  shows "lt_previousHash row = chain_head (t_tenantId input) d"
    and "lt_currentHash row = sha (lt_previousHash row @ txnDetails (t_tenantId input) (t_transactionType input)
      (t_amount input) (t_currency input) (t_referenceType input) (t_referenceId input)
      (map (\<lambda>e. (re_accountId e, re_direction e, re_amount e)) rs)) \<or> sha \<noteq> env_sha256 E"
    and "lt_createdAt row = now"
proof -
  from P obtain d0 d1 where
    res: "resolveEntries (env_uuid E) (t_tenantId input) (t_currency input) (t_entries input) d0 = Inr (rs, d1)"
    and d0: "\<exists>ls. d0 = d\<lparr>db_locks := ls\<rparr>"
    and row: "row = \<lparr>lt_id = env_uuid E (next_id d1), lt_tenant = t_tenantId input,
       lt_type = t_transactionType input, lt_amount = minor_to_dec (t_amount input),
       lt_currency = t_currency input, lt_referenceType = t_referenceType input,
       lt_referenceId = t_referenceId input, lt_previousHash = chain_head (t_tenantId input) d1,
       lt_currentHash = input_hash (env_sha256 E) (chain_head (t_tenantId input) d1) input rs,
       lt_createdAt = now\<rparr>"
    by (rule posted_elim)
  have "transactions d1 = transactions d"
    using resolveEntries_frame [OF res] d0 by (auto simp: same_books_def)
  then show "lt_previousHash row = chain_head (t_tenantId input) d"
    by (simp add: row chain_head_def getLatestTransaction_def tenant_txs_def)
  show "lt_currentHash row = sha (lt_previousHash row @ txnDetails (t_tenantId input) (t_transactionType input)
      (t_amount input) (t_currency input) (t_referenceType input) (t_referenceId input)
      (map (\<lambda>e. (re_accountId e, re_direction e, re_amount e)) rs)) \<or> sha \<noteq> env_sha256 E"
    "lt_createdAt row = now"
    by (auto simp: row input_hash_def)
qed

lemma stored_details_posted:
  assumes P: "posted E now input d r d' rs row" and G: "good_input input" and inj: "inj (env_uuid E)"
    and u: "unique_ids (env_uuid E) d"
  shows "t \<in> set (transactions d) \<Longrightarrow> stored_details d' t = stored_details d t"
    and "stored_details d' row = txnDetails (t_tenantId input) (t_transactionType input) (t_amount input)
      (t_currency input) (t_referenceType input) (t_referenceId input)
      (map (\<lambda>e. (re_accountId e, re_direction e, re_amount e)) rs)"
proof -
  note fresh = posted_unique(2) [OF P inj u] and tab = posted_tables [OF P]
  show "stored_details d' t = stored_details d t" if "t \<in> set (transactions d)"
  proof -
    have "lt_id t \<noteq> lt_id row" using fresh that by (metis image_eqI)
    then have "filter (\<lambda>e. le_transaction e = lt_id t) (map (to_ledger_entry input (lt_id row)) rs) = []"
      by (auto simp: filter_empty_conv)
    then show ?thesis by (simp add: stored_details_def tx_entries_def tab)
  qed
  have old: "filter (\<lambda>e. le_transaction e = lt_id row) (entries d) = []"
    using u fresh unfolding unique_ids_def filter_empty_conv by metis
  have new: "tx_entries d' row = map (to_ledger_entry input (lt_id row)) rs"
    using old by (simp add: tx_entries_def tab filter_map o_def)
  have amounts: "map (\<lambda>e. (le_account e, le_direction e, dec_to_minor (le_amount e)))
      (map (to_ledger_entry input (lt_id row)) rs) = map (\<lambda>e. (re_accountId e, re_direction e, re_amount e)) rs"
    using posted_amounts [OF P G] by (auto simp: posted_stored [OF P G] dec_to_minor)
  have "dec_to_minor (lt_amount row) = t_amount input"
    using G good_input_nonneg [OF G] by (simp add: posted_row [OF P G] dec_to_minor good_input_def)
  moreover have "lt_tenant row = t_tenantId input" "lt_type row = t_transactionType input"
    "lt_currency row = t_currency input" "lt_referenceType row = t_referenceType input"
    "lt_referenceId row = t_referenceId input"
    using P by (auto elim!: posted_elim)
  ultimately show "stored_details d' row = txnDetails (t_tenantId input) (t_transactionType input) (t_amount input)
      (t_currency input) (t_referenceType input) (t_referenceId input)
      (map (\<lambda>e. (re_accountId e, re_direction e, re_amount e)) rs)"
    by (simp only: stored_details_def new amounts)
qed

definition in_order :: "id \<Rightarrow> ledger_db \<Rightarrow> bool" where
  "in_order tenant d \<longleftrightarrow> sorted_wrt (<) (map lt_createdAt (tenant_txs tenant d))"

definition chain_inv :: "(string \<Rightarrow> string) \<Rightarrow> ledger_db \<Rightarrow> bool" where
  "chain_inv sha d \<longleftrightarrow> (\<forall>t. in_order t d \<longrightarrow> check_chain sha d GENESIS_HASH 0 (tenant_txs t d) = [])"

lemma posted_chain:
  assumes P: "posted E now input d r d' rs row" and G: "good_input input" and inj: "inj (env_uuid E)"
    and u: "unique_ids (env_uuid E) d" and c: "chain_inv (env_sha256 E) d"
  shows "chain_inv (env_sha256 E) d'"
  unfolding chain_inv_def
proof (intro allI impI)
  fix t assume o': "in_order t d'"
  have txs: "tenant_txs t d' = tenant_txs t d @ (if t = t_tenantId input then [row] else [])"
    by (rule tenant_txs_posted [OF P])
  have o: "in_order t d" using o' by (simp add: in_order_def txs sorted_wrt_append)
  have old: "check_chain (env_sha256 E) d' GENESIS_HASH 0 (tenant_txs t d) = []"
    using c o check_chain_cong [of "tenant_txs t d" d' d] stored_details_posted(1) [OF P G inj u]
    by (auto simp: chain_inv_def tenant_txs_def)
  show "check_chain (env_sha256 E) d' GENESIS_HASH 0 (tenant_txs t d') = []"
  proof (cases "t = t_tenantId input")
    case True
    have "chain_head t d = (if tenant_txs t d = [] then GENESIS_HASH else lt_currentHash (last (tenant_txs t d)))"
      using o by (simp add: chain_head_def getLatestTransaction_def in_order_def latest_by_increasing)
    with True chain_head_posted(1) [OF P] chain_head_posted(2) [OF P, of "env_sha256 E"]
    have "check_chain (env_sha256 E) d' (if tenant_txs t d = [] then GENESIS_HASH
        else lt_currentHash (last (tenant_txs t d))) (length (tenant_txs t d)) [row] = []"
      by (simp add: stored_details_posted(2) [OF P G inj u] Let_def)
    then have "check_chain (env_sha256 E) d' GENESIS_HASH 0 (tenant_txs t d @ [row]) = []"
      unfolding check_chain_append old by simp
    moreover have "tenant_txs t d' = tenant_txs t d @ [row]" using txs True by simp
    ultimately show ?thesis by (simp only:)
  qed (simp add: txs old)
qed

lemma chain_inv_books:
  assumes "books_of d' = books_of d" shows "chain_inv sha d' \<longleftrightarrow> chain_inv sha d"
proof -
  have eq: "transactions d' = transactions d" "entries d' = entries d"
    using assms by (simp_all add: books_of_def)
  have "check_chain sha d' x n ts = check_chain sha d x n ts" for x n ts
    by (rule check_chain_cong) (simp add: stored_details_def tx_entries_def eq)
  then show ?thesis by (simp add: chain_inv_def in_order_def tenant_txs_def eq)
qed

lemma ledger_reach_chain:
  assumes "ledger_reach uuid sha w" and inj: "inj uuid"
  shows "chain_inv sha (committed w)"
  using assms(1)
proof (induction rule: ledger_reach.induct)
  case (reach_post w E b ext)
  show ?case
  proof (cases "validate_builder b")
    case (Inr u)
    have good: "good_input (builder_input b)" by (rule validate_builder_good [OF Inr reach_post(4,5)])
    obtain res w' where post: "postTransaction E ext (builder_input b) w = (res, w')" by force
    have inv: "ledger_inv uuid (committed w)" by (rule ledger_reach_inv [OF reach_post(1) inj])
    have "chain_inv sha (committed w')"
      using postTransaction_result [OF post]
    proof (elim disjE exE conjE)
      assume "books_of (committed w') = books_of (committed w)"
      with reach_post show ?thesis using chain_inv_books by blast
    next
      fix m r d0 d rs row
      assume P: "posted E (env_clock E m) (builder_input b) d0 r d rs row"
        and b: "books_of d0 = books_of (committed w)" "books_of (committed w') = books_of d"
      have "ledger_inv uuid d0" using inv ledger_inv_books [OF b(1)] by blast
      then have "unique_ids uuid d0" by (simp add: ledger_inv_def)
      moreover have "chain_inv sha d0" using reach_post chain_inv_books [OF b(1)] by blast
      ultimately have "chain_inv (env_sha256 E) d"
        by (intro posted_chain [OF P good]) (use inj reach_post in auto)
      with b(2) reach_post(3) show ?thesis using chain_inv_books by blast
    qed
    then show ?thesis by (simp add: builder_post_def Inr post)
  qed (use reach_post in \<open>simp add: builder_post_def\<close>)
qed (simp_all add: chain_inv_books [OF books_of_keys(3)] chain_inv_books [OF books_of_keys(4)]
      chain_inv_books [OF books_of_keys(5)], simp add: chain_inv_def tenant_txs_def empty_ledger_def)

section \<open>Properties\<close>

text \<open>
  Audit: a report is healthy exactly when, in creation order, every transaction carries the
  hash of the one before it (the genesis hash for the first) and its own hash is the hash of that
  link and of the details read back from its stored rows.
\<close>

theorem verify_healthy_iff:
  "vr_healthy (verifyChainIntegrity sha tenant d) \<longleftrightarrow>
    (let txs = sort_key lt_createdAt (tenant_txs tenant d) in
      list_all (\<lambda>i. lt_previousHash (txs ! i) = link txs i
        \<and> lt_currentHash (txs ! i) = sha (link txs i @ stored_details d (txs ! i))) [0..<length txs])"
proof -
  have upto: "list_all P [0..<n] \<longleftrightarrow> (\<forall>i < n. P i)" for P n by (auto simp: list_all_iff)
  show ?thesis unfolding verifyChainIntegrity_def Let_def upto
    by (simp add: check_chain_Nil_iff link_def cong: conj_cong)
qed

text \<open>
  C19. The engine's chain passes the audit: in every reachable world, for a tenant whose
  transactions were created in the order they were posted, the report is healthy and has verified
  every transaction.
\<close>

theorem posted_chain_verifies:
  assumes "ledger_reach uuid sha w" and "inj uuid" and "in_order tenant (committed w)"
  shows "vr_healthy (verifyChainIntegrity sha tenant (committed w))
    \<and> vr_count (verifyChainIntegrity sha tenant (committed w)) = length (tenant_txs tenant (committed w))"
proof -
  have "sorted (map lt_createdAt (tenant_txs tenant (committed w)))"
    using assms(3) strict_sorted_imp_sorted by (auto simp: in_order_def)
  then have "sort_key lt_createdAt (tenant_txs tenant (committed w)) = tenant_txs tenant (committed w)"
    by (rule sort_key_id_if_sorted)
  moreover have "check_chain sha (committed w) GENESIS_HASH 0 (tenant_txs tenant (committed w)) = []"
    using ledger_reach_chain [OF assms(1,2)] assms(3) by (simp add: chain_inv_def)
  ultimately show ?thesis by (simp add: verifyChainIntegrity_def)
qed

theorem posted_chain_verifies_witness:
  "vr_healthy (verifyChainIntegrity (env_sha256 demo_env) ''t1'' (committed demo_world))
    \<and> vr_count (verifyChainIntegrity (env_sha256 demo_env) ''t1'' (committed demo_world)) = 1"
proof -
  have "in_order ''t1'' (committed demo_world)"
    by (simp add: demo_committed demo_db_def in_order_def tenant_txs_def)
  from posted_chain_verifies [OF demo_reach inj_show_nat this] show ?thesis
    by (simp add: demo_committed demo_db_def tenant_txs_def)
qed

text \<open>
  Clock order: the engine links a posting to the latest transaction by creation time, and the
  creation time is the start of its database transaction. A posting whose transaction started
  before the ones it was linked behind leaves a chain the audit reports as broken, although
  nothing was tampered with.
\<close>

theorem late_posting_breaks_audit:
  assumes "posted E now input d r d' rs row" and "tenant_txs (t_tenantId input) d \<noteq> []"
    and "\<forall>t \<in> set (tenant_txs (t_tenantId input) d). now < lt_createdAt t \<and> lt_currentHash t \<noteq> GENESIS_HASH"
  shows "\<not> vr_healthy (verifyChainIntegrity sha (t_tenantId input) d')"
proof -
  let ?old = "tenant_txs (t_tenantId input) d"
  obtain m where m: "latest_by lt_createdAt ?old = Some m"
    using assms(2) by (cases "latest_by lt_createdAt ?old") auto
  then have head: "lt_previousHash row \<noteq> GENESIS_HASH"
    using assms(3) chain_head_posted(1) [OF assms(1)] latest_by_member [OF m]
    by (auto simp: chain_head_def getLatestTransaction_def)
  have sorted: "sort_key lt_createdAt (?old @ [row]) = row # sort_key lt_createdAt ?old"
    using assms(3) chain_head_posted(3) [OF assms(1)] by (intro sort_key_smallest_last) auto
  show ?thesis
    unfolding verifyChainIntegrity_def tenant_txs_posted [OF assms(1)]
    using head by (simp add: sorted Let_def)
qed

lemma demo_late: "\<not> isl (postingTxn demo_env 5 demo_input (demo_db []))"
  by code_simp

theorem late_posting_breaks_audit_witness:
  "\<exists>r d'. postingTxn demo_env 5 demo_input (demo_db []) = Inr (r, d')
    \<and> \<not> vr_healthy (verifyChainIntegrity (env_sha256 demo_env) ''t1'' d')"
proof -
  obtain r d' where late: "postingTxn demo_env 5 demo_input (demo_db []) = Inr (r, d')"
    using demo_late by (cases "postingTxn demo_env 5 demo_input (demo_db [])") auto
  then obtain rs row where P: "posted demo_env 5 demo_input (demo_db []) r d' rs row"
    using postingTxn_posted by blast
  have t: "t_tenantId demo_input = ''t1''" by code_simp
  have "\<not> vr_healthy (verifyChainIntegrity (env_sha256 demo_env) (t_tenantId demo_input) d')"
    by (rule late_posting_breaks_audit [OF P])
      (simp_all add: t demo_db_def tenant_txs_def GENESIS_HASH_def numeral_eq_Suc)
  with late show ?thesis by (simp add: t)
qed

text \<open>
  Funds check: on a protected account whose columns hold exact cents, a debit that leaves a
  surplus is accepted and a debit beyond the balance is refused, for all amounts below 2^48.
\<close>

theorem funds_check_decides:
  assumes "findAccountById acc d = Some a" and "nonneg_type (la_type a)"
    and "r = row_of ten acc d" and "0 \<le> n" and "0 \<le> br_debit r" "br_debit r + n < 2 ^ 48"
    and "0 \<le> br_credit r" "br_credit r < 2 ^ 48"
  shows "(n < br_credit r - br_debit r \<longrightarrow> (\<exists>d'. updateRunningBalance acc ten n Debit d = Inr d'))
    \<and> (br_credit r - br_debit r < n \<longrightarrow> updateRunningBalance acc ten n Debit d = Inl insufficient_funds)"
proof -
  let ?fd = "js_add (parse_dec (br_debit r)) (parse_dec n)" and ?fc = "parse_dec (br_credit r)"
  have near: "\<bar>?fd - of_int (br_debit r + n) / 100\<bar> < 1 / 1000" "\<bar>?fc - of_int (br_credit r) / 100\<bar> < 1 / 1000"
    using cents_add_error [OF assms(5,4,6)] cents_error [OF assms(7,8)] by auto
  have run: "updateRunningBalance acc ten n Debit d = Inl insufficient_funds \<longleftrightarrow> ?fc < ?fd"
    "\<not> ?fc < ?fd \<Longrightarrow> \<exists>d'. updateRunningBalance acc ten n Debit d = Inr d'"
    using assms(1,2) unfolding assms(3)
    by (auto simp: updateRunningBalance_def row_of_def getRunningBalance_def js_div_100 js_sub_neg Let_def
        insufficient_funds_def split: option.splits)
  show ?thesis
    using run near_less [OF near(1) near(2)] near_less [OF near(2) near(1)] by fastforce
qed

definition drained_db :: ledger_db where
  "drained_db = empty_ledger\<lparr>accounts := [demo_account ''a'' ORGANIZER_BALANCE ''Organizer Available: o''],
     balances := [\<lparr>br_tenant = ''t1'', br_account = ''a'', br_balance = 20, br_debit = 10, br_credit = 30\<rparr>]\<rparr>"

theorem funds_check_decides_witness:
  "(\<exists>d'. updateRunningBalance ''a'' ''t1'' 19 Debit drained_db = Inr d')
    \<and> updateRunningBalance ''a'' ''t1'' 21 Debit drained_db = Inl insufficient_funds"
proof -
  let ?r = "\<lparr>br_tenant = ''t1'', br_account = ''a'', br_balance = 20, br_debit = 10, br_credit = 30\<rparr> :: balance_row"
  have acc: "findAccountById ''a'' drained_db = Some (demo_account ''a'' ORGANIZER_BALANCE ''Organizer Available: o'')"
    and type: "nonneg_type (la_type (demo_account ''a'' ORGANIZER_BALANCE ''Organizer Available: o''))"
    and row: "?r = row_of ''t1'' ''a'' drained_db"
    by (simp_all add: drained_db_def findAccountById_def demo_account_def nonneg_type_def row_of_def
        getRunningBalance_def is_balance_def)
  show ?thesis
    using funds_check_decides [OF acc type row, of 19] funds_check_decides [OF acc type row, of 21] by simp
qed

text \<open>
  The exact balance is the exception: an organizer balance of 0.30 from which 0.10 has been
  drawn holds 0.20, and drawing these 0.20 is refused as insufficient, because the code compares
  0.1 + 0.2 with 0.3 in binary floating point.
\<close>

theorem exact_drain_refused:
  "br_balance (row_of ''t1'' ''a'' drained_db) = 20
    \<and> updateRunningBalance ''a'' ''t1'' 20 Debit drained_db = Inl insufficient_funds"
  by code_simp

end
