(* ===== verification/FinanceTax.thy ===== *)
theory FinanceTax
  imports LedgerAudit
begin

text \<open>
  \<open>src/modules/finance/tax/service.ts\<close>: commission, fees and GST in basis points, the regional
  split into CGST and SGST or IGST, the tax share of a refund, the tax invoice and the statutory
  report over the ledger entries of the tax account. Amounts are minor units; the products and
  quotients are those of Numbers.
\<close>

section \<open>Basis points\<close>

definition calculateByBps :: "int \<Rightarrow> int \<Rightarrow> int" where
  "calculateByBps amountMinor bps = math_round (js_div (js_mul (of_int amountMinor) (of_int bps)) 10000)"

definition platformCommissionBps :: int where "platformCommissionBps = 1000"
definition convenienceFeeBps :: int where "convenienceFeeBps = 500"
definition gstBps :: int where "gstBps = 1800"

definition calculatePlatformFee :: "int \<Rightarrow> int" where
  "calculatePlatformFee subtotalMinor = calculateByBps subtotalMinor platformCommissionBps"
definition calculateConvenienceFee :: "int \<Rightarrow> int" where
  "calculateConvenienceFee subtotalMinor = calculateByBps subtotalMinor convenienceFeeBps"

definition prorateTax :: "int \<Rightarrow> int \<Rightarrow> int \<Rightarrow> int" where
  "prorateTax originalTaxMinor refundAmountMinor originalAmountMinor =
     (if originalAmountMinor \<le> 0 then 0
      else math_round (js_mul (js_div (of_int refundAmountMinor) (of_int originalAmountMinor))
                         (of_int originalTaxMinor)))"

definition calculateProviderFeeGst :: "int \<Rightarrow> int \<times> int" where
  "calculateProviderFeeGst transactionAmountMinor =
     (let providerFee = calculateByBps transactionAmountMinor 200;
          providerGst = calculateByBps providerFee 1800
      in (providerFee, providerGst))"

section \<open>Tax calculations\<close>

datatype TaxComponentType = Gst | Cgst | Sgst | Igst | Vat | Ticket_tax | Invoice_tax | Gateway_gst

record TaxComponent =
  c_type :: TaxComponentType
  c_label :: string
  c_rateBps :: int
  c_taxableAmount :: int
  c_amount :: int

record TaxCalculation =
  x_jurisdiction :: string
  x_currency :: string
  x_taxableAmount :: int
  x_totalTax :: int
  x_components :: "TaxComponent list"
  x_taxInclusive :: bool
  x_policyVersion :: string
  x_customerStateCode :: "string option"
  x_platformStateCode :: "string option"

definition component :: "TaxComponentType \<Rightarrow> string \<Rightarrow> int \<Rightarrow> int \<Rightarrow> int \<Rightarrow> TaxComponent" where
  "component ty label rate taxable amount =
     \<lparr>c_type = ty, c_label = label, c_rateBps = rate, c_taxableAmount = taxable, c_amount = amount\<rparr>"

definition calculateGstOnAmount :: "int \<Rightarrow> string \<Rightarrow> TaxCalculation" where
  "calculateGstOnAmount taxable currency =
     (let amount = calculateByBps taxable gstBps
      in \<lparr>x_jurisdiction = ''IN'', x_currency = currency, x_taxableAmount = taxable, x_totalTax = amount,
          x_components = [component Gst ''GST'' gstBps taxable amount], x_taxInclusive = False,
          x_policyVersion = ''finance-tax-v1'', x_customerStateCode = None, x_platformStateCode = None\<rparr>)"

definition same_state :: "string \<Rightarrow> string \<Rightarrow> bool" where
  "same_state a b \<longleftrightarrow> toUpperCase (trim a) = toUpperCase (trim b)"

definition calculateRegionalTax :: "int \<Rightarrow> string \<Rightarrow> string \<Rightarrow> string \<Rightarrow> TaxCalculation" where
  "calculateRegionalTax taxable customerState platformState currency =
     (let totalTax = calculateByBps taxable gstBps;
          components =
            (if same_state customerState platformState then
               let cgstAmount = calculateByBps taxable 900; sgstAmount = totalTax - cgstAmount
               in [component Cgst ''CGST'' 900 taxable cgstAmount,
                   component Sgst ''SGST'' 900 taxable sgstAmount]
             else [component Igst ''IGST'' 1800 taxable totalTax])
      in \<lparr>x_jurisdiction = ''IN'', x_currency = currency, x_taxableAmount = taxable, x_totalTax = totalTax,
          x_components = components, x_taxInclusive = False, x_policyVersion = ''finance-tax-regional-v1'',
          x_customerStateCode = Some customerState, x_platformStateCode = Some platformState\<rparr>)"

section \<open>The tax invoice\<close>

text \<open>The columns of the order the invoice reads; money columns in hundredths.\<close>

record invoiced_order =
  io_id :: id
  io_orderNumber :: string
  io_purchaserName :: "string option"
  io_currency :: string
  io_subtotalAmount :: int
  io_totalAmount :: int

record tax_invoice =
  iv_invoiceNumber :: string
  iv_invoiceDate :: time_ms
  iv_orderId :: id
  iv_customerName :: string
  iv_subtotalAmount :: int
  iv_convenienceFee :: int
  iv_taxableAmount :: int
  iv_totalTax :: int
  iv_totalAmount :: int
  iv_taxComponents :: "(TaxComponentType \<times> string \<times> int \<times> int) list"

definition generateTaxInvoice :: "time_ms \<Rightarrow> invoiced_order \<Rightarrow> string \<Rightarrow> string \<Rightarrow> tax_invoice" where
  "generateTaxInvoice now order customerState platformState =
     (let subtotalMinor = dec_to_minor (io_subtotalAmount order);
          convenienceFeeMinor = calculateConvenienceFee subtotalMinor;
          taxCalc = calculateRegionalTax convenienceFeeMinor customerState platformState (io_currency order)
      in \<lparr>iv_invoiceNumber = ''INV-'' @ io_orderNumber order, iv_invoiceDate = now, iv_orderId = io_id order,
          iv_customerName = (if truthy (io_purchaserName order) then the (io_purchaserName order) else ''Customer''),
          iv_subtotalAmount = io_subtotalAmount order,
          iv_convenienceFee = minor_to_dec convenienceFeeMinor,
          iv_taxableAmount = minor_to_dec convenienceFeeMinor,
          iv_totalTax = minor_to_dec (x_totalTax taxCalc), iv_totalAmount = io_totalAmount order,
          iv_taxComponents = map (\<lambda>c. (c_type c, c_label c, c_rateBps c, minor_to_dec (c_amount c)))
            (x_components taxCalc)\<rparr>)"

section \<open>The statutory report\<close>

text \<open>
  Entry metadata is a JSON object; the program writes at most the three fields of
  \<open>entry_meta\<close>, and the report looks up a fourth. The loop keeps four running Numbers.
\<close>

definition meta_fields :: "entry_meta \<Rightarrow> (string \<times> string) list" where
  "meta_fields m = List.map_filter (\<lambda>(k, v). map_option (Pair k) v)
     [(''organizerId'', m_organizerId m), (''customerId'', m_customerId m), (''reason'', m_reason m)]"

record tax_totals =
  tt_gst :: rat
  tt_cgst :: rat
  tt_sgst :: rat
  tt_igst :: rat

definition entry_tax_type :: "string \<Rightarrow> ledger_entry \<Rightarrow> string" where
  "entry_tax_type accountName e =
     (case map_option toUpperCase (map_of (meta_fields (le_metadata e)) ''taxType'') of
        Some t \<Rightarrow> if t \<noteq> [] then t else
          (if sublist ''CGST'' accountName then ''CGST'' else if sublist ''SGST'' accountName then ''SGST'' else ''IGST'')
      | None \<Rightarrow>
          (if sublist ''CGST'' accountName then ''CGST'' else if sublist ''SGST'' accountName then ''SGST'' else ''IGST''))"

definition tax_step :: "string \<Rightarrow> tax_totals \<Rightarrow> ledger_entry \<Rightarrow> tax_totals" where
  "tax_step accountName s e =
     (let val = parse_dec (le_amount e); taxType = entry_tax_type accountName e;
          acc = (if le_direction e = Credit then (\<lambda>x. js_add x val) else (\<lambda>x. js_sub x val));
          s1 = s\<lparr>tt_gst := acc (tt_gst s)\<rparr>
      in if taxType = ''CGST'' then s1\<lparr>tt_cgst := acc (tt_cgst s1)\<rparr>
         else if taxType = ''SGST'' then s1\<lparr>tt_sgst := acc (tt_sgst s1)\<rparr>
         else s1\<lparr>tt_igst := acc (tt_igst s1)\<rparr>)"

record statutory_report =
  sr_tenantId :: id
  sr_totalTaxCollected :: int
  sr_cgstCollected :: int
  sr_sgstCollected :: int
  sr_igstCollected :: int

definition account_entries :: "id \<Rightarrow> id \<Rightarrow> ledger_db \<Rightarrow> ledger_entry list" where
  "account_entries tenant account d =
     filter (\<lambda>e. le_account e = account \<and> le_tenant e = tenant) (entries d)"

definition getTaxStatutoryReport ::
    "(nat \<Rightarrow> id) \<Rightarrow> id \<Rightarrow> ledger_db \<Rightarrow> (statutory_report \<times> ledger_db) res" where
  "getTaxStatutoryReport uuid tenant d =
     bindR (resolveAccount uuid tenant TAX_PAYABLE None ''INR'' d)
       (\<lambda>(taxAcc, d1).
          let s = foldl (tax_step (la_name taxAcc)) \<lparr>tt_gst = 0, tt_cgst = 0, tt_sgst = 0, tt_igst = 0\<rparr>
                    (account_entries tenant (la_id taxAcc) d1)
          in Inr (\<lparr>sr_tenantId = tenant, sr_totalTaxCollected = to_fixed2 (tt_gst s),
                   sr_cgstCollected = to_fixed2 (tt_cgst s), sr_sgstCollected = to_fixed2 (tt_sgst s),
                   sr_igstCollected = to_fixed2 (tt_igst s)\<rparr>, d1))"

section \<open>Rounding\<close>

lemma calculateByBps_exact:
  assumes "0 \<le> a" "0 \<le> b" "a * b < 2 ^ 53" "a < 2 ^ 53" "b < 2 ^ 53"
  shows "calculateByBps a b = (2 * (a * b) + 10000) div 20000"
proof -
  have "0 \<le> a * b" using assms by simp
  then have "js_mul (of_int a) (of_int b) = of_int (a * b)"
    using fl_of_int [of "a * b"] assms(3) by (simp add: js_mul_def)
  then show ?thesis
    unfolding calculateByBps_def using math_round_div [OF \<open>0 \<le> a * b\<close> assms(3)] by simp
qed

lemma bps_rate:
  assumes "0 \<le> a" "a < 2 ^ 40" "0 \<le> b" "b \<le> 8000"
  shows "calculateByBps a b = (2 * (a * b) + 10000) div 20000"
proof (rule calculateByBps_exact)
  have "a * b \<le> a * 8000" using assms by (intro mult_left_mono) auto
  also have "\<dots> < 2 ^ 53" using assms by simp
  finally show "a * b < 2 ^ 53" .
qed (use assms in auto)

text \<open>
  A fee of \<open>b\<close> basis points is the exact one rounded half up: it never differs from it by
  more than half a minor unit.
\<close>

lemma bps_bounds:
  assumes "0 \<le> a" "a < 2 ^ 40" "0 \<le> b" "b \<le> 8000"
  shows "0 \<le> calculateByBps a b" and "2 * (a * b) - 10000 < 20000 * calculateByBps a b"
    and "20000 * calculateByBps a b \<le> 2 * (a * b) + 10000"
  using assms unfolding bps_rate [OF assms] by (auto intro!: pos_imp_zdiv_nonneg_iff [THEN iffD2])

section \<open>Where the report puts a tax entry\<close>

lemma no_tax_type: "map_of (meta_fields m) ''taxType'' = None"
  by (cases "m_organizerId m"; cases "m_customerId m"; cases "m_reason m")
    (simp_all add: meta_fields_def map_filter_simps)

lemma tax_account_type: "entry_tax_type ''Tax Liabilities (GST/VAT)'' e = ''IGST''"
proof -
  have "\<not> sublist ''CGST'' ''Tax Liabilities (GST/VAT)''" "\<not> sublist ''SGST'' ''Tax Liabilities (GST/VAT)''"
    by code_simp+
  then show ?thesis by (simp add: entry_tax_type_def no_tax_type)
qed

lemma tax_account_fold:
  "tt_igst s = tt_gst s \<Longrightarrow>
    let s' = foldl (tax_step ''Tax Liabilities (GST/VAT)'') s es
    in tt_igst s' = tt_gst s' \<and> tt_cgst s' = tt_cgst s \<and> tt_sgst s' = tt_sgst s"
  by (induction es arbitrary: s) (auto simp: tax_step_def tax_account_type Let_def)

section \<open>Properties\<close>

text \<open>
  Regional tax: for a taxable amount below 2^40 minor units, the total is the exact 18 percent
  rounded half up, the components of the invoice add up to the total to the last minor unit, no
  component is negative, and within one state CGST and SGST differ by at most one minor unit.
\<close>

theorem regional_tax_splits:
  assumes "0 \<le> n" "n < 2 ^ 40" and "t = calculateRegionalTax n customerState platformState cur"
  shows "x_totalTax t = (18 * n + 50) div 100
    \<and> sum_list (map c_amount (x_components t)) = x_totalTax t
    \<and> (\<forall>c \<in> set (x_components t). 0 \<le> c_amount c)
    \<and> (\<forall>c \<in> set (x_components t). \<forall>c' \<in> set (x_components t). \<bar>c_amount c - c_amount c'\<bar> \<le> 1)"
proof -
  have total: "calculateByBps n 1800 = (18 * n + 50) div 100"
    using bps_rate [OF assms(1,2), of 1800] by simp
  have half: "calculateByBps n 900 = (9 * n + 50) div 100"
    using bps_rate [OF assms(1,2), of 900] by simp
  show ?thesis
    using assms(1) unfolding assms(3) calculateRegionalTax_def Let_def gstBps_def total half component_def
    by (auto; presburger)
qed

theorem regional_tax_splits_witness:
  "map c_amount (x_components (calculateRegionalTax 5 '' mh'' ''MH'' ''INR'')) = [0, 1]
    \<and> sum_list (map c_amount (x_components (calculateRegionalTax 5 '' mh'' ''MH'' ''INR'')))
        = (18 * 5 + 50) div 100"
proof -
  have "map c_amount (x_components (calculateRegionalTax 5 '' mh'' ''MH'' ''INR'')) = [0, 1]"
    by code_simp
  with regional_tax_splits [of 5 _ "'' mh''" "''MH''" "''INR''", OF _ _ refl] show ?thesis by simp
qed

text \<open>
  Statutory report: every tax entry is reported as IGST. The account the report reads has a
  fixed name with neither CGST nor SGST in it and no entry carries a tax type, so the intra-state
  lines are zero and the inter-state line is the whole tax, whatever the invoices said.
\<close>

theorem statutory_report_is_all_igst:
  assumes "getTaxStatutoryReport uuid tenant d = Inr (r, d')"
  shows "sr_cgstCollected r = 0 \<and> sr_sgstCollected r = 0 \<and> sr_igstCollected r = sr_totalTaxCollected r"
proof -
  obtain a where a: "resolveAccount uuid tenant TAX_PAYABLE None ''INR'' d = Inr (a, d')"
    and r: "r = (let s = foldl (tax_step (la_name a)) \<lparr>tt_gst = 0, tt_cgst = 0, tt_sgst = 0, tt_igst = 0\<rparr>
                    (account_entries tenant (la_id a) d')
          in \<lparr>sr_tenantId = tenant, sr_totalTaxCollected = to_fixed2 (tt_gst s),
                   sr_cgstCollected = to_fixed2 (tt_cgst s), sr_sgstCollected = to_fixed2 (tt_sgst s),
                   sr_igstCollected = to_fixed2 (tt_igst s)\<rparr>)"
    using assms by (auto simp: getTaxStatutoryReport_def bindR_Inr Let_def)
  have nm: "la_name a = ''Tax Liabilities (GST/VAT)''"
    using a by (auto simp: resolveAccount_def getOrCreateAccount_def same_account_def Let_def
        split: option.splits dest: find_SomeD)
  have "to_fixed2 0 = 0" using to_fixed2_parse_dec [of 0] by simp
  with tax_account_fold [of "\<lparr>tt_gst = 0, tt_cgst = 0, tt_sgst = 0, tt_igst = 0\<rparr>"] show ?thesis
    by (simp add: r nm Let_def)
qed

text \<open>A ledger whose tax account \<open>''a''\<close> was credited 18.00 of intra-state tax.\<close>

definition demo_tax_db :: ledger_db where
  "demo_tax_db = empty_ledger
     \<lparr>accounts := [\<lparr>la_id = ''a'', la_tenant = ''t1'', la_type = TAX_PAYABLE,
        la_name = ''Tax Liabilities (GST/VAT)'', la_currency = ''INR'', la_status = ''active'',
        la_precision = 2, la_minorUnit = 100\<rparr>],
      entries := [\<lparr>le_tenant = ''t1'', le_account = ''a'', le_transaction = ''x'', le_amount = 1800,
        le_direction = Credit, le_referenceType = ''settlement_run'', le_referenceId = ''s1'',
        le_metadata = no_meta\<lparr>m_reason := Some ''CGST''\<rparr>\<rparr>]\<rparr>"

definition demo_report :: statutory_report where
  "demo_report = \<lparr>sr_tenantId = ''t1'', sr_totalTaxCollected = 1800, sr_cgstCollected = 0,
     sr_sgstCollected = 0, sr_igstCollected = 1800\<rparr>"

theorem statutory_report_is_all_igst_witness:
  "getTaxStatutoryReport show_nat ''t1'' demo_tax_db = Inr (demo_report, demo_tax_db)
    \<and> sr_cgstCollected demo_report = 0 \<and> sr_igstCollected demo_report = 1800"
proof -
  have run: "getTaxStatutoryReport show_nat ''t1'' demo_tax_db = Inr (demo_report, demo_tax_db)"
    by code_simp
  from statutory_report_is_all_igst [OF run] run show ?thesis by (simp add: demo_report_def)
qed

end
