(* ===== verification/PayStore.thy ===== *)
theory PayStore
  imports FinanceTax Inventory IssuedTickets Steps
begin

text \<open>
  The payment tables (\<open>src/db/schema/payments.ts\<close>, \<open>ledger.ts\<close>,
  \<open>user-wallets.ts\<close>), the operations of \<open>src/modules/payments/repository.ts\<close> on
  them, and what a payment operation works in: the tables, the ledger, and the calls it has made
  to the payment gateway. A database transaction that throws restores the tables and drops the
  idempotency keys it wrote; what a ledger posting inside it committed, and what the gateway was
  asked to do, stay.
\<close>

section \<open>Tables\<close>

record payment_order =
  po_id :: id
  po_tenant :: id
  po_booking :: id
  po_razorpayId :: string
  po_amount :: int
  po_currency :: string
  po_status :: payment_state
  po_retryCount :: int
  po_createdBy :: id

record payment_txn =
  pt_id :: id
  pt_tenant :: id
  pt_order :: id
  pt_razorpayId :: string
  pt_amount :: int
  pt_currency :: string
  pt_status :: string

record payment_refund =
  pf_id :: id
  pf_tenant :: id
  pf_txn :: id
  pf_razorpayId :: string
  pf_amount :: int
  pf_status :: string
  pf_approval :: string
  pf_reason :: "string option"
  pf_rejection :: "string option"

record lifecycle_row =
  pl_tenant :: id
  pl_order :: "id option"
  pl_txn :: "id option"
  pl_refund :: "id option"
  pl_entityType :: string
  pl_entityId :: id
  pl_eventType :: string
  pl_from :: "string option"
  pl_to :: "string option"
  pl_actor :: "id option"

record pay_audit =
  pa_actor :: "id option"
  pa_tenant :: id
  pa_entityType :: string
  pa_entityId :: id
  pa_action :: string
  pa_before :: "string option"
  pa_after :: "string option"

record wallet_row =
  wa_id :: id
  wa_tenant :: id
  wa_organizer :: id
  wa_available :: int
  wa_pending :: int
  wa_withdrawn :: int

record wallet_txn =
  wt_id :: id
  wt_tenant :: id
  wt_organizer :: id
  wt_wallet :: id
  wt_type :: string
  wt_status :: string
  wt_amount :: int
  wt_currency :: string
  wt_refType :: string
  wt_refId :: id
  wt_description :: string

record settlement_run =
  ru_id :: id
  ru_tenant :: id
  ru_amount :: int
  ru_status :: string
  ru_discrepancies :: "(id \<times> string) list"
  ru_approvedBy :: "id option"
  ru_approvedAt :: "time_ms option"
  ru_processedAt :: "time_ms option"

record withdrawal =
  wd_id :: id
  wd_tenant :: id
  wd_organizer :: id
  wd_amount :: int
  wd_status :: string
  wd_requestedAt :: time_ms
  wd_processedAt :: "time_ms option"
  wd_processedBy :: "id option"
  wd_payoutId :: "string option"
  wd_gatewayStatus :: "string option"
  wd_error :: "string option"

record organizer_row =
  og_id :: id
  og_tenant :: id
  og_verification :: string

record user_wallet =
  uw_id :: id
  uw_user :: id
  uw_balance :: int

record user_wallet_txn =
  ux_user :: id
  ux_wallet :: id
  ux_type :: string
  ux_amount :: int
  ux_description :: string
  ux_refType :: string
  ux_refId :: id

record pay_db =
  shop :: booking_db
  pay_orders :: "payment_order list"
  pay_txns :: "payment_txn list"
  pay_refunds :: "payment_refund list"
  pay_events :: "lifecycle_row list"
  pay_audits :: "pay_audit list"
  wallets :: "wallet_row list"
  wallet_txns :: "wallet_txn list"
  runs :: "settlement_run list"
  withdrawals :: "withdrawal list"
  organizers :: "organizer_row list"
  user_wallets :: "user_wallet list"
  user_wallet_txns :: "user_wallet_txn list"
  pay_next :: nat

section \<open>Surroundings\<close>

text \<open>What the gateway is asked, in order; a refund may carry an idempotency key.\<close>

datatype gateway_call =
    Call_order int string id
  | Call_refund string int "string option"
  | Call_payout id int

record refund_reply =
  rr_id :: "string option"
  rr_failed :: bool

text \<open>
  The outside of a payment operation: the booking surroundings (ids, instant, random text), one
  posting surroundings per ledger posting of the operation, the answers of the gateway, the Redis
  locks, SHA-256, the spread of fields into a JSON object, the configured convenience fee, whether
  mock payouts are allowed, which texts the database takes for a \<open>uuid\<close>, and the start of
  the day in local time.
\<close>

record pay_env =
  pe_shop :: booking_env
  pe_post :: "nat \<Rightarrow> post_env"
  pe_createOrder :: "int \<Rightarrow> string \<Rightarrow> id \<Rightarrow> js_error + string"
  pe_refund :: "string \<Rightarrow> int \<Rightarrow> js_error + refund_reply"
  pe_sha256 :: "string \<Rightarrow> string"
  pe_spread :: "string \<Rightarrow> (string \<times> string) list \<Rightarrow> string"
  pe_lock :: "string \<Rightarrow> bool"
  pe_feeBps :: int
  pe_mockPayouts :: bool
  pe_isUuid :: "string \<Rightarrow> bool"
  pe_startOfDay :: time_ms

definition pe_now :: "pay_env \<Rightarrow> time_ms" where "pe_now E = be_now (pe_shop E)"
definition pe_uuid :: "pay_env \<Rightarrow> nat \<Rightarrow> id" where "pe_uuid E = be_uuid (pe_shop E)"

record pay_world =
  pw_db :: pay_db
  pw_ledger :: ledger_world
  pw_calls :: "gateway_call list"

section \<open>Steps of an operation\<close>

type_synonym 'a run = "(pay_world, 'a) step"

definition ask :: "(pay_db \<Rightarrow> 'a) \<Rightarrow> 'a run" where "ask f w = (Inr (f (pw_db w)), w)"

definition need :: "(pay_db \<Rightarrow> 'a option) \<Rightarrow> js_error \<Rightarrow> 'a run" where
  "need f e = bnd (ask f) (\<lambda>x. lift (optR x e))"

definition modify :: "(pay_db \<Rightarrow> pay_db) \<Rightarrow> unit run" where
  "modify f w = (Inr (), w\<lparr>pw_db := f (pw_db w)\<rparr>)"

definition exec :: "(pay_db \<Rightarrow> ('a \<times> pay_db) res) \<Rightarrow> 'a run" where
  "exec f w = (case f (pw_db w) of Inl e \<Rightarrow> (Inl e, w) | Inr (x, d) \<Rightarrow> (Inr x, w\<lparr>pw_db := d\<rparr>))"

definition on_shop :: "(booking_db \<Rightarrow> booking_db res) \<Rightarrow> unit run" where
  "on_shop f = exec (\<lambda>d. bindR (f (shop d)) (\<lambda>s. Inr ((), d\<lparr>shop := s\<rparr>)))"

definition call :: "gateway_call \<Rightarrow> unit run" where
  "call c w = (Inr (), w\<lparr>pw_calls := pw_calls w @ [c]\<rparr>)"

text \<open>\<open>db.transaction\<close>: a throw restores the tables and drops the uncommitted keys.\<close>

definition txn :: "'a run \<Rightarrow> 'a run" where
  "txn m w = (case m w of
     (Inr x, w') \<Rightarrow> (Inr x, w'\<lparr>pw_ledger := commit_outer (pw_ledger w')\<rparr>)
   | (Inl e, w') \<Rightarrow> (Inl e, w'\<lparr>pw_db := pw_db w, pw_ledger := rollback_outer (pw_ledger w')\<rparr>))"

text \<open>A ledger posting that is handed the caller's transaction.\<close>

definition posting_in ::
    "(post_env \<Rightarrow> bool \<Rightarrow> ledger_world \<Rightarrow> PostingReceipt option res \<times> ledger_world) \<Rightarrow> post_env \<Rightarrow> unit run" where
  "posting_in f P w = (case f P True (pw_ledger w) of
     (Inl e, l) \<Rightarrow> (Inl e, w\<lparr>pw_ledger := l\<rparr>) | (Inr r, l) \<Rightarrow> (Inr (), w\<lparr>pw_ledger := l\<rparr>))"

lemmas run_defs = ret_def throw_def check_def lift_def ask_def modify_def call_def

section \<open>Money\<close>

text \<open>\<open>toMinorUnits\<close> of a money column and of a number, and \<open>toDecimalString\<close>.\<close>

definition toMinorUnits :: "int \<Rightarrow> int" where "toMinorUnits c = dec_to_minor c"
definition toMinorUnitsNum :: "rat \<Rightarrow> int" where "toMinorUnitsNum x = math_round (js_mul x 100)"
definition toDecimalString :: "int \<Rightarrow> int" where "toDecimalString n = minor_to_dec n"

section \<open>The repository\<close>

definition createPaymentOrder ::
    "(nat \<Rightarrow> id) \<Rightarrow> payment_order \<Rightarrow> pay_db \<Rightarrow> (payment_order \<times> pay_db) res" where
  "createPaymentOrder uuid r d =
     (if list_ex (\<lambda>x. po_tenant x = po_tenant r \<and> po_booking x = po_booking r) (pay_orders d)
      then Inl (unique_violation ''payment_orders_tenant_booking_unique'')
      else if list_ex (\<lambda>x. po_tenant x = po_tenant r \<and> po_razorpayId x = po_razorpayId r) (pay_orders d)
      then Inl (unique_violation ''payment_orders_tenant_razorpay_order_unique'')
      else let x = r\<lparr>po_id := uuid (pay_next d)\<rparr>
           in Inr (x, d\<lparr>pay_orders := pay_orders d @ [x], pay_next := Suc (pay_next d)\<rparr>))"

definition findPaymentOrderById :: "id \<Rightarrow> id \<Rightarrow> pay_db \<Rightarrow> payment_order option" where
  "findPaymentOrderById tenant i d = List.find (\<lambda>x. po_tenant x = tenant \<and> po_id x = i) (pay_orders d)"

definition findPaymentOrderByRazorpayOrderId :: "string \<Rightarrow> pay_db \<Rightarrow> payment_order option" where
  "findPaymentOrderByRazorpayOrderId rid d = List.find (\<lambda>x. po_razorpayId x = rid) (pay_orders d)"

definition updatePaymentOrderStatus :: "id \<Rightarrow> id \<Rightarrow> payment_state \<Rightarrow> pay_db \<Rightarrow> (unit \<times> pay_db) res" where
  "updatePaymentOrderStatus tenant i st d =
     (if list_ex (\<lambda>x. po_tenant x = tenant \<and> po_id x = i) (pay_orders d)
      then Inr ((), d\<lparr>pay_orders := update_where (\<lambda>x. po_tenant x = tenant \<and> po_id x = i)
             (\<lambda>x. x\<lparr>po_status := st\<rparr>) (pay_orders d)\<rparr>)
      else Inl (PlainErr (''Payment order not found or update failed: '' @ i)))"

definition createPaymentTransaction ::
    "(nat \<Rightarrow> id) \<Rightarrow> payment_txn \<Rightarrow> pay_db \<Rightarrow> (payment_txn \<times> pay_db) res" where
  "createPaymentTransaction uuid r d =
     (if list_ex (\<lambda>x. pt_tenant x = pt_tenant r \<and> pt_razorpayId x = pt_razorpayId r) (pay_txns d)
      then Inl (unique_violation ''payment_transactions_tenant_razorpay_payment_unique'')
      else let x = r\<lparr>pt_id := uuid (pay_next d)\<rparr>
           in Inr (x, d\<lparr>pay_txns := pay_txns d @ [x], pay_next := Suc (pay_next d)\<rparr>))"

definition findPaymentTransactionByRazorpayPaymentId :: "string \<Rightarrow> pay_db \<Rightarrow> payment_txn option" where
  "findPaymentTransactionByRazorpayPaymentId rid d = List.find (\<lambda>x. pt_razorpayId x = rid) (pay_txns d)"

definition findPaymentTransactionById :: "id \<Rightarrow> id \<Rightarrow> pay_db \<Rightarrow> payment_txn option" where
  "findPaymentTransactionById tenant i d = List.find (\<lambda>x. pt_tenant x = tenant \<and> pt_id x = i) (pay_txns d)"

definition createPaymentRefund ::
    "(nat \<Rightarrow> id) \<Rightarrow> payment_refund \<Rightarrow> pay_db \<Rightarrow> (payment_refund \<times> pay_db) res" where
  "createPaymentRefund uuid r d =
     (if list_ex (\<lambda>x. pf_tenant x = pf_tenant r \<and> pf_razorpayId x = pf_razorpayId r) (pay_refunds d)
      then Inl (unique_violation ''payment_refunds_tenant_razorpay_refund_unique'')
      else let x = r\<lparr>pf_id := uuid (pay_next d)\<rparr>
           in Inr (x, d\<lparr>pay_refunds := pay_refunds d @ [x], pay_next := Suc (pay_next d)\<rparr>))"

definition findRefundsForTransaction :: "id \<Rightarrow> id \<Rightarrow> pay_db \<Rightarrow> payment_refund list" where
  "findRefundsForTransaction tenant i d = filter (\<lambda>x. pf_tenant x = tenant \<and> pf_txn x = i) (pay_refunds d)"

definition findOrganizerWallet :: "id \<Rightarrow> id \<Rightarrow> pay_db \<Rightarrow> wallet_row option" where
  "findOrganizerWallet tenant organizer d =
     List.find (\<lambda>x. wa_tenant x = tenant \<and> wa_organizer x = organizer) (wallets d)"

definition createOrganizerWallet :: "(nat \<Rightarrow> id) \<Rightarrow> id \<Rightarrow> id \<Rightarrow> pay_db \<Rightarrow> wallet_row \<times> pay_db" where
  "createOrganizerWallet uuid tenant organizer d =
     (let x = \<lparr>wa_id = uuid (pay_next d), wa_tenant = tenant, wa_organizer = organizer,
               wa_available = 0, wa_pending = 0, wa_withdrawn = 0\<rparr>
      in (x, d\<lparr>wallets := wallets d @ [x], pay_next := Suc (pay_next d)\<rparr>))"

definition updateOrganizerWalletBalances ::
    "id \<Rightarrow> int \<Rightarrow> int \<Rightarrow> int \<Rightarrow> pay_db \<Rightarrow> (unit \<times> pay_db) res" where
  "updateOrganizerWalletBalances walletId available pending withdrawn d =
     (if list_ex (\<lambda>x. wa_id x = walletId) (wallets d)
      then Inr ((), d\<lparr>wallets := update_where (\<lambda>x. wa_id x = walletId)
             (\<lambda>x. x\<lparr>wa_available := available, wa_pending := pending, wa_withdrawn := withdrawn\<rparr>) (wallets d)\<rparr>)
      else Inl (PlainErr ''Failed to update organizer wallet balances''))"

definition createOrganizerWalletTransaction :: "(nat \<Rightarrow> id) \<Rightarrow> wallet_txn \<Rightarrow> pay_db \<Rightarrow> pay_db" where
  "createOrganizerWalletTransaction uuid r d =
     d\<lparr>wallet_txns := wallet_txns d @ [r\<lparr>wt_id := uuid (pay_next d)\<rparr>], pay_next := Suc (pay_next d)\<rparr>"

definition createWithdrawalRequest ::
    "(nat \<Rightarrow> id) \<Rightarrow> withdrawal \<Rightarrow> pay_db \<Rightarrow> withdrawal \<times> pay_db" where
  "createWithdrawalRequest uuid r d =
     (let x = r\<lparr>wd_id := uuid (pay_next d)\<rparr>
      in (x, d\<lparr>withdrawals := withdrawals d @ [x], pay_next := Suc (pay_next d)\<rparr>))"

definition updateWithdrawalRequestStatus ::
    "time_ms \<Rightarrow> id \<Rightarrow> id \<Rightarrow> string \<Rightarrow> id option \<Rightarrow> pay_db \<Rightarrow> (withdrawal \<times> pay_db) res" where
  "updateWithdrawalRequestStatus now tenant i st processedBy d =
     (let hit = (\<lambda>x. wd_tenant x = tenant \<and> wd_id x = i);
          f = (\<lambda>x. x\<lparr>wd_status := st, wd_processedAt := Some now,
                wd_processedBy := (if truthy processedBy then processedBy else wd_processedBy x)\<rparr>)
      in case List.find hit (withdrawals d) of
           None \<Rightarrow> Inl (PlainErr ''Failed to update withdrawal request status'')
         | Some x \<Rightarrow> Inr (f x, d\<lparr>withdrawals := update_where hit f (withdrawals d)\<rparr>))"

definition createSettlementRun ::
    "(nat \<Rightarrow> id) \<Rightarrow> settlement_run \<Rightarrow> pay_db \<Rightarrow> settlement_run \<times> pay_db" where
  "createSettlementRun uuid r d =
     (let x = r\<lparr>ru_id := uuid (pay_next d)\<rparr>
      in (x, d\<lparr>runs := runs d @ [x], pay_next := Suc (pay_next d)\<rparr>))"

definition logPaymentLifecycleEvent :: "lifecycle_row \<Rightarrow> pay_db \<Rightarrow> pay_db" where
  "logPaymentLifecycleEvent r d = d\<lparr>pay_events := pay_events d @ [r]\<rparr>"

definition logPaymentAudit :: "pay_audit \<Rightarrow> pay_db \<Rightarrow> pay_db" where
  "logPaymentAudit r d = d\<lparr>pay_audits := pay_audits d @ [r]\<rparr>"

text \<open>The booking order and the event a payment belongs to, by id alone, as the services look them up.\<close>

definition order_by_id :: "id \<Rightarrow> pay_db \<Rightarrow> booking_order option" where
  "order_by_id i d = List.find (\<lambda>b. bo_id b = i) (orders (shop d))"

definition event_by_id :: "id \<Rightarrow> pay_db \<Rightarrow> event_row option" where
  "event_by_id i d = List.find (\<lambda>e. ev_id e = i) (events (shop d))"

definition set_order :: "id \<Rightarrow> (booking_order \<Rightarrow> booking_order) \<Rightarrow> pay_db \<Rightarrow> pay_db" where
  "set_order i f d = d\<lparr>shop := (shop d)\<lparr>orders := update_where (\<lambda>b. bo_id b = i) f (orders (shop d))\<rparr>\<rparr>"

section \<open>Reasoning about runs\<close>

lemma ask_Inr: "ask f w = (Inr x, w') \<longleftrightarrow> x = f (pw_db w) \<and> w' = w"
  by (auto simp: ask_def)

lemma need_Inr: "need f e w = (Inr x, w') \<longleftrightarrow> f (pw_db w) = Some x \<and> w' = w"
  by (auto simp: need_def bnd_Inr ask_Inr lift_Inr optR_Inr)

lemma modify_Inr: "modify f w = (Inr x, w') \<longleftrightarrow> w' = w\<lparr>pw_db := f (pw_db w)\<rparr>"
  by (auto simp: modify_def)

lemma call_Inr: "call c w = (Inr x, w') \<longleftrightarrow> w' = w\<lparr>pw_calls := pw_calls w @ [c]\<rparr>"
  by (auto simp: call_def)

lemma exec_Inr: "exec f w = (Inr x, w') \<longleftrightarrow> (\<exists>d. f (pw_db w) = Inr (x, d) \<and> w' = w\<lparr>pw_db := d\<rparr>)"
  by (auto simp: exec_def split: sum.splits)

lemma on_shop_Inr:
  "on_shop f w = (Inr x, w') \<longleftrightarrow>
    (\<exists>s. f (shop (pw_db w)) = Inr s \<and> w' = w\<lparr>pw_db := (pw_db w)\<lparr>shop := s\<rparr>\<rparr>)"
  by (auto simp: on_shop_def exec_Inr res_simps)

lemma txn_Inr:
  "txn m w = (Inr x, w') \<longleftrightarrow>
    (\<exists>w1. m w = (Inr x, w1) \<and> w' = w1\<lparr>pw_ledger := commit_outer (pw_ledger w1)\<rparr>)"
  by (auto simp: txn_def split: prod.splits sum.splits)

lemma posting_in_Inr:
  "posting_in f P w = (Inr x, w') \<longleftrightarrow>
    (\<exists>r l. f P True (pw_ledger w) = (Inr r, l) \<and> w' = w\<lparr>pw_ledger := l\<rparr>)"
  by (auto simp: posting_in_def split: prod.splits sum.splits)

lemmas run_simps = bnd_Inr check_Inr lift_Inr ask_Inr need_Inr ret_Inr throw_Inr modify_Inr call_Inr
  exec_Inr on_shop_Inr txn_Inr posting_in_Inr

text \<open>
  What an operation keeps true of the tables, whether it returns or throws; inside a transaction
  only the successful runs matter.
\<close>

definition keeps :: "(pay_db \<Rightarrow> bool) \<Rightarrow> 'a run \<Rightarrow> bool" where
  "keeps P m \<longleftrightarrow> (\<forall>w r w'. P (pw_db w) \<longrightarrow> m w = (r, w') \<longrightarrow> P (pw_db w'))"

named_theorems keeps_intros

lemma keepsI: "(\<And>w r w'. P (pw_db w) \<Longrightarrow> m w = (r, w') \<Longrightarrow> P (pw_db w')) \<Longrightarrow> keeps P m"
  by (auto simp: keeps_def)

lemma keepsD: "keeps P m \<Longrightarrow> P (pw_db w) \<Longrightarrow> m w = (r, w') \<Longrightarrow> P (pw_db w')"
  by (auto simp: keeps_def)

lemma keeps_bnd [keeps_intros]:
  assumes m: "keeps P m" and f: "\<And>x. keeps P (f x)" shows "keeps P (bnd m f)"
proof (rule keepsI)
  fix w r w' assume P: "P (pw_db w)" and run: "bnd m f w = (r, w')"
  obtain a w1 where m1: "m w = (a, w1)" by force
  have P1: "P (pw_db w1)" by (rule keepsD [OF m P m1])
  show "P (pw_db w')"
  proof (cases a)
    case (Inl e)
    with run m1 P1 show ?thesis by (simp add: bnd_def)
  next
    case (Inr x)
    with run m1 have "f x w1 = (r, w')" by (simp add: bnd_def)
    then show ?thesis by (rule keepsD [OF f P1])
  qed
qed

lemma keeps_quiet [keeps_intros]:
  "keeps P (ret x)" "keeps P (throw e)" "keeps P (check b e)" "keeps P (lift r)" "keeps P (ask g)"
  "keeps P (need h e)" "keeps P (call c)" "keeps P (posting_in p E)"
  by (auto simp: keeps_def run_defs need_def bnd_def posting_in_def split: prod.splits sum.splits)

lemma keeps_each [keeps_intros]: "(\<And>x. keeps P (f x)) \<Longrightarrow> keeps P (each f xs)"
  by (induction xs) (auto intro: keeps_intros)

lemma keeps_modify [keeps_intros]: "(\<And>d. P d \<Longrightarrow> P (f d)) \<Longrightarrow> keeps P (modify f)"
  by (auto simp: keeps_def modify_def)

lemma keeps_exec [keeps_intros]: "(\<And>d x d'. P d \<Longrightarrow> f d = Inr (x, d') \<Longrightarrow> P d') \<Longrightarrow> keeps P (exec f)"
  by (auto simp: keeps_def exec_def split: sum.splits)

lemma keeps_on_shop [keeps_intros]: "(\<And>d s. P d \<Longrightarrow> P (d\<lparr>shop := s\<rparr>)) \<Longrightarrow> keeps P (on_shop f)"
  unfolding on_shop_def by (rule keeps_exec) (auto simp: res_simps)

lemma keeps_txn [keeps_intros]: "keeps P m \<Longrightarrow> keeps P (txn m)"
  by (auto simp: keeps_def txn_def split: prod.splits sum.splits)

lemma keeps_if [keeps_intros]: "keeps P m \<Longrightarrow> keeps P n \<Longrightarrow> keeps P (if b then m else n)"
  by simp

lemma keeps_option [keeps_intros]:
  "keeps P m \<Longrightarrow> (\<And>x. keeps P (f x)) \<Longrightarrow> keeps P (case v of None \<Rightarrow> m | Some x \<Rightarrow> f x)"
  by (cases v) auto

lemma keeps_let [keeps_intros]: "(\<And>x. keeps P (f x)) \<Longrightarrow> keeps P (let x = v in f x)"
  by simp

end
