(* ===== verification/FinOps.thy ===== *)
theory FinOps
  imports PayStore
begin

text \<open>
  \<open>src/modules/finance/operations/service.ts\<close>: operations on the ledger by hand or by other
  services (holds, releases, chargebacks, promotional credit, corrections), each under an idempotency
  key and with a journal of its own. An operation is a database transaction; its posting runs in a
  transaction of the engine. Correlation and trace ids, devices, risk scores and metadata are left out. The statements that
  follow the posting in the transaction of the operation are taken not to fail.
\<close>

section \<open>Operations and their entries\<close>

datatype operation_type =
    manual_credit | manual_debit | wallet_freeze | wallet_unfreeze | escrow_reserve | escrow_freeze
  | escrow_unfreeze | escrow_adjustment | financial_correction | settlement_override | refund_override
  | chargeback_received | chargeback_won | chargeback_lost | promotion_credit | promotion_reversal
  | fraud_hold | fraud_release

fun operation_text :: "operation_type \<Rightarrow> string" where
  "operation_text manual_credit = ''manual_credit''"
| "operation_text manual_debit = ''manual_debit''"
| "operation_text wallet_freeze = ''wallet_freeze''"
| "operation_text wallet_unfreeze = ''wallet_unfreeze''"
| "operation_text escrow_reserve = ''escrow_reserve''"
| "operation_text escrow_freeze = ''escrow_freeze''"
| "operation_text escrow_unfreeze = ''escrow_unfreeze''"
| "operation_text escrow_adjustment = ''escrow_adjustment''"
| "operation_text financial_correction = ''financial_correction''"
| "operation_text settlement_override = ''settlement_override''"
| "operation_text refund_override = ''refund_override''"
| "operation_text chargeback_received = ''chargeback_received''"
| "operation_text chargeback_won = ''chargeback_won''"
| "operation_text chargeback_lost = ''chargeback_lost''"
| "operation_text promotion_credit = ''promotion_credit''"
| "operation_text promotion_reversal = ''promotion_reversal''"
| "operation_text fraud_hold = ''fraud_hold''"
| "operation_text fraud_release = ''fraud_release''"

record op_input =
  fi_tenant :: id
  fi_type :: operation_type
  fi_amount :: int
  fi_currency :: "string option"
  fi_refType :: string
  fi_refId :: string
  fi_key :: string
  fi_actor :: "id option"
  fi_approvedBy :: "id option"
  fi_organizer :: "id option"
  fi_customer :: "id option"
  fi_reason :: "string option"
  fi_request :: "string option"
  fi_ip :: "string option"

definition op_context :: "op_input \<Rightarrow> entry_meta" where
  "op_context i = \<lparr>m_organizerId = fi_organizer i, m_customerId = fi_customer i, m_reason = fi_reason i\<rparr>"

text \<open>Two entries of the amount: the account that pays and the account that gets.\<close>

definition transfer :: "op_input \<Rightarrow> FinanceAccountType \<times> string \<Rightarrow> FinanceAccountType \<times> string \<Rightarrow> EntryInput list" where
  "transfer i payer payee =
     [mkEntry (fst payer) (snd payer) (fi_amount i) Debit (op_context i),
      mkEntry (fst payee) (snd payee) (fi_amount i) Credit (op_context i)]"

definition adjustment :: "FinanceAccountType \<times> string" where
  "adjustment = (SYSTEM_ADJUSTMENT, ''System Adjustment Account'')"
definition organizer_side :: "op_input \<Rightarrow> FinanceAccountType \<times> string" where
  "organizer_side i = (ORGANIZER_BALANCE, ''Organizer Available: '' @ the (fi_organizer i))"
definition customer_side :: "op_input \<Rightarrow> FinanceAccountType \<times> string" where
  "customer_side i = (CUSTOMER_LIABILITY, ''Customer Liability: '' @ the (fi_customer i))"
definition fraud_side :: "FinanceAccountType \<times> string" where
  "fraud_side = (FRAUD_RESERVE, ''Fraud Hold Reserve'')"
definition chargeback_side :: "FinanceAccountType \<times> string" where
  "chargeback_side = (CHARGEBACK_RESERVE, ''Chargeback Reserve Fund'')"
definition escrow_side :: "FinanceAccountType \<times> string" where
  "escrow_side = (ESCROW, ''Platform Escrow Custody'')"
definition reserve_side :: "FinanceAccountType \<times> string" where
  "reserve_side = (RESERVE, ''Platform Cash Reserves'')"

definition needs :: "string option \<Rightarrow> string \<Rightarrow> EntryInput list \<Rightarrow> EntryInput list res" where
  "needs who why es = (if truthy who then Inr es else Inl (badRequest why))"

definition buildOperationEntries :: "op_input \<Rightarrow> EntryInput list res" where
  "buildOperationEntries i = (case fi_type i of
     manual_credit \<Rightarrow> needs (fi_organizer i) ''organizerId is required for manual wallet credit'' (transfer i adjustment (organizer_side i))
   | manual_debit \<Rightarrow> needs (fi_organizer i) ''organizerId is required for manual wallet debit'' (transfer i (organizer_side i) adjustment)
   | wallet_freeze \<Rightarrow> needs (fi_organizer i) ''organizerId is required for wallet hold'' (transfer i (organizer_side i) fraud_side)
   | fraud_hold \<Rightarrow> needs (fi_organizer i) ''organizerId is required for wallet hold'' (transfer i (organizer_side i) fraud_side)
   | wallet_unfreeze \<Rightarrow> needs (fi_organizer i) ''organizerId is required for wallet release'' (transfer i fraud_side (organizer_side i))
   | fraud_release \<Rightarrow> needs (fi_organizer i) ''organizerId is required for wallet release'' (transfer i fraud_side (organizer_side i))
   | escrow_reserve \<Rightarrow> Inr (transfer i escrow_side reserve_side)
   | escrow_freeze \<Rightarrow> Inr (transfer i escrow_side reserve_side)
   | escrow_unfreeze \<Rightarrow> Inr (transfer i reserve_side escrow_side)
   | chargeback_received \<Rightarrow> needs (fi_organizer i) ''organizerId is required for chargeback_received'' (transfer i (organizer_side i) chargeback_side)
   | chargeback_lost \<Rightarrow> Inr (transfer i chargeback_side (PAYMENT_GATEWAY_CLEARING, ''Platform Cash Clearing''))
   | chargeback_won \<Rightarrow> needs (fi_organizer i) ''organizerId is required for chargeback_won'' (transfer i chargeback_side (organizer_side i))
   | promotion_credit \<Rightarrow> needs (fi_customer i) ''customerId is required for promotional credit'' (transfer i adjustment (customer_side i))
   | promotion_reversal \<Rightarrow> needs (fi_customer i) ''customerId is required for promotional reversal'' (transfer i (customer_side i) adjustment)
   | escrow_adjustment \<Rightarrow> Inr (transfer i adjustment (SUSPENSE_ACCOUNT, ''Suspense Hold Account''))
   | financial_correction \<Rightarrow> Inr (transfer i adjustment (SUSPENSE_ACCOUNT, ''Suspense Hold Account''))
   | settlement_override \<Rightarrow> Inr (transfer i adjustment (SUSPENSE_ACCOUNT, ''Suspense Hold Account''))
   | refund_override \<Rightarrow> Inr (transfer i adjustment (SUSPENSE_ACCOUNT, ''Suspense Hold Account'')))"

section \<open>Tables\<close>

record fin_op =
  op_id :: id
  op_tenant :: id
  op_type :: string
  op_status :: string
  op_amount :: int
  op_currency :: string
  op_refType :: string
  op_refId :: string
  op_key :: string
  op_actor :: "id option"
  op_approvedBy :: "id option"
  op_ledgerTx :: "id option"

record fin_event =
  oe_tenant :: id
  oe_operation :: id
  oe_type :: string
  oe_from :: string
  oe_to :: string
  oe_actor :: "id option"
  oe_previousHash :: "string option"
  oe_currentHash :: string

text \<open>\<open>payment_disputes\<close>, its evidence, and \<open>promotions\<close>.\<close>

record dispute =
  di_id :: id
  di_tenant :: id
  di_txn :: id
  di_razorpayId :: "string option"
  di_amount :: int
  di_currency :: string
  di_status :: string
  di_reason :: "string option"
  di_deadline :: "time_ms option"

record evidence =
  dv_tenant :: id
  dv_dispute :: id
  dv_url :: string
  dv_documentType :: string

record promotion =
  pm_id :: id
  pm_tenant :: id
  pm_code :: string
  pm_type :: string
  pm_amount :: int
  pm_currency :: string
  pm_status :: string

record desk_world =
  dw_pay :: pay_db
  dw_ledger :: ledger_world
  dw_ops :: "fin_op list"
  dw_events :: "fin_event list"
  dw_disputes :: "dispute list"
  dw_evidence :: "evidence list"
  dw_promotions :: "promotion list"
  dw_next :: nat

type_synonym 'a desk = "(desk_world, 'a) step"

text \<open>\<open>db.transaction\<close> around an operation: a throw takes back its rows and the key of the posting.\<close>

definition op_undo :: "desk_world \<Rightarrow> desk_world \<Rightarrow> desk_world" where
  "op_undo w w' = w'\<lparr>dw_ops := dw_ops w, dw_events := dw_events w, dw_ledger := rollback_outer (dw_ledger w')\<rparr>"

definition op_tx :: "'a desk \<Rightarrow> 'a desk" where
  "op_tx m = atomic op_undo (bnd m (\<lambda>x. bnd (alter (\<lambda>w. w\<lparr>dw_ledger := commit_outer (dw_ledger w)\<rparr>)) (\<lambda>_. ret x)))"

section \<open>The repository\<close>

definition is_op :: "id \<Rightarrow> string \<Rightarrow> fin_op \<Rightarrow> bool" where
  "is_op tenant key o' \<longleftrightarrow> op_tenant o' = tenant \<and> op_key o' = key"

definition findFinancialOperationByIdempotencyKey :: "id \<Rightarrow> string \<Rightarrow> desk_world \<Rightarrow> fin_op option" where
  "findFinancialOperationByIdempotencyKey tenant key w = List.find (is_op tenant key) (dw_ops w)"

definition createFinancialOperation :: "(nat \<Rightarrow> id) \<Rightarrow> fin_op \<Rightarrow> fin_op desk" where
  "createFinancialOperation uuid r = attempt (\<lambda>w.
     if list_ex (is_op (op_tenant r) (op_key r)) (dw_ops w)
     then Inl (DbErr ''23505'' ''financial_operations_tenant_idempotency_unique'')
     else let x = r\<lparr>op_id := uuid (dw_next w)\<rparr> in Inr (x, w\<lparr>dw_ops := dw_ops w @ [x], dw_next := Suc (dw_next w)\<rparr>))"

definition createFinancialOperationEvent :: "fin_event \<Rightarrow> unit desk" where
  "createFinancialOperationEvent e = alter (\<lambda>w. w\<lparr>dw_events := dw_events w @ [e]\<rparr>)"

text \<open>What is not given stays: \<open>?? undefined\<close>.\<close>

definition updateFinancialOperationStatus ::
    "id \<Rightarrow> id \<Rightarrow> string \<Rightarrow> id option \<Rightarrow> id option \<Rightarrow> fin_op option desk" where
  "updateFinancialOperationStatus tenant i st approvedBy ledgerTx =
     (let hit = (\<lambda>o'. op_tenant o' = tenant \<and> op_id o' = i);
          f = (\<lambda>o'. o'\<lparr>op_status := st, op_approvedBy := nullish approvedBy (op_approvedBy o'),
                 op_ledgerTx := nullish ledgerTx (op_ledgerTx o')\<rparr>)
      in attempt (\<lambda>w. Inr (map_option f (List.find hit (dw_ops w)), w\<lparr>dw_ops := update_where hit f (dw_ops w)\<rparr>)))"

text \<open>The rows of a tenant, newest first; creation instants follow the order of insertion. Pages count from 1.\<close>

definition listFinancialOperations :: "id \<Rightarrow> nat \<Rightarrow> nat \<Rightarrow> desk_world \<Rightarrow> fin_op list" where
  "listFinancialOperations tenant limit offset w = take limit (drop offset (rev (filter (\<lambda>o'. op_tenant o' = tenant) (dw_ops w))))"

definition listFinancialOperationEvents :: "id \<Rightarrow> id \<Rightarrow> desk_world \<Rightarrow> fin_event list" where
  "listFinancialOperationEvents tenant i w = rev (filter (\<lambda>e. oe_tenant e = tenant \<and> oe_operation e = i) (dw_events w))"

definition list_operations :: "id \<Rightarrow> nat \<Rightarrow> nat \<Rightarrow> desk_world \<Rightarrow> fin_op list" where
  "list_operations tenant page limit = listFinancialOperations tenant limit ((page - 1) * limit)"

definition timeline :: "id \<Rightarrow> id \<Rightarrow> desk_world \<Rightarrow> fin_event list" where
  "timeline = listFinancialOperationEvents"

section \<open>\<open>execute\<close>\<close>

definition hashEvent :: "pay_env \<Rightarrow> string option \<Rightarrow> string \<Rightarrow> string" where
  "hashEvent E prev payload = pe_sha256 E ((case prev of None \<Rightarrow> [] | Some h \<Rightarrow> h) @ payload)"

definition start_text :: "id \<Rightarrow> string" where
  "start_text i = json_object [(''operationId'', json_string i), (''status'', json_string ''processing'')]"

definition receipt_text :: "PostingReceipt \<Rightarrow> string" where
  "receipt_text r = json_object [(''success'', if r_success r then ''true'' else ''false''),
     (''transactionId'', json_string (r_transactionId r)), (''transactionHash'', json_string (r_transactionHash r)),
     (''entriesCount'', show_nat (r_entriesCount r)), (''idempotencyKey'', json_string (r_idempotencyKey r))]"

definition op_builder :: "op_input \<Rightarrow> EntryInput list \<Rightarrow> builder" where
  "op_builder i es =
     push_entries es
       (context_info (fi_ip i) (fi_request i) (actor (fi_actor i)
         (idempotency (fi_key i) (reference (fi_refType i) (fi_refId i)
           (currencyCode (case fi_currency i of None \<Rightarrow> ''INR'' | Some c \<Rightarrow> c) (totalAmount (fi_amount i)
             (tx_type (toUpperCase (operation_text (fi_type i))) (organization (fi_tenant i) new_builder))))))))"

text \<open>A posting in the caller's transaction or on its own; a cached answer that is no receipt has no field to read.\<close>

definition post_step :: "post_env \<Rightarrow> bool \<Rightarrow> builder \<Rightarrow> PostingReceipt desk" where
  "post_step P ext b w = (case builder_post P ext b (dw_ledger w) of (res, l) \<Rightarrow>
     (bindR res (\<lambda>r. optR r (PlainErr ''Cannot read properties of null (reading 'transactionId')'')), w\<lparr>dw_ledger := l\<rparr>))"

definition op_event :: "op_input \<Rightarrow> id \<Rightarrow> string \<Rightarrow> string \<Rightarrow> string option \<Rightarrow> string \<Rightarrow> fin_event" where
  "op_event i j from to' prev cur = \<lparr>oe_tenant = fi_tenant i, oe_operation = j, oe_type = operation_text (fi_type i) @ ''.'' @ to',
     oe_from = from, oe_to = to', oe_actor = fi_actor i, oe_previousHash = prev, oe_currentHash = cur\<rparr>"

definition new_operation :: "op_input \<Rightarrow> fin_op" where
  "new_operation i = \<lparr>op_id = [], op_tenant = fi_tenant i, op_type = operation_text (fi_type i), op_status = ''processing'',
     op_amount = minor_to_dec (fi_amount i), op_currency = (case fi_currency i of None \<Rightarrow> ''INR'' | Some c \<Rightarrow> c),
     op_refType = fi_refType i, op_refId = fi_refId i, op_key = fi_key i, op_actor = fi_actor i,
     op_approvedBy = fi_approvedBy i, op_ledgerTx = None\<rparr>"

definition carry_operation :: "pay_env \<Rightarrow> op_input \<Rightarrow> fin_op option \<Rightarrow> fin_op desk" where
  "carry_operation E i existing =
     bnd (case existing of Some o' \<Rightarrow> ret o' | None \<Rightarrow> createFinancialOperation (pe_uuid E) (new_operation i)) (\<lambda>o'.
     let start = hashEvent E None (start_text (op_id o')) in
     bnd (createFinancialOperationEvent (op_event i (op_id o') (case existing of None \<Rightarrow> ''pending'' | Some x \<Rightarrow> op_status x)
            ''processing'' None start)) (\<lambda>_.
     bnd (lift (buildOperationEntries i)) (\<lambda>es.
     bnd (post_step (pe_post E 0) True (op_builder i es)) (\<lambda>receipt.
     bnd (updateFinancialOperationStatus (fi_tenant i) (op_id o') ''completed'' (fi_approvedBy i) (Some (r_transactionId receipt))) (\<lambda>done'.
     bnd (createFinancialOperationEvent (op_event i (op_id o') ''processing'' ''completed'' (Some start)
            (hashEvent E (Some start) (receipt_text receipt)))) (\<lambda>_.
     ret (case done' of Some x \<Rightarrow> x | None \<Rightarrow> o')))))))"

definition execute :: "pay_env \<Rightarrow> op_input \<Rightarrow> fin_op desk" where
  "execute E i =
     bnd (check (0 < fi_amount i) (badRequest ''Financial operation amount must be greater than zero'')) (\<lambda>_.
     bnd (peek (findFinancialOperationByIdempotencyKey (fi_tenant i) (fi_key i))) (\<lambda>existing.
     if map_option op_status existing = Some ''completed'' then ret (the existing)
     else if map_option op_status existing = Some ''processing'' then throw (badRequest ''Financial operation is already processing'')
     else op_tx (carry_operation E i existing)))"

end
