(* ===== verification/Disputes.thy ===== *)
theory Disputes
  imports FinOps
begin

text \<open>
  The parts of \<open>src/modules/payments/service.ts\<close> that rest on the operations of the finance module:
  disputes (webhooks of the gateway and the administrator's decisions), promotions, and changes of a
  booking. A dispute's row is written outside any transaction; its money moves by \<open>execute\<close>.
\<close>

section \<open>Disputes\<close>

record dispute_payload =
  dp_id :: string
  dp_payment :: string
  dp_amount :: int
  dp_currency :: "string option"
  dp_reason :: "string option"
  dp_deadline :: "int option"

definition findDispute :: "string \<Rightarrow> desk_world \<Rightarrow> dispute option" where
  "findDispute rid w = List.find (\<lambda>d. di_razorpayId d = Some rid) (dw_disputes w)"

definition dispute_of_tenant :: "id \<Rightarrow> id \<Rightarrow> desk_world \<Rightarrow> dispute option" where
  "dispute_of_tenant tenant i w = List.find (\<lambda>d. di_id d = i \<and> di_tenant d = tenant) (dw_disputes w)"

definition insert_dispute :: "pay_env \<Rightarrow> dispute \<Rightarrow> dispute desk" where
  "insert_dispute E r = attempt (\<lambda>w. let x = r\<lparr>di_id := pe_uuid E (dw_next w)\<rparr>
     in Inr (x, w\<lparr>dw_disputes := dw_disputes w @ [x], dw_next := Suc (dw_next w)\<rparr>))"

definition set_dispute_status :: "id \<Rightarrow> string \<Rightarrow> dispute option desk" where
  "set_dispute_status i st = (let f = (\<lambda>d. d\<lparr>di_status := st\<rparr>) in
     attempt (\<lambda>w. Inr (map_option f (List.find (\<lambda>d. di_id d = i) (dw_disputes w)),
       w\<lparr>dw_disputes := update_where (\<lambda>d. di_id d = i) f (dw_disputes w)\<rparr>)))"

definition dispute_operation :: "operation_type \<Rightarrow> dispute \<Rightarrow> int \<Rightarrow> string \<Rightarrow> id option \<Rightarrow> string \<Rightarrow> op_input" where
  "dispute_operation ty d amount key organizer why =
     \<lparr>fi_tenant = di_tenant d, fi_type = ty, fi_amount = amount, fi_currency = Some (di_currency d),
      fi_refType = ''payment_dispute'', fi_refId = di_id d, fi_key = key, fi_actor = None, fi_approvedBy = None,
      fi_organizer = organizer, fi_customer = None, fi_reason = Some why, fi_request = None, fi_ip = None\<rparr>"

definition the_rid :: "dispute \<Rightarrow> string" where
  "the_rid d = (case di_razorpayId d of None \<Rightarrow> [] | Some r \<Rightarrow> r)"

definition hold_of :: "dispute \<Rightarrow> int \<Rightarrow> id option \<Rightarrow> op_input" where
  "hold_of d amount organizer = dispute_operation chargeback_received d amount (''dispute:hold:'' @ di_id d) organizer
     (''Dispute hold for '' @ the_rid d)"

definition won_of :: "dispute \<Rightarrow> id option \<Rightarrow> op_input" where
  "won_of d organizer = dispute_operation chargeback_won d (toMinorUnits (di_amount d)) (''dispute:won:'' @ di_id d) organizer
     (''Dispute won: releasing hold for '' @ the_rid d)"

definition lost_of :: "dispute \<Rightarrow> op_input" where
  "lost_of d = dispute_operation chargeback_lost d (toMinorUnits (di_amount d)) (''dispute:lost:'' @ di_id d) None
     (''Dispute lost: chargeback final for '' @ the_rid d)"

text \<open>From a payment to the event its booking is for; each row is looked up by its id alone.\<close>

definition order_of_txn :: "payment_txn \<Rightarrow> desk_world \<Rightarrow> payment_order option" where
  "order_of_txn t w = List.find (\<lambda>o'. po_id o' = pt_order t) (pay_orders (dw_pay w))"

definition new_dispute :: "payment_txn \<Rightarrow> dispute_payload \<Rightarrow> dispute" where
  "new_dispute t p = \<lparr>di_id = [], di_tenant = pt_tenant t, di_txn = pt_id t, di_razorpayId = Some (dp_id p),
     di_amount = toDecimalString (dp_amount p), di_currency = (if truthy (dp_currency p) then the (dp_currency p) else ''INR''),
     di_status = ''received'', di_reason = (if truthy (dp_reason p) then dp_reason p else Some ''chargeback''),
     di_deadline = (case dp_deadline p of None \<Rightarrow> None | Some s \<Rightarrow> if s = 0 then None else Some (s * 1000))\<rparr>"

definition dispute_audit :: "dispute \<Rightarrow> pay_audit" where
  "dispute_audit d = \<lparr>pa_actor = None, pa_tenant = di_tenant d, pa_entityType = ''payment_disputes'', pa_entityId = di_id d,
     pa_action = ''webhook'', pa_before = None, pa_after = Some ''received''\<rparr>"

definition handleDisputeCreated :: "pay_env \<Rightarrow> dispute_payload \<Rightarrow> dispute desk" where
  "handleDisputeCreated E p =
     bnd (peek (findDispute (dp_id p))) (\<lambda>existing.
     case existing of Some d \<Rightarrow> ret d
     | None \<Rightarrow>
         bnd (fetch (\<lambda>w. findPaymentTransactionByRazorpayPaymentId (dp_payment p) (dw_pay w))
                (notFound (''Payment transaction with Razorpay Payment ID '' @ dp_payment p @ '' not found''))) (\<lambda>t.
         bnd (fetch (order_of_txn t) (notFound ''Payment order not found'')) (\<lambda>o'.
         bnd (fetch (\<lambda>w. order_by_id (po_booking o') (dw_pay w)) (notFound ''Booking order not found'')) (\<lambda>b.
         bnd (fetch (\<lambda>w. event_by_id (bo_event b) (dw_pay w)) (notFound ''Event or organizer not found'')) (\<lambda>e.
         bnd (check (truthy (ev_organizer e)) (notFound ''Event or organizer not found'')) (\<lambda>_.
         bnd (insert_dispute E (new_dispute t p)) (\<lambda>d.
         bnd (execute E (hold_of d (dp_amount p) (ev_organizer e))) (\<lambda>_.
         bnd (alter (\<lambda>w. w\<lparr>dw_pay := logPaymentAudit (dispute_audit d) (dw_pay w)\<rparr>)) (\<lambda>_.
         ret d)))))))))"

definition handleDisputeUnderReview :: "string \<Rightarrow> dispute option desk" where
  "handleDisputeUnderReview rid =
     bnd (peek (findDispute rid)) (\<lambda>d.
     case d of None \<Rightarrow> ret None | Some x \<Rightarrow> set_dispute_status (di_id x) ''under_review'')"

definition resolved :: "dispute \<Rightarrow> bool" where
  "resolved d \<longleftrightarrow> di_status d = ''won'' \<or> di_status d = ''lost''"

text \<open>Rows the code takes for granted: reading a field of a missing one throws.\<close>

definition missing_row :: js_error where "missing_row = PlainErr ''Cannot read properties of undefined''"

definition organizer_of_dispute :: "dispute \<Rightarrow> id option desk" where
  "organizer_of_dispute d =
     bnd (fetch (\<lambda>w. List.find (\<lambda>t. pt_id t = di_txn d) (pay_txns (dw_pay w))) missing_row) (\<lambda>t.
     bnd (fetch (order_of_txn t) missing_row) (\<lambda>o'.
     bnd (fetch (\<lambda>w. order_by_id (po_booking o') (dw_pay w)) missing_row) (\<lambda>b.
     bnd (fetch (\<lambda>w. event_by_id (bo_event b) (dw_pay w)) missing_row) (\<lambda>e.
     ret (ev_organizer e)))))"

definition handleDisputeWon :: "pay_env \<Rightarrow> string \<Rightarrow> dispute option desk" where
  "handleDisputeWon E rid =
     bnd (peek (findDispute rid)) (\<lambda>d.
     case d of None \<Rightarrow> ret None
     | Some x \<Rightarrow> if resolved x then ret (Some x)
         else bnd (organizer_of_dispute x) (\<lambda>organizer.
              bnd (execute E (won_of x organizer)) (\<lambda>_. set_dispute_status (di_id x) ''won'')))"

definition handleDisputeLost :: "pay_env \<Rightarrow> string \<Rightarrow> dispute option desk" where
  "handleDisputeLost E rid =
     bnd (peek (findDispute rid)) (\<lambda>d.
     case d of None \<Rightarrow> ret None
     | Some x \<Rightarrow> if resolved x then ret (Some x)
         else bnd (execute E (lost_of x)) (\<lambda>_. set_dispute_status (di_id x) ''lost''))"

definition uploadDisputeEvidence :: "id \<Rightarrow> id \<Rightarrow> string \<Rightarrow> string \<Rightarrow> evidence desk" where
  "uploadDisputeEvidence tenant i url ty =
     bnd (fetch (dispute_of_tenant tenant i) (notFound (''Dispute with ID '' @ i @ '' not found''))) (\<lambda>_.
     let ev = \<lparr>dv_tenant = tenant, dv_dispute = i, dv_url = url, dv_documentType = ty\<rparr> in
     bnd (alter (\<lambda>w. w\<lparr>dw_evidence := dw_evidence w @ [ev]\<rparr>)) (\<lambda>_.
     bnd (set_dispute_status i ''evidence_submitted'') (\<lambda>_. ret ev)))"

definition resolveDisputeAdmin :: "pay_env \<Rightarrow> id \<Rightarrow> id \<Rightarrow> bool \<Rightarrow> dispute option desk" where
  "resolveDisputeAdmin E tenant i won =
     bnd (fetch (dispute_of_tenant tenant i) (notFound (''Dispute with ID '' @ i @ '' not found''))) (\<lambda>d.
     bnd (check (\<not> resolved d) (badRequest ''Dispute is already resolved'')) (\<lambda>_.
     let rid = (if truthy (di_razorpayId d) then the (di_razorpayId d) else ''disp_'' @ di_id d) in
     if won then handleDisputeWon E rid else handleDisputeLost E rid))"

text \<open>The rows of a tenant, newest first; creation instants follow the order of insertion. Pages count from 1.\<close>

definition listDisputesAdmin :: "id \<Rightarrow> nat \<Rightarrow> nat \<Rightarrow> desk_world \<Rightarrow> dispute list \<times> nat" where
  "listDisputesAdmin tenant page limit w =
     (let mine = rev (filter (\<lambda>d. di_tenant d = tenant) (dw_disputes w))
      in (take limit (drop ((page - 1) * limit) mine), length mine))"

definition getDisputeByIdAdmin :: "id \<Rightarrow> id \<Rightarrow> (dispute \<times> evidence list) desk" where
  "getDisputeByIdAdmin tenant i =
     bnd (fetch (dispute_of_tenant tenant i) (notFound (''Dispute with ID '' @ i @ '' not found''))) (\<lambda>d.
     bnd (peek (\<lambda>w. filter (\<lambda>e. dv_dispute e = i \<and> dv_tenant e = tenant) (dw_evidence w))) (\<lambda>es. ret (d, es)))"

section \<open>Promotions\<close>

definition createPromotion :: "pay_env \<Rightarrow> id \<Rightarrow> string \<Rightarrow> string \<Rightarrow> int \<Rightarrow> string \<Rightarrow> promotion desk" where
  "createPromotion E tenant code ty amount currency =
     bnd (peek (\<lambda>w. List.find (\<lambda>p. pm_tenant p = tenant \<and> pm_code p = code) (dw_promotions w))) (\<lambda>existing.
     bnd (check (existing = None) (conflict (''Promotion code '' @ [CHR 0x27] @ code @ [CHR 0x27] @ '' already exists''))) (\<lambda>_.
     attempt (\<lambda>w. let x = \<lparr>pm_id = pe_uuid E (dw_next w), pm_tenant = tenant, pm_code = code, pm_type = ty,
                            pm_amount = toDecimalString amount, pm_currency = currency, pm_status = ''active''\<rparr>
       in Inr (x, w\<lparr>dw_promotions := dw_promotions w @ [x], dw_next := Suc (dw_next w)\<rparr>))))"

definition listPromotions :: "id \<Rightarrow> nat \<Rightarrow> nat \<Rightarrow> desk_world \<Rightarrow> promotion list" where
  "listPromotions tenant page limit w =
     take limit (drop ((page - 1) * limit) (rev (filter (\<lambda>p. pm_tenant p = tenant) (dw_promotions w))))"

definition credit_input :: "operation_type \<Rightarrow> id \<Rightarrow> id \<Rightarrow> int \<Rightarrow> string \<Rightarrow> string \<Rightarrow> string \<Rightarrow> op_input" where
  "credit_input ty tenant customer amount currency key why =
     \<lparr>fi_tenant = tenant, fi_type = ty, fi_amount = amount, fi_currency = Some currency, fi_refType = ''customer'',
      fi_refId = customer, fi_key = key, fi_actor = None, fi_approvedBy = None, fi_organizer = None,
      fi_customer = Some customer, fi_reason = Some why, fi_request = None, fi_ip = None\<rparr>"

definition applyPromotionalCredit :: "pay_env \<Rightarrow> id \<Rightarrow> id \<Rightarrow> int \<Rightarrow> string \<Rightarrow> string \<Rightarrow> fin_op desk" where
  "applyPromotionalCredit E tenant customer amount currency key =
     execute E (credit_input promotion_credit tenant customer amount currency key ''Promotional credit applied'')"

definition reversePromotionalCredit :: "pay_env \<Rightarrow> id \<Rightarrow> id \<Rightarrow> int \<Rightarrow> string \<Rightarrow> string \<Rightarrow> fin_op desk" where
  "reversePromotionalCredit E tenant customer amount currency key =
     execute E (credit_input promotion_reversal tenant customer amount currency key ''Promotional credit reversed'')"

section \<open>Changes of a booking\<close>

definition booking_of_tenant :: "id \<Rightarrow> id \<Rightarrow> desk_world \<Rightarrow> booking_order option" where
  "booking_of_tenant tenant i w = List.find (\<lambda>b. bo_id b = i \<and> bo_tenant b = tenant) (orders (shop (dw_pay w)))"

definition set_total :: "pay_env \<Rightarrow> id \<Rightarrow> int \<Rightarrow> unit desk" where
  "set_total E i amount = alter (\<lambda>w. w\<lparr>dw_pay := set_order i (\<lambda>b. b\<lparr>bo_total := toDecimalString amount, bo_updatedAt := pe_now E\<rparr>) (dw_pay w)\<rparr>)"

definition change_builder :: "string \<Rightarrow> id \<Rightarrow> booking_order \<Rightarrow> int \<Rightarrow> string \<Rightarrow> EntryInput list \<Rightarrow> builder" where
  "change_builder ty tenant b amount key es =
     push_entries es (idempotency key (reference ''booking_order'' (bo_id b) (currencyCode (bo_currency b) (totalAmount amount
       (tx_type ty (organization tenant new_builder))))))"

definition post_change :: "pay_env \<Rightarrow> builder \<Rightarrow> unit desk" where
  "post_change E b w = (case builder_post (pe_post E 0) False b (dw_ledger w) of (res, l) \<Rightarrow> (bindR res (\<lambda>_. Inr ()), w\<lparr>dw_ledger := l\<rparr>))"

definition processBookingUpgrade :: "pay_env \<Rightarrow> id \<Rightarrow> id \<Rightarrow> int \<Rightarrow> string \<Rightarrow> int desk" where
  "processBookingUpgrade E tenant i diff key =
     bnd (fetch (booking_of_tenant tenant i) (notFound ''Booking order not found'')) (\<lambda>b.
     let due = toMinorUnits (bo_total b) + diff in
     bnd (set_total E i due) (\<lambda>_.
     bnd (post_change E (change_builder ''BOOKING_UPGRADE'' tenant b diff key
       [mkEntry SYSTEM_ADJUSTMENT ''System Adjustment Account'' diff Debit no_meta,
        mkEntry PLATFORM_ESCROW ''Platform Escrow Custody'' diff Credit no_meta])) (\<lambda>_.
     ret (toDecimalString due))))"

definition processBookingDowngrade :: "pay_env \<Rightarrow> id \<Rightarrow> id \<Rightarrow> int \<Rightarrow> string \<Rightarrow> int desk" where
  "processBookingDowngrade E tenant i diff key =
     bnd (fetch (booking_of_tenant tenant i) (notFound ''Booking order not found'')) (\<lambda>b.
     let due = max 0 (toMinorUnits (bo_total b) - diff) in
     bnd (set_total E i due) (\<lambda>_.
     bnd (post_change E (change_builder ''BOOKING_DOWNGRADE'' tenant b diff key
       [mkEntry PLATFORM_ESCROW ''Platform Escrow Custody'' diff Debit no_meta,
        mkEntry SYSTEM_ADJUSTMENT ''System Adjustment Account'' diff Credit no_meta])) (\<lambda>_.
     ret (toDecimalString due))))"

definition processBookingReschedule :: "pay_env \<Rightarrow> id \<Rightarrow> id \<Rightarrow> int \<Rightarrow> string \<Rightarrow> int desk" where
  "processBookingReschedule E tenant i fee key =
     bnd (fetch (booking_of_tenant tenant i) (notFound ''Booking order not found'')) (\<lambda>b.
     bnd (if 0 < fee then post_change E (change_builder ''BOOKING_RESCHEDULE_FEE'' tenant b fee key
            [mkEntry SYSTEM_ADJUSTMENT ''System Adjustment Account'' fee Debit no_meta,
             mkEntry PLATFORM_REVENUE ''Platform Commission Revenue'' fee Credit no_meta])
          else ret ()) (\<lambda>_.
     ret fee))"

end
