(* ===== verification/OpsRules.thy ===== *)
theory OpsRules
  imports Disputes "HOL-Library.Sublist"
begin

text \<open>
  What operations and disputes keep. The invariant ties the journal of operations to the ledger: every
  operation has a transaction of its own, of its amount, type and reference.
\<close>

section \<open>Entries and builders\<close>

lemma operation_entries_balanced:
  "buildOperationEntries i = Inr es \<Longrightarrow> debit_sum es = fi_amount i \<and> credit_sum es = fi_amount i \<and> length es = 2"
  by (auto simp: buildOperationEntries_def needs_def transfer_def sum_defs split: operation_type.splits if_splits)

lemma push_entry_fields [simp]:
  "b_tenantId (push_entry e b) = b_tenantId b" "b_transactionType (push_entry e b) = b_transactionType b"
  "b_amount (push_entry e b) = b_amount b" "b_referenceType (push_entry e b) = b_referenceType b"
  "b_referenceId (push_entry e b) = b_referenceId b" "b_idempotencyKey (push_entry e b) = b_idempotencyKey b"
  by (simp_all add: push_entry_def debit_def credit_def)

lemma push_entries_fields [simp]:
  "b_tenantId (push_entries es b) = b_tenantId b" "b_transactionType (push_entries es b) = b_transactionType b"
  "b_amount (push_entries es b) = b_amount b" "b_referenceType (push_entries es b) = b_referenceType b"
  "b_referenceId (push_entries es b) = b_referenceId b" "b_idempotencyKey (push_entries es b) = b_idempotencyKey b"
proof -
  have "b_tenantId (fold push_entry es b) = b_tenantId b \<and> b_transactionType (fold push_entry es b) = b_transactionType b
    \<and> b_amount (fold push_entry es b) = b_amount b \<and> b_referenceType (fold push_entry es b) = b_referenceType b
    \<and> b_referenceId (fold push_entry es b) = b_referenceId b \<and> b_idempotencyKey (fold push_entry es b) = b_idempotencyKey b"
    by (induction es arbitrary: b) simp_all
  then show "b_tenantId (push_entries es b) = b_tenantId b" "b_transactionType (push_entries es b) = b_transactionType b"
    "b_amount (push_entries es b) = b_amount b" "b_referenceType (push_entries es b) = b_referenceType b"
    "b_referenceId (push_entries es b) = b_referenceId b" "b_idempotencyKey (push_entries es b) = b_idempotencyKey b"
    by (simp_all add: push_entries_def)
qed

lemma op_builder_input:
  "t_tenantId (builder_input (op_builder i es)) = fi_tenant i"
  "t_idempotencyKey (builder_input (op_builder i es)) = fi_key i"
  "t_amount (builder_input (op_builder i es)) = fi_amount i"
  "t_transactionType (builder_input (op_builder i es)) = toUpperCase (operation_text (fi_type i))"
  "t_referenceType (builder_input (op_builder i es)) = fi_refType i"
  "t_referenceId (builder_input (op_builder i es)) = fi_refId i"
  by (simp_all add: builder_input_def op_builder_def context_info_def actor_def idempotency_def reference_def
      currencyCode_def totalAmount_def tx_type_def organization_def Let_def)

section \<open>Keys of the ledger\<close>

text \<open>A posting leaves the keys of other inputs alone.\<close>

definition keys_apart :: "id \<Rightarrow> string \<Rightarrow> idem_row list \<Rightarrow> idem_row list \<Rightarrow> bool" where
  "keys_apart t k ks ks' \<longleftrightarrow> filter (\<lambda>r. \<not> is_key t k r) ks' = filter (\<lambda>r. \<not> is_key t k r) ks"

lemma keys_apart_refl [simp]: "keys_apart t k ks ks" by (simp add: keys_apart_def)

lemma filter_update_where: "(\<And>x. p (f x) = p x) \<Longrightarrow> filter (\<lambda>x. \<not> p x) (update_where p f xs) = filter (\<lambda>x. \<not> p x) xs"
  by (induction xs) auto

lemma keys_apart_steps [simp]:
  "keys_apart t k (outer l) (outer (update_key ext t k st p l))"
  "keys_apart t k (idem_keys (committed l)) (idem_keys (committed (update_key ext t k st p l)))"
  "is_key t k r \<Longrightarrow> keys_apart t k (outer l) (outer (create_key ext r l))"
  "is_key t k r \<Longrightarrow> keys_apart t k (idem_keys (committed l)) (idem_keys (committed (create_key ext r l)))"
proof -
  show "keys_apart t k (outer l) (outer (update_key ext t k st p l))"
    by (simp add: keys_apart_def update_key_def filter_update_where filter_empty_conv)
  show "keys_apart t k (idem_keys (committed l)) (idem_keys (committed (update_key ext t k st p l)))"
    by (simp add: keys_apart_def update_key_def updateIdempotencyKey_def filter_update_where)
qed (simp_all add: keys_apart_def create_key_def createIdempotencyKey_def)

text \<open>What a posting does to the keys and to the transactions, returning or throwing.\<close>

definition ledger_moves :: "id \<Rightarrow> string \<Rightarrow> ledger_world \<Rightarrow> ledger_world \<Rightarrow> bool" where
  "ledger_moves t k l l' \<longleftrightarrow> keys_apart t k (outer l) (outer l')
     \<and> keys_apart t k (idem_keys (committed l)) (idem_keys (committed l'))
     \<and> (\<exists>ts. transactions (committed l') = transactions (committed l) @ ts)"

lemma posted_transactions:
  assumes "posted E now input d r d' rs row"
  shows "transactions d' = transactions d @ [row]" "lt_amount row = minor_to_dec (t_amount input)" "lt_tenant row = t_tenantId input"
    "lt_type row = t_transactionType input" "lt_referenceType row = t_referenceType input" "lt_referenceId row = t_referenceId input"
    "r_transactionId r = lt_id row"
proof -
  from assms obtain d0 d1 where res: "resolveEntries (env_uuid E) (t_tenantId input) (t_currency input) (t_entries input) d0 = Inr (rs, d1)"
    and d0: "\<exists>ls. d0 = d\<lparr>db_locks := ls\<rparr>" and tx: "transactions d' = transactions d1 @ [row]"
    unfolding posted_def by auto
  have "transactions d1 = transactions d" using resolveEntries_frame [OF res] d0 by (auto simp: same_books_def)
  with tx show "transactions d' = transactions d @ [row]" by simp
  show "lt_amount row = minor_to_dec (t_amount input)" "lt_tenant row = t_tenantId input"
    "lt_type row = t_transactionType input" "lt_referenceType row = t_referenceType input" "lt_referenceId row = t_referenceId input"
    "r_transactionId r = lt_id row"
    using assms unfolding posted_def by auto
qed

lemma run_posting_moves:
  assumes "run_posting P ext input l = (res, l')"
  shows "ledger_moves (t_tenantId input) (t_idempotencyKey input) l l'"
proof (cases "post_attempts P input (committed l) 1")
  case (Inl e)
  with assms have "l' = update_key ext (t_tenantId input) (t_idempotencyKey input) Key_failed (Error_payload e) l"
    by (simp add: run_posting_def fail_posting_def)
  moreover have "transactions (committed (update_key ext (t_tenantId input) (t_idempotencyKey input) Key_failed (Error_payload e) l))
      = transactions (committed l)"
    by (simp add: update_key_def updateIdempotencyKey_def)
  ultimately show ?thesis by (simp add: ledger_moves_def)
next
  case (Inr x)
  obtain r d where x: "x = (r, d)" by force
  from post_attempts_posted [OF Inr [unfolded x]] obtain m rs row where
    P: "posted P (env_clock P m) input (committed l) r d rs row" by blast
  from assms Inr x have "l' = l\<lparr>committed := d\<rparr>" by (simp add: run_posting_def)
  then show ?thesis
    using posted_transactions(1) [OF P] posted_keys [OF P] by (simp add: ledger_moves_def keys_apart_def filter_update_where)
qed

lemma ledger_moves_trans: "ledger_moves t k l1 l2 \<Longrightarrow> ledger_moves t k l2 l3 \<Longrightarrow> ledger_moves t k l1 l3"
  by (auto simp: ledger_moves_def keys_apart_def)

lemma create_key_moves: "is_key t k r \<Longrightarrow> ledger_moves t k l (create_key ext r l)"
  by (auto simp: ledger_moves_def) (auto simp: create_key_def createIdempotencyKey_def)

lemma ledger_moves_refl [simp]: "ledger_moves t k l l" by (simp add: ledger_moves_def)

lemma fail_moves: "fail_posting ext input e l = (res, l') \<Longrightarrow> ledger_moves (t_tenantId input) (t_idempotencyKey input) l l'"
  by (auto simp: fail_posting_def ledger_moves_def) (auto simp: update_key_def updateIdempotencyKey_def)

lemma post_moves:
  assumes "builder_post P ext b l = (res, l')"
  shows "ledger_moves (t_tenantId (builder_input b)) (t_idempotencyKey (builder_input b)) l l'"
proof (cases "validate_builder b")
  case (Inr u)
  let ?i = "builder_input b"
  have run: "postTransaction P ext ?i l = (res, l')" using assms Inr by (simp add: builder_post_def)
  show ?thesis
  proof (cases "env_lock P")
    case True
    show ?thesis
    proof (cases "find_key ext (t_tenantId ?i) (t_idempotencyKey ?i) l")
      case None
      with run True have "run_posting P ext ?i (create_key ext (pending_key ?i) l) = (res, l')" by (simp add: postTransaction_def)
      from ledger_moves_trans [OF create_key_moves run_posting_moves [OF this]] show ?thesis by simp
    next
      case (Some k)
      with run True show ?thesis
        by (auto simp: postTransaction_def split: key_status.splits intro: run_posting_moves fail_moves)
    qed
  qed (use run in \<open>auto simp: postTransaction_def\<close>)
qed (use assms in \<open>auto simp: builder_post_def\<close>)

text \<open>A posting under a key the ledger does not know, inside the caller's transaction.\<close>

lemma fresh_post:
  assumes "builder_post P True b l = (res, l')" and "outer l = []"
    and "findIdempotencyKey (t_tenantId (builder_input b)) (t_idempotencyKey (builder_input b)) (committed l) = None"
  shows "(\<exists>e. res = Inl e \<and> committed l' = committed l)
    \<or> (\<exists>r t k. res = Inr (Some r) \<and> outer l' = [k] \<and> is_key (t_tenantId (builder_input b)) (t_idempotencyKey (builder_input b)) k
        \<and> ik_status k = Key_pending \<and> idem_keys (committed l') = idem_keys (committed l)
        \<and> transactions (committed l') = transactions (committed l) @ [t] \<and> r_transactionId r = lt_id t
        \<and> lt_amount t = minor_to_dec (t_amount (builder_input b)) \<and> lt_tenant t = t_tenantId (builder_input b)
        \<and> lt_type t = t_transactionType (builder_input b) \<and> lt_referenceType t = t_referenceType (builder_input b)
        \<and> lt_referenceId t = t_referenceId (builder_input b))"
proof (cases "validate_builder b")
  case (Inr u)
  let ?i = "builder_input b"
  let ?l = "create_key True (pending_key ?i) l"
  have run: "postTransaction P True ?i l = (res, l')" using assms(1) Inr by (simp add: builder_post_def)
  have none: "find_key True (t_tenantId ?i) (t_idempotencyKey ?i) l = None" using assms(2,3) by (simp add: find_key_def)
  have comm: "committed ?l = committed l" "outer ?l = [pending_key ?i]" using assms(2) by (simp_all add: create_key_def)
  show ?thesis
  proof (cases "env_lock P")
    case True
    with run none have posting: "run_posting P True ?i ?l = (res, l')" by (simp add: postTransaction_def)
    show ?thesis
    proof (cases "post_attempts P ?i (committed ?l) 1")
      case (Inl e)
      with posting comm show ?thesis
        by (auto simp: run_posting_def fail_posting_def update_key_def)
    next
      case (Inr x)
      obtain r d where x: "x = (r, d)" by force
      from post_attempts_posted [OF Inr [unfolded x]] obtain m rs row where
        P: "posted P (env_clock P m) ?i (committed l) r d rs row" by (auto simp: comm)
      from posting Inr x have l': "l' = ?l\<lparr>committed := d\<rparr>" and res: "res = Inr (Some r)" by (simp_all add: run_posting_def)
      have "idem_keys d = idem_keys (committed l)"
        using posted_keys [OF P] assms(3) by (simp add: findIdempotencyKey_def find_None_iff update_where_none)
      then show ?thesis using posted_transactions [OF P] l' res comm by (auto simp: pending_key_def is_key_def)
    qed
  qed (use run in \<open>auto simp: postTransaction_def\<close>)
qed (use assms in \<open>auto simp: builder_post_def\<close>)

section \<open>A new operation\<close>

lemma update_last: "\<forall>y \<in> set xs. \<not> p y \<Longrightarrow> p x \<Longrightarrow> update_where p f (xs @ [x]) = xs @ [f x]"
  by (induction xs) auto

lemma find_last: "\<forall>y \<in> set xs. \<not> p y \<Longrightarrow> p x \<Longrightarrow> List.find p (xs @ [x]) = Some x"
  by (induction xs) auto

definition op_agrees :: "fin_op \<Rightarrow> ledger_tx \<Rightarrow> bool" where
  "op_agrees o' t \<longleftrightarrow> op_status o' = ''completed'' \<and> op_ledgerTx o' = Some (lt_id t) \<and> op_amount o' = lt_amount t
     \<and> op_tenant o' = lt_tenant t \<and> toUpperCase (op_type o') = lt_type t \<and> op_refType o' = lt_referenceType t
     \<and> op_refId o' = lt_referenceId t"

text \<open>The state after an operation with the row \<open>x\<close> and the transaction \<open>t\<close>.\<close>

definition operated :: "op_input \<Rightarrow> desk_world \<Rightarrow> fin_op \<Rightarrow> ledger_tx \<Rightarrow> desk_world \<Rightarrow> bool" where
  "operated i w x t w' \<longleftrightarrow> (\<exists>evs l. w' = w\<lparr>dw_ops := dw_ops w @ [x], dw_events := dw_events w @ evs, dw_ledger := l, dw_next := Suc (dw_next w)\<rparr>
     \<and> transactions (committed l) = transactions (committed (dw_ledger w)) @ [t] \<and> outer l = []
     \<and> (\<forall>k \<in> set (idem_keys (committed l)). k \<in> set (idem_keys (committed (dw_ledger w))) \<or> is_key (fi_tenant i) (fi_key i) k))
   \<and> op_agrees x t \<and> is_op (fi_tenant i) (fi_key i) x \<and> op_type x = operation_text (fi_type i) \<and> op_refId x = fi_refId i
   \<and> op_amount x = minor_to_dec (fi_amount i)"

lemma new_operation_run:
  assumes "execute E i w = (res, w')" and "findFinancialOperationByIdempotencyKey (fi_tenant i) (fi_key i) w = None"
    and "outer (dw_ledger w) = []" and "findIdempotencyKey (fi_tenant i) (fi_key i) (committed (dw_ledger w)) = None"
    and "\<forall>o' \<in> set (dw_ops w). op_id o' \<noteq> pe_uuid E (dw_next w)"
  shows "(\<exists>e. res = Inl e \<and> (w' = w \<or> w' = w\<lparr>dw_next := Suc (dw_next w)\<rparr>))
    \<or> (\<exists>x t. res = Inr x \<and> operated i w x t w' \<and> op_id x = pe_uuid E (dw_next w))"
proof (cases "0 < fi_amount i")
  case True
  define x0 where "x0 = (new_operation i)\<lparr>op_id := pe_uuid E (dw_next w)\<rparr>"
  have free: "\<not> list_ex (is_op (op_tenant (new_operation i)) (op_key (new_operation i))) (dw_ops w)"
    using assms(2) by (auto simp: findFinancialOperationByIdempotencyKey_def find_None_iff list_ex_iff new_operation_def)
  from assms(1,2) True have run: "op_tx (carry_operation E i None) w = (res, w')"
    by (simp add: execute_def bnd_def step_defs)
  define start where "start = hashEvent E None (start_text (op_id x0))"
  define w1 where "w1 = w\<lparr>dw_ops := dw_ops w @ [x0], dw_next := Suc (dw_next w),
     dw_events := dw_events w @ [op_event i (op_id x0) ''pending'' ''processing'' None start]\<rparr>"
  have carried: "carry_operation E i None w = (case buildOperationEntries i of Inl e \<Rightarrow> (Inl e, w1)
      | Inr es \<Rightarrow> (case post_step (pe_post E 0) True (op_builder i es) w1 of (Inl e, w2) \<Rightarrow> (Inl e, w2)
        | (Inr r, w2) \<Rightarrow> bnd (updateFinancialOperationStatus (fi_tenant i) (op_id x0) ''completed'' (fi_approvedBy i) (Some (r_transactionId r)))
            (\<lambda>d. bnd (createFinancialOperationEvent (op_event i (op_id x0) ''processing'' ''completed'' (Some start)
              (hashEvent E (Some start) (receipt_text r)))) (\<lambda>_. ret (case d of Some x \<Rightarrow> x | None \<Rightarrow> x0))) w2))"
    using free by (simp add: carry_operation_def createFinancialOperation_def attempt_def bnd_def step_defs Let_def w1_def x0_def start_def
        createFinancialOperationEvent_def cong: option.case_cong split: sum.splits prod.splits)
  have undo: "op_undo w (w1\<lparr>dw_ledger := l\<rparr>) = w\<lparr>dw_next := Suc (dw_next w)\<rparr>" if "committed l = committed (dw_ledger w)" for l
    using that assms(3) by (simp add: op_undo_def w1_def rollback_outer_def)
  show ?thesis
  proof (cases "buildOperationEntries i")
    case (Inl e)
    then have "(res, w') = (Inl e, op_undo w w1)" using run carried by (simp add: op_tx_def atomic_def bnd_def)
    then show ?thesis using undo [of "dw_ledger w1"] by (simp add: w1_def)
  next
    case (Inr es)
    obtain pres l' where post: "builder_post (pe_post E 0) True (op_builder i es) (dw_ledger w) = (pres, l')" by force
    have stepped: "post_step (pe_post E 0) True (op_builder i es) w1 =
        (bindR pres (\<lambda>r. optR r (PlainErr ''Cannot read properties of null (reading 'transactionId')'')), w1\<lparr>dw_ledger := l'\<rparr>)"
      using post by (simp add: post_step_def w1_def)
    from fresh_post [OF post assms(3)] assms(4)
    consider e where "pres = Inl e" "committed l' = committed (dw_ledger w)"
      | r t k where "pres = Inr (Some r)" "outer l' = [k]" "is_key (fi_tenant i) (fi_key i) k"
          "idem_keys (committed l') = idem_keys (committed (dw_ledger w))"
          "transactions (committed l') = transactions (committed (dw_ledger w)) @ [t]" "r_transactionId r = lt_id t"
          "lt_amount t = minor_to_dec (fi_amount i)" "lt_tenant t = fi_tenant i" "lt_type t = toUpperCase (operation_text (fi_type i))"
          "lt_referenceType t = fi_refType i" "lt_referenceId t = fi_refId i"
      by (auto simp: op_builder_input)
    then show ?thesis
    proof cases
      case 1
      then have "(res, w') = (Inl e, op_undo w (w1\<lparr>dw_ledger := l'\<rparr>))"
        using run carried Inr stepped by (simp add: op_tx_def atomic_def bnd_def)
      then show ?thesis using undo [OF 1(2)] by simp
    next
      case 2
      let ?hit = "\<lambda>o'. op_tenant o' = fi_tenant i \<and> op_id o' = op_id x0"
      let ?f = "\<lambda>o'. o'\<lparr>op_status := ''completed'', op_approvedBy := nullish (fi_approvedBy i) (op_approvedBy o'),
          op_ledgerTx := nullish (Some (lt_id t)) (op_ledgerTx o')\<rparr>"
      define x where "x = ?f x0"
      have none: "\<forall>o' \<in> set (dw_ops w). \<not> ?hit o'" using assms(5) by (auto simp: x0_def)
      have hit: "?hit x0" by (simp add: x0_def new_operation_def)
      have upd: "update_where ?hit ?f (dw_ops w @ [x0]) = dw_ops w @ [x]" "List.find ?hit (dw_ops w @ [x0]) = Some x0"
        using update_last [OF none hit] find_last [OF none hit] by (simp_all add: x_def)
      define last where "last = op_event i (op_id x0) ''processing'' ''completed'' (Some start) (hashEvent E (Some start) (receipt_text r))"
      have "res = Inr x" and w': "w' = w1\<lparr>dw_ops := dw_ops w @ [x], dw_events := dw_events w1 @ [last], dw_ledger := commit_outer l'\<rparr>"
        using run carried Inr stepped 2(1,6) upd
        by (simp_all add: op_tx_def atomic_def bnd_def step_defs updateFinancialOperationStatus_def attempt_def Let_def
            createFinancialOperationEvent_def last_def optR_def w1_def x_def)
      moreover have "operated i w x t w'"
        unfolding operated_def
      proof (intro conjI)
        show "\<exists>evs l. w' = w\<lparr>dw_ops := dw_ops w @ [x], dw_events := dw_events w @ evs, dw_ledger := l, dw_next := Suc (dw_next w)\<rparr>
            \<and> transactions (committed l) = transactions (committed (dw_ledger w)) @ [t] \<and> outer l = []
            \<and> (\<forall>k \<in> set (idem_keys (committed l)). k \<in> set (idem_keys (committed (dw_ledger w))) \<or> is_key (fi_tenant i) (fi_key i) k)"
          by (rule exI [of _ "[op_event i (op_id x0) ''pending'' ''processing'' None start, last]"], rule exI [of _ "commit_outer l'"])
            (use 2(2-5) in \<open>auto simp: w' w1_def commit_outer_def\<close>)
      qed (use 2 in \<open>simp_all add: x_def x0_def new_operation_def op_agrees_def is_op_def nullish_def\<close>)
      moreover have "op_id x = pe_uuid E (dw_next w)" by (simp add: x_def x0_def)
      ultimately show ?thesis by blast
    qed
  qed
qed (use assms(1) in \<open>auto simp: execute_def bnd_def step_defs\<close>)

end
