(* ===== verification/OpsReach.thy ===== *)
theory OpsReach
  imports OpsRules
begin

text \<open>
  Any sequence of operations, disputes, promotions and changes of bookings, among other postings. The
  keys of operations, \<open>K\<close>, are apart from those of other postings; those of disputes are among them.
\<close>

section \<open>The journal and the ledger\<close>

definition journal_inv :: "(nat \<Rightarrow> id) \<Rightarrow> string set \<Rightarrow> desk_world \<Rightarrow> bool" where
  "journal_inv uuid K w \<longleftrightarrow>
     (\<exists>ts. subseq ts (transactions (committed (dw_ledger w))) \<and> list_all2 op_agrees (dw_ops w) ts)
   \<and> outer (dw_ledger w) = []
   \<and> (\<forall>k \<in> set (idem_keys (committed (dw_ledger w))). ik_key k \<in> K \<longrightarrow> (\<exists>o' \<in> set (dw_ops w). is_op (ik_tenant k) (ik_key k) o'))
   \<and> (\<forall>o' \<in> set (dw_ops w). \<exists>n < dw_next w. op_id o' = uuid n)"

lemma journal_other:
  assumes "journal_inv uuid K w" and "dw_ops w' = dw_ops w" and "dw_ledger w' = dw_ledger w" and "dw_next w \<le> dw_next w'"
  shows "journal_inv uuid K w'"
  using assms by (fastforce simp: journal_inv_def intro: order.strict_trans2)

lemma journal_completed:
  assumes "journal_inv uuid K w" and "o' \<in> set (dw_ops w)" shows "op_status o' = ''completed''"
  using assms by (auto simp: journal_inv_def list_all2_conv_all_nth in_set_conv_nth op_agrees_def)

lemma journal_key_free:
  assumes "journal_inv uuid K w" and "k \<in> K" and "findFinancialOperationByIdempotencyKey t k w = None"
  shows "findIdempotencyKey t k (committed (dw_ledger w)) = None"
  using assms by (fastforce simp: journal_inv_def findIdempotencyKey_def findFinancialOperationByIdempotencyKey_def find_None_iff is_key_def)

lemma journal_id_free:
  assumes "journal_inv uuid K w" and "inj uuid" shows "\<forall>o' \<in> set (dw_ops w). op_id o' \<noteq> uuid (dw_next w)"
proof
  fix o' assume "o' \<in> set (dw_ops w)"
  with assms(1) obtain n where "n < dw_next w" "op_id o' = uuid n" by (auto simp: journal_inv_def)
  with assms(2) show "op_id o' \<noteq> uuid (dw_next w)" by (auto simp: inj_eq)
qed

lemma operated_keeps:
  assumes "journal_inv uuid K w" and "operated i w x t w'" and "op_id x = uuid (dw_next w)"
  shows "journal_inv uuid K w'"
proof -
  from assms(2) obtain evs l where w': "w' = w\<lparr>dw_ops := dw_ops w @ [x], dw_events := dw_events w @ evs, dw_ledger := l, dw_next := Suc (dw_next w)\<rparr>"
    and l: "transactions (committed l) = transactions (committed (dw_ledger w)) @ [t]" "outer l = []"
      "\<forall>k \<in> set (idem_keys (committed l)). k \<in> set (idem_keys (committed (dw_ledger w))) \<or> is_key (fi_tenant i) (fi_key i) k"
    and x: "op_agrees x t" "is_op (fi_tenant i) (fi_key i) x"
    unfolding operated_def by blast
  from assms(1) obtain ts where ts: "subseq ts (transactions (committed (dw_ledger w)))" "list_all2 op_agrees (dw_ops w) ts"
    by (auto simp: journal_inv_def)
  have "subseq (ts @ [t]) (transactions (committed l))" "list_all2 op_agrees (dw_ops w') (ts @ [t])"
    using ts x(1) l(1) by (auto simp: w' intro: list_emb_append_mono list_all2_appendI)
  moreover have "\<exists>o' \<in> set (dw_ops w'). is_op (ik_tenant k) (ik_key k) o'"
    if "k \<in> set (idem_keys (committed l))" "ik_key k \<in> K" for k
    using that l(3) x(2) assms(1) by (auto simp: w' journal_inv_def is_key_def)
  moreover have "\<exists>n < dw_next w'. op_id o' = uuid n" if "o' \<in> set (dw_ops w')" for o'
    using that assms(1,3) by (auto simp: w' journal_inv_def less_Suc_eq)
  ultimately show ?thesis using l(2) by (auto simp: journal_inv_def w')
qed

text \<open>What an operation does in such a state.\<close>

lemma execute_cases:
  assumes "journal_inv uuid K w" and "inj uuid" and "pe_uuid E = uuid" and "fi_key i \<in> K" and "execute E i w = (res, w')"
  shows "(\<exists>e. res = Inl e \<and> (w' = w \<or> w' = w\<lparr>dw_next := Suc (dw_next w)\<rparr>))
    \<or> (\<exists>x. res = Inr x \<and> w' = w \<and> findFinancialOperationByIdempotencyKey (fi_tenant i) (fi_key i) w = Some x)
    \<or> (\<exists>x t. res = Inr x \<and> operated i w x t w' \<and> op_id x = uuid (dw_next w)
        \<and> findFinancialOperationByIdempotencyKey (fi_tenant i) (fi_key i) w = None)"
proof (cases "findFinancialOperationByIdempotencyKey (fi_tenant i) (fi_key i) w")
  case None
  have "outer (dw_ledger w) = []" using assms(1) by (simp add: journal_inv_def)
  from new_operation_run [OF assms(5) None this journal_key_free [OF assms(1,4) None]] journal_id_free [OF assms(1,2)] assms(3) None
  show ?thesis by auto
next
  case (Some x)
  then have "op_status x = ''completed''"
    using journal_completed [OF assms(1)] by (auto simp: findFinancialOperationByIdempotencyKey_def dest!: find_SomeD)
  with Some assms(5) show ?thesis by (auto simp: execute_def bnd_def step_defs split: if_splits)
qed

lemma keeps_execute [holds_intros]:
  assumes "inj uuid" and "pe_uuid E = uuid" and "fi_key i \<in> K" shows "holds (journal_inv uuid K) (execute E i)"
proof (rule holdsI)
  fix w assume inv: "journal_inv uuid K w"
  obtain res w' where run: "execute E i w = (res, w')" by force
  from execute_cases [OF inv assms run] show "journal_inv uuid K (snd (execute E i w))"
    unfolding run snd_conv
    by (elim disjE exE conjE) (simp_all add: inv operated_keeps [OF inv] journal_other [OF inv])
qed

section \<open>Calls\<close>

lemma keeps_alter_other [holds_intros]:
  "(\<And>w. dw_ops (f w) = dw_ops w \<and> dw_ledger (f w) = dw_ledger w \<and> dw_next w \<le> dw_next (f w)) \<Longrightarrow> holds (journal_inv uuid K) (alter f)"
  by (auto intro!: holds_alter intro: journal_other)

lemma keeps_attempt_other [holds_intros]:
  "(\<And>w x w'. f w = Inr (x, w') \<Longrightarrow> dw_ops w' = dw_ops w \<and> dw_ledger w' = dw_ledger w \<and> dw_next w \<le> dw_next w') \<Longrightarrow>
    holds (journal_inv uuid K) (attempt f)"
  by (rule holds_attempt) (metis journal_other)

lemma keeps_dispute_rows [holds_intros]:
  "holds (journal_inv uuid K) (insert_dispute E d)" "holds (journal_inv uuid K) (set_dispute_status j st)"
  by (auto simp: insert_dispute_def set_dispute_status_def Let_def intro!: keeps_attempt_other)

definition dispute_keys :: "string set" where
  "dispute_keys = {k. \<exists>s. k = ''dispute:hold:'' @ s \<or> k = ''dispute:won:'' @ s \<or> k = ''dispute:lost:'' @ s}"

lemmas dispute_inputs = hold_of_def won_of_def lost_of_def dispute_operation_def

lemma keeps_marks:
  "holds (journal_inv uuid K) (handleDisputeUnderReview rid)" "holds (journal_inv uuid K) (uploadDisputeEvidence tn j url ty)"
  unfolding handleDisputeUnderReview_def uploadDisputeEvidence_def by (intro holds_intros; auto intro: journal_other)+

lemma keeps_disputes:
  assumes "inj uuid" and "pe_uuid E = uuid" and "dispute_keys \<subseteq> K"
  shows "holds (journal_inv uuid K) (handleDisputeCreated E p)" "holds (journal_inv uuid K) (handleDisputeWon E rid)"
    "holds (journal_inv uuid K) (handleDisputeLost E rid)" "holds (journal_inv uuid K) (resolveDisputeAdmin E tn j b)"
proof -
  have keys: "fi_key (hold_of d a g) \<in> K" "fi_key (won_of d g) \<in> K" "fi_key (lost_of d) \<in> K" for d a g
    using assms(3) by (auto simp: dispute_inputs dispute_keys_def)
  note ops = keeps_execute [OF assms(1,2)]
  show "holds (journal_inv uuid K) (handleDisputeCreated E p)"
    unfolding handleDisputeCreated_def
    by (intro holds_intros ops keys) (auto intro!: holds_intros ops keys assms(1,2) split: option.split)
  show won: "holds (journal_inv uuid K) (handleDisputeWon E rid)" for rid
    unfolding handleDisputeWon_def organizer_of_dispute_def
    by (intro holds_intros ops keys) (auto intro!: holds_intros ops keys assms(1,2) split: option.split)
  show lost: "holds (journal_inv uuid K) (handleDisputeLost E rid)" for rid
    unfolding handleDisputeLost_def
    by (intro holds_intros ops keys) (auto intro!: holds_intros ops keys assms(1,2) split: option.split)
  show "holds (journal_inv uuid K) (resolveDisputeAdmin E tn j b)"
    unfolding resolveDisputeAdmin_def by (intro holds_intros won lost)
qed

text \<open>A posting of others, in a transaction that ends or alone.\<close>

definition other_posting :: "post_env \<Rightarrow> bool \<Rightarrow> bool \<Rightarrow> builder \<Rightarrow> desk_world \<Rightarrow> desk_world" where
  "other_posting P ext commits b w = w\<lparr>dw_ledger :=
     (let l = snd (builder_post P ext b (dw_ledger w)) in if ext then (if commits then commit_outer l else rollback_outer l) else l)\<rparr>"

lemma moves_keep:
  assumes "journal_inv uuid K w" and "ledger_moves t k (dw_ledger w) l" and "k \<notin> K" and "outer l' = []"
    and "transactions (committed l') = transactions (committed l)"
    and "\<forall>r \<in> set (idem_keys (committed l')). r \<in> set (idem_keys (committed l)) \<or> r \<in> set (outer l)"
    and "dw_ops w' = dw_ops w" "dw_ledger w' = l'" "dw_next w' = dw_next w"
  shows "journal_inv uuid K w'"
proof -
  from assms(1) obtain ts where ts: "subseq ts (transactions (committed (dw_ledger w)))" "list_all2 op_agrees (dw_ops w) ts"
    and out: "outer (dw_ledger w) = []" by (auto simp: journal_inv_def)
  have "subseq ts (transactions (committed l'))"
    using ts(1) assms(2,5) by (auto simp: ledger_moves_def)
  moreover have "r \<in> set (idem_keys (committed (dw_ledger w)))" if "r \<in> set (idem_keys (committed l'))" "ik_key r \<in> K" for r
  proof -
    have other: "\<not> is_key t k r" using that(2) assms(3) by (auto simp: is_key_def)
    have "filter (\<lambda>r. \<not> is_key t k r) (idem_keys (committed l)) = filter (\<lambda>r. \<not> is_key t k r) (idem_keys (committed (dw_ledger w)))"
      "filter (\<lambda>r. \<not> is_key t k r) (outer l) = []"
      using assms(2) out by (auto simp: ledger_moves_def keys_apart_def)
    then have "r \<in> set (idem_keys (committed l)) \<Longrightarrow> r \<in> set (filter (\<lambda>r. \<not> is_key t k r) (idem_keys (committed (dw_ledger w))))"
      "r \<notin> set (outer l)"
      using other by (auto simp: filter_empty_conv simp flip: \<open>filter _ (idem_keys (committed l)) = _\<close>)
    then show ?thesis using that(1) assms(6) by auto
  qed
  ultimately show ?thesis using ts(2) assms(1,4,7-9) by (auto simp: journal_inv_def)
qed

lemma keeps_other_posting:
  assumes "journal_inv uuid K w" and "t_idempotencyKey (builder_input b) \<notin> K"
  shows "journal_inv uuid K (other_posting P ext commits b w)"
proof -
  let ?l = "snd (builder_post P ext b (dw_ledger w))"
  have moves: "ledger_moves (t_tenantId (builder_input b)) (t_idempotencyKey (builder_input b)) (dw_ledger w) ?l"
    by (rule post_moves [of P ext b _ "fst (builder_post P ext b (dw_ledger w))"]) simp
  have quiet: "outer ?l = []" if "\<not> ext"
    using that assms(1) by (auto simp: journal_inv_def builder_post_def postTransaction_def run_posting_def fail_posting_def
        create_key_def update_key_def split: sum.splits option.splits key_status.splits prod.splits)
  show ?thesis
    by (rule moves_keep [OF assms(1) moves assms(2), where l' = "dw_ledger (other_posting P ext commits b w)"])
      (use quiet in \<open>cases ext; auto simp: other_posting_def Let_def commit_outer_def rollback_outer_def\<close>)+
qed

text \<open>Changes of a booking post alone, under the key they are given.\<close>

lemma keeps_change:
  assumes "journal_inv uuid K w" and "t_idempotencyKey (builder_input b) \<notin> K"
  shows "journal_inv uuid K (snd (post_change E b w))"
  using keeps_other_posting [OF assms, of "pe_post E 0" False]
  by (simp add: post_change_def other_posting_def case_prod_beta)

lemma change_key [simp]: "t_idempotencyKey (builder_input (change_builder ty tn b n key es)) = key"
  by (simp add: builder_input_def change_builder_def idempotency_def)

lemma keeps_bookings:
  assumes "key \<notin> K"
  shows "holds (journal_inv uuid K) (processBookingUpgrade E tn j n key)" "holds (journal_inv uuid K) (processBookingDowngrade E tn j n key)"
    "holds (journal_inv uuid K) (processBookingReschedule E tn j n key)"
proof -
  have post: "holds (journal_inv uuid K) (post_change E (change_builder ty tn b m key es))" for ty b m es
    by (rule holdsI) (rule keeps_change; simp add: assms)
  have total: "holds (journal_inv uuid K) (set_total E j m)" for m
    unfolding set_total_def by (rule keeps_alter_other) simp
  show "holds (journal_inv uuid K) (processBookingUpgrade E tn j n key)" "holds (journal_inv uuid K) (processBookingDowngrade E tn j n key)"
    "holds (journal_inv uuid K) (processBookingReschedule E tn j n key)"
    unfolding processBookingUpgrade_def processBookingDowngrade_def processBookingReschedule_def
    by (intro holds_intros post total; simp)+
qed

lemma keeps_promotions:
  assumes "inj uuid" and "pe_uuid E = uuid"
  shows "holds (journal_inv uuid K) (createPromotion E tn code ty n cur)"
    "key \<in> K \<Longrightarrow> holds (journal_inv uuid K) (applyPromotionalCredit E tn c n cur key)"
    "key \<in> K \<Longrightarrow> holds (journal_inv uuid K) (reversePromotionalCredit E tn c n cur key)"
proof -
  show "holds (journal_inv uuid K) (createPromotion E tn code ty n cur)"
    unfolding createPromotion_def by (intro holds_bnd holds_quiet keeps_attempt_other) (auto simp: Let_def)
qed (simp_all add: applyPromotionalCredit_def reversePromotionalCredit_def keeps_execute [OF assms] credit_input_def)

section \<open>Reachable states\<close>

text \<open>One call of anybody; what is not in the journal or the ledger may change in any way between calls.\<close>

inductive desk_call :: "(nat \<Rightarrow> id) \<Rightarrow> string set \<Rightarrow> desk_world \<Rightarrow> desk_world \<Rightarrow> bool" for uuid K where
  call_operation: "pe_uuid E = uuid \<Longrightarrow> fi_key i \<in> K \<Longrightarrow> desk_call uuid K w (snd (execute E i w))"
| call_created: "pe_uuid E = uuid \<Longrightarrow> desk_call uuid K w (snd (handleDisputeCreated E p w))"
| call_review: "desk_call uuid K w (snd (handleDisputeUnderReview rid w))"
| call_won: "pe_uuid E = uuid \<Longrightarrow> desk_call uuid K w (snd (handleDisputeWon E rid w))"
| call_lost: "pe_uuid E = uuid \<Longrightarrow> desk_call uuid K w (snd (handleDisputeLost E rid w))"
| call_evidence: "desk_call uuid K w (snd (uploadDisputeEvidence tn j url ty w))"
| call_resolve: "pe_uuid E = uuid \<Longrightarrow> desk_call uuid K w (snd (resolveDisputeAdmin E tn j b w))"
| call_promotion: "pe_uuid E = uuid \<Longrightarrow> desk_call uuid K w (snd (createPromotion E tn code ty n cur w))"
| call_credit: "pe_uuid E = uuid \<Longrightarrow> key \<in> K \<Longrightarrow> desk_call uuid K w (snd (applyPromotionalCredit E tn c n cur key w))"
| call_reversal: "pe_uuid E = uuid \<Longrightarrow> key \<in> K \<Longrightarrow> desk_call uuid K w (snd (reversePromotionalCredit E tn c n cur key w))"
| call_upgrade: "key \<notin> K \<Longrightarrow> desk_call uuid K w (snd (processBookingUpgrade E tn j n key w))"
| call_downgrade: "key \<notin> K \<Longrightarrow> desk_call uuid K w (snd (processBookingDowngrade E tn j n key w))"
| call_reschedule: "key \<notin> K \<Longrightarrow> desk_call uuid K w (snd (processBookingReschedule E tn j n key w))"
| call_posting: "t_idempotencyKey (builder_input b) \<notin> K \<Longrightarrow> desk_call uuid K w (other_posting P ext commits b w)"
| call_tables: "desk_call uuid K w (w\<lparr>dw_pay := d\<rparr>)"

definition empty_desk :: "pay_db \<Rightarrow> desk_world" where
  "empty_desk d = \<lparr>dw_pay = d, dw_ledger = \<lparr>committed = empty_ledger, outer = []\<rparr>, dw_ops = [], dw_events = [], dw_disputes = [],
     dw_evidence = [], dw_promotions = [], dw_next = 0\<rparr>"

inductive desk_reach :: "(nat \<Rightarrow> id) \<Rightarrow> string set \<Rightarrow> desk_world \<Rightarrow> bool" for uuid K where
  desk_start: "desk_reach uuid K (empty_desk d)"
| desk_step: "desk_reach uuid K w \<Longrightarrow> desk_call uuid K w w' \<Longrightarrow> desk_reach uuid K w'"

lemma call_keeps_journal:
  assumes "desk_call uuid K w w'" and "journal_inv uuid K w" and "inj uuid" and "dispute_keys \<subseteq> K"
  shows "journal_inv uuid K w'"
  using assms(1)
proof cases
  case call_posting
  then show ?thesis using keeps_other_posting [OF assms(2)] by simp
next
  case call_tables
  then show ?thesis using journal_other [OF assms(2)] by simp
qed (use assms(2-4) in \<open>auto intro: holdsD keeps_execute keeps_marks keeps_disputes keeps_promotions keeps_bookings\<close>)

lemma reach_journal: "desk_reach uuid K w \<Longrightarrow> inj uuid \<Longrightarrow> dispute_keys \<subseteq> K \<Longrightarrow> journal_inv uuid K w"
proof (induction rule: desk_reach.induct)
  case (desk_start d)
  show ?case by (simp add: journal_inv_def empty_desk_def empty_ledger_def)
next
  case (desk_step w w')
  then show ?case using call_keeps_journal by blast
qed

end
