(* ===== verification/OpsProps.thy ===== *)
theory OpsProps
  imports OpsReach
begin

text \<open>
  Properties of the operations of the finance module, of disputes and of changes of a booking: what the
  journal of operations promises, and where disputes and changes of a booking break it.
\<close>

section \<open>Operations that post\<close>

lemma new_posting:
  assumes "journal_inv (pe_uuid E) K w" and "inj (pe_uuid E)" and "fi_key i \<in> K"
    and "findFinancialOperationByIdempotencyKey (fi_tenant i) (fi_key i) w = None" and "execute E i w = (Inr x, w')"
  shows "\<exists>t. transactions (committed (dw_ledger w')) = transactions (committed (dw_ledger w)) @ [t]
    \<and> lt_type t = toUpperCase (operation_text (fi_type i)) \<and> lt_referenceId t = fi_refId i
    \<and> lt_amount t = minor_to_dec (fi_amount i) \<and> lt_tenant t = fi_tenant i"
    and "dw_ops w' = dw_ops w @ [x]" and "is_op (fi_tenant i) (fi_key i) x" and "dw_disputes w' = dw_disputes w"
    and "dw_pay w' = dw_pay w" and "journal_inv (pe_uuid E) K w'"
proof -
  from execute_cases [OF assms(1,2) refl assms(3,5)] assms(4) obtain t where op: "operated i w x t w'" "op_id x = pe_uuid E (dw_next w)"
    by auto
  then show "dw_ops w' = dw_ops w @ [x]" "is_op (fi_tenant i) (fi_key i) x" "dw_disputes w' = dw_disputes w" "dw_pay w' = dw_pay w"
    by (auto simp: operated_def)
  from op show "\<exists>t. transactions (committed (dw_ledger w')) = transactions (committed (dw_ledger w)) @ [t]
    \<and> lt_type t = toUpperCase (operation_text (fi_type i)) \<and> lt_referenceId t = fi_refId i
    \<and> lt_amount t = minor_to_dec (fi_amount i) \<and> lt_tenant t = fi_tenant i"
    by (auto simp: operated_def op_agrees_def is_op_def)
  show "journal_inv (pe_uuid E) K w'" by (rule operated_keeps [OF assms(1) op])
qed

lemma failed_operation:
  assumes "journal_inv (pe_uuid E) K w" and "inj (pe_uuid E)" and "fi_key i \<in> K" and "execute E i w = (Inl e, w')"
  shows "w' = w\<lparr>dw_next := dw_next w'\<rparr>"
  using execute_cases [OF assms(1,2) refl assms(3,4)] by auto

lemma find_op_append:
  "findFinancialOperationByIdempotencyKey t k w = None \<Longrightarrow> dw_ops w' = dw_ops w @ [x] \<Longrightarrow> is_op t k x \<Longrightarrow>
    findFinancialOperationByIdempotencyKey t k w' = Some x"
  "findFinancialOperationByIdempotencyKey t k w = None \<Longrightarrow> dw_ops w' = dw_ops w @ [x] \<Longrightarrow> \<not> is_op t k x \<Longrightarrow>
    findFinancialOperationByIdempotencyKey t k w' = None"
  by (simp_all add: findFinancialOperationByIdempotencyKey_def find_append)

lemma dispute_fields [simp]:
  "fi_tenant (hold_of d n g) = di_tenant d" "fi_tenant (won_of d g) = di_tenant d" "fi_tenant (lost_of d) = di_tenant d"
  "fi_key (hold_of d n g) = ''dispute:hold:'' @ di_id d" "fi_key (won_of d g) = ''dispute:won:'' @ di_id d"
  "fi_key (lost_of d) = ''dispute:lost:'' @ di_id d"
  "fi_refId (won_of d g) = di_id d" "fi_refId (lost_of d) = di_id d"
  "fi_amount (won_of d g) = toMinorUnits (di_amount d)" "fi_amount (lost_of d) = toMinorUnits (di_amount d)"
  "toUpperCase (operation_text (fi_type (won_of d g))) = ''CHARGEBACK_WON''"
  "toUpperCase (operation_text (fi_type (lost_of d))) = ''CHARGEBACK_LOST''"
proof -
  have "toUpperCase (operation_text chargeback_won) = ''CHARGEBACK_WON''" "toUpperCase (operation_text chargeback_lost) = ''CHARGEBACK_LOST''"
    by code_simp+
  then show "toUpperCase (operation_text (fi_type (won_of d g))) = ''CHARGEBACK_WON''"
    "toUpperCase (operation_text (fi_type (lost_of d))) = ''CHARGEBACK_LOST''"
    by (simp_all add: dispute_inputs)
qed (simp_all add: dispute_inputs)

lemma dispute_keys_in:
  assumes "dispute_keys \<subseteq> K"
  shows "fi_key (hold_of d n g) \<in> K" "fi_key (won_of d g) \<in> K" "fi_key (lost_of d) \<in> K"
  using assms by (auto simp: dispute_keys_def dispute_inputs)

section \<open>The row of a dispute\<close>

lemma set_status_run:
  assumes "set_dispute_status (di_id d) st w = (Inr x, w')" and "findDispute rid w = Some d"
  shows "findDispute rid w' = Some (d\<lparr>di_status := st\<rparr>)" "dw_ops w' = dw_ops w" "dw_ledger w' = dw_ledger w"
    "dw_next w' = dw_next w"
proof -
  from assms(1) have "w' = w\<lparr>dw_disputes := update_where (\<lambda>y. di_id y = di_id d) (\<lambda>y. y\<lparr>di_status := st\<rparr>) (dw_disputes w)\<rparr>"
    by (auto simp: set_dispute_status_def Let_def attempt_Inr)
  with assms(2) show "findDispute rid w' = Some (d\<lparr>di_status := st\<rparr>)" "dw_ops w' = dw_ops w" "dw_ledger w' = dw_ledger w"
    "dw_next w' = dw_next w"
    by (simp_all add: findDispute_def find_update_where)
qed

lemma won_run:
  assumes "handleDisputeWon E rid w = (Inr x, w')" and "findDispute rid w = Some d" and "\<not> resolved d"
  shows "\<exists>g y w1. execute E (won_of d g) w = (Inr y, w1) \<and> set_dispute_status (di_id d) ''won'' w1 = (Inr x, w')"
  using assms by (auto simp: handleDisputeWon_def organizer_of_dispute_def step_simps)

lemma lost_run:
  assumes "handleDisputeLost E rid w = (Inr x, w')" and "findDispute rid w = Some d" and "\<not> resolved d"
  shows "\<exists>y w1. execute E (lost_of d) w = (Inr y, w1) \<and> set_dispute_status (di_id d) ''lost'' w1 = (Inr x, w')"
  using assms by (auto simp: handleDisputeLost_def step_simps)

lemma review_run:
  assumes "handleDisputeUnderReview rid w = (Inr r, w')" and "findDispute rid w = Some d"
  shows "\<exists>x. set_dispute_status (di_id d) ''under_review'' w = (Inr x, w')"
  using assms by (auto simp: handleDisputeUnderReview_def step_simps)

lemma find_ops_cong:
  "dw_ops w' = dw_ops w \<Longrightarrow> findFinancialOperationByIdempotencyKey t k w' = findFinancialOperationByIdempotencyKey t k w"
  by (simp add: findFinancialOperationByIdempotencyKey_def)

lemma status_fields [simp]: "resolved (d\<lparr>di_status := ''under_review''\<rparr>) = False"
  "lost_of (d\<lparr>di_status := st\<rparr>) = lost_of d"
  by (simp_all add: resolved_def dispute_inputs the_rid_def)

lemma execute_disputes:
  assumes "execute E i w = (r, w')" shows "dw_disputes w' = dw_disputes w"
proof -
  have "holds (\<lambda>v. dw_disputes v = dw_disputes w) (execute E i)"
    unfolding execute_def op_tx_def carry_operation_def createFinancialOperation_def createFinancialOperationEvent_def
      updateFinancialOperationStatus_def Let_def
    by (intro holds_intros; auto simp: op_undo_def post_step_def holds_def split: if_splits prod.splits)
  from holds_run [OF this refl assms] show ?thesis .
qed

text \<open>The webhook that creates a dispute, when what follows the row throws.\<close>

lemma created_fails:
  assumes "handleDisputeCreated E p w = (Inl e, w')" and "dw_disputes w' \<noteq> dw_disputes w"
  shows "\<exists>t g d w1. d = (new_dispute t p)\<lparr>di_id := pe_uuid E (dw_next w)\<rparr>
    \<and> w1 = w\<lparr>dw_disputes := dw_disputes w @ [d], dw_next := Suc (dw_next w)\<rparr>
    \<and> execute E (hold_of d (dp_amount p) g) w1 = (Inl e, w')"
  using assms(1,2)
  by (auto simp: handleDisputeCreated_def bnd_def step_defs attempt_def insert_dispute_def Let_def optR_def
      split: option.splits prod.splits sum.splits if_splits dest: execute_disputes)

section \<open>A sample desk\<close>

definition desk_env :: "time_ms \<Rightarrow> pay_env" where
  "desk_env now = \<lparr>pe_shop = demo_booking_env now, pe_post = (\<lambda>j. demo_env), pe_createOrder = (\<lambda>n c i. Inr i),
     pe_refund = (\<lambda>p n. Inr \<lparr>rr_id = Some p, rr_failed = False\<rparr>), pe_sha256 = (\<lambda>s. take 3 (rev s)), pe_spread = (\<lambda>m fs. m),
     pe_lock = (\<lambda>s. True), pe_feeBps = 500, pe_mockPayouts = True, pe_isUuid = (\<lambda>s. True), pe_startOfDay = 0\<rparr>"

definition desk_rows :: pay_db where
  "desk_rows = \<lparr>shop = empty_booking\<lparr>orders := [demo_order ''o1'' ''e1''],
       events := [\<lparr>ev_id = ''e1'', ev_tenant = ''t1'', ev_organizer = Some ''g1'', ev_title = ''Rock Night'',
         ev_startDateTime = 1000, ev_endDateTime = 2000, ev_status = ''published'', ev_deletedAt = None\<rparr>]\<rparr>,
     pay_orders = [\<lparr>po_id = ''p1'', po_tenant = ''t1'', po_booking = ''o1'', po_razorpayId = ''order_o1'', po_amount = 100000,
       po_currency = ''INR'', po_status = P_captured, po_retryCount = 0, po_createdBy = ''u1''\<rparr>],
     pay_txns = [\<lparr>pt_id = ''x1'', pt_tenant = ''t1'', pt_order = ''p1'', pt_razorpayId = ''pay_1'', pt_amount = 100000,
       pt_currency = ''INR'', pt_status = ''captured''\<rparr>],
     pay_refunds = [], pay_events = [], pay_audits = [], wallets = [], wallet_txns = [], runs = [], withdrawals = [],
     organizers = [], user_wallets = [], user_wallet_txns = [], pay_next = 0\<rparr>"

definition demo_claim :: dispute_payload where
  "demo_claim = \<lparr>dp_id = ''disp_1'', dp_payment = ''pay_1'', dp_amount = 100000, dp_currency = None, dp_reason = None, dp_deadline = None\<rparr>"

text \<open>The lock of the ledger is refused, so the dispute is written and its hold is not.\<close>

definition locked_env :: pay_env where
  "locked_env = (desk_env 2)\<lparr>pe_post := (\<lambda>j. demo_env\<lparr>env_lock := False\<rparr>)\<rparr>"

definition demo_dispute :: dispute where
  "demo_dispute = \<lparr>di_id = ''0'', di_tenant = ''t1'', di_txn = ''x1'', di_razorpayId = Some ''disp_1'', di_amount = 100000,
     di_currency = ''INR'', di_status = ''received'', di_reason = Some ''chargeback'', di_deadline = None\<rparr>"

definition claimed_desk :: desk_world where
  "claimed_desk = (empty_desk desk_rows)\<lparr>dw_disputes := [demo_dispute], dw_next := 2\<rparr>"

lemma desk_uuid [simp]: "pe_uuid (desk_env n) = show_nat" "pe_uuid locked_env = show_nat"
  by (simp_all add: pe_uuid_def locked_env_def desk_env_def demo_booking_env_def)

lemma run_returns: "\<not> isl (fst p) \<Longrightarrow> \<exists>x w. p = (Inr x, w)"
  by (cases p; cases "fst p") auto

lemma claimed_run: "handleDisputeCreated locked_env demo_claim (empty_desk desk_rows)
    = (Inl (PlainErr ''Concurrency Lock could not be acquired for key: dispute:hold:0. Operation is already in progress.''), claimed_desk)"
  by code_simp

lemma claimed_reach: "desk_reach show_nat UNIV claimed_desk"
  using desk_step [OF desk_start call_created [of locked_env show_nat UNIV "empty_desk desk_rows" demo_claim]] by (simp add: claimed_run)

lemma claimed_rows: "dw_disputes claimed_desk = [demo_dispute]" "dw_ops claimed_desk = []"
  "findDispute ''disp_1'' claimed_desk = Some demo_dispute"
  by (simp_all add: claimed_desk_def empty_desk_def findDispute_def demo_dispute_def)

lemma claimed_unused: "findFinancialOperationByIdempotencyKey t k claimed_desk = None"
  by (simp add: findFinancialOperationByIdempotencyKey_def claimed_rows(2))

text \<open>It is won, looked at again, and lost.\<close>

definition lost_after_won :: "dispute option desk" where
  "lost_after_won = bnd (handleDisputeWon (desk_env 3) ''disp_1'') (\<lambda>_. bnd (handleDisputeUnderReview ''disp_1'') (\<lambda>_.
     handleDisputeLost (desk_env 3) ''disp_1''))"

lemma lost_run_of_desk: "\<not> isl (fst (lost_after_won claimed_desk))"
  by code_simp

lemma demo_open: "\<not> resolved demo_dispute" by (simp add: resolved_def demo_dispute_def)

lemma claimed_won:
  "\<exists>x w g y w1. handleDisputeWon (desk_env 3) ''disp_1'' claimed_desk = (Inr x, w)
    \<and> execute (desk_env 3) (won_of demo_dispute g) claimed_desk = (Inr y, w1)"
proof -
  from run_returns [OF lost_run_of_desk] obtain x w where won: "handleDisputeWon (desk_env 3) ''disp_1'' claimed_desk = (Inr x, w)"
    by (auto simp: lost_after_won_def bnd_Inr)
  from won_run [OF won claimed_rows(3) demo_open] show ?thesis using won by blast
qed

section \<open>Properties\<close>





text \<open>
  C35. A dispute can be both won and lost: after the gateway's \<open>won\<close> has released the hold, a late
  \<open>under_review\<close> reopens the row without a look at its status, and a \<open>lost\<close> then takes the amount
  out of the reserve too. The ledger gets both transactions of the one dispute.
\<close>

theorem dispute_is_won_and_lost:
  assumes "desk_reach (pe_uuid E) K w" and "inj (pe_uuid E)" and "dispute_keys \<subseteq> K"
    and "findDispute rid w = Some d" and "\<not> resolved d"
    and "\<And>s. s \<in> {''dispute:won:'', ''dispute:lost:''} \<Longrightarrow> findFinancialOperationByIdempotencyKey (di_tenant d) (s @ di_id d) w = None"
    and "handleDisputeWon E rid w = (Inr x, w1)" and "handleDisputeUnderReview rid w1 = (Inr y, w2)"
    and "handleDisputeLost E rid w2 = (Inr z, w3)"
  shows "\<exists>t1 t2. transactions (committed (dw_ledger w3)) = transactions (committed (dw_ledger w)) @ [t1, t2]
    \<and> lt_type t1 = ''CHARGEBACK_WON'' \<and> lt_type t2 = ''CHARGEBACK_LOST'' \<and> lt_amount t1 = lt_amount t2
    \<and> lt_referenceId t1 = di_id d \<and> lt_referenceId t2 = di_id d"
proof -
  note inv = reach_journal [OF assms(1-3)] and keys = dispute_keys_in [OF assms(3)]
  from won_run [OF assms(7,4,5)] obtain g a u where won: "execute E (won_of d g) w = (Inr a, u)"
    "set_dispute_status (di_id d) ''won'' u = (Inr x, w1)" by blast
  have none1: "findFinancialOperationByIdempotencyKey (fi_tenant (won_of d g)) (fi_key (won_of d g)) w = None"
    "findFinancialOperationByIdempotencyKey (fi_tenant (lost_of d)) (fi_key (lost_of d)) w = None"
    using assms(6) [of "''dispute:won:''"] assms(6) [of "''dispute:lost:''"] by simp_all
  note new1 = new_posting [OF inv assms(2) keys(2) none1(1) won(1)]
  have d0: "findDispute rid u = Some d" using assms(4) new1(4) by (simp add: findDispute_def)
  note s1 = set_status_run [OF won(2) d0]
  from review_run [OF assms(8) s1(1)] obtain b where "set_dispute_status (di_id d) ''under_review'' w1 = (Inr b, w2)" by auto
  note s2 = set_status_run [OF _ s1(1), simplified, OF this]
  from lost_run [OF assms(9) s2(1)] obtain c v where lost: "execute E (lost_of d) w2 = (Inr c, v)"
    "set_dispute_status (di_id d) ''lost'' v = (Inr z, w3)" by auto
  have inv2: "journal_inv (pe_uuid E) K w2" by (rule journal_other [OF new1(6)]) (simp_all add: s1 s2)
  have "findFinancialOperationByIdempotencyKey (fi_tenant (lost_of d)) (fi_key (lost_of d)) u = None"
    by (rule find_op_append(2) [OF none1(2) new1(2)]) (use new1(3) in \<open>auto simp: is_op_def\<close>)
  then have none2: "findFinancialOperationByIdempotencyKey (fi_tenant (lost_of d)) (fi_key (lost_of d)) w2 = None"
    using find_ops_cong [of w2 u] s1(2) s2(2) by simp
  note new2 = new_posting [OF inv2 assms(2) keys(3) none2 lost(1)]
  have d3: "findDispute rid v = Some (d\<lparr>di_status := ''under_review''\<rparr>)" using s2(1) new2(4) by (simp add: findDispute_def)
  have "dw_ledger w3 = dw_ledger v" using set_status_run(3) [OF _ d3] lost(2) by simp
  then show ?thesis using new1(1) new2(1) s1(3) s2(3) by auto
qed

theorem dispute_is_won_and_lost_witness:
  "\<exists>z w t1 t2. lost_after_won claimed_desk = (Inr z, w)
    \<and> transactions (committed (dw_ledger w)) = transactions (committed (dw_ledger claimed_desk)) @ [t1, t2]
    \<and> lt_type t1 = ''CHARGEBACK_WON'' \<and> lt_type t2 = ''CHARGEBACK_LOST''"
proof -
  from run_returns [OF lost_run_of_desk] obtain z w3 where run: "lost_after_won claimed_desk = (Inr z, w3)" by blast
  then obtain x w1 y w2 where 1: "handleDisputeWon (desk_env 3) ''disp_1'' claimed_desk = (Inr x, w1)"
    and 2: "handleDisputeUnderReview ''disp_1'' w1 = (Inr y, w2)" and 3: "handleDisputeLost (desk_env 3) ''disp_1'' w2 = (Inr z, w3)"
    by (auto simp: lost_after_won_def bnd_Inr)
  have hyps: "desk_reach (pe_uuid (desk_env 3)) UNIV claimed_desk" "inj (pe_uuid (desk_env 3))"
    by (simp_all add: claimed_reach inj_show_nat)
  from dispute_is_won_and_lost [OF hyps subset_UNIV claimed_rows(3) demo_open claimed_unused 1 2 3]
  obtain t1 t2 where "transactions (committed (dw_ledger w3)) = transactions (committed (dw_ledger claimed_desk)) @ [t1, t2]"
    "lt_type t1 = ''CHARGEBACK_WON''" "lt_type t2 = ''CHARGEBACK_LOST''" by blast
  with run show ?thesis by blast
qed



section \<open>Changes of a booking\<close>

lemma reposting_alone:
  assumes "builder_post P False b l = (Inr r, l')" and "env_lock P'" shows "builder_post P' False b l' = (Inr r, l')"
proof -
  from assms(1) obtain u where valid: "validate_builder b = Inr u" and run: "postTransaction P False (builder_input b) l = (Inr r, l')"
    by (auto simp: builder_post_def split: sum.splits)
  show ?thesis
  proof (cases r)
    case (Some x)
    with postTransaction_key [of P "builder_input b" l x l'] run valid assms(2) show ?thesis
      by (auto simp: builder_post_def postTransaction_def)
  next
    case None
    with run have "l' = l" "\<exists>k. find_key False (t_tenantId (builder_input b)) (t_idempotencyKey (builder_input b)) l = Some k
        \<and> ik_status k = Key_completed \<and> payload_receipt (ik_payload k) = None"
      by (auto simp: postTransaction_def run_posting_def fail_posting_def split: if_splits option.splits key_status.splits sum.splits)
    with valid assms(2) None show ?thesis by (auto simp: builder_post_def postTransaction_def)
  qed
qed

lemma post_change_Inr: "post_change E b w = (Inr u, w') \<longleftrightarrow>
    (\<exists>r l. builder_post (pe_post E 0) False b (dw_ledger w) = (Inr r, l) \<and> w' = w\<lparr>dw_ledger := l\<rparr>)"
  by (auto simp: post_change_def bindR_Inr split: prod.split)

lemma upgrade_run:
  "processBookingUpgrade E tn j n key w = (Inr x, w') \<longleftrightarrow> (\<exists>b r l. booking_of_tenant tn j w = Some b
     \<and> builder_post (pe_post E 0) False (change_builder ''BOOKING_UPGRADE'' tn b n key
         [mkEntry SYSTEM_ADJUSTMENT ''System Adjustment Account'' n Debit no_meta,
          mkEntry PLATFORM_ESCROW ''Platform Escrow Custody'' n Credit no_meta]) (dw_ledger w) = (Inr r, l)
     \<and> w' = (snd (set_total E j (toMinorUnits (bo_total b) + n) w))\<lparr>dw_ledger := l\<rparr>
     \<and> x = toDecimalString (toMinorUnits (bo_total b) + n))"
  by (auto simp: processBookingUpgrade_def step_simps Let_def set_total_def alter_def post_change_Inr)

lemma upgraded_booking:
  assumes "booking_of_tenant tn j w = Some b"
  shows "booking_of_tenant tn j ((snd (set_total E j m w))\<lparr>dw_ledger := l\<rparr>)
    = Some (b\<lparr>bo_total := toDecimalString m, bo_updatedAt := pe_now E\<rparr>)"
proof -
  have "bo_id b = j" using assms by (auto simp: booking_of_tenant_def dest: find_SomeD)
  with assms show ?thesis
    by (simp add: booking_of_tenant_def set_total_def alter_def set_order_def find_update_where)
qed

text \<open>
  C37. A repeated upgrade is charged once and counted twice: under one idempotency key the ledger posts the
  difference once, and each call raises the total of the booking by it.
\<close>

theorem repeated_upgrade_raises_total:
  assumes "booking_of_tenant tn j w = Some b" and "processBookingUpgrade E tn j n key w = (Inr x, w1)" and "env_lock (pe_post E' 0)"
    and "0 \<le> bo_total b" and "0 \<le> n" and "bo_total b + 2 * n < 2 ^ 48"
  shows "\<exists>y w2 b2. processBookingUpgrade E' tn j n key w1 = (Inr y, w2) \<and> dw_ledger w2 = dw_ledger w1
    \<and> booking_of_tenant tn j w2 = Some b2 \<and> bo_total b2 = bo_total b + 2 * n"
proof -
  let ?es = "[mkEntry SYSTEM_ADJUSTMENT ''System Adjustment Account'' n Debit no_meta,
          mkEntry PLATFORM_ESCROW ''Platform Escrow Custody'' n Credit no_meta]"
  from assms(1,2) obtain r l where post: "builder_post (pe_post E 0) False (change_builder ''BOOKING_UPGRADE'' tn b n key ?es) (dw_ledger w) = (Inr r, l)"
    and w1: "w1 = (snd (set_total E j (toMinorUnits (bo_total b) + n) w))\<lparr>dw_ledger := l\<rparr>" by (auto simp: upgrade_run)
  let ?b1 = "b\<lparr>bo_total := toDecimalString (toMinorUnits (bo_total b) + n), bo_updatedAt := pe_now E\<rparr>"
  have b1: "booking_of_tenant tn j w1 = Some ?b1" unfolding w1 by (rule upgraded_booking [OF assms(1)])
  have same: "change_builder ty tn ?b1 n key es = change_builder ty tn b n key es" for ty es by (simp add: change_builder_def)
  have led: "dw_ledger w1 = l" by (simp add: w1)
  have t1: "bo_total ?b1 = bo_total b + n" using assms(4-6) by (simp add: toMinorUnits_def toDecimalString_def dec_to_minor minor_to_dec)
  have again: "builder_post (pe_post E' 0) False (change_builder ''BOOKING_UPGRADE'' tn ?b1 n key ?es) (dw_ledger w1) = (Inr r, l)"
    unfolding same led by (rule reposting_alone [OF post assms(3)])
  define w2 where "w2 = (snd (set_total E' j (toMinorUnits (bo_total ?b1) + n) w1))\<lparr>dw_ledger := l\<rparr>"
  have "processBookingUpgrade E' tn j n key w1 = (Inr (toDecimalString (toMinorUnits (bo_total ?b1) + n)), w2)"
    unfolding upgrade_run by (intro exI conjI, rule b1, rule again, rule w2_def, rule refl)
  moreover have "booking_of_tenant tn j w2 = Some (?b1\<lparr>bo_total := toDecimalString (toMinorUnits (bo_total ?b1) + n), bo_updatedAt := pe_now E'\<rparr>)"
    unfolding w2_def by (rule upgraded_booking [OF b1])
  moreover have "toDecimalString (toMinorUnits (bo_total ?b1) + n) = bo_total b + 2 * n"
    unfolding t1 using assms(4-6) by (simp add: toMinorUnits_def toDecimalString_def dec_to_minor minor_to_dec)
  ultimately show ?thesis using led by (auto simp: w2_def)
qed

definition demo_upgrade :: "time_ms \<Rightarrow> int desk" where
  "demo_upgrade now = processBookingUpgrade (desk_env now) ''t1'' ''o1'' 500 ''up1''"

theorem repeated_upgrade_raises_total_witness:
  "\<exists>x w1 y w2 b2. demo_upgrade 1 (empty_desk desk_rows) = (Inr x, w1) \<and> demo_upgrade 2 w1 = (Inr y, w2)
    \<and> dw_ledger w2 = dw_ledger w1 \<and> booking_of_tenant ''t1'' ''o1'' w2 = Some b2 \<and> bo_total b2 = 101000"
proof -
  have "\<not> isl (fst (demo_upgrade 1 (empty_desk desk_rows)))" by code_simp
  from run_returns [OF this] obtain x w1 where 1: "demo_upgrade 1 (empty_desk desk_rows) = (Inr x, w1)" by blast
  have b: "booking_of_tenant ''t1'' ''o1'' (empty_desk desk_rows) = Some (demo_order ''o1'' ''e1'')" by code_simp
  have lock: "env_lock (pe_post (desk_env 2) 0)" by (simp add: desk_env_def)
  from repeated_upgrade_raises_total [OF b 1 [unfolded demo_upgrade_def] lock] 1 show ?thesis
    by (simp add: demo_upgrade_def demo_order_def)
qed

end
