(* ===== verification/OrderRules.thy ===== *)
theory OrderRules
  imports OrderFlow
begin

text \<open>
  Rules around orders: the numbers of orders and where they collide, the capacity of assignments, and
  what a listing may show.
\<close>

section \<open>Order numbers\<close>

text \<open>The order counters are a numbering service too: one number per request, the last one given stored.\<close>

definition last_order_number :: "id \<times> id \<times> nat \<Rightarrow> booking_db \<Rightarrow> nat" where
  "last_order_number k d = (case k of (tenant, event, year) \<Rightarrow>
     case List.find (is_order_counter tenant event year) (order_counters d) of None \<Rightarrow> 0 | Some c \<Rightarrow> oc_next c)"

definition take_order_for :: "(id \<times> id \<times> nat) \<times> string \<Rightarrow> booking_db \<Rightarrow> nat \<times> booking_db" where
  "take_order_for r d = (case r of ((tenant, event, year), prefix) \<Rightarrow> take_order_number tenant event year prefix d)"

lemma is_order_counter_new [simp]:
  "is_order_counter tn ev y \<lparr>oc_tenant = tn', oc_event = ev', oc_year = y', oc_prefix = p, oc_next = n\<rparr>
    \<longleftrightarrow> tn' = tn \<and> ev' = ev \<and> y' = y"
  "is_order_counter tn ev y (c\<lparr>oc_next := n\<rparr>) = is_order_counter tn ev y c"
  by (simp_all add: is_order_counter_def)

interpretation order_numbers: sequence_counter take_order_for fst "\<lambda>_. 1" last_order_number
proof
  fix r :: "(id \<times> id \<times> nat) \<times> string" and s m s' and k :: "id \<times> id \<times> nat"
  obtain tn ev y p where r: "r = ((tn, ev, y), p)" by (metis prod.exhaust)
  assume t: "take_order_for r s = (m, s')"
  show "m = last_order_number (fst r) s + 1 \<and> last_order_number (fst r) s' = m"
  proof (cases "List.find (is_order_counter tn ev y) (order_counters s)")
    case (Some c)
    with find_SomeD [OF Some] t show ?thesis
      by (auto simp: r take_order_for_def last_order_number_def take_order_number_def find_update_where)
  qed (use t in \<open>auto simp: r take_order_for_def last_order_number_def take_order_number_def find_append\<close>)
  obtain tn' ev' y' where k: "k = (tn', ev', y')" by (metis prod.exhaust)
  let ?old = "List.find (is_order_counter tn ev y) (order_counters s)"
    and ?mine = "List.find (is_order_counter tn' ev' y') (order_counters s)"
  assume "k \<noteq> fst r"
  then have "\<not> (is_order_counter tn ev y c \<and> is_order_counter tn' ev' y' c)" for c
    by (auto simp: r k is_order_counter_def)
  then have "\<not> is_order_counter tn ev y c" if "?mine = Some c" for c
    using find_SomeD [OF that] by blast
  with t \<open>k \<noteq> fst r\<close> show "last_order_number k s' = last_order_number k s"
    by (cases ?old; cases ?mine)
      (auto simp: r k take_order_for_def last_order_number_def take_order_number_def find_append find_update_where)
qed

lemma order_numbers_gapless:
  "order_numbers.handed_out k rs d
    = [last_order_number k d..<last_order_number k d + length (filter (\<lambda>r. fst r = k) rs)]"
  using order_numbers.handed_out_gapless [of k rs d] by (simp add: sum_list_triv)

section \<open>Capacity of assignments\<close>

text \<open>No line of an order has more attendees than units.\<close>

definition within_quantities :: "booking_db \<Rightarrow> bool" where
  "within_quantities d \<longleftrightarrow>
     (\<forall>i \<in> set (order_items d). int (active_count d (oi_tenant i) (oi_id i)) \<le> max 0 (oi_quantity i))"

lemma count_dropped: "length (filter (\<lambda>x. as_tenant x = tn \<and> as_item x = item \<and> as_deletedAt x = None)
      (update_where p (\<lambda>x. x\<lparr>as_deletedAt := Some now\<rparr>) xs))
    \<le> length (filter (\<lambda>x. as_tenant x = tn \<and> as_item x = item \<and> as_deletedAt x = None) xs)"
  by (induction xs) auto

lemma drop_assignment_count: "active_count (drop_assignment now tenant att d) tn item \<le> active_count d tn item"
  using count_dropped by (auto simp: drop_assignment_def active_count_def)

lemma drop_assignment_items [simp]: "order_items (drop_assignment now tenant att d) = order_items d"
  by (simp add: drop_assignment_def)

lemma attendee_records_frame:
  "updateAttendeeRecord now tenant att act u d = (r, d') \<Longrightarrow> assignments d' = assignments d \<and> order_items d' = order_items d"
  "createAttendeeRecord E tenant act email phone input d = (a, d') \<Longrightarrow> assignments d' = assignments d \<and> order_items d' = order_items d"
  by (auto simp: updateAttendeeRecord_def update_attendee_def createAttendeeRecord_def Let_def)

lemma assigned_attendee_frame:
  assumes "assigned_attendee E tenant act b i x d = Inr (att, d1)"
  shows "assignments d1 = assignments d \<and> order_items d1 = order_items d"
proof (cases "truthy (ai_attendee x)")
  case True
  with assms obtain id lk u r where "updateAttendeeRecord (be_now E) tenant id act u d = (r, d1)"
    unfolding assigned_attendee_def if_P [OF True] bindR_Inr Let_def case_prod_Inr sum.inject prod.inject
    by (elim exE conjE) (rule that, simp)
  then show ?thesis by (rule attendee_records_frame)
next
  case False
  with assms show ?thesis
    by (cases "createAttendeeRecord E tenant act (normalizeEmail (dr_email (the (ai_draft x)))) (trim (dr_phone (the (ai_draft x))))
        (draft_input b i (the (ai_draft x))) d")
      (auto simp: assigned_attendee_def split: option.splits dest: attendee_records_frame)
qed

lemma assign_one_capacity:
  assumes "assign_one E tenant act b items x (ids, d) = Inr (ids', d')"
    and "within_quantities d" and "distinct (map oi_id (order_items d))"
    and "set items \<subseteq> {i \<in> set (order_items d). oi_tenant i = tenant}"
  shows "within_quantities d' \<and> order_items d' = order_items d"
proof -
  from assms(1) obtain i p att d1 u d3 where
    i: "optR (List.find (\<lambda>i. oi_id i = ai_item x) items)
          (badRequest ''bookingOrderItemId must belong to the specified order'') = Inr i"
    and p: "assigned_attendee E tenant act b i x d = Inr p" "p = (att, d1)"
    and room: "guardR (int (active_count (drop_assignment (be_now E) tenant att d1) tenant (oi_id i)) < oi_quantity i)
          (conflict ''No remaining capacity on this booking item'') = Inr u"
    and ins: "insert_assignment \<lparr>as_id = be_uuid E (fresh (drop_assignment (be_now E) tenant att d1)), as_tenant = tenant,
        as_order = bo_id b, as_item = oi_id i, as_attendee = att, as_assignedAt = be_now E, as_assignedBy = act,
        as_deletedAt = None\<rparr> (drop_assignment (be_now E) tenant att d1) = Inr d3" and d': "d3 = d'"
    unfolding assign_one_def Let_def case_prod_conv bindR_Inr case_prod_Inr sum.inject prod.inject
    by (elim exE conjE) (rule that, assumption+)
  from i have i: "List.find (\<lambda>i. oi_id i = ai_item x) items = Some i" by (simp add: optR_Inr)
  have att: "assigned_attendee E tenant act b i x d = Inr (att, d1)" using p by simp
  let ?d2 = "drop_assignment (be_now E) tenant att d1"
  from room have room: "int (active_count ?d2 tenant (oi_id i)) < oi_quantity i" by (simp add: guardR_Inr)
  from ins d' obtain r where r: "as_tenant r = tenant" "as_item r = oi_id i" and d3: "assignments d' = assignments ?d2 @ [r]"
      "order_items d' = order_items d"
    using assigned_attendee_frame [OF att] by (fastforce simp: insert_assignment_def split: if_splits)
  have count: "active_count d' tn item \<le> active_count ?d2 tn item + (if tn = tenant \<and> item = oi_id i then 1 else 0)" for tn item
    using r d3(1) by (simp add: active_count_def)
  have old: "active_count ?d2 tn item \<le> active_count d tn item" for tn item
    using drop_assignment_count [of "be_now E" tenant att d1 tn item] assigned_attendee_frame [OF att]
    by (simp add: active_count_def)
  have "int (active_count d' (oi_tenant j) (oi_id j)) \<le> max 0 (oi_quantity j)" if j: "j \<in> set (order_items d)" for j
  proof (cases "oi_id j = oi_id i")
    case True
    have "i \<in> set (order_items d)" using find_SomeD [OF i] assms(4) by auto
    with True j assms(3) have "j = i" by (auto simp: distinct_map dest: inj_onD)
    with find_SomeD [OF i] assms(4) have "oi_tenant j = tenant" by auto
    with \<open>j = i\<close> room count [of tenant "oi_id i"] show ?thesis by simp
  next
    case False
    with count [of "oi_tenant j" "oi_id j"] old [of "oi_tenant j" "oi_id j"] assms(2) j show ?thesis
      by (fastforce simp: within_quantities_def)
  qed
  with d3(2) show ?thesis by (simp add: within_quantities_def)
qed

lemma reconcile_assignments:
  "reconcileIssuedTicketsForBookingOrder E tenant order d = Inr d' \<Longrightarrow>
    assignments d' = assignments d \<and> order_items d' = order_items d"
  using reconcile_frame [of E tenant order d d'] by (simp add: outside_tickets_def)

lemma assign_loop:
  assumes "forR (assign_one E tenant act b items) xs ([], d) = Inr (ids, d')"
    and "within_quantities d" and "distinct (map oi_id (order_items d))"
    and "set items \<subseteq> {i \<in> set (order_items d). oi_tenant i = tenant}"
  shows "within_quantities d' \<and> order_items d' = order_items d"
proof -
  let ?P = "\<lambda>st. within_quantities (snd st) \<and> order_items (snd st) = order_items d"
  have "?P (ids, d')"
  proof (rule forR_invariant [OF assms(1), of ?P])
    fix x st st'
    assume P: "?P st" and one: "assign_one E tenant act b items x st = Inr st'"
    obtain k s where st: "st = (k, s)" by (cases st)
    obtain k' s' where st': "st' = (k', s')" by (cases st')
    show "?P st'"
      using assign_one_capacity [OF one [unfolded st st']] P assms(3,4) by (simp add: st st')
  qed (use assms(2) in simp)
  then show ?thesis by simp
qed

section \<open>Properties\<close>

definition demo_lines :: booking_db where
  "demo_lines = demo_shop\<lparr>orders := [(demo_order ''O1'' ''e1'')\<lparr>bo_status := O_pending\<rparr>],
     order_items := [demo_line ''i1'' ''O1''], attendees := [demo_attendee]\<rparr>"

definition demo_draft :: assign_input where
  "demo_draft = \<lparr>ai_item = ''i1'', ai_attendee = None, ai_draft = Some \<lparr>dr_fullName = ''Ravi'',
     dr_email = ''ravi@example.com'', dr_phone = ''1'', dr_profile = at_profile demo_attendee, dr_status = A_confirmed\<rparr>\<rparr>"

definition all_orders :: order_query where
  "all_orders = \<lparr>oq_page = None, oq_limit = None, oq_search = None, oq_status = None, oq_event = None, oq_purchaser = None,
     oq_source = None, oq_number = None, oq_attendeeEmail = None, oq_attendeePhone = None, oq_createdFrom = None,
     oq_createdTo = None, oq_sortBy = Order_createdAt, oq_sortOrder = Desc\<rparr>"

definition all_attendees :: attendee_query where
  "all_attendees = \<lparr>aq_page = None, aq_limit = None, aq_search = None, aq_event = None, aq_ticketType = None,
     aq_status = None, aq_checkedIn = None, aq_city = None, aq_sortBy = By_fullName, aq_sortOrder = Asc\<rparr>"

text \<open>
  C24. Assignments never exceed the units bought: if no line has more attendees than units, then the
  same holds after an accepted assignment of any list of attendees, to whatever lines of the order.
\<close>

theorem assignments_within_quantities:
  assumes "assignBookingOrderAttendees E tenant role act number xs d = Inr (rows, d')"
    and "within_quantities d" and "distinct (map oi_id (order_items d))"
  shows "within_quantities d'"
proof -
  from assms(1) obtain b p ids d1 d2 where
    loop: "forR (assign_one E tenant act b (items_of_order d tenant (bo_id b))) xs ([], d) = Inr p" "p = (ids, d1)"
    and rec: "reconcileIssuedTicketsForBookingOrder E tenant (bo_id b) d1 = Inr d2" and d2: "d2 = d'"
    unfolding assignBookingOrderAttendees_def Let_def bindR_Inr case_prod_Inr sum.inject prod.inject
    by (elim exE conjE) (rule that, assumption+)
  have "within_quantities d1 \<and> order_items d1 = order_items d"
    by (rule assign_loop [OF _ assms(2,3)]) (use loop in \<open>auto simp: items_of_order_def\<close>)
  with reconcile_assignments [OF rec] d2 show ?thesis by (simp add: within_quantities_def active_count_def)
qed

theorem assignments_within_quantities_witness:
  "\<exists>rows d. assignBookingOrderAttendees (demo_booking_env 9) ''t1'' (Some owner) ''u1'' ''o1'' [demo_draft] demo_lines
      = Inr (rows, d) \<and> within_quantities d"
proof -
  let ?run = "assignBookingOrderAttendees (demo_booking_env 9) ''t1'' (Some owner) ''u1'' ''o1'' [demo_draft] demo_lines"
  have "\<not> isl ?run" by code_simp
  then obtain rows d where run: "?run = Inr (rows, d)" by (metis sum.collapse(2) prod.exhaust)
  have "within_quantities demo_lines" "distinct (map oi_id (order_items demo_lines))"
    by (simp_all add: within_quantities_def demo_lines_def active_count_def demo_line_def demo_shop_def empty_booking_def)
  from assignments_within_quantities [OF run this] run show ?thesis by blast
qed

lemma set_order_order [simp]: "set (order_order q rows) = set rows"
  by (simp add: order_order_def Let_def split: order_sort.splits)

lemma length_page_rows: "length (page_rows p rows) \<le> nat (pg_limit p)"
  by (simp add: page_rows_def)

lemma page_limit_at_most: "pg_limit (parsePagination page limit) \<le> 100"
  by (simp add: parsePagination_def Let_def)

text \<open>
  Listings stay within the tenant: every order and every attendee listed is a live row of the tenant
  that meets the query, a page is never longer than the limit asked for, and the total reported is the
  number of all rows that meet the query.
\<close>

theorem listings_stay_in_tenant:
  assumes "listBookingOrders tenant role q d = Inr (rows, meta)"
    and "listAttendees tenant role q' d = Inr (rows', meta')"
  shows "(\<forall>b \<in> set rows. b \<in> set (orders d) \<and> bo_tenant b = tenant \<and> bo_deletedAt b = None \<and> order_where d tenant q b)
    \<and> length rows \<le> 100 \<and> pm_total meta = int (length (filter (order_where d tenant q) (orders d)))
    \<and> (\<forall>a \<in> set rows'. a \<in> set (attendees d) \<and> at_tenant a = tenant \<and> at_deletedAt a = None \<and> attendee_where tenant q' a)
    \<and> length rows' \<le> 100 \<and> pm_total meta' = int (length (filter (attendee_where tenant q') (attendees d)))"
proof -
  let ?rows = "filter (order_where d tenant q) (orders d)" and ?rows' = "filter (attendee_where tenant q') (attendees d)"
  have r: "rows = page_rows (parsePagination (oq_page q) (oq_limit q)) (order_order q ?rows)"
    "pm_total meta = int (length ?rows)"
    and r': "rows' = page_rows (parsePagination (aq_page q') (aq_limit q')) (attendee_order q' ?rows')"
    "pm_total meta' = int (length ?rows')"
    using assms by (auto simp: listBookingOrders_def listAttendees_def res_simps Let_def buildPaginationMeta_def)
  have "set rows \<subseteq> set ?rows" "set rows' \<subseteq> set ?rows'"
    using set_page_rows [of _ "order_order q ?rows"] set_page_rows [of _ "attendee_order q' ?rows'"] r(1) r'(1) by auto
  moreover have "bo_tenant b = tenant \<and> bo_deletedAt b = None" if "order_where d tenant q b" for b
    using that by (simp add: order_where_def)
  moreover have "length rows \<le> nat 100" "length rows' \<le> nat 100"
    using length_page_rows page_limit_at_most r(1) r'(1) by (metis nat_mono order_trans)+
  ultimately show ?thesis using r(2) r'(2) attendee_where_tenant by auto
qed

theorem listings_stay_in_tenant_witness:
  "\<exists>rows meta rows' meta'. listBookingOrders ''t1'' (Some owner) all_orders demo_lines = Inr (rows, meta)
    \<and> listAttendees ''t1'' (Some owner) all_attendees demo_lines = Inr (rows', meta')
    \<and> length rows \<le> 100 \<and> length rows' \<le> 100"
proof -
  have "\<not> isl (listBookingOrders ''t1'' (Some owner) all_orders demo_lines)"
    "\<not> isl (listAttendees ''t1'' (Some owner) all_attendees demo_lines)" by code_simp+
  then obtain rows meta rows' meta' where "listBookingOrders ''t1'' (Some owner) all_orders demo_lines = Inr (rows, meta)"
    "listAttendees ''t1'' (Some owner) all_attendees demo_lines = Inr (rows', meta')"
    by (metis sum.collapse(2) prod.exhaust)
  with listings_stay_in_tenant [OF this] show ?thesis by blast
qed

lemma not_Inr_isl: "isl r \<longleftrightarrow> (\<forall>x. r \<noteq> Inr x)"
  by (cases r) auto

text \<open>
  Order numbers collide between events: they are counted per event but unique per tenant, and carry
  only the initials of the title. Once an order of the tenant has the first number of some initials
  and year, no order can be created for another event with these initials that has had none; and as
  a failing creation leaves no counter behind, it stays that way.
\<close>

theorem shared_initials_block_orders:
  assumes "bookable_event d tenant (cb_event input) = Inr ev"
    and "List.find (is_order_counter tenant (ev_id ev) (be_year E (be_now E))) (order_counters d) = None"
    and "b \<in> set (orders d)" and "bo_tenant b = tenant"
    and "bo_number b = order_number (resolveOrderPrefix (ev_title ev)) (be_year E (be_now E)) 1"
  shows "createBookingOrder E faults tenant role act input d \<noteq> Inr x"
proof
  assume "createBookingOrder E faults tenant role act input d = Inr x"
  moreover obtain x1 d' where "x = (x1, d')" by (cases x)
  ultimately obtain ev' p where "bookable_event d tenant (cb_event input) = Inr ev'"
    and tx: "create_order_tx E tenant role act input ev' p d = Inr (x1, d')"
    using create_goes_through by metis
  then have ev: "ev' = ev" using assms(1) by simp
  obtain lb rows where "x1 = (lb, rows)" by (cases x1)
  from tx [unfolded this ev] obtain seq d1 d2 b0 where
    take: "take_order_number tenant (ev_id ev) (be_year E (be_now E)) (resolveOrderPrefix (ev_title ev)) d = (seq, d1)"
    and b0: "b0 = new_order E tenant act input p
       (order_number (resolveOrderPrefix (ev_title ev)) (be_year E (be_now E)) seq) d1"
    and ins: "insert_order b0 d1 = Inr d2"
    by (rule create_order_parts)
  from take assms(2) have seq: "seq = 1" by (auto simp: take_order_number_def)
  from take have "orders d1 = orders d" using take_order_number_only_counters by fastforce
  with assms(3) have "b \<in> set (orders d1)" by simp
  moreover have "bo_tenant b = bo_tenant b0 \<and> bo_number b = bo_number b0"
    using assms(4,5) by (simp add: b0 new_order_def seq)
  ultimately have "list_ex (\<lambda>x. bo_tenant x = bo_tenant b0 \<and> bo_number x = bo_number b0) (orders d1)"
    by (auto simp: list_ex_iff)
  with ins show False by (simp add: insert_order_row)
qed

theorem shared_initials_block_orders_witness:
  "isl (createBookingOrder (demo_booking_env 5) (\<lambda>_. None) ''t1'' (Some owner) ''u1'' (demo_request O_pending 2)
     (demo_shop\<lparr>orders := [(demo_order ''o9'' ''e2'')\<lparr>bo_number := ''RN-2025-000001''\<rparr>]\<rparr>))"
  unfolding not_Inr_isl
proof (intro allI, rule shared_initials_block_orders)
  show "bo_number ((demo_order ''o9'' ''e2'')\<lparr>bo_number := ''RN-2025-000001''\<rparr>)
      = order_number (resolveOrderPrefix (ev_title (hd (events demo_shop)))) (be_year (demo_booking_env 5) (be_now (demo_booking_env 5))) 1"
    by code_simp
  show "bookable_event (demo_shop\<lparr>orders := [(demo_order ''o9'' ''e2'')\<lparr>bo_number := ''RN-2025-000001''\<rparr>]\<rparr>) ''t1''
      (cb_event (demo_request O_pending 2)) = Inr (hd (events demo_shop))"
    by (simp add: bookable_event_def findActiveEvent_def demo_shop_def demo_request_def)
qed (simp_all add: demo_shop_def empty_booking_def demo_order_def)

end
