(* ===== verification/PayConfirm.thy ===== *)
theory PayConfirm
  imports PayStore
begin

text \<open>
  \<open>src/modules/payments/service.ts\<close>, from checkout to capture: the amount to pay, the payment
  order at the gateway, the confirmation of a captured payment (in time, or late with its
  automatic refund) and a failed payment. Notifications, metrics, logs and uploaded documents
  swallow their own errors, change no table and are left out.
\<close>

section \<open>The amount to pay\<close>

record payable =
  py_ticketPrice :: int
  py_convenienceFee :: int
  py_convenienceFeeBps :: int
  py_discount :: int
  py_final :: int

definition items_subtotal :: "id \<Rightarrow> pay_db \<Rightarrow> int" where
  "items_subtotal order d =
     foldl (\<lambda>s i. s + toMinorUnits (oi_unitPrice i) * oi_quantity i) 0
       (filter (\<lambda>i. oi_order i = order) (order_items (shop d)))"

definition calculateBookingAmount :: "pay_env \<Rightarrow> id \<Rightarrow> payable run" where
  "calculateBookingAmount E orderId =
     bnd (need (order_by_id orderId) (notFound ''Booking order not found'')) (\<lambda>order.
     bnd (ask (items_subtotal orderId)) (\<lambda>subtotalMinor.
       let convenienceFeeMinor = calculateByBps subtotalMinor (pe_feeBps E);
           discountMinor = toMinorUnits (bo_discount order);
           totalMinor = subtotalMinor + convenienceFeeMinor - discountMinor;
           newSubtotal = toDecimalString subtotalMinor;
           newTax = toDecimalString convenienceFeeMinor;
           newTotal = toDecimalString totalMinor
       in bnd (check (0 \<le> totalMinor) (badRequest ''Discount amount exceeds the total order amount'')) (\<lambda>_.
          bnd (modify (set_order orderId (\<lambda>b. b\<lparr>bo_subtotal := newSubtotal, bo_tax := newTax,
                bo_total := newTotal,
                bo_metadata := pe_spread E (bo_metadata order)
                  [(''convenienceFee'', show_int newTax), (''convenienceFeeBps'', show_int (pe_feeBps E)),
                   (''ticketPrice'', show_int newSubtotal)],
                bo_updatedAt := pe_now E\<rparr>))) (\<lambda>_.
          ret \<lparr>py_ticketPrice = newSubtotal, py_convenienceFee = newTax,
               py_convenienceFeeBps = pe_feeBps E, py_discount = bo_discount order, py_final = newTotal\<rparr>))))"

section \<open>The payment order\<close>

fun join_comma :: "string list \<Rightarrow> string" where
  "join_comma [] = []"
| "join_comma [s] = s"
| "join_comma (s # t # ss) = s @ '','' @ join_comma (t # ss)"

definition payable_hold :: "time_ms \<Rightarrow> id \<Rightarrow> id \<Rightarrow> reservation \<Rightarrow> bool" where
  "payable_hold now tenant order r \<longleftrightarrow> rv_tenant r = tenant \<and> rv_order r = Some order \<and> holding (rv_status r)
     \<and> rv_deletedAt r = None \<and> rv_convertedAt r = None \<and> rv_releasedAt r = None \<and> now \<le> rv_expiresAt r"

record checkout =
  ck_orderId :: string
  ck_amount :: int
  ck_currency :: string
  ck_bookingId :: id
  ck_reservationIds :: string
  ck_reservationTokens :: string

definition starts_with :: "string \<Rightarrow> string \<Rightarrow> bool" where
  "starts_with p s \<longleftrightarrow> take (length p) s = p"

definition order_event :: "payment_order \<Rightarrow> string \<Rightarrow> string option \<Rightarrow> string option \<Rightarrow> id option \<Rightarrow> lifecycle_row" where
  "order_event p ty fr t act =
     \<lparr>pl_tenant = po_tenant p, pl_order = Some (po_id p), pl_txn = None, pl_refund = None,
      pl_entityType = ''payment_order'', pl_entityId = po_id p, pl_eventType = ty, pl_from = fr, pl_to = t,
      pl_actor = act\<rparr>"

definition order_audit :: "id option \<Rightarrow> payment_order \<Rightarrow> string \<Rightarrow> string option \<Rightarrow> string option \<Rightarrow> pay_audit" where
  "order_audit act p action before after =
     \<lparr>pa_actor = act, pa_tenant = po_tenant p, pa_entityType = ''payment_order'', pa_entityId = po_id p,
      pa_action = action, pa_before = before, pa_after = after\<rparr>"

definition invalid_razorpay_order :: "string \<Rightarrow> js_error" where
  "invalid_razorpay_order i = badRequest (''Invalid Razorpay Order ID returned: '' @ i)"

definition createPaymentOrderFor :: "pay_env \<Rightarrow> id \<Rightarrow> id \<Rightarrow> id \<Rightarrow> checkout run" where
  "createPaymentOrderFor E tenant actorId orderId =
     bnd (need (\<lambda>d. List.find (\<lambda>b. bo_id b = orderId \<and> bo_tenant b = tenant \<and> bo_deletedAt b = None)
            (orders (shop d))) (notFound ''Booking order not found'')) (\<lambda>order.
     bnd (check (bo_status order = O_pending \<or> bo_status order = O_draft)
            (badRequest (''Invalid booking order status: '' @ order_text (bo_status order)
               @ ''. Order must be pending or draft.''))) (\<lambda>_.
     bnd (ask (\<lambda>d. filter (payable_hold (pe_now E) tenant orderId) (reservations (shop d)))) (\<lambda>active.
     bnd (check (active \<noteq> []) (badRequest
            ''Booking order does not have any active inventory reservations or they have expired'')) (\<lambda>_.
     bnd (calculateBookingAmount E orderId) (\<lambda>calculated.
       let amountInMinor = toMinorUnits (py_final calculated);
           payload = (\<lambda>rid amt cur. \<lparr>ck_orderId = rid, ck_amount = amt, ck_currency = cur,
             ck_bookingId = orderId, ck_reservationIds = join_comma (map rv_id active),
             ck_reservationTokens = join_comma (map rv_token active)\<rparr>)
       in bnd (check (0 < amountInMinor)
                (badRequest ''Booking order total amount must be greater than zero'')) (\<lambda>_.
          bnd (ask (\<lambda>d. List.find (\<lambda>p. po_tenant p = tenant \<and> po_booking p = orderId
                 \<and> po_status p = P_pending) (pay_orders d))) (\<lambda>existing.
          case existing of
            Some p \<Rightarrow>
              bnd (modify (\<lambda>d. d\<lparr>pay_orders := update_where (\<lambda>x. po_id x = po_id p)
                     (\<lambda>x. x\<lparr>po_retryCount := po_retryCount p + 1\<rparr>) (pay_orders d)\<rparr>)) (\<lambda>_.
              bnd (modify (logPaymentLifecycleEvent (order_event p ''payment_order.retried''
                     (Some ''pending'') (Some ''pending'') (Some actorId)))) (\<lambda>_.
              ret (payload (po_razorpayId p) (toMinorUnits (po_amount p)) (po_currency p))))
          | None \<Rightarrow>
              bnd (call (Call_order amountInMinor (bo_currency order) (bo_id order))) (\<lambda>_.
              bnd (lift (pe_createOrder E amountInMinor (bo_currency order) (bo_id order))) (\<lambda>rid.
              bnd (check (starts_with ''order_'' rid) (invalid_razorpay_order rid)) (\<lambda>_.
              bnd (exec (createPaymentOrder (pe_uuid E) \<lparr>po_id = [], po_tenant = tenant, po_booking = bo_id order,
                     po_razorpayId = rid, po_amount = py_final calculated, po_currency = bo_currency order,
                     po_status = P_pending, po_retryCount = 0, po_createdBy = actorId\<rparr>)) (\<lambda>p.
              bnd (modify (logPaymentLifecycleEvent (order_event p ''payment_order.created'' None
                     (Some ''pending'') (Some actorId)))) (\<lambda>_.
              bnd (modify (logPaymentAudit (order_audit (Some actorId) p ''create'' None (Some ''pending'')))) (\<lambda>_.
              ret (payload rid amountInMinor (bo_currency order)))))))))))))))"

section \<open>Confirming a captured payment\<close>

text \<open>
  The reservation ids and tokens come from the caller or from the gateway's notes, singular or
  plural, whichever is not empty first.
\<close>

record confirm_input =
  cf_razorpayOrderId :: string
  cf_razorpayPaymentId :: string
  cf_reservationIds :: "string option"
  cf_reservationTokens :: "string option"
  cf_noteIds :: "string option"
  cf_noteIdsPlural :: "string option"
  cf_noteTokens :: "string option"
  cf_noteTokensPlural :: "string option"
  cf_lockAcquired :: bool

fun index_of :: "'a \<Rightarrow> 'a list \<Rightarrow> nat option" where
  "index_of x [] = None"
| "index_of x (y # ys) = (if x = y then Some 0 else map_option Suc (index_of x ys))"

definition comma_list :: "string \<Rightarrow> string list" where
  "comma_list s = map trim (split_on (CHR '','') s)"

definition token_checked :: "string list \<Rightarrow> string list \<Rightarrow> reservation \<Rightarrow> unit run" where
  "token_checked ids tokens r =
     (case index_of (rv_id r) ids of
        None \<Rightarrow> throw (forbidden (''Cryptographic token verification failed: reservation ID '' @ rv_id r
                  @ '' not in payload''))
      | Some k \<Rightarrow> check (k < length tokens \<and> tokens ! k = rv_token r)
          (forbidden (''Cryptographic token verification failed: reservation token mismatch for ID '' @ rv_id r)))"

definition owner_checked :: "id \<Rightarrow> booking_order \<Rightarrow> payment_order \<Rightarrow> reservation \<Rightarrow> unit run" where
  "owner_checked tenant b p r =
     bnd (check (rv_tenant r = tenant) (forbidden ''Tenant mismatch on reservation'')) (\<lambda>_.
     bnd (check (rv_event r = bo_event b) (forbidden ''Event mismatch on reservation'')) (\<lambda>_.
     check (\<not> truthy (rv_createdBy r) \<or> rv_createdBy r = Some (po_createdBy p))
       (forbidden ''Ownership mismatch on reservation'')))"

definition dead_reservation :: "reservation_status \<Rightarrow> bool" where
  "dead_reservation s = List.member [R_cancelled, R_released, R_failed, R_force_released, R_refund_pending,
     R_refunded] s"

fun is_late :: "time_ms \<Rightarrow> bool \<Rightarrow> reservation list \<Rightarrow> bool res" where
  "is_late now late [] = Inr late"
| "is_late now late (r # rs) =
     (if rv_status r = R_expired \<or> rv_expiresAt r \<le> now then is_late now True rs
      else if dead_reservation (rv_status r)
      then Inl (conflict (''Reservation is in terminal/invalid state: '' @ reservation_text (rv_status r)))
      else is_late now late rs)"

definition no_move :: "reservation_status \<Rightarrow> reservation_status \<Rightarrow> js_error" where
  "no_move s t = conflict (''Invalid transition from '' @ reservation_text s @ '' to '' @ reservation_text t)"

definition set_reservation :: "id \<Rightarrow> (reservation \<Rightarrow> reservation) \<Rightarrow> pay_db \<Rightarrow> pay_db" where
  "set_reservation i f d =
     d\<lparr>shop := (shop d)\<lparr>reservations := update_where (\<lambda>x. rv_id x = i) f (reservations (shop d))\<rparr>\<rparr>"

definition confirm_event :: "id \<Rightarrow> reservation \<Rightarrow> id \<Rightarrow> payment_order \<Rightarrow> string \<Rightarrow> string \<Rightarrow> pay_db \<Rightarrow> pay_db" where
  "confirm_event tenant r orderId p ty src d =
     d\<lparr>shop := (shop d)\<lparr>inv_events := inv_events (shop d) @
       [\<lparr>iv_tenant = tenant, iv_event = rv_event r, iv_ticketType = rv_ticketType r,
         iv_reservation = Some (rv_id r), iv_order = Some orderId, iv_type = ty,
         iv_actor = Some (po_createdBy p), iv_source = src, iv_correlation = None\<rparr>]\<rparr>\<rparr>"

text \<open>A late payment: every reservation expires, if it has not, and waits for its refund.\<close>

definition expire_late :: "time_ms \<Rightarrow> id \<Rightarrow> id \<Rightarrow> payment_order \<Rightarrow> reservation \<Rightarrow> unit run" where
  "expire_late now tenant orderId p r =
     bnd (if rv_status r \<noteq> R_expired then
            bnd (check (validateReservationStateTransition (rv_status r) R_expired)
                   (no_move (rv_status r) R_expired)) (\<lambda>_.
            bnd (modify (set_reservation (rv_id r) (\<lambda>x. x\<lparr>rv_status := R_expired, rv_releasedAt := Some now,
                   rv_version := rv_version x + 1\<rparr>))) (\<lambda>_.
            modify (confirm_event tenant r orderId p ''reservation_expired'' ''confirm_payment_order_late'')))
          else ret ()) (\<lambda>_.
     bnd (check (validateReservationStateTransition R_expired R_refund_pending)
            (no_move R_expired R_refund_pending)) (\<lambda>_.
     modify (set_reservation (rv_id r) (\<lambda>x. x\<lparr>rv_status := R_refund_pending, rv_version := rv_version x + 1\<rparr>))))"

text \<open>A payment in time: every reservation is booked and the cached quantities move with it.\<close>

definition book_reservation :: "time_ms \<Rightarrow> id \<Rightarrow> id \<Rightarrow> payment_order \<Rightarrow> reservation \<Rightarrow> unit run" where
  "book_reservation now tenant orderId p r =
     bnd (check (validateReservationStateTransition (rv_status r) R_converting)
            (no_move (rv_status r) R_converting)) (\<lambda>_.
     bnd (check (validateReservationStateTransition R_converting R_booked) (no_move R_converting R_booked)) (\<lambda>_.
     bnd (modify (set_reservation (rv_id r) (\<lambda>x. x\<lparr>rv_status := R_booked, rv_convertedAt := Some now,
            rv_version := rv_version x + 1\<rparr>))) (\<lambda>_.
     bnd (modify (\<lambda>d. d\<lparr>shop := (shop d)\<lparr>ticket_types := update_where
            (\<lambda>t. tt_id t = rv_ticketType r \<and> tt_tenant t = tenant)
            (\<lambda>t. t\<lparr>tt_reserved := max 0 (tt_reserved t - rv_quantity r), tt_sold := tt_sold t + rv_quantity r\<rparr>)
            (ticket_types (shop d))\<rparr>\<rparr>)) (\<lambda>_.
     modify (confirm_event tenant r orderId p ''reservation_converted'' ''confirm_payment_order'')))))"

section \<open>The organizer's side\<close>

text \<open>What the platform keeps of a payment and what is left for the organizer.\<close>

record revenue =
  rn_platformFee :: int
  rn_tax :: int
  rn_net :: int

definition revenue_of :: "int \<Rightarrow> booking_order \<Rightarrow> revenue" where
  "revenue_of amountMinor b =
     (let platformFeeMinor = calculatePlatformFee (toMinorUnits (bo_subtotal b));
          taxMinor = x_totalTax (calculateGstOnAmount platformFeeMinor (bo_currency b))
      in \<lparr>rn_platformFee = platformFeeMinor, rn_tax = taxMinor, rn_net = amountMinor - platformFeeMinor - taxMinor\<rparr>)"

definition organizer_of :: "booking_order \<Rightarrow> pay_db \<Rightarrow> id option" where
  "organizer_of b d = (case event_by_id (bo_event b) d of
     None \<Rightarrow> None | Some e \<Rightarrow> (if truthy (ev_organizer e) then ev_organizer e else None))"

definition ensure_wallet :: "pay_env \<Rightarrow> id \<Rightarrow> id \<Rightarrow> unit run" where
  "ensure_wallet E tenant org =
     bnd (ask (findOrganizerWallet tenant org)) (\<lambda>w. case w of
       Some _ \<Rightarrow> ret ()
     | None \<Rightarrow> modify (\<lambda>d. snd (createOrganizerWallet (pe_uuid E) tenant org d)))"

definition wallet_line ::
    "wallet_row \<Rightarrow> string \<Rightarrow> string \<Rightarrow> int \<Rightarrow> string \<Rightarrow> string \<Rightarrow> id \<Rightarrow> string \<Rightarrow> wallet_txn" where
  "wallet_line wl ty st amount cur refType refId description =
     \<lparr>wt_id = [], wt_tenant = wa_tenant wl, wt_organizer = wa_organizer wl, wt_wallet = wa_id wl,
      wt_type = ty, wt_status = st, wt_amount = amount, wt_currency = cur, wt_refType = refType,
      wt_refId = refId, wt_description = description\<rparr>"

definition pending_text :: "booking_order \<Rightarrow> string" where
  "pending_text b = ''Pending revenue for booking '' @ bo_number b"

definition stage_wallet :: "pay_env \<Rightarrow> booking_order \<Rightarrow> payment_order \<Rightarrow> unit run" where
  "stage_wallet E b p =
     bnd (ask (organizer_of b)) (\<lambda>org. case org of None \<Rightarrow> ret () | Some org \<Rightarrow>
       bnd (ensure_wallet E (po_tenant p) org) (\<lambda>_.
       bnd (ask (findOrganizerWallet (po_tenant p) org)) (\<lambda>wl. case wl of None \<Rightarrow> ret () | Some wl \<Rightarrow>
         let net = rn_net (revenue_of (toMinorUnits (po_amount p)) b)
         in bnd (exec (updateOrganizerWalletBalances (wa_id wl) (wa_available wl)
                   (toDecimalString (toMinorUnits (wa_pending wl) + net)) (wa_withdrawn wl))) (\<lambda>_.
            modify (createOrganizerWalletTransaction (pe_uuid E)
              (wallet_line wl ''credit'' ''pending'' (toDecimalString net) (bo_currency b)
                 ''booking_order'' (bo_id b) (pending_text b)))))))"

definition stage_late_wallet :: "pay_env \<Rightarrow> booking_order \<Rightarrow> payment_order \<Rightarrow> id \<Rightarrow> unit run" where
  "stage_late_wallet E b p refundId =
     bnd (ask (organizer_of b)) (\<lambda>org. case org of None \<Rightarrow> ret () | Some org \<Rightarrow>
       bnd (ensure_wallet E (po_tenant p) org) (\<lambda>_.
       bnd (ask (findOrganizerWallet (po_tenant p) org)) (\<lambda>wl. case wl of None \<Rightarrow> ret () | Some wl \<Rightarrow>
         let net = rn_net (revenue_of (toMinorUnits (po_amount p)) b)
         in bnd (exec (updateOrganizerWalletBalances (wa_id wl) (wa_available wl)
                   (toDecimalString (toMinorUnits (wa_pending wl) + net - net)) (wa_withdrawn wl))) (\<lambda>_.
            bnd (modify (createOrganizerWalletTransaction (pe_uuid E)
              (wallet_line wl ''credit'' ''pending'' (toDecimalString net) (bo_currency b)
                 ''booking_order'' (bo_id b) (pending_text b)))) (\<lambda>_.
            modify (createOrganizerWalletTransaction (pe_uuid E)
              (wallet_line wl ''debit'' ''failed'' (toDecimalString net) (bo_currency b) ''payment_refund'' refundId
                 (''Pending revenue cancellation due to late payment refund of booking '' @ bo_number b))))))))"

section \<open>The confirming transaction\<close>

definition capture_of :: "payment_order \<Rightarrow> payment_txn \<Rightarrow> capture_params" where
  "capture_of p x =
     \<lparr>pc_tenantId = po_tenant p, pc_paymentId = pt_id x, pc_amount = toMinorUnits (po_amount p),
      pc_currency = po_currency p, pc_idempotencyKey = ''capture:'' @ pt_id x,
      pc_userId = Some (po_createdBy p), pc_ipAddress = None, pc_requestId = None\<rparr>"

definition escrow_refund_of :: "id \<Rightarrow> id \<Rightarrow> int \<Rightarrow> id \<Rightarrow> refund_params" where
  "escrow_refund_of tenant refundId amountMinor userId =
     \<lparr>pr_tenantId = tenant, pr_refundId = refundId,
      pr_refund = \<lparr>rf_refundAmount = amountMinor, rf_organizerId = None, rf_isSettled = False,
        rf_platformFeeRefund = None, rf_taxRefund = None, rf_netOrganizerRefund = None\<rparr>,
      pr_idempotencyKey = ''refund:'' @ refundId, pr_userId = Some userId\<rparr>"

definition captured_txn :: "payment_order \<Rightarrow> string \<Rightarrow> string \<Rightarrow> payment_txn" where
  "captured_txn p paymentId st =
     \<lparr>pt_id = [], pt_tenant = po_tenant p, pt_order = po_id p, pt_razorpayId = paymentId,
      pt_amount = po_amount p, pt_currency = po_currency p, pt_status = st\<rparr>"

definition new_refund :: "id \<Rightarrow> id \<Rightarrow> string \<Rightarrow> int \<Rightarrow> string \<Rightarrow> string option \<Rightarrow> payment_refund" where
  "new_refund tenant txnId rid amount st reason =
     \<lparr>pf_id = [], pf_tenant = tenant, pf_txn = txnId, pf_razorpayId = rid, pf_amount = amount,
      pf_status = st, pf_approval = ''pending'', pf_reason = reason, pf_rejection = None\<rparr>"

definition txn_event :: "payment_order \<Rightarrow> id \<Rightarrow> string \<Rightarrow> payment_state \<Rightarrow> lifecycle_row" where
  "txn_event p txnId ty t =
     (order_event p ty (Some (payment_text (po_status p))) (Some (payment_text t)) None)\<lparr>pl_txn := Some txnId\<rparr>"

definition refund_event ::
    "id \<Rightarrow> id option \<Rightarrow> id \<Rightarrow> string \<Rightarrow> string option \<Rightarrow> string option \<Rightarrow> id option \<Rightarrow> lifecycle_row" where
  "refund_event tenant orderId refundId ty fr t act =
     \<lparr>pl_tenant = tenant, pl_order = orderId, pl_txn = None, pl_refund = Some refundId,
      pl_entityType = ''payment_refund'', pl_entityId = refundId, pl_eventType = ty, pl_from = fr, pl_to = t,
      pl_actor = act\<rparr>"

text \<open>Take the payment: the status of the payment order and the transaction row.\<close>

definition take_payment :: "pay_env \<Rightarrow> payment_order \<Rightarrow> string \<Rightarrow> payment_state \<Rightarrow> string \<Rightarrow> payment_txn run" where
  "take_payment E p paymentId st ty =
     bnd (lift (validatePaymentStateTransition (po_status p) st)) (\<lambda>_.
     bnd (exec (updatePaymentOrderStatus (po_tenant p) (po_id p) st)) (\<lambda>_.
     bnd (exec (createPaymentTransaction (pe_uuid E) (captured_txn p paymentId (payment_text st)))) (\<lambda>x.
     bnd (modify (logPaymentLifecycleEvent (txn_event p (pt_id x) ty st))) (\<lambda>_. ret x))))"

text \<open>A late payment: what follows the refund row.\<close>

definition late_books :: "pay_env \<Rightarrow> payment_order \<Rightarrow> booking_order \<Rightarrow> payment_txn \<Rightarrow> payment_refund \<Rightarrow> (id \<times> int) run" where
  "late_books E p b x r =
     bnd (modify (logPaymentLifecycleEvent (refund_event (po_tenant p) (Some (po_id p)) (pf_id r) ''refund.created''
            (Some ''captured'') (Some ''refund_pending'') (Some (po_createdBy p))))) (\<lambda>_.
     bnd (stage_late_wallet E b p (pf_id r)) (\<lambda>_.
     bnd (posting_in (\<lambda>P ext. postPaymentCapture P ext (capture_of p x)) (pe_post E 0)) (\<lambda>_.
     bnd (posting_in (\<lambda>P ext. postRefund P ext (escrow_refund_of (po_tenant p) (pf_id r)
            (toMinorUnits (po_amount p)) (po_createdBy p))) (pe_post E 1)) (\<lambda>_.
     bnd (modify (logPaymentAudit (order_audit (Some (po_createdBy p)) p ''capture''
            (Some (payment_text (po_status p))) (Some ''captured'')))) (\<lambda>_.
     ret (pf_id r, toMinorUnits (po_amount p)))))))"

definition late_flow ::
    "pay_env \<Rightarrow> payment_order \<Rightarrow> booking_order \<Rightarrow> string \<Rightarrow> reservation list \<Rightarrow> (id \<times> int) run" where
  "late_flow E p b paymentId rs =
     bnd (modify (set_order (bo_id b) (\<lambda>x. x\<lparr>bo_status := O_expired, bo_updatedAt := pe_now E\<rparr>))) (\<lambda>_.
     bnd (each (expire_late (pe_now E) (po_tenant p) (bo_id b) p) rs) (\<lambda>_.
     bnd (take_payment E p paymentId P_captured ''payment_order.captured'') (\<lambda>x.
     bnd (ask (\<lambda>d. be_random (pe_shop E) (pay_next d))) (\<lambda>rnd.
     bnd (exec (createPaymentRefund (pe_uuid E) (new_refund (po_tenant p) (pt_id x) (''rfnd_pending_'' @ rnd)
            (po_amount p) ''pending'' (Some ''Late payment auto-refund'')))) (late_books E p b x)))))"

definition settled_order :: "order_status \<Rightarrow> bool" where
  "settled_order s = List.member [O_confirmed, O_paid, O_completed] s"

definition normal_flow ::
    "pay_env \<Rightarrow> payment_order \<Rightarrow> booking_order \<Rightarrow> string \<Rightarrow> reservation list \<Rightarrow> unit run" where
  "normal_flow E p b paymentId rs =
     bnd (each (book_reservation (pe_now E) (po_tenant p) (bo_id b) p) rs) (\<lambda>_.
     bnd (if settled_order (bo_status b) then ret ()
          else bnd (modify (set_order (bo_id b) (\<lambda>x. x\<lparr>bo_status := O_paid,
                 bo_confirmedAt := (case bo_confirmedAt b of None \<Rightarrow> Some (pe_now E) | Some c \<Rightarrow> Some c),
                 bo_updatedAt := pe_now E\<rparr>))) (\<lambda>_.
               on_shop (issueIssuedTicketsForBookingOrder (pe_shop E) (po_tenant p) (bo_id b) (Some owner)))) (\<lambda>_.
     bnd (take_payment E p paymentId P_captured ''payment_order.captured'') (\<lambda>x.
     bnd (posting_in (\<lambda>P ext. postPaymentCapture P ext (capture_of p x)) (pe_post E 0)) (\<lambda>_.
     bnd (stage_wallet E b p) (\<lambda>_.
     modify (logPaymentAudit (order_audit (Some (po_createdBy p)) p ''capture''
       (Some (payment_text (po_status p))) (Some ''captured''))))))))"

definition order_reservations :: "id \<Rightarrow> id \<Rightarrow> pay_db \<Rightarrow> reservation list" where
  "order_reservations tenant orderId d =
     sort_key rv_id (filter (\<lambda>r. rv_order r = Some orderId \<and> rv_tenant r = tenant) (reservations (shop d)))"

definition supplied_ids :: "confirm_input \<Rightarrow> string option" where
  "supplied_ids i = or_else (cf_reservationIds i) (or_else (cf_noteIds i) (cf_noteIdsPlural i))"

definition supplied_tokens :: "confirm_input \<Rightarrow> string option" where
  "supplied_tokens i = or_else (cf_reservationTokens i) (or_else (cf_noteTokens i) (cf_noteTokensPlural i))"

definition confirm_txn :: "pay_env \<Rightarrow> confirm_input \<Rightarrow> payment_order \<Rightarrow> (id \<times> int) option run" where
  "confirm_txn E i p =
     bnd (need (\<lambda>d. List.find (\<lambda>b. bo_id b = po_booking p \<and> bo_tenant b = po_tenant p) (orders (shop d)))
            (notFound ''Booking order not found within transaction'')) (\<lambda>b.
     bnd (ask (order_reservations (po_tenant p) (po_booking p))) (\<lambda>rs.
     bnd (check (rs \<noteq> []) (notFound ''No inventory reservations found for this booking order'')) (\<lambda>_.
     bnd (check (truthy (supplied_ids i) \<and> truthy (supplied_tokens i)) (badRequest
            ''Cryptographic token verification failed: reservationId and reservationToken must be supplied'')) (\<lambda>_.
     bnd (each (token_checked (comma_list (the (supplied_ids i))) (comma_list (the (supplied_tokens i)))) rs) (\<lambda>_.
     bnd (each (owner_checked (po_tenant p) b p) rs) (\<lambda>_.
     bnd (lift (is_late (pe_now E) False rs)) (\<lambda>late.
     if late then bnd (late_flow E p b (cf_razorpayPaymentId i) rs) (\<lambda>x. ret (Some x))
     else bnd (normal_flow E p b (cf_razorpayPaymentId i) rs) (\<lambda>_. ret None))))))))"

section \<open>The refund of a late payment\<close>

lemma keeps_handle [keeps_intros]:
  assumes m: "keeps P m" and h: "\<And>e. keeps P (h e)" shows "keeps P (handle m h)"
proof (rule keepsI)
  fix w r w' assume P: "P (pw_db w)" and run: "handle m h w = (r, w')"
  obtain a w1 where m1: "m w = (a, w1)" by force
  have P1: "P (pw_db w1)" by (rule keepsD [OF m P m1])
  show "P (pw_db w')"
  proof (cases a)
    case (Inl e)
    with run m1 have "h e w1 = (r, w')" by (simp add: handle_def)
    then show ?thesis by (rule keepsD [OF h P1])
  next
    case (Inr x)
    with run m1 P1 show ?thesis by (simp add: handle_def)
  qed
qed

definition set_refund :: "id \<Rightarrow> (payment_refund \<Rightarrow> payment_refund) \<Rightarrow> pay_db \<Rightarrow> (unit \<times> pay_db) res" where
  "set_refund i f d =
     (let rows = update_where (\<lambda>x. pf_id x = i) f (pay_refunds d)
      in if distinct (map (\<lambda>x. (pf_tenant x, pf_razorpayId x)) rows) then Inr ((), d\<lparr>pay_refunds := rows\<rparr>)
         else Inl (unique_violation ''payment_refunds_tenant_razorpay_refund_unique''))"

definition set_order_reservations :: "id \<Rightarrow> id \<Rightarrow> reservation_status \<Rightarrow> pay_db \<Rightarrow> pay_db" where
  "set_order_reservations tenant orderId st d =
     d\<lparr>shop := (shop d)\<lparr>reservations := update_where
        (\<lambda>x. rv_order x = Some orderId \<and> rv_tenant x = tenant) (\<lambda>x. x\<lparr>rv_status := st\<rparr>) (reservations (shop d))\<rparr>\<rparr>"

definition refund_id_ok :: "refund_reply \<Rightarrow> bool" where
  "refund_id_ok r \<longleftrightarrow> truthy (rr_id r) \<and> starts_with ''rfnd_'' (the (rr_id r))"

definition late_refund :: "pay_env \<Rightarrow> payment_order \<Rightarrow> string \<Rightarrow> id \<Rightarrow> int \<Rightarrow> unit run" where
  "late_refund E p paymentId refundId amountMinor =
     handle
       (bnd (call (Call_refund paymentId amountMinor None)) (\<lambda>_.
        bnd (lift (pe_refund E paymentId amountMinor)) (\<lambda>reply.
        bnd (check (refund_id_ok reply) (PlainErr ''Invalid refund response from Razorpay'')) (\<lambda>_.
        bnd (exec (set_refund refundId (\<lambda>x. x\<lparr>pf_razorpayId := the (rr_id reply), pf_status := ''processed''\<rparr>))) (\<lambda>_.
        bnd (modify (set_order_reservations (po_tenant p) (po_booking p) R_refunded)) (\<lambda>_.
        exec (updatePaymentOrderStatus (po_tenant p) (po_id p) P_refunded)))))))
       (\<lambda>e. bnd (exec (set_refund refundId (\<lambda>x. x\<lparr>pf_status := ''failed'',
                pf_reason := Some (''Auto-refund api failed: '' @ error_message e)\<rparr>))) (\<lambda>_.
            modify (set_order_reservations (po_tenant p) (po_booking p) R_failed)))"

definition confirmPaymentAndOrder :: "pay_env \<Rightarrow> confirm_input \<Rightarrow> unit run" where
  "confirmPaymentAndOrder E i =
     bnd (need (findPaymentOrderByRazorpayOrderId (cf_razorpayOrderId i)) (notFound ''Payment order not found'')) (\<lambda>p.
     bnd (ask (findPaymentTransactionByRazorpayPaymentId (cf_razorpayPaymentId i))) (\<lambda>existing.
     if map_option pt_status existing = Some ''captured'' then ret ()
     else bnd (check (cf_lockAcquired i \<or> pe_lock E (''payment:confirm:'' @ cf_razorpayPaymentId i))
                 (badRequest ''Payment verification is already in progress'')) (\<lambda>_.
          bnd (txn (confirm_txn E i p)) (\<lambda>late.
          case late of None \<Rightarrow> ret ()
          | Some (refundId, amountMinor) \<Rightarrow> late_refund E p (cf_razorpayPaymentId i) refundId amountMinor))))"

section \<open>Failed payments and the other entries\<close>

definition handlePaymentFailure :: "pay_env \<Rightarrow> string \<Rightarrow> string \<Rightarrow> unit run" where
  "handlePaymentFailure E razorpayOrderId paymentId =
     bnd (ask (findPaymentOrderByRazorpayOrderId razorpayOrderId)) (\<lambda>po. case po of None \<Rightarrow> ret () | Some p \<Rightarrow>
       txn (bnd (take_payment E p paymentId P_failed ''payment_order.failed'') (\<lambda>_.
            bnd (modify (logPaymentAudit (order_audit (Some (po_createdBy p)) p ''capture''
                   (Some (payment_text (po_status p))) (Some ''failed'')))) (\<lambda>_.
            bnd (ask (order_by_id (po_booking p))) (\<lambda>b.
            if b \<noteq> None \<and> \<not> settled_order (bo_status (the b)) then
              bnd (modify (set_order (po_booking p) (\<lambda>x. x\<lparr>bo_status := O_cancelled,
                     bo_cancellationReason := Some ''Payment failed or declined'',
                     bo_cancelledAt := Some (pe_now E), bo_updatedAt := pe_now E\<rparr>))) (\<lambda>_.
              on_shop (\<lambda>s. bindR (releaseReservationsForBookingOrder (pe_shop E)
                  \<lparr>om_tenant = po_tenant p, om_order = po_booking p, om_actor = Some (po_createdBy p),
                   om_source = Some ''payment_failed_release'', om_correlation = None\<rparr> s)
                (\<lambda>(_, s'). Inr s')))
            else ret ())))))"

text \<open>A payment as the gateway shows it.\<close>

record gateway_payment =
  gp_id :: string
  gp_orderId :: "string option"
  gp_status :: string
  gp_noteIds :: "string option"
  gp_noteIdsPlural :: "string option"
  gp_noteTokens :: "string option"
  gp_noteTokensPlural :: "string option"

definition confirm_from :: "string \<Rightarrow> gateway_payment \<Rightarrow> string \<Rightarrow> confirm_input" where
  "confirm_from razorpayOrderId g paymentId =
     \<lparr>cf_razorpayOrderId = razorpayOrderId, cf_razorpayPaymentId = paymentId, cf_reservationIds = None,
      cf_reservationTokens = None, cf_noteIds = gp_noteIds g, cf_noteIdsPlural = gp_noteIdsPlural g,
      cf_noteTokens = gp_noteTokens g, cf_noteTokensPlural = gp_noteTokensPlural g, cf_lockAcquired = False\<rparr>"

definition capturePayment :: "pay_env \<Rightarrow> id \<Rightarrow> string \<Rightarrow> js_error + gateway_payment \<Rightarrow> gateway_payment run" where
  "capturePayment E tenant paymentId response =
     bnd (lift response) (\<lambda>g.
     bnd (check (truthy (gp_orderId g)) (badRequest ''Payment does not have an associated order_id'')) (\<lambda>_.
     bnd (need (\<lambda>d. case findPaymentOrderByRazorpayOrderId (the (gp_orderId g)) d of
                 None \<Rightarrow> None | Some p \<Rightarrow> if po_tenant p = tenant then Some p else None)
            (notFound ''Associated payment order not found'')) (\<lambda>p.
     bnd (confirmPaymentAndOrder E (confirm_from (po_razorpayId p) g paymentId)) (\<lambda>_. ret g))))"

text \<open>\<open>order\<close> is the gateway's order status and \<open>recent\<close> its last hundred payments.\<close>

definition syncPaymentState ::
    "pay_env \<Rightarrow> id \<Rightarrow> id \<Rightarrow> js_error + string \<Rightarrow> js_error + gateway_payment list \<Rightarrow> payment_order option run" where
  "syncPaymentState E tenant orderId gatewayOrder recent =
     bnd (need (findPaymentOrderById tenant orderId) (notFound ''Payment order not found'')) (\<lambda>p.
     bnd (lift (case gatewayOrder of Inr s \<Rightarrow> Inr s
            | Inl e \<Rightarrow> Inl (badRequest (''Razorpay sync failed: '' @ error_message e)))) (\<lambda>gatewayStatus.
     bnd (lift recent) (\<lambda>items.
       let mine = filter (\<lambda>g. gp_orderId g = Some (po_razorpayId p)) items;
           first = (\<lambda>s. List.find (\<lambda>g. gp_status g = s) mine)
       in bnd (if gatewayStatus = ''paid'' then
                 (case first ''captured'' of None \<Rightarrow> ret ()
                  | Some g \<Rightarrow> confirmPaymentAndOrder E (confirm_from (po_razorpayId p) g (gp_id g)))
               else case first ''authorized'' of
                 Some g \<Rightarrow>
                   bnd (lift (validatePaymentStateTransition (po_status p) P_authorized)) (\<lambda>_.
                   bnd (modify (\<lambda>d. d\<lparr>pay_orders := update_where (\<lambda>x. po_id x = orderId)
                          (\<lambda>x. x\<lparr>po_status := P_authorized\<rparr>) (pay_orders d)\<rparr>)) (\<lambda>_.
                   bnd (exec (createPaymentTransaction (pe_uuid E) (captured_txn p (gp_id g) ''authorized''))) (\<lambda>_.
                   ret ())))
               | None \<Rightarrow>
                   (case first ''failed'' of None \<Rightarrow> ret ()
                    | Some g \<Rightarrow> handlePaymentFailure E (po_razorpayId p) (gp_id g))) (\<lambda>_.
          ask (findPaymentOrderById tenant orderId)))))"

end
