(* ===== verification/PayRefund.thy ===== *)
theory PayRefund
  imports PayConfirm
begin

text \<open>
  \<open>src/modules/payments/service.ts\<close>, refunds: the refund a merchant makes, the request of a
  customer (into the customer's wallet at once, or for approval), its approval and rejection, and
  the refunds of a cancelled event. In each of them the gateway is asked before the transaction
  that records the refund begins.
\<close>

section \<open>What has been refunded\<close>

definition live_refund :: "payment_refund \<Rightarrow> bool" where
  "live_refund r \<longleftrightarrow> pf_status r \<noteq> ''failed'' \<and> pf_status r \<noteq> ''rejected''"

definition refunded_minor :: "payment_refund list \<Rightarrow> int" where
  "refunded_minor rs = sum_where live_refund (\<lambda>r. toMinorUnits (pf_amount r)) rs"

definition settled_credit :: "booking_order \<Rightarrow> pay_db \<Rightarrow> bool" where
  "settled_credit b d =
     (case organizer_of b d of None \<Rightarrow> False | Some org \<Rightarrow>
        (case List.find (\<lambda>t. wt_organizer t = org \<and> wt_refType t = ''booking_order'' \<and> wt_refId t = bo_id b)
                (wallet_txns d) of
           None \<Rightarrow> False | Some t \<Rightarrow> wt_status t = ''settled''))"

definition refund_share :: "int \<Rightarrow> int \<Rightarrow> int \<Rightarrow> int" where
  "refund_share refundAmount amount net =
     math_round (js_mul (js_div (of_int refundAmount) (of_int amount)) (of_int net))"

section \<open>The books of a refund\<close>

record refund_job =
  rj_tenant :: id
  rj_actor :: id
  rj_refundId :: id
  rj_refundAmount :: int
  rj_amount :: int
  rj_share :: int
  rj_revenue :: revenue
  rj_organizer :: "id option"
  rj_settled :: bool
  rj_currency :: string
  rj_why :: string

definition settled_refund_of :: "refund_job \<Rightarrow> id \<Rightarrow> refund_params" where
  "settled_refund_of j org =
     \<lparr>pr_tenantId = rj_tenant j, pr_refundId = rj_refundId j,
      pr_refund = \<lparr>rf_refundAmount = rj_refundAmount j, rf_organizerId = Some org, rf_isSettled = True,
        rf_platformFeeRefund = Some (prorateTax (rn_platformFee (rj_revenue j)) (rj_refundAmount j) (rj_amount j)),
        rf_taxRefund = Some (prorateTax (rn_tax (rj_revenue j)) (rj_refundAmount j) (rj_amount j)),
        rf_netOrganizerRefund = Some (rj_share j)\<rparr>,
      pr_idempotencyKey = ''refund:'' @ rj_refundId j, pr_userId = Some (rj_actor j)\<rparr>"

definition refund_params_of :: "refund_job \<Rightarrow> id \<Rightarrow> refund_params" where
  "refund_params_of j org =
     (if rj_settled j then settled_refund_of j org
      else escrow_refund_of (rj_tenant j) (rj_refundId j) (rj_refundAmount j) (rj_actor j))"

definition refund_wallet :: "pay_env \<Rightarrow> refund_job \<Rightarrow> wallet_row \<Rightarrow> unit run" where
  "refund_wallet E j wl =
     (if rj_settled j then
        bnd (exec (updateOrganizerWalletBalances (wa_id wl)
               (toDecimalString (max 0 (toMinorUnits (wa_available wl) - rj_share j)))
               (wa_pending wl) (wa_withdrawn wl))) (\<lambda>_.
        modify (createOrganizerWalletTransaction (pe_uuid E)
          (wallet_line wl ''debit'' ''settled'' (toDecimalString (rj_share j)) (rj_currency j)
             ''payment_refund'' (rj_refundId j) (''Settled revenue reversal due to '' @ rj_why j))))
      else
        bnd (exec (updateOrganizerWalletBalances (wa_id wl) (wa_available wl)
               (toDecimalString (max 0 (toMinorUnits (wa_pending wl) - rj_share j))) (wa_withdrawn wl))) (\<lambda>_.
        modify (createOrganizerWalletTransaction (pe_uuid E)
          (wallet_line wl ''debit'' ''failed'' (toDecimalString (rj_share j)) (rj_currency j)
             ''payment_refund'' (rj_refundId j) (''Pending revenue cancellation due to '' @ rj_why j)))))"

definition refund_books :: "pay_env \<Rightarrow> refund_job \<Rightarrow> unit run" where
  "refund_books E j =
     (case rj_organizer j of None \<Rightarrow> ret () | Some org \<Rightarrow>
        bnd (ask (findOrganizerWallet (rj_tenant j) org)) (\<lambda>wl.
        bnd (posting_in (\<lambda>P ext. postRefund P ext (refund_params_of j org)) (pe_post E 0)) (\<lambda>_.
        case wl of None \<Rightarrow> ret () | Some w \<Rightarrow> refund_wallet E j w)))"

section \<open>Carrying out a refund the gateway accepted\<close>

definition release_refunded :: "pay_env \<Rightarrow> id \<Rightarrow> id \<Rightarrow> id \<Rightarrow> unit run" where
  "release_refunded E tenant orderId actorId =
     on_shop (\<lambda>s. bindR (releaseReservationsForBookingOrder (pe_shop E)
         \<lparr>om_tenant = tenant, om_order = orderId, om_actor = Some actorId,
          om_source = Some ''booking-order-refund-release'', om_correlation = None\<rparr> s)
       (\<lambda>(_, s'). Inr s'))"

definition payment_status_of :: "bool \<Rightarrow> payment_state" where
  "payment_status_of full = (if full then P_refunded else P_partially_refunded)"

definition booking_status_of :: "bool \<Rightarrow> order_status" where
  "booking_status_of full = (if full then O_refunded else O_partially_refunded)"

definition refund_audit :: "refund_job \<Rightarrow> string \<Rightarrow> string \<Rightarrow> string \<Rightarrow> pay_audit" where
  "refund_audit j action before after =
     \<lparr>pa_actor = Some (rj_actor j), pa_tenant = rj_tenant j, pa_entityType = ''payment_refund'',
      pa_entityId = rj_refundId j, pa_action = action, pa_before = Some before, pa_after = Some after\<rparr>"

definition carry_out_refund ::
    "pay_env \<Rightarrow> refund_job \<Rightarrow> payment_order \<Rightarrow> bool \<Rightarrow> string \<Rightarrow> pay_audit \<Rightarrow> unit run" where
  "carry_out_refund E j p full reason audit =
     bnd (lift (validatePaymentStateTransition (po_status p) (payment_status_of full))) (\<lambda>_.
     bnd (exec (updatePaymentOrderStatus (rj_tenant j) (po_id p) (payment_status_of full))) (\<lambda>_.
     bnd (modify (logPaymentLifecycleEvent (refund_event (rj_tenant j) (Some (po_id p)) (rj_refundId j)
            ''refund.processed'' (Some (payment_text (po_status p)))
            (Some (payment_text (payment_status_of full))) (Some (rj_actor j))))) (\<lambda>_.
     bnd (modify (set_order (po_booking p) (\<lambda>b. b\<lparr>bo_status := booking_status_of full,
            bo_cancelledAt := (if full then Some (pe_now E) else None),
            bo_cancellationReason := (if full then Some (''Refund: '' @ reason) else None),
            bo_updatedAt := pe_now E, bo_updatedBy := Some (rj_actor j)\<rparr>))) (\<lambda>_.
     bnd (on_shop (applyIssuedTicketStatusForBookingOrder (pe_shop E) (rj_tenant j) (po_booking p)
            (booking_status_of full))) (\<lambda>_.
     bnd (if full then release_refunded E (rj_tenant j) (po_booking p) (rj_actor j) else ret ()) (\<lambda>_.
     bnd (refund_books E j) (\<lambda>_.
     modify (logPaymentAudit audit))))))))"

section \<open>\<open>refundPayment\<close>\<close>

definition invalid_refund_id :: "refund_reply \<Rightarrow> js_error" where
  "invalid_refund_id r = badRequest (''Invalid Razorpay Refund ID returned: '' @ (case rr_id r of None \<Rightarrow> ''undefined'' | Some i \<Rightarrow> i))"

definition too_much :: "int \<Rightarrow> string" where
  "too_much remaining = ''Refund amount exceeds remaining refundable balance. Max allowed: ''
     @ show_int (toDecimalString remaining)"

text \<open>Everything the operation reads before it asks the gateway.\<close>

record refund_view =
  fv_txn :: payment_txn
  fv_payment :: payment_order
  fv_booking :: booking_order
  fv_totalRefunded :: int
  fv_refundAmount :: int
  fv_organizerId :: "id option"
  fv_isSettled :: bool

definition view_amount :: "refund_view \<Rightarrow> int" where
  "view_amount v = toMinorUnits (pt_amount (fv_txn v))"

definition read_refund :: "id \<Rightarrow> id \<Rightarrow> rat option \<Rightarrow> refund_view run" where
  "read_refund tenant txnId amount =
     bnd (need (findPaymentTransactionById tenant txnId) (notFound ''Payment transaction not found'')) (\<lambda>x.
     bnd (check (pt_status x = ''captured'') (badRequest ''Only captured payment transactions can be refunded'')) (\<lambda>_.
     bnd (need (findPaymentOrderById tenant (pt_order x)) (notFound ''Associated payment order not found'')) (\<lambda>p.
     bnd (need (order_by_id (po_booking p)) (notFound ''Associated booking order not found'')) (\<lambda>b.
     bnd (ask (findRefundsForTransaction tenant (pt_id x))) (\<lambda>existing.
       let total = refunded_minor existing; remaining = toMinorUnits (pt_amount x) - total;
           wanted = (case amount of None \<Rightarrow> remaining | Some a \<Rightarrow> if a = 0 then remaining else toMinorUnitsNum a)
       in bnd (check (0 < remaining) (badRequest ''This transaction is already fully refunded'')) (\<lambda>_.
          bnd (check (0 < wanted) (badRequest ''Refund amount must be positive'')) (\<lambda>_.
          bnd (check (wanted \<le> remaining) (badRequest (too_much remaining))) (\<lambda>_.
          bnd (ask (organizer_of b)) (\<lambda>org.
          bnd (ask (settled_credit b)) (\<lambda>settled.
          ret \<lparr>fv_txn = x, fv_payment = p, fv_booking = b, fv_totalRefunded = total, fv_refundAmount = wanted,
               fv_organizerId = org, fv_isSettled = settled\<rparr>))))))))))"

definition refund_key :: "pay_env \<Rightarrow> id \<Rightarrow> refund_view \<Rightarrow> string" where
  "refund_key E tenant v = pe_sha256 E (tenant @ '':'' @ pt_id (fv_txn v) @ '':''
     @ show_int (fv_totalRefunded v) @ '':'' @ show_int (fv_refundAmount v))"

definition view_job :: "id \<Rightarrow> id \<Rightarrow> refund_view \<Rightarrow> id \<Rightarrow> refund_job" where
  "view_job tenant actorId v refundId =
     (let T = view_amount v; rn = revenue_of T (fv_booking v)
      in \<lparr>rj_tenant = tenant, rj_actor = actorId, rj_refundId = refundId, rj_refundAmount = fv_refundAmount v,
          rj_amount = T, rj_share = refund_share (fv_refundAmount v) T (rn_net rn), rj_revenue = rn,
          rj_organizer = fv_organizerId v, rj_settled = fv_isSettled v, rj_currency = pt_currency (fv_txn v),
          rj_why = ''refund of booking '' @ bo_number (fv_booking v)\<rparr>)"

definition concurrency_failed :: "int \<Rightarrow> js_error" where
  "concurrency_failed remaining = conflict (''Concurrency check failed: '' @ too_much remaining)"

definition record_refund ::
    "pay_env \<Rightarrow> id \<Rightarrow> id \<Rightarrow> string option \<Rightarrow> refund_view \<Rightarrow> refund_reply \<Rightarrow> payment_refund run" where
  "record_refund E tenant actorId reason v reply =
     bnd (need (findPaymentTransactionById tenant (pt_id (fv_txn v)))
            (notFound ''Payment transaction not found inside transaction'')) (\<lambda>_.
     bnd (need (findPaymentOrderById tenant (po_id (fv_payment v)))
            (notFound ''Associated payment order not found inside transaction'')) (\<lambda>lockOrder.
     bnd (ask (findRefundsForTransaction tenant (pt_id (fv_txn v)))) (\<lambda>lockRefunds.
       let lockRemaining = view_amount v - refunded_minor lockRefunds;
           status = (if rr_failed reply then ''failed'' else ''processed'');
           full = (fv_totalRefunded v + fv_refundAmount v = view_amount v)
       in bnd (check (fv_refundAmount v \<le> lockRemaining) (concurrency_failed lockRemaining)) (\<lambda>_.
          bnd (exec (createPaymentRefund (pe_uuid E) (new_refund tenant (pt_id (fv_txn v)) (the (rr_id reply))
                 (toDecimalString (fv_refundAmount v)) status (if truthy reason then reason else None)))) (\<lambda>r.
          bnd (if rr_failed reply then ret ()
               else let j = view_job tenant actorId v (pf_id r)
                    in carry_out_refund E j lockOrder full (if truthy reason then the reason else ''Merchant initiated'')
                         (refund_audit j ''refund'' (payment_text (po_status lockOrder))
                            (payment_text (payment_status_of full)))) (\<lambda>_.
          ret r))))))"

definition refundPaymentLocked ::
    "pay_env \<Rightarrow> id \<Rightarrow> id \<Rightarrow> id \<Rightarrow> rat option \<Rightarrow> string option \<Rightarrow> payment_refund run" where
  "refundPaymentLocked E tenant actorId txnId amount reason =
     bnd (read_refund tenant txnId amount) (\<lambda>v.
     bnd (call (Call_refund (pt_razorpayId (fv_txn v)) (fv_refundAmount v) (Some (refund_key E tenant v)))) (\<lambda>_.
     bnd (lift (pe_refund E (pt_razorpayId (fv_txn v)) (fv_refundAmount v))) (\<lambda>reply.
     bnd (check (refund_id_ok reply) (invalid_refund_id reply)) (\<lambda>_.
     txn (record_refund E tenant actorId reason v reply)))))"

definition refundPayment ::
    "pay_env \<Rightarrow> id \<Rightarrow> id \<Rightarrow> id \<Rightarrow> rat option \<Rightarrow> string option \<Rightarrow> payment_refund run" where
  "refundPayment E tenant actorId txnId amount reason =
     bnd (check (pe_lock E (''refund:tx:'' @ txnId))
            (conflict ''A refund for this transaction is already in progress'')) (\<lambda>_.
     refundPaymentLocked E tenant actorId txnId amount reason)"

section \<open>Approval and rejection\<close>

definition already_decided :: "payment_refund \<Rightarrow> js_error" where
  "already_decided r = badRequest (''Refund request has already been '' @ pf_approval r)"

definition decided_meanwhile :: js_error where
  "decided_meanwhile = conflict ''Concurrency check failed: Refund has already been processed or approved''"

definition find_refund :: "id \<Rightarrow> id \<Rightarrow> pay_db \<Rightarrow> payment_refund option" where
  "find_refund tenant i d = List.find (\<lambda>r. pf_id r = i \<and> pf_tenant r = tenant) (pay_refunds d)"

definition read_approval :: "id \<Rightarrow> id \<Rightarrow> (payment_refund \<times> refund_view) run" where
  "read_approval tenant refundId =
     bnd (need (find_refund tenant refundId) (notFound ''Refund request not found'')) (\<lambda>r.
     bnd (check (pf_approval r = ''pending'') (already_decided r)) (\<lambda>_.
     bnd (need (findPaymentTransactionById tenant (pf_txn r)) (notFound ''Associated payment transaction not found'')) (\<lambda>x.
     bnd (need (findPaymentOrderById tenant (pt_order x)) (notFound ''Associated payment order not found'')) (\<lambda>p.
     bnd (need (order_by_id (po_booking p)) (notFound ''Associated booking order not found'')) (\<lambda>b.
     bnd (ask (organizer_of b)) (\<lambda>org.
     bnd (ask (settled_credit b)) (\<lambda>settled.
     ret (r, \<lparr>fv_txn = x, fv_payment = p, fv_booking = b, fv_totalRefunded = 0,
              fv_refundAmount = toMinorUnits (pf_amount r), fv_organizerId = org, fv_isSettled = settled\<rparr>))))))))"

definition record_approval ::
    "pay_env \<Rightarrow> id \<Rightarrow> id \<Rightarrow> payment_refund \<Rightarrow> refund_view \<Rightarrow> refund_reply \<Rightarrow> payment_refund run" where
  "record_approval E tenant actorId refund v reply =
     bnd (need (find_refund tenant (pf_id refund)) (notFound ''Refund request not found inside transaction'')) (\<lambda>lockRefund.
     bnd (check (pf_approval lockRefund = ''pending'') decided_meanwhile) (\<lambda>_.
     bnd (need (findPaymentTransactionById tenant (pt_id (fv_txn v)))
            (notFound ''Payment transaction not found inside transaction'')) (\<lambda>_.
     bnd (need (findPaymentOrderById tenant (po_id (fv_payment v)))
            (notFound ''Associated payment order not found inside transaction'')) (\<lambda>lockOrder.
     bnd (ask (\<lambda>d. filter (\<lambda>x. pf_id x \<noteq> pf_id refund) (findRefundsForTransaction tenant (pt_id (fv_txn v)) d))) (\<lambda>others.
       let lockTotal = refunded_minor others; lockRemaining = view_amount v - lockTotal;
           status = (if rr_failed reply then ''failed'' else ''processed'');
           full = (lockTotal + fv_refundAmount v = view_amount v);
           f = (\<lambda>x. x\<lparr>pf_razorpayId := the (rr_id reply), pf_status := status,
                  pf_approval := (if rr_failed reply then ''failed'' else ''approved'')\<rparr>)
       in bnd (check (fv_refundAmount v \<le> lockRemaining) (concurrency_failed lockRemaining)) (\<lambda>_.
          bnd (exec (set_refund (pf_id refund) f)) (\<lambda>_.
          bnd (if rr_failed reply then ret ()
               else let j = view_job tenant actorId v (pf_id refund)
                    in carry_out_refund E j lockOrder full
                         (if truthy (pf_reason refund) then the (pf_reason refund) else ''Admin approved'')
                         (refund_audit j ''refund_approved'' (pf_status lockRefund) status)) (\<lambda>_.
          ret (f lockRefund)))))))))"

definition approveRefundAdmin :: "pay_env \<Rightarrow> id \<Rightarrow> id \<Rightarrow> id \<Rightarrow> payment_refund run" where
  "approveRefundAdmin E tenant refundId actorId =
     bnd (read_approval tenant refundId) (\<lambda>(refund, v).
     bnd (call (Call_refund (pt_razorpayId (fv_txn v)) (fv_refundAmount v) None)) (\<lambda>_.
     bnd (lift (pe_refund E (pt_razorpayId (fv_txn v)) (fv_refundAmount v))) (\<lambda>reply.
     bnd (check (refund_id_ok reply) (invalid_refund_id reply)) (\<lambda>_.
     txn (record_approval E tenant actorId refund v reply)))))"

definition rejectRefundAdmin :: "id \<Rightarrow> id \<Rightarrow> id \<Rightarrow> string option \<Rightarrow> payment_refund run" where
  "rejectRefundAdmin tenant refundId actorId why =
     bnd (need (find_refund tenant refundId) (notFound ''Refund request not found'')) (\<lambda>refund.
     bnd (check (pf_approval refund = ''pending'') (already_decided refund)) (\<lambda>_.
     txn (
       let f = (\<lambda>x. x\<lparr>pf_status := ''rejected'', pf_approval := ''rejected'',
              pf_rejection := Some (if truthy why then the why else ''Rejected by administrator'')\<rparr>)
       in bnd (need (find_refund tenant refundId) (notFound ''Refund request not found inside transaction'')) (\<lambda>lockRefund.
          bnd (check (pf_approval lockRefund = ''pending'') decided_meanwhile) (\<lambda>_.
          bnd (exec (set_refund refundId f)) (\<lambda>_.
          bnd (ask (findPaymentTransactionById tenant (pf_txn refund))) (\<lambda>x.
          bnd (modify (logPaymentLifecycleEvent (refund_event tenant (map_option pt_order x) refundId
                 ''refund.rejected'' (Some (pf_status refund)) (Some ''rejected'') (Some actorId)))) (\<lambda>_.
          bnd (modify (logPaymentAudit \<lparr>pa_actor = Some actorId, pa_tenant = tenant,
                 pa_entityType = ''payment_refund'', pa_entityId = refundId, pa_action = ''refund_rejected'',
                 pa_before = Some (pf_status refund), pa_after = Some ''rejected''\<rparr>)) (\<lambda>_.
          ret (f lockRefund))))))))))"

section \<open>A customer's request\<close>

definition refundable_items :: "id \<Rightarrow> pay_db \<Rightarrow> unit res" where
  "refundable_items orderId d =
     forR (\<lambda>i _. guardR
         (case List.find (\<lambda>t. tt_id t = oi_ticketType i) (ticket_types (shop d)) of
            None \<Rightarrow> False | Some t \<Rightarrow> tt_isRefundable t)
         (badRequest (''Ticket type '' @ oi_name i @ '' is not refundable'')))
       (filter (\<lambda>i. oi_order i = orderId) (order_items (shop d))) ()"

definition read_request :: "pay_env \<Rightarrow> id \<Rightarrow> id \<Rightarrow> id \<Rightarrow> refund_view run" where
  "read_request E tenant orderId actorId =
     bnd (need (\<lambda>d. List.find (\<lambda>b. bo_id b = orderId \<and> bo_tenant b = tenant) (orders (shop d)))
            (notFound ''Booking order not found'')) (\<lambda>b.
     bnd (check (bo_purchaser b = actorId) (forbidden ''You are not authorized to refund this booking order'')) (\<lambda>_.
     bnd (check (bo_status b = O_paid \<or> bo_status b = O_confirmed)
            (badRequest (''Cannot refund booking order with status '' @ order_text (bo_status b)))) (\<lambda>_.
     bnd (need (event_by_id (bo_event b)) (notFound ''Event not found'')) (\<lambda>e.
     bnd (check (\<not> List.member [''cancelled'', ''archived'', ''completed''] (ev_status e))
            (badRequest (''Cannot refund booking for event with status '' @ ev_status e))) (\<lambda>_.
     bnd (check (pe_now E < ev_startDateTime e)
            (badRequest ''Cannot request refund after the event has started'')) (\<lambda>_.
     bnd (bnd (ask (refundable_items orderId)) lift) (\<lambda>_.
     bnd (need (\<lambda>d. List.find (\<lambda>p. po_booking p = orderId \<and> po_tenant p = tenant) (pay_orders d))
            (notFound ''Payment order not found'')) (\<lambda>p.
     bnd (need (\<lambda>d. List.find (\<lambda>x. pt_order x = po_id p \<and> pt_status x = ''captured'') (pay_txns d))
            (badRequest ''No captured payment transaction found for this booking'')) (\<lambda>x.
     bnd (ask (organizer_of b)) (\<lambda>org.
     bnd (ask (settled_credit b)) (\<lambda>settled.
     bnd (ask (\<lambda>d. case org of None \<Rightarrow> None | Some g \<Rightarrow> findOrganizerWallet tenant g d)) (\<lambda>wl.
     bnd (check (settled \<longrightarrow> wl \<noteq> None \<and> js_div (of_int (rn_net (revenue_of (toMinorUnits (pt_amount x)) b))) 100
                   \<le> parse_dec (wa_available (the wl)))
            (badRequest ''Refund cannot be processed: insufficient organizer available balance'')) (\<lambda>_.
     ret \<lparr>fv_txn = x, fv_payment = p, fv_booking = b, fv_totalRefunded = 0,
          fv_refundAmount = toMinorUnits (bo_total b), fv_organizerId = org, fv_isSettled = settled\<rparr>)))))))))))))"

text \<open>The row of the request, under the lock of the transaction.\<close>

definition request_row ::
    "pay_env \<Rightarrow> id \<Rightarrow> refund_view \<Rightarrow> string \<Rightarrow> string \<Rightarrow> string \<Rightarrow> string \<Rightarrow> payment_refund run" where
  "request_row E tenant v ridPrefix status approval reason =
     bnd (need (findPaymentTransactionById tenant (pt_id (fv_txn v)))
            (notFound ''Payment transaction not found inside transaction'')) (\<lambda>_.
     bnd (ask (findRefundsForTransaction tenant (pt_id (fv_txn v)))) (\<lambda>lockRefunds.
       let lockRemaining = view_amount v - refunded_minor lockRefunds
       in bnd (check (fv_refundAmount v \<le> lockRemaining) (badRequest (too_much lockRemaining))) (\<lambda>_.
          bnd (ask (\<lambda>d. be_random (pe_shop E) (pay_next d))) (\<lambda>rnd.
          bnd (exec (createPaymentRefund (pe_uuid E) (new_refund tenant (pt_id (fv_txn v)) (ridPrefix @ rnd)
                 (toDecimalString (fv_refundAmount v)) status (Some reason)))) (\<lambda>r.
          bnd (exec (set_refund (pf_id r) (\<lambda>x. x\<lparr>pf_approval := approval\<rparr>))) (\<lambda>_.
          ret (r\<lparr>pf_approval := approval\<rparr>)))))))"

definition credit_user :: "pay_env \<Rightarrow> id \<Rightarrow> refund_view \<Rightarrow> id \<Rightarrow> unit run" where
  "credit_user E userId v refundId =
     bnd (ask (\<lambda>d. List.find (\<lambda>u. uw_user u = userId) (user_wallets d))) (\<lambda>found.
     bnd (case found of Some u \<Rightarrow> ret u
          | None \<Rightarrow> exec (\<lambda>d. let u = \<lparr>uw_id = pe_uuid E (pay_next d), uw_user = userId, uw_balance = 0\<rparr>
                            in Inr (u, d\<lparr>user_wallets := user_wallets d @ [u], pay_next := Suc (pay_next d)\<rparr>))) (\<lambda>u.
     bnd (modify (\<lambda>d. d\<lparr>user_wallets := update_where (\<lambda>y. uw_id y = uw_id u)
            (\<lambda>y. y\<lparr>uw_balance := to_fixed2 (js_add (parse_dec (uw_balance u)) (parse_dec (bo_total (fv_booking v))))\<rparr>)
            (user_wallets d)\<rparr>)) (\<lambda>_.
     modify (\<lambda>d. d\<lparr>user_wallet_txns := user_wallet_txns d @
       [\<lparr>ux_user = userId, ux_wallet = uw_id u, ux_type = ''credit'', ux_amount = bo_total (fv_booking v),
         ux_description = ''Instant coins refund for booking order '' @ bo_number (fv_booking v),
         ux_refType = ''refund'', ux_refId = refundId\<rparr>]\<rparr>))))"

definition wallet_refund :: "pay_env \<Rightarrow> id \<Rightarrow> id \<Rightarrow> string option \<Rightarrow> refund_view \<Rightarrow> payment_refund run" where
  "wallet_refund E tenant actorId reason v =
     bnd (request_row E tenant v ''req_instant_'' ''processed'' ''approved''
            (if truthy reason then the reason else ''Instant wallet refund request'')) (\<lambda>r.
       let p = fv_payment v; orderId = bo_id (fv_booking v);
           rn = revenue_of (view_amount v) (fv_booking v);
           j = (view_job tenant actorId v (pf_id r))\<lparr>rj_share := rn_net rn,
                  rj_why := ''instant coins refund of booking '' @ bo_number (fv_booking v)\<rparr>
       in bnd (modify (logPaymentLifecycleEvent (refund_event tenant (Some (po_id p)) (pf_id r) ''refund.processed''
                 (Some (payment_text (po_status p))) (Some ''refunded'') (Some actorId)))) (\<lambda>_.
          bnd (modify (set_order orderId (\<lambda>b. b\<lparr>bo_status := O_refunded, bo_cancelledAt := Some (pe_now E),
                 bo_cancellationReason := Some (''Instant Coins Refund: ''
                    @ (if truthy reason then the reason else ''User requested'')),
                 bo_updatedAt := pe_now E, bo_updatedBy := Some actorId\<rparr>))) (\<lambda>_.
          bnd (on_shop (applyIssuedTicketStatusForBookingOrder (pe_shop E) tenant orderId O_refunded)) (\<lambda>_.
          bnd (release_refunded E tenant orderId actorId) (\<lambda>_.
          bnd (refund_books E j) (\<lambda>_.
          bnd (credit_user E actorId v (pf_id r)) (\<lambda>_.
          bnd (modify (logPaymentAudit (refund_audit j ''instant_refund_processed'' ''captured'' ''processed''))) (\<lambda>_.
          ret r))))))))"

definition requestCustomerRefund ::
    "pay_env \<Rightarrow> id \<Rightarrow> id \<Rightarrow> id \<Rightarrow> string option \<Rightarrow> bool \<Rightarrow> payment_refund run" where
  "requestCustomerRefund E tenant orderId actorId reason toWallet =
     bnd (read_request E tenant orderId actorId) (\<lambda>v.
     if toWallet then txn (wallet_refund E tenant actorId reason v)
     else txn (
       bnd (request_row E tenant v ''req_'' ''requested'' ''pending''
              (if truthy reason then the reason else ''Customer refund request'')) (\<lambda>r.
       bnd (modify (logPaymentLifecycleEvent (refund_event tenant (Some (po_id (fv_payment v))) (pf_id r)
              ''refund.requested'' (Some (payment_text (po_status (fv_payment v)))) (Some ''requested'')
              (Some actorId)))) (\<lambda>_.
       ret r))))"

section \<open>A cancelled event\<close>

definition paid_bookings :: "id \<Rightarrow> id \<Rightarrow> pay_db \<Rightarrow> (id \<times> int \<times> id) list" where
  "paid_bookings tenant eventId d =
     concat (map (\<lambda>b. concat (map (\<lambda>p.
         List.map_filter (\<lambda>x. if pt_order x = po_id p \<and> pt_status x = ''captured''
                              then Some (bo_id b, bo_total b, pt_id x) else None) (pay_txns d))
       (filter (\<lambda>p. po_booking p = bo_id b) (pay_orders d))))
     (filter (\<lambda>b. bo_event b = eventId \<and> bo_tenant b = tenant
        \<and> \<not> List.member [O_cancelled, O_expired, O_refunded] (bo_status b)) (orders (shop d))))"

fun refund_bookings ::
    "(nat \<Rightarrow> pay_env) \<Rightarrow> id \<Rightarrow> id \<Rightarrow> nat \<Rightarrow> (id \<times> int \<times> id) list \<Rightarrow> (id \<times> id res) list run" where
  "refund_bookings E tenant actorId k [] = ret []"
| "refund_bookings E tenant actorId k ((bookingId, paid, txnId) # rest) =
     bnd (handle (bnd (refundPayment (E k) tenant actorId txnId (Some (parse_dec paid))
                         (Some ''Event cancelled by organizer'')) (\<lambda>r. ret (bookingId, Inr (pf_id r))))
            (\<lambda>e. ret (bookingId, Inl e))) (\<lambda>x.
     bnd (refund_bookings E tenant actorId (Suc k) rest) (\<lambda>xs. ret (x # xs)))"

definition processEventCancellation ::
    "(nat \<Rightarrow> pay_env) \<Rightarrow> id \<Rightarrow> id \<Rightarrow> id \<Rightarrow> (id \<times> id res) list run" where
  "processEventCancellation E tenant eventId actorId =
     bnd (need (\<lambda>d. List.find (\<lambda>e. ev_id e = eventId \<and> ev_tenant e = tenant) (events (shop d)))
            (notFound ''Event not found'')) (\<lambda>e.
     bnd (check (ev_status e \<noteq> ''cancelled'') (badRequest ''Event is already cancelled'')) (\<lambda>_.
     bnd (ask (paid_bookings tenant eventId)) (\<lambda>bookings.
     bnd (modify (\<lambda>d. d\<lparr>shop := (shop d)\<lparr>events := update_where (\<lambda>e. ev_id e = eventId)
            (\<lambda>e. e\<lparr>ev_status := ''cancelled''\<rparr>) (events (shop d))\<rparr>\<rparr>)) (\<lambda>_.
     refund_bookings E tenant actorId 0 bookings))))"

end
