(* ===== verification/PaySettle.thy ===== *)
theory PaySettle
  imports PayRefund
begin

text \<open>
  \<open>src/modules/payments/service.ts\<close>, the organizer's money: settlement runs, which move the
  pending revenue of finished events into the available balance, and withdrawals, from the request
  to the payout and its callback. Notifications and uploaded proofs are left out.
\<close>

section \<open>Settlement runs\<close>

definition pending_credits :: "id \<Rightarrow> pay_db \<Rightarrow> wallet_txn list" where
  "pending_credits tenant d =
     filter (\<lambda>t. wt_tenant t = tenant \<and> wt_type t = ''credit'' \<and> wt_status t = ''pending''
       \<and> wt_refType t = ''booking_order'') (wallet_txns d)"

definition settlementDelayMs :: int where "settlementDelayMs = 3 * 24 * 60 * 60 * 1000"

definition settles :: "time_ms \<Rightarrow> event_row \<Rightarrow> bool" where
  "settles now e \<longleftrightarrow> ev_status e = ''completed'' \<or> ev_endDateTime e + settlementDelayMs \<le> now"

definition credit_problem :: "wallet_txn \<Rightarrow> pay_db \<Rightarrow> string option" where
  "credit_problem t d =
     (case order_by_id (wt_refId t) d of
        None \<Rightarrow> Some ''Booking order not found''
      | Some b \<Rightarrow> if event_by_id (bo_event b) d = None then Some ''Associated event not found'' else None)"

definition credit_due :: "time_ms \<Rightarrow> wallet_txn \<Rightarrow> pay_db \<Rightarrow> bool" where
  "credit_due now t d =
     (case order_by_id (wt_refId t) d of
        None \<Rightarrow> False
      | Some b \<Rightarrow> (case event_by_id (bo_event b) d of None \<Rightarrow> False | Some e \<Rightarrow> settles now e))"

definition settlement_lock :: "pay_env \<Rightarrow> id \<Rightarrow> unit run" where
  "settlement_lock E tenant = check (pe_lock E (''settlement:lock:'' @ tenant))
     (conflict ''A settlement run is already in progress'')"

definition problems :: "wallet_txn list \<Rightarrow> pay_db \<Rightarrow> (id \<times> string) list" where
  "problems ts d = List.map_filter (\<lambda>t. map_option (Pair (wt_id t)) (credit_problem t d)) ts"

definition generateSettlementRun :: "pay_env \<Rightarrow> id \<Rightarrow> settlement_run run" where
  "generateSettlementRun E tenant =
     bnd (settlement_lock E tenant) (\<lambda>_.
     bnd (ask (\<lambda>d. let ts = pending_credits tenant d
                  in (sum_where (\<lambda>t. credit_due (pe_now E) t d) (\<lambda>t. toMinorUnits (wt_amount t)) ts,
                      problems ts d))) (\<lambda>(totalSettled, discrepancies).
     exec (\<lambda>d. Inr (createSettlementRun (pe_uuid E)
       \<lparr>ru_id = [], ru_tenant = tenant, ru_amount = toDecimalString totalSettled,
        ru_status = ''pending_approval'', ru_discrepancies = discrepancies, ru_approvedBy = None,
        ru_approvedAt = None, ru_processedAt = None\<rparr> d))))"

definition settlement_of :: "id \<Rightarrow> wallet_txn \<Rightarrow> booking_order \<Rightarrow> settlement_params" where
  "settlement_of tenant t b =
     (let platformFeeMinor = calculatePlatformFee (toMinorUnits (bo_subtotal b));
          taxMinor = x_totalTax (calculateGstOnAmount platformFeeMinor (bo_currency b))
      in \<lparr>ps_tenantId = tenant, ps_settlementRunId = wt_id t,
          ps_split = \<lparr>s_grossAmount = toMinorUnits (bo_total b), s_platformFee = platformFeeMinor,
            s_tax = taxMinor, s_netOrganizerShare = toMinorUnits (wt_amount t),
            s_organizerId = wt_organizer t\<rparr>,
          ps_idempotencyKey = ''settlement:'' @ wt_id t, ps_userId = None\<rparr>)"

text \<open>One pending credit: the result is what it added to the run's total.\<close>

definition settle_credit :: "pay_env \<Rightarrow> id \<Rightarrow> post_env \<Rightarrow> wallet_txn \<Rightarrow> booking_order \<Rightarrow> int run" where
  "settle_credit E tenant P t b =
     txn (
       bnd (need (findOrganizerWallet tenant (wt_organizer t))
              (PlainErr (''Organizer wallet not found: '' @ wt_organizer t))) (\<lambda>wl.
       let net = toMinorUnits (wt_amount t)
       in bnd (posting_in (\<lambda>P ext. postSettlement P ext (settlement_of tenant t b)) P) (\<lambda>_.
          bnd (exec (updateOrganizerWalletBalances (wa_id wl) (toDecimalString (toMinorUnits (wa_available wl) + net))
                 (toDecimalString (max 0 (toMinorUnits (wa_pending wl) - net))) (wa_withdrawn wl))) (\<lambda>_.
          bnd (modify (\<lambda>d. d\<lparr>wallet_txns := update_where (\<lambda>x. wt_id x = wt_id t)
                 (\<lambda>x. x\<lparr>wt_status := ''settled''\<rparr>) (wallet_txns d)\<rparr>)) (\<lambda>_.
          ret net)))))"

fun settle_credits ::
    "pay_env \<Rightarrow> id \<Rightarrow> nat \<Rightarrow> wallet_txn list \<Rightarrow> (int \<times> (id \<times> string) list) run" where
  "settle_credits E tenant k [] = ret (0, [])"
| "settle_credits E tenant k (t # ts) =
     bnd (bnd (ask (\<lambda>d. (credit_problem t d, credit_due (pe_now E) t d, order_by_id (wt_refId t) d)))
            (\<lambda>(prob, due, b). case prob of
               Some m \<Rightarrow> ret (0, [(wt_id t, m)])
             | None \<Rightarrow> if due then
                 handle (bnd (settle_credit E tenant (pe_post E k) t (the b)) (\<lambda>n. ret (n, [])))
                        (\<lambda>e. ret (0, [(wt_id t, error_message e)]))
               else ret (0, []))) (\<lambda>(n, ps).
     bnd (settle_credits E tenant (Suc k) ts) (\<lambda>(m, qs). ret (n + m, ps @ qs)))"

definition set_run :: "id \<Rightarrow> (settlement_run \<Rightarrow> settlement_run) \<Rightarrow> pay_db \<Rightarrow> pay_db" where
  "set_run i f d = d\<lparr>runs := update_where (\<lambda>r. ru_id r = i) f (runs d)\<rparr>"

definition find_run :: "id \<Rightarrow> id \<Rightarrow> pay_db \<Rightarrow> settlement_run option" where
  "find_run tenant i d = List.find (\<lambda>r. ru_id r = i \<and> ru_tenant r = tenant) (runs d)"

text \<open>The columns \<open>approved_by\<close> and \<open>user_id\<close> are of type \<open>uuid\<close>.\<close>

definition bad_uuid :: "string \<Rightarrow> js_error" where
  "bad_uuid s = DbErr ''22P02'' (''invalid input syntax for type uuid: '' @ s)"

definition approveSettlementRun :: "pay_env \<Rightarrow> id \<Rightarrow> id \<Rightarrow> string \<Rightarrow> settlement_run option run" where
  "approveSettlementRun E tenant runId approvedBy =
     bnd (settlement_lock E tenant) (\<lambda>_.
     bnd (need (find_run tenant runId) (notFound ''Settlement run not found'')) (\<lambda>r.
     bnd (check (ru_status r = ''pending_approval'' \<or> ru_status r = ''scheduled'')
            (badRequest (''Cannot approve settlement run with status '' @ ru_status r))) (\<lambda>_.
     bnd (modify (set_run (ru_id r) (\<lambda>x. x\<lparr>ru_status := ''processing''\<rparr>))) (\<lambda>_.
     bnd (ask (pending_credits tenant)) (\<lambda>ts.
     bnd (settle_credits E tenant 0 ts) (\<lambda>(totalSettled, discrepancies).
     bnd (check (pe_isUuid E approvedBy) (bad_uuid approvedBy)) (\<lambda>_.
     bnd (modify (set_run (ru_id r) (\<lambda>x. x\<lparr>
            ru_status := (if discrepancies \<noteq> [] then ''discrepancies_found'' else ''completed''),
            ru_approvedBy := Some approvedBy, ru_approvedAt := Some (pe_now E),
            ru_processedAt := Some (pe_now E), ru_amount := toDecimalString totalSettled,
            ru_discrepancies := discrepancies\<rparr>))) (\<lambda>_.
     ask (\<lambda>d. List.find (\<lambda>x. ru_id x = ru_id r) (runs d))))))))))"

definition processSettlements :: "pay_env \<Rightarrow> id \<Rightarrow> settlement_run option run" where
  "processSettlements E tenant =
     bnd (generateSettlementRun E tenant) (\<lambda>r. approveSettlementRun E tenant (ru_id r) ''system'')"

definition rejectSettlementRun :: "pay_env \<Rightarrow> id \<Rightarrow> id \<Rightarrow> id \<Rightarrow> settlement_run option run" where
  "rejectSettlementRun E tenant runId actorId =
     bnd (need (find_run tenant runId) (notFound ''Settlement run not found'')) (\<lambda>r.
     bnd (check (ru_status r = ''pending_approval'')
            (badRequest (''Cannot reject settlement run with status '' @ ru_status r))) (\<lambda>_.
     bnd (check (pe_isUuid E actorId) (bad_uuid actorId)) (\<lambda>_.
     bnd (modify (set_run runId (\<lambda>x. x\<lparr>ru_status := ''rejected'', ru_approvedBy := Some actorId,
            ru_approvedAt := Some (pe_now E)\<rparr>))) (\<lambda>_.
     ask (\<lambda>d. List.find (\<lambda>x. ru_id x = runId) (runs d))))))"

section \<open>Asking for a withdrawal\<close>

definition withdrawn_today :: "pay_env \<Rightarrow> id \<Rightarrow> id \<Rightarrow> pay_db \<Rightarrow> rat" where
  "withdrawn_today E tenant org d =
     foldl (\<lambda>s w. js_add s (parse_dec (wd_amount w))) 0
       (filter (\<lambda>w. wd_organizer w = org \<and> wd_tenant w = tenant \<and> pe_startOfDay E \<le> wd_requestedAt w)
         (withdrawals d))"

definition requestWithdrawal :: "pay_env \<Rightarrow> id \<Rightarrow> id \<Rightarrow> rat \<Rightarrow> withdrawal run" where
  "requestWithdrawal E tenant org amount =
     bnd (check (0 < amount) (badRequest ''Withdrawal amount must be greater than zero'')) (\<lambda>_.
     bnd (check (10 \<le> amount) (badRequest ''Minimum withdrawal amount is 10.00 INR'')) (\<lambda>_.
     txn (
       bnd (need (findOrganizerWallet tenant org) (notFound ''Organizer wallet not found'')) (\<lambda>wl.
       let available = parse_dec (wa_available wl)
       in bnd (check (amount \<le> available) (badRequest ''Insufficient available balance for withdrawal'')) (\<lambda>_.
          bnd (need (\<lambda>d. List.find (\<lambda>g. og_id g = org \<and> og_tenant g = tenant) (organizers d))
                 (notFound ''Organizer profile not found'')) (\<lambda>g.
          bnd (check (og_verification g = ''verified'')
                 (forbidden ''Withdrawals are only allowed for verified organizers (KYC verified)'')) (\<lambda>_.
          bnd (ask (withdrawn_today E tenant org)) (\<lambda>today.
          bnd (check (js_add today amount \<le> 50000)
                 (badRequest ''Withdrawal exceeds maximum daily limit of 50000.00 INR'')) (\<lambda>_.
          bnd (exec (\<lambda>d. Inr (createWithdrawalRequest (pe_uuid E)
                 \<lparr>wd_id = [], wd_tenant = tenant, wd_organizer = org, wd_amount = to_fixed2 amount,
                  wd_status = ''pending'', wd_requestedAt = pe_now E, wd_processedAt = None,
                  wd_processedBy = None, wd_payoutId = None, wd_gatewayStatus = None, wd_error = None\<rparr> d))) (\<lambda>r.
          bnd (exec (updateOrganizerWalletBalances (wa_id wl) (to_fixed2 (js_sub available amount))
                 (to_fixed2 (js_add (parse_dec (wa_pending wl)) amount)) (wa_withdrawn wl))) (\<lambda>_.
          bnd (modify (createOrganizerWalletTransaction (pe_uuid E)
                 (wallet_line wl ''debit'' ''pending_withdrawal'' (to_fixed2 amount) ''INR''
                    ''withdrawal_request'' (wd_id r)
                    (''Withdrawal request '' @ wd_id r @ '' pending approval'')))) (\<lambda>_.
          ret r))))))))))))"

section \<open>Paying it out\<close>

text \<open>The payout provider: nothing is paid in production unless mock payouts are allowed.\<close>

definition createPayout :: "pay_env \<Rightarrow> id \<Rightarrow> int \<Rightarrow> string run" where
  "createPayout E requestId amountMinor =
     bnd (call (Call_payout requestId amountMinor)) (\<lambda>_.
     lift (if pe_mockPayouts E then Inr (''pout_'' @ show_int (pe_now E))
           else Inl (PlainErr ''Payout provider failed: No production payout provider configured. Use the manual settlements flow or set ALLOW_MOCK_PAYOUTS.'')))"

datatype withdrawal_decision = W_approved | W_completed | W_failed | W_rejected

fun decision_text :: "withdrawal_decision \<Rightarrow> string" where
  "decision_text W_approved = ''approved''" | "decision_text W_completed = ''completed''"
| "decision_text W_failed = ''failed''" | "decision_text W_rejected = ''rejected''"

definition find_withdrawal :: "id \<Rightarrow> id \<Rightarrow> pay_db \<Rightarrow> withdrawal option" where
  "find_withdrawal tenant i d = List.find (\<lambda>w. wd_id w = i \<and> wd_tenant w = tenant) (withdrawals d)"

definition set_withdrawal :: "id \<Rightarrow> (withdrawal \<Rightarrow> withdrawal) \<Rightarrow> pay_db \<Rightarrow> pay_db" where
  "set_withdrawal i f d = d\<lparr>withdrawals := update_where (\<lambda>w. wd_id w = i) f (withdrawals d)\<rparr>"

definition mark_withdrawal_lines :: "id \<Rightarrow> string \<Rightarrow> pay_db \<Rightarrow> pay_db" where
  "mark_withdrawal_lines i st d =
     d\<lparr>wallet_txns := update_where (\<lambda>t. wt_refType t = ''withdrawal_request'' \<and> wt_refId t = i)
        (\<lambda>t. t\<lparr>wt_status := st\<rparr>) (wallet_txns d)\<rparr>"

definition withdrawal_posting_of :: "id \<Rightarrow> withdrawal \<Rightarrow> string \<Rightarrow> withdrawal_params" where
  "withdrawal_posting_of tenant r userId =
     \<lparr>pw_tenantId = tenant, pw_withdrawalRequestId = wd_id r, pw_organizerId = wd_organizer r,
      pw_amount = toMinorUnits (wd_amount r), pw_idempotencyKey = ''withdrawal:'' @ wd_id r,
      pw_userId = Some userId\<rparr>"

text \<open>The money of a request leaves the pending balance: paid out, or back to the available one.\<close>

definition wallet_paid :: "wallet_row \<Rightarrow> withdrawal \<Rightarrow> pay_db \<Rightarrow> (unit \<times> pay_db) res" where
  "wallet_paid wl r =
     updateOrganizerWalletBalances (wa_id wl) (wa_available wl)
       (toDecimalString (max 0 (toMinorUnits (wa_pending wl) - toMinorUnits (wd_amount r))))
       (toDecimalString (toMinorUnits (wa_withdrawn wl) + toMinorUnits (wd_amount r)))"

definition wallet_returned :: "wallet_row \<Rightarrow> withdrawal \<Rightarrow> pay_db \<Rightarrow> (unit \<times> pay_db) res" where
  "wallet_returned wl r =
     updateOrganizerWalletBalances (wa_id wl)
       (toDecimalString (toMinorUnits (wa_available wl) + toMinorUnits (wd_amount r)))
       (toDecimalString (max 0 (toMinorUnits (wa_pending wl) - toMinorUnits (wd_amount r)))) (wa_withdrawn wl)"

definition processWithdrawal ::
    "pay_env \<Rightarrow> id \<Rightarrow> id \<Rightarrow> withdrawal_decision \<Rightarrow> id \<Rightarrow> withdrawal run" where
  "processWithdrawal E tenant i decision actorId =
     txn (
       bnd (need (find_withdrawal tenant i) (notFound ''Withdrawal request not found'')) (\<lambda>r.
       bnd (check (wd_status r = ''pending'' \<or> wd_status r = ''processing'')
              (badRequest (''Cannot process withdrawal request with status '' @ wd_status r))) (\<lambda>_.
       bnd (need (findOrganizerWallet tenant (wd_organizer r)) (notFound ''Organizer wallet not found'')) (\<lambda>wl.
       case decision of
         W_approved \<Rightarrow>
           bnd (createPayout E (wd_id r) (toMinorUnits (wd_amount r))) (\<lambda>payoutId.
           bnd (exec (updateWithdrawalRequestStatus (pe_now E) tenant i ''processing'' (Some actorId))) (\<lambda>u.
           bnd (modify (set_withdrawal i (\<lambda>w. w\<lparr>wd_payoutId := Some payoutId,
                  wd_gatewayStatus := Some ''processing''\<rparr>))) (\<lambda>_.
           bnd (modify (mark_withdrawal_lines (wd_id r) ''processing_withdrawal'')) (\<lambda>_.
           ret u))))
       | W_completed \<Rightarrow>
           bnd (createPayout E (wd_id r) (toMinorUnits (wd_amount r))) (\<lambda>_.
           bnd (posting_in (\<lambda>P ext. postWithdrawal P ext (withdrawal_posting_of tenant r actorId)) (pe_post E 0)) (\<lambda>_.
           bnd (exec (wallet_paid wl r)) (\<lambda>_.
           bnd (modify (mark_withdrawal_lines (wd_id r) ''completed'')) (\<lambda>_.
           bnd (exec (updateWithdrawalRequestStatus (pe_now E) tenant i ''completed'' (Some actorId))) (\<lambda>_.
           ret r)))))
       | _ \<Rightarrow>
           bnd (exec (wallet_returned wl r)) (\<lambda>_.
           bnd (modify (mark_withdrawal_lines (wd_id r) ''failed'')) (\<lambda>_.
           bnd (exec (updateWithdrawalRequestStatus (pe_now E) tenant i (decision_text decision) (Some actorId))) (\<lambda>_.
           ret r)))))))"

text \<open>
  The callback of the payout provider; \<open>None\<close> says completed, \<open>Some message\<close> failed or
  reversed. Its posting carries the user id \<open>system\<close>, which the audit log's \<open>uuid\<close> column
  must take.
\<close>

definition handleWithdrawalCallback :: "pay_env \<Rightarrow> string \<Rightarrow> string option option \<Rightarrow> withdrawal run" where
  "handleWithdrawalCallback E payoutId outcome =
     bnd (need (\<lambda>d. List.find (\<lambda>w. wd_payoutId w = Some payoutId) (withdrawals d))
            (notFound (''Withdrawal request with gateway payout ID '' @ payoutId @ '' not found''))) (\<lambda>r.
     if wd_status r \<noteq> ''processing'' then ret r
     else
       bnd (need (findOrganizerWallet (wd_tenant r) (wd_organizer r)) (notFound ''Organizer wallet not found'')) (\<lambda>_.
       txn (
         bnd (need (\<lambda>d. List.find (\<lambda>w. wd_id w = wd_id r) (withdrawals d)) (PlainErr ''undefined'')) (\<lambda>lockRequest.
         bnd (need (findOrganizerWallet (wd_tenant r) (wd_organizer r))
                (notFound ''Organizer wallet not found inside transaction'')) (\<lambda>wl.
         if wd_status lockRequest \<noteq> ''processing'' then ret lockRequest
         else case outcome of
           None \<Rightarrow>
             bnd (check (pe_isUuid E ''system'') (bad_uuid ''system'')) (\<lambda>_.
             bnd (posting_in (\<lambda>P ext. postWithdrawal P ext (withdrawal_posting_of (wd_tenant r) r ''system''))
                    (pe_post E 0)) (\<lambda>_.
             bnd (exec (wallet_paid wl r)) (\<lambda>_.
             bnd (modify (mark_withdrawal_lines (wd_id r) ''completed'')) (\<lambda>_.
             bnd (exec (updateWithdrawalRequestStatus (pe_now E) (wd_tenant r) (wd_id r) ''completed'' None)) (\<lambda>u.
             bnd (modify (set_withdrawal (wd_id r) (\<lambda>w. w\<lparr>wd_gatewayStatus := Some ''completed''\<rparr>))) (\<lambda>_.
             ret u))))))
         | Some message \<Rightarrow>
             bnd (exec (wallet_returned wl r)) (\<lambda>_.
             bnd (modify (mark_withdrawal_lines (wd_id r) ''failed'')) (\<lambda>_.
             bnd (exec (updateWithdrawalRequestStatus (pe_now E) (wd_tenant r) (wd_id r) ''failed'' None)) (\<lambda>u.
             bnd (modify (set_withdrawal (wd_id r) (\<lambda>w. w\<lparr>wd_gatewayStatus := Some ''failed'',
                    wd_error := Some (if truthy message then the message else ''Gateway payout failed'')\<rparr>))) (\<lambda>_.
             ret u)))))))))"

section \<open>The integrity check\<close>

datatype integrity_error =
    Negative_wallet id
  | Unbalanced_transaction id
  | Withdrawals_mismatch id
  | Refund_exceeds id
  | Orphaned_entry id id
  | Orphaned_account id id
  | No_ledger_record id
  | Chain_error string

definition minor_sum :: "direction \<Rightarrow> id \<Rightarrow> ledger_db \<Rightarrow> int" where
  "minor_sum dir i l =
     sum_where (\<lambda>e. le_transaction e = i \<and> le_direction e = dir) (\<lambda>e. toMinorUnits (le_amount e)) (entries l)"

definition wallet_negative :: "wallet_row \<Rightarrow> bool" where
  "wallet_negative w \<longleftrightarrow> parse_dec (wa_available w) < 0 \<or> parse_dec (wa_pending w) < 0 \<or> parse_dec (wa_withdrawn w) < 0"

definition completed_withdrawals :: "id \<Rightarrow> id \<Rightarrow> pay_db \<Rightarrow> int" where
  "completed_withdrawals tenant org d =
     sum_where (\<lambda>w. wd_tenant w = tenant \<and> wd_status w = ''completed'' \<and> wd_organizer w = org)
       (\<lambda>w. toMinorUnits (wd_amount w)) (withdrawals d)"

definition processed_refunds :: "id \<Rightarrow> id \<Rightarrow> pay_db \<Rightarrow> int" where
  "processed_refunds tenant i d =
     sum_where (\<lambda>r. pf_tenant r = tenant \<and> pf_txn r = i \<and> pf_status r = ''processed'')
       (\<lambda>r. toMinorUnits (pf_amount r)) (pay_refunds d)"

definition runIntegrityCheck :: "(string \<Rightarrow> string) \<Rightarrow> id \<Rightarrow> pay_db \<Rightarrow> ledger_db \<Rightarrow> integrity_error list" where
  "runIntegrityCheck sha tenant d l =
     (let ws = filter (\<lambda>w. wa_tenant w = tenant) (wallets d);
          txs = tenant_txs tenant l;
          captured = filter (\<lambda>x. pt_tenant x = tenant \<and> pt_status x = ''captured'') (pay_txns d);
          es = filter (\<lambda>e. le_tenant e = tenant) (entries l);
          chain = verifyChainIntegrity sha tenant l
      in map (\<lambda>w. Negative_wallet (wa_organizer w)) (filter wallet_negative ws)
       @ map (\<lambda>t. Unbalanced_transaction (lt_id t))
           (filter (\<lambda>t. minor_sum Debit (lt_id t) l \<noteq> minor_sum Credit (lt_id t) l) txs)
       @ map (\<lambda>w. Withdrawals_mismatch (wa_organizer w))
           (filter (\<lambda>w. toMinorUnits (wa_withdrawn w) < completed_withdrawals tenant (wa_organizer w) d) ws)
       @ map (\<lambda>x. Refund_exceeds (pt_id x))
           (filter (\<lambda>x. toMinorUnits (pt_amount x) < processed_refunds tenant (pt_id x) d) captured)
       @ concat (map (\<lambda>e.
           (if list_ex (\<lambda>t. lt_id t = le_transaction e) txs then [] else [Orphaned_entry (le_account e) (le_transaction e)])
           @ (if list_ex (\<lambda>a. la_id a = le_account e) (accounts l) then [] else [Orphaned_account (le_transaction e) (le_account e)])) es)
       @ map (\<lambda>x. No_ledger_record (pt_id x))
           (filter (\<lambda>x. \<not> list_ex (\<lambda>t. lt_referenceType t = ''payment_transaction'' \<and> lt_referenceId t = pt_id x) txs) captured)
       @ (if vr_healthy chain then [] else map Chain_error (vr_errors chain)))"

end
