(* ===== verification/PayMoney.thy ===== *)
theory PayMoney
  imports PaySettle StockFlow
begin

text \<open>
  Refunds against captured money: the invariant that the refunds of a payment transaction that
  have not failed or been rejected never add up to more than the transaction, kept by every
  operation of the payment service in any order, with any answers of the gateway and the ledger.
\<close>

section \<open>The invariant\<close>

definition refund_total :: "pay_db \<Rightarrow> payment_txn \<Rightarrow> int" where
  "refund_total d x = refunded_minor (findRefundsForTransaction (pt_tenant x) (pt_id x) d)"

definition refund_rows :: "(nat \<Rightarrow> id) \<Rightarrow> pay_db \<Rightarrow> bool" where
  "refund_rows uuid d \<longleftrightarrow>
     (\<forall>r \<in> set (pay_refunds d). pf_id r \<in> uuid ` {..<pay_next d} \<and> pf_txn r \<in> pt_id ` set (pay_txns d)
        \<and> 0 \<le> pf_amount r) \<and> distinct (map pf_id (pay_refunds d))"

definition txn_rows :: "(nat \<Rightarrow> id) \<Rightarrow> pay_db \<Rightarrow> bool" where
  "txn_rows uuid d \<longleftrightarrow> (\<forall>x \<in> set (pay_txns d). pt_id x \<in> uuid ` {..<pay_next d} \<and> 0 \<le> pt_amount x)
     \<and> distinct (map pt_id (pay_txns d))"

text \<open>A \<open>numeric(14,2)\<close> column stops below \<open>2 ^ 47\<close> hundredths.\<close>

definition within_captured :: "pay_db \<Rightarrow> bool" where
  "within_captured d \<longleftrightarrow> (\<forall>x \<in> set (pay_txns d). pt_amount x < 2 ^ 47 \<longrightarrow> refund_total d x \<le> pt_amount x)"

definition pay_inv :: "(nat \<Rightarrow> id) \<Rightarrow> pay_db \<Rightarrow> bool" where
  "pay_inv uuid d \<longleftrightarrow> refund_rows uuid d \<and> txn_rows uuid d \<and> within_captured d
     \<and> (\<forall>b \<in> set (orders (shop d)). 0 \<le> bo_total b) \<and> (\<forall>p \<in> set (pay_orders d). 0 \<le> po_amount p)"

text \<open>The part of the tables the invariant is about.\<close>

definition money_view :: "pay_db \<Rightarrow> int list \<times> int list \<times> payment_txn list \<times> payment_refund list \<times> nat" where
  "money_view d = (map bo_total (orders (shop d)), map po_amount (pay_orders d), pay_txns d, pay_refunds d, pay_next d)"

lemma map_nonneg: "map f xs = map g ys \<Longrightarrow> (\<forall>x \<in> set xs. (0 :: int) \<le> f x) = (\<forall>y \<in> set ys. 0 \<le> g y)"
proof (induction xs arbitrary: ys)
  case (Cons x xs)
  then show ?case by (cases ys) auto
qed auto

lemma pay_inv_view: assumes "money_view d' = money_view d" shows "pay_inv uuid d' \<longleftrightarrow> pay_inv uuid d"
proof -
  from assms have eq: "pay_txns d' = pay_txns d" "pay_refunds d' = pay_refunds d" "pay_next d' = pay_next d"
    and m: "map bo_total (orders (shop d')) = map bo_total (orders (shop d))"
      "map po_amount (pay_orders d') = map po_amount (pay_orders d)"
    by (simp_all add: money_view_def)
  show ?thesis
    using map_nonneg [OF m(1)] map_nonneg [OF m(2)]
    by (simp add: pay_inv_def refund_rows_def txn_rows_def within_captured_def refund_total_def
        findRefundsForTransaction_def eq)
qed

section \<open>Amounts\<close>

lemma minor_nonneg [simp]: "0 \<le> c \<Longrightarrow> 0 \<le> toMinorUnits c"
proof -
  assume "0 \<le> c"
  then have "0 \<le> parse_dec c" by (rule parse_dec_nonneg)
  then have "0 \<le> js_mul (parse_dec c) 100" by (simp add: js_mul_def)
  then have "0 \<le> \<lfloor>js_mul (parse_dec c) 100 + 1 / 2\<rfloor>" by simp
  then show ?thesis by (simp add: toMinorUnits_def dec_to_minor_def math_round_def)
qed

lemma decimal_string_nonneg [simp]: "0 \<le> n \<Longrightarrow> 0 \<le> toDecimalString n"
proof -
  assume "0 \<le> n"
  then have "0 \<le> js_div (of_int n) 100" by (simp add: js_div_def)
  then show ?thesis by (simp add: toDecimalString_def minor_to_dec_def to_fixed2_def)
qed

lemma minor_exact: "0 \<le> c \<Longrightarrow> c < 2 ^ 48 \<Longrightarrow> toMinorUnits c = c"
  by (simp add: toMinorUnits_def dec_to_minor)

lemma decimal_exact: "0 \<le> n \<Longrightarrow> n < 2 ^ 48 \<Longrightarrow> toDecimalString n = n"
  by (simp add: toDecimalString_def minor_to_dec)

section \<open>Rows\<close>

lemma refund_total_sum:
  "refund_total d x = sum_where (\<lambda>r. pf_tenant r = pt_tenant x \<and> pf_txn r = pt_id x \<and> live_refund r)
     (\<lambda>r. toMinorUnits (pf_amount r)) (pay_refunds d)"
  by (simp add: refund_total_def refunded_minor_def findRefundsForTransaction_def sum_where_def conj_assoc)

lemma refund_total_nonneg: "refund_rows uuid d \<Longrightarrow> 0 \<le> refund_total d x"
  unfolding refund_total_sum by (rule sum_where_nonneg) (simp add: refund_rows_def)

lemma sum_where_without_key:
  assumes "distinct (map k rows)" "r \<in> set rows"
  shows "sum_where (\<lambda>x. k x \<noteq> k r \<and> p x) v rows = sum_where p v rows - (if p r then v r else 0)"
  using assms
proof (induction rows)
  case (Cons a rows)
  show ?case
  proof (cases "a = r")
    case True
    with Cons.prems(1) have "sum_where (\<lambda>x. k x \<noteq> k r \<and> p x) v rows = sum_where p v rows"
      by (intro sum_where_cong) (auto simp: image_iff)
    with True show ?thesis by simp
  next
    case False
    with Cons.prems have "r \<in> set rows" "k a \<noteq> k r" by (auto simp: image_iff)
    with Cons.IH Cons.prems(1) show ?thesis by simp
  qed
qed simp

lemma fresh_row: "inj uuid \<Longrightarrow> \<forall>r \<in> set rows. k r \<in> uuid ` {..<n} \<Longrightarrow> uuid (n :: nat) \<notin> k ` set rows"
  using uuid_fresh [of uuid n] by (metis imageE)

text \<open>A new refund of a transaction that still covers it.\<close>

lemma pay_inv_new_refund:
  assumes inv: "pay_inv uuid d" and inj: "inj uuid" and x: "x \<in> set (pay_txns d)"
    and new: "createPaymentRefund uuid (new_refund (pt_tenant x) (pt_id x) rid c st why) d = Inr (r, d')"
    and c: "0 \<le> c" and covered: "pt_amount x < 2 ^ 47 \<Longrightarrow> refund_total d x + toMinorUnits c \<le> pt_amount x"
  shows "pay_inv uuid d'"
proof -
  have r: "r = (new_refund (pt_tenant x) (pt_id x) rid c st why)\<lparr>pf_id := uuid (pay_next d)\<rparr>"
    and d': "d' = d\<lparr>pay_refunds := pay_refunds d @ [r], pay_next := Suc (pay_next d)\<rparr>"
    using new by (auto simp: createPaymentRefund_def Let_def split: if_splits)
  have rows: "refund_rows uuid d" "txn_rows uuid d" using inv by (auto simp: pay_inv_def)
  have "uuid (pay_next d) \<notin> pf_id ` set (pay_refunds d)"
    using rows(1) by (intro fresh_row [OF inj]) (auto simp: refund_rows_def)
  with rows(1) x c have "refund_rows uuid d'"
    by (auto simp: refund_rows_def d' r new_refund_def lessThan_Suc)
  moreover have "txn_rows uuid d'"
    using rows(2) by (auto simp: txn_rows_def d' lessThan_Suc)
  moreover have "refund_total d' y \<le> pt_amount y" if y: "y \<in> set (pay_txns d)" "pt_amount y < 2 ^ 47" for y
  proof (cases "y = x")
    case True
    have "refund_total d' x \<le> refund_total d x + toMinorUnits c"
      using c by (simp add: refund_total_sum d' r new_refund_def)
    with covered y True show ?thesis by simp
  next
    case False
    with x y rows(2) have "pt_id y \<noteq> pt_id x" by (auto simp: txn_rows_def distinct_map inj_on_def)
    then have "refund_total d' y = refund_total d y" by (simp add: refund_total_sum d' r new_refund_def)
    with inv y show ?thesis by (auto simp: pay_inv_def within_captured_def)
  qed
  ultimately show ?thesis using inv by (auto simp: pay_inv_def within_captured_def d')
qed

text \<open>A refund row that changes its status: it stays covered if it was counted, or is covered now.\<close>

lemma pay_inv_set_refund:
  assumes inv: "pay_inv uuid d" and set: "set_refund i f d = Inr (u, d')"
    and same: "\<And>r. pf_id (f r) = pf_id r \<and> pf_tenant (f r) = pf_tenant r \<and> pf_txn (f r) = pf_txn r
      \<and> pf_amount (f r) = pf_amount r"
    and ok: "\<And>r x. r \<in> set (pay_refunds d) \<Longrightarrow> pf_id r = i \<Longrightarrow> live_refund (f r) \<Longrightarrow> x \<in> set (pay_txns d) \<Longrightarrow>
      pf_tenant r = pt_tenant x \<Longrightarrow> pf_txn r = pt_id x \<Longrightarrow> pt_amount x < 2 ^ 47 \<Longrightarrow>
      live_refund r \<or> refund_total d x + toMinorUnits (pf_amount r) \<le> pt_amount x"
  shows "pay_inv uuid d'"
proof -
  have d': "d' = d\<lparr>pay_refunds := update_where (\<lambda>x. pf_id x = i) f (pay_refunds d)\<rparr>"
    using set by (auto simp: set_refund_def Let_def split: if_splits)
  have rows: "refund_rows uuid d" using inv by (simp add: pay_inv_def)
  have "map pf_id (update_where (\<lambda>x. pf_id x = i) f (pay_refunds d)) = map pf_id (pay_refunds d)"
    by (rule map_update_where) (simp add: same)
  then have "refund_rows uuid d'"
    using rows by (auto simp: refund_rows_def d' set_update_where same)
  moreover have "refund_total d' x \<le> pt_amount x" if x: "x \<in> set (pay_txns d)" "pt_amount x < 2 ^ 47" for x
  proof (cases "\<exists>r \<in> set (pay_refunds d). pf_id r = i")
    case True
    then obtain r where r: "r \<in> set (pay_refunds d)" "pf_id r = i" by blast
    let ?p = "\<lambda>r. pf_tenant r = pt_tenant x \<and> pf_txn r = pt_id x \<and> live_refund r"
    have total': "refund_total d' x = refund_total d x - (if ?p r then toMinorUnits (pf_amount r) else 0)
        + (if ?p (f r) then toMinorUnits (pf_amount (f r)) else 0)"
    proof -
      have "distinct (map pf_id (pay_refunds d))" using rows by (simp add: refund_rows_def)
      from sum_where_update_key [OF this r(1), of ?p "\<lambda>r. toMinorUnits (pf_amount r)" f, unfolded r(2)]
      show ?thesis unfolding refund_total_sum by (simp add: d')
    qed
    have "refund_total d x \<le> pt_amount x" using inv x by (auto simp: pay_inv_def within_captured_def)
    moreover have "0 \<le> toMinorUnits (pf_amount r)" using rows r by (simp add: refund_rows_def)
    moreover note s = same [of r] and o = ok [OF r _ x(1) _ _ x(2)]
    ultimately show ?thesis
    proof (cases "?p (f r)")
      case True
      then have "live_refund r \<or> refund_total d x + toMinorUnits (pf_amount r) \<le> pt_amount x"
        using s o by simp
      with True s \<open>refund_total d x \<le> pt_amount x\<close> \<open>0 \<le> toMinorUnits (pf_amount r)\<close>
      show ?thesis unfolding total' by (cases "live_refund r") simp_all
    next
      case False
      then have "refund_total d' x = refund_total d x - (if ?p r then toMinorUnits (pf_amount r) else 0)"
        unfolding total' by (simp only: if_False)
      with \<open>refund_total d x \<le> pt_amount x\<close> \<open>0 \<le> toMinorUnits (pf_amount r)\<close>
      show ?thesis by (auto split: if_splits)
    qed
  next
    case False
    then have "update_where (\<lambda>x. pf_id x = i) f (pay_refunds d) = pay_refunds d"
      by (intro update_where_none) auto
    then show ?thesis using inv x by (simp add: pay_inv_def within_captured_def d' refund_total_sum)
  qed
  moreover have "txn_rows uuid d'" using inv by (simp add: pay_inv_def txn_rows_def d')
  ultimately show ?thesis using inv by (auto simp: pay_inv_def within_captured_def d')
qed

text \<open>A new transaction has no refunds.\<close>

lemma pay_inv_new_txn:
  assumes inv: "pay_inv uuid d" and inj: "inj uuid"
    and new: "createPaymentTransaction uuid r d = Inr (x, d')" and amount: "0 \<le> pt_amount r"
  shows "pay_inv uuid d'" "x \<in> set (pay_txns d')" "refund_total d' x = 0" "x = r\<lparr>pt_id := uuid (pay_next d)\<rparr>"
proof -
  show x: "x = r\<lparr>pt_id := uuid (pay_next d)\<rparr>" using new
    by (auto simp: createPaymentTransaction_def Let_def split: if_splits)
  have d': "d' = d\<lparr>pay_txns := pay_txns d @ [x], pay_next := Suc (pay_next d)\<rparr>"
    using new by (auto simp: createPaymentTransaction_def Let_def split: if_splits)
  show "x \<in> set (pay_txns d')" by (simp add: d')
  have rows: "refund_rows uuid d" "txn_rows uuid d" using inv by (auto simp: pay_inv_def)
  have fresh: "uuid (pay_next d) \<notin> pt_id ` set (pay_txns d)"
    using rows(2) by (intro fresh_row [OF inj]) (auto simp: txn_rows_def)
  have none: "filter (\<lambda>r. pf_tenant r = pt_tenant x \<and> pf_txn r = pt_id x \<and> live_refund r) (pay_refunds d) = []"
  proof -
    have i: "pt_id x = uuid (pay_next d)" by (simp add: x)
    have "pf_txn r' \<noteq> pt_id x" if "r' \<in> set (pay_refunds d)" for r'
    proof -
      have "pf_txn r' \<in> pt_id ` set (pay_txns d)" using that rows(1) by (simp add: refund_rows_def)
      with fresh show ?thesis unfolding i by metis
    qed
    then show ?thesis by (simp add: filter_empty_conv)
  qed
  then show zero: "refund_total d' x = 0" by (simp add: refund_total_sum d' sum_where_def)
  have "refund_rows uuid d'" using rows(1) by (auto simp: refund_rows_def d' lessThan_Suc)
  moreover have "txn_rows uuid d'"
    using rows(2) fresh amount by (auto simp: txn_rows_def d' lessThan_Suc x)
  moreover have "refund_total d' y = refund_total d y" for y by (simp add: refund_total_sum d')
  ultimately show "pay_inv uuid d'" using inv zero amount
    by (auto simp: pay_inv_def within_captured_def d' x)
qed

end
