(* ===== verification/PayKeeps.thy ===== *)
theory PayKeeps
  imports PayMoney
begin

text \<open>
  What the steps of a payment operation do to the money invariant: a weakest-precondition calculus
  over the tables, the steps that leave the invariant's tables alone, and checkout.
\<close>

section \<open>Runs from given tables\<close>

definition kept :: "(pay_db \<Rightarrow> bool) \<Rightarrow> pay_db \<Rightarrow> 'a run \<Rightarrow> bool" where
  "kept P d m \<longleftrightarrow> (\<forall>w r w'. pw_db w = d \<longrightarrow> m w = (r, w') \<longrightarrow> P (pw_db w'))"

lemma keptI: "(\<And>w r w'. pw_db w = d \<Longrightarrow> m w = (r, w') \<Longrightarrow> P (pw_db w')) \<Longrightarrow> kept P d m"
  by (auto simp: kept_def)

lemma keptD: "kept P d m \<Longrightarrow> m w = (r, w') \<Longrightarrow> pw_db w = d \<Longrightarrow> P (pw_db w')"
  by (auto simp: kept_def)

lemma keeps_kept: "keeps P m \<longleftrightarrow> (\<forall>d. P d \<longrightarrow> kept P d m)"
  by (auto simp: keeps_def kept_def)

lemma kept_keeps: "P d \<Longrightarrow> keeps P m \<Longrightarrow> kept P d m"
  by (auto simp: keeps_def kept_def)

lemma kept_bnd_keeps: "P d \<Longrightarrow> keeps P m \<Longrightarrow> (\<And>x. keeps P (k x)) \<Longrightarrow> kept P d (bnd m k)"
  by (rule kept_keeps) (auto intro: keeps_bnd)

lemma kept_ask: "kept P d (k (g d)) \<Longrightarrow> kept P d (bnd (ask g) k)"
  by (auto simp: kept_def bnd_def ask_def)

lemma kept_check: "P d \<Longrightarrow> (b \<Longrightarrow> kept P d (k ())) \<Longrightarrow> kept P d (bnd (check b e) k)"
  by (auto simp: kept_def check_def throw_def)

lemma kept_lift: "P d \<Longrightarrow> (\<And>x. r = Inr x \<Longrightarrow> kept P d (k x)) \<Longrightarrow> kept P d (bnd (lift r) k)"
  by (cases r) (auto simp: kept_def bnd_def lift_def)

lemma kept_need: "P d \<Longrightarrow> (\<And>x. f d = Some x \<Longrightarrow> kept P d (k x)) \<Longrightarrow> kept P d (bnd (need f e) k)"
  by (cases "f d") (auto simp: kept_def bnd_def need_def ask_def lift_def optR_def)

lemma kept_call: "kept P d (k ()) \<Longrightarrow> kept P d (bnd (call c) k)"
  by (rule keptI) (auto simp: bnd_def call_def elim!: keptD)

lemma kept_modify: "kept P (f d) (k ()) \<Longrightarrow> kept P d (bnd (modify f) k)"
  by (rule keptI) (auto simp: bnd_def modify_def elim!: keptD)

lemma kept_exec: "P d \<Longrightarrow> (\<And>x d'. f d = Inr (x, d') \<Longrightarrow> kept P d' (k x)) \<Longrightarrow> kept P d (bnd (exec f) k)"
  by (rule keptI) (auto simp: bnd_def exec_def split: sum.splits elim!: keptD)

lemma kept_txn: "P d \<Longrightarrow> kept P d m \<Longrightarrow> kept P d (txn m)"
  by (auto simp: kept_def txn_def split: prod.splits sum.splits)

lemma keeps_need_bnd: "(\<And>d x. P d \<Longrightarrow> f d = Some x \<Longrightarrow> keeps P (k x)) \<Longrightarrow> keeps P (bnd (need f e) k)"
  unfolding keeps_kept by (blast intro: kept_need)

lemma keeps_ask_bnd: "(\<And>d. P d \<Longrightarrow> keeps P (k (f d))) \<Longrightarrow> keeps P (bnd (ask f) k)"
  unfolding keeps_kept by (blast intro: kept_ask)

lemma keeps_check_bnd: "(b \<Longrightarrow> keeps P (k ())) \<Longrightarrow> keeps P (bnd (check b e) k)"
  unfolding keeps_kept by (blast intro: kept_check)

lemma keeps_on_shop_if:
  "(\<And>d s. P d \<Longrightarrow> f (shop d) = Inr s \<Longrightarrow> P (d\<lparr>shop := s\<rparr>)) \<Longrightarrow> keeps P (on_shop f)"
  unfolding on_shop_def by (rule keeps_exec) (auto simp: res_simps)

section \<open>What leaves the invariant's tables alone\<close>

definition order_frame :: "booking_order \<Rightarrow> id \<times> id \<times> id \<times> int" where
  "order_frame b = (bo_id b, bo_tenant b, bo_event b, bo_total b)"

definition payment_frame :: "payment_order \<Rightarrow> id \<times> id \<times> id \<times> string \<times> int" where
  "payment_frame p = (po_id p, po_tenant p, po_booking p, po_razorpayId p, po_amount p)"

definition calm :: "pay_db \<Rightarrow> pay_db \<Rightarrow> bool" where
  "calm d d' \<longleftrightarrow> map order_frame (orders (shop d')) = map order_frame (orders (shop d))
     \<and> map payment_frame (pay_orders d') = map payment_frame (pay_orders d)
     \<and> pay_txns d' = pay_txns d \<and> pay_refunds d' = pay_refunds d \<and> pay_next d \<le> pay_next d'"

lemma pay_inv_calm: assumes "pay_inv uuid d" "calm d d'" shows "pay_inv uuid d'"
proof -
  have eq: "pay_txns d' = pay_txns d" "pay_refunds d' = pay_refunds d" and n: "pay_next d \<le> pay_next d'"
    and frames: "map order_frame (orders (shop d')) = map order_frame (orders (shop d))"
      "map payment_frame (pay_orders d') = map payment_frame (pay_orders d)"
    using assms(2) by (simp_all add: calm_def)
  have m: "map bo_total (orders (shop d')) = map bo_total (orders (shop d))"
    "map po_amount (pay_orders d') = map po_amount (pay_orders d)"
    using arg_cong [OF frames(1), of "map (\<lambda>(i, t, e, n). n)"] arg_cong [OF frames(2), of "map (\<lambda>(i, t, b, r, n). n)"]
    by (simp_all add: comp_def order_frame_def payment_frame_def)
  have later: "uuid ` {..<pay_next d} \<subseteq> uuid ` {..<pay_next d'}" using n by auto
  have "refund_rows uuid d'" "txn_rows uuid d'"
    using assms(1) later unfolding pay_inv_def refund_rows_def txn_rows_def eq by blast+
  then show ?thesis
    using assms(1) map_nonneg [OF m(1)] map_nonneg [OF m(2)]
    by (simp add: pay_inv_def within_captured_def refund_total_def findRefundsForTransaction_def eq)
qed

text \<open>The invariant, with the refund row \<open>i\<close> still counted.\<close>

definition row_live :: "id \<Rightarrow> pay_db \<Rightarrow> bool" where
  "row_live i d \<longleftrightarrow> (\<forall>r \<in> set (pay_refunds d). pf_id r = i \<longrightarrow> live_refund r)"

definition calm_safe :: "(pay_db \<Rightarrow> bool) \<Rightarrow> bool" where
  "calm_safe P \<longleftrightarrow> (\<forall>d d'. P d \<longrightarrow> calm d d' \<longrightarrow> P d')"

lemma calm_safeD: "calm_safe P \<Longrightarrow> P d \<Longrightarrow> calm d d' \<Longrightarrow> P d'"
  by (auto simp: calm_safe_def)

lemma calm_trans: "calm d d' \<Longrightarrow> calm d' d'' \<Longrightarrow> calm d d''"
  by (auto simp: calm_def)

lemma calm_safe_calm [simp]: "calm_safe (calm d)"
  by (auto simp: calm_safe_def intro: calm_trans)

lemma calm_safe_inv [simp]: "calm_safe (pay_inv uuid)"
  by (auto simp: calm_safe_def intro: pay_inv_calm)

lemma calm_safe_live [simp]: "calm_safe (\<lambda>d. pay_inv uuid d \<and> row_live i d)"
  by (auto simp: calm_safe_def row_live_def calm_def intro: pay_inv_calm)

lemma keeps_modify_calm: "calm_safe P \<Longrightarrow> (\<And>d. calm d (f d)) \<Longrightarrow> keeps P (modify f)"
  by (rule keeps_modify) (auto dest: calm_safeD)

lemma keeps_exec_calm:
  "calm_safe P \<Longrightarrow> (\<And>d x d'. f d = Inr (x, d') \<Longrightarrow> calm d d') \<Longrightarrow> keeps P (exec f)"
  by (rule keeps_exec) (auto dest: calm_safeD)

lemma keeps_shop_calm:
  "calm_safe P \<Longrightarrow> (\<And>s s'. f s = Inr s' \<Longrightarrow> orders s' = orders s) \<Longrightarrow> keeps P (on_shop f)"
  by (rule keeps_on_shop_if) (force simp: calm_def intro: calm_safeD)

lemma calm_update [simp]:
  "calm d (logPaymentLifecycleEvent e d)" "calm d (logPaymentAudit a d)"
  "calm d (d\<lparr>wallet_txns := ts\<rparr>)" "calm d (d\<lparr>withdrawals := ws\<rparr>)" "calm d (d\<lparr>runs := rs\<rparr>)"
  "calm d (d\<lparr>user_wallets := us\<rparr>)" "calm d (d\<lparr>user_wallet_txns := uts\<rparr>)"
  "calm d (createOrganizerWalletTransaction uuid t d)" "calm d (set_run i g d)" "calm d (set_withdrawal i h d)"
  "calm d (mark_withdrawal_lines i st d)" "calm d (set_order_reservations tn i rst d)"
  "calm d (set_reservation i rf d)" "calm d (confirm_event tn r i p ty src d)"
  "calm d (snd (createOrganizerWallet uuid tn i d))"
  by (simp_all add: calm_def logPaymentLifecycleEvent_def logPaymentAudit_def set_run_def
      createOrganizerWalletTransaction_def set_withdrawal_def mark_withdrawal_lines_def
      set_order_reservations_def set_reservation_def confirm_event_def createOrganizerWallet_def Let_def)

lemma calm_shop [simp]:
  "calm d (d\<lparr>shop := (shop d)\<lparr>ticket_types := ts\<rparr>\<rparr>)" "calm d (d\<lparr>shop := (shop d)\<lparr>events := es\<rparr>\<rparr>)"
  by (simp_all add: calm_def)

lemma frame_updates [simp]:
  "order_frame (b\<lparr>bo_status := ost\<rparr>) = order_frame b" "order_frame (b\<lparr>bo_updatedAt := t\<rparr>) = order_frame b"
  "order_frame (b\<lparr>bo_updatedBy := u\<rparr>) = order_frame b" "order_frame (b\<lparr>bo_cancelledAt := c\<rparr>) = order_frame b"
  "order_frame (b\<lparr>bo_confirmedAt := c\<rparr>) = order_frame b" "order_frame (b\<lparr>bo_cancellationReason := why\<rparr>) = order_frame b"
  "payment_frame (p\<lparr>po_status := st\<rparr>) = payment_frame p" "payment_frame (p\<lparr>po_retryCount := n\<rparr>) = payment_frame p"
  by (simp_all add: order_frame_def payment_frame_def)

lemma calm_set_order [simp]: "(\<And>b. order_frame (f b) = order_frame b) \<Longrightarrow> calm d (set_order i f d)"
  by (simp add: calm_def set_order_def map_update_where)

lemma calm_pay_orders: "(\<And>x. payment_frame (f x) = payment_frame x) \<Longrightarrow> calm d (d\<lparr>pay_orders := update_where h f (pay_orders d)\<rparr>)"
  by (simp add: calm_def map_update_where)

lemma calm_order_status: "updatePaymentOrderStatus tn i st d = Inr (u, d') \<Longrightarrow> calm d d'"
  by (auto simp: updatePaymentOrderStatus_def calm_pay_orders split: if_splits)

lemma calm_balances: "updateOrganizerWalletBalances i a b c d = Inr (u, d') \<Longrightarrow> calm d d'"
  by (auto simp: updateOrganizerWalletBalances_def calm_def split: if_splits)

lemma calm_withdrawal_status: "updateWithdrawalRequestStatus now tn i st by' d = Inr (u, d') \<Longrightarrow> calm d d'"
  by (auto simp: updateWithdrawalRequestStatus_def calm_def Let_def split: option.splits)

lemma calm_new_withdrawal: "createWithdrawalRequest uuid r d = (x, d') \<Longrightarrow> calm d d'"
  by (auto simp: createWithdrawalRequest_def calm_def Let_def)

lemma calm_new_run: "createSettlementRun uuid r d = (x, d') \<Longrightarrow> calm d d'"
  by (auto simp: createSettlementRun_def calm_def Let_def)

lemmas calm_facts = calm_order_status calm_balances calm_withdrawal_status calm_new_withdrawal calm_new_run

lemma tickets_keep_orders:
  "issueIssuedTicketsForBookingOrder E tn i rl s = Inr s' \<Longrightarrow> orders s' = orders s"
  "applyIssuedTicketStatusForBookingOrder E tn i st s = Inr s' \<Longrightarrow> orders s' = orders s"
  by (auto simp: outside_tickets_def dest!: issue_frame apply_frame)

lemma release_keeps_orders:
  "bindR (releaseReservationsForBookingOrder E m s) (\<lambda>(_, s'). Inr s') = Inr s' \<Longrightarrow> orders s' = orders s"
  by (auto simp: releaseReservationsForBookingOrder_def res_simps outside_stock_def
      split: if_splits dest!: move_all_frame)

lemmas calm_runs = keeps_modify_calm keeps_exec_calm keeps_shop_calm

lemma keeps_prod: "(\<And>a b. keeps P (f a b)) \<Longrightarrow> keeps P (case x of (a, b) \<Rightarrow> f a b)"
  by (cases x) auto

lemmas safe_runs = keeps_bnd keeps_quiet keeps_each keeps_txn keeps_if keeps_option keeps_let keeps_handle
  keeps_prod calm_runs

section \<open>The steps the operations share\<close>

lemma keeps_order_status: "calm_safe P \<Longrightarrow> keeps P (exec (updatePaymentOrderStatus tn i st))"
  by (rule keeps_exec_calm) (auto dest: calm_facts)

lemma keeps_balances: "calm_safe P \<Longrightarrow> keeps P (exec (updateOrganizerWalletBalances i a b c))"
  by (rule keeps_exec_calm) (auto dest: calm_facts)

lemma keeps_shop_steps:
  "calm_safe P \<Longrightarrow> keeps P (on_shop (issueIssuedTicketsForBookingOrder E tn i rl))"
  "calm_safe P \<Longrightarrow> keeps P (on_shop (applyIssuedTicketStatusForBookingOrder E tn i st))"
  "calm_safe P \<Longrightarrow> keeps P (on_shop (\<lambda>s. bindR (releaseReservationsForBookingOrder E m s) (\<lambda>(_, s'). Inr s')))"
  by (rule keeps_shop_calm, assumption, erule tickets_keep_orders release_keeps_orders)+

lemma keeps_wallets:
  assumes "calm_safe P"
  shows "keeps P (ensure_wallet E tn org)" "keeps P (stage_wallet E b p)" "keeps P (stage_late_wallet E b p i)"
    "keeps P (refund_wallet E j wl)" "keeps P (refund_books E j)"
proof -
  show ensure: "keeps P (ensure_wallet E tn org)" for org tn
    unfolding ensure_wallet_def using assms by (intro safe_runs) simp_all
  show "keeps P (stage_wallet E b p)"
    unfolding stage_wallet_def Let_def using assms
    by (intro safe_runs ensure keeps_balances) simp_all
  show "keeps P (stage_late_wallet E b p i)"
    unfolding stage_late_wallet_def Let_def using assms
    by (intro safe_runs ensure keeps_balances) simp_all
  show wallet: "keeps P (refund_wallet E j wl)" for wl
    unfolding refund_wallet_def using assms by (intro safe_runs keeps_balances) simp_all
  show "keeps P (refund_books E j)"
    unfolding refund_books_def by (intro safe_runs wallet)
qed

lemma keeps_carry_out: "calm_safe P \<Longrightarrow> keeps P (carry_out_refund E j p full reason audit)"
  unfolding carry_out_refund_def release_refunded_def
  by (intro safe_runs keeps_order_status keeps_shop_steps keeps_wallets) simp_all

lemma keeps_reservations:
  assumes "calm_safe P"
  shows "keeps P (expire_late now tn i p r)" "keeps P (book_reservation now tn i p r)"
    "keeps P (token_checked ids tokens r)" "keeps P (owner_checked tn b p r)"
  using assms unfolding expire_late_def book_reservation_def token_checked_def owner_checked_def
  by (auto intro!: safe_runs)

text \<open>A new transaction of a payment order.\<close>

lemma keeps_new_txn:
  assumes "inj uuid" "0 \<le> pt_amount r"
  shows "keeps (pay_inv uuid) (exec (createPaymentTransaction uuid r))"
  by (rule keeps_exec) (auto dest: pay_inv_new_txn(1) [OF _ assms(1) _ assms(2)])

lemma keeps_take_payment:
  assumes "inj (pe_uuid E)" "0 \<le> po_amount p"
  shows "keeps (pay_inv (pe_uuid E)) (take_payment E p i st ty)"
  unfolding take_payment_def using assms
  by (intro safe_runs keeps_order_status keeps_new_txn) (simp_all add: captured_txn_def)

lemma order_amount_nonneg:
  "pay_inv uuid d \<Longrightarrow> p \<in> set (pay_orders d) \<Longrightarrow> 0 \<le> po_amount p"
  "pay_inv uuid d \<Longrightarrow> b \<in> set (orders (shop d)) \<Longrightarrow> 0 \<le> bo_total b"
  by (simp_all add: pay_inv_def)

section \<open>Checkout and confirmation\<close>

lemma keeps_bnd_post:
  assumes m: "keeps P m" and Q: "\<And>w x w'. P (pw_db w) \<Longrightarrow> m w = (Inr x, w') \<Longrightarrow> Q x (pw_db w')"
    and k: "\<And>x d. P d \<Longrightarrow> Q x d \<Longrightarrow> kept P d (k x)"
  shows "keeps P (bnd m k)"
proof (rule keepsI)
  fix w r w' assume P: "P (pw_db w)" and run: "bnd m k w = (r, w')"
  obtain a w1 where m1: "m w = (a, w1)" by force
  have P1: "P (pw_db w1)" by (rule keepsD [OF m P m1])
  show "P (pw_db w')"
  proof (cases a)
    case (Inl e)
    with run m1 P1 show ?thesis by (simp add: bnd_def)
  next
    case (Inr x)
    with run m1 have "k x w1 = (r, w')" by (simp add: bnd_def)
    with k [OF P1 Q [OF P]] m1 Inr show ?thesis by (auto elim: keptD)
  qed
qed

lemma pay_inv_set_order:
  "(\<And>b. 0 \<le> bo_total b \<Longrightarrow> 0 \<le> bo_total (f b)) \<Longrightarrow> pay_inv uuid d \<Longrightarrow> pay_inv uuid (set_order i f d)"
  by (auto simp: pay_inv_def refund_rows_def txn_rows_def within_captured_def refund_total_def
      findRefundsForTransaction_def set_order_def set_update_where)

lemma calculated_nonneg: "calculateBookingAmount E i w = (Inr x, w') \<Longrightarrow> 0 \<le> py_final x"
  by (auto simp: calculateBookingAmount_def run_simps Let_def)

lemma keeps_calculate: "keeps (pay_inv uuid) (calculateBookingAmount E i)"
  unfolding calculateBookingAmount_def Let_def
  by (intro keeps_need_bnd keeps_ask_bnd keeps_check_bnd keeps_bnd keeps_quiet keeps_modify pay_inv_set_order) simp_all

lemma pay_inv_new_order:
  "pay_inv uuid d \<Longrightarrow> createPaymentOrder u r d = Inr (x, d') \<Longrightarrow> 0 \<le> po_amount r \<Longrightarrow> pay_inv uuid d'"
  by (auto simp: pay_inv_def refund_rows_def txn_rows_def within_captured_def refund_total_def
      findRefundsForTransaction_def createPaymentOrder_def Let_def lessThan_Suc split: if_splits)

lemma keeps_new_order: "0 \<le> po_amount r \<Longrightarrow> keeps (pay_inv uuid) (exec (createPaymentOrder u r))"
  by (rule keeps_exec) (auto intro: pay_inv_new_order)

lemma keeps_create_order: "keeps (pay_inv uuid) (createPaymentOrderFor E tn act i)"
proof -
  have new: "0 \<le> py_final c \<Longrightarrow> keeps (pay_inv uuid) (exec (createPaymentOrder u
      \<lparr>po_id = [], po_tenant = tn, po_booking = b, po_razorpayId = rid, po_amount = py_final c,
       po_currency = cur, po_status = P_pending, po_retryCount = 0, po_createdBy = act\<rparr>))" for u b rid c cur
    by (rule keeps_new_order) simp
  have rest: "kept (pay_inv uuid) d (k c)" if "0 \<le> py_final c" "pay_inv uuid d"
      "0 \<le> py_final c \<Longrightarrow> keeps (pay_inv uuid) (k c)" for c d and k :: "payable \<Rightarrow> checkout run"
    using that by (blast intro: kept_keeps)
  show ?thesis
    unfolding createPaymentOrderFor_def Let_def
    by (intro keeps_need_bnd keeps_check_bnd keeps_ask_bnd
        keeps_bnd_post [where Q = "\<lambda>c d. 0 \<le> py_final c", OF keeps_calculate calculated_nonneg] rest)
      (assumption | intro safe_runs new | simp add: calm_pay_orders)+
qed

end
