(* ===== verification/PaySafe.thy ===== *)
theory PaySafe
  imports PayKeeps
begin

text \<open>
  Confirmation, failure and the refunds keep the money invariant, whether they return or throw.
\<close>

section \<open>Confirmation\<close>

lemma bndE:
  assumes "bnd m f w = (Inr y, w')"
  obtains x w1 where "m w = (Inr x, w1)" "f x w1 = (Inr y, w')"
  using assms by (auto simp: bnd_Inr)

text \<open>A confirmed payment.\<close>

definition taken :: "payment_order \<Rightarrow> payment_txn \<Rightarrow> pay_db \<Rightarrow> bool" where
  "taken p x d \<longleftrightarrow> x \<in> set (pay_txns d) \<and> refund_total d x = 0 \<and> pt_tenant x = po_tenant p
     \<and> pt_amount x = po_amount p"

lemma take_payment_post:
  assumes inj: "inj (pe_uuid E)" and amount: "0 \<le> po_amount p" and inv: "pay_inv (pe_uuid E) (pw_db w)"
    and run: "take_payment E p i st ty w = (Inr x, w')"
  shows "taken p x (pw_db w')"
proof -
  from run obtain d1 d2 where st: "updatePaymentOrderStatus (po_tenant p) (po_id p) st (pw_db w) = Inr ((), d1)"
    and new: "createPaymentTransaction (pe_uuid E) (captured_txn p i (payment_text st)) d1 = Inr (x, d2)"
    and w': "pw_db w' = logPaymentLifecycleEvent (txn_event p (pt_id x) ty st) d2"
    by (auto simp: take_payment_def run_simps)
  have "pay_inv (pe_uuid E) d1" by (rule pay_inv_calm [OF inv calm_order_status [OF st]])
  from pay_inv_new_txn [OF this inj new] amount
  show ?thesis by (auto simp: w' taken_def captured_txn_def logPaymentLifecycleEvent_def refund_total_def
        findRefundsForTransaction_def)
qed

lemma keeps_late_books: "calm_safe P \<Longrightarrow> keeps P (late_books E p b x r)"
  unfolding late_books_def by (intro safe_runs keeps_wallets; simp)

lemma late_refund_row:
  assumes inj: "inj (pe_uuid E)" and inv: "pay_inv (pe_uuid E) d" and amount: "0 \<le> po_amount p"
    and x: "taken p x d"
    and new: "createPaymentRefund (pe_uuid E) (new_refund (po_tenant p) (pt_id x) rid (po_amount p) ''pending'' why) d
      = Inr (r, d')"
  shows "pay_inv (pe_uuid E) d' \<and> row_live (pf_id r) d'"
proof
  show "pay_inv (pe_uuid E) d'"
    using x amount minor_exact [of "po_amount p"] new unfolding taken_def by (intro pay_inv_new_refund [OF inv inj, of x]) auto
  have "pe_uuid E (pay_next d) \<notin> pf_id ` set (pay_refunds d)"
    using inv by (intro fresh_row [OF inj]) (auto simp: pay_inv_def refund_rows_def)
  then have "\<forall>y \<in> set (pay_refunds d). pf_id y \<noteq> pe_uuid E (pay_next d)" by (metis imageI)
  then show "row_live (pf_id r) d'"
    using new by (auto simp: createPaymentRefund_def Let_def new_refund_def row_live_def live_refund_def
        split: if_splits)
qed

lemma keeps_late_flow:
  assumes inj: "inj (pe_uuid E)" and amount: "0 \<le> po_amount p"
  shows "keeps (pay_inv (pe_uuid E)) (late_flow E p b i rs)"
  unfolding late_flow_def
  apply (rule keeps_bnd)
   apply (intro safe_runs; simp)
  apply (rule keeps_bnd)
   apply (intro safe_runs keeps_reservations; simp)
  apply (rule keeps_bnd_post [where Q = "taken p", OF keeps_take_payment [OF inj amount] take_payment_post [OF inj amount]],
      assumption, assumption)
  apply (intro kept_ask kept_exec, assumption)
  apply (drule (2) late_refund_row [OF inj _ amount])
  apply (auto elim: kept_keeps intro!: keeps_late_books)
  done

lemma late_flow_live:
  assumes inj: "inj (pe_uuid E)" and amount: "0 \<le> po_amount p" and inv: "pay_inv (pe_uuid E) (pw_db w)"
    and run: "late_flow E p b i rs w = (Inr (rid, n), w')"
  shows "row_live rid (pw_db w')"
proof -
  let ?P = "pay_inv (pe_uuid E)"
  let ?order = "modify (set_order (bo_id b) (\<lambda>x. x\<lparr>bo_status := O_expired, bo_updatedAt := pe_now E\<rparr>))"
  let ?dead = "each (expire_late (pe_now E) (po_tenant p) (bo_id b) p) rs"
  have prep: "keeps ?P ?order" "keeps ?P ?dead"
    by (intro safe_runs keeps_reservations; simp)+
  show ?thesis
    using run unfolding late_flow_def
  proof (elim bndE)
    fix u w0 v w1 x w2 rnd w3 r w4
    assume order: "?order w = (Inr u, w0)" and dead: "?dead w0 = (Inr v, w1)"
      and take: "take_payment E p i P_captured ''payment_order.captured'' w1 = (Inr x, w2)"
      and ask: "ask (\<lambda>d. be_random (pe_shop E) (pay_next d)) w2 = (Inr rnd, w3)"
      and exec: "exec (createPaymentRefund (pe_uuid E) (new_refund (po_tenant p) (pt_id x) (''rfnd_pending_'' @ rnd)
        (po_amount p) ''pending'' (Some ''Late payment auto-refund''))) w3 = (Inr r, w4)"
      and books: "late_books E p b x r w4 = (Inr (rid, n), w')"
    have inv1: "?P (pw_db w1)" by (rule keepsD [OF prep(2) keepsD [OF prep(1) inv order] dead])
    have inv2: "?P (pw_db w2)" by (rule keepsD [OF keeps_take_payment [OF inj amount] inv1 take])
    have "?P (pw_db w4) \<and> row_live (pf_id r) (pw_db w4)"
      using late_refund_row [OF inj inv2 amount take_payment_post [OF inj amount inv1 take]] ask exec
      by (auto simp: ask_Inr exec_Inr)
    then have "?P (pw_db w') \<and> row_live (pf_id r) (pw_db w')"
      by (rule keepsD [OF keeps_late_books [OF calm_safe_live] _ books])
    moreover have "rid = pf_id r" using books by (auto simp: late_books_def run_simps)
    ultimately show ?thesis by simp
  qed
qed

lemma keeps_normal_flow:
  assumes "inj (pe_uuid E)" "0 \<le> po_amount p"
  shows "keeps (pay_inv (pe_uuid E)) (normal_flow E p b i rs)"
  unfolding normal_flow_def
  by (intro safe_runs keeps_reservations keeps_shop_steps keeps_take_payment assms keeps_wallets; simp)

lemma keeps_confirm_txn:
  assumes "inj (pe_uuid E)" "0 \<le> po_amount p"
  shows "keeps (pay_inv (pe_uuid E)) (confirm_txn E i p)"
  unfolding confirm_txn_def
  by (intro safe_runs keeps_reservations keeps_late_flow keeps_normal_flow assms; simp)

lemma confirm_txn_live:
  assumes "inj (pe_uuid E)" "0 \<le> po_amount p" "pay_inv (pe_uuid E) (pw_db w)"
    and "confirm_txn E i p w = (Inr (Some (rid, n)), w')"
  shows "row_live rid (pw_db w')"
proof -
  from assms(4) obtain b rs w1 w2 where tokens: "each (token_checked (comma_list (the (supplied_ids i)))
      (comma_list (the (supplied_tokens i)))) rs w = (Inr (), w1)"
    and owners: "each (owner_checked (po_tenant p) b p) rs w1 = (Inr (), w2)"
    and late: "late_flow E p b (cf_razorpayPaymentId i) rs w2 = (Inr (rid, n), w')"
    by (auto simp: confirm_txn_def run_simps split: if_splits)
  have checks: "keeps (pay_inv (pe_uuid E)) (each (token_checked ids ts) rs)"
    "keeps (pay_inv (pe_uuid E)) (each (owner_checked (po_tenant p) b p) rs)" for ids ts
    by (intro keeps_each keeps_reservations calm_safe_inv)+
  have "pay_inv (pe_uuid E) (pw_db w2)"
    by (rule keepsD [OF checks(2) keepsD [OF checks(1) assms(3) tokens] owners])
  then show ?thesis by (rule late_flow_live [OF assms(1,2) _ late])
qed

text \<open>The refund of a late payment after the transaction.\<close>

lemma pay_inv_settle_row:
  assumes "pay_inv uuid d" "row_live i d"
    and "set_refund i (\<lambda>x. x\<lparr>pf_razorpayId := rid, pf_status := st\<rparr>) d = Inr (u, d')"
  shows "pay_inv uuid d'"
  by (rule pay_inv_set_refund [OF assms(1,3)]) (use assms(2) in \<open>auto simp: row_live_def\<close>)

lemma pay_inv_dead_row:
  assumes "pay_inv uuid d" "set_refund i f d = Inr (u, d')"
    and "\<And>r. pf_id (f r) = pf_id r \<and> pf_tenant (f r) = pf_tenant r \<and> pf_txn (f r) = pf_txn r
      \<and> pf_amount (f r) = pf_amount r" and "\<And>r. \<not> live_refund (f r)"
  shows "pay_inv uuid d'"
  by (rule pay_inv_set_refund [OF assms(1-3)]) (use assms(4) in auto)

lemma kept_handle:
  assumes m: "kept P d m" and h: "\<And>e. keeps P (h e)" shows "kept P d (handle m h)"
proof (rule keptI)
  fix w r w' assume w: "pw_db w = d" and run: "handle m h w = (r, w')"
  obtain a w1 where m1: "m w = (a, w1)" by force
  have P1: "P (pw_db w1)" by (rule keptD [OF m m1 w])
  show "P (pw_db w')"
  proof (cases a)
    case (Inl e)
    with run m1 have "h e w1 = (r, w')" by (simp add: handle_def)
    then show ?thesis by (rule keepsD [OF h P1])
  next
    case (Inr x)
    with run m1 P1 show ?thesis by (simp add: handle_def)
  qed
qed

lemma kept_late_refund:
  assumes inv: "pay_inv uuid d" and live: "row_live rid d"
  shows "kept (pay_inv uuid) d (late_refund E p i rid n)"
proof -
  have dead: "keeps (pay_inv uuid) (exec (set_refund rid (\<lambda>x. x\<lparr>pf_status := ''failed'', pf_reason := why\<rparr>)))" for why
    by (rule keeps_exec, erule pay_inv_dead_row, assumption) (auto simp: live_refund_def)
  show ?thesis
    unfolding late_refund_def
    apply (rule kept_handle)
    apply (intro kept_call kept_lift kept_check kept_exec inv)
     apply (drule pay_inv_settle_row [OF inv live])
     apply (erule kept_keeps)
     apply (intro keeps_bnd keeps_order_status safe_runs; simp)
    apply (intro keeps_bnd dead)
    apply (intro safe_runs; simp)
    done
qed

lemma order_found:
  "pay_inv uuid d \<Longrightarrow> findPaymentOrderByRazorpayOrderId i d = Some p \<Longrightarrow> 0 \<le> po_amount p"
  "pay_inv uuid d \<Longrightarrow> findPaymentOrderById tn j d = Some p \<Longrightarrow> 0 \<le> po_amount p"
  by (auto simp: findPaymentOrderByRazorpayOrderId_def findPaymentOrderById_def pay_inv_def dest!: find_SomeD)

lemma keeps_confirm:
  assumes inj: "inj (pe_uuid E)"
  shows "keeps (pay_inv (pe_uuid E)) (confirmPaymentAndOrder E i)"
proof -
  let ?P = "pay_inv (pe_uuid E)"
  define Q where "Q late d \<longleftrightarrow> (\<forall>rid n. late = Some (rid, n) \<longrightarrow> row_live rid d)" for late :: "(id \<times> int) option" and d
  have confirmed: "Q late (pw_db w')"
    if "0 \<le> po_amount p" "?P (pw_db w)" "txn (confirm_txn E i p) w = (Inr late, w')" for p w late w'
    using that confirm_txn_live [OF inj] by (auto simp: Q_def txn_Inr)
  have refunded: "kept ?P d (case late of None \<Rightarrow> ret ()
      | Some (rid, n) \<Rightarrow> late_refund E p (cf_razorpayPaymentId i) rid n)" if "?P d" "Q late d" for d late p
  proof (cases late)
    case None
    with that show ?thesis by (simp add: kept_def ret_def)
  next
    case (Some rn)
    with that show ?thesis by (cases rn) (auto simp: Q_def intro: kept_late_refund)
  qed
  show ?thesis
    unfolding confirmPaymentAndOrder_def
    apply (rule keeps_need_bnd, drule (1) order_found)
    apply (rule keeps_ask_bnd)
    apply (rule keeps_if)
     apply (rule keeps_quiet)
    apply (rule keeps_bnd, rule keeps_quiet)
    apply (rule keeps_bnd_post [where Q = Q])
      apply (intro keeps_txn keeps_confirm_txn inj, assumption)
     apply (erule (2) confirmed)
    apply (erule (1) refunded)
    done
qed

end
