(* ===== verification/PayReach.thy ===== *)
theory PayReach
  imports PaySafe
begin

text \<open>
  The refunds, settlements and withdrawals keep the money invariant, and so does every sequence of
  payment operations: refunds never add up to more than the payment they belong to.
\<close>

section \<open>Failed payments, capture and synchronisation\<close>

lemma kept_bnd: "kept P d m \<Longrightarrow> (\<And>x. keeps P (k x)) \<Longrightarrow> kept P d (bnd m k)"
proof (rule keptI)
  fix w r w' assume m: "kept P d m" and k: "\<And>x. keeps P (k x)" and w: "pw_db w = d"
    and run: "bnd m k w = (r, w')"
  obtain a w1 where m1: "m w = (a, w1)" by force
  have P1: "P (pw_db w1)" by (rule keptD [OF m m1 w])
  show "P (pw_db w')"
  proof (cases a)
    case (Inl e)
    with run m1 P1 show ?thesis by (simp add: bnd_def)
  next
    case (Inr x)
    with run m1 have "k x w1 = (r, w')" by (simp add: bnd_def)
    then show ?thesis by (rule keepsD [OF k P1])
  qed
qed

lemma keeps_failure:
  assumes inj: "inj (pe_uuid E)"
  shows "keeps (pay_inv (pe_uuid E)) (handlePaymentFailure E rid i)"
  unfolding handlePaymentFailure_def
proof (rule keeps_ask_bnd)
  fix d assume inv: "pay_inv (pe_uuid E) d"
  show "keeps (pay_inv (pe_uuid E)) (case findPaymentOrderByRazorpayOrderId rid d of None \<Rightarrow> ret () | Some p \<Rightarrow>
    txn (bnd (take_payment E p i P_failed ''payment_order.failed'') (\<lambda>_.
            bnd (modify (logPaymentAudit (order_audit (Some (po_createdBy p)) p ''capture''
                   (Some (payment_text (po_status p))) (Some ''failed'')))) (\<lambda>_.
            bnd (ask (order_by_id (po_booking p))) (\<lambda>b.
            if b \<noteq> None \<and> \<not> settled_order (bo_status (the b)) then
              bnd (modify (set_order (po_booking p) (\<lambda>x. x\<lparr>bo_status := O_cancelled,
                     bo_cancellationReason := Some ''Payment failed or declined'',
                     bo_cancelledAt := Some (pe_now E), bo_updatedAt := pe_now E\<rparr>))) (\<lambda>_.
              on_shop (\<lambda>s. bindR (releaseReservationsForBookingOrder (pe_shop E)
                  \<lparr>om_tenant = po_tenant p, om_order = po_booking p, om_actor = Some (po_createdBy p),
                   om_source = Some ''payment_failed_release'', om_correlation = None\<rparr> s)
                (\<lambda>(_, s'). Inr s')))
            else ret ())))))"
  proof (cases "findPaymentOrderByRazorpayOrderId rid d")
    case (Some p)
    have "0 \<le> po_amount p" by (rule order_found(1) [OF inv Some])
    then show ?thesis
      unfolding Some option.case
      by (intro keeps_take_payment inj keeps_shop_steps safe_runs; simp)
  qed (simp add: keeps_quiet)
qed

lemma keeps_capture:
  assumes inj: "inj (pe_uuid E)"
  shows "keeps (pay_inv (pe_uuid E)) (capturePayment E tn i g)"
  unfolding capturePayment_def by (intro keeps_confirm [OF inj] safe_runs)

lemma keeps_sync:
  assumes inj: "inj (pe_uuid E)"
  shows "keeps (pay_inv (pe_uuid E)) (syncPaymentState E tn i g recent)"
  unfolding syncPaymentState_def Let_def
  apply (rule keeps_need_bnd, drule (1) order_found(2))
  apply (intro keeps_confirm keeps_failure keeps_new_txn inj keeps_bnd keeps_if keeps_option keeps_quiet keeps_modify_calm)
    apply (simp_all add: calm_pay_orders captured_txn_def)
  done

section \<open>Refunds\<close>

lemma txn_found:
  "findPaymentTransactionById tn i d = Some x \<Longrightarrow> x \<in> set (pay_txns d) \<and> pt_tenant x = tn \<and> pt_id x = i"
  by (auto simp: findPaymentTransactionById_def dest: find_SomeD)

lemma same_txn: "pay_inv uuid d \<Longrightarrow> x \<in> set (pay_txns d) \<Longrightarrow> y \<in> set (pay_txns d) \<Longrightarrow> pt_id x = pt_id y \<Longrightarrow> x = y"
  by (auto simp: pay_inv_def txn_rows_def distinct_map dest: inj_onD)

lemma same_refund: "pay_inv uuid d \<Longrightarrow> x \<in> set (pay_refunds d) \<Longrightarrow> y \<in> set (pay_refunds d) \<Longrightarrow> pf_id x = pf_id y \<Longrightarrow> x = y"
  by (auto simp: pay_inv_def refund_rows_def distinct_map dest: inj_onD)

text \<open>A refund row that passed the check of the remaining balance.\<close>

lemma checked_row:
  assumes inv: "pay_inv uuid d" and inj: "inj uuid" and x: "x \<in> set (pay_txns d)" and n: "0 \<le> n"
    and fits: "n \<le> toMinorUnits (pt_amount x) - refunded_minor (findRefundsForTransaction (pt_tenant x) (pt_id x) d)"
    and new: "createPaymentRefund uuid (new_refund (pt_tenant x) (pt_id x) rid (toDecimalString n) st why) d = Inr (r, d')"
  shows "pay_inv uuid d'"
proof (rule pay_inv_new_refund [OF inv inj x new])
  show "0 \<le> toDecimalString n" using n by simp
  assume small: "pt_amount x < 2 ^ 47"
  have pos: "0 \<le> pt_amount x" using inv x by (simp add: pay_inv_def txn_rows_def)
  have "toMinorUnits (pt_amount x) = pt_amount x" using pos small by (intro minor_exact) simp_all
  moreover have "0 \<le> refund_total d x" using inv by (intro refund_total_nonneg) (auto simp: pay_inv_def)
  ultimately have n': "n \<le> pt_amount x - refund_total d x" "n < 2 ^ 47"
    using fits small by (simp_all add: refund_total_def)
  then have "toMinorUnits (toDecimalString n) = n"
    using n by (simp add: decimal_exact minor_exact)
  with n' show "refund_total d x + toMinorUnits (toDecimalString n) \<le> pt_amount x" by simp
qed

lemma kept_record_refund:
  assumes inv: "pay_inv (pe_uuid E) d" and inj: "inj (pe_uuid E)" and n: "0 \<le> fv_refundAmount v"
    and x: "findPaymentTransactionById tn (pt_id (fv_txn v)) d = Some (fv_txn v)"
  shows "kept (pay_inv (pe_uuid E)) d (record_refund E tn act reason v reply)"
  unfolding record_refund_def Let_def
  apply (intro kept_need kept_ask kept_check kept_exec inv)
  apply (rule kept_keeps)
  subgoal
    using txn_found [OF x] n by (intro checked_row [OF inv inj, of "fv_txn v"]) (auto simp: view_amount_def)
  apply (intro keeps_carry_out safe_runs; simp)
  done

lemma read_refund_Inr:
  assumes "read_refund tn i amount w = (Inr v, w')"
  shows "w' = w" and "findPaymentTransactionById tn i (pw_db w) = Some (fv_txn v)"
    and "pt_status (fv_txn v) = ''captured''"
    and "findPaymentOrderById tn (pt_order (fv_txn v)) (pw_db w) = Some (fv_payment v)"
    and "order_by_id (po_booking (fv_payment v)) (pw_db w) = Some (fv_booking v)"
    and "0 < fv_refundAmount v"
    and "fv_refundAmount v \<le> view_amount v
      - refunded_minor (findRefundsForTransaction tn (pt_id (fv_txn v)) (pw_db w))"
    and "fv_organizerId v = organizer_of (fv_booking v) (pw_db w)"
  using assms by (auto simp: read_refund_def run_simps Let_def view_amount_def)

lemma read_approval_Inr:
  assumes "read_approval tn i w = (Inr (r, v), w')"
  shows "w' = w" and "find_refund tn i (pw_db w) = Some r"
    and "findPaymentTransactionById tn (pf_txn r) (pw_db w) = Some (fv_txn v)"
    and "fv_refundAmount v = toMinorUnits (pf_amount r)"
    and "findPaymentOrderById tn (pt_order (fv_txn v)) (pw_db w) = Some (fv_payment v)"
  using assms by (auto simp: read_approval_def run_simps)

text \<open>An operation that reads first: what a reader returns holds of the tables it leaves.\<close>

lemma keeps_reader:
  assumes reads: "\<And>w x w'. m w = (x, w') \<Longrightarrow> w' = w"
    and k: "\<And>x w. P (pw_db w) \<Longrightarrow> m w = (Inr x, w) \<Longrightarrow> kept P (pw_db w) (k x)"
  shows "keeps P (bnd m k)"
proof (rule keepsI)
  fix w r w' assume P: "P (pw_db w)" and run: "bnd m k w = (r, w')"
  obtain a w1 where m1: "m w = (a, w1)" by force
  with reads have same: "w1 = w" by blast
  show "P (pw_db w')"
  proof (cases a)
    case (Inl e)
    with run m1 P same show ?thesis by (simp add: bnd_def)
  next
    case (Inr x)
    with run m1 same have "k x w = (r, w')" by (simp add: bnd_def)
    with k [OF P] m1 Inr same show ?thesis by (auto elim: keptD)
  qed
qed

definition reader :: "'a run \<Rightarrow> bool" where "reader m \<longleftrightarrow> (\<forall>w. snd (m w) = w)"

lemma reader_bnd: "reader m \<Longrightarrow> (\<And>x. reader (k x)) \<Longrightarrow> reader (bnd m k)"
  by (auto simp: reader_def bnd_def split: prod.splits sum.splits) (metis snd_conv)+

lemma reader_quiet: "reader (ret x)" "reader (throw e)" "reader (check b e)" "reader (lift r)" "reader (ask g)" "reader (need h e)"
  by (auto simp: reader_def run_defs need_def bnd_def split: prod.splits sum.splits)

lemmas readers = reader_bnd reader_quiet

lemma readerD: "reader m \<Longrightarrow> m w = (x, w') \<Longrightarrow> w' = w"
  by (metis reader_def snd_conv)

lemma reader_reads: "reader (read_refund tn i amount)" "reader (read_approval tn i)" "reader (read_request E tn i act)"
  unfolding read_refund_def read_approval_def read_request_def Let_def by (intro readers)+

lemma keeps_refund_locked:
  assumes inj: "inj (pe_uuid E)"
  shows "keeps (pay_inv (pe_uuid E)) (refundPaymentLocked E tn act i amount reason)"
  unfolding refundPaymentLocked_def
proof (rule keeps_reader [OF readerD [OF reader_reads(1)]])
  fix v w assume inv: "pay_inv (pe_uuid E) (pw_db w)" and read: "read_refund tn i amount w = (Inr v, w)"
  note r = read_refund_Inr [OF read]
  have "findPaymentTransactionById tn (pt_id (fv_txn v)) (pw_db w) = Some (fv_txn v)"
    using r(2) txn_found [OF r(2)] by simp
  then show "kept (pay_inv (pe_uuid E)) (pw_db w)
    (bnd (call (Call_refund (pt_razorpayId (fv_txn v)) (fv_refundAmount v) (Some (refund_key E tn v)))) (\<lambda>_.
     bnd (lift (pe_refund E (pt_razorpayId (fv_txn v)) (fv_refundAmount v))) (\<lambda>reply.
     bnd (check (refund_id_ok reply) (invalid_refund_id reply)) (\<lambda>_.
     txn (record_refund E tn act reason v reply)))))"
    using r(6) by (intro kept_call kept_lift kept_check kept_txn inv kept_record_refund inj) simp_all
qed

lemma keeps_refund:
  "inj (pe_uuid E) \<Longrightarrow> keeps (pay_inv (pe_uuid E)) (refundPayment E tn act i amount reason)"
  unfolding refundPayment_def by (intro keeps_refund_locked safe_runs)

text \<open>Approval: the row becomes processed under the check against the other refunds.\<close>

lemma others_total:
  assumes inv: "pay_inv uuid d" and r: "r \<in> set (pay_refunds d)" "\<not> live_refund r"
  shows "refunded_minor (filter (\<lambda>y. pf_id y \<noteq> pf_id r) (findRefundsForTransaction (pt_tenant x) (pt_id x) d))
    = refund_total d x"
proof -
  have "distinct (map pf_id (pay_refunds d))" using inv by (simp add: pay_inv_def refund_rows_def)
  from sum_where_without_key [OF this r(1), of "\<lambda>r. pf_tenant r = pt_tenant x \<and> pf_txn r = pt_id x \<and> live_refund r"
      "\<lambda>r. toMinorUnits (pf_amount r)"] r(2)
  show ?thesis
    by (simp add: refund_total_sum refunded_minor_def findRefundsForTransaction_def sum_where_def conj_ac)
qed

lemma kept_record_approval:
  assumes inv: "pay_inv (pe_uuid E) d" and inj: "inj (pe_uuid E)"
    and r: "find_refund tn i d = Some r" and n: "fv_refundAmount v = toMinorUnits (pf_amount r)"
    and x: "findPaymentTransactionById tn (pf_txn r) d = Some (fv_txn v)"
  shows "kept (pay_inv (pe_uuid E)) d (record_approval E tn act r v reply)"
proof -
  let ?x = "fv_txn v"
  have rx: "r \<in> set (pay_refunds d)" "pf_tenant r = tn" using r by (auto simp: find_refund_def dest: find_SomeD)
  note x' = txn_found [OF x]
  have step: "pay_inv (pe_uuid E) d'"
    if fits: "fv_refundAmount v \<le> view_amount v
        - refunded_minor (filter (\<lambda>y. pf_id y \<noteq> pf_id r) (findRefundsForTransaction tn (pt_id ?x) d))"
      and set: "set_refund (pf_id r) (\<lambda>y. y\<lparr>pf_razorpayId := rid, pf_status := st, pf_approval := ap\<rparr>) d = Inr (u, d')"
    for rid st ap u d'
  proof (rule pay_inv_set_refund [OF inv set])
    fix y x assume y: "y \<in> set (pay_refunds d)" "pf_id y = pf_id r" and x: "x \<in> set (pay_txns d)" "pf_txn y = pt_id x"
      and small: "pt_amount x < 2 ^ 47"
    have yr: "y = r" by (rule same_refund [OF inv y(1) rx(1) y(2)])
    have xx: "x = ?x" using same_txn [OF inv x(1)] x' x(2) yr by simp
    have "0 \<le> pt_amount x" using inv x by (simp add: pay_inv_def txn_rows_def)
    then have "view_amount v = pt_amount x" using small xx by (simp add: view_amount_def minor_exact)
    show "live_refund y \<or> refund_total d x + toMinorUnits (pf_amount y) \<le> pt_amount x"
    proof (cases "live_refund r")
      case False
      have "fv_refundAmount v \<le> view_amount v - refund_total d ?x"
        using fits others_total [OF inv rx(1) False, of ?x] x' by simp
      with \<open>view_amount v = pt_amount x\<close> show ?thesis by (simp add: n xx yr)
    qed (simp add: yr)
  qed simp
  show ?thesis
    unfolding record_approval_def Let_def
    apply (intro kept_need kept_ask kept_check kept_exec inv)
    apply (rule kept_keeps)
     apply (erule (1) step)
    apply (intro keeps_carry_out safe_runs; simp)
    done
qed

lemma keeps_approve:
  assumes inj: "inj (pe_uuid E)"
  shows "keeps (pay_inv (pe_uuid E)) (approveRefundAdmin E tn i act)"
  unfolding approveRefundAdmin_def
proof (rule keeps_reader [OF readerD [OF reader_reads(2)]])
  fix rv w assume inv: "pay_inv (pe_uuid E) (pw_db w)" and read: "read_approval tn i w = (Inr rv, w)"
  obtain r v where rv: "rv = (r, v)" by force
  note f = read_approval_Inr [OF read [unfolded rv]]
  show "kept (pay_inv (pe_uuid E)) (pw_db w) (case rv of (refund, v) \<Rightarrow>
     bnd (call (Call_refund (pt_razorpayId (fv_txn v)) (fv_refundAmount v) None)) (\<lambda>_.
     bnd (lift (pe_refund E (pt_razorpayId (fv_txn v)) (fv_refundAmount v))) (\<lambda>reply.
     bnd (check (refund_id_ok reply) (invalid_refund_id reply)) (\<lambda>_.
     txn (record_approval E tn act refund v reply)))))"
    unfolding rv prod.case
    by (intro kept_call kept_lift kept_check kept_txn inv kept_record_approval [OF inv inj f(2,4,3)])
qed

lemma keeps_reject: "keeps (pay_inv uuid) (rejectRefundAdmin tn i act why)"
proof -
  have dead: "keeps (pay_inv uuid) (exec (set_refund i (\<lambda>x. x\<lparr>pf_status := ''rejected'', pf_approval := ''rejected'',
      pf_rejection := m\<rparr>)))" for m
    by (rule keeps_exec, erule pay_inv_dead_row, assumption) (auto simp: live_refund_def)
  show ?thesis
    unfolding rejectRefundAdmin_def Let_def
    by (intro dead keeps_bnd keeps_txn keeps_quiet keeps_modify_calm; simp)
qed

section \<open>The request of a customer\<close>

lemma kept_request_row:
  assumes inv: "pay_inv (pe_uuid E) d" and inj: "inj (pe_uuid E)" and n: "0 \<le> fv_refundAmount v"
    and x: "fv_txn v \<in> set (pay_txns d)"
  shows "kept (pay_inv (pe_uuid E)) d (request_row E tn v pre st ap reason)"
proof -
  have mark: "keeps (pay_inv (pe_uuid E)) (exec (set_refund i (\<lambda>x. x\<lparr>pf_approval := ap\<rparr>)))" for i
    by (rule keeps_exec, erule pay_inv_set_refund, assumption) (auto simp: live_refund_def)
  have tenant: "pt_tenant (fv_txn v) = tn" if "findPaymentTransactionById tn (pt_id (fv_txn v)) d = Some y" for y
    using txn_found [OF that] same_txn [OF inv x, of y] by simp
  show ?thesis
    unfolding request_row_def Let_def
    apply (intro kept_need kept_ask kept_check inv)
    apply (rule kept_exec, rule inv, rule kept_keeps)
    subgoal
      using n by (intro checked_row [OF inv inj x]) (auto simp: view_amount_def dest!: tenant)
    apply (intro mark keeps_bnd keeps_quiet)
    done
qed

lemma read_request_Inr:
  assumes "read_request E tn i act w = (Inr v, w')"
  shows "fv_txn v \<in> set (pay_txns (pw_db w))" and "fv_refundAmount v = toMinorUnits (bo_total (fv_booking v))"
    and "fv_booking v \<in> set (orders (shop (pw_db w)))"
  using assms by (auto simp: read_request_def run_simps dest: find_SomeD)

lemma keeps_request:
  assumes inj: "inj (pe_uuid E)"
  shows "keeps (pay_inv (pe_uuid E)) (requestCustomerRefund E tn i act reason toWallet)"
  unfolding requestCustomerRefund_def
proof (rule keeps_reader [OF readerD [OF reader_reads(3)]])
  fix v w assume inv: "pay_inv (pe_uuid E) (pw_db w)" and read: "read_request E tn i act w = (Inr v, w)"
  note r = read_request_Inr [OF read]
  have n: "0 \<le> fv_refundAmount v" using order_amount_nonneg(2) [OF inv r(3)] by (simp add: r(2))
  note row = kept_request_row [OF inv inj n r(1)]
  have wallet: "kept (pay_inv (pe_uuid E)) (pw_db w) (wallet_refund E tn act reason v)"
    unfolding wallet_refund_def Let_def credit_user_def release_refunded_def
    by (rule kept_bnd [OF row]) (intro keeps_shop_steps keeps_wallets safe_runs; ((simp; fail) | auto simp: calm_def Let_def))
  have request: "kept (pay_inv (pe_uuid E)) (pw_db w) (bnd (request_row E tn v ''req_'' ''requested'' ''pending'' why)
      (\<lambda>r. bnd (modify (logPaymentLifecycleEvent (ev r))) (\<lambda>_. ret r)))" for why ev
    by (rule kept_bnd [OF row]) (intro safe_runs; simp)
  show "kept (pay_inv (pe_uuid E)) (pw_db w) (if toWallet then txn (wallet_refund E tn act reason v)
     else txn (
       bnd (request_row E tn v ''req_'' ''requested'' ''pending''
              (if truthy reason then the reason else ''Customer refund request'')) (\<lambda>r.
       bnd (modify (logPaymentLifecycleEvent (refund_event tn (Some (po_id (fv_payment v))) (pf_id r)
              ''refund.requested'' (Some (payment_text (po_status (fv_payment v)))) (Some ''requested'')
              (Some act)))) (\<lambda>_. ret r))))"
    using wallet request inv by (auto intro: kept_txn)
qed

section \<open>Cancelled events, settlements and withdrawals\<close>

lemma keeps_refund_bookings:
  assumes "\<And>k. inj (pe_uuid (E k)) \<and> pe_uuid (E k) = uuid"
  shows "keeps (pay_inv uuid) (refund_bookings E tn act k bs)"
proof (induction bs arbitrary: k)
  case (Cons b bs)
  obtain i n x where b: "b = (i, n, x)" by (metis prod.exhaust)
  have "keeps (pay_inv uuid) (refundPayment (E k) tn act x a why)" for a why
    using keeps_refund [of "E k"] assms by metis
  with Cons show ?case unfolding b refund_bookings.simps by (intro keeps_bnd keeps_handle keeps_quiet)
qed (simp add: keeps_quiet)

lemma keeps_cancel:
  assumes "\<And>k. inj (pe_uuid (E k)) \<and> pe_uuid (E k) = uuid"
  shows "keeps (pay_inv uuid) (processEventCancellation E tn i act)"
  unfolding processEventCancellation_def by (intro keeps_refund_bookings assms safe_runs; simp)

lemma keeps_settle_credits: "keeps (pay_inv uuid) (settle_credits E tn k ts)"
proof (induction ts arbitrary: k)
  case (Cons t ts)
  have one: "keeps (pay_inv uuid) (settle_credit E tn P t b)" for P b
    unfolding settle_credit_def Let_def by (intro keeps_balances safe_runs; simp)
  show ?case unfolding settle_credits.simps by (intro Cons one safe_runs)
qed (simp add: keeps_quiet)

lemma keeps_settlements:
  "keeps (pay_inv uuid) (generateSettlementRun E tn)" "keeps (pay_inv uuid) (approveSettlementRun E tn i who)"
  "keeps (pay_inv uuid) (processSettlements E tn)" "keeps (pay_inv uuid) (rejectSettlementRun E tn i act)"
proof -
  show gen: "keeps (pay_inv uuid) (generateSettlementRun E tn)"
    unfolding generateSettlementRun_def settlement_lock_def Let_def
    by (intro safe_runs) (auto dest: calm_new_run)
  show app: "keeps (pay_inv uuid) (approveSettlementRun E tn i who)" for i who
    unfolding approveSettlementRun_def settlement_lock_def by (intro keeps_settle_credits safe_runs; simp)
  show "keeps (pay_inv uuid) (processSettlements E tn)"
    unfolding processSettlements_def by (intro gen app safe_runs)
  show "keeps (pay_inv uuid) (rejectSettlementRun E tn i act)"
    unfolding rejectSettlementRun_def by (intro safe_runs; simp)
qed

lemma keeps_withdrawals:
  "keeps (pay_inv uuid) (requestWithdrawal E tn org amount)"
  "keeps (pay_inv uuid) (processWithdrawal E tn i decision act)"
  "keeps (pay_inv uuid) (handleWithdrawalCallback E payout outcome)"
proof -
  have status: "keeps (pay_inv uuid) (exec (updateWithdrawalRequestStatus now tn i st who))" for now tn i st who
    by (rule keeps_exec_calm) (auto dest: calm_facts)
  have balances: "keeps (pay_inv uuid) (exec (wallet_paid wl r))" "keeps (pay_inv uuid) (exec (wallet_returned wl r))" for wl r
    unfolding wallet_paid_def wallet_returned_def by (intro keeps_balances calm_safe_inv)+
  have fresh: "keeps (pay_inv uuid) (exec (\<lambda>d. Inr (createWithdrawalRequest u r d)))" for u r
    by (rule keeps_exec_calm) (auto dest: calm_facts)
  show "keeps (pay_inv uuid) (requestWithdrawal E tn org amount)"
    unfolding requestWithdrawal_def Let_def by (intro fresh keeps_balances safe_runs; simp)
  show "keeps (pay_inv uuid) (processWithdrawal E tn i decision act)"
    unfolding processWithdrawal_def createPayout_def
    by (cases decision; simp only: withdrawal_decision.case; intro status balances safe_runs; simp)
  show "keeps (pay_inv uuid) (handleWithdrawalCallback E payout outcome)"
    unfolding handleWithdrawalCallback_def by (intro status balances safe_runs; simp)
qed

section \<open>Every sequence of operations\<close>

text \<open>
  The other parts of the application may change the booking tables and the ledger between two
  payment operations in any way that keeps order totals non-negative. Every operation, with any
  outcome, is a step.
\<close>

inductive pay_step :: "(nat \<Rightarrow> id) \<Rightarrow> pay_world \<Rightarrow> pay_world \<Rightarrow> bool" for uuid where
  Outside: "pay_step uuid w (w\<lparr>pw_db := (pw_db w)\<lparr>shop := s\<rparr>, pw_ledger := l\<rparr>)"
    if "list_all (\<lambda>b. 0 \<le> bo_total b) (orders s)"
| Checkout: "pay_step uuid w w'" if "pe_uuid E = uuid" "createPaymentOrderFor E tn act i w = (r, w')"
| Confirm: "pay_step uuid w w'" if "pe_uuid E = uuid" "confirmPaymentAndOrder E ci w = (r, w')"
| Failure: "pay_step uuid w w'" if "pe_uuid E = uuid" "handlePaymentFailure E rid pid w = (r, w')"
| Capture: "pay_step uuid w w'" if "pe_uuid E = uuid" "capturePayment E tn pid g w = (r, w')"
| Sync: "pay_step uuid w w'" if "pe_uuid E = uuid" "syncPaymentState E tn i go recent w = (r, w')"
| Refund: "pay_step uuid w w'" if "pe_uuid E = uuid" "refundPayment E tn act i amount reason w = (r, w')"
| Approve: "pay_step uuid w w'" if "pe_uuid E = uuid" "approveRefundAdmin E tn i act w = (r, w')"
| Reject: "pay_step uuid w w'" if "rejectRefundAdmin tn i act reason w = (r, w')"
| Request: "pay_step uuid w w'" if "pe_uuid E = uuid" "requestCustomerRefund E tn i act reason toWallet w = (r, w')"
| Cancel: "pay_step uuid w w'" if "\<And>k. pe_uuid (Ek k) = uuid" "processEventCancellation Ek tn i act w = (r, w')"
| Settle: "pay_step uuid w w'" if "pe_uuid E = uuid" "generateSettlementRun E tn w = (r, w')"
| Settle_approve: "pay_step uuid w w'" if "pe_uuid E = uuid" "approveSettlementRun E tn i who w = (r, w')"
| Settle_reject: "pay_step uuid w w'" if "pe_uuid E = uuid" "rejectSettlementRun E tn i act w = (r, w')"
| Withdraw: "pay_step uuid w w'" if "pe_uuid E = uuid" "requestWithdrawal E tn org wish w = (r, w')"
| Withdraw_process: "pay_step uuid w w'" if "pe_uuid E = uuid" "processWithdrawal E tn i decision act w = (r, w')"
| Callback: "pay_step uuid w w'" if "pe_uuid E = uuid" "handleWithdrawalCallback E payout outcome w = (r, w')"

inductive pay_reach :: "(nat \<Rightarrow> id) \<Rightarrow> pay_world \<Rightarrow> bool" for uuid where
  start: "pay_reach uuid w" if "pay_orders (pw_db w) = []" "pay_txns (pw_db w) = []" "pay_refunds (pw_db w) = []"
    "list_all (\<lambda>b. 0 \<le> bo_total b) (orders (shop (pw_db w)))"
| step: "pay_reach uuid w'" if "pay_reach uuid w" "pay_step uuid w w'"

lemma keeps_operations:
  assumes "pe_uuid E = uuid" "inj uuid"
  shows "keeps (pay_inv uuid) (confirmPaymentAndOrder E ci)" "keeps (pay_inv uuid) (handlePaymentFailure E rid pid)"
    "keeps (pay_inv uuid) (capturePayment E tn pid g)" "keeps (pay_inv uuid) (syncPaymentState E tn i go recent)"
    "keeps (pay_inv uuid) (refundPayment E tn act i amount reason)" "keeps (pay_inv uuid) (approveRefundAdmin E tn i act)"
    "keeps (pay_inv uuid) (requestCustomerRefund E tn i act reason toWallet)"
proof -
  have inj: "inj (pe_uuid E)" using assms by simp
  note ops = keeps_confirm [OF inj] keeps_failure [OF inj] keeps_capture [OF inj] keeps_sync [OF inj]
    keeps_refund [OF inj] keeps_approve [OF inj] keeps_request [OF inj]
  show "keeps (pay_inv uuid) (confirmPaymentAndOrder E ci)" "keeps (pay_inv uuid) (handlePaymentFailure E rid pid)"
    "keeps (pay_inv uuid) (capturePayment E tn pid g)" "keeps (pay_inv uuid) (syncPaymentState E tn i go recent)"
    "keeps (pay_inv uuid) (refundPayment E tn act i amount reason)" "keeps (pay_inv uuid) (approveRefundAdmin E tn i act)"
    "keeps (pay_inv uuid) (requestCustomerRefund E tn i act reason toWallet)"
    by (rule ops [unfolded assms(1)])+
qed

lemma run_kept: "m w = (r, w') \<Longrightarrow> P (pw_db w) \<Longrightarrow> keeps P m \<Longrightarrow> P (pw_db w')"
  by (auto simp: keeps_def)

lemma step_keeps:
  assumes inj: "inj uuid" and "pay_step uuid w w'" and inv: "pay_inv uuid (pw_db w)"
  shows "pay_inv uuid (pw_db w')"
  using assms(2)
proof cases
  case (Outside s l)
  with inv show ?thesis
    by (auto simp: pay_inv_def refund_rows_def txn_rows_def within_captured_def refund_total_def
        findRefundsForTransaction_def list_all_iff)
next
  case (Cancel Ek tn i act r)
  with inj have "keeps (pay_inv uuid) (processEventCancellation Ek tn i act)" by (intro keeps_cancel) simp
  with inv Cancel(2) show ?thesis by (blast dest: keepsD)
qed ((erule run_kept [where P = "pay_inv uuid"], rule inv, rule keeps_operations keeps_create_order keeps_reject
  keeps_settlements keeps_withdrawals, (assumption | rule inj)+ | erule run_kept [where P = "pay_inv uuid"], rule inv,
  rule keeps_create_order keeps_reject keeps_settlements keeps_withdrawals)+)

lemma reach_inv: "pay_reach uuid w \<Longrightarrow> inj uuid \<Longrightarrow> pay_inv uuid (pw_db w)"
proof (induction rule: pay_reach.induct)
  case (start w)
  then show ?case by (simp add: pay_inv_def refund_rows_def txn_rows_def within_captured_def list_all_iff)
qed (blast intro: step_keeps)

end
