(* ===== verification/PayProps.thy ===== *)
theory PayProps
  imports PayReach
begin

text \<open>
  Properties of the payment service: what confirmation, refunds, settlements and withdrawals
  promise, and where they break it.
\<close>

section \<open>A sample payment\<close>

definition demo_hold :: reservation where
  "demo_hold = \<lparr>rv_id = ''rv1'', rv_tenant = ''t1'', rv_event = ''e1'', rv_ticketType = ''vip'',
     rv_order = Some ''o1'', rv_token = ''tok'', rv_quantity = 2, rv_status = R_active, rv_expiresAt = 100,
     rv_convertedAt = None, rv_releasedAt = None, rv_version = 1, rv_extensionCount = 0, rv_maxExtensions = 2,
     rv_metadata = ''{}'', rv_createdBy = Some ''u1'', rv_updatedBy = None, rv_deletedAt = None\<rparr>"

definition demo_event :: event_row where
  "demo_event = \<lparr>ev_id = ''e1'', ev_tenant = ''t1'', ev_organizer = Some ''org1'', ev_title = ''Rock Night'',
     ev_startDateTime = 1000, ev_endDateTime = 2000, ev_status = ''published'', ev_deletedAt = None\<rparr>"

definition empty_pay :: "booking_db \<Rightarrow> pay_db" where
  "empty_pay s = \<lparr>shop = s, pay_orders = [], pay_txns = [], pay_refunds = [], pay_events = [], pay_audits = [],
     wallets = [], wallet_txns = [], runs = [], withdrawals = [], organizers = [], user_wallets = [],
     user_wallet_txns = [], pay_next = 0\<rparr>"

definition demo_start :: pay_world where
  "demo_start = \<lparr>pw_db = empty_pay (empty_booking\<lparr>events := [demo_event],
       ticket_types := [demo_type\<lparr>tt_reserved := 2\<rparr>], reservations := [demo_hold],
       orders := [(demo_order ''o1'' ''e1'')\<lparr>bo_status := O_pending\<rparr>], order_items := [demo_line ''i1'' ''o1'']\<rparr>),
     pw_ledger = start_world, pw_calls = []\<rparr>"

definition demo_pay_env :: "nat \<Rightarrow> time_ms \<Rightarrow> pay_env" where
  "demo_pay_env k now = \<lparr>pe_shop = demo_booking_env now, pe_post = (\<lambda>j. demo_env),
     pe_createOrder = (\<lambda>n c i. Inr (''order_'' @ i)),
     pe_refund = (\<lambda>p n. Inr \<lparr>rr_id = Some (''rfnd_'' @ show_nat k), rr_failed = False\<rparr>),
     pe_sha256 = (\<lambda>s. take 3 (rev s)), pe_spread = (\<lambda>m fs. m), pe_lock = (\<lambda>s. True), pe_feeBps = 500,
     pe_mockPayouts = True, pe_isUuid = (\<lambda>s. s \<noteq> ''system''), pe_startOfDay = 0\<rparr>"

definition demo_checkout :: "checkout res \<times> pay_world" where
  "demo_checkout = createPaymentOrderFor (demo_pay_env 0 5) ''t1'' ''u1'' ''o1'' demo_start"

definition demo_confirm :: confirm_input where
  "demo_confirm = \<lparr>cf_razorpayOrderId = ''order_o1'', cf_razorpayPaymentId = ''pay_1'',
     cf_reservationIds = Some ''rv1'', cf_reservationTokens = Some ''tok'', cf_noteIds = None,
     cf_noteIdsPlural = None, cf_noteTokens = None, cf_noteTokensPlural = None, cf_lockAcquired = False\<rparr>"

definition demo_paid :: "time_ms \<Rightarrow> unit res \<times> pay_world" where
  "demo_paid now = confirmPaymentAndOrder (demo_pay_env 0 now) demo_confirm (snd demo_checkout)"

text \<open>The shop after a payment of 1,050.00, written out: the tables a refund or a payout starts from.\<close>

definition demo_txn :: "string \<Rightarrow> payment_txn" where
  "demo_txn st = \<lparr>pt_id = ''1'', pt_tenant = ''t1'', pt_order = ''0'', pt_razorpayId = ''pay_1'',
     pt_amount = 105000, pt_currency = ''INR'', pt_status = st\<rparr>"

definition demo_pay_order :: "payment_state \<Rightarrow> payment_order" where
  "demo_pay_order st = \<lparr>po_id = ''0'', po_tenant = ''t1'', po_booking = ''o1'', po_razorpayId = ''order_o1'',
     po_amount = 105000, po_currency = ''INR'', po_status = st, po_retryCount = 0, po_createdBy = ''u1''\<rparr>"

definition demo_wallet :: wallet_row where
  "demo_wallet = \<lparr>wa_id = ''2'', wa_tenant = ''t1'', wa_organizer = ''org1'', wa_available = 50000,
     wa_pending = 93200, wa_withdrawn = 0\<rparr>"

definition demo_credit :: "string \<Rightarrow> wallet_txn" where
  "demo_credit st = \<lparr>wt_id = ''3'', wt_tenant = ''t1'', wt_organizer = ''org1'', wt_wallet = ''2'',
     wt_type = ''credit'', wt_status = st, wt_amount = 93200, wt_currency = ''INR'',
     wt_refType = ''booking_order'', wt_refId = ''o1'', wt_description = ''Pending revenue for booking o1''\<rparr>"

definition demo_till :: "string \<Rightarrow> pay_world" where
  "demo_till st = \<lparr>pw_db = (empty_pay (empty_booking\<lparr>events := [demo_event], ticket_types := [demo_type],
       orders := [(demo_order ''o1'' ''e1'')\<lparr>bo_status := O_paid, bo_total := 105000\<rparr>],
       order_items := [demo_line ''i1'' ''o1'']\<rparr>))
       \<lparr>pay_orders := [demo_pay_order P_captured], pay_txns := [demo_txn ''captured''],
        wallets := [demo_wallet], wallet_txns := [demo_credit st],
        organizers := [\<lparr>og_id = ''org1'', og_tenant = ''t1'', og_verification = ''verified''\<rparr>], pay_next := 4\<rparr>,
     pw_ledger = \<lparr>committed = demo_db [], outer = []\<rparr>, pw_calls = []\<rparr>"

section \<open>What a confirmation went through\<close>

definition same_rows :: "payment_txn list \<Rightarrow> string \<Rightarrow> pay_db \<Rightarrow> bool" where
  "same_rows T oid d \<longleftrightarrow> pay_txns d = T \<and> findPaymentOrderByRazorpayOrderId oid d \<noteq> None"

lemma order_found_frame:
  "findPaymentOrderByRazorpayOrderId oid d \<noteq> None \<longleftrightarrow> oid \<in> (\<lambda>(i, t, b, r, n). r) ` set (map payment_frame (pay_orders d))"
  by (auto simp: findPaymentOrderByRazorpayOrderId_def find_None_iff payment_frame_def image_iff)

lemma calm_safe_rows [simp]: "calm_safe (same_rows T oid)"
  unfolding calm_safe_def same_rows_def order_found_frame calm_def by auto

lemma same_rows_refund:
  "same_rows T oid d \<Longrightarrow> createPaymentRefund u r d = Inr (x, d') \<Longrightarrow> same_rows T oid d'"
  "same_rows T oid d \<Longrightarrow> set_refund i f d = Inr (y, d') \<Longrightarrow> same_rows T oid d'"
  by (auto simp: same_rows_def createPaymentRefund_def set_refund_def findPaymentOrderByRazorpayOrderId_def Let_def
      split: if_splits)

lemma take_payment_rows:
  assumes "take_payment E p i st ty w = (Inr x, w')" "same_rows T oid (pw_db w)"
  shows "same_rows (T @ [x]) oid (pw_db w') \<and> pt_razorpayId x = i \<and> pt_status x = payment_text st
    \<and> pt_tenant x = po_tenant p \<and> \<not> list_ex (\<lambda>y. pt_tenant y = po_tenant p \<and> pt_razorpayId y = i) T"
proof -
  from assms(1) obtain d1 d2 where st: "updatePaymentOrderStatus (po_tenant p) (po_id p) st (pw_db w) = Inr ((), d1)"
    and new: "createPaymentTransaction (pe_uuid E) (captured_txn p i (payment_text st)) d1 = Inr (x, d2)"
    and w': "pw_db w' = logPaymentLifecycleEvent (txn_event p (pt_id x) ty st) d2"
    by (auto simp: take_payment_def run_simps)
  have "same_rows T oid d1" by (rule calm_safeD [OF calm_safe_rows assms(2) calm_order_status [OF st]])
  then have "same_rows (T @ [x]) oid d2" using new
    by (auto simp: same_rows_def createPaymentTransaction_def findPaymentOrderByRazorpayOrderId_def Let_def split: if_splits)
  then have "same_rows (T @ [x]) oid (pw_db w')"
    unfolding w' by (rule calm_safeD [OF calm_safe_rows]) simp
  with new \<open>same_rows T oid d1\<close> show ?thesis
    by (auto simp: createPaymentTransaction_def captured_txn_def Let_def same_rows_def split: if_splits)
qed

text \<open>The transaction a flow adds, and nothing else to the transactions and payment orders.\<close>

definition adds_payment :: "payment_order \<Rightarrow> string \<Rightarrow> payment_txn list \<Rightarrow> string \<Rightarrow> pay_db \<Rightarrow> bool" where
  "adds_payment p i T oid d \<longleftrightarrow> (\<exists>x. same_rows (T @ [x]) oid d \<and> pt_razorpayId x = i \<and> pt_status x = ''captured''
     \<and> \<not> list_ex (\<lambda>y. pt_tenant y = po_tenant p \<and> pt_razorpayId y = i) T)"

lemma calm_safe_adds [simp]: "calm_safe (adds_payment p i T oid)"
  unfolding calm_safe_def adds_payment_def using calm_safeD [OF calm_safe_rows] by blast

lemma adds_payment_refund:
  "adds_payment p i T oid d \<Longrightarrow> createPaymentRefund u r d = Inr (x, d') \<Longrightarrow> adds_payment p i T oid d'"
  "adds_payment p i T oid d \<Longrightarrow> set_refund j f d = Inr (y, d') \<Longrightarrow> adds_payment p i T oid d'"
  unfolding adds_payment_def using same_rows_refund by blast+

lemma take_payment_adds:
  "same_rows T oid (pw_db w) \<Longrightarrow> take_payment E p i P_captured ty w = (Inr x, w') \<Longrightarrow> adds_payment p i T oid (pw_db w')"
  using take_payment_rows [of E p i P_captured ty w x w' T oid] by (auto simp: adds_payment_def)

lemma keeps_loops:
  assumes "calm_safe P"
  shows "keeps P (each (book_reservation now tn i p) rs)" "keeps P (each (expire_late now tn i p) rs)"
    "keeps P (each (token_checked ids ts) rs)" "keeps P (each (owner_checked tn b p) rs)"
  using assms by (auto intro!: keeps_each keeps_reservations)

lemma flow_adds:
  assumes start: "same_rows T oid (pw_db w)"
  shows "normal_flow E p b i rs w = (Inr (), w') \<Longrightarrow> adds_payment p i T oid (pw_db w')"
    and "late_flow E p b i rs w = (Inr rn, w') \<Longrightarrow> adds_payment p i T oid (pw_db w')"
proof -
  assume run: "normal_flow E p b i rs w = (Inr (), w')"
  let ?pay = "(if settled_order (bo_status b) then ret ()
          else bnd (modify (set_order (bo_id b) (\<lambda>x. x\<lparr>bo_status := O_paid,
                 bo_confirmedAt := (case bo_confirmedAt b of None \<Rightarrow> Some (pe_now E) | Some c \<Rightarrow> Some c),
                 bo_updatedAt := pe_now E\<rparr>))) (\<lambda>_.
               on_shop (issueIssuedTicketsForBookingOrder (pe_shop E) (po_tenant p) (bo_id b) (Some owner))))"
  have pay: "keeps (same_rows T oid) ?pay"
    by (intro keeps_shop_steps safe_runs; simp)
  show "adds_payment p i T oid (pw_db w')"
    using run unfolding normal_flow_def
  proof (elim bndE)
    fix u w1 v w2 x w3 y w4 z w5
    assume booked: "each (book_reservation (pe_now E) (po_tenant p) (bo_id b) p) rs w = (Inr u, w1)"
      and paid: "?pay w1 = (Inr v, w2)"
      and take: "take_payment E p i P_captured ''payment_order.captured'' w2 = (Inr x, w3)"
      and rest: "posting_in (\<lambda>P ext. postPaymentCapture P ext (capture_of p x)) (pe_post E 0) w3 = (Inr y, w4)"
        "stage_wallet E b p w4 = (Inr z, w5)"
        "modify (logPaymentAudit (order_audit (Some (po_createdBy p)) p ''capture''
          (Some (payment_text (po_status p))) (Some ''captured''))) w5 = (Inr (), w')"
    have "same_rows T oid (pw_db w1)"
      by (rule keepsD [OF keeps_loops(1) [OF calm_safe_rows] start booked])
    then have "same_rows T oid (pw_db w2)"
      by (rule keepsD [OF pay _ paid])
    then have "adds_payment p i T oid (pw_db w3)" by (rule take_payment_adds [OF _ take])
    then have "adds_payment p i T oid (pw_db w4)" by (rule keepsD [OF keeps_quiet(8) _ rest(1)])
    then have "adds_payment p i T oid (pw_db w5)" by (rule keepsD [OF keeps_wallets(2) [OF calm_safe_adds] _ rest(2)])
    then show ?thesis
      by (rule keepsD [OF keeps_modify_calm [OF calm_safe_adds calm_update(2)] _ rest(3)])
  qed
next
  assume run: "late_flow E p b i rs w = (Inr rn, w')"
  show "adds_payment p i T oid (pw_db w')"
    using run unfolding late_flow_def
  proof (elim bndE)
    fix u w0 v w1 x w2 rnd w3 r w4
    assume order: "modify (set_order (bo_id b) (\<lambda>x. x\<lparr>bo_status := O_expired, bo_updatedAt := pe_now E\<rparr>)) w = (Inr u, w0)"
      and dead: "each (expire_late (pe_now E) (po_tenant p) (bo_id b) p) rs w0 = (Inr v, w1)"
      and take: "take_payment E p i P_captured ''payment_order.captured'' w1 = (Inr x, w2)"
      and rest: "ask (\<lambda>d. be_random (pe_shop E) (pay_next d)) w2 = (Inr rnd, w3)"
        "exec (createPaymentRefund (pe_uuid E) (new_refund (po_tenant p) (pt_id x) (''rfnd_pending_'' @ rnd)
          (po_amount p) ''pending'' (Some ''Late payment auto-refund''))) w3 = (Inr r, w4)"
        "late_books E p b x r w4 = (Inr rn, w')"
    have set: "keeps (same_rows T oid) (modify (set_order (bo_id b) (\<lambda>x. x\<lparr>bo_status := O_expired, bo_updatedAt := pe_now E\<rparr>)))"
      by (intro safe_runs; simp)
    have "same_rows T oid (pw_db w1)"
      by (rule keepsD [OF keeps_loops(2) [OF calm_safe_rows] keepsD [OF set start order] dead])
    then have "adds_payment p i T oid (pw_db w2)" by (rule take_payment_adds [OF _ take])
    then have "adds_payment p i T oid (pw_db w3)" by (rule keepsD [OF keeps_quiet(5) _ rest(1)])
    then have "adds_payment p i T oid (pw_db w4)" using rest(2) by (auto simp: exec_Inr dest: adds_payment_refund(1))
    then show ?thesis by (rule keepsD [OF keeps_late_books [OF calm_safe_adds] _ rest(3)])
  qed
qed

lemma keeps_set_refund_adds: "keeps (adds_payment p i T oid) (exec (set_refund j f))"
  by (rule keeps_exec, erule (1) adds_payment_refund)

lemma confirm_adds:
  assumes run: "confirm_txn E ci p w = (Inr late, w')" and start: "same_rows T oid (pw_db w)"
  shows "adds_payment p (cf_razorpayPaymentId ci) T oid (pw_db w')"
proof -
  from run obtain b rs w1 w2 where tokens: "each (token_checked (comma_list (the (supplied_ids ci)))
      (comma_list (the (supplied_tokens ci)))) rs w = (Inr (), w1)"
    and owners: "each (owner_checked (po_tenant p) b p) rs w1 = (Inr (), w2)"
    and flow: "(\<exists>rn. late_flow E p b (cf_razorpayPaymentId ci) rs w2 = (Inr rn, w'))
      \<or> normal_flow E p b (cf_razorpayPaymentId ci) rs w2 = (Inr (), w')"
    by (auto simp: confirm_txn_def run_simps split: if_splits)
  have "same_rows T oid (pw_db w1)"
    by (rule keepsD [OF keeps_loops(3) [OF calm_safe_rows] start tokens])
  then have "same_rows T oid (pw_db w2)"
    by (rule keepsD [OF keeps_loops(4) [OF calm_safe_rows] _ owners])
  with flow show ?thesis by (auto dest: flow_adds)
qed

lemma keeps_late_refund_adds: "keeps (adds_payment q j T oid) (late_refund E p i rid n)"
  unfolding late_refund_def
  by (intro keeps_handle keeps_bnd keeps_set_refund_adds keeps_order_status safe_runs; simp)

lemma confirm_success:
  assumes run: "confirmPaymentAndOrder E ci w = (Inr (), w')"
  obtains p where "findPaymentOrderByRazorpayOrderId (cf_razorpayOrderId ci) (pw_db w) = Some p"
    and "(map_option pt_status (findPaymentTransactionByRazorpayPaymentId (cf_razorpayPaymentId ci) (pw_db w))
        = Some ''captured'' \<and> w' = w)
      \<or> adds_payment p (cf_razorpayPaymentId ci) (pay_txns (pw_db w)) (cf_razorpayOrderId ci) (pw_db w')"
proof -
  let ?found = "findPaymentTransactionByRazorpayPaymentId (cf_razorpayPaymentId ci) (pw_db w)"
  from run obtain p where p: "findPaymentOrderByRazorpayOrderId (cf_razorpayOrderId ci) (pw_db w) = Some p"
    by (auto simp: confirmPaymentAndOrder_def run_simps)
  have rows: "same_rows (pay_txns (pw_db w)) (cf_razorpayOrderId ci) (pw_db w)" by (simp add: same_rows_def p)
  have "adds_payment p (cf_razorpayPaymentId ci) (pay_txns (pw_db w)) (cf_razorpayOrderId ci) (pw_db w')"
    if no: "map_option pt_status ?found \<noteq> Some ''captured''"
  proof -
    from run no p obtain late w1 where tx: "txn (confirm_txn E ci p) w = (Inr late, w1)"
      and after: "(case late of None \<Rightarrow> ret ()
          | Some (rid, n) \<Rightarrow> late_refund E p (cf_razorpayPaymentId ci) rid n) w1 = (Inr (), w')"
      by (auto simp: confirmPaymentAndOrder_def bnd_Inr need_Inr ask_Inr check_Inr split: if_splits)
    from tx have "adds_payment p (cf_razorpayPaymentId ci) (pay_txns (pw_db w)) (cf_razorpayOrderId ci) (pw_db w1)"
      by (auto simp: txn_Inr dest: confirm_adds [OF _ rows])
    then show ?thesis
      using after keepsD [OF keeps_late_refund_adds] by (cases late) (auto simp: ret_Inr)
  qed
  with p run show ?thesis
    by (cases "map_option pt_status ?found = Some ''captured''")
      (auto intro!: that simp: confirmPaymentAndOrder_def run_simps)
qed

section \<open>What the gateway is asked\<close>

text \<open>An operation that asks the gateway nothing.\<close>

definition silent :: "'a run \<Rightarrow> bool" where
  "silent m \<longleftrightarrow> (\<forall>w r w'. m w = (r, w') \<longrightarrow> pw_calls w' = pw_calls w)"

lemma silentD: "silent m \<Longrightarrow> m w = (r, w') \<Longrightarrow> pw_calls w' = pw_calls w"
  by (auto simp: silent_def)

lemma silent_bnd: "silent m \<Longrightarrow> (\<And>x. silent (f x)) \<Longrightarrow> silent (bnd m f)"
  unfolding silent_def bnd_def by (auto split: prod.splits sum.splits)

lemma silent_quiet:
  "silent (ret x)" "silent (throw e)" "silent (check b e)" "silent (lift r)" "silent (ask g)"
  "silent (need h e)" "silent (posting_in p P)" "silent (modify u)" "silent (exec v)" "silent (on_shop s)"
  by (auto simp: silent_def run_defs need_def bnd_def posting_in_def exec_def on_shop_def
      split: prod.splits sum.splits)

lemma silent_txn: "silent m \<Longrightarrow> silent (txn m)"
  by (auto simp: silent_def txn_def split: prod.splits sum.splits)

lemma silent_cases:
  "silent m \<Longrightarrow> silent n \<Longrightarrow> silent (if b then m else n)"
  "silent m \<Longrightarrow> (\<And>y. silent (g y)) \<Longrightarrow> silent (case v of None \<Rightarrow> m | Some y \<Rightarrow> g y)"
  by (auto split: option.splits)

lemmas silent_runs = silent_bnd silent_quiet silent_txn silent_cases

lemma silent_carry: "silent (carry_out_refund E j p full reason audit)"
  unfolding carry_out_refund_def release_refunded_def refund_books_def refund_wallet_def
  by (intro silent_runs)

lemma silent_record: "silent (record_refund E tn act reason v reply)"
  unfolding record_refund_def Let_def by (intro silent_runs silent_carry)

section \<open>Properties\<close>

text \<open>
  C4. Refunds stay within the payment: in every state that any sequence of checkouts, confirmations
  (in time or late), failures, captures, synchronisations, refunds, approvals, rejections, customer
  requests, event cancellations, settlements and withdrawals can reach, with any answers of the
  gateway and any ledger errors, the refunds of a payment that have not failed or been rejected add
  up to at most its amount.
\<close>

theorem refunds_within_captured:
  assumes "pay_reach uuid w" "inj uuid" "x \<in> set (pay_txns (pw_db w))" "pt_amount x < 2 ^ 47"
  shows "refunded_minor (findRefundsForTransaction (pt_tenant x) (pt_id x) (pw_db w)) \<le> pt_amount x"
  using reach_inv [OF assms(1,2)] assms(3,4) by (simp add: pay_inv_def within_captured_def refund_total_def)

lemma demo_reached: "pay_reach show_nat (snd (demo_paid now))"
proof -
  have uuid: "pe_uuid (demo_pay_env k t) = show_nat" for k t
    by (simp add: pe_uuid_def demo_pay_env_def demo_booking_env_def)
  have "pay_reach show_nat demo_start"
    by (rule pay_reach.start) (simp_all add: demo_start_def empty_pay_def demo_order_def)
  moreover have "pay_step show_nat demo_start (snd demo_checkout)"
    unfolding demo_checkout_def by (rule pay_step.Checkout [OF uuid]) (rule prod.collapse [symmetric])
  moreover have "pay_step show_nat (snd demo_checkout) (snd (demo_paid now))"
    unfolding demo_paid_def by (rule pay_step.Confirm [OF uuid]) (rule prod.collapse [symmetric])
  ultimately show ?thesis by (blast intro: pay_reach.step)
qed

lemma demo_late_rows:
  "case demo_paid 200 of (r, w) \<Rightarrow> r = Inr () \<and> pay_txns (pw_db w) = [demo_txn ''captured'']
    \<and> map (\<lambda>r. (pf_tenant r, pf_txn r, pf_amount r, pf_status r)) (pay_refunds (pw_db w))
      = [(''t1'', ''1'', 105000, ''processed'')]"
  by code_simp

theorem refunds_within_captured_witness:
  "refunded_minor (findRefundsForTransaction ''t1'' ''1'' (pw_db (snd (demo_paid 200)))) \<le> 105000
    \<and> pay_refunds (pw_db (snd (demo_paid 200))) \<noteq> []"
  using refunds_within_captured [OF demo_reached inj_show_nat, of "demo_txn ''captured''" 200] demo_late_rows
  by (auto simp: demo_txn_def split: prod.splits)

text \<open>
  C5. A payment is confirmed once: after a confirmation succeeded, confirming the same payment again,
  from anywhere, with any tokens and gateway, succeeds and changes nothing: no table, no posting, no
  call to the gateway.
\<close>

theorem confirmation_is_idempotent:
  assumes run: "confirmPaymentAndOrder E ci w = (Inr (), w')"
    and others: "\<forall>x \<in> set (pay_txns (pw_db w)). pt_razorpayId x = cf_razorpayPaymentId ci \<longrightarrow> pt_status x = ''captured''"
    and same: "cf_razorpayOrderId cj = cf_razorpayOrderId ci" "cf_razorpayPaymentId cj = cf_razorpayPaymentId ci"
  shows "confirmPaymentAndOrder E' cj w' = (Inr (), w')"
proof -
  let ?i = "cf_razorpayPaymentId ci"
  from run obtain p where p: "findPaymentOrderByRazorpayOrderId (cf_razorpayOrderId ci) (pw_db w) = Some p"
    and cases: "(map_option pt_status (findPaymentTransactionByRazorpayPaymentId ?i (pw_db w)) = Some ''captured'' \<and> w' = w)
      \<or> adds_payment p ?i (pay_txns (pw_db w)) (cf_razorpayOrderId ci) (pw_db w')"
    by (rule confirm_success)
  have "map_option pt_status (findPaymentTransactionByRazorpayPaymentId ?i (pw_db w')) = Some ''captured''
    \<and> findPaymentOrderByRazorpayOrderId (cf_razorpayOrderId ci) (pw_db w') \<noteq> None"
    using cases
  proof
    assume "adds_payment p ?i (pay_txns (pw_db w)) (cf_razorpayOrderId ci) (pw_db w')"
    then show ?thesis using others
      by (auto simp: adds_payment_def same_rows_def findPaymentTransactionByRazorpayPaymentId_def find_append
          dest!: find_SomeD split: option.splits)
  qed (simp add: p)
  then show ?thesis
    by (auto simp: confirmPaymentAndOrder_def bnd_def need_def ask_def lift_def optR_def ret_def same split: option.splits)
qed


text \<open>
  The sample: 100.00 of a settled payment of 1,050.00. The three shares are rounded one by one and
  miss the refunded amount by 0.01, so the ledger refuses the posting, after the gateway was asked.
\<close>

lemma demo_settled_refund:
  "case refundPayment (demo_pay_env 1 20) ''t1'' ''u1'' ''1'' (Some 100) None (demo_till ''settled'') of
     (r, w) \<Rightarrow> isl r \<and> pw_calls w = [Call_refund ''pay_1'' 10000 (Some ''000'')]"
  by code_simp


theorem confirmation_is_idempotent_witness:
  "confirmPaymentAndOrder (demo_pay_env 7 900) (demo_confirm\<lparr>cf_reservationTokens := None\<rparr>) (snd (demo_paid 200))
    = (Inr (), snd (demo_paid 200))"
proof (rule confirmation_is_idempotent [where ci = demo_confirm and w = "snd demo_checkout" and E = "demo_pay_env 0 200"])
  show "confirmPaymentAndOrder (demo_pay_env 0 200) demo_confirm (snd demo_checkout) = (Inr (), snd (demo_paid 200))"
    using demo_late_rows unfolding demo_paid_def by (cases "confirmPaymentAndOrder (demo_pay_env 0 200) demo_confirm (snd demo_checkout)") auto
  show "\<forall>x \<in> set (pay_txns (pw_db (snd demo_checkout))). pt_razorpayId x = cf_razorpayPaymentId demo_confirm \<longrightarrow> pt_status x = ''captured''"
    by code_simp
qed (simp_all add: demo_confirm_def)

end
