(* ===== verification/PayFlaws.thy ===== *)
theory PayFlaws
  imports PayProps
begin

text \<open>
  What a refund leaves behind: its row, its calls to the gateway, and its approval.
\<close>

section \<open>A refund row after the refund\<close>

lemma refund_success:
  assumes "refundPayment E tn act i amount reason w = (Inr r, w')"
  obtains v reply d where "read_refund tn i amount w = (Inr v, w)"
    and "createPaymentRefund (pe_uuid E) (new_refund tn (pt_id (fv_txn v)) (the (rr_id (reply :: refund_reply)))
      (toDecimalString (fv_refundAmount v)) (if rr_failed reply then ''failed'' else ''processed'')
      (if truthy reason then reason else None)) (pw_db w) = Inr (r, d)"
    and "calm d (pw_db w')"
    and "pw_calls w' = pw_calls w @ [Call_refund (pt_razorpayId (fv_txn v)) (fv_refundAmount v) (Some (refund_key E tn v))]"
proof -
  from assms obtain v w0 reply w1 where read: "read_refund tn i amount w = (Inr v, w0)"
    and rec: "record_refund E tn act reason v reply
      (w0\<lparr>pw_calls := pw_calls w0 @ [Call_refund (pt_razorpayId (fv_txn v)) (fv_refundAmount v) (Some (refund_key E tn v))]\<rparr>)
      = (Inr r, w1)"
    and w': "w' = w1\<lparr>pw_ledger := commit_outer (pw_ledger w1)\<rparr>"
    by (auto simp: refundPayment_def refundPaymentLocked_def bnd_Inr check_Inr call_Inr lift_Inr txn_Inr)
  have same: "w0 = w" by (rule readerD [OF reader_reads(1) read])
  let ?row = "new_refund tn (pt_id (fv_txn v)) (the (rr_id reply)) (toDecimalString (fv_refundAmount v))
    (if rr_failed reply then ''failed'' else ''processed'') (if truthy reason then reason else None)"
  have done_so_far: "\<exists>d. createPaymentRefund (pe_uuid E) ?row (pw_db w0) = Inr (r, d) \<and> calm d (pw_db w1)"
    using rec unfolding record_refund_def Let_def
  proof (elim bndE)
    fix x wa p wb rs wc u wd r' we z wf
    assume steps: "need (findPaymentTransactionById tn (pt_id (fv_txn v)))
            (notFound ''Payment transaction not found inside transaction'')
            (w0\<lparr>pw_calls := pw_calls w0 @ [Call_refund (pt_razorpayId (fv_txn v)) (fv_refundAmount v) (Some (refund_key E tn v))]\<rparr>)
          = (Inr x, wa)"
        "need (findPaymentOrderById tn (po_id (fv_payment v)))
            (notFound ''Associated payment order not found inside transaction'') wa = (Inr p, wb)"
        "ask (findRefundsForTransaction tn (pt_id (fv_txn v))) wb = (Inr rs, wc)"
        "check (fv_refundAmount v \<le> view_amount v - refunded_minor rs)
           (concurrency_failed (view_amount v - refunded_minor rs)) wc = (Inr u, wd)"
      and new: "exec (createPaymentRefund (pe_uuid E) ?row) wd = (Inr r', we)"
      and books: "(if rr_failed reply then ret ()
          else carry_out_refund E (view_job tn act v (pf_id r')) p (fv_totalRefunded v + fv_refundAmount v = view_amount v)
                 (if truthy reason then the reason else ''Merchant initiated'')
                 (refund_audit (view_job tn act v (pf_id r')) ''refund'' (payment_text (po_status p))
                   (payment_text (payment_status_of (fv_totalRefunded v + fv_refundAmount v = view_amount v))))) we = (Inr z, wf)"
      and ret: "ret r' wf = (Inr r, w1)"
    have "calm (pw_db we) (pw_db wf)"
    proof (cases "rr_failed reply")
      case True
      with books show ?thesis by (auto simp: ret_Inr calm_def)
    next
      case False
      with books keepsD [OF keeps_carry_out [OF calm_safe_calm, of "pw_db we"], of we] show ?thesis
        by (auto simp: calm_def)
    qed
    with steps new ret show ?thesis by (auto simp: need_Inr ask_Inr check_Inr exec_Inr ret_Inr)
  qed
  moreover have "pw_calls w1 = pw_calls w @ [Call_refund (pt_razorpayId (fv_txn v)) (fv_refundAmount v) (Some (refund_key E tn v))]"
    using silentD [OF silent_record rec] by (simp add: same)
  ultimately show ?thesis using read done_so_far that [of v reply] by (auto simp: w' same)
qed

lemma approve_calls:
  assumes "read_approval tn i w = (Inr (r, v), w)"
  shows "pw_calls (snd (approveRefundAdmin E tn i act w))
    = pw_calls w @ [Call_refund (pt_razorpayId (fv_txn v)) (fv_refundAmount v) None]"
proof -
  have silent: "silent (record_approval E tn act r v reply)" for reply
    unfolding record_approval_def Let_def by (intro silent_runs silent_carry)
  let ?w = "w\<lparr>pw_calls := pw_calls w @ [Call_refund (pt_razorpayId (fv_txn v)) (fv_refundAmount v) None]\<rparr>"
  have "pw_calls (snd (txn (record_approval E tn act r v reply) ?w)) = pw_calls ?w" for reply
    by (rule silentD [OF silent_txn [OF silent]]) (rule prod.collapse [symmetric])
  then show ?thesis
    using assms by (auto simp: approveRefundAdmin_def bnd_def call_def lift_def check_def ret_def throw_def split: sum.splits)
qed

lemma find_mapped: "List.find P (map f xs) = map_option f (List.find (\<lambda>x. P (f x)) xs)"
  by (induction xs) auto

lemma frames_found:
  assumes "map payment_frame (pay_orders d') = map payment_frame (pay_orders d)"
    and "findPaymentOrderById tn i d = Some p"
  shows "\<exists>p'. findPaymentOrderById tn i d' = Some p' \<and> payment_frame p' = payment_frame p"
proof -
  have "map_option payment_frame (findPaymentOrderById tn i e)
      = List.find (\<lambda>(j, t, _). t = tn \<and> j = i) (map payment_frame (pay_orders e))" for e
    by (simp add: findPaymentOrderById_def find_mapped payment_frame_def)
  from this [of d] this [of d'] assms show ?thesis by (metis map_option_eq_Some option.simps(9))
qed

lemma order_frames_found:
  assumes "map order_frame (orders (shop d')) = map order_frame (orders (shop d))" and "order_by_id i d = Some b"
  shows "\<exists>b'. order_by_id i d' = Some b' \<and> order_frame b' = order_frame b"
proof -
  have "map_option order_frame (order_by_id i e) = List.find (\<lambda>(j, _). j = i) (map order_frame (orders (shop e)))" for e
    by (simp add: order_by_id_def find_mapped order_frame_def)
  from this [of d] this [of d'] assms show ?thesis by (metis map_option_eq_Some option.simps(9))
qed

section \<open>Properties\<close>


lemma demo_refund_runs:
  "\<not> isl (fst (refundPayment (demo_pay_env 1 20) ''t1'' ''u1'' ''1'' (Some 500) None (demo_till ''pending'')))"
  by code_simp


end
