(* ===== verification/PayOutflow.thy ===== *)
theory PayOutflow
  imports PayFlaws
begin

text \<open>
  Money that leaves: what a settlement run pays for a refunded booking, withdrawals from request to
  payout or rejection, the entries that act as the user \<open>system\<close>, and synchronisation
  against confirmation.
\<close>

text \<open>What a settlement run of the tenant would pay out now, as \<open>generateSettlementRun\<close> sums it.\<close>

definition due_amount :: "time_ms \<Rightarrow> id \<Rightarrow> pay_db \<Rightarrow> int" where
  "due_amount now tn d =
     sum_where (\<lambda>t. credit_due now t d) (\<lambda>t. toMinorUnits (wt_amount t)) (pending_credits tn d)"

definition settle_view :: "pay_db \<Rightarrow> wallet_txn list \<times> (id \<times> id \<times> id \<times> int) list \<times> event_row list" where
  "settle_view d = (filter (\<lambda>t. wt_type t = ''credit'') (wallet_txns d), map order_frame (orders (shop d)), events (shop d))"

lemma due_amount_view:
  assumes "settle_view d' = settle_view d" shows "due_amount now tn d' = due_amount now tn d"
proof -
  have eq: "filter (\<lambda>t. wt_type t = ''credit'') (wallet_txns d') = filter (\<lambda>t. wt_type t = ''credit'') (wallet_txns d)"
    "events (shop d') = events (shop d)" and frames: "map order_frame (orders (shop d')) = map order_frame (orders (shop d))"
    using assms by (simp_all add: settle_view_def)
  have pending: "pending_credits tn e = filter (\<lambda>t. wt_tenant t = tn \<and> wt_status t = ''pending'' \<and> wt_refType t = ''booking_order'')
      (filter (\<lambda>t. wt_type t = ''credit'') (wallet_txns e))" for e
    by (simp add: pending_credits_def conj_ac)
  have event: "map_option bo_event (order_by_id i e)
      = map_option (\<lambda>(i, t, ev, n). ev) (List.find (\<lambda>(j, _). j = i) (map order_frame (orders (shop e))))" for i e
    by (simp add: order_by_id_def find_mapped order_frame_def option.map_comp comp_def)
  have due: "credit_due now t e = (case map_option bo_event (order_by_id (wt_refId t) e) of None \<Rightarrow> False
      | Some ev \<Rightarrow> (case List.find (\<lambda>x. ev_id x = ev) (events (shop e)) of None \<Rightarrow> False | Some x \<Rightarrow> settles now x))" for t e
    by (simp add: credit_due_def event_by_id_def split: option.splits)
  show ?thesis unfolding due_amount_def pending due event eq frames ..
qed

lemma keeps_view_steps:
  fixes v defines "P \<equiv> \<lambda>d. settle_view d = v"
  shows "keeps P (exec (updatePaymentOrderStatus tn i st))" "keeps P (modify (logPaymentLifecycleEvent ev))"
    "keeps P (modify (logPaymentAudit au))" "keeps P (exec (updateOrganizerWalletBalances wi a b c))"
    "keeps P (exec (createPaymentRefund u r))"
    "(\<And>x. order_frame (f x) = order_frame x) \<Longrightarrow> keeps P (modify (set_order oi f))"
    "keeps P (on_shop (applyIssuedTicketStatusForBookingOrder be tn oi bst))"
    "keeps P (release_refunded E tn oi act)"
    "keeps P (modify (createOrganizerWalletTransaction u (wallet_line wl ''debit'' st' n cur ty rid why)))"
proof -
  show "keeps P (exec (updatePaymentOrderStatus tn i st))"
    by (rule keeps_exec) (auto simp: P_def updatePaymentOrderStatus_def settle_view_def split: if_splits)
  show "keeps P (modify (logPaymentLifecycleEvent ev))" "keeps P (modify (logPaymentAudit au))"
    by (auto intro!: keeps_modify simp: P_def logPaymentLifecycleEvent_def logPaymentAudit_def settle_view_def)
  show "keeps P (exec (updateOrganizerWalletBalances wi a b c))"
    by (rule keeps_exec) (auto simp: P_def updateOrganizerWalletBalances_def settle_view_def split: if_splits)
  show "keeps P (exec (createPaymentRefund u r))"
    by (rule keeps_exec) (auto simp: P_def createPaymentRefund_def settle_view_def Let_def split: if_splits)
  show "(\<And>x. order_frame (f x) = order_frame x) \<Longrightarrow> keeps P (modify (set_order oi f))"
    by (rule keeps_modify) (simp add: P_def set_order_def settle_view_def map_update_where)
  show "keeps P (on_shop (applyIssuedTicketStatusForBookingOrder be tn oi bst))"
    by (rule keeps_on_shop_if) (auto simp: P_def settle_view_def outside_tickets_def dest!: apply_frame)
  show "keeps P (release_refunded E tn oi act)"
    unfolding release_refunded_def
    by (rule keeps_on_shop_if) (auto simp: P_def settle_view_def outside_stock_def
        releaseReservationsForBookingOrder_def res_simps split: if_splits dest!: move_all_frame)
  show "keeps P (modify (createOrganizerWalletTransaction u (wallet_line wl ''debit'' st' n cur ty rid why)))"
    by (rule keeps_modify) (simp add: P_def createOrganizerWalletTransaction_def wallet_line_def settle_view_def)
qed

lemma keeps_view_refund:
  shows "keeps (\<lambda>d. settle_view d = v) (carry_out_refund E j p full reason audit)"
    and "keeps (\<lambda>d. settle_view d = v) (record_refund E tn act why x reply)"
proof -
  show carry: "keeps (\<lambda>d. settle_view d = v) (carry_out_refund E j p full reason audit)" for j p full reason audit
    unfolding carry_out_refund_def refund_books_def refund_wallet_def
    by (intro keeps_bnd keeps_if keeps_option keeps_quiet keeps_view_steps) simp
  show "keeps (\<lambda>d. settle_view d = v) (record_refund E tn act why x reply)"
    unfolding record_refund_def Let_def
    by (intro keeps_bnd keeps_if keeps_quiet keeps_view_steps carry)
qed

lemma run_amount:
  "generateSettlementRun E tn w = (Inr run, w') \<Longrightarrow> ru_amount run = toDecimalString (due_amount (pe_now E) tn (pw_db w))"
  by (auto simp: generateSettlementRun_def settlement_lock_def createSettlementRun_def due_amount_def run_simps Let_def)

text \<open>
  C32. A refund does not stop the settlement of what it refunded: whatever a refund does, a settlement
  run afterwards pays the organizer exactly what it would have paid before, the refunded booking
  included.
\<close>

theorem refunded_booking_is_settled:
  assumes refund: "refundPayment E tn act i amount reason w = (Inr r, w')"
    and without: "generateSettlementRun E' tn' w = (Inr before, wb)"
    and after: "generateSettlementRun E' tn' w' = (Inr run, wr)"
  shows "ru_amount run = ru_amount before"
proof -
  have "keeps (\<lambda>d. settle_view d = settle_view (pw_db w)) (refundPayment E tn act i amount reason)"
    unfolding refundPayment_def refundPaymentLocked_def
    by (intro keeps_bnd keeps_quiet keeps_txn keeps_view_refund)
      (auto simp: keeps_def dest!: readerD [OF reader_reads(1)])
  from keepsD [OF this refl refund] have "settle_view (pw_db w') = settle_view (pw_db w)" .
  then have "due_amount (pe_now E') tn' (pw_db w') = due_amount (pe_now E') tn' (pw_db w)" by (rule due_amount_view)
  then show ?thesis using run_amount [OF without] run_amount [OF after] by simp
qed

lemma withdrawal_status_Inr:
  "updateWithdrawalRequestStatus now tn i st who d = Inr (u, d') \<Longrightarrow>
    withdrawals d' = update_where (\<lambda>x. wd_tenant x = tn \<and> wd_id x = i)
      (\<lambda>x. x\<lparr>wd_status := st, wd_processedAt := Some now, wd_processedBy := (if truthy who then who else wd_processedBy x)\<rparr>)
      (withdrawals d)"
  by (auto simp: updateWithdrawalRequestStatus_def Let_def split: option.splits)

text \<open>
  C33. A withdrawal that is approved and then completed is paid out twice: both steps ask the payout
  provider for the full amount of the request.
\<close>

theorem approved_withdrawal_is_paid_twice:
  assumes approve: "processWithdrawal E tn i W_approved act w = (Inr u, w1)"
    and complete: "processWithdrawal E' tn i W_completed act' w1 = (Inr r, w2)"
  shows "pw_calls w2 = pw_calls w @ [Call_payout i (toMinorUnits (wd_amount r)), Call_payout i (toMinorUnits (wd_amount r))]"
proof -
  from approve obtain q payout where q: "find_withdrawal tn i (pw_db w) = Some q"
    and calls: "pw_calls w1 = pw_calls w @ [Call_payout (wd_id q) (toMinorUnits (wd_amount q))]"
    and rows: "withdrawals (pw_db w1) = update_where (\<lambda>x. wd_id x = i) (\<lambda>x. x\<lparr>wd_payoutId := Some payout, wd_gatewayStatus := Some ''processing''\<rparr>)
      (update_where (\<lambda>x. wd_tenant x = tn \<and> wd_id x = i)
      (\<lambda>x. x\<lparr>wd_status := ''processing'', wd_processedAt := Some (pe_now E),
         wd_processedBy := (if truthy (Some act) then Some act else wd_processedBy x)\<rparr>) (withdrawals (pw_db w)))"
    by (auto simp: processWithdrawal_def createPayout_def run_simps set_withdrawal_def mark_withdrawal_lines_def
        dest!: withdrawal_status_Inr)
  from complete have r: "find_withdrawal tn i (pw_db w1) = Some r"
    and calls2: "pw_calls w2 = pw_calls w1 @ [Call_payout (wd_id r) (toMinorUnits (wd_amount r))]"
    by (auto simp: processWithdrawal_def createPayout_def run_simps)
  have "wd_amount r = wd_amount q \<and> wd_id q = i \<and> wd_id r = i"
    using q r by (auto simp: find_withdrawal_def rows find_update_where dest: find_SomeD)
  with calls calls2 show ?thesis by simp
qed


text \<open>
  The callback of a completed payout never takes effect: it books under the user \<open>system\<close>,
  which no \<open>uuid\<close> column takes, so whatever the state, it changes no table and the withdrawal
  stays in processing.
\<close>

theorem payout_callback_has_no_effect:
  assumes "\<not> pe_isUuid E ''system''" and "handleWithdrawalCallback E payout None w = (r, w')"
  shows "pw_db w' = pw_db w \<and> (\<forall>q. r = Inr q \<longrightarrow> wd_status q \<noteq> ''processing'' \<and> q \<in> set (withdrawals (pw_db w)))"
  using assms
  by (auto simp: handleWithdrawalCallback_def bnd_def need_def ask_def lift_def optR_def check_def ret_def throw_def txn_def
      split: option.splits if_splits prod.splits sum.splits dest!: find_SomeD)

lemma settle_credits_returns: "\<exists>x w'. settle_credits E tn k ts w = (Inr x, w')"
proof (induction ts arbitrary: k w)
  case (Cons t ts)
  let ?m = "bnd (ask (\<lambda>d. (credit_problem t d, credit_due (pe_now E) t d, order_by_id (wt_refId t) d)))
            (\<lambda>(prob, due, b). case prob of
               Some m \<Rightarrow> ret (0, [(wt_id t, m)])
             | None \<Rightarrow> if due then
                 handle (bnd (settle_credit E tn (pe_post E k) t (the b)) (\<lambda>n. ret (n, [])))
                        (\<lambda>e. ret (0, [(wt_id t, error_message e)]))
               else ret (0, []))"
  have "\<exists>x w1. ?m w = (Inr x, w1)"
    by (auto simp: bnd_def ask_def ret_def handle_def split: option.splits prod.splits sum.splits)
  then obtain n ps w1 where "?m w = (Inr (n, ps), w1)" by (metis prod.exhaust)
  with Cons.IH [of "Suc k" w1] show ?case by (auto simp: bnd_def ret_def)
qed (simp add: ret_def)

lemma settle_credits_runs: "keeps (\<lambda>d. runs d = R) (settle_credits E tn k ts)"
proof (induction ts arbitrary: k)
  case (Cons t ts)
  have one: "keeps (\<lambda>d. runs d = R) (settle_credit E tn P t b)" for P b
    unfolding settle_credit_def Let_def
    by (intro keeps_txn keeps_bnd keeps_quiet keeps_exec keeps_modify)
      (auto simp: updateOrganizerWalletBalances_def split: if_splits)
  show ?case unfolding settle_credits.simps
    by (intro keeps_bnd keeps_prod keeps_option keeps_if keeps_handle keeps_quiet one Cons)
qed (simp add: keeps_quiet)

text \<open>
  An automatic settlement pays out and then fails: the run is approved by the user
  \<open>system\<close>, which no \<open>uuid\<close> column takes. The operation throws after the due credits were
  settled, and the run it leaves in processing can neither be approved again nor rejected.
\<close>

theorem automatic_settlement_strands_run:
  assumes "\<not> pe_isUuid E ''system''" and "pe_lock E (''settlement:lock:'' @ tn)"
    and fresh: "\<forall>x \<in> set (runs (pw_db w)). ru_id x \<noteq> pe_uuid E (pay_next (pw_db w))"
    and run: "processSettlements E tn w = (r, w')"
  shows "r = Inl (bad_uuid ''system'')
    \<and> isl (fst (approveSettlementRun E' tn (pe_uuid E (pay_next (pw_db w))) who w'))
    \<and> isl (fst (rejectSettlementRun E' tn (pe_uuid E (pay_next (pw_db w))) who w'))"
proof -
  let ?i = "pe_uuid E (pay_next (pw_db w))"
  obtain g w1 where gen: "generateSettlementRun E tn w = (Inr g, w1)"
    and g: "ru_id g = ?i" "ru_tenant g = tn" "ru_status g = ''pending_approval''"
    and rows: "runs (pw_db w1) = runs (pw_db w) @ [g]"
    using assms(2) by (auto simp: generateSettlementRun_def settlement_lock_def createSettlementRun_def bnd_def check_def
        ret_def ask_def exec_def Let_def)
  have none: "List.find (\<lambda>x. ru_id x = ?i \<and> ru_tenant x = tn) (runs (pw_db w)) = None"
    using fresh by (auto simp: find_None_iff)
  then have found: "find_run tn ?i (pw_db w1) = Some g" by (simp add: find_run_def rows find_append g)
  let ?w2 = "w1\<lparr>pw_db := set_run ?i (\<lambda>x. x\<lparr>ru_status := ''processing''\<rparr>) (pw_db w1)\<rparr>"
  obtain x w3 where credits: "settle_credits E tn 0 (pending_credits tn (pw_db ?w2)) ?w2 = (Inr x, w3)"
    using settle_credits_returns by blast
  have r: "r = Inl (bad_uuid ''system'') \<and> w' = w3"
    using run gen found g credits assms(1,2)
    by (auto simp: processSettlements_def approveSettlementRun_def settlement_lock_def bnd_def need_def ask_def lift_def
        optR_def check_def ret_def throw_def modify_def split: prod.splits)
  have "runs (pw_db w3) = runs (pw_db ?w2)"
    by (rule keepsD [OF settle_credits_runs _ credits]) simp
  then have "find_run tn ?i (pw_db w3) = Some (g\<lparr>ru_status := ''processing''\<rparr>)"
    using none by (simp add: find_run_def set_run_def rows find_update_where find_append g)
  with r show ?thesis
    by (auto simp: approveSettlementRun_def rejectSettlementRun_def settlement_lock_def bnd_def need_def ask_def lift_def
        optR_def check_def ret_def throw_def)
qed

text \<open>
  A payment that synchronisation saw as authorized is lost: its transaction row stops the
  confirmation that follows its capture, for every later confirmation runs into the unique index on
  the gateway's payment id.
\<close>

theorem authorized_payment_is_lost:
  assumes sync: "syncPaymentState E tn i (Inr st) (Inr items) w = (Inr out, w1)" "st \<noteq> ''paid''"
    and p: "findPaymentOrderById tn i (pw_db w) = Some p"
    and g: "List.find (\<lambda>g. gp_status g = ''authorized'') (filter (\<lambda>g. gp_orderId g = Some (po_razorpayId p)) items) = Some g"
    and new: "\<forall>x \<in> set (pay_txns (pw_db w)). pt_razorpayId x \<noteq> gp_id g"
    and mine: "\<forall>q \<in> set (pay_orders (pw_db w)). po_razorpayId q = po_razorpayId p \<longrightarrow> po_tenant q = tn"
    and ci: "cf_razorpayOrderId ci = po_razorpayId p" "cf_razorpayPaymentId ci = gp_id g"
  shows "isl (fst (confirmPaymentAndOrder E' ci w1))"
proof (rule ccontr)
  assume "\<not> ?thesis"
  then obtain w2 where run: "confirmPaymentAndOrder E' ci w1 = (Inr (), w2)"
    by (cases "confirmPaymentAndOrder E' ci w1"; cases "fst (confirmPaymentAndOrder E' ci w1)") auto
  have ptn: "po_tenant p = tn" using p by (auto simp: findPaymentOrderById_def dest: find_SomeD)
  from sync p g obtain x d where x: "createPaymentTransaction (pe_uuid E) (captured_txn p (gp_id g) ''authorized'') d = Inr (x, pw_db w1)"
    and d: "d = (pw_db w)\<lparr>pay_orders := update_where (\<lambda>y. po_id y = i) (\<lambda>y. y\<lparr>po_status := P_authorized\<rparr>) (pay_orders (pw_db w))\<rparr>"
    by (auto simp: syncPaymentState_def run_simps Let_def)
  from x have w1: "pw_db w1 = d\<lparr>pay_txns := pay_txns d @ [x], pay_next := Suc (pay_next d)\<rparr>"
    and row: "pt_tenant x = tn" "pt_razorpayId x = gp_id g" "pt_status x = ''authorized''"
    by (auto simp: createPaymentTransaction_def Let_def captured_txn_def ptn split: if_splits)
  have txns: "pay_txns (pw_db w1) = pay_txns (pw_db w) @ [x]" and pays: "pay_orders (pw_db w1) = pay_orders d"
    by (simp_all add: w1 d)
  from run obtain q where q: "findPaymentOrderByRazorpayOrderId (cf_razorpayOrderId ci) (pw_db w1) = Some q"
    and outcome: "(map_option pt_status (findPaymentTransactionByRazorpayPaymentId (cf_razorpayPaymentId ci) (pw_db w1))
        = Some ''captured'' \<and> w2 = w1)
      \<or> adds_payment q (cf_razorpayPaymentId ci) (pay_txns (pw_db w1)) (cf_razorpayOrderId ci) (pw_db w2)"
    by (rule confirm_success)
  have "List.find (\<lambda>y. pt_razorpayId y = gp_id g) (pay_txns (pw_db w)) = None"
    using new by (auto simp: find_None_iff)
  then have "findPaymentTransactionByRazorpayPaymentId (cf_razorpayPaymentId ci) (pw_db w1) = Some x"
    by (simp add: findPaymentTransactionByRazorpayPaymentId_def txns find_append ci row)
  moreover have "po_tenant q = tn"
    using q mine by (auto simp: findPaymentOrderByRazorpayOrderId_def pays d ci update_where_def split: if_splits dest!: find_SomeD)
  ultimately show False using outcome row by (auto simp: adds_payment_def txns ci)
qed

section \<open>Samples\<close>

definition demo_ended :: pay_env where
  "demo_ended = demo_pay_env 9 (2000 + settlementDelayMs)"

lemma generate_returns:
  "pe_lock E (''settlement:lock:'' @ tn) \<Longrightarrow> \<exists>run w'. generateSettlementRun E tn w = (Inr run, w')"
  by (auto simp: generateSettlementRun_def settlement_lock_def bnd_def check_def ret_def ask_def exec_def Let_def
      split: prod.splits)

lemma demo_locks [simp]: "pe_lock (demo_pay_env k t) s" "pe_lock demo_ended s" "\<not> pe_isUuid (demo_pay_env k t) ''system''"
  "\<not> pe_isUuid demo_ended ''system''"
  by (simp_all add: demo_pay_env_def demo_ended_def)

theorem refunded_booking_is_settled_witness:
  "\<exists>r w' run wr. refundPayment (demo_pay_env 1 20) ''t1'' ''u1'' ''1'' (Some 500) None (demo_till ''pending'') = (Inr r, w')
    \<and> generateSettlementRun demo_ended ''t1'' w' = (Inr run, wr) \<and> ru_amount run = 93200"
proof -
  let ?run = "refundPayment (demo_pay_env 1 20) ''t1'' ''u1'' ''1'' (Some 500) None (demo_till ''pending'')"
  from demo_refund_runs obtain r w' where run: "?run = (Inr r, w')" by (cases ?run; cases "fst ?run") auto
  obtain x wx where before: "generateSettlementRun demo_ended ''t1'' (demo_till ''pending'') = (Inr x, wx)"
    using generate_returns by force
  obtain y wy where after: "generateSettlementRun demo_ended ''t1'' w' = (Inr y, wy)" using generate_returns by force
  have "due_amount (pe_now demo_ended) ''t1'' (pw_db (demo_till ''pending'')) = 93200"
    by (simp add: due_amount_def pending_credits_def credit_due_def order_by_id_def event_by_id_def settles_def
        demo_till_def empty_pay_def demo_credit_def demo_order_def demo_event_def demo_ended_def demo_pay_env_def
        demo_booking_env_def pe_now_def minor_exact)
  then have "ru_amount x = 93200" using run_amount [OF before] by (simp add: decimal_exact)
  with before refunded_booking_is_settled [OF run before after] run after show ?thesis by auto
qed

text \<open>An organizer with 500.00 available who withdraws 200.00, and a ledger that holds the funds.\<close>

definition demo_request :: "withdrawal res \<times> pay_world" where
  "demo_request = requestWithdrawal (demo_pay_env 0 7) ''t1'' ''org1'' (parse_dec 20000) (demo_till ''pending'')"

definition demo_funds :: ledger_world where
  "demo_funds = \<lparr>committed = empty_ledger\<lparr>accounts := [demo_account ''0'' (organizerType True) ''Organizer Available: org1''],
     balances := [\<lparr>br_tenant = ''t1'', br_account = ''0'', br_balance = 50000, br_debit = 0, br_credit = 50000\<rparr>],
     next_id := 1\<rparr>, outer = []\<rparr>"

definition demo_approved :: "withdrawal res \<times> pay_world" where
  "demo_approved = processWithdrawal (demo_pay_env 0 30) ''t1'' ''4'' W_approved ''a1''
     ((snd demo_request)\<lparr>pw_ledger := demo_funds\<rparr>)"

lemma demo_payouts:
  "case demo_approved of (r, w) \<Rightarrow> \<not> isl r \<and> pw_calls w = [Call_payout ''4'' 20000]
    \<and> \<not> isl (fst (processWithdrawal (demo_pay_env 0 40) ''t1'' ''4'' W_completed ''a1'' w))"
  by code_simp

lemma demo_rejected:
  "case demo_request of (r, w) \<Rightarrow> (case r of Inl e \<Rightarrow> False | Inr x \<Rightarrow> wd_id x = ''4''
      \<and> \<not> isl (fst (processWithdrawal (demo_pay_env 0 40) ''t1'' (wd_id x) W_rejected ''a1'' w)))"
  by code_simp

lemma run_result: "\<not> isl (fst p) \<Longrightarrow> \<exists>x w. p = (Inr x, w)"
  by (cases p; cases "fst p") auto

theorem approved_withdrawal_is_paid_twice_witness:
  "\<exists>r w2. processWithdrawal (demo_pay_env 0 40) ''t1'' ''4'' W_completed ''a1'' (snd demo_approved) = (Inr r, w2)
    \<and> (\<exists>n. pw_calls w2 = [Call_payout ''4'' n, Call_payout ''4'' n])"
proof -
  obtain x w1 where pair: "demo_approved = (x, w1)" by force
  from demo_payouts [unfolded pair prod.case] have two: "\<not> isl (fst (processWithdrawal (demo_pay_env 0 40) ''t1'' ''4'' W_completed ''a1'' w1))"
    and "\<not> isl x" by auto
  with pair obtain u where one: "demo_approved = (Inr u, w1)" by (cases x) auto
  from run_result [OF two] obtain r w2 where two: "processWithdrawal (demo_pay_env 0 40) ''t1'' ''4'' W_completed ''a1'' w1 = (Inr r, w2)"
    by blast
  have "pw_calls ((snd demo_request)\<lparr>pw_ledger := demo_funds\<rparr>) = []" by code_simp
  with approved_withdrawal_is_paid_twice [OF one [unfolded demo_approved_def] two]
  have "\<exists>n. pw_calls w2 = [Call_payout ''4'' n, Call_payout ''4'' n]" by auto
  moreover have "snd demo_approved = w1" by (simp only: one snd_conv)
  ultimately show ?thesis using two by (metis)
qed


theorem payout_callback_has_no_effect_witness:
  "pw_db (snd (handleWithdrawalCallback (demo_pay_env 0 50) ''pout_30'' None (snd demo_approved))) = pw_db (snd demo_approved)"
  using payout_callback_has_no_effect [of "demo_pay_env 0 50" "''pout_30''" "snd demo_approved"]
  by (cases "handleWithdrawalCallback (demo_pay_env 0 50) ''pout_30'' None (snd demo_approved)") simp

theorem automatic_settlement_strands_run_witness:
  "\<exists>w'. processSettlements demo_ended ''t1'' (demo_till ''pending'') = (Inl (bad_uuid ''system''), w')
    \<and> isl (fst (approveSettlementRun (demo_pay_env 0 1) ''t1'' ''4'' ''a1'' w'))"
proof -
  obtain r w' where run: "processSettlements demo_ended ''t1'' (demo_till ''pending'') = (r, w')" by force
  have i: "pe_uuid demo_ended (pay_next (pw_db (demo_till ''pending''))) = ''4''" by code_simp
  have "\<forall>x \<in> set (runs (pw_db (demo_till ''pending''))). ru_id x \<noteq> pe_uuid demo_ended (pay_next (pw_db (demo_till ''pending'')))"
    by (simp add: demo_till_def empty_pay_def)
  from automatic_settlement_strands_run [OF _ _ this run, of "demo_pay_env 0 1" "''a1''"] run show ?thesis by (simp add: i)
qed

definition demo_seen :: gateway_payment where
  "demo_seen = \<lparr>gp_id = ''pay_1'', gp_orderId = Some ''order_o1'', gp_status = ''authorized'', gp_noteIds = Some ''rv1'',
     gp_noteIdsPlural = None, gp_noteTokens = Some ''tok'', gp_noteTokensPlural = None\<rparr>"

lemma demo_sync:
  "case demo_checkout of (r, w) \<Rightarrow> pay_orders (pw_db w) = [demo_pay_order P_pending] \<and> pay_txns (pw_db w) = []
    \<and> \<not> isl (fst (syncPaymentState (demo_pay_env 0 8) ''t1'' ''0'' (Inr ''attempted'') (Inr [demo_seen]) w))"
  by code_simp

theorem authorized_payment_is_lost_witness:
  "\<exists>out w1. syncPaymentState (demo_pay_env 0 8) ''t1'' ''0'' (Inr ''attempted'') (Inr [demo_seen]) (snd demo_checkout) = (Inr out, w1)
    \<and> isl (fst (confirmPaymentAndOrder (demo_pay_env 0 9) demo_confirm w1))"
proof -
  let ?w = "snd demo_checkout"
  have rows: "pay_orders (pw_db ?w) = [demo_pay_order P_pending]" "pay_txns (pw_db ?w) = []"
    and ok: "\<not> isl (fst (syncPaymentState (demo_pay_env 0 8) ''t1'' ''0'' (Inr ''attempted'') (Inr [demo_seen]) ?w))"
    using demo_sync unfolding split_beta by simp_all
  from run_result [OF ok] obtain out w1 where
    sync: "syncPaymentState (demo_pay_env 0 8) ''t1'' ''0'' (Inr ''attempted'') (Inr [demo_seen]) ?w = (Inr out, w1)" by blast
  have "findPaymentOrderById ''t1'' ''0'' (pw_db ?w) = Some (demo_pay_order P_pending)"
    by (simp add: findPaymentOrderById_def rows demo_pay_order_def)
  from authorized_payment_is_lost [OF sync _ this, of demo_seen demo_confirm "demo_pay_env 0 9"] sync show ?thesis
    by (simp add: rows demo_seen_def demo_pay_order_def demo_confirm_def)
qed

end
