(* ===== verification/Spec2Isabelle.thy ===== *)
theory Spec2Isabelle
  imports AuthFlow GroupProps LateOrder OpsProps OrderRules PayOutflow
begin

text \<open>
  Event-Booking-backend: a multi-tenant booking server. A request passes the tenant and role
  middlewares, its body is parsed, a service function checks permissions and changes rows of a
  PostgreSQL database inside a transaction. This development models the services that decide over
  money, places and admission, and proves what they promise and where they stop short of it.

  \<^bold>\<open>How the code is read.\<close> A table is a list of records in insertion order, a transaction is a function
  from the database to \<open>js_error + (result \<times> database)\<close>, so a thrown error leaves the database as it
  was. What comes from outside (ids, random text, HMAC, SHA-256, the clock, the text form of \<open>int8\<close>
  sums, database faults, answers of Redis and QStash) is a parameter, collected in the records
  \<open>post_env\<close>, \<open>booking_env\<close> and \<open>auth_env\<close>. Instants are milliseconds; decimals with two places are integers of
  cents; JavaScript numbers in the running balances are IEEE doubles with rounding written out.

  \<^bold>\<open>Theories, in the order of the program.\<close>
  \<^item> \<open>Prelude\<close>: results (\<open>bindR\<close>, \<open>forR\<close>, \<open>mapR\<close>), lists as tables, the locale \<open>bounded_retry\<close>.
  \<^item> \<open>Errors\<close> (\<open>lib/errors.ts\<close>), \<open>JsNumber\<close> (doubles, \<open>toFixed\<close>), \<open>JsString\<close> (text, case, JSON).
  \<^item> \<open>LedgerTypes\<close>, \<open>LedgerStore\<close>, \<open>LedgerEngine\<close> (\<open>modules/finance\<close>): account registry, journal
    templates, tables and repository, posting engine, builder, rules.
  \<^item> \<open>LedgerBooks\<close>, \<open>LedgerWorld\<close>: the books a posting leaves, as an invariant of every reachable
    world (postings, faults, retries, commit and rollback of a surrounding transaction).
  \<^item> \<open>LedgerAudit\<close> (\<open>ledger/audit.service.ts\<close>): the hash chain and its audit.
  \<^item> \<open>Access\<close>: roles, permissions, policies, tenant context. \<open>Lifecycles\<close>: the status tables of
    orders, tickets, reservations and payments, as interpretations of one locale \<open>lifecycle\<close>.
  \<^item> \<open>BookingStore\<close>: the booking tables. \<open>Inventory\<close>, \<open>InventoryProps\<close>: the inventory service.
  \<^item> \<open>IssuedTickets\<close>, \<open>TicketProps\<close>: issuing, gate, changes of tickets; counters as interpretations
    of the locale \<open>sequence_counter\<close>.
  \<^item> \<open>LibCore\<close>: slugs, pagination, transaction retry. \<open>Listing\<close>: listings with filter, order and page.
  \<^item> \<open>Attendees\<close>: the attendee service. \<open>BookingOrders\<close>: the order service. \<open>StockFlow\<close>: which tables
    each call of inventory and ticketing leaves alone. \<open>BookingProps\<close> (creation, money), \<open>OrderFlow\<close>
    (changes of status, attendance), \<open>OrderRules\<close> (numbers, assignments, listings), \<open>LateOrder\<close> (a
    run in which a late confirmation oversells).

  \<^item> \<open>FinanceTax\<close> (\<open>finance/tax/service.ts\<close>): fees and taxes in basis points, the statutory report.
  \<^item> \<open>PayStore\<close>: the payment tables, the repository and the steps of an operation: a run takes the
    tables, the ledger and the calls made to the gateway, \<open>txn\<close> is a transaction that restores the tables
    when it throws (what a posting committed and what the gateway was asked stay). \<open>PayConfirm\<close>
    (checkout, confirmation in time and late, failure, synchronisation), \<open>PayRefund\<close> (refunds,
    requests, approval, event cancellation), \<open>PaySettle\<close> (settlement runs, withdrawals, integrity check)
    model \<open>modules/payments/service.ts\<close> operation by operation.
  \<^item> \<open>PayMoney\<close> states the money invariant, \<open>PayKeeps\<close> and \<open>PaySafe\<close> a calculus of runs that keep
    a property of the tables, \<open>PayReach\<close> that every operation of the service keeps the invariant, for any
    sequence of operations (\<open>pay_step\<close>, \<open>pay_reach\<close>). \<open>PayProps\<close> has the properties of confirmation and
    refund, \<open>PayFlaws\<close> and \<open>PayOutflow\<close> those of approval, settlement and withdrawal.

  \<^item> \<open>Steps\<close>: operations as sequences of steps on a state of any type, with transactions that restore
    their tables (\<open>atomic\<close>), what every run keeps (\<open>holds\<close>) and what is true when a run returns (\<open>wlp\<close>).
  \<^item> \<open>GroupBookings\<close> (\<open>modules/group-bookings\<close>): several people pay for one order. \<open>GroupRules\<close> states the
    books of the groups, \<open>GroupKeeps\<close> and \<open>GroupMoney\<close> that every operation keeps them, \<open>GroupReach\<close>
    what follows for any sequence of calls, \<open>GroupFlow\<close> how a group is completed; \<open>GroupProps\<close> has the
    completion by payment in any order and the runs in which a group is stranded.

  \<^item> \<open>Jwt\<close> (\<open>lib/jwt.ts\<close>): base64url, signing and reading tokens. \<open>RateLimit\<close> (\<open>lib/rate-limiter.ts\<close>):
    the sliding window in Redis, and the reference it is equal to.
  \<^item> \<open>AuthStore\<close> (tables and repositories), \<open>AuthCodes\<close> (\<open>lib/twilio.ts\<close>, hourly limits, mails, marketing
    hooks), \<open>AuthService\<close> (\<open>modules/auth/service.ts\<close> and the middleware), \<open>AuthVerification\<close>
    (\<open>otp.service.ts\<close>, \<open>email-verification.service.ts\<close>): signing up with a code, signing in, sessions and
    their tokens, verification of phones and mails. The state is \<open>auth_world\<close>, every random value a draw.
  \<^item> \<open>AuthRules\<close> states what the calls keep (ids never drawn twice, attempts, requests in a quarter of
    an hour), \<open>AuthKeeps\<close> and \<open>AuthReach\<close> that every call keeps it; \<open>AuthProps\<close> has the limits and the
    round trip of tokens, \<open>AuthFlow\<close> what holds of a sign-in and a logout over time, and the runs in
    which a signup or a verification mail is lost.

  \<^item> \<open>FinOps\<close> (\<open>finance/operations/service.ts\<close>): operations on the ledger under an idempotency key, with
    their journal. \<open>Disputes\<close>: disputes, promotions and changes of a booking (the end of
    \<open>modules/payments/service.ts\<close>), which rest on them. \<open>OpsRules\<close> shows what a posting and a new operation
    do to the ledger and the journal, \<open>OpsReach\<close> that every call keeps journal and ledger in step
    (\<open>desk_call\<close>, \<open>desk_reach\<close>); \<open>OpsProps\<close> has the properties, and the runs in which a dispute is won and
    lost, released without a hold, or an upgrade counted twice.

  \<^bold>\<open>Bounds.\<close> Posting is tried at most \<open>maxPostingAttempts = 6\<close> times and transactions three times, as in
  the code; both loops are total functions with a measure. Exactness of the floating-point balances
  is proved below \<open>2 ^ 48\<close> cents, where a double still separates neighbouring cents after rounding.
  The search for a free username of a phone user has no bound in the code; here a request outlives
  \<open>ae_patience\<close> draws and fails after them, and every statement holds for any such number.

  \<^bold>\<open>Not modelled.\<close> HTTP parsing and rendering, real concurrency (calls are taken one after another;
  the code locks rows in the ledger, the inventory and the payments, but its counts of requests for
  codes are read and written without a lock), sleeping, logging, metrics, domain events, the text of
  e-mails and the marketing list. Answers of the payment gateway, of Twilio and of Redis are
  parameters. The reporting of the finance module and the catalogue, media, marketing and social
  modules are listed in the manifest with their reasons.
\<close>

end
